(* ===== verification/Hermes_Prelude.thy ===== *)
theory Hermes_Prelude
  imports Main "HOL-Library.Word"
begin

text \<open>
  The vocabulary shared by every component of the Hermes control plane: fallible actions
  on an explicit state (the shape of an \<open>async fn\<close> returning \<open>Result<_, _>\<close>), database
  tables as lists of rows with the SQL statements the handlers use, the machine integers
  of Rust and Postgres, and the few functions of Rust's \<open>str\<close>, \<open>Uuid\<close> and \<open>format!\<close> that
  the code relies on.
\<close>

named_theorems act_simps \<open>unfolding of actions\<close>
named_theorems table_simps \<open>facts about tables and SQL statements\<close>
named_theorems keeps_intros \<open>an action keeps a state predicate\<close>
named_theorems answer_intros \<open>an action always returns a value\<close>

section \<open>Fallible actions on a state\<close>

text \<open>
  An action takes the state and returns an error (\<open>Inl\<close>) or a value (\<open>Inr\<close>) together with
  the new state. The state survives an error: what a handler wrote before its early return
  stays written, unless it ran inside a transaction.
\<close>

type_synonym ('w, 'e, 'a) act = "'w \<Rightarrow> ('e + 'a) \<times> 'w"

definition ret :: "'a \<Rightarrow> ('w, 'e, 'a) act" where
  "ret x w = (Inr x, w)"

definition raise :: "'e \<Rightarrow> ('w, 'e, 'a) act" where
  "raise e w = (Inl e, w)"

text \<open>Sequencing with the \<open>?\<close> operator: an error ends the action.\<close>

definition andThen :: "('w, 'e, 'a) act \<Rightarrow> ('a \<Rightarrow> ('w, 'e, 'b) act) \<Rightarrow> ('w, 'e, 'b) act" where
  "andThen m f w = (case m w of (Inl e, w') \<Rightarrow> (Inl e, w') | (Inr x, w') \<Rightarrow> f x w')"

text \<open>\<open>map_err\<close>.\<close>

definition mapErr :: "('e \<Rightarrow> 'f) \<Rightarrow> ('w, 'e, 'a) act \<Rightarrow> ('w, 'f, 'a) act" where
  "mapErr g m w = (case m w of (Inl e, w') \<Rightarrow> (Inl (g e), w') | (Inr x, w') \<Rightarrow> (Inr x, w'))"

text \<open>The result of an awaited call kept as a value (\<open>match q.await\<close>, \<open>if let Ok(..) = q.await\<close>).\<close>

definition attempt :: "('w, 'e, 'a) act \<Rightarrow> ('w, 'f, 'e + 'a) act" where
  "attempt m w = (case m w of (r, w') \<Rightarrow> (Inr r, w'))"

text \<open>\<open>let _ = q.await\<close>: the effect happens, the result is dropped.\<close>

definition discard :: "('w, 'e, 'a) act \<Rightarrow> ('w, 'f, unit) act" where
  "discard m w = (case m w of (r, w') \<Rightarrow> (Inr (), w'))"

text \<open>\<open>.await.unwrap_or(d)\<close> and \<open>.await.unwrap_or_default()\<close>.\<close>

definition orElse :: "('w, 'e, 'a) act \<Rightarrow> 'a \<Rightarrow> ('w, 'f, 'a) act" where
  "orElse m d w = (case m w of (Inl e, w') \<Rightarrow> (Inr d, w') | (Inr x, w') \<Rightarrow> (Inr x, w'))"

definition onlyIf :: "bool \<Rightarrow> ('w, 'e, unit) act \<Rightarrow> ('w, 'e, unit) act" where
  "onlyIf b m = (if b then m else ret ())"

text \<open>An early return \<open>if b { return Err(e) }\<close>.\<close>

definition rejectIf :: "bool \<Rightarrow> 'e \<Rightarrow> ('w, 'e, unit) act" where
  "rejectIf b e = (if b then raise e else ret ())"

text \<open>\<open>unwrap_or\<close>.\<close>

definition default_to :: "'a \<Rightarrow> 'a option \<Rightarrow> 'a" where
  "default_to d x = (case x of None \<Rightarrow> d | Some v \<Rightarrow> v)"

text \<open>\<open>ok_or_else\<close> on an optional row.\<close>

definition okOr :: "'e \<Rightarrow> 'a option \<Rightarrow> ('w, 'e, 'a) act" where
  "okOr e x = (case x of None \<Rightarrow> raise e | Some v \<Rightarrow> ret v)"

text \<open>\<open>for x in xs { .. }\<close>, leaving the loop at the first error.\<close>

primrec forEach :: "'x list \<Rightarrow> ('x \<Rightarrow> ('w, 'e, unit) act) \<Rightarrow> ('w, 'e, unit) act" where
  "forEach [] f = ret ()"
| "forEach (x # xs) f = andThen (f x) (\<lambda>_. forEach xs f)"

text \<open>A loop that carries an accumulator.\<close>

primrec foldEach :: "'x list \<Rightarrow> ('x \<Rightarrow> 'a \<Rightarrow> ('w, 'e, 'a) act) \<Rightarrow> 'a \<Rightarrow> ('w, 'e, 'a) act" where
  "foldEach [] f a = ret a"
| "foldEach (x # xs) f a = andThen (f x a) (\<lambda>b. foldEach xs f b)"

definition readState :: "('w \<Rightarrow> 'a) \<Rightarrow> ('w, 'e, 'a) act" where
  "readState g w = (Inr (g w), w)"

definition modifyState :: "('w \<Rightarrow> 'w) \<Rightarrow> ('w, 'e, unit) act" where
  "modifyState g w = (Inr (), g w)"

lemmas act_defs = ret_def raise_def andThen_def mapErr_def attempt_def discard_def orElse_def
  onlyIf_def rejectIf_def okOr_def readState_def modifyState_def

declare act_defs [act_simps]

lemma forEach_append:
  "forEach (xs @ ys) f = andThen (forEach xs f) (\<lambda>_. forEach ys f)"
  by (induction xs) (auto simp: act_defs fun_eq_iff split: prod.splits sum.splits)

subsection \<open>Actions that keep a predicate of the state\<close>

text \<open>
  Whatever the outcome, the state after the action satisfies the predicate again. The
  rules decompose an action along its structure, so that a handler of many statements is
  reduced to its individual statements.
\<close>

definition keeps :: "('w \<Rightarrow> bool) \<Rightarrow> ('w, 'e, 'a) act \<Rightarrow> bool" where
  "keeps P m \<longleftrightarrow> (\<forall>w. P w \<longrightarrow> P (snd (m w)))"

lemma keepsI [intro?]: "(\<And>w. P w \<Longrightarrow> P (snd (m w))) \<Longrightarrow> keeps P m"
  by (simp add: keeps_def)

lemma keepsD: "keeps P m \<Longrightarrow> P w \<Longrightarrow> P (snd (m w))"
  by (simp add: keeps_def)

lemma keeps_step: "keeps P m \<Longrightarrow> P w \<Longrightarrow> m w = (r, w') \<Longrightarrow> P w'"
  by (auto simp: keeps_def dest: spec [of _ w])

lemma keeps_ret [keeps_intros]: "keeps P (ret x)"
  by (simp add: keeps_def ret_def)

lemma keeps_raise [keeps_intros]: "keeps P (raise e)"
  by (simp add: keeps_def raise_def)

lemma keeps_andThen [keeps_intros]:
  "keeps P m \<Longrightarrow> (\<And>x. keeps P (f x)) \<Longrightarrow> keeps P (andThen m f)"
  by (fastforce simp: keeps_def andThen_def split: prod.splits sum.splits)

text \<open>The same when what follows may rely on a fact about the value.\<close>

lemma keeps_andThen_post:
  assumes "keeps P m" "\<And>w x w'. P w \<Longrightarrow> m w = (Inr x, w') \<Longrightarrow> Q x" "\<And>x. Q x \<Longrightarrow> keeps P (f x)"
  shows "keeps P (andThen m f)"
proof (rule keepsI)
  fix w assume P: "P w"
  obtain r w' where m: "m w = (r, w')" by fastforce
  have "P w'" by (rule keeps_step [OF assms(1) P m])
  show "P (snd (andThen m f w))"
  proof (cases r)
    case (Inl e)
    with m \<open>P w'\<close> show ?thesis by (simp add: andThen_def)
  next
    case (Inr x)
    have "keeps P (f x)" using assms(3) [OF assms(2) [OF P]] m Inr by simp
    from keepsD [OF this \<open>P w'\<close>] show ?thesis using m Inr by (simp add: andThen_def)
  qed
qed

lemma keeps_mapErr [keeps_intros]: "keeps P m \<Longrightarrow> keeps P (mapErr g m)"
  by (fastforce simp: keeps_def mapErr_def split: prod.splits sum.splits)

lemma keeps_attempt [keeps_intros]: "keeps P m \<Longrightarrow> keeps P (attempt m)"
  by (fastforce simp: keeps_def attempt_def split: prod.splits)

lemma keeps_discard [keeps_intros]: "keeps P m \<Longrightarrow> keeps P (discard m)"
  by (fastforce simp: keeps_def discard_def split: prod.splits)

lemma keeps_orElse [keeps_intros]: "keeps P m \<Longrightarrow> keeps P (orElse m d)"
  by (fastforce simp: keeps_def orElse_def split: prod.splits sum.splits)

lemma keeps_onlyIf [keeps_intros]: "(b \<Longrightarrow> keeps P m) \<Longrightarrow> keeps P (onlyIf b m)"
  by (simp add: onlyIf_def keeps_ret)

lemma keeps_rejectIf [keeps_intros]: "keeps P (rejectIf b e)"
  by (simp add: rejectIf_def keeps_ret keeps_raise)

lemma keeps_okOr [keeps_intros]: "keeps P (okOr e x)"
  by (simp add: okOr_def keeps_ret keeps_raise split: option.split)

lemma keeps_forEach [keeps_intros]: "(\<And>x. keeps P (f x)) \<Longrightarrow> keeps P (forEach xs f)"
  by (induction xs) (auto intro: keeps_ret keeps_andThen)

lemma keeps_foldEach [keeps_intros]: "(\<And>x a. keeps P (f x a)) \<Longrightarrow> keeps P (foldEach xs f a)"
  by (induction xs arbitrary: a) (auto intro: keeps_ret keeps_andThen)

lemma keeps_readState [keeps_intros]: "keeps P (readState g)"
  by (simp add: keeps_def readState_def)

lemma keeps_if [keeps_intros]:
  "(b \<Longrightarrow> keeps P m) \<Longrightarrow> (\<not> b \<Longrightarrow> keeps P n) \<Longrightarrow> keeps P (if b then m else n)"
  by simp

lemma keeps_case_option [keeps_intros]:
  "(x = None \<Longrightarrow> keeps P m) \<Longrightarrow> (\<And>y. x = Some y \<Longrightarrow> keeps P (f y)) \<Longrightarrow>
    keeps P (case x of None \<Rightarrow> m | Some y \<Rightarrow> f y)"
  by (cases x) auto

lemma keeps_case_sum [keeps_intros]:
  "(\<And>e. x = Inl e \<Longrightarrow> keeps P (f e)) \<Longrightarrow> (\<And>y. x = Inr y \<Longrightarrow> keeps P (g y)) \<Longrightarrow>
    keeps P (case x of Inl e \<Rightarrow> f e | Inr y \<Rightarrow> g y)"
  by (cases x) auto

lemma keeps_case_prod [keeps_intros]:
  "(\<And>a b. x = (a, b) \<Longrightarrow> keeps P (f a b)) \<Longrightarrow> keeps P (case x of (a, b) \<Rightarrow> f a b)"
  by (cases x) auto

lemma keeps_let [keeps_intros]: "(\<And>x. x = t \<Longrightarrow> keeps P (f x)) \<Longrightarrow> keeps P (let x = t in f x)"
  by simp

subsection \<open>Actions that always return a value\<close>

definition answers :: "('w, 'e, 'a) act \<Rightarrow> bool" where
  "answers m \<longleftrightarrow> (\<forall>w. \<exists>x w'. m w = (Inr x, w'))"

lemma answersD: "answers m \<Longrightarrow> \<exists>x w'. m w = (Inr x, w')"
  by (simp add: answers_def)

lemma answers_basic [answer_intros]:
  "answers (ret x)" "answers (readState g)" "answers (modifyState h)" "answers (attempt m)" "answers (discard n)"
  "answers (orElse n' d)"
  by (auto simp: answers_def act_defs split: prod.split sum.split)

lemma answers_andThen [answer_intros]:
  assumes m: "answers m" and f: "\<And>x. answers (f x)"
  shows "answers (andThen m f)"
  unfolding answers_def
proof
  fix w
  obtain x w' where "m w = (Inr x, w')" using answersD [OF m] by blast
  with answersD [OF f] show "\<exists>y w''. andThen m f w = (Inr y, w'')" by (simp add: andThen_def)
qed

lemma answers_mapErr [answer_intros]:
  assumes m: "answers m"
  shows "answers (mapErr g m)"
  unfolding answers_def
proof
  fix w
  obtain x w' where "m w = (Inr x, w')" using answersD [OF m] by blast
  then show "\<exists>y w''. mapErr g m w = (Inr y, w'')" by (simp add: mapErr_def)
qed

lemma answers_onlyIf [answer_intros]: "(b \<Longrightarrow> answers m) \<Longrightarrow> answers (onlyIf b m)"
  by (simp add: onlyIf_def answers_basic)

lemma answers_forEach [answer_intros]: "(\<And>x. answers (f x)) \<Longrightarrow> answers (forEach xs f)"
  by (induction xs) (auto intro: answer_intros)

lemma answers_foldEach [answer_intros]: "(\<And>x a. answers (f x a)) \<Longrightarrow> answers (foldEach xs f a)"
  by (induction xs arbitrary: a) (auto intro: answer_intros)

lemma answers_if [answer_intros]: "(b \<Longrightarrow> answers m) \<Longrightarrow> (\<not> b \<Longrightarrow> answers n) \<Longrightarrow> answers (if b then m else n)"
  by simp

lemma answers_case_option [answer_intros]:
  "(x = None \<Longrightarrow> answers m) \<Longrightarrow> (\<And>y. x = Some y \<Longrightarrow> answers (f y)) \<Longrightarrow>
    answers (case x of None \<Rightarrow> m | Some y \<Rightarrow> f y)"
  by (cases x) auto

lemma answers_case_sum [answer_intros]:
  "(\<And>e. x = Inl e \<Longrightarrow> answers (f e)) \<Longrightarrow> (\<And>y. x = Inr y \<Longrightarrow> answers (g y)) \<Longrightarrow>
    answers (case x of Inl e \<Rightarrow> f e | Inr y \<Rightarrow> g y)"
  by (cases x) auto

lemma answers_case_prod [answer_intros]:
  "(\<And>a b. x = (a, b) \<Longrightarrow> answers (f a b)) \<Longrightarrow> answers (case x of (a, b) \<Rightarrow> f a b)"
  by (cases x) auto

lemma answers_let [answer_intros]: "(\<And>x. x = t \<Longrightarrow> answers (f x)) \<Longrightarrow> answers (let x = t in f x)"
  by simp

text \<open>Total correctness: from \<open>P\<close> the action returns a value and a state with \<open>Q\<close>.\<close>

definition achieves :: "('w \<Rightarrow> bool) \<Rightarrow> ('w, 'e, 'a) act \<Rightarrow> ('a \<Rightarrow> 'w \<Rightarrow> bool) \<Rightarrow> bool" where
  "achieves P m Q \<longleftrightarrow> (\<forall>w. P w \<longrightarrow> (\<exists>x w'. m w = (Inr x, w') \<and> Q x w'))"

lemma achievesD: "achieves P m Q \<Longrightarrow> P w \<Longrightarrow> \<exists>x w'. m w = (Inr x, w') \<and> Q x w'"
  by (simp add: achieves_def)

lemma achieves_keeps: "answers m \<Longrightarrow> keeps P m \<Longrightarrow> achieves P m (\<lambda>_. P)"
  unfolding achieves_def answers_def keeps_def by (metis snd_conv)

lemma achieves_andThen:
  "achieves P m R \<Longrightarrow> (\<And>x. achieves (R x) (f x) Q) \<Longrightarrow> achieves P (andThen m f) Q"
  by (fastforce simp: achieves_def andThen_def)

lemma achieves_after:
  "answers m \<Longrightarrow> keeps P m \<Longrightarrow> (\<And>x. achieves P (f x) Q) \<Longrightarrow> achieves P (andThen m f) Q"
  by (rule achieves_andThen [OF achieves_keeps])

lemma achieves_case_option:
  "achieves P g Q \<Longrightarrow> (\<And>y. achieves P (f y) Q) \<Longrightarrow> achieves P (case_option g f x) Q"
  by (cases x) auto

lemma achieves_ret: "(\<And>w. P w \<Longrightarrow> Q x w) \<Longrightarrow> achieves P (ret x) Q"
  by (simp add: achieves_def ret_def)

lemma achieves_weaken: "achieves P m Q \<Longrightarrow> (\<And>x w. Q x w \<Longrightarrow> R x w) \<Longrightarrow> achieves P m R"
  by (fastforce simp: achieves_def)

text \<open>Partial correctness: a success that starts with \<open>P\<close> ends with \<open>Q\<close>.\<close>

definition yields :: "('w \<Rightarrow> bool) \<Rightarrow> ('w, 'e, 'a) act \<Rightarrow> ('a \<Rightarrow> 'w \<Rightarrow> bool) \<Rightarrow> bool" where
  "yields P m Q \<longleftrightarrow> (\<forall>w x w'. P w \<longrightarrow> m w = (Inr x, w') \<longrightarrow> Q x w')"

lemma yieldsD: "yields P m Q \<Longrightarrow> P w \<Longrightarrow> m w = (Inr x, w') \<Longrightarrow> Q x w'"
  by (auto simp: yields_def)

lemma yields_keeps: "keeps P m \<Longrightarrow> yields P m (\<lambda>_. P)"
  unfolding yields_def keeps_def by (metis snd_conv)

lemma yields_andThen: "yields P m R \<Longrightarrow> (\<And>x. yields (R x) (f x) Q) \<Longrightarrow> yields P (andThen m f) Q"
  by (fastforce simp: yields_def andThen_def split: prod.splits sum.splits)

lemma yields_after: "keeps P m \<Longrightarrow> (\<And>x. yields P (f x) Q) \<Longrightarrow> yields P (andThen m f) Q"
  by (rule yields_andThen [OF yields_keeps])

lemma yields_okOr: "(\<And>y. x = Some y \<Longrightarrow> yields P (f y) Q) \<Longrightarrow> yields P (andThen (okOr e x) f) Q"
  by (cases x) (auto simp: yields_def andThen_def okOr_def ret_def raise_def)

lemma yields_rejectIf: "(\<not> b \<Longrightarrow> yields P (f ()) Q) \<Longrightarrow> yields P (andThen (rejectIf b e) f) Q"
  by (auto simp: yields_def andThen_def rejectIf_def ret_def raise_def)

lemma yields_ret: "(\<And>w. P w \<Longrightarrow> Q x w) \<Longrightarrow> yields P (ret x) Q"
  by (simp add: yields_def ret_def)

lemma yields_conseq:
  "yields P m Q \<Longrightarrow> (\<And>w. P' w \<Longrightarrow> P w) \<Longrightarrow> (\<And>x w. Q x w \<Longrightarrow> Q' x w) \<Longrightarrow> yields P' m Q'"
  by (simp add: yields_def) blast

lemma yields_pure: "(A \<Longrightarrow> yields P m Q) \<Longrightarrow> yields (\<lambda>w. A \<and> P w) m Q"
  by (auto simp: yields_def)

section \<open>Tables\<close>

text \<open>
  A table is the list of its rows. Rows keep their physical order, which is also the order
  of an unordered \<open>SELECT\<close>; \<open>ORDER BY\<close> is a stable sort.
\<close>

definition selectWhere :: "('r \<Rightarrow> bool) \<Rightarrow> 'r list \<Rightarrow> 'r list" where
  "selectWhere p t = filter p t"

definition existsWhere :: "('r \<Rightarrow> bool) \<Rightarrow> 'r list \<Rightarrow> bool" where
  "existsWhere p t = list_ex p t"

definition firstWhere :: "('r \<Rightarrow> bool) \<Rightarrow> 'r list \<Rightarrow> 'r option" where
  "firstWhere p t = List.find p t"

definition countWhere :: "('r \<Rightarrow> bool) \<Rightarrow> 'r list \<Rightarrow> nat" where
  "countWhere p t = length (filter p t)"

definition updateWhere :: "('r \<Rightarrow> bool) \<Rightarrow> ('r \<Rightarrow> 'r) \<Rightarrow> 'r list \<Rightarrow> 'r list" where
  "updateWhere p f t = map (\<lambda>r. if p r then f r else r) t"

definition deleteWhere :: "('r \<Rightarrow> bool) \<Rightarrow> 'r list \<Rightarrow> 'r list" where
  "deleteWhere p t = filter (\<lambda>r. \<not> p r) t"

definition insertRow :: "'r \<Rightarrow> 'r list \<Rightarrow> 'r list" where
  "insertRow r t = t @ [r]"

text \<open>\<open>INSERT .. ON CONFLICT (key) DO UPDATE\<close>.\<close>

definition upsertRow :: "('r \<Rightarrow> bool) \<Rightarrow> 'r \<Rightarrow> ('r \<Rightarrow> 'r) \<Rightarrow> 'r list \<Rightarrow> 'r list" where
  "upsertRow p r f t = (if existsWhere p t then updateWhere p f t else insertRow r t)"

text \<open>\<open>INSERT .. ON CONFLICT DO NOTHING\<close>.\<close>

definition insertIfAbsent :: "('r \<Rightarrow> bool) \<Rightarrow> 'r \<Rightarrow> 'r list \<Rightarrow> 'r list" where
  "insertIfAbsent p r t = (if existsWhere p t then t else insertRow r t)"

text \<open>A \<open>UNIQUE\<close> constraint or primary key over the columns \<open>k\<close>.\<close>

definition uniqueOn :: "('r \<Rightarrow> 'k) \<Rightarrow> 'r list \<Rightarrow> bool" where
  "uniqueOn k t \<longleftrightarrow> distinct (map k t)"

text \<open>\<open>COALESCE(SUM(e), 0)\<close>: rows where the expression is \<open>NULL\<close> do not count.\<close>

definition sumOf :: "('r \<Rightarrow> int option) \<Rightarrow> 'r list \<Rightarrow> int" where
  "sumOf f t = sum_list (map (\<lambda>r. case f r of None \<Rightarrow> 0 | Some n \<Rightarrow> n) t)"

lemmas table_defs = selectWhere_def existsWhere_def firstWhere_def countWhere_def
  updateWhere_def deleteWhere_def insertRow_def upsertRow_def insertIfAbsent_def

lemma set_updateWhere [table_simps]:
  "set (updateWhere p f t) = (\<lambda>r. if p r then f r else r) ` set t"
  by (simp add: updateWhere_def)

lemma set_deleteWhere [table_simps]: "set (deleteWhere p t) = {r \<in> set t. \<not> p r}"
  by (auto simp: deleteWhere_def)

lemma set_insertRow [table_simps]: "set (insertRow r t) = insert r (set t)"
  by (simp add: insertRow_def)

lemma existsWhere_iff [table_simps]: "existsWhere p t \<longleftrightarrow> (\<exists>r \<in> set t. p r)"
  by (induction t) (auto simp: existsWhere_def)

lemma firstWhere_Some: "firstWhere p t = Some r \<Longrightarrow> r \<in> set t \<and> p r"
  by (auto simp: firstWhere_def find_Some_iff)

lemma firstWhere_None [table_simps]: "firstWhere p t = None \<longleftrightarrow> (\<forall>r \<in> set t. \<not> p r)"
  by (auto simp: firstWhere_def find_None_iff)

lemma length_updateWhere [table_simps]: "length (updateWhere p f t) = length t"
  by (simp add: updateWhere_def)

lemma updateWhere_none [table_simps]: "\<forall>r \<in> set t. \<not> p r \<Longrightarrow> updateWhere p f t = t"
  by (induction t) (auto simp: updateWhere_def)

lemma deleteWhere_none [table_simps]: "\<forall>r \<in> set t. \<not> p r \<Longrightarrow> deleteWhere p t = t"
  by (simp add: deleteWhere_def filter_id_conv)

lemma countWhere_0 [table_simps]: "countWhere p t = 0 \<longleftrightarrow> (\<forall>r \<in> set t. \<not> p r)"
  by (simp add: countWhere_def filter_empty_conv)

text \<open>An update that does not touch the columns \<open>k\<close> keeps their values, and so a key.\<close>

lemma map_updateWhere:
  assumes "\<And>r. k (f r) = k r"
  shows "map k (updateWhere p f t) = map k t"
  using assms by (induction t) (auto simp: updateWhere_def)

lemma uniqueOn_updateWhere [table_simps]:
  "(\<And>r. k (f r) = k r) \<Longrightarrow> uniqueOn k (updateWhere p f t) = uniqueOn k t"
  by (simp add: uniqueOn_def map_updateWhere)

lemma updateWhere_row:
  assumes "\<And>r. k (f r) = k r"
  shows "(\<exists>r \<in> set (updateWhere p f t). k r = v) \<longleftrightarrow> (\<exists>r \<in> set t. k r = v)"
proof -
  have "v \<in> k ` set (updateWhere p f t) \<longleftrightarrow> v \<in> k ` set t"
    using map_updateWhere [of k f p t, OF assms] by (metis set_map)
  then show ?thesis by (auto simp: image_iff)
qed

lemma uniqueOn_deleteWhere: "uniqueOn k t \<Longrightarrow> uniqueOn k (deleteWhere p t)"
  by (simp add: uniqueOn_def deleteWhere_def distinct_map_filter)

lemma uniqueOn_insertRow:
  "uniqueOn k (insertRow r t) \<longleftrightarrow> uniqueOn k t \<and> (\<forall>r' \<in> set t. k r' \<noteq> k r)"
  by (simp add: uniqueOn_def insertRow_def image_iff) metis

lemma uniqueOn_upsertRow:
  assumes "uniqueOn k t" "\<And>r'. p r' \<longleftrightarrow> k r' = k r" "\<And>r. k (f r) = k r"
  shows "uniqueOn k (upsertRow p r f t)"
proof (cases "existsWhere p t")
  case True
  then show ?thesis using assms(1,3) by (simp add: upsertRow_def uniqueOn_updateWhere)
next
  case False
  then show ?thesis using assms(1,2)
    by (auto simp: upsertRow_def uniqueOn_insertRow existsWhere_iff)
qed

lemma uniqueOn_eq: "uniqueOn k t \<Longrightarrow> r \<in> set t \<Longrightarrow> s \<in> set t \<Longrightarrow> k r = k s \<Longrightarrow> r = s"
  by (auto simp: uniqueOn_def distinct_map inj_on_def)

lemma length_filter_mono:
  "\<forall>x \<in> set xs. P x \<longrightarrow> Q x \<Longrightarrow> length (filter P xs) \<le> length (filter Q xs)"
  by (induction xs) auto

text \<open>Selecting rows that an update or a delete does not concern.\<close>

lemma filter_updateWhere_disjoint:
  assumes "\<And>r. p r \<Longrightarrow> \<not> q r" "\<And>r. p r \<Longrightarrow> \<not> q (f r)"
  shows "filter q (updateWhere p f t) = filter q t"
  using assms by (induction t) (auto simp: updateWhere_def)

lemma filter_deleteWhere_disjoint:
  "(\<And>r. p r \<Longrightarrow> \<not> q r) \<Longrightarrow> filter q (deleteWhere p t) = filter q t"
  by (induction t) (auto simp: deleteWhere_def)

lemma filter_insertRow: "filter q (insertRow r t) = filter q t @ (if q r then [r] else [])"
  by (simp add: insertRow_def)

lemma sumOf_Nil [simp]: "sumOf f [] = 0"
  by (simp add: sumOf_def)

lemma sumOf_Cons [simp]:
  "sumOf f (r # t) = (case f r of None \<Rightarrow> 0 | Some n \<Rightarrow> n) + sumOf f t"
  by (simp add: sumOf_def)

lemma sumOf_append [simp]: "sumOf f (s @ t) = sumOf f s + sumOf f t"
  by (simp add: sumOf_def)

lemma sumOf_nonneg: "(\<And>r n. r \<in> set t \<Longrightarrow> f r = Some n \<Longrightarrow> 0 \<le> n) \<Longrightarrow> 0 \<le> sumOf f t"
  by (induction t) (force split: option.splits)+

lemma unique_split:
  assumes "x \<in> set t" "uniqueOn k t"
  shows "\<exists>ys zs. t = ys @ x # zs \<and> (\<forall>y \<in> set ys \<union> set zs. k y \<noteq> k x)"
proof -
  from assms(1) obtain ys zs where "t = ys @ x # zs" by (auto simp: in_set_conv_decomp)
  moreover from this assms(2) have "k x \<notin> k ` (set ys \<union> set zs)" by (simp add: uniqueOn_def image_Un)
  ultimately show ?thesis by (intro exI [of _ ys] exI [of _ zs]) (metis image_eqI)
qed

lemma updateWhere_split:
  "\<forall>y \<in> set ys \<union> set zs. \<not> p y \<Longrightarrow> p x \<Longrightarrow> updateWhere p f (ys @ x # zs) = ys @ f x # zs"
  by (induction ys) (auto simp: updateWhere_def intro: map_idI)

end
