(* ===== verification/Rust_Text.thy ===== *)
theory Rust_Text
  imports Hermes_Prelude
begin

text \<open>
  The parts of Rust's standard library and of the \<open>uuid\<close> crate's documented formats that
  the code uses on text and numbers. A text is the list of the bytes of its UTF-8 form; the
  case mappings and the character classes are those of ASCII, and a byte outside ASCII is
  left alone by the case mappings and belongs to no ASCII class.
\<close>

section \<open>Machine integers\<close>

text \<open>The two's-complement value of a number stored in an \<open>i32\<close> or an \<open>i64\<close>.\<close>

definition i32 :: "int \<Rightarrow> int" where
  "i32 x = signed_take_bit 31 x"

definition i64 :: "int \<Rightarrow> int" where
  "i64 x = signed_take_bit 63 x"

definition fits_i32 :: "int \<Rightarrow> bool" where
  "fits_i32 x \<longleftrightarrow> - (2 ^ 31) \<le> x \<and> x < 2 ^ 31"

definition fits_i64 :: "int \<Rightarrow> bool" where
  "fits_i64 x \<longleftrightarrow> - (2 ^ 63) \<le> x \<and> x < 2 ^ 63"

lemma i64_id: "fits_i64 x \<Longrightarrow> i64 x = x"
  by (simp add: fits_i64_def i64_def signed_take_bit_int_eq_self_iff)

lemma i32_id: "fits_i32 x \<Longrightarrow> i32 x = x"
  by (simp add: fits_i32_def i32_def signed_take_bit_int_eq_self_iff)

lemma fits_i64_i64: "fits_i64 (i64 x)"
  using signed_take_bit_int_greater_eq_minus_exp [of 63 x] signed_take_bit_int_less_exp [of 63 x]
  by (simp add: fits_i64_def i64_def)

lemma fits_i32_fits_i64: "fits_i32 x \<Longrightarrow> fits_i64 x"
  by (simp add: fits_i32_def fits_i64_def)

text \<open>\<open>Ord::clamp\<close>.\<close>

definition clamp :: "int \<Rightarrow> int \<Rightarrow> int \<Rightarrow> int" where
  "clamp x lo hi = (if x < lo then lo else if x > hi then hi else x)"

lemma clamp_bounds: "lo \<le> hi \<Longrightarrow> lo \<le> clamp x lo hi \<and> clamp x lo hi \<le> hi"
  by (simp add: clamp_def)

lemma clamp_id: "lo \<le> x \<Longrightarrow> x \<le> hi \<Longrightarrow> clamp x lo hi = x"
  by (simp add: clamp_def)

section \<open>Characters and strings\<close>

definition code :: "char \<Rightarrow> nat" where
  "code c = of_char c"

text \<open>A byte that continues a character of more than one byte.\<close>

definition continuation_byte :: "char \<Rightarrow> bool" where
  "continuation_byte c \<longleftrightarrow> 128 \<le> code c \<and> code c < 192"

text \<open>\<open>chars().map(f).collect()\<close> for an \<open>f\<close> that sends every character outside ASCII to the same one.\<close>

definition map_chars :: "(char \<Rightarrow> char) \<Rightarrow> string \<Rightarrow> string" where
  "map_chars f s = map f (filter (\<lambda>c. \<not> continuation_byte c) s)"

definition is_ascii_digit :: "char \<Rightarrow> bool" where
  "is_ascii_digit c \<longleftrightarrow> 48 \<le> code c \<and> code c \<le> 57"

definition is_upper :: "char \<Rightarrow> bool" where
  "is_upper c \<longleftrightarrow> 65 \<le> code c \<and> code c \<le> 90"

definition is_lower :: "char \<Rightarrow> bool" where
  "is_lower c \<longleftrightarrow> 97 \<le> code c \<and> code c \<le> 122"

definition is_ascii_alphabetic :: "char \<Rightarrow> bool" where
  "is_ascii_alphabetic c \<longleftrightarrow> is_upper c \<or> is_lower c"

definition is_ascii_alphanumeric :: "char \<Rightarrow> bool" where
  "is_ascii_alphanumeric c \<longleftrightarrow> is_ascii_alphabetic c \<or> is_ascii_digit c"

definition is_whitespace :: "char \<Rightarrow> bool" where
  "is_whitespace c \<longleftrightarrow> code c = 32 \<or> (9 \<le> code c \<and> code c \<le> 13)"

definition char_upper :: "char \<Rightarrow> char" where
  "char_upper c = (if is_lower c then char_of (code c - 32) else c)"

definition char_lower :: "char \<Rightarrow> char" where
  "char_lower c = (if is_upper c then char_of (code c + 32) else c)"

definition to_uppercase :: "string \<Rightarrow> string" where
  "to_uppercase s = map char_upper s"

definition to_lowercase :: "string \<Rightarrow> string" where
  "to_lowercase s = map char_lower s"

text \<open>\<open>trim_matches\<close>, with a predicate on characters, and \<open>trim\<close>.\<close>

definition trim_matches :: "(char \<Rightarrow> bool) \<Rightarrow> string \<Rightarrow> string" where
  "trim_matches p s = rev (dropWhile p (rev (dropWhile p s)))"

definition trim_end_matches :: "(char \<Rightarrow> bool) \<Rightarrow> string \<Rightarrow> string" where
  "trim_end_matches p s = rev (dropWhile p (rev s))"

definition trim :: "string \<Rightarrow> string" where
  "trim s = trim_matches is_whitespace s"

definition replace_char :: "char \<Rightarrow> char \<Rightarrow> string \<Rightarrow> string" where
  "replace_char a b s = map (\<lambda>c. if c = a then b else c) s"

definition starts_with :: "string \<Rightarrow> string \<Rightarrow> bool" where
  "starts_with p s \<longleftrightarrow> take (length p) s = p"

text \<open>\<open>split(c)\<close>: always at least one part.\<close>

fun split_on :: "char \<Rightarrow> string \<Rightarrow> string list" where
  "split_on d [] = [[]]"
| "split_on d (c # s) =
     (if c = d then [] # split_on d s
      else (case split_on d s of [] \<Rightarrow> [[c]] | p # ps \<Rightarrow> (c # p) # ps))"

text \<open>\<open>rsplit(c).next()\<close>: what follows the last separator.\<close>

definition last_segment :: "char \<Rightarrow> string \<Rightarrow> string" where
  "last_segment d s = rev (takeWhile (\<lambda>c. c \<noteq> d) (rev s))"

text \<open>\<open>split_whitespace()\<close>: the maximal runs of other characters.\<close>

fun words_of :: "string \<Rightarrow> string \<Rightarrow> string list" where
  "words_of acc [] = (if acc = [] then [] else [rev acc])"
| "words_of acc (c # s) =
     (if is_whitespace c then (if acc = [] then words_of [] s else rev acc # words_of [] s)
      else words_of (c # acc) s)"

definition split_whitespace :: "string \<Rightarrow> string list" where
  "split_whitespace s = words_of [] s"

definition join :: "string \<Rightarrow> string list \<Rightarrow> string" where
  "join sep ps = concat (case ps of [] \<Rightarrow> [] | p # qs \<Rightarrow> p # map (\<lambda>q. sep @ q) qs)"

text \<open>\<open>contains\<close>, \<open>strip_prefix\<close>, \<open>split_once\<close>, \<open>lines\<close> and \<open>replace\<close>.\<close>

fun contains :: "string \<Rightarrow> string \<Rightarrow> bool" where
  "contains s [] = (s = [])"
| "contains s (c # t) = (starts_with s (c # t) \<or> contains s t)"

definition strip_prefix :: "string \<Rightarrow> string \<Rightarrow> string option" where
  "strip_prefix p s = (if starts_with p s then Some (drop (length p) s) else None)"

definition split_once :: "char \<Rightarrow> string \<Rightarrow> (string \<times> string) option" where
  "split_once d s = (if d \<in> set s then Some (takeWhile (\<lambda>c. c \<noteq> d) s, tl (dropWhile (\<lambda>c. c \<noteq> d) s)) else None)"

definition without_cr :: "string \<Rightarrow> string" where
  "without_cr l = (if l \<noteq> [] \<and> last l = CHR 0x0D then butlast l else l)"

definition lines_of :: "string \<Rightarrow> string list" where
  "lines_of s = (let ps = split_on (CHR 0x0A) s in map without_cr (if last ps = [] then butlast ps else ps))"

text \<open>Every occurrence, from the left, of a non-empty pattern.\<close>

function replace_all :: "string \<Rightarrow> string \<Rightarrow> string \<Rightarrow> string" where
  "replace_all p r [] = []"
| "replace_all p r (c # s) =
     (if p \<noteq> [] \<and> starts_with p (c # s) then r @ replace_all p r (drop (length p) (c # s))
      else c # replace_all p r s)"
  by pat_completeness auto

termination replace_all
  by (relation "measure (\<lambda>(p, r, s). length s)") auto

lemma dropWhile_hd: "dropWhile p s = c # r \<Longrightarrow> \<not> p c"
  by (induction s) (auto split: if_splits)

lemma set_trim_matches: "set (trim_matches p s) \<subseteq> set s"
  by (auto simp: trim_matches_def dest!: set_dropWhileD)

lemma split_on_nonempty: "split_on d s \<noteq> []"
  by (induction s) (auto split: list.splits)

subsection \<open>Decimal numbers\<close>

definition digit_char :: "nat \<Rightarrow> char" where
  "digit_char n = (if n < 10 then char_of (48 + n) else char_of (87 + n))"

fun show_nat :: "nat \<Rightarrow> string" where
  "show_nat n = (if n < 10 then [digit_char n] else show_nat (n div 10) @ [digit_char (n mod 10)])"

declare show_nat.simps [simp del]

definition show_int :: "int \<Rightarrow> string" where
  "show_int n = (if n < 0 then ''-'' @ show_nat (nat (- n)) else show_nat (nat n))"

lemma code_char_of: "n < 256 \<Longrightarrow> code (char_of n) = n"
  by (simp add: code_def)

lemma code_digit_char: "n < 16 \<Longrightarrow> code (digit_char n) = (if n < 10 then 48 + n else 87 + n)"
  by (simp add: digit_char_def code_char_of)

lemma digit_char_inj: "a < 16 \<Longrightarrow> b < 16 \<Longrightarrow> digit_char a = digit_char b \<Longrightarrow> a = b"
proof -
  assume a: "a < 16" and b: "b < 16" and "digit_char a = digit_char b"
  then have "code (digit_char a) = code (digit_char b)" by simp
  then show "a = b"
    unfolding code_digit_char [OF a] code_digit_char [OF b] by (simp split: if_splits)
qed

lemma show_nat_inj: "show_nat m = show_nat n \<Longrightarrow> m = n"
proof (induction m arbitrary: n rule: show_nat.induct)
  case (1 m)
  show ?case
  proof (cases "m < 10 \<or> n < 10")
    case True
    have len: "k \<ge> 10 \<Longrightarrow> show_nat k = show_nat (k div 10) @ [digit_char (k mod 10)]
        \<and> show_nat (k div 10) \<noteq> []" for k
      by (subst show_nat.simps) (simp add: show_nat.simps [of "k div 10"])
    have one: "k < 10 \<Longrightarrow> show_nat k = [digit_char k]" for k
      by (subst show_nat.simps) simp
    from True "1.prems" show ?thesis
      using len [of m] len [of n] one [of m] one [of n] digit_char_inj [of m n]
      by (cases "m < 10"; cases "n < 10") auto
  next
    case False
    then have *: "show_nat (m div 10) = show_nat (n div 10)"
      "digit_char (m mod 10) = digit_char (n mod 10)"
      using "1.prems" by (simp_all add: show_nat.simps [of m] show_nat.simps [of n])
    from "1.IH" [of "n div 10"] False *(1) have "m div 10 = n div 10" by simp
    moreover have "m mod 10 = n mod 10"
      by (rule digit_char_inj) (use *(2) in \<open>simp_all add: order_less_trans [of _ 10 16]\<close>)
    ultimately show ?thesis by (metis div_mult_mod_eq)
  qed
qed

text \<open>\<open>str::parse\<close> for a signed integer type: an optional sign, then digits, within the range.\<close>

definition parse_digits :: "string \<Rightarrow> int option" where
  "parse_digits s =
     (if s \<noteq> [] \<and> list_all is_ascii_digit s
      then Some (foldl (\<lambda>a c. 10 * a + int (code c - 48)) 0 s) else None)"

definition parse_int :: "(int \<Rightarrow> bool) \<Rightarrow> string \<Rightarrow> int option" where
  "parse_int fits s =
     (case (case s of
              [] \<Rightarrow> None
            | c # r \<Rightarrow> (if c = CHR ''-'' then map_option uminus (parse_digits r)
                       else if c = CHR ''+'' then parse_digits r else parse_digits s)) of
        None \<Rightarrow> None
      | Some n \<Rightarrow> (if fits n then Some n else None))"

section \<open>UUIDs\<close>

type_synonym uuid = "128 word"

definition nil_uuid :: uuid where
  "nil_uuid = 0"

definition hex_digits :: "nat \<Rightarrow> nat \<Rightarrow> string" where
  "hex_digits k n = map (\<lambda>i. digit_char (n div 16 ^ i mod 16)) (rev [0..<k])"

definition uuid_hex :: "uuid \<Rightarrow> string" where
  "uuid_hex u = hex_digits 32 (unat u)"

text \<open>The hyphenated form printed by \<open>to_string()\<close>.\<close>

definition uuid_str :: "uuid \<Rightarrow> string" where
  "uuid_str u = (let h = uuid_hex u in
     take 8 h @ ''-'' @ take 4 (drop 8 h) @ ''-'' @ take 4 (drop 12 h) @ ''-''
     @ take 4 (drop 16 h) @ ''-'' @ drop 20 h)"

lemma base16_inj:
  assumes "m < 16 ^ k" "n < 16 ^ k" "\<forall>i<k. m div 16 ^ i mod 16 = n div 16 ^ i mod (16::nat)"
  shows "m = n"
  using assms
proof (induction k arbitrary: m n)
  case 0
  then show ?case by simp
next
  case (Suc k)
  have "m div 16 = n div 16"
  proof (rule Suc.IH)
    show "m div 16 < 16 ^ k" "n div 16 < 16 ^ k"
      using Suc.prems(1,2) by (auto simp: less_mult_imp_div_less mult.commute)
    show "\<forall>i<k. m div 16 div 16 ^ i mod 16 = n div 16 div 16 ^ i mod 16"
      using Suc.prems(3) by (auto simp: div_mult2_eq [symmetric] simp flip: power_Suc)
  qed
  moreover have "m mod 16 = n mod 16" using Suc.prems(3) by force
  ultimately show ?case by (metis div_mult_mod_eq)
qed

lemma hex_digits_inj:
  assumes "m < 16 ^ k" "n < 16 ^ k" "hex_digits k m = hex_digits k n"
  shows "m = n"
proof (rule base16_inj [OF assms(1,2)])
  show "\<forall>i<k. m div 16 ^ i mod 16 = n div 16 ^ i mod 16"
    using assms(3) by (auto simp: hex_digits_def intro: digit_char_inj)
qed

lemma length_uuid_hex: "length (uuid_hex u) = 32"
  by (simp add: uuid_hex_def hex_digits_def)

lemma uuid_hex_inj: "uuid_hex u = uuid_hex v \<Longrightarrow> u = v"
proof -
  assume h: "uuid_hex u = uuid_hex v"
  have bound: "unat x < 16 ^ 32" for x :: uuid
    using unsigned_less [of x, where ?'a = nat] by simp
  have "unat u = unat v"
    using bound bound h unfolding uuid_hex_def by (rule hex_digits_inj)
  then show "u = v" by (simp add: word_unat_eq_iff)
qed

lemma uuid_str_inj: "uuid_str u = uuid_str v \<longleftrightarrow> u = v"
proof
  assume h: "uuid_str u = uuid_str v"
  let ?a = "uuid_hex u" and ?b = "uuid_hex v"
  have parts: "x = take 8 x @ take 4 (drop 8 x) @ take 4 (drop 12 x) @ take 4 (drop 16 x) @ drop 20 x"
    for x :: string
    using append_take_drop_id [of 8 x] append_take_drop_id [of 4 "drop 8 x"]
      append_take_drop_id [of 4 "drop 12 x"] append_take_drop_id [of 4 "drop 16 x"]
    by (simp add: drop_drop)
  from h have "take 8 ?a = take 8 ?b \<and> take 4 (drop 8 ?a) = take 4 (drop 8 ?b)
    \<and> take 4 (drop 12 ?a) = take 4 (drop 12 ?b) \<and> take 4 (drop 16 ?a) = take 4 (drop 16 ?b)
    \<and> drop 20 ?a = drop 20 ?b"
    by (simp add: uuid_str_def Let_def length_uuid_hex append_eq_append_conv)
  then have "?a = ?b" using parts [of ?a] parts [of ?b] by simp
  then show "u = v" by (rule uuid_hex_inj)
qed simp

end
