(* ===== verification/Paging.thy ===== *)
theory Paging
  imports Rust_Text
begin

text \<open>
  \<open>utils/pagination.rs\<close>: the page bounds every list endpoint uses, and what \<open>LIMIT .. OFFSET\<close>
  makes of them.
\<close>

definition DEFAULT_PAGE_SIZE :: int where
  "DEFAULT_PAGE_SIZE = 20"

definition MAX_PAGE_SIZE :: int where
  "MAX_PAGE_SIZE = 100"

record pagination_params =
  pg_page :: "int option"
  pg_page_size :: "int option"

text \<open>The product of \<open>resolve\<close> is an \<open>i64\<close> one and wraps around in a release build.\<close>

definition resolve_page :: "pagination_params \<Rightarrow> int \<times> int \<times> int" where
  "resolve_page p =
     (let page = max (case pg_page p of None \<Rightarrow> 1 | Some n \<Rightarrow> n) 1;
          page_size = clamp (case pg_page_size p of None \<Rightarrow> DEFAULT_PAGE_SIZE | Some n \<Rightarrow> n) 1 MAX_PAGE_SIZE;
          offset = i64 ((page - 1) * page_size)
      in (page, page_size, offset))"

record 'a paginated =
  pd_items :: "'a list"
  pd_total :: int
  pd_page :: int
  pd_page_size :: int

text \<open>\<open>LIMIT n OFFSET k\<close>; Postgres refuses a negative offset.\<close>

definition limit_offset :: "int \<Rightarrow> int \<Rightarrow> 'a list \<Rightarrow> 'a list option" where
  "limit_offset n k rows = (if k < 0 then None else Some (take (nat n) (drop (nat k) rows)))"

definition page_of :: "int \<Rightarrow> int \<Rightarrow> 'a list \<Rightarrow> 'a list option" where
  "page_of page page_size rows =
     (case resolve_page \<lparr>pg_page = Some page, pg_page_size = Some page_size\<rparr> of (_, n, k) \<Rightarrow> limit_offset n k rows)"

lemma chunks_concat:
  assumes "0 < n"
  shows "concat (map (\<lambda>i. take n (drop (i * n) xs)) [0..<k]) = take (k * n) xs"
proof (induction k)
  case (Suc k)
  have "take (Suc k * n) xs = take (k * n) xs @ take n (drop (k * n) xs)"
    by (metis add.commute mult_Suc take_add)
  with Suc show ?case by simp
qed simp

text \<open>
  The bounds are always sane: the page is at least 1 and the size between 1 and 100
  whatever the client asks. Walking the pages one after the other returns every row exactly
  once and in order, up to the page where the product leaves \<open>i64\<close>.
\<close>

theorem pages_cover_the_rows:
  assumes "1 \<le> sz" "sz \<le> 100" "int k * sz < 2 ^ 63" "int (length rows) \<le> int k * sz"
  shows "concat (map (\<lambda>i. case page_of (int i + 1) sz rows of None \<Rightarrow> [] | Some xs \<Rightarrow> xs) [0..<k]) = rows
    \<and> (case resolve_page q of (page, n, _) \<Rightarrow> 1 \<le> page \<and> 1 \<le> n \<and> n \<le> 100)"
proof -
  have page: "page_of (int i + 1) sz rows = Some (take (nat sz) (drop (i * nat sz) rows))" if "i < k" for i
  proof -
    have "int i * sz \<le> int k * sz" using that assms(1) by (intro mult_right_mono) auto
    moreover have nonneg: "0 \<le> int i * sz" using assms(1) by simp
    ultimately have fits: "fits_i64 (int i * sz)" using assms(3) unfolding fits_i64_def by linarith
    have "nat (int i * sz) = i * nat sz" using assms(1) by (simp add: nat_mult_distrib)
    then show ?thesis
      using assms(1,2) i64_id [OF fits] nonneg
      by (simp add: not_less page_of_def resolve_page_def limit_offset_def clamp_def MAX_PAGE_SIZE_def Let_def)
  qed
  have "concat (map (\<lambda>i. case page_of (int i + 1) sz rows of None \<Rightarrow> [] | Some xs \<Rightarrow> xs) [0..<k])
      = concat (map (\<lambda>i. take (nat sz) (drop (i * nat sz) rows)) [0..<k])"
    by (intro arg_cong [of _ _ concat] map_cong) (simp_all add: page)
  also have "\<dots> = take (k * nat sz) rows" using assms(1) by (intro chunks_concat) simp
  also have "\<dots> = rows"
  proof -
    have "int (k * nat sz) = int k * sz" using assms(1) by simp
    with assms(4) have "length rows \<le> k * nat sz" by linarith
    then show ?thesis by simp
  qed
  moreover have "case resolve_page q of (page, n, _) \<Rightarrow> 1 \<le> page \<and> 1 \<le> n \<and> n \<le> 100"
    by (auto simp: resolve_page_def Let_def clamp_def MAX_PAGE_SIZE_def)
  ultimately show ?thesis by simp
qed

theorem pages_cover_the_rows_witness:
  "concat (map (\<lambda>i. case page_of (int i + 1) 2 [1, 2, 3, 4, 5::nat] of None \<Rightarrow> [] | Some xs \<Rightarrow> xs) [0..<3])
     = [1, 2, 3, 4, 5]"
  using pages_cover_the_rows [of 2 3 "[1, 2, 3, 4, 5::nat]" "\<lparr>pg_page = None, pg_page_size = None\<rparr>"] by simp

text \<open>
  A page number far enough makes the product wrap: the offset of page \<open>2 ^ 62\<close> with three
  rows a page is negative, and the statement is refused instead of returning an empty page.
\<close>

theorem far_page_is_refused: "page_of (2 ^ 62) 3 rows = None"
  by (simp add: page_of_def resolve_page_def limit_offset_def clamp_def MAX_PAGE_SIZE_def Let_def i64_def
      signed_take_bit_int_eq_self_iff)

end
