(* ===== verification/App_Error.thy ===== *)
theory App_Error
  imports Rust_Text
begin

text \<open>
  \<open>utils/error.rs\<close>: the error type every handler returns, the mapping of database errors
  into it, and the HTTP response an error turns into.
\<close>

text \<open>
  The errors \<open>sqlx\<close> reports: no row where one was required, an error of the database with
  its SQLSTATE code and the violated constraint, and everything else (connection, pool,
  decoding).
\<close>

datatype sqlx_error =
    RowNotFound
  | Database string "string option"
  | OtherSqlx string

text \<open>The cause carried by \<open>AppError::Fatal(anyhow::Error)\<close>.\<close>

datatype fatal_cause = FromSqlx sqlx_error | FromText string

datatype app_error =
    Validation string
  | Auth string
  | Permission string
  | NotFound string
  | Conflict string
  | RateLimited string
  | Infrastructure string
  | Fatal fatal_cause

text \<open>SQLSTATE codes: unique violation, foreign-key violation, numeric value out of range.\<close>

definition unique_violation :: string where
  "unique_violation = ''23505''"

definition foreign_key_violation :: string where
  "foreign_key_violation = ''23503''"

definition out_of_range :: string where
  "out_of_range = ''22003''"

definition constraint_msg :: "string option \<Rightarrow> string" where
  "constraint_msg c =
     (if c = Some ''unique_workspace_app_slug'' then
        ''An application with this name (slug) already exists in this workspace.''
      else if c = Some ''users_username_key'' then ''This username is already taken.''
      else if c = Some ''users_email_key'' then ''This email address is already registered.''
      else if c = Some ''workspaces_slug_key'' then
        ''A workspace with this name (slug) already exists.''
      else if c = Some ''unique_workspace_bucket_slug'' then
        ''A storage bucket with this name already exists in this workspace.''
      else if c = Some ''unique_route_path_per_project'' then
        ''This serverless route already exists in the project.''
      else if c = Some ''unique_env_per_instance'' then
        ''An environment variable with this key already exists on the instance.''
      else ''The duplicate resource violates a uniqueness constraint.'')"

text \<open>\<open>impl From<sqlx::Error> for AppError\<close>.\<close>

definition from_sqlx :: "sqlx_error \<Rightarrow> app_error" where
  "from_sqlx err =
     (case err of
        RowNotFound \<Rightarrow> NotFound ''The requested resource was not found.''
      | Database sqlstate cstr \<Rightarrow>
          (if sqlstate = unique_violation then Conflict (constraint_msg cstr)
           else Fatal (FromSqlx (Database sqlstate cstr)))
      | _ \<Rightarrow> Fatal (FromSqlx err))"

text \<open>
  \<open>impl IntoResponse for AppError\<close>: the status, and the \<open>code\<close> and \<open>message\<close> of the body.
\<close>

record error_response =
  er_status :: nat
  er_code :: string
  er_message :: string

definition into_response :: "app_error \<Rightarrow> error_response" where
  "into_response e =
     (case e of
        Validation msg \<Rightarrow> \<lparr>er_status = 400, er_code = ''VALIDATION_ERROR'', er_message = msg\<rparr>
      | Auth msg \<Rightarrow> \<lparr>er_status = 401, er_code = ''AUTH_ERROR'', er_message = msg\<rparr>
      | Permission msg \<Rightarrow> \<lparr>er_status = 403, er_code = ''PERMISSION_DENIED'', er_message = msg\<rparr>
      | NotFound msg \<Rightarrow> \<lparr>er_status = 404, er_code = ''NOT_FOUND'', er_message = msg\<rparr>
      | Conflict msg \<Rightarrow> \<lparr>er_status = 409, er_code = ''CONFLICT'', er_message = msg\<rparr>
      | RateLimited msg \<Rightarrow> \<lparr>er_status = 429, er_code = ''RATE_LIMITED'', er_message = msg\<rparr>
      | Infrastructure msg \<Rightarrow>
          \<lparr>er_status = 503, er_code = ''INFRASTRUCTURE_ERROR'',
           er_message = ''Cluster is temporarily busy. Try again in a minute.''\<rparr>
      | Fatal err \<Rightarrow>
          \<lparr>er_status = 500, er_code = ''INTERNAL_ERROR'',
           er_message = ''A technical error occurred. Our team is notified.''\<rparr>)"

text \<open>The errors whose text is internal: a client gets a fixed sentence instead.\<close>

definition internal_error :: "app_error \<Rightarrow> bool" where
  "internal_error e = (case e of Infrastructure _ \<Rightarrow> True | Fatal _ \<Rightarrow> True | _ \<Rightarrow> False)"

text \<open>
  A client never sees the text of an internal error: two internal errors of the same
  kind give the same response whatever they carry, the response is a 5xx one exactly for
  the internal errors, and a database error becomes a client-visible error only when a
  row is missing or a uniqueness constraint is violated.
\<close>

theorem internal_errors_are_opaque:
  "into_response (Infrastructure m) = into_response (Infrastructure m')
   \<and> into_response (Fatal c) = into_response (Fatal c')
   \<and> (internal_error e = (500 \<le> er_status (into_response e)))
   \<and> (internal_error (from_sqlx s) =
        (s \<noteq> RowNotFound \<and> (\<forall>k. s \<noteq> Database unique_violation k)))"
  by (cases e; cases s) (auto simp: into_response_def internal_error_def from_sqlx_def)

end
