(* ===== verification/Rust_Path.thy ===== *)
theory Rust_Path
  imports Rust_Text
begin

text \<open>
  \<open>std::path\<close> on Unix, where a path is what \<open>components()\<close> gives: empty parts and dots are dropped but for a leading
  dot, and \<open>..\<close> stays. Equality, \<open>starts_with\<close> and \<open>pop\<close> of a \<open>Path\<close> go by these components.
\<close>

datatype path_part = RootDir | CurDir | ParentDir | Normal string

type_synonym path = "path_part list"

definition path_part_of :: "string \<Rightarrow> path" where
  "path_part_of s = (if s = [] \<or> s = ''.'' then [] else if s = ''..'' then [ParentDir] else [Normal s])"

definition components :: "string \<Rightarrow> path" where
  "components s =
     (let ps = split_on (CHR ''/'') s in
      (if starts_with ''/'' s then [RootDir] else if hd ps = ''.'' then [CurDir] else []) @ concat (map path_part_of ps))"

definition path_join :: "path \<Rightarrow> path \<Rightarrow> path" where
  "path_join base rel = (case rel of RootDir # _ \<Rightarrow> rel
     | CurDir # r \<Rightarrow> (if base = [] then rel else base @ r)
     | _ \<Rightarrow> base @ rel)"

definition path_parent :: "path \<Rightarrow> path option" where
  "path_parent p = (if p = [] \<or> last p = RootDir then None else Some (butlast p))"

definition path_pop :: "path \<Rightarrow> path" where
  "path_pop p = (case path_parent p of None \<Rightarrow> p | Some q \<Rightarrow> q)"

definition file_name :: "path \<Rightarrow> string option" where
  "file_name p = (if p = [] then None else case last p of Normal s \<Rightarrow> Some s | _ \<Rightarrow> None)"

definition path_starts_with :: "path \<Rightarrow> path \<Rightarrow> bool" where
  "path_starts_with base p \<longleftrightarrow> take (length base) p = base"

text \<open>The directory a path leads to when no symbolic link is on the way.\<close>

definition walk_part :: "path_part \<Rightarrow> path \<Rightarrow> path" where
  "walk_part c p = (case c of RootDir \<Rightarrow> [RootDir] | CurDir \<Rightarrow> p
     | ParentDir \<Rightarrow> (if p = [] \<or> last p = RootDir then p else butlast p)
     | Normal s \<Rightarrow> p @ [Normal s])"

definition leads_to :: "path \<Rightarrow> path" where
  "leads_to p = fold walk_part p []"

definition plain_part :: "path_part \<Rightarrow> bool" where
  "plain_part c \<longleftrightarrow> (case c of Normal _ \<Rightarrow> True | _ \<Rightarrow> False)"

lemma plain_part_simps [simp]:
  "plain_part (Normal s)" "\<not> plain_part ParentDir" "\<not> plain_part CurDir" "\<not> plain_part RootDir"
  by (simp_all add: plain_part_def)

lemma path_starts_with_iff: "path_starts_with base p \<longleftrightarrow> (\<exists>q. p = base @ q)"
  by (auto simp: path_starts_with_def) (metis append_take_drop_id)

lemma walk_plain: "list_all plain_part q \<Longrightarrow> fold walk_part q p = p @ q"
proof (induction q arbitrary: p)
  case (Cons c q)
  then obtain s where "c = Normal s" by (cases c) auto
  then show ?case using Cons by (simp add: walk_part_def)
qed simp

text \<open>A path below a rooted directory without \<open>..\<close> leads below it.\<close>

lemma leads_to_plain: "list_all plain_part q \<Longrightarrow> leads_to (RootDir # q) = RootDir # q"
  by (simp add: leads_to_def walk_plain walk_part_def)

lemma leads_to_append: "leads_to (p @ q) = fold walk_part q (leads_to p)"
  by (simp add: leads_to_def)

end
