(* ===== verification/Hermes_World.thy ===== *)
theory Hermes_World
  imports App_Error Rust_Path
begin

text \<open>
  The state the control plane works on: the Postgres tables (\<open>models/\<close> and the columns the
  modelled statements use), the cluster as a log of the calls made to it with the answers
  it gives, the broadcast events, the clock, the random identifiers and the external
  functions (cipher, password hash, token signature). Every database statement may fail;
  the field \<open>faults\<close> says which of the statements still to come do.
\<close>

section \<open>Rows\<close>

text \<open>A \<open>serde_json::Value\<close>; the members of an object in the order of the document, a number by its text.\<close>

datatype json =
    JNull
  | JBool bool
  | JNumber string
  | JString string
  | JArray "json list"
  | JObject "(string \<times> json) list"

text \<open>Instants and durations in microseconds, the resolution of \<open>timestamptz\<close>.\<close>

type_synonym instant = int

definition seconds :: "int \<Rightarrow> int" where
  "seconds n = n * 1000000"

subsection \<open>Users, workspaces and roles\<close>

datatype user_status = PendingVerification | Active | Suspended

record user =
  u_id :: uuid
  u_username :: string
  u_email :: string
  u_password_hash :: string
  u_status :: user_status
  u_is_super_admin :: bool
  u_current_workspace_id :: "uuid option"
  u_password_changed_at :: instant
  u_last_login_at :: "instant option"
  u_last_login_ip :: "string option"
  u_last_login_user_agent :: "string option"
  u_created_at :: instant
  u_updated_at :: instant
  u_github_token :: "string option"
  u_github_username :: "string option"

record refresh_token_row =
  rt_user_id :: uuid
  rt_token :: string
  rt_expires_at :: instant

record audit_log_row =
  al_user_id :: "uuid option"
  al_identity :: string
  al_action :: string
  al_client_ip :: "string option"
  al_user_agent :: "string option"
  al_created_at :: instant

record workspace =
  w_id :: uuid
  w_name :: string
  w_slug :: string
  w_max_memory_mb :: int
  w_max_storage_gb :: int
  w_max_cpu_millicores :: int
  w_created_by :: uuid
  w_created_at :: instant
  w_updated_at :: instant

record role_row =
  ro_id :: uuid
  ro_name :: string

record permission_row =
  pe_id :: uuid
  pe_name :: string

record workspace_member =
  wm_workspace_id :: uuid
  wm_user_id :: uuid
  wm_role_id :: uuid

subsection \<open>Projects, apps, databases, serverless instances\<close>

record project =
  pr_id :: uuid
  pr_workspace_id :: uuid
  pr_name :: string
  pr_slug :: string
  pr_created_by :: uuid
  pr_created_at :: instant
  pr_ingress_ip :: "string option"
  pr_base_domain :: "string option"
  pr_cloudflare_credential_id :: "uuid option"

record app =
  a_id :: uuid
  a_workspace_id :: uuid
  a_project_id :: uuid
  a_name :: string
  a_slug :: string
  a_git_repository :: string
  a_build_command :: "string option"
  a_start_command :: "string option"
  a_git_subpath :: "string option"
  a_git_credential_id :: "uuid option"
  a_tcp_udp_ports :: "(int \<times> int \<times> string) list"

datatype app_status = Building | Running | Stopped | Failed | Crashed

datatype app_instance_type = Production | Staging | Preview

record app_instance =
  ai_id :: uuid
  ai_app_id :: uuid
  ai_branch_name :: string
  ai_instance_type :: app_instance_type
  ai_status :: app_status
  ai_internal_port :: int
  ai_external_port :: "int option"
  ai_port_is_auto :: bool
  ai_container_name :: string
  ai_cpu_limit :: "int option"
  ai_memory_limit_mb :: "int option"
  ai_replicas_min :: int
  ai_replicas_max :: int
  ai_knative_enabled :: bool
  ai_auto_sleep_enabled :: bool
  ai_auto_sleep_after_minutes :: int
  ai_health_check_path :: "string option"
  ai_consecutive_health_failures :: int
  ai_autoscale_cpu_percent :: int
  ai_assigned_domain :: "string option"
  ai_current_image_tag :: "string option"
  ai_updated_at :: instant
  ai_network_alias :: "string option"
  ai_env_seeded :: bool
  ai_knative_scaling :: "int option \<times> int option \<times> int option"
  ai_github_webhook :: "string option option"

record git_credential =
  gt_id :: uuid
  gt_workspace_id :: uuid
  gt_provider :: string
  gt_host :: string
  gt_encrypted_token :: string
  gt_nonce :: string

record project_ssh_key =
  sk_id :: uuid
  sk_project_id :: uuid
  sk_name :: string
  sk_host :: string
  sk_encrypted_private_key :: string
  sk_nonce :: string
  sk_public_key :: string
  sk_created_at :: instant

datatype db_type = Postgres | Mysql | Redis | Mongodb

datatype db_status = DbProvisioning | DbRunning | DbStopped | DbFailed

record database_service =
  ds_id :: uuid
  ds_workspace_id :: uuid
  ds_project_id :: uuid
  ds_app_instance_id :: "uuid option"
  ds_name :: string
  ds_type :: db_type
  ds_version :: string
  ds_db_user :: string
  ds_db_password :: string
  ds_db_password_nonce :: "string option"
  ds_db_name :: string
  ds_container_name :: string
  ds_internal_port :: int
  ds_external_port :: "int option"
  ds_is_external :: bool
  ds_storage_size_gb :: int
  ds_status :: db_status
  ds_cpu_limit :: "int option"
  ds_memory_limit_mb :: "int option"
  ds_backup_enabled :: bool
  ds_backup_count :: int
  ds_updated_at :: instant

record serverless_instance =
  si_id :: uuid
  si_workspace_id :: uuid
  si_project_id :: uuid
  si_name :: string
  si_runtime :: string
  si_memory_limit_mb :: int
  si_status :: string
  si_inherit_project_envs :: bool
  si_assigned_domain :: "string option"
  si_external_port :: "int option"
  si_current_image_tag :: "string option"

record serverless_route =
  sr_id :: uuid
  sr_instance_id :: uuid
  sr_method :: string
  sr_route_path :: string
  sr_code :: string

record serverless_build =
  sv_id :: uuid
  sv_instance_id :: uuid
  sv_workspace_id :: uuid
  sv_status :: string
  sv_image_tag :: "string option"
  sv_created_at :: instant

record serverless_env_variable =
  se_id :: uuid
  se_workspace_id :: uuid
  se_instance_id :: uuid
  se_key :: string
  se_encrypted_value :: string
  se_nonce :: string
  se_is_secret :: bool

record serverless_env_link =
  sl_instance_id :: uuid
  sl_project_env_id :: uuid

record database_backup =
  bk_id :: uuid
  bk_database_id :: uuid

datatype bucket_access = StaticWebsite | PublicAssets | PrivateStorage | AppBounded

datatype storage_status = PendingUpload | ReadyObject | Processing | FailedObject

datatype compression = NoCompression | Gzip | Brotli

text \<open>What is done to an uploaded file; the options of the image codecs are a text of their document.\<close>

record processing_rules =
  pc_image_options :: "string option"
  pc_pre_compress_brotli :: "bool option"

record image_variant =
  iv_name :: string
  iv_file_path :: string
  iv_size_bytes :: int

record storage_bucket =
  sb_id :: uuid
  sb_workspace_id :: uuid
  sb_project_id :: "uuid option"
  sb_name :: string
  sb_slug :: string
  sb_access_type :: bucket_access
  sb_is_public :: bool
  sb_allowed_file_types :: "string list option"
  sb_max_bucket_size_bytes :: int
  sb_max_file_size_bytes :: int
  sb_allow_custom_processing :: bool
  sb_default_processing_rules :: processing_rules
  sb_created_at :: instant
  sb_created_by :: uuid
  sb_app_id :: "string option"
  sb_secret_key_encrypted :: "string option"
  sb_secret_key_nonce :: "string option"

record storage_object =
  so_id :: uuid
  so_bucket_id :: uuid
  so_file_path :: string
  so_size_bytes :: int
  so_mime_type :: string
  so_etag :: string
  so_status :: storage_status
  so_compression :: compression
  so_variants :: "image_variant list option"
  so_processing_options :: processing_rules
  so_created_at :: instant

record app_volume =
  vo_id :: uuid
  vo_workspace_id :: uuid
  vo_app_id :: uuid
  vo_name :: string
  vo_host_path :: string
  vo_container_path :: string

datatype domain_routing_type = ReverseProxy | StaticHost | Custom

datatype domain_status = PendingDomain | ActiveDomain | FailedDomain

record domain_row =
  dm_id :: uuid
  dm_workspace_id :: uuid
  dm_fqdn :: string
  dm_target_type :: string
  dm_target_id :: "uuid option"
  dm_routing_type :: domain_routing_type
  dm_client_max_body_size :: int
  dm_is_ssl :: bool
  dm_status :: domain_status
  dm_nginx_target_host :: "string option"
  dm_nginx_root_path :: "string option"
  dm_nginx_config_content :: "string option"
  dm_cloudflare_zone_id :: "string option"
  dm_cloudflare_record_id :: "string option"
  dm_cf_proxy_active :: bool
  dm_created_by :: uuid
  dm_created_at :: instant

record cloudflare_credential =
  cf_id :: uuid
  cf_workspace_id :: uuid
  cf_label :: string
  cf_encrypted_token :: string
  cf_nonce :: string
  cf_zone_id :: string
  cf_base_domain :: "string option"
  cf_created_by :: uuid
  cf_created_at :: instant

record baas_service =
  bs_id :: uuid
  bs_workspace_id :: uuid
  bs_project_id :: uuid
  bs_name :: string
  bs_slug :: string
  bs_auth_roles_config :: json
  bs_created_at :: instant

record app_user =
  au_id :: uuid
  au_baas_id :: uuid
  au_identifier :: string
  au_password_hash :: string
  au_status :: string
  au_last_login :: "instant option"

record app_user_role =
  uo_id :: uuid
  uo_baas_id :: uuid
  uo_app_user_id :: uuid
  uo_role :: string

record app_refresh_token =
  ar_id :: uuid
  ar_baas_id :: uuid
  ar_app_user_id :: uuid
  ar_token_hash :: string
  ar_additional_claims :: json
  ar_expires_at :: instant

record app_api_key =
  ak_id :: uuid
  ak_baas_id :: uuid
  ak_name :: string
  ak_key_hash :: string
  ak_key_prefix :: string
  ak_created_at :: instant
  ak_expires_at :: "instant option"
  ak_last_used_at :: "instant option"

record project_webhook =
  pw_id :: uuid
  pw_project_id :: uuid
  pw_name :: string
  pw_url :: string
  pw_webhook_type :: string
  pw_is_active :: bool
  pw_created_at :: instant

subsection \<open>Environment variables\<close>

record env_variable =
  ev_id :: uuid
  ev_workspace_id :: uuid
  ev_app_instance_id :: uuid
  ev_key :: string
  ev_encrypted_value :: string
  ev_nonce :: string
  ev_is_secret :: bool

record project_env_variable =
  pv_id :: uuid
  pv_workspace_id :: uuid
  pv_project_id :: uuid
  pv_key :: string
  pv_encrypted_value :: string
  pv_nonce :: string
  pv_is_secret :: bool
  pv_source :: string
  pv_source_id :: "uuid option"

record app_env_link =
  el_app_instance_id :: uuid
  el_project_env_id :: uuid

subsection \<open>Cron jobs\<close>

datatype cron_status = CronActive | CronPaused | CronFailed

record cron_job =
  cj_id :: uuid
  cj_workspace_id :: uuid
  cj_project_id :: uuid
  cj_app_id :: "uuid option"
  cj_target_type :: string
  cj_target_id :: "uuid option"
  cj_is_backup :: bool
  cj_name :: string
  cj_schedule :: string
  cj_command :: string
  cj_status :: cron_status
  cj_next_run_at :: "instant option"
  cj_created_at :: instant

record cron_job_log =
  cl_id :: uuid
  cl_cron_job_id :: uuid
  cl_exit_code :: int
  cl_output :: "string option"
  cl_started_at :: instant
  cl_finished_at :: instant

record cron_env_variable =
  ce_id :: uuid
  ce_workspace_id :: uuid
  ce_cron_job_id :: uuid
  ce_key :: string
  ce_encrypted_value :: string
  ce_nonce :: string
  ce_is_secret :: bool

record cron_env_link =
  ck_cron_job_id :: uuid
  ck_project_env_id :: uuid

subsection \<open>Operations: incidents, chaos, jobs, builds, coordination\<close>

record incident =
  in_id :: uuid
  in_workspace_id :: uuid
  in_app_instance_id :: uuid
  in_incident_type :: string
  in_message :: string
  in_resolved_at :: "instant option"
  in_created_at :: instant

text \<open>The \<open>params\<close> document of an experiment, by kind.\<close>

datatype chaos_params =
    KilledPods "string list" bool
  | ScaledTo int int
  | StressedBy int int

record chaos_experiment =
  cx_id :: uuid
  cx_workspace_id :: uuid
  cx_app_id :: uuid
  cx_app_instance_id :: uuid
  cx_kind :: string
  cx_params :: chaos_params
  cx_status :: string
  cx_original_replicas :: "int option"
  cx_message :: string
  cx_started_at :: instant
  cx_revert_at :: "instant option"
  cx_ended_at :: "instant option"
  cx_created_by :: uuid

datatype job_payload =
    BuildPayload uuid string string "string option"
  | DeployPayload uuid "string option"
  | OtherPayload string

record job =
  jb_id :: uuid
  jb_kind :: string
  jb_payload :: job_payload
  jb_status :: string
  jb_attempts :: int
  jb_max_attempts :: int
  jb_run_after :: instant
  jb_locked_at :: "instant option"
  jb_locked_by :: "string option"
  jb_last_error :: "string option"
  jb_created_at :: instant
  jb_updated_at :: instant

record app_build =
  ab_id :: uuid
  ab_app_id :: uuid
  ab_app_instance_id :: uuid
  ab_status :: string
  ab_phase :: string
  ab_failure_reason :: "string option"
  ab_failure_category :: "string option"
  ab_duration_sec :: "int option"
  ab_image_tag :: "string option"
  ab_commit_message :: "string option"
  ab_commit_sha :: "string option"
  ab_created_at :: instant

record gc_run =
  gr_id :: uuid
  gr_status :: string
  gr_images_deleted :: int
  gr_builds_pruned :: int
  gr_jobs_pruned :: int
  gr_pods_reaped :: int
  gr_detail :: "string option"

record leader_lease_row =
  ll_holder :: uuid
  ll_expires_at :: instant

record rate_counter =
  rc_bucket :: string
  rc_window_start :: instant
  rc_count :: int

section \<open>The database\<close>

record database =
  users :: "user list"
  refresh_tokens :: "refresh_token_row list"
  auth_audit_logs :: "audit_log_row list"
  workspaces :: "workspace list"
  roles :: "role_row list"
  permissions :: "permission_row list"
  role_permissions :: "(uuid \<times> uuid) list"
  workspace_members :: "workspace_member list"
  projects :: "project list"
  apps :: "app list"
  app_instances :: "app_instance list"
  git_credentials :: "git_credential list"
  project_ssh_keys :: "project_ssh_key list"
  databases :: "database_service list"
  serverless_instances :: "serverless_instance list"
  serverless_routes :: "serverless_route list"
  serverless_builds :: "serverless_build list"
  serverless_env_variables :: "serverless_env_variable list"
  serverless_env_links :: "serverless_env_link list"
  database_backups :: "database_backup list"
  storage_buckets :: "storage_bucket list"
  storage_objects :: "storage_object list"
  app_volumes :: "app_volume list"
  domains :: "domain_row list"
  cloudflare_credentials :: "cloudflare_credential list"
  baas_services :: "baas_service list"
  app_users :: "app_user list"
  app_user_roles :: "app_user_role list"
  app_refresh_tokens :: "app_refresh_token list"
  app_api_keys :: "app_api_key list"
  project_webhooks :: "project_webhook list"
  environment_variables :: "env_variable list"
  project_env_variables :: "project_env_variable list"
  app_env_links :: "app_env_link list"
  cron_jobs :: "cron_job list"
  cron_job_logs :: "cron_job_log list"
  cron_env_variables :: "cron_env_variable list"
  cron_env_links :: "cron_env_link list"
  app_incident_logs :: "incident list"
  chaos_experiments :: "chaos_experiment list"
  jobs :: "job list"
  app_builds :: "app_build list"
  gc_runs :: "gc_run list"
  leader_lease :: "leader_lease_row option"
  rate_limit_counters :: "rate_counter list"

definition empty_db :: database where
  "empty_db = \<lparr>users = [], refresh_tokens = [], auth_audit_logs = [], workspaces = [],
     roles = [], permissions = [], role_permissions = [], workspace_members = [],
     projects = [], apps = [], app_instances = [], git_credentials = [], project_ssh_keys = [], databases = [], serverless_instances = [],
     serverless_routes = [], serverless_builds = [], serverless_env_variables = [], serverless_env_links = [],
     database_backups = [], storage_buckets = [], storage_objects = [], app_volumes = [], domains = [],
     cloudflare_credentials = [], baas_services = [], app_users = [], app_user_roles = [], app_refresh_tokens = [], app_api_keys = [],
     project_webhooks = [],
     environment_variables = [], project_env_variables = [], app_env_links = [],
     cron_jobs = [], cron_job_logs = [], cron_env_variables = [], cron_env_links = [],
     app_incident_logs = [], chaos_experiments = [], jobs = [], app_builds = [], gc_runs = [],
     leader_lease = None, rate_limit_counters = []\<rparr>"

section \<open>The cluster\<close>

text \<open>
  The calls the control plane makes to Kubernetes (\<open>utils/k8s.rs\<close> wraps them) and the
  answers. Call number \<open>i\<close> gets the answer \<open>k8s_reply i\<close>: the cluster is not
  under the control of the code, so nothing is assumed of it.
\<close>

datatype k8s_call =
    GetClient
  | ScaleDeployment string string int
  | DeletePod string string
  | ListPods string string
  | PodNameForApp string string
  | ExecInPod string string "string list"
  | GetDeployment string string
  | CreateSecret string string "(string \<times> string) list"
  | RestartDeployment string string
  | RestartKnative string string
  | CreateNamespace string int int int
  | DeleteNamespace string
  | ApplyNamespaceLimits string int int int
  | RunJob string string string "(string \<times> string) list" string
  | DeployDatabase string string string "(string \<times> string) list" int int int int
  | DeployLoadBalancer string string string int int string
  | DeleteDatabase string string
  | DatabasePods string string
  | DeployApp string string string int "(string \<times> string) list" "(string \<times> string) list" int int int int int
  | GetKnativeService string string
  | DeleteApp string string
  | DeleteKnativeService string string
  | DeleteIngress string string
  | DeployKnativeService string string string "(string \<times> string) list" int int int int
  | DeployService string string int "string option"
  | DeployIngress string string string string int
  | CreateBuilderPod string string "int option" int bool
  | GetPod string string
  | DeleteSecret string string
  | ListFailedPods
  | GetJob string string
  | DeleteJob string string
  | CreateJob string string "string list"
  | DeleteConfigMap string string
  | DeleteDeployment string string
  | DeleteService string string
  | CreateConfigMap string string "(string \<times> string) list"
  | CreateFnBuilderPod string string string bool
  | GetClusterIp string string
  | ApplyConfigMap string string string
  | ApplyDeployment string string
  | ApplyService string string int

datatype k8s_answer =
    Refused string
  | Accepted
  | Names "string list"
  | ReadyReplicas "int option"
  | JobResult string int
  | PodState "(string option \<times> bool) option"
  | FailedPods "(string \<times> string) list"
  | JobCounts "(int option \<times> int option) option"
  | ClusterIp "string option"

text \<open>
  The alerts posted to the webhooks of a project, by the form the receiver expects:
  the URL, then what the document carries.
\<close>

datatype alert =
    DiscordAlert string uuid string string instant
  | SlackAlert string uuid string string instant
  | PlainAlert string uuid uuid string string instant

text \<open>
  What is asked of the disk of the host, by path or by what the directory belongs to, and the requests sent
  to GitHub, to the DNS service, to the image registry and to the object store.
\<close>

datatype host_call =
    RemoveBucketDir uuid string bucket_access
  | RemoveBackupDir uuid
  | CreateVolumeDir string
  | RegisterHook string string string
  | CreateDnsRecord string string string bool string
  | DeleteDnsRecord string string string
  | RegistryGet string
  | RegistryDelete string
  | PathKind path
  | ReadDir path
  | Metadata path
  | ReadFile path
  | OpenFile path
  | CreateDirs path
  | WriteFile path string
  | AppendFile path string
  | RemoveFile path
  | RemoveTree path
  | S3Delete string
  | RunSshKeygen "string list"

text \<open>
  The answer of the DNS service to the request with the number of the calls before it: it is not reached, it answers with
  a failure and a body, with a body that cannot be read, or with the identifier of the record.
\<close>

datatype dns_answer = DnsUnsent string | DnsError string string | DnsUnreadable string | DnsAccepted string

text \<open>
  The answer of the host or of the registry to the request with the number of the calls before it: a failure; success;
  the kind of a path (nothing there, or whether it is a directory); the names of the entries of a directory; the metadata of a
  path (whether it is a directory, its length and the seconds of its last change); an HTTP response with its success, the
  digest in its header and its document; the text a file or a command gives; the complaint of a command that failed.
\<close>

datatype host_answer =
    HostFailed string
  | HostDone
  | KindOf "bool option"
  | Entries "string list"
  | MetadataOf bool int int
  | HttpReply bool "string option" "json option"
  | TextOf string
  | Exited string

section \<open>Events\<close>

text \<open>\<open>utils/event_broadcaster.rs\<close>: what is sent to the open web sockets.\<close>

datatype system_event =
    InstanceStatusChanged uuid uuid string string
  | DatabaseStatusChanged uuid uuid string string
  | IncidentCreated uuid uuid uuid string
  | CronJobUpdated uuid cron_job
  | CronJobDeleted uuid uuid
  | CronJobLogCreated uuid uuid cron_job_log
  | BuildStatusChanged uuid uuid uuid string string
  | ServerlessFunctionUpdated uuid serverless_instance
  | ServerlessFunctionDeleted uuid uuid
  | StorageObjectUpdated uuid uuid uuid string

section \<open>External functions\<close>

text \<open>The claims of an end user's token; \<open>ac_extra\<close> are the members flattened into the document.\<close>

record app_user_claims =
  ac_sub :: uuid
  ac_baas_id :: uuid
  ac_identifier :: string
  ac_roles :: "string list"
  ac_permissions :: "string list"
  ac_iat :: int
  ac_exp :: int
  ac_jti :: uuid
  ac_extra :: "(string \<times> json) list"

text \<open>
  Code that is not part of the repository: AES-GCM with base64 (\<open>seal\<close>, \<open>unseal\<close>),
  Argon2 (\<open>pw_hash\<close> with its salt, \<open>pw_verify\<close>, \<open>None\<close> for a malformed hash), SHA-256 in
  hexadecimal, the HS256 signature of a token (\<open>jwt_sign\<close>) and its verification at an instant,
  which includes the expiry (\<open>jwt_decode\<close>); the tokens of end users take the secret of their service, before the token.
\<close>

record claims =
  c_sub :: uuid
  c_username :: string
  c_email :: string
  c_status :: user_status
  c_is_super_admin :: bool
  c_current_workspace_id :: "uuid option"
  c_exp :: int

record externals =
  seal :: "string \<Rightarrow> string \<Rightarrow> string option"
  unseal :: "string \<Rightarrow> string \<Rightarrow> string option"
  pw_hash :: "string \<Rightarrow> string \<Rightarrow> string option"
  pw_verify :: "string \<Rightarrow> string \<Rightarrow> bool option"
  sha256_hex :: "string \<Rightarrow> string"
  jwt_sign :: "claims \<Rightarrow> string"
  jwt_decode :: "instant \<Rightarrow> string \<Rightarrow> claims option"
  app_jwt_sign :: "app_user_claims \<Rightarrow> string \<Rightarrow> string option"
  app_jwt_decode :: "instant \<Rightarrow> string \<Rightarrow> string \<Rightarrow> app_user_claims option"
  cron_next :: "string \<Rightarrow> instant \<Rightarrow> instant option"
  cron_error :: "string \<Rightarrow> string option"

section \<open>The world\<close>

text \<open>
  Advisory locks live in the database server: two key spaces that never meet, a holding
  session (one pinned connection) and how many times it took the lock.
\<close>

datatype lock_key = BigKey int | PairKey int int

type_synonym session = nat

record world =
  db :: database
  advisory :: "lock_key \<Rightarrow> (session \<times> nat) option"
  clock :: instant
  faults :: "bool list"
  random_uuid :: "nat \<Rightarrow> uuid"
  random_text :: "nat \<Rightarrow> string"
  random_u32 :: "nat \<Rightarrow> nat"
  drawn :: nat
  k8s_calls :: "k8s_call list"
  k8s_reply :: "nat \<Rightarrow> k8s_answer"
  host_calls :: "host_call list"
  dns_reply :: "nat \<Rightarrow> dns_answer"
  host_reply :: "nat \<Rightarrow> host_answer"
  alerts :: "alert list"
  events :: "system_event list"
  env_var :: "string \<Rightarrow> string option"
  ext :: externals

type_synonym 'a stmt = "(world, sqlx_error, 'a) act"
type_synonym 'a handler = "(world, app_error, 'a) act"

subsection \<open>Database statements\<close>

text \<open>The next statement fails.\<close>

definition next_fails :: "world \<Rightarrow> bool" where
  "next_fails w \<longleftrightarrow> faults w \<noteq> [] \<and> hd (faults w)"

text \<open>
  One statement: it fails when the next entry of \<open>faults\<close> says so (a lost connection, an
  exhausted pool), leaving the tables alone; otherwise it runs and may still be refused by
  the database.
\<close>

definition sql :: "(world \<Rightarrow> sqlx_error + 'a \<times> database) \<Rightarrow> 'a stmt" where
  "sql g w =
     (let w1 = w\<lparr>faults := tl (faults w)\<rparr> in
      if next_fails w then (Inl (OtherSqlx ''io''), w1)
      else (case g w1 of
              Inl e \<Rightarrow> (Inl e, w1)
            | Inr (x, d) \<Rightarrow> (Inr x, w1\<lparr>db := d\<rparr>)))"

text \<open>A \<open>SELECT\<close>: \<open>fetch_all\<close>, \<open>fetch_optional\<close> or the value of a scalar.\<close>

definition fetch :: "(world \<Rightarrow> 'a) \<Rightarrow> 'a stmt" where
  "fetch g = sql (\<lambda>w. Inr (g w, db w))"

text \<open>A \<open>SELECT\<close> whose evaluation the database may refuse (a numeric overflow).\<close>

definition fetchTry :: "(world \<Rightarrow> sqlx_error + 'a) \<Rightarrow> 'a stmt" where
  "fetchTry g = sql (\<lambda>w. case g w of Inl e \<Rightarrow> Inl e | Inr x \<Rightarrow> Inr (x, db w))"

text \<open>\<open>fetch_one\<close>: \<open>RowNotFound\<close> when there is no row.\<close>

definition fetchOne :: "(world \<Rightarrow> 'a option) \<Rightarrow> 'a stmt" where
  "fetchOne g = sql (\<lambda>w. case g w of None \<Rightarrow> Inl RowNotFound | Some x \<Rightarrow> Inr (x, db w))"

text \<open>An \<open>UPDATE\<close>, \<open>DELETE\<close> or unconstrained \<open>INSERT\<close>, with its result.\<close>

definition execute :: "(world \<Rightarrow> database) \<Rightarrow> unit stmt" where
  "execute g = sql (\<lambda>w. Inr ((), g w))"

definition executing :: "(world \<Rightarrow> 'a \<times> database) \<Rightarrow> 'a stmt" where
  "executing g = sql (\<lambda>w. Inr (g w))"

text \<open>A statement a constraint may reject.\<close>

definition checked :: "(world \<Rightarrow> sqlx_error option) \<Rightarrow> (world \<Rightarrow> database) \<Rightarrow> unit stmt" where
  "checked c g = sql (\<lambda>w. case c w of Some e \<Rightarrow> Inl e | None \<Rightarrow> Inr ((), g w))"

definition conflict_on :: "string \<Rightarrow> sqlx_error" where
  "conflict_on c = Database unique_violation (Some c)"

definition fk_error :: sqlx_error where
  "fk_error = Database foreign_key_violation None"

text \<open>The \<open>?\<close> of a handler on a statement: the error becomes an \<open>AppError\<close>.\<close>

definition query :: "'a stmt \<Rightarrow> 'a handler" where
  "query m = mapErr from_sqlx m"

text \<open>
  A transaction: the body's early return drops it, which restores the tables; reaching the
  end commits, a statement of its own. Everything outside the database stays done.
\<close>

definition tx_stmt :: "unit handler" where
  "tx_stmt = query (fetch (\<lambda>_. ()))"

definition transaction :: "'a handler \<Rightarrow> 'a handler" where
  "transaction body w =
     (case tx_stmt w of
        (Inl e, w1) \<Rightarrow> (Inl e, w1)
      | (Inr _, w1) \<Rightarrow>
          (case body w1 of
             (Inl e, w2) \<Rightarrow> (Inl e, w2\<lparr>db := db w1\<rparr>)
           | (Inr x, w2) \<Rightarrow>
               (case tx_stmt w2 of
                  (Inl e, w3) \<Rightarrow> (Inl e, w3\<lparr>db := db w1\<rparr>)
                | (Inr _, w3) \<Rightarrow> (Inr x, w3))))"

subsection \<open>Randomness, time, events, the cluster\<close>

definition new_v4 :: "(world, 'e, uuid) act" where
  "new_v4 w = (Inr (random_uuid w (drawn w)), w\<lparr>drawn := Suc (drawn w)\<rparr>)"

definition random_string :: "(world, 'e, string) act" where
  "random_string w = (Inr (random_text w (drawn w)), w\<lparr>drawn := Suc (drawn w)\<rparr>)"

definition now :: "(world, 'e, instant) act" where
  "now = readState clock"

definition broadcast_event :: "system_event \<Rightarrow> (world, 'e, unit) act" where
  "broadcast_event ev = modifyState (\<lambda>w. w\<lparr>events := events w @ [ev]\<rparr>)"

definition k8s :: "k8s_call \<Rightarrow> (world, 'e, k8s_answer) act" where
  "k8s c w = (Inr (k8s_reply w (length (k8s_calls w))), w\<lparr>k8s_calls := k8s_calls w @ [c]\<rparr>)"

text \<open>A call whose refusal is an \<open>AppError::Infrastructure\<close>.\<close>

definition k8s_do :: "k8s_call \<Rightarrow> unit handler" where
  "k8s_do c = andThen (k8s c) (\<lambda>a. case a of Refused m \<Rightarrow> raise (Infrastructure m) | _ \<Rightarrow> ret ())"

text \<open>\<open>K8sManager::get_client\<close>.\<close>

definition get_client :: "unit handler" where
  "get_client = andThen (k8s GetClient) (\<lambda>a.
     case a of Refused m \<Rightarrow> raise (Infrastructure (''Failed to connect to K3s cluster: '' @ m)) | _ \<Rightarrow> ret ())"

text \<open>A request to the host or to another service, the result ignored.\<close>

definition host :: "host_call \<Rightarrow> (world, 'e, unit) act" where
  "host c = modifyState (\<lambda>w. w\<lparr>host_calls := host_calls w @ [c]\<rparr>)"

definition dns :: "host_call \<Rightarrow> (world, 'e, dns_answer) act" where
  "dns c w = (Inr (dns_reply w (length (host_calls w))), w\<lparr>host_calls := host_calls w @ [c]\<rparr>)"

text \<open>A request to the host or to the registry whose answer is read.\<close>

definition ask :: "host_call \<Rightarrow> (world, 'e, host_answer) act" where
  "ask c w = (Inr (host_reply w (length (host_calls w))), w\<lparr>host_calls := host_calls w @ [c]\<rparr>)"

definition post_alert :: "alert \<Rightarrow> (world, 'e, unit) act" where
  "post_alert a = modifyState (\<lambda>w. w\<lparr>alerts := alerts w @ [a]\<rparr>)"

definition ws_namespace :: "uuid \<Rightarrow> string" where
  "ws_namespace ws = ''hermes-ws-'' @ uuid_str ws"

lemma answers_draws [answer_intros]:
  "answers new_v4" "answers random_string" "answers now" "answers (broadcast_event ev)" "answers (k8s c)"
  "answers (host h)" "answers (dns h)" "answers (ask h)" "answers (post_alert a)"
  by (simp_all add: answers_def new_v4_def random_string_def now_def readState_def broadcast_event_def modifyState_def
    k8s_def host_def dns_def ask_def post_alert_def)

lemma ws_namespace_inj: "ws_namespace u = ws_namespace v \<longleftrightarrow> u = v"
  by (simp add: ws_namespace_def uuid_str_inj)

subsection \<open>Encryption of stored values (\<open>utils/crypto.rs\<close>)\<close>

definition encrypt_env_value :: "string \<Rightarrow> (string \<times> string) handler" where
  "encrypt_env_value plain =
     andThen random_string (\<lambda>nonce.
     andThen (readState (\<lambda>w. seal (ext w) plain nonce)) (\<lambda>c.
       case c of None \<Rightarrow> raise (Fatal (FromText ''Encryption failed''))
       | Some enc \<Rightarrow> ret (enc, nonce)))"

definition decrypt_env_value :: "string \<Rightarrow> string \<Rightarrow> string handler" where
  "decrypt_env_value enc nonce =
     andThen (readState (\<lambda>w. unseal (ext w) enc nonce)) (\<lambda>p.
       case p of None \<Rightarrow> raise (Permission ''Decryption rejected'') | Some t \<Rightarrow> ret t)"

definition hash_password :: "string \<Rightarrow> string handler" where
  "hash_password pw =
     andThen random_string (\<lambda>salt.
     andThen (readState (\<lambda>w. pw_hash (ext w) pw salt)) (\<lambda>h.
       case h of None \<Rightarrow> raise (Fatal (FromText ''Password hashing failed'')) | Some t \<Rightarrow> ret t))"

definition verify_password :: "string \<Rightarrow> string \<Rightarrow> bool handler" where
  "verify_password pw h =
     andThen (readState (\<lambda>w. pw_verify (ext w) pw h)) (\<lambda>r.
       case r of None \<Rightarrow> raise (Auth ''Invalid password hash format'') | Some b \<Rightarrow> ret b)"

lemma next_fails_Nil [simp]: "faults w = [] \<Longrightarrow> \<not> next_fails w"
  by (simp add: next_fails_def)

lemma next_fails_update [simp]:
  "next_fails (w\<lparr>db := d\<rparr>) = next_fails w"
  "next_fails (w\<lparr>drawn := n\<rparr>) = next_fails w"
  "next_fails (w\<lparr>clock := t\<rparr>) = next_fails w"
  "next_fails (w\<lparr>advisory := a\<rparr>) = next_fails w"
  "next_fails (w\<lparr>events := es\<rparr>) = next_fails w"
  "next_fails (w\<lparr>k8s_calls := ks\<rparr>) = next_fails w"
  "next_fails (w\<lparr>host_calls := hs\<rparr>) = next_fails w"
  "next_fails (w\<lparr>alerts := as\<rparr>) = next_fails w"
  "next_fails (w\<lparr>faults := []\<rparr>) = False"
  "next_fails (w\<lparr>faults := b # fs\<rparr>) = b"
  by (simp_all add: next_fails_def)

lemmas world_defs = sql_def fetch_def fetchTry_def fetchOne_def execute_def executing_def checked_def
  query_def new_v4_def random_string_def now_def broadcast_event_def k8s_def k8s_do_def

declare world_defs [act_simps]

section \<open>Statements when nothing fails\<close>

lemma faults_idle [simp]: "faults w = [] \<Longrightarrow> w\<lparr>faults := []\<rparr> = w"
  by simp

lemma sql_ok:
  "faults w = [] \<Longrightarrow> sql g w = (case g w of Inl e \<Rightarrow> (Inl e, w) | Inr (x, d) \<Rightarrow> (Inr x, w\<lparr>db := d\<rparr>))"
  by (simp add: sql_def)

lemma fetch_ok: "faults w = [] \<Longrightarrow> fetch g w = (Inr (g w), w)"
  by (simp add: fetch_def sql_ok)

lemma fetchTry_ok:
  "faults w = [] \<Longrightarrow> fetchTry g w = (case g w of Inl e \<Rightarrow> (Inl e, w) | Inr x \<Rightarrow> (Inr x, w))"
  by (simp add: fetchTry_def sql_ok split: sum.split)

lemma fetchOne_ok:
  "faults w = [] \<Longrightarrow> fetchOne g w = (case g w of None \<Rightarrow> (Inl RowNotFound, w) | Some x \<Rightarrow> (Inr x, w))"
  by (simp add: fetchOne_def sql_ok split: option.split)

lemma execute_ok: "faults w = [] \<Longrightarrow> execute g w = (Inr (), w\<lparr>db := g w\<rparr>)"
  by (simp add: execute_def sql_ok)

lemma executing_ok: "faults w = [] \<Longrightarrow> executing g w = (Inr (fst (g w)), w\<lparr>db := snd (g w)\<rparr>)"
  by (simp add: executing_def sql_ok split: prod.split)

lemma checked_ok:
  "faults w = [] \<Longrightarrow> checked c g w = (case c w of None \<Rightarrow> (Inr (), w\<lparr>db := g w\<rparr>) | Some e \<Rightarrow> (Inl e, w))"
  by (simp add: checked_def sql_ok split: option.split)

lemma tx_stmt_ok: "faults w = [] \<Longrightarrow> tx_stmt w = (Inr (), w)"
  by (simp add: tx_stmt_def query_def mapErr_def fetch_ok)

lemma transaction_ok:
  assumes "faults w = []" "body w = (r, w')" "faults w' = []"
  shows "transaction body w = (case r of Inl e \<Rightarrow> (Inl e, w'\<lparr>db := db w\<rparr>) | Inr x \<Rightarrow> (Inr x, w'))"
  using assms by (simp add: transaction_def tx_stmt_ok split: sum.split)

lemmas fault_free = fetch_ok fetchTry_ok fetchOne_ok execute_ok executing_ok checked_ok tx_stmt_ok

lemmas run_simps = act_defs query_def new_v4_def random_string_def now_def broadcast_event_def
  k8s_def k8s_do_def fault_free

section \<open>Stepping through a handler\<close>

text \<open>
  One rewrite per kind of first statement, for a world in which no statement fails: a
  handler is run statement by statement without unfolding the sequencing itself.
\<close>

named_theorems step_simps \<open>the first statement of a handler is run\<close>

lemma andThen_run: "m w = (Inr x, w1) \<Longrightarrow> andThen m f w = f x w1"
  by (simp add: andThen_def)

lemma andThen_stop: "m w = (Inl e, w1) \<Longrightarrow> andThen m f w = (Inl e, w1)"
  by (simp add: andThen_def)

lemma ret_step [step_simps]: "ret x w = (Inr x, w)"
  by (simp add: ret_def)

lemma raise_step [step_simps]: "raise e w = (Inl e, w)"
  by (simp add: raise_def)

lemma andThen_ret [step_simps]: "andThen (ret x) f w = f x w"
  by (simp add: andThen_def ret_def)

lemma andThen_raise [step_simps]: "andThen (raise e) f w = (Inl e, w)"
  by (simp add: andThen_def raise_def)

lemma andThen_assoc: "andThen (andThen m f) g = andThen m (\<lambda>x. andThen (f x) g)"
  by (auto simp: andThen_def fun_eq_iff split: sum.split prod.split)

lemma andThen_readState [step_simps]: "andThen (readState g) f w = f (g w) w"
  by (simp add: andThen_def readState_def)

lemma andThen_now [step_simps]: "andThen now f w = f (clock w) w"
  by (simp add: now_def andThen_readState)

lemma andThen_k8s [step_simps]:
  "andThen (k8s c) f w = f (k8s_reply w (length (k8s_calls w))) (w\<lparr>k8s_calls := k8s_calls w @ [c]\<rparr>)"
  by (simp add: andThen_def k8s_def)

lemma andThen_new_v4 [step_simps]:
  "andThen new_v4 f w = f (random_uuid w (drawn w)) (w\<lparr>drawn := Suc (drawn w)\<rparr>)"
  by (simp add: andThen_def new_v4_def)

lemma andThen_random_string [step_simps]:
  "andThen random_string f w = f (random_text w (drawn w)) (w\<lparr>drawn := Suc (drawn w)\<rparr>)"
  by (simp add: andThen_def random_string_def)

lemma andThen_broadcast [step_simps]:
  "andThen (broadcast_event ev) f w = f () (w\<lparr>events := events w @ [ev]\<rparr>)"
  by (simp add: andThen_def broadcast_event_def modifyState_def)

lemma broadcast_step [step_simps]: "broadcast_event ev w = (Inr (), w\<lparr>events := events w @ [ev]\<rparr>)"
  by (simp add: broadcast_event_def modifyState_def)

lemma andThen_host [step_simps]:
  "andThen (host c) f w = f () (w\<lparr>host_calls := host_calls w @ [c]\<rparr>)"
  by (simp add: andThen_def host_def modifyState_def)

lemma dns_step [step_simps]:
  "dns c w = (Inr (dns_reply w (length (host_calls w))), w\<lparr>host_calls := host_calls w @ [c]\<rparr>)"
  "andThen (dns c) f w = f (dns_reply w (length (host_calls w))) (w\<lparr>host_calls := host_calls w @ [c]\<rparr>)"
  by (simp_all add: andThen_def dns_def)

lemma ask_step [step_simps]:
  "ask c w = (Inr (host_reply w (length (host_calls w))), w\<lparr>host_calls := host_calls w @ [c]\<rparr>)"
  "andThen (ask c) f w = f (host_reply w (length (host_calls w))) (w\<lparr>host_calls := host_calls w @ [c]\<rparr>)"
  by (simp_all add: andThen_def ask_def)

lemma host_step [step_simps]: "host c w = (Inr (), w\<lparr>host_calls := host_calls w @ [c]\<rparr>)"
  by (simp add: host_def modifyState_def)

lemma andThen_post_alert [step_simps]:
  "andThen (post_alert a) f w = f () (w\<lparr>alerts := alerts w @ [a]\<rparr>)"
  by (simp add: andThen_def post_alert_def modifyState_def)

lemma andThen_okOr [step_simps]:
  "andThen (okOr e (Some x)) f w = f x w" "andThen (okOr e None) f w = (Inl e, w)"
  by (simp_all add: okOr_def step_simps)

lemma andThen_rejectIf [step_simps]:
  "andThen (rejectIf b e) f w = (if b then (Inl e, w) else f () w)"
  by (simp add: rejectIf_def step_simps)

lemma andThen_query_fetch [step_simps]: "faults w = [] \<Longrightarrow> andThen (query (fetch g)) f w = f (g w) w"
  by (simp add: andThen_def query_def mapErr_def fetch_ok)

lemma andThen_attempt_fetch [step_simps]:
  "faults w = [] \<Longrightarrow> andThen (attempt (fetch g)) f w = f (Inr (g w)) w"
  by (simp add: andThen_def attempt_def fetch_ok)

lemma andThen_orElse_fetch [step_simps]: "faults w = [] \<Longrightarrow> andThen (orElse (fetch g) d) f w = f (g w) w"
  by (simp add: andThen_def orElse_def fetch_ok)

lemma andThen_query_execute [step_simps]:
  "faults w = [] \<Longrightarrow> andThen (query (execute g)) f w = f () (w\<lparr>db := g w\<rparr>)"
  by (simp add: andThen_def query_def mapErr_def execute_ok)

lemma query_execute_step [step_simps]: "faults w = [] \<Longrightarrow> query (execute g) w = (Inr (), w\<lparr>db := g w\<rparr>)"
  by (simp add: query_def mapErr_def execute_ok)

lemma andThen_query_executing [step_simps]:
  "faults w = [] \<Longrightarrow> andThen (query (executing g)) f w = f (fst (g w)) (w\<lparr>db := snd (g w)\<rparr>)"
  by (simp add: andThen_def query_def mapErr_def executing_ok)

lemma andThen_discard_execute [step_simps]:
  "faults w = [] \<Longrightarrow> andThen (discard (execute g)) f w = f () (w\<lparr>db := g w\<rparr>)"
  by (simp add: andThen_def discard_def execute_ok)

lemma discard_execute_step [step_simps]: "faults w = [] \<Longrightarrow> discard (execute g) w = (Inr (), w\<lparr>db := g w\<rparr>)"
  by (simp add: discard_def execute_ok)

lemma andThen_discard_checked [step_simps]:
  "faults w = [] \<Longrightarrow> andThen (discard (checked c g)) f w = f () (if c w = None then w\<lparr>db := g w\<rparr> else w)"
  by (simp add: andThen_def discard_def checked_ok split: option.split)

lemma andThen_query_checked [step_simps]:
  "faults w = [] \<Longrightarrow> andThen (query (checked c g)) f w =
     (case c w of None \<Rightarrow> f () (w\<lparr>db := g w\<rparr>) | Some e \<Rightarrow> (Inl (from_sqlx e), w))"
  by (simp add: andThen_def query_def mapErr_def checked_ok split: option.split)

lemma query_checked_step [step_simps]:
  "faults w = [] \<Longrightarrow> query (checked c g) w =
     (case c w of None \<Rightarrow> (Inr (), w\<lparr>db := g w\<rparr>) | Some e \<Rightarrow> (Inl (from_sqlx e), w))"
  by (simp add: query_def mapErr_def checked_ok split: option.split)

lemma andThen_query_fetchOne [step_simps]:
  "faults w = [] \<Longrightarrow> andThen (query (fetchOne g)) f w =
     (case g w of None \<Rightarrow> (Inl (from_sqlx RowNotFound), w) | Some x \<Rightarrow> f x w)"
  by (simp add: andThen_def query_def mapErr_def fetchOne_ok split: option.split)

lemma andThen_fetch [step_simps]: "faults w = [] \<Longrightarrow> andThen (fetch g) f w = f (g w) w"
  by (simp add: andThen_def fetch_ok)

lemma andThen_execute [step_simps]: "faults w = [] \<Longrightarrow> andThen (execute g) f w = f () (w\<lparr>db := g w\<rparr>)"
  by (simp add: andThen_def execute_ok)

lemma execute_step [step_simps]: "faults w = [] \<Longrightarrow> execute g w = (Inr (), w\<lparr>db := g w\<rparr>)"
  by (rule execute_ok)

lemma andThen_executing [step_simps]:
  "faults w = [] \<Longrightarrow> andThen (executing g) f w = f (fst (g w)) (w\<lparr>db := snd (g w)\<rparr>)"
  by (simp add: andThen_def executing_ok)

lemma andThen_checked [step_simps]:
  "faults w = [] \<Longrightarrow> andThen (checked c g) f w =
     (case c w of None \<Rightarrow> f () (w\<lparr>db := g w\<rparr>) | Some e \<Rightarrow> (Inl e, w))"
  by (simp add: andThen_def checked_ok split: option.split)

lemma andThen_sql [step_simps]:
  "faults w = [] \<Longrightarrow> andThen (sql g) f w = (case g w of Inl e \<Rightarrow> (Inl e, w) | Inr (x, d) \<Rightarrow> f x (w\<lparr>db := d\<rparr>))"
  by (simp add: andThen_def sql_ok split: sum.split)

lemma andThen_result: "m w = (r, w1) \<Longrightarrow> andThen m f w = (case r of Inl e \<Rightarrow> (Inl e, w1) | Inr x \<Rightarrow> f x w1)"
  by (simp add: andThen_def split: sum.split)

lemma andThen_discard: "andThen (discard m) f w = f () (snd (m w))"
  by (simp add: andThen_def discard_def split: prod.split)

lemma andThen_query_fetchTry [step_simps]:
  "faults w = [] \<Longrightarrow> andThen (query (fetchTry g)) f w = (case g w of Inl e \<Rightarrow> (Inl (from_sqlx e), w) | Inr x \<Rightarrow> f x w)"
  by (simp add: andThen_def query_def mapErr_def fetchTry_ok split: sum.split)

lemma post_alert_step [step_simps]: "post_alert a w = (Inr (), w\<lparr>alerts := alerts w @ [a]\<rparr>)"
  by (simp add: post_alert_def modifyState_def)

lemma forEach_step [step_simps]:
  "forEach [] f w = (Inr (), w)" "forEach (x # xs) f w = andThen (f x) (\<lambda>_. forEach xs f) w"
  by (simp_all add: ret_def)

text \<open>A loop whose every turn succeeds runs through, folding the turns over the state.\<close>

lemma forEach_run:
  assumes "\<And>x v. x \<in> set xs \<Longrightarrow> P v \<Longrightarrow> f x v = (Inr (), g x v) \<and> P (g x v)" "P w"
  shows "forEach xs f w = (Inr (), fold g xs w) \<and> P (fold g xs w)"
  using assms by (induction xs arbitrary: w) (simp_all add: andThen_def ret_def)

lemma andThen_onlyIf_False [step_simps]: "andThen (onlyIf False m) f w = f () w"
  by (simp add: onlyIf_def step_simps)

lemma andThen_onlyIf_True [step_simps]: "andThen (onlyIf True m) f w = andThen m f w"
  by (simp add: onlyIf_def)

section \<open>Frame rules\<close>

text \<open>A predicate of the tables only: a statement keeps it when its effect on the tables does.\<close>

definition db_only :: "(world \<Rightarrow> bool) \<Rightarrow> bool" where
  "db_only P \<longleftrightarrow> (\<forall>w w'. db w = db w' \<longrightarrow> P w = P w')"

lemma db_only_db [simp]: "db_only (\<lambda>w. I (db w))"
  by (simp add: db_only_def)

lemma sql_result:
  "sql g w = (r, w') \<Longrightarrow>
     (db w' = db w \<or> (\<exists>x d. g (w\<lparr>faults := tl (faults w)\<rparr>) = Inr (x, d) \<and> db w' = d \<and> r = Inr x))
     \<and> clock w' = clock w \<and> ext w' = ext w \<and> k8s_calls w' = k8s_calls w \<and> events w' = events w
     \<and> drawn w' = drawn w \<and> random_uuid w' = random_uuid w \<and> random_text w' = random_text w
     \<and> random_u32 w' = random_u32 w \<and> advisory w' = advisory w \<and> env_var w' = env_var w \<and> k8s_reply w' = k8s_reply w"
  by (auto simp: sql_def Let_def split: if_splits sum.splits prod.splits)

lemma keeps_fetch [keeps_intros]: "keeps (\<lambda>w. I (db w)) (fetch g)"
  by (auto simp: keeps_def fetch_def sql_def Let_def)

lemma keeps_fetchOne [keeps_intros]: "keeps (\<lambda>w. I (db w)) (fetchOne g)"
  by (auto simp: keeps_def fetchOne_def sql_def Let_def split: option.splits)

lemma keeps_fetchTry [keeps_intros]: "keeps (\<lambda>w. I (db w)) (fetchTry g)"
  by (auto simp: keeps_def fetchTry_def sql_def Let_def split: sum.splits)

lemma keeps_execute:
  "(\<And>w. I (db w) \<Longrightarrow> I (g w)) \<Longrightarrow> keeps (\<lambda>w. I (db w)) (execute g)"
  by (auto simp: keeps_def execute_def sql_def Let_def)

lemma keeps_executing:
  assumes "\<And>w. I (db w) \<Longrightarrow> I (snd (g w))"
  shows "keeps (\<lambda>w. I (db w)) (executing g)"
proof (rule keepsI)
  fix w :: world assume "I (db w)"
  then have "I (snd (g (w\<lparr>faults := tl (faults w)\<rparr>)))" by (intro assms) simp
  with \<open>I (db w)\<close> show "I (db (snd (executing g w)))"
    by (cases "g (w\<lparr>faults := tl (faults w)\<rparr>)") (simp add: executing_def sql_def Let_def)
qed

lemma keeps_checked:
  "(\<And>w. I (db w) \<Longrightarrow> c w = None \<Longrightarrow> I (g w)) \<Longrightarrow> keeps (\<lambda>w. I (db w)) (checked c g)"
  by (auto simp: keeps_def checked_def sql_def Let_def split: option.splits)

lemma keeps_query [keeps_intros]: "keeps P m \<Longrightarrow> keeps P (query m)"
  by (simp add: query_def keeps_mapErr)

lemma keeps_new_v4 [keeps_intros]: "keeps (\<lambda>w. I (db w)) new_v4"
  by (simp add: keeps_def new_v4_def)

lemma keeps_random_string [keeps_intros]: "keeps (\<lambda>w. I (db w)) random_string"
  by (simp add: keeps_def random_string_def)

lemma keeps_now [keeps_intros]: "keeps P now"
  by (simp add: now_def keeps_readState)

lemma keeps_broadcast_event [keeps_intros]: "keeps (\<lambda>w. I (db w)) (broadcast_event ev)"
  by (simp add: keeps_def broadcast_event_def modifyState_def)

lemma keeps_dns [keeps_intros]: "keeps (\<lambda>w. I (db w)) (dns c)"
  by (simp add: keeps_def dns_def)

lemma keeps_ask [keeps_intros]: "keeps (\<lambda>w. I (db w)) (ask c)"
  by (simp add: keeps_def ask_def)

lemma keeps_host [keeps_intros]: "keeps (\<lambda>w. I (db w)) (host c)"
  by (simp add: keeps_def host_def modifyState_def)

lemma keeps_post_alert [keeps_intros]: "keeps (\<lambda>w. I (db w)) (post_alert a)"
  by (simp add: keeps_def post_alert_def modifyState_def)

lemma keeps_k8s [keeps_intros]: "keeps (\<lambda>w. I (db w)) (k8s c)"
  by (simp add: keeps_def k8s_def)

lemma keeps_k8s_do [keeps_intros]: "keeps (\<lambda>w. I (db w)) (k8s_do c)"
  unfolding k8s_do_def
  by (intro keeps_intros) (simp split: k8s_answer.split add: keeps_raise keeps_ret)

lemma keeps_get_client [keeps_intros]: "keeps (\<lambda>w. I (db w)) get_client"
  unfolding get_client_def by (intro keeps_intros) (simp split: k8s_answer.split add: keeps_raise keeps_ret)

lemma keeps_encrypt_env_value [keeps_intros]: "keeps (\<lambda>w. I (db w)) (encrypt_env_value p)"
  unfolding encrypt_env_value_def by (intro keeps_intros)

lemma keeps_decrypt_env_value [keeps_intros]: "keeps (\<lambda>w. I (db w)) (decrypt_env_value e n)"
  unfolding decrypt_env_value_def by (intro keeps_intros)

lemma keeps_hash_password [keeps_intros]: "keeps (\<lambda>w. I (db w)) (hash_password p)"
  unfolding hash_password_def by (intro keeps_intros)

lemma keeps_verify_password [keeps_intros]: "keeps (\<lambda>w. I (db w)) (verify_password p h)"
  unfolding verify_password_def by (intro keeps_intros)

lemma db_tx_stmt: "tx_stmt w = (r, w') \<Longrightarrow> db w' = db w"
  by (auto simp: tx_stmt_def query_def mapErr_def fetch_def sql_def Let_def split: if_splits)

lemma keeps_transaction [keeps_intros]:
  assumes "keeps (\<lambda>w. I (db w)) body"
  shows "keeps (\<lambda>w. I (db w)) (transaction body)"
proof (rule keepsI)
  fix w :: world assume I: "I (db w)"
  obtain r1 w1 where 1: "tx_stmt w = (r1, w1)" by fastforce
  obtain r2 w2 where 2: "body w1 = (r2, w2)" by fastforce
  obtain r3 w3 where 3: "tx_stmt w2 = (r3, w3)" by fastforce
  have "I (db w1)" using I db_tx_stmt [OF 1] by simp
  moreover from this have "I (db w2)" using keeps_step [OF assms _ 2] by simp
  moreover from this have "I (db w3)" using db_tx_stmt [OF 3] by simp
  ultimately show "I (db (snd (transaction body w)))"
    by (simp add: transaction_def 1 2 3 split: sum.split)
qed

text \<open>A transaction that reports an error changed no table.\<close>

lemma transaction_error_db:
  assumes "transaction body w = (Inl e, w')"
  shows "db w' = db w"
proof -
  obtain r1 w1 where 1: "tx_stmt w = (r1, w1)" by fastforce
  obtain r2 w2 where 2: "body w1 = (r2, w2)" by fastforce
  obtain r3 w3 where 3: "tx_stmt w2 = (r3, w3)" by fastforce
  show ?thesis
    using assms db_tx_stmt [OF 1]
    by (auto simp: transaction_def 1 2 3 split: sum.splits)
qed

text \<open>
  An action whose errors leave the tables alone: what runs before the first write or the
  transaction only reads, and a transaction rolls back.
\<close>

definition clean_errors :: "'a handler \<Rightarrow> bool" where
  "clean_errors m \<longleftrightarrow> (\<forall>w e w'. m w = (Inl e, w') \<longrightarrow> db w' = db w)"

lemma clean_errorsD: "clean_errors m \<Longrightarrow> m w = (Inl e, w') \<Longrightarrow> db w' = db w"
  by (simp add: clean_errors_def)

named_theorems clean_intros \<open>errors leave the tables alone\<close>

lemma clean_andThen [clean_intros]:
  assumes "\<And>d. keeps (\<lambda>w. db w = d) m" "\<And>x. clean_errors (f x)"
  shows "clean_errors (andThen m f)"
  unfolding clean_errors_def
proof (intro allI impI)
  fix w e w' assume r: "andThen m f w = (Inl e, w')"
  obtain r1 w1 where 1: "m w = (r1, w1)" by fastforce
  have "db w1 = db w" using keeps_step [OF assms(1) refl 1] .
  then show "db w' = db w"
    using r assms(2) by (cases r1) (auto simp: andThen_def 1 clean_errors_def)
qed

lemma clean_keeps:
  assumes "\<And>d. keeps (\<lambda>w. db w = d) m"
  shows "clean_errors m"
  unfolding clean_errors_def using keeps_step [OF assms refl] by blast

lemma clean_transaction [clean_intros]: "clean_errors (transaction body)"
  unfolding clean_errors_def using transaction_error_db by blast

lemma clean_query_sql:
  "clean_errors (query (sql g))"
  by (auto simp: clean_errors_def query_def mapErr_def sql_def Let_def split: sum.splits)

lemma clean_statements [clean_intros]:
  "clean_errors (query (execute a))" "clean_errors (query (executing b))" "clean_errors (query (checked c d))"
  "clean_errors (ret x)" "clean_errors (rejectIf p e)" "clean_errors (okOr e' y)" "clean_errors (raise e)"
  by (simp_all add: execute_def executing_def checked_def clean_query_sql)
    (auto simp: clean_errors_def ret_def rejectIf_def okOr_def raise_def split: option.splits)

lemma clean_if [clean_intros]:
  "(b \<Longrightarrow> clean_errors m) \<Longrightarrow> (\<not> b \<Longrightarrow> clean_errors n) \<Longrightarrow> clean_errors (if b then m else n)"
  by simp

lemma clean_let [clean_intros]: "(\<And>x. x = t \<Longrightarrow> clean_errors (f x)) \<Longrightarrow> clean_errors (let x = t in f x)"
  by simp

lemma execute_success_db:
  "query (execute g) w = (Inr u, w') \<Longrightarrow> db w' = g (w\<lparr>faults := tl (faults w)\<rparr>)"
  by (auto simp: query_def mapErr_def execute_def sql_def Let_def split: if_splits)

lemma transaction_success_db:
  assumes "transaction body w = (Inr x, w')"
  shows "\<exists>w1 w2. db w1 = db w \<and> body w1 = (Inr x, w2) \<and> db w' = db w2"
proof -
  obtain r1 w1 where 1: "tx_stmt w = (r1, w1)" by fastforce
  obtain r2 w2 where 2: "body w1 = (r2, w2)" by fastforce
  obtain r3 w3 where 3: "tx_stmt w2 = (r3, w3)" by fastforce
  have "r2 = Inr x \<and> w' = w3" using assms by (auto simp: transaction_def 1 2 3 split: sum.splits)
  with db_tx_stmt [OF 1] db_tx_stmt [OF 3] 2 show ?thesis by metis
qed

text \<open>
  The same for a run in which no statement fails: the pending faults stay empty, the clock,
  the external functions and the advisory locks do not change, and the tables keep \<open>I\<close>.
\<close>

definition setting :: "world \<Rightarrow> instant \<times> externals \<times> (lock_key \<Rightarrow> (session \<times> nat) option)" where
  "setting w = (clock w, ext w, advisory w)"

definition calm :: "instant \<times> externals \<times> (lock_key \<Rightarrow> (session \<times> nat) option) \<Rightarrow> (database \<Rightarrow> bool) \<Rightarrow> world \<Rightarrow> bool" where
  "calm k I w \<longleftrightarrow> faults w = [] \<and> setting w = k \<and> I (db w)"

lemma setting_update [simp]:
  "setting (w\<lparr>db := d\<rparr>) = setting w" "setting (w\<lparr>drawn := n\<rparr>) = setting w"
  "setting (w\<lparr>events := es\<rparr>) = setting w" "setting (w\<lparr>host_calls := hs\<rparr>) = setting w"
  "setting (w\<lparr>alerts := as\<rparr>) = setting w" "setting (w\<lparr>k8s_calls := cs\<rparr>) = setting w"
  by (simp_all add: setting_def)

named_theorems calm_intros \<open>statements keep a calm world\<close>

lemma calm_fetch [calm_intros]: "keeps (calm k I) (fetch g)"
  by (auto simp: keeps_def calm_def fetch_ok)

lemma calm_fetchOne [calm_intros]: "keeps (calm k I) (fetchOne g)"
  by (auto simp: keeps_def calm_def fetchOne_ok split: option.splits)

lemma calm_fetchTry [calm_intros]: "keeps (calm k I) (fetchTry g)"
  by (auto simp: keeps_def calm_def fetchTry_ok split: sum.splits)

lemma calm_execute:
  "(\<And>w. calm k I w \<Longrightarrow> I (g w)) \<Longrightarrow> keeps (calm k I) (execute g)"
  by (auto simp: keeps_def calm_def execute_ok)

lemma calm_executing:
  "(\<And>w. calm k I w \<Longrightarrow> I (snd (g w))) \<Longrightarrow> keeps (calm k I) (executing g)"
  by (auto simp: keeps_def calm_def executing_ok)

lemma calm_checked:
  "(\<And>w. calm k I w \<Longrightarrow> c w = None \<Longrightarrow> I (g w)) \<Longrightarrow> keeps (calm k I) (checked c g)"
  by (auto simp: keeps_def calm_def checked_ok split: option.splits)

lemma calm_new_v4 [calm_intros]: "keeps (calm k I) new_v4"
  by (simp add: keeps_def calm_def new_v4_def)

lemma calm_random_string [calm_intros]: "keeps (calm k I) random_string"
  by (simp add: keeps_def calm_def random_string_def)

lemma calm_broadcast_event [calm_intros]: "keeps (calm k I) (broadcast_event ev)"
  by (simp add: keeps_def calm_def broadcast_event_def modifyState_def)

lemma calm_dns [calm_intros]: "keeps (calm k I) (dns c)"
  by (simp add: keeps_def calm_def setting_def dns_def)

lemma calm_ask [calm_intros]: "keeps (calm k I) (ask c)"
  by (simp add: keeps_def calm_def setting_def ask_def)

lemma calm_host [calm_intros]: "keeps (calm k I) (host c)"
  by (simp add: keeps_def calm_def setting_def host_def modifyState_def)

lemma calm_post_alert [calm_intros]: "keeps (calm k I) (post_alert a)"
  by (simp add: keeps_def calm_def setting_def post_alert_def modifyState_def)

lemma calm_k8s [calm_intros]: "keeps (calm k I) (k8s c)"
  by (simp add: keeps_def calm_def k8s_def)

lemma calm_k8s_do [calm_intros]: "keeps (calm k I) (k8s_do c)"
  unfolding k8s_do_def
  by (intro keeps_intros calm_intros) (simp split: k8s_answer.split add: keeps_raise keeps_ret)

lemma calm_get_client [calm_intros]: "keeps (calm k I) get_client"
  unfolding get_client_def
  by (intro keeps_intros calm_intros) (simp split: k8s_answer.split add: keeps_raise keeps_ret)

lemma calm_encrypt_env_value [calm_intros]: "keeps (calm k I) (encrypt_env_value p)"
  unfolding encrypt_env_value_def by (intro keeps_intros calm_intros)

lemma calm_decrypt_env_value [calm_intros]: "keeps (calm k I) (decrypt_env_value e n)"
  unfolding decrypt_env_value_def by (intro keeps_intros calm_intros)

text \<open>
  The same under any faults: the clock and the external functions do not change while a
  handler runs, nor does the process environment, and the tables keep \<open>I\<close>.
\<close>

definition ambient :: "world \<Rightarrow> instant \<times> externals \<times> (string \<Rightarrow> string option)" where
  "ambient w = (clock w, ext w, env_var w)"

definition steady :: "instant \<times> externals \<times> (string \<Rightarrow> string option) \<Rightarrow> (database \<Rightarrow> bool) \<Rightarrow> world \<Rightarrow> bool" where
  "steady k I w \<longleftrightarrow> ambient w = k \<and> I (db w)"

lemma ambient_update [simp]:
  "ambient (w\<lparr>db := d\<rparr>) = ambient w" "ambient (w\<lparr>drawn := n\<rparr>) = ambient w" "ambient (w\<lparr>faults := fs\<rparr>) = ambient w"
  "ambient (w\<lparr>events := es\<rparr>) = ambient w" "ambient (w\<lparr>k8s_calls := cs\<rparr>) = ambient w"
  "ambient (w\<lparr>host_calls := hs\<rparr>) = ambient w" "ambient (w\<lparr>alerts := as\<rparr>) = ambient w" "ambient (w\<lparr>faults := fs, db := d\<rparr>) = ambient w"
  by (simp_all add: ambient_def)

named_theorems steady_intros \<open>statements keep a steady world\<close>

lemma steady_sql:
  assumes "\<And>w x d. steady k I w \<Longrightarrow> g w = Inr (x, d) \<Longrightarrow> I d"
  shows "keeps (steady k I) (sql g)"
proof (rule keepsI)
  fix w assume w: "steady k I w"
  obtain r w' where r: "sql g w = (r, w')" by fastforce
  have "steady k I (w\<lparr>faults := tl (faults w)\<rparr>)" using w by (simp add: steady_def)
  note I = assms [OF this]
  have "ambient w' = ambient w" using sql_result [OF r] by (simp add: ambient_def)
  moreover have "db w' = db w \<or> I (db w')"
    using sql_result [OF r] I by blast
  ultimately show "steady k I (snd (sql g w))" using w by (auto simp: steady_def r)
qed

lemma steady_fetch [steady_intros]: "keeps (steady k I) (fetch g)"
  unfolding fetch_def by (rule steady_sql) (auto simp: steady_def)

lemma steady_fetchOne [steady_intros]: "keeps (steady k I) (fetchOne g)"
  unfolding fetchOne_def by (rule steady_sql) (auto simp: steady_def split: option.splits)

lemma steady_execute:
  "(\<And>w. steady k I w \<Longrightarrow> I (g w)) \<Longrightarrow> keeps (steady k I) (execute g)"
  unfolding execute_def by (rule steady_sql) auto

lemma steady_executing:
  "(\<And>w. steady k I w \<Longrightarrow> I (snd (g w))) \<Longrightarrow> keeps (steady k I) (executing g)"
  unfolding executing_def by (rule steady_sql) force

lemma steady_checked:
  "(\<And>w. steady k I w \<Longrightarrow> c w = None \<Longrightarrow> I (g w)) \<Longrightarrow> keeps (steady k I) (checked c g)"
  unfolding checked_def by (rule steady_sql) (auto split: option.splits)

lemma steady_new_v4 [steady_intros]: "keeps (steady k I) new_v4"
  by (simp add: keeps_def steady_def new_v4_def)

lemma steady_random_string [steady_intros]: "keeps (steady k I) random_string"
  by (simp add: keeps_def steady_def random_string_def)

lemma steady_broadcast_event [steady_intros]: "keeps (steady k I) (broadcast_event ev)"
  by (simp add: keeps_def steady_def broadcast_event_def modifyState_def)

lemma steady_k8s [steady_intros]: "keeps (steady k I) (k8s c)"
  by (simp add: keeps_def steady_def k8s_def)

lemma steady_dns [steady_intros]: "keeps (steady k I) (dns c)"
  by (simp add: keeps_def steady_def dns_def)

lemma steady_ask [steady_intros]: "keeps (steady k I) (ask c)"
  by (simp add: keeps_def steady_def ask_def)

lemma steady_host [steady_intros]: "keeps (steady k I) (host c)"
  by (simp add: keeps_def steady_def host_def modifyState_def)

lemma steady_post_alert [steady_intros]: "keeps (steady k I) (post_alert a)"
  by (simp add: keeps_def steady_def post_alert_def modifyState_def)

lemma steady_k8s_do [steady_intros]: "keeps (steady k I) (k8s_do c)"
  unfolding k8s_do_def
  by (intro keeps_intros steady_intros) (simp split: k8s_answer.split add: keeps_raise keeps_ret)

lemma steady_hash_password [steady_intros]: "keeps (steady k I) (hash_password p)"
  unfolding hash_password_def by (intro keeps_intros steady_intros)

lemma steady_verify_password [steady_intros]: "keeps (steady k I) (verify_password p h)"
  unfolding verify_password_def by (intro keeps_intros steady_intros)

lemma steady_tx_stmt [steady_intros]: "keeps (steady k I) tx_stmt"
  unfolding tx_stmt_def by (intro keeps_intros steady_intros)

lemma steady_transaction [steady_intros]:
  assumes "keeps (steady k I) body"
  shows "keeps (steady k I) (transaction body)"
proof (rule keepsI)
  fix w :: world assume I: "steady k I w"
  obtain r1 w1 where 1: "tx_stmt w = (r1, w1)" by fastforce
  obtain r2 w2 where 2: "body w1 = (r2, w2)" by fastforce
  obtain r3 w3 where 3: "tx_stmt w2 = (r3, w3)" by fastforce
  have w1: "steady k I w1" using keeps_step [OF steady_tx_stmt I 1] .
  moreover have "steady k I w2" using keeps_step [OF assms w1 2] .
  moreover from this have "steady k I w3" using keeps_step [OF steady_tx_stmt _ 3] by simp
  ultimately show "steady k I (snd (transaction body w))"
    by (auto simp: transaction_def 1 2 3 steady_def split: sum.split)
qed

section \<open>What a success implies\<close>

text \<open>
  Under any faults: a sequence that succeeds ran every part of it successfully. With these
  rules a successful handler is taken apart statement by statement.
\<close>

lemma andThen_success:
  "andThen m f w = (Inr y, w') \<longleftrightarrow> (\<exists>x w1. m w = (Inr x, w1) \<and> f x w1 = (Inr y, w'))"
  by (auto simp: andThen_def split: prod.splits sum.splits)

lemma query_success: "query m w = (Inr x, w') \<longleftrightarrow> m w = (Inr x, w')"
  by (auto simp: query_def mapErr_def split: prod.splits sum.splits)

lemma sql_success:
  "sql g w = (Inr x, w') \<longleftrightarrow> \<not> next_fails w \<and>
     (\<exists>d. g (w\<lparr>faults := tl (faults w)\<rparr>) = Inr (x, d) \<and> w' = w\<lparr>faults := tl (faults w), db := d\<rparr>)"
  by (auto simp: sql_def Let_def split: sum.splits)

lemma fetch_success:
  "fetch g w = (Inr x, w') \<longleftrightarrow> \<not> next_fails w \<and> x = g (w\<lparr>faults := tl (faults w)\<rparr>) \<and> w' = w\<lparr>faults := tl (faults w)\<rparr>"
  by (auto simp: fetch_def sql_success)

lemma fetchOne_success:
  "fetchOne g w = (Inr x, w') \<longleftrightarrow>
     \<not> next_fails w \<and> g (w\<lparr>faults := tl (faults w)\<rparr>) = Some x \<and> w' = w\<lparr>faults := tl (faults w)\<rparr>"
  by (auto simp: fetchOne_def sql_success split: option.splits)

lemma checked_success:
  "checked c g w = (Inr x, w') \<longleftrightarrow> \<not> next_fails w \<and> c (w\<lparr>faults := tl (faults w)\<rparr>) = None
     \<and> w' = w\<lparr>faults := tl (faults w), db := g (w\<lparr>faults := tl (faults w)\<rparr>)\<rparr>"
  by (auto simp: checked_def sql_success split: option.splits)

lemma execute_success:
  "execute g w = (Inr x, w') \<longleftrightarrow> \<not> next_fails w
     \<and> w' = w\<lparr>faults := tl (faults w), db := g (w\<lparr>faults := tl (faults w)\<rparr>)\<rparr>"
  by (auto simp: execute_def sql_success)

lemma executing_success:
  "executing g w = (Inr x, w') \<longleftrightarrow> \<not> next_fails w
     \<and> x = fst (g (w\<lparr>faults := tl (faults w)\<rparr>)) \<and> w' = w\<lparr>faults := tl (faults w), db := snd (g (w\<lparr>faults := tl (faults w)\<rparr>))\<rparr>"
  by (cases "g (w\<lparr>faults := tl (faults w)\<rparr>)") (auto simp: executing_def sql_success)

lemma okOr_success: "okOr e x w = (Inr y, w') \<longleftrightarrow> x = Some y \<and> w' = w"
  by (auto simp: okOr_def ret_def raise_def split: option.splits)

lemma rejectIf_success: "rejectIf b e w = (Inr y, w') \<longleftrightarrow> \<not> b \<and> w' = w"
  by (auto simp: rejectIf_def ret_def raise_def)

lemma ret_success: "ret x w = (Inr y, w') \<longleftrightarrow> y = x \<and> w' = w"
  by (auto simp: ret_def)

lemma raise_success: "raise e w = (Inr y, w') \<longleftrightarrow> False"
  by (auto simp: raise_def)

lemma readState_success: "readState g w = (Inr y, w') \<longleftrightarrow> y = g w \<and> w' = w"
  by (auto simp: readState_def)

lemma now_success: "now w = (Inr y, w') \<longleftrightarrow> y = clock w \<and> w' = w"
  by (auto simp: now_def readState_success)

lemma new_v4_success:
  "new_v4 w = (Inr y, w') \<longleftrightarrow> y = random_uuid w (drawn w) \<and> w' = w\<lparr>drawn := Suc (drawn w)\<rparr>"
  by (auto simp: new_v4_def)

lemmas success_simps = andThen_success query_success fetch_success fetchOne_success checked_success
  execute_success executing_success okOr_success rejectIf_success ret_success raise_success
  readState_success now_success new_v4_success

text \<open>Partial correctness of the statements that look at the tables only.\<close>

lemma yields_fetch: "yields (\<lambda>w. db w = d) (query (fetch (\<lambda>w. g (db w)))) (\<lambda>x w. x = g d \<and> db w = d)"
  by (auto simp: yields_def query_success fetch_success)

lemma yields_execute: "yields (\<lambda>w. db w = d) (query (execute (\<lambda>w. f (db w)))) (\<lambda>_ w. db w = f d)"
  by (auto simp: yields_def query_success execute_success)

section \<open>Predicates of the calls to the cluster\<close>

text \<open>Only \<open>k8s\<close> adds to the calls, so every other action keeps a predicate of them.\<close>

named_theorems calls_intros \<open>an action keeps a predicate of the calls to the cluster\<close>

lemma sql_calls: "k8s_calls (snd (sql g w)) = k8s_calls w"
  by (simp add: sql_def Let_def split: sum.splits prod.splits)

lemma calls_statements [calls_intros]:
  "keeps (\<lambda>w. I (k8s_calls w)) (sql g)" "keeps (\<lambda>w. I (k8s_calls w)) (fetch x)" "keeps (\<lambda>w. I (k8s_calls w)) (fetchOne y)"
  "keeps (\<lambda>w. I (k8s_calls w)) (fetchTry t)" "keeps (\<lambda>w. I (k8s_calls w)) (execute z)"
  "keeps (\<lambda>w. I (k8s_calls w)) (executing u)" "keeps (\<lambda>w. I (k8s_calls w)) (checked c z)"
  by (simp_all add: keeps_def fetch_def fetchOne_def fetchTry_def execute_def executing_def checked_def sql_calls)

lemma calls_draws [calls_intros]:
  "keeps (\<lambda>w. I (k8s_calls w)) new_v4" "keeps (\<lambda>w. I (k8s_calls w)) random_string"
  "keeps (\<lambda>w. I (k8s_calls w)) (broadcast_event ev)" "keeps (\<lambda>w. I (k8s_calls w)) (host h)" "keeps (\<lambda>w. I (k8s_calls w)) (dns h)"
  "keeps (\<lambda>w. I (k8s_calls w)) (ask h)"
  "keeps (\<lambda>w. I (k8s_calls w)) (post_alert a)" "keeps (\<lambda>w. I (k8s_calls w)) now"
  by (simp_all add: keeps_def new_v4_def random_string_def broadcast_event_def modifyState_def host_def dns_def ask_def post_alert_def
    now_def readState_def)

lemma calls_crypto [calls_intros]:
  "keeps (\<lambda>w. I (k8s_calls w)) (decrypt_env_value c n)" "keeps (\<lambda>w. I (k8s_calls w)) (encrypt_env_value p)"
  by (auto simp: keeps_def decrypt_env_value_def encrypt_env_value_def run_simps split: option.split)

lemma calls_k8s: "(\<And>cs. I cs \<Longrightarrow> I (cs @ [c])) \<Longrightarrow> keeps (\<lambda>w. I (k8s_calls w)) (k8s c)"
  by (simp add: keeps_def k8s_def)

lemma made_call [calls_intros]: "keeps (\<lambda>w. c \<in> set (k8s_calls w)) (k8s d)"
  by (rule calls_k8s [where I = "\<lambda>cs. c \<in> set cs"]) simp

section \<open>A concrete world\<close>

text \<open>
  An empty installation with simple external functions, the starting point of the concrete
  examples.
\<close>

definition plain_ext :: externals where
  "plain_ext = \<lparr>seal = (\<lambda>p n. Some (n @ CHR ''#'' # p)),
     unseal = (\<lambda>c n. if starts_with (n @ ''#'') c then Some (drop (Suc (length n)) c) else None),
     pw_hash = (\<lambda>p s. Some (s @ CHR ''$'' # p)),
     pw_verify = (\<lambda>p h. Some (last_segment (CHR ''$'') h = p)),
     sha256_hex = rev,
     jwt_sign = (\<lambda>c. ''jwt-'' @ c_username c),
     jwt_decode = (\<lambda>t s. None),
     app_jwt_sign = (\<lambda>c s. Some (s @ CHR ''.'' # ac_identifier c)),
     app_jwt_decode = (\<lambda>t s tok. None),
     cron_next = (\<lambda>s t. Some (t + seconds 60)),
     cron_error = (\<lambda>s. if s = [] then Some ''empty'' else None)\<rparr>"

definition base_world :: world where
  "base_world = \<lparr>db = empty_db, advisory = (\<lambda>_. None), clock = seconds 1000, faults = [], random_uuid = (\<lambda>n. word_of_nat n + 1000),
     random_text = (\<lambda>n. ''rnd'' @ show_nat n), random_u32 = (\<lambda>n. n), drawn = 0, k8s_calls = [],
     k8s_reply = (\<lambda>_. Accepted), host_calls = [],
     dns_reply = (\<lambda>_. DnsAccepted ''record''), host_reply = (\<lambda>_. HostDone), alerts = [], events = [], env_var = (\<lambda>_. None), ext = plain_ext\<rparr>"

end
