(* ===== verification/Job_Queue.thy ===== *)
theory Job_Queue
  imports Hermes_World
begin

text \<open>
  \<open>utils/job_queue.rs\<close>: the durable queue of builds and deployments. One definition per
  function on the world, then the pool of workers as a step relation whose steps are those
  functions.
\<close>

section \<open>Operations\<close>

definition STALE_AFTER :: int where
  "STALE_AFTER = seconds 180"

definition sat_i64 :: "int \<Rightarrow> int" where
  "sat_i64 x = clamp x (- (2 ^ 63)) (2 ^ 63 - 1)"

definition backoff_secs :: "int \<Rightarrow> int" where
  "backoff_secs attempts =
     (let base = sat_i64 (10 * sat_i64 (2 ^ nat (max attempts 0))) in min base 300)"

definition enqueue :: "string \<Rightarrow> job_payload \<Rightarrow> unit handler" where
  "enqueue kind payload =
     andThen new_v4 (\<lambda>i.
       query (checked
         (\<lambda>w. if existsWhere (\<lambda>r. jb_id r = i) (jobs (db w)) then Some (conflict_on ''jobs_pkey'') else None)
         (\<lambda>w. (db w)\<lparr>jobs := insertRow
            \<lparr>jb_id = i, jb_kind = kind, jb_payload = payload, jb_status = ''queued'', jb_attempts = 0,
             jb_max_attempts = 3, jb_run_after = clock w, jb_locked_at = None, jb_locked_by = None,
             jb_last_error = None, jb_created_at = clock w, jb_updated_at = clock w\<rparr> (jobs (db w))\<rparr>)))"

definition enqueue_build :: "uuid \<Rightarrow> string \<Rightarrow> string \<Rightarrow> string option \<Rightarrow> unit handler" where
  "enqueue_build instance_id git_repo branch build_cmd =
     enqueue ''build'' (BuildPayload instance_id git_repo branch build_cmd)"

definition enqueue_deploy :: "uuid \<Rightarrow> string option \<Rightarrow> unit handler" where
  "enqueue_deploy instance_id image_tag = enqueue ''deploy'' (DeployPayload instance_id image_tag)"

record claimed_job =
  cq_id :: uuid
  cq_kind :: string
  cq_payload :: job_payload

text \<open>
  The subquery of \<open>claim_next\<close>: the oldest queued job whose time has come. A row another
  claim has locked is skipped, which is the same as that claim having run before.
\<close>

definition runnable :: "instant \<Rightarrow> job \<Rightarrow> bool" where
  "runnable t r \<longleftrightarrow> jb_status r = ''queued'' \<and> jb_run_after r \<le> t"

definition next_runnable :: "world \<Rightarrow> job option" where
  "next_runnable w =
     (case sort_key jb_created_at (selectWhere (runnable (clock w)) (jobs (db w))) of
        [] \<Rightarrow> None | r # _ \<Rightarrow> Some r)"

definition mark_claimed :: "string \<Rightarrow> instant \<Rightarrow> job \<Rightarrow> job" where
  "mark_claimed worker_id t r = r\<lparr>jb_status := ''running'', jb_attempts := jb_attempts r + 1,
     jb_locked_at := Some t, jb_locked_by := Some worker_id, jb_updated_at := t\<rparr>"

text \<open>\<open>attempts + 1\<close> is an \<open>int4\<close> addition, which the database refuses to overflow.\<close>

definition claim_next :: "string \<Rightarrow> claimed_job option handler" where
  "claim_next worker_id = query (sql (\<lambda>w.
     case next_runnable w of
       None \<Rightarrow> Inr (None, db w)
     | Some r \<Rightarrow>
         (if fits_i32 (jb_attempts r + 1)
          then Inr (Some \<lparr>cq_id = jb_id r, cq_kind = jb_kind r, cq_payload = jb_payload r\<rparr>,
                    (db w)\<lparr>jobs := updateWhere (\<lambda>x. jb_id x = jb_id r) (mark_claimed worker_id (clock w))
                      (jobs (db w))\<rparr>)
          else Inl (Database out_of_range None))))"

definition heartbeat :: "uuid \<Rightarrow> unit handler" where
  "heartbeat i = discard (execute (\<lambda>w. (db w)\<lparr>jobs :=
     updateWhere (\<lambda>r. jb_id r = i) (\<lambda>r. r\<lparr>jb_locked_at := Some (clock w)\<rparr>) (jobs (db w))\<rparr>))"

definition complete :: "uuid \<Rightarrow> unit handler" where
  "complete i = discard (execute (\<lambda>w. (db w)\<lparr>jobs :=
     updateWhere (\<lambda>r. jb_id r = i)
       (\<lambda>r. r\<lparr>jb_status := ''succeeded'', jb_locked_by := None, jb_updated_at := clock w\<rparr>) (jobs (db w))\<rparr>))"

definition requeue :: "string \<Rightarrow> int \<Rightarrow> instant \<Rightarrow> job \<Rightarrow> job" where
  "requeue err attempts t r = r\<lparr>jb_status := ''queued'', jb_locked_by := None, jb_last_error := Some err,
     jb_run_after := t + seconds (backoff_secs attempts), jb_updated_at := t\<rparr>"

definition give_up :: "string \<Rightarrow> instant \<Rightarrow> job \<Rightarrow> job" where
  "give_up err t r = r\<lparr>jb_status := ''failed'', jb_locked_by := None, jb_last_error := Some err,
     jb_updated_at := t\<rparr>"

definition fail_job :: "uuid \<Rightarrow> int \<Rightarrow> int \<Rightarrow> string \<Rightarrow> unit handler" where
  "fail_job i attempts max_attempts err =
     (if attempts < max_attempts
      then discard (execute (\<lambda>w. (db w)\<lparr>jobs :=
             updateWhere (\<lambda>r. jb_id r = i) (requeue err attempts (clock w)) (jobs (db w))\<rparr>))
      else discard (execute (\<lambda>w. (db w)\<lparr>jobs :=
             updateWhere (\<lambda>r. jb_id r = i) (give_up err (clock w)) (jobs (db w))\<rparr>)))"

definition stale :: "instant \<Rightarrow> job \<Rightarrow> bool" where
  "stale t r \<longleftrightarrow> jb_status r = ''running''
     \<and> (case jb_locked_at r of None \<Rightarrow> False | Some l \<Rightarrow> l < t - STALE_AFTER)"

definition reclaim_stale :: "nat handler" where
  "reclaim_stale = orElse (executing (\<lambda>w.
     (countWhere (stale (clock w)) (jobs (db w)),
      (db w)\<lparr>jobs := updateWhere (stale (clock w))
        (\<lambda>r. r\<lparr>jb_status := ''queued'', jb_locked_by := None, jb_updated_at := clock w\<rparr>) (jobs (db w))\<rparr>))) 0"

text \<open>
  \<open>serde_json::from_value\<close> on a stored payload: unknown fields are ignored and a missing
  optional field is \<open>None\<close>, so a build payload reads as a deploy payload.
\<close>

definition read_build :: "job_payload \<Rightarrow> string + uuid \<times> string \<times> string \<times> string option" where
  "read_build p =
     (case p of
        BuildPayload i g b c \<Rightarrow> Inr (i, g, b, c)
      | DeployPayload _ _ \<Rightarrow> Inl ''missing field `git_repo`''
      | OtherPayload e \<Rightarrow> Inl e)"

definition read_deploy :: "job_payload \<Rightarrow> string + uuid \<times> string option" where
  "read_deploy p =
     (case p of
        BuildPayload i _ _ _ \<Rightarrow> Inr (i, None)
      | DeployPayload i t \<Rightarrow> Inr (i, t)
      | OtherPayload e \<Rightarrow> Inl e)"

text \<open>The functions of \<open>utils/builder.rs\<close> a job ends in; they report through the instance's status.\<close>

record builder =
  run_kpack_build :: "uuid \<Rightarrow> string \<Rightarrow> string \<Rightarrow> string option \<Rightarrow> world \<Rightarrow> world"
  run_ephemeral_build :: "uuid \<Rightarrow> string \<Rightarrow> string \<Rightarrow> string option \<Rightarrow> world \<Rightarrow> world"
  resolve_instance_image_tag :: "uuid \<Rightarrow> world \<Rightarrow> string"
  deploy_compiled_app :: "uuid \<Rightarrow> string \<Rightarrow> world \<Rightarrow> world"

definition dispatch :: "builder \<Rightarrow> string \<Rightarrow> job_payload \<Rightarrow> (string + unit) handler" where
  "dispatch B kind payload =
     (if kind = ''build'' then
        (case read_build payload of
           Inl e \<Rightarrow> ret (Inl e)
         | Inr (i, g, b, c) \<Rightarrow>
             andThen (readState (\<lambda>w. env_var w ''HERMES_BUILDER'')) (\<lambda>v.
             andThen (modifyState (if v = Some ''kpack'' then run_kpack_build B i g b c
                                   else run_ephemeral_build B i g b c)) (\<lambda>_.
             ret (Inr ()))))
      else if kind = ''deploy'' then
        (case read_deploy payload of
           Inl e \<Rightarrow> ret (Inl e)
         | Inr (i, image_tag) \<Rightarrow>
             andThen (case image_tag of Some t \<Rightarrow> ret t | None \<Rightarrow> readState (resolve_instance_image_tag B i)) (\<lambda>tag.
             andThen (modifyState (deploy_compiled_app B i tag)) (\<lambda>_.
             ret (Inr ()))))
      else ret (Inl (''unknown job kind: '' @ kind)))"

text \<open>What the worker does when the dispatch has failed: re-read the counters, then \<open>fail\<close>.\<close>

definition dispatch_failed :: "uuid \<Rightarrow> string \<Rightarrow> unit handler" where
  "dispatch_failed i err =
     andThen (attempt (fetchOne (\<lambda>w. firstWhere (\<lambda>r. jb_id r = i) (jobs (db w))))) (\<lambda>rec.
       case rec of Inl _ \<Rightarrow> ret ()
       | Inr r \<Rightarrow> fail_job i (jb_attempts r) (jb_max_attempts r) err)"

text \<open>One turn of a worker's loop.\<close>

definition worker_turn :: "builder \<Rightarrow> string \<Rightarrow> unit handler" where
  "worker_turn B worker_id =
     andThen (attempt (claim_next worker_id)) (\<lambda>c.
       case c of
         Inl _ \<Rightarrow> ret ()
       | Inr None \<Rightarrow> ret ()
       | Inr (Some j) \<Rightarrow>
           andThen (dispatch B (cq_kind j) (cq_payload j)) (\<lambda>r.
             case r of Inr _ \<Rightarrow> complete (cq_id j) | Inl e \<Rightarrow> dispatch_failed (cq_id j) e))"

lemmas queue_defs = claim_next_def heartbeat_def complete_def fail_job_def reclaim_stale_def
  dispatch_failed_def enqueue_def

section \<open>The pool of workers\<close>

text \<open>
  Workers run in several replicas, so a worker is a replica and an index; \<open>locked_by\<close> holds
  only the index, as in the code. A busy worker remembers its job and the instant of its
  last heartbeat that reached the database. The step \<open>pass\<close> lets time go by no further than
  every busy worker can still beat in time: the assumption the staleness window rests on.
  \<open>late_beat\<close> is a heartbeat that was under way when its task was aborted; \<open>crash\<close> is a
  worker that disappears with its process.
\<close>

type_synonym worker = "nat \<times> nat"

definition worker_name :: "worker \<Rightarrow> string" where
  "worker_name k = ''worker-'' @ show_nat (snd k)"

record queue_state =
  qs_world :: world
  qs_busy :: "worker \<Rightarrow> (uuid \<times> instant) option"

inductive queue_step :: "queue_state \<Rightarrow> queue_state \<Rightarrow> bool" where
  claim: "\<lbrakk>qs_busy s k = None; claim_next (worker_name k) (qs_world s) = (Inr (Some j), w)\<rbrakk> \<Longrightarrow>
    queue_step s \<lparr>qs_world = w, qs_busy = (qs_busy s)(k \<mapsto> (cq_id j, clock w))\<rparr>"
| idle: "\<lbrakk>qs_busy s k = None; claim_next (worker_name k) (qs_world s) = (r, w);
    \<And>j. r \<noteq> Inr (Some j)\<rbrakk> \<Longrightarrow>
    queue_step s \<lparr>qs_world = w, qs_busy = qs_busy s\<rparr>"
| beat: "\<lbrakk>qs_busy s k = Some (i, t); heartbeat i (qs_world s) = (r, w);
    t' = (if next_fails (qs_world s) then t else clock w)\<rbrakk> \<Longrightarrow>
    queue_step s \<lparr>qs_world = w, qs_busy = (qs_busy s)(k \<mapsto> (i, t'))\<rparr>"
| late_beat: "heartbeat i (qs_world s) = (r, w) \<Longrightarrow>
    queue_step s \<lparr>qs_world = w, qs_busy = qs_busy s\<rparr>"
| finish: "\<lbrakk>qs_busy s k = Some (i, t); complete i (qs_world s) = (r, w)\<rbrakk> \<Longrightarrow>
    queue_step s \<lparr>qs_world = w, qs_busy = (qs_busy s)(k := None)\<rparr>"
| dispatch_error: "\<lbrakk>qs_busy s k = Some (i, t); dispatch_failed i e (qs_world s) = (r, w)\<rbrakk> \<Longrightarrow>
    queue_step s \<lparr>qs_world = w, qs_busy = (qs_busy s)(k := None)\<rparr>"
| crash: "queue_step s \<lparr>qs_world = qs_world s, qs_busy = (qs_busy s)(k := None)\<rparr>"
| reclaim: "reclaim_stale (qs_world s) = (r, w) \<Longrightarrow>
    queue_step s \<lparr>qs_world = w, qs_busy = qs_busy s\<rparr>"
| submit: "enqueue kind p (qs_world s) = (r, w) \<Longrightarrow>
    queue_step s \<lparr>qs_world = w, qs_busy = qs_busy s\<rparr>"
| pass: "\<lbrakk>0 \<le> d; \<And>k i t. qs_busy s k = Some (i, t) \<Longrightarrow> clock (qs_world s) + d \<le> t + STALE_AFTER\<rbrakk> \<Longrightarrow>
    queue_step s \<lparr>qs_world = (qs_world s)\<lparr>clock := clock (qs_world s) + d\<rparr>, qs_busy = qs_busy s\<rparr>"

inductive queue_reach :: "queue_state \<Rightarrow> queue_state \<Rightarrow> bool" where
  start: "queue_reach s s"
| steps: "\<lbrakk>queue_reach s t; queue_step t u\<rbrakk> \<Longrightarrow> queue_reach s u"

text \<open>
  The invariant: a busy worker's job is in the table, running, and its lock is at least as
  fresh as the worker's last heartbeat, which is not stale; no job has two workers.
\<close>

definition held_ok :: "instant \<Rightarrow> job list \<Rightarrow> uuid \<times> instant \<Rightarrow> bool" where
  "held_ok tm js h \<longleftrightarrow> snd h \<le> tm \<and> tm \<le> snd h + STALE_AFTER
     \<and> (\<forall>r \<in> set js. jb_id r = fst h \<longrightarrow>
          jb_status r = ''running'' \<and> (\<exists>l. jb_locked_at r = Some l \<and> snd h \<le> l))"

definition queue_inv :: "queue_state \<Rightarrow> bool" where
  "queue_inv s \<longleftrightarrow>
     uniqueOn jb_id (jobs (db (qs_world s)))
     \<and> (\<forall>k h. qs_busy s k = Some h \<longrightarrow> held_ok (clock (qs_world s)) (jobs (db (qs_world s))) h)
     \<and> (\<forall>k h. qs_busy s k = Some h \<longrightarrow> (\<exists>r \<in> set (jobs (db (qs_world s))). jb_id r = fst h))
     \<and> (\<forall>k k' h h'. qs_busy s k = Some h \<longrightarrow> qs_busy s k' = Some h' \<longrightarrow> fst h = fst h' \<longrightarrow> k = k')"

section \<open>Effects of the operations\<close>

lemma next_runnable_in:
  assumes "next_runnable w = Some r"
  shows "r \<in> set (jobs (db w)) \<and> runnable (clock w) r
    \<and> (\<forall>x \<in> set (jobs (db w)). runnable (clock w) x \<longrightarrow> jb_created_at r \<le> jb_created_at x)"
proof -
  let ?t = "sort_key jb_created_at (selectWhere (runnable (clock w)) (jobs (db w)))"
  from assms obtain rs where t: "?t = r # rs"
    by (auto simp: next_runnable_def split: list.splits)
  then have "set (r # rs) = {x \<in> set (jobs (db w)). runnable (clock w) x}"
    by (metis set_sort selectWhere_def set_filter)
  moreover have "sorted (map jb_created_at (r # rs))"
    by (metis t sorted_sort_key)
  ultimately show ?thesis by fastforce
qed

lemma next_runnable_None:
  "next_runnable w = None \<longleftrightarrow> (\<forall>x \<in> set (jobs (db w)). \<not> runnable (clock w) x)"
proof -
  have "next_runnable w = None \<longleftrightarrow>
      sort_key jb_created_at (selectWhere (runnable (clock w)) (jobs (db w))) = []"
    by (simp add: next_runnable_def split: list.split)
  also have "\<dots> \<longleftrightarrow> selectWhere (runnable (clock w)) (jobs (db w)) = []"
    by (metis length_0_conv length_sort)
  finally show ?thesis by (simp add: selectWhere_def filter_empty_conv)
qed

lemma claim_next_Some:
  assumes "claim_next n w = (Inr (Some j), w')"
  shows "\<exists>r. next_runnable w = Some r \<and> cq_id j = jb_id r
    \<and> jobs (db w') = updateWhere (\<lambda>x. jb_id x = jb_id r) (mark_claimed n (clock w)) (jobs (db w))
    \<and> clock w' = clock w"
  using assms
  by (auto simp: claim_next_def act_simps next_runnable_def Let_def
      split: if_splits option.splits sum.splits prod.splits list.splits)

lemma claim_next_other:
  assumes "claim_next n w = (r, w')" "\<And>j. r \<noteq> Inr (Some j)"
  shows "jobs (db w') = jobs (db w) \<and> clock w' = clock w"
  using assms
  by (auto simp: claim_next_def act_simps Let_def
      split: if_splits option.splits sum.splits prod.splits)

lemma heartbeat_effect:
  assumes "heartbeat i w = (r, w')"
  shows "clock w' = clock w \<and>
    jobs (db w') = (if next_fails w then jobs (db w)
      else updateWhere (\<lambda>r. jb_id r = i) (\<lambda>r. r\<lparr>jb_locked_at := Some (clock w)\<rparr>) (jobs (db w)))"
  using assms by (auto simp: heartbeat_def act_simps Let_def split: if_splits)

lemma complete_effect:
  assumes "complete i w = (r, w')"
  shows "clock w' = clock w \<and> (jobs (db w') = jobs (db w) \<or>
    jobs (db w') = updateWhere (\<lambda>r. jb_id r = i)
       (\<lambda>r. r\<lparr>jb_status := ''succeeded'', jb_locked_by := None, jb_updated_at := clock w\<rparr>) (jobs (db w)))"
  using assms by (auto simp: complete_def act_simps Let_def split: if_splits)

lemma dispatch_failed_effect:
  assumes "dispatch_failed i e w = (r, w')"
  shows "clock w' = clock w \<and> (jobs (db w') = jobs (db w) \<or>
    (\<exists>a. jobs (db w') = updateWhere (\<lambda>r. jb_id r = i) (requeue e a (clock w)) (jobs (db w))) \<or>
    jobs (db w') = updateWhere (\<lambda>r. jb_id r = i) (give_up e (clock w)) (jobs (db w)))"
  using assms
  by (auto simp: dispatch_failed_def fail_job_def act_simps Let_def
      split: if_splits option.splits sum.splits prod.splits)

lemma reclaim_stale_effect:
  assumes "reclaim_stale w = (r, w')"
  shows "clock w' = clock w \<and> (jobs (db w') = jobs (db w) \<or>
    jobs (db w') = updateWhere (stale (clock w))
        (\<lambda>r. r\<lparr>jb_status := ''queued'', jb_locked_by := None, jb_updated_at := clock w\<rparr>) (jobs (db w)))"
  using assms by (auto simp: reclaim_stale_def act_simps Let_def split: if_splits)

lemma enqueue_effect:
  assumes "enqueue k p w = (r, w')"
  shows "clock w' = clock w \<and> (jobs (db w') = jobs (db w) \<or>
    (\<exists>x. jobs (db w') = insertRow x (jobs (db w)) \<and> (\<forall>y \<in> set (jobs (db w)). jb_id y \<noteq> jb_id x)))"
  using assms
  by (auto simp: enqueue_def act_simps Let_def existsWhere_iff split: if_splits option.splits sum.splits prod.splits)

section \<open>A job has at most one worker\<close>

lemma queue_inv_update:
  assumes "queue_inv s" "\<And>r. jb_id (f r) = jb_id r"
    and "\<And>k h. b k = Some h \<Longrightarrow> qs_busy s k = Some h"
    and "clock w = clock (qs_world s)"
    and "jobs (db w) = updateWhere p f (jobs (db (qs_world s)))"
    and "\<And>k h r. \<lbrakk>b k = Some h; r \<in> set (jobs (db (qs_world s))); p r; jb_id r = fst h\<rbrakk> \<Longrightarrow>
      jb_status (f r) = ''running'' \<and> (\<exists>l. jb_locked_at (f r) = Some l \<and> snd h \<le> l)"
  shows "queue_inv \<lparr>qs_world = w, qs_busy = b\<rparr>"
  unfolding queue_inv_def queue_state.simps
proof (intro conjI allI impI)
  let ?js = "jobs (db (qs_world s))"
  show "uniqueOn jb_id (jobs (db w))"
    using assms(1,2,5) by (simp add: queue_inv_def uniqueOn_updateWhere)
  fix k h assume "b k = Some h"
  note bh = this assms(3) [OF this]
  from bh(2) assms(1) have ok: "held_ok (clock w) ?js h" and ex: "\<exists>r \<in> set ?js. jb_id r = fst h"
    unfolding queue_inv_def assms(4) by blast+
  from ok assms(6) [OF bh(1)] show "held_ok (clock w) (jobs (db w)) h"
    by (auto simp: held_ok_def assms(2,5) set_updateWhere)
  from ex show "\<exists>r \<in> set (jobs (db w)). jb_id r = fst h"
    unfolding assms(5) by (simp add: updateWhere_row [of jb_id f, OF assms(2)])
next
  fix k k' h h' assume "b k = Some h" "b k' = Some h'" "fst h = fst h'"
  with assms(1,3) show "k = k'" unfolding queue_inv_def by blast
qed

lemma queue_inv_hold:
  assumes "queue_inv s"
    and "\<exists>r \<in> set (jobs (db (qs_world s))). jb_id r = i"
    and "\<And>r. \<lbrakk>r \<in> set (jobs (db (qs_world s))); jb_id r = i\<rbrakk> \<Longrightarrow>
      jb_status r = ''running'' \<and> jb_locked_at r = Some (clock (qs_world s))"
    and "\<And>k' h. \<lbrakk>qs_busy s k' = Some h; fst h = i\<rbrakk> \<Longrightarrow> k' = k"
  shows "queue_inv (s\<lparr>qs_busy := (qs_busy s)(k \<mapsto> (i, clock (qs_world s)))\<rparr>)"
  using assms
  by (auto simp: queue_inv_def held_ok_def STALE_AFTER_def seconds_def)

lemma queue_inv_held:
  assumes "queue_inv s" "qs_busy s k = Some h" "r \<in> set (jobs (db (qs_world s)))" "jb_id r = fst h"
  shows "jb_status r = ''running'' \<and> (\<exists>l. jb_locked_at r = Some l \<and> snd h \<le> l)
    \<and> snd h \<le> clock (qs_world s) \<and> clock (qs_world s) \<le> snd h + STALE_AFTER"
  using assms unfolding queue_inv_def held_ok_def by blast

lemma queue_inv_same:
  assumes "queue_inv s" "clock w = clock (qs_world s)"
    and "jobs (db w) = jobs (db (qs_world s))"
    and "\<And>k h. b k = Some h \<Longrightarrow> qs_busy s k = Some h"
  shows "queue_inv \<lparr>qs_world = w, qs_busy = b\<rparr>"
  by (rule queue_inv_update [OF assms(1), where p = "\<lambda>_. False" and f = "\<lambda>r. r"])
    (use assms(2-) in \<open>simp_all add: updateWhere_def\<close>)

lemma queue_inv_beat:
  assumes "queue_inv s" "heartbeat i (qs_world s) = (r, w)"
  shows "queue_inv \<lparr>qs_world = w, qs_busy = qs_busy s\<rparr>"
proof (cases "next_fails (qs_world s)")
  case True
  with heartbeat_effect [OF assms(2)] show ?thesis by (intro queue_inv_same [OF assms(1)]) auto
next
  case False
  note e = heartbeat_effect [OF assms(2), unfolded if_not_P [OF False]]
  show ?thesis
  proof (rule queue_inv_update [OF assms(1) _ _ conjunct1 [OF e] conjunct2 [OF e]])
    fix k h x assume "qs_busy s k = Some h" "x \<in> set (jobs (db (qs_world s)))" "jb_id x = fst h"
    from queue_inv_held [OF assms(1) this]
    show "jb_status (x\<lparr>jb_locked_at := Some (clock (qs_world s))\<rparr>) = ''running'' \<and>
      (\<exists>l. jb_locked_at (x\<lparr>jb_locked_at := Some (clock (qs_world s))\<rparr>) = Some l \<and> snd h \<le> l)"
      by simp
  qed simp_all
qed

lemma queue_inv_release:
  assumes "queue_inv s" "qs_busy s k = Some (i, t)" "\<And>r. jb_id (f r) = jb_id r"
    and "clock w = clock (qs_world s)"
    and "jobs (db w) = updateWhere (\<lambda>r. jb_id r = i) f (jobs (db (qs_world s)))"
  shows "queue_inv \<lparr>qs_world = w, qs_busy = (qs_busy s)(k := None)\<rparr>"
proof (rule queue_inv_update [OF assms(1,3) _ assms(4,5)])
  show "((qs_busy s)(k := None)) k' = Some h \<Longrightarrow> qs_busy s k' = Some h" for k' h
    by (simp split: if_splits)
  fix k' h and x :: job assume h: "((qs_busy s)(k := None)) k' = Some h" "jb_id x = i" "jb_id x = fst h"
  then have "k' = k" using assms(1,2) unfolding queue_inv_def by (metis fst_conv fun_upd_apply option.discI)
  with h(1) show "jb_status (f x) = ''running'' \<and> (\<exists>l. jb_locked_at (f x) = Some l \<and> snd h \<le> l)"
    by simp
qed

lemma queue_inv_claim:
  assumes inv: "queue_inv s" and idle: "qs_busy s k = None"
    and c: "claim_next n (qs_world s) = (Inr (Some j), w)"
  shows "queue_inv \<lparr>qs_world = w, qs_busy = (qs_busy s)(k \<mapsto> (cq_id j, clock w))\<rparr>"
proof -
  let ?js = "jobs (db (qs_world s))"
  from claim_next_Some [OF c] obtain r where r: "next_runnable (qs_world s) = Some r" "cq_id j = jb_id r"
    "jobs (db w) = updateWhere (\<lambda>x. jb_id x = jb_id r) (mark_claimed n (clock (qs_world s))) ?js"
    "clock w = clock (qs_world s)" by blast
  have r_in: "r \<in> set ?js" and queued: "jb_status r = ''queued''"
    using next_runnable_in [OF r(1)] by (auto simp: runnable_def)
  have free: "fst h \<noteq> jb_id r" if "qs_busy s k' = Some h" for k' h
    using queue_inv_held [OF inv that r_in] queued by auto
  have "queue_inv \<lparr>qs_world = w, qs_busy = qs_busy s\<rparr>"
    by (rule queue_inv_update [OF inv _ _ r(4,3)]) (use free in \<open>auto simp: mark_claimed_def\<close>)
  note held = queue_inv_hold [OF this, of "jb_id r" k, simplified]
  have row: "\<exists>x \<in> set (jobs (db w)). jb_id x = jb_id r"
    unfolding r(3) using r_in by (subst updateWhere_row) (auto simp: mark_claimed_def)
  have running: "jb_status x = ''running'' \<and> jb_locked_at x = Some (clock w)"
    if "x \<in> set (jobs (db w))" "jb_id x = jb_id r" for x
    using that by (auto simp: r(3,4) set_updateWhere mark_claimed_def)
  have "queue_inv \<lparr>qs_world = w, qs_busy = (qs_busy s)(k \<mapsto> (jb_id r, clock w))\<rparr>"
    by (rule held [OF row]) (use running free in blast)+
  then show ?thesis by (simp only: r(2))
qed

lemma queue_inv_submit:
  assumes "queue_inv s" "enqueue kind p (qs_world s) = (r, w)"
  shows "queue_inv \<lparr>qs_world = w, qs_busy = qs_busy s\<rparr>"
proof -
  from enqueue_effect [OF assms(2)] consider "jobs (db w) = jobs (db (qs_world s))"
    | x where "jobs (db w) = insertRow x (jobs (db (qs_world s)))"
      "\<forall>y \<in> set (jobs (db (qs_world s))). jb_id y \<noteq> jb_id x" by blast
  then show ?thesis
  proof cases
    case 1
    then show ?thesis
      using queue_inv_same [OF assms(1) _ 1, of "qs_busy s"] enqueue_effect [OF assms(2)] by simp
  next
    case 2
    have "clock w = clock (qs_world s)" using enqueue_effect [OF assms(2)] by simp
    with 2 assms(1) show ?thesis
      unfolding queue_inv_def held_ok_def queue_state.simps
      by (simp add: uniqueOn_insertRow set_insertRow) metis
  qed
qed

lemma queue_inv_step: "queue_step s t \<Longrightarrow> queue_inv s \<Longrightarrow> queue_inv t"
proof (induction rule: queue_step.induct)
  case (claim s k j w)
  then show ?case using queue_inv_claim by blast
next
  case (idle s k r w)
  then show ?case using claim_next_other [OF idle(2,3)] by (intro queue_inv_same [of s]) simp_all
next
  case (beat s k i t r w t')
  note inv = queue_inv_beat [OF beat(4,2)] and e = heartbeat_effect [OF beat(2)]
  show ?case
  proof (cases "next_fails (qs_world s)")
    case True
    then have "(qs_busy s)(k \<mapsto> (i, t')) = qs_busy s" using beat(1,3) by (auto simp: fun_eq_iff)
    with inv show ?thesis by simp
  next
    case False
    then have js: "jobs (db w) = updateWhere (\<lambda>r. jb_id r = i) (\<lambda>r. r\<lparr>jb_locked_at := Some (clock w)\<rparr>)
        (jobs (db (qs_world s)))" using e by simp
    have row: "\<exists>x \<in> set (jobs (db w)). jb_id x = i"
      using inv beat(1) unfolding queue_inv_def by (metis fst_conv queue_state.simps(1,2))
    have running: "jb_status x = ''running'' \<and> jb_locked_at x = Some (clock w)"
      if "x \<in> set (jobs (db w))" "jb_id x = i" for x
    proof
      have "jb_id x = fst (i, t)" using that(2) by simp
      then show "jb_status x = ''running''"
        using queue_inv_held [OF inv, unfolded queue_state.simps, OF beat(1) that(1)] by blast
      from that(1) obtain y where "x = (if jb_id y = i then y\<lparr>jb_locked_at := Some (clock w)\<rparr> else y)"
        unfolding js set_updateWhere by blast
      with that(2) show "jb_locked_at x = Some (clock w)" by (cases "jb_id y = i") simp_all
    qed
    have only: "k' = k" if "qs_busy s k' = Some h" "fst h = i" for k' h
      using beat(1,4) that unfolding queue_inv_def by (metis fst_conv)
    from queue_inv_hold [OF inv, of i k, simplified, OF row] running only
    have "queue_inv \<lparr>qs_world = w, qs_busy = (qs_busy s)(k \<mapsto> (i, clock w))\<rparr>" by blast
    then show ?thesis using False beat(3) by simp
  qed
next
  case (late_beat i s r w)
  then show ?case using queue_inv_beat by blast
next
  case (finish s k i t r w)
  from complete_effect [OF finish(2)] show ?case
  proof (elim conjE disjE)
    assume "clock w = clock (qs_world s)" "jobs (db w) = jobs (db (qs_world s))"
    then show ?thesis by (intro queue_inv_same [OF finish(3)]) (simp_all split: if_splits)
  qed (rule queue_inv_release [OF finish(3,1)], simp_all)
next
  case (dispatch_error s k i t e r w)
  from dispatch_failed_effect [OF dispatch_error(2)] show ?case
  proof (elim conjE disjE exE)
    assume "clock w = clock (qs_world s)" "jobs (db w) = jobs (db (qs_world s))"
    then show ?thesis by (intro queue_inv_same [OF dispatch_error(3)]) (simp_all split: if_splits)
  qed (rule queue_inv_release [OF dispatch_error(3,1)]; simp add: requeue_def give_up_def)+
next
  case (crash s k)
  then show ?case by (intro queue_inv_same [of s]) (simp_all split: if_splits)
next
  case (reclaim s r w)
  from reclaim_stale_effect [OF reclaim(1)] show ?case
  proof (elim conjE disjE)
    assume "clock w = clock (qs_world s)" "jobs (db w) = jobs (db (qs_world s))"
    then show ?thesis by (intro queue_inv_same [OF reclaim(2)]) simp_all
  next
    assume c: "clock w = clock (qs_world s)" and u: "jobs (db w) = updateWhere (stale (clock (qs_world s)))
        (\<lambda>r. r\<lparr>jb_status := ''queued'', jb_locked_by := None, jb_updated_at := clock (qs_world s)\<rparr>)
        (jobs (db (qs_world s)))"
    show ?thesis
      by (rule queue_inv_update [OF reclaim(2) _ _ c u])
        (use queue_inv_held [OF reclaim(2)] in \<open>fastforce simp: stale_def\<close>)+
  qed
next
  case (submit kind p s r w)
  then show ?case using queue_inv_submit by blast
next
  case (pass d s)
  have "held_ok (clock (qs_world s) + d) (jobs (db (qs_world s))) h" if "qs_busy s k = Some h" for k h
  proof -
    have "clock (qs_world s) + d \<le> snd h + STALE_AFTER"
      using pass(2) [of k "fst h" "snd h"] that by simp
    moreover have "held_ok (clock (qs_world s)) (jobs (db (qs_world s))) h"
      using pass(3) that unfolding queue_inv_def by blast
    ultimately show ?thesis using pass(1) unfolding held_ok_def by auto
  qed
  with pass(3) show ?case unfolding queue_inv_def queue_state.simps by (simp del: split_paired_All split_paired_Ex)
qed

lemma queue_inv_reach: "queue_reach s t \<Longrightarrow> queue_inv s \<Longrightarrow> queue_inv t"
  by (induction rule: queue_reach.induct) (auto dest: queue_inv_step)


section \<open>Properties\<close>

text \<open>
  C1. As long as no busy worker stays longer than the staleness window without a heartbeat
  that reaches the database, a job never has two workers at once, whatever the
  interleaving of claims, heartbeats, completions, failures, crashes, reclaims and new
  submissions over any number of replicas; and a job somebody works on is a running row.
\<close>

theorem job_has_one_worker:
  assumes "uniqueOn jb_id (jobs (db (qs_world s)))" "qs_busy s = (\<lambda>_. None)" "queue_reach s t"
  shows "(qs_busy t k = Some (i, a) \<and> qs_busy t k' = Some (i, a') \<longrightarrow> k = k')
    \<and> (qs_busy t k = Some (i, a) \<longrightarrow>
         (\<exists>r \<in> set (jobs (db (qs_world t))). jb_id r = i \<and> jb_status r = ''running''))"
proof -
  have "queue_inv s" using assms(1,2) by (simp add: queue_inv_def)
  with assms(3) have inv: "queue_inv t" by (rule queue_inv_reach)
  have one: "k = k'" if "qs_busy t k = Some (i, a)" "qs_busy t k' = Some (i, a')"
    using inv that unfolding queue_inv_def by (metis fst_conv)
  have row: "\<exists>r \<in> set (jobs (db (qs_world t))). jb_id r = i \<and> jb_status r = ''running''"
    if "qs_busy t k = Some (i, a)"
    using inv that queue_inv_held [OF inv that] unfolding queue_inv_def by (metis fst_conv)
  from one row show ?thesis by blast
qed

definition sample_job :: "uuid \<Rightarrow> job_payload \<Rightarrow> instant \<Rightarrow> job" where
  "sample_job i p t = \<lparr>jb_id = i, jb_kind = ''build'', jb_payload = p, jb_status = ''queued'', jb_attempts = 0,
     jb_max_attempts = 3, jb_run_after = t, jb_locked_at = None, jb_locked_by = None,
     jb_last_error = None, jb_created_at = t, jb_updated_at = t\<rparr>"

definition queue_world :: world where
  "queue_world = base_world\<lparr>db := empty_db\<lparr>jobs :=
     [sample_job 2 (BuildPayload 20 ''g'' ''main'' None) 5, sample_job 1 (OtherPayload ''bad'') 3]\<rparr>\<rparr>"

lemmas queue_world_defs = queue_world_def sample_job_def base_world_def empty_db_def

lemma queue_world_claim:
  "\<exists>w. claim_next n queue_world = (Inr (Some \<lparr>cq_id = 1, cq_kind = ''build'', cq_payload = OtherPayload ''bad''\<rparr>), w)
     \<and> clock w = clock queue_world"
  by (simp add: claim_next_def act_simps next_runnable_def queue_world_defs runnable_def selectWhere_def
      fits_i32_def seconds_def)

theorem job_has_one_worker_witness:
  "\<exists>t k i a. queue_reach \<lparr>qs_world = queue_world, qs_busy = (\<lambda>_. None)\<rparr> t \<and> qs_busy t k = Some (i, a)
     \<and> (\<exists>r \<in> set (jobs (db (qs_world t))). jb_id r = i \<and> jb_status r = ''running'')"
proof -
  let ?s = "\<lparr>qs_world = queue_world, qs_busy = (\<lambda>_. None)\<rparr> :: queue_state"
  obtain w where w: "claim_next (worker_name (0, 0)) queue_world =
      (Inr (Some \<lparr>cq_id = 1, cq_kind = ''build'', cq_payload = OtherPayload ''bad''\<rparr>), w)"
    using queue_world_claim by blast
  let ?t = "\<lparr>qs_world = w, qs_busy = (qs_busy ?s)((0, 0) \<mapsto> (1, clock w))\<rparr>"
  have "queue_step ?s ?t" using queue_step.claim [of ?s "(0, 0)"] w by simp
  then have reach: "queue_reach ?s ?t" by (rule queue_reach.steps [OF queue_reach.start])
  have "uniqueOn jb_id (jobs (db (qs_world ?s)))" by (simp add: queue_world_defs uniqueOn_def)
  from job_has_one_worker [OF this _ reach, of "(0, 0)" 1 "clock w" "(0, 0)" "clock w"] reach
  show ?thesis by (intro exI [of _ ?t] exI [of _ "(0, 0)"] exI [of _ 1] exI [of _ "clock w"]) simp
qed

text \<open>
  A claim that reaches the database takes the oldest queued job whose time has come:
  it becomes running, locked by the worker now, with one attempt more, and every other row
  is untouched; nothing is claimed exactly when nothing is runnable.
\<close>

theorem claim_takes_oldest:
  assumes "\<not> next_fails w" "\<And>r. r \<in> set (jobs (db w)) \<Longrightarrow> fits_i32 (jb_attempts r + 1)"
  shows "case claim_next n w of
      (Inl _, _) \<Rightarrow> False
    | (Inr None, w') \<Rightarrow> db w' = db w \<and> (\<forall>r \<in> set (jobs (db w)). \<not> (jb_status r = ''queued'' \<and> jb_run_after r \<le> clock w))
    | (Inr (Some j), w') \<Rightarrow> (\<exists>r \<in> set (jobs (db w)). jb_status r = ''queued'' \<and> jb_run_after r \<le> clock w
        \<and> cq_id j = jb_id r
        \<and> cq_kind j = jb_kind r \<and> cq_payload j = jb_payload r
        \<and> (\<forall>x \<in> set (jobs (db w)). jb_status x = ''queued'' \<and> jb_run_after x \<le> clock w
              \<longrightarrow> jb_created_at r \<le> jb_created_at x)
        \<and> db w' = (db w)\<lparr>jobs := map (\<lambda>x. if jb_id x = jb_id r
              then x\<lparr>jb_status := ''running'', jb_attempts := jb_attempts x + 1, jb_locked_at := Some (clock w),
                     jb_locked_by := Some n, jb_updated_at := clock w\<rparr> else x) (jobs (db w))\<rparr>)"
proof -
  have nr: "next_runnable (w\<lparr>faults := f\<rparr>) = next_runnable w" for f
    by (simp add: next_runnable_def)
  show ?thesis
  proof (cases "next_runnable w")
    case None
    then show ?thesis using assms(1) next_runnable_None [of w]
      by (simp add: claim_next_def act_simps nr runnable_def)
  next
    case (Some r)
    then show ?thesis using assms next_runnable_in [OF Some]
      by (auto simp: runnable_def claim_next_def act_simps nr updateWhere_def mark_claimed_def intro!: bexI [of _ r])
  qed
qed

theorem claim_takes_oldest_witness:
  "\<exists>j w. claim_next ''worker-0'' queue_world = (Inr (Some j), w) \<and> cq_id j = 1"
  using claim_takes_oldest [of queue_world "''worker-0''"] queue_world_claim [of "''worker-0''"]
  by (force simp: queue_world_defs fits_i32_def)

text \<open>
  The delay before a retry is between ten seconds and five minutes, never shrinks with
  the attempts, doubles until the cap, and no attempt count of the \<open>i32\<close> column makes it
  overflow.
\<close>

theorem backoff_bounds:
  "10 \<le> backoff_secs a \<and> backoff_secs a \<le> 300
   \<and> (a \<le> b \<longrightarrow> backoff_secs a \<le> backoff_secs b)
   \<and> (0 \<le> a \<and> a \<le> 4 \<longrightarrow> backoff_secs a = 10 * 2 ^ nat a)
   \<and> (5 \<le> a \<longrightarrow> backoff_secs a = 300)"
proof -
  have eq: "backoff_secs x = min (10 * 2 ^ nat (max x 0)) 300" for x
  proof -
    define p :: int where "p = 2 ^ nat (max x 0)"
    have "1 \<le> p" by (simp add: p_def)
    then show ?thesis
      unfolding backoff_secs_def sat_i64_def clamp_def min_def p_def [symmetric] by (simp add: Let_def)
  qed
  have mono: "(2::int) ^ nat (max a 0) \<le> 2 ^ nat (max b 0)" if "a \<le> b"
    using that by (intro power_increasing) auto
  have one: "(1::int) \<le> 2 ^ n" for n by simp
  have big: "backoff_secs a = 300" if "5 \<le> a"
  proof -
    have "(2::int) ^ 5 \<le> 2 ^ nat (max a 0)" using that by (intro power_increasing) auto
    then show ?thesis by (simp add: eq)
  qed
  have small: "backoff_secs a = 10 * 2 ^ nat a" if "0 \<le> a" "a \<le> 4"
  proof -
    have "(2::int) ^ nat a \<le> 2 ^ 4" using that by (intro power_increasing) auto
    with that show ?thesis by (simp add: eq)
  qed
  have "10 \<le> backoff_secs a \<and> backoff_secs a \<le> 300" using one [of "nat (max a 0)"] by (simp add: eq)
  moreover have "backoff_secs a \<le> backoff_secs b" if "a \<le> b"
    unfolding eq using mono [OF that] by (intro min.mono) simp_all
  ultimately show ?thesis using big small by blast
qed

theorem backoff_bounds_witness: "backoff_secs 3 = 80 \<and> backoff_secs 1000 = 300 \<and> backoff_secs 0 \<le> backoff_secs 5"
  using backoff_bounds [of 3 3] backoff_bounds [of 1000 1000] backoff_bounds [of 0 5] by simp

text \<open>
  A dispatch error retries the job with the backoff of its attempts while attempts are
  left and fails it for good afterwards; the other rows are untouched. A reclaim gives every
  stale running job back to the queue with its attempts unchanged, so a job whose worker
  dies is retried without regard to \<open>max_attempts\<close>.
\<close>

theorem failed_and_reclaimed_jobs:
  assumes "faults w = []" "firstWhere (\<lambda>r. jb_id r = i) (jobs (db w)) = Some r"
  shows "jobs (db (snd (dispatch_failed i e w))) = map (\<lambda>x. if jb_id x = i
      then (if jb_attempts r < jb_max_attempts r
            then x\<lparr>jb_status := ''queued'', jb_locked_by := None, jb_last_error := Some e,
                   jb_run_after := clock w + seconds (backoff_secs (jb_attempts r)), jb_updated_at := clock w\<rparr>
            else x\<lparr>jb_status := ''failed'', jb_locked_by := None, jb_last_error := Some e,
                   jb_updated_at := clock w\<rparr>) else x) (jobs (db w))
    \<and> (jb_status r = ''running'' \<and> jb_locked_at r = Some l \<and> l < clock w - STALE_AFTER \<longrightarrow>
         r\<lparr>jb_status := ''queued'', jb_locked_by := None, jb_updated_at := clock w\<rparr>
           \<in> set (jobs (db (snd (reclaim_stale w)))))
    \<and> (\<forall>x \<in> set (jobs (db (snd (reclaim_stale w)))). \<not> stale (clock w) x)"
  using assms firstWhere_Some [OF assms(2)]
  by (auto simp: dispatch_failed_def fail_job_def requeue_def give_up_def reclaim_stale_def act_simps
      updateWhere_def stale_def image_iff Let_def intro!: bexI [of _ r] split: option.splits)

theorem failed_and_reclaimed_jobs_witness:
  "\<exists>r \<in> set (jobs (db (snd (dispatch_failed 1 ''e'' queue_world)))). jb_last_error r = Some ''e''"
  using failed_and_reclaimed_jobs [of queue_world 1 "sample_job 1 (OtherPayload ''bad'') 3" "''e''"]
  by (simp add: queue_world_defs firstWhere_def)

end
