(* ===== verification/Env_Pool.thy ===== *)
theory Env_Pool
  imports Hermes_World Paging "HOL-Library.AList" "HOL-Library.List_Lexorder" "HOL-Library.Char_ord"
begin

text \<open>
  Environment variables: \<open>utils/app_env.rs\<close> (publication into a project's pool and the
  effective environment of an instance or a cron job), \<open>project_env_controller.rs\<close> (the pool)
  and \<open>env_variable_controller.rs\<close> (the instance's own variables and the hot reload).
  A task the code spawns is run where it is spawned; its result is dropped either way.
  The claims are those of the authenticated caller.
\<close>

section \<open>Keys\<close>

definition sanitize_key_fragment :: "string \<Rightarrow> string \<Rightarrow> string" where
  "sanitize_key_fragment name fallback =
     (let cleaned = map_chars (\<lambda>c. if is_ascii_alphanumeric c then c else CHR ''_'') (to_uppercase (trim name));
          trimmed = trim_matches (\<lambda>c. c = CHR ''_'') cleaned
      in if trimmed = [] then fallback else trimmed)"

definition key_first_ok :: "char \<Rightarrow> bool" where
  "key_first_ok c \<longleftrightarrow> is_ascii_alphabetic c \<or> c = CHR ''_''"

definition key_rest_ok :: "char \<Rightarrow> bool" where
  "key_rest_ok c \<longleftrightarrow> is_ascii_alphanumeric c \<or> c = CHR ''_''"

definition clean_env_key :: "string \<Rightarrow> app_error + string" where
  "clean_env_key raw =
     (let clean = replace_char (CHR '' '') (CHR ''_'') (to_uppercase (trim raw)) in
      if clean = [] then Inl (Validation ''Variable key cannot be empty.'')
      else
        let first_ok = key_first_ok (hd clean);
            rest_ok = list_all key_rest_ok clean
        in if \<not> first_ok \<or> \<not> rest_ok then
             Inl (Validation (''Invalid environment key '' @ [CHR 39] @ clean @ [CHR 39] @
               '': use only letters, digits and underscores, and don't start with a digit.''))
           else Inr clean)"

definition cleaned_key :: "string \<Rightarrow> string handler" where
  "cleaned_key raw = (case clean_env_key raw of Inl e \<Rightarrow> raise e | Inr k \<Rightarrow> ret k)"

section \<open>The effective environment\<close>

type_synonym env = "(string \<times> string) list"

text \<open>Encrypted rows: key, ciphertext, nonce. A row that does not decrypt is skipped.\<close>

type_synonym sealed = "string \<times> string \<times> string"

definition insert_decrypted :: "externals \<Rightarrow> sealed list \<Rightarrow> env \<Rightarrow> env" where
  "insert_decrypted x rows m =
     fold (\<lambda>(k, e, n) m. case unseal x e n of None \<Rightarrow> m | Some v \<Rightarrow> AList.update k v m) rows m"

text \<open>\<open>if let Ok(rows) = query\<close>: a failed query leaves the map as it is.\<close>

definition load_vars :: "(database \<Rightarrow> sealed list) \<Rightarrow> env \<Rightarrow> env handler" where
  "load_vars g m =
     andThen (attempt (fetch (\<lambda>w. g (db w)))) (\<lambda>r.
       case r of Inl _ \<Rightarrow> ret m | Inr rows \<Rightarrow> readState (\<lambda>w. insert_decrypted (ext w) rows m))"

definition finalize :: "env \<Rightarrow> env" where
  "finalize m = sort_key fst m"

definition sealed_pv :: "project_env_variable \<Rightarrow> sealed" where
  "sealed_pv r = (pv_key r, pv_encrypted_value r, pv_nonce r)"

definition sealed_ev :: "env_variable \<Rightarrow> sealed" where
  "sealed_ev r = (ev_key r, ev_encrypted_value r, ev_nonce r)"

definition sealed_ce :: "cron_env_variable \<Rightarrow> sealed" where
  "sealed_ce r = (ce_key r, ce_encrypted_value r, ce_nonce r)"

definition linked_vars :: "uuid \<Rightarrow> database \<Rightarrow> project_env_variable list" where
  "linked_vars i d = concat (map (\<lambda>l. selectWhere (\<lambda>r. pv_id r = el_project_env_id l) (project_env_variables d))
     (selectWhere (\<lambda>l. el_app_instance_id l = i) (app_env_links d)))"

definition own_vars :: "uuid \<Rightarrow> database \<Rightarrow> env_variable list" where
  "own_vars i d = selectWhere (\<lambda>r. ev_app_instance_id r = i) (environment_variables d)"

definition cron_linked_vars :: "uuid \<Rightarrow> database \<Rightarrow> project_env_variable list" where
  "cron_linked_vars i d = concat (map (\<lambda>l. selectWhere (\<lambda>r. pv_id r = ck_project_env_id l) (project_env_variables d))
     (selectWhere (\<lambda>l. ck_cron_job_id l = i) (cron_env_links d)))"

definition resolve_instance_env :: "uuid \<Rightarrow> env handler" where
  "resolve_instance_env instance_id =
     andThen (load_vars (\<lambda>d. map sealed_pv (linked_vars instance_id d)) []) (\<lambda>m.
     andThen (load_vars (\<lambda>d. map sealed_ev (own_vars instance_id d)) m) (\<lambda>m.
     ret (finalize m)))"

definition resolve_cron_env :: "uuid \<Rightarrow> env handler" where
  "resolve_cron_env cron_job_id =
     andThen (load_vars (\<lambda>d. map sealed_pv (cron_linked_vars cron_job_id d)) []) (\<lambda>m.
     andThen (load_vars (\<lambda>d. map sealed_ce
        (selectWhere (\<lambda>r. ce_cron_job_id r = cron_job_id) (cron_env_variables d))) m) (\<lambda>m.
     ret (finalize m)))"

definition resolve_instance_build_env :: "uuid \<Rightarrow> env handler" where
  "resolve_instance_build_env instance_id =
     andThen (load_vars (\<lambda>d. map sealed_pv (filter (\<lambda>r. \<not> pv_is_secret r) (linked_vars instance_id d))) []) (\<lambda>m.
     andThen (load_vars (\<lambda>d. map sealed_ev (filter (\<lambda>r. \<not> ev_is_secret r) (own_vars instance_id d))) m) (\<lambda>m.
     ret (finalize m)))"

definition apply_runtime_port_defaults :: "env \<Rightarrow> int \<Rightarrow> env \<times> string list" where
  "apply_runtime_port_defaults envs internal_port =
     (let has_port = list_ex (\<lambda>(k, _). k = ''PORT'') envs;
          envs1 = (if has_port then envs else envs @ [(''PORT'', show_int internal_port)]);
          inj1 = (if has_port then [] else [''PORT='' @ show_int internal_port]);
          has_host = list_ex (\<lambda>(k, _). k = ''HOST'') envs1;
          envs2 = (if has_host then envs1 else envs1 @ [(''HOST'', ''0.0.0.0'')]);
          inj2 = (if has_host then inj1 else inj1 @ [''HOST=0.0.0.0''])
      in (envs2, inj2))"

section \<open>Publishing into the pool\<close>

text \<open>
  \<open>INSERT .. ON CONFLICT (project_id, key) DO UPDATE .. RETURNING id\<close>; \<open>f\<close> is the \<open>SET\<close> list.
\<close>

definition same_pool_key :: "project_env_variable \<Rightarrow> project_env_variable \<Rightarrow> bool" where
  "same_pool_key row r \<longleftrightarrow> pv_project_id r = pv_project_id row \<and> pv_key r = pv_key row"

definition put_project_env ::
  "project_env_variable \<Rightarrow> (project_env_variable \<Rightarrow> project_env_variable) \<Rightarrow> uuid stmt" where
  "put_project_env row f = sql (\<lambda>w.
     if \<not> existsWhere (\<lambda>p. pr_id p = pv_project_id row) (projects (db w)) then Inl fk_error
     else if existsWhere (\<lambda>r. pv_id r = pv_id row) (project_env_variables (db w))
     then Inl (conflict_on ''project_env_variables_pkey'')
     else Inr (case firstWhere (same_pool_key row) (project_env_variables (db w)) of None \<Rightarrow> pv_id row | Some r \<Rightarrow> pv_id r,
       (db w)\<lparr>project_env_variables := upsertRow (same_pool_key row) row f (project_env_variables (db w))\<rparr>))"

definition publish_project_env ::
  "uuid \<Rightarrow> uuid \<Rightarrow> string \<Rightarrow> string \<Rightarrow> bool \<Rightarrow> string \<Rightarrow> uuid \<Rightarrow> uuid handler" where
  "publish_project_env workspace_id project_id key val is_secret src source_id =
     andThen (encrypt_env_value val) (\<lambda>(enc, nonce).
     andThen (query (fetch (\<lambda>w. firstWhere (\<lambda>r. pv_project_id r = project_id \<and> pv_source r = src
         \<and> pv_source_id r = Some source_id) (project_env_variables (db w))))) (\<lambda>existing.
     case existing of
       Some r \<Rightarrow>
         andThen (query (execute (\<lambda>w. (db w)\<lparr>project_env_variables :=
           updateWhere (\<lambda>x. pv_id x = pv_id r)
             (\<lambda>x. x\<lparr>pv_encrypted_value := enc, pv_nonce := nonce, pv_is_secret := is_secret\<rparr>)
             (project_env_variables (db w))\<rparr>))) (\<lambda>_. ret (pv_id r))
     | None \<Rightarrow>
         andThen new_v4 (\<lambda>i.
         query (put_project_env
           \<lparr>pv_id = i, pv_workspace_id = workspace_id, pv_project_id = project_id, pv_key = key,
            pv_encrypted_value = enc, pv_nonce = nonce, pv_is_secret = is_secret, pv_source = src,
            pv_source_id = Some source_id\<rparr>
           (\<lambda>x. x\<lparr>pv_encrypted_value := enc, pv_nonce := nonce, pv_is_secret := is_secret, pv_source := src,
              pv_source_id := Some source_id\<rparr>)))))"

text \<open>Deleting pool variables takes the links of apps, cron jobs and functions with them (\<open>ON DELETE CASCADE\<close>).\<close>

definition delete_pool_vars :: "(project_env_variable \<Rightarrow> bool) \<Rightarrow> database \<Rightarrow> database" where
  "delete_pool_vars p d =
     (let gone = map pv_id (selectWhere p (project_env_variables d)) in
      d\<lparr>project_env_variables := deleteWhere p (project_env_variables d),
        app_env_links := deleteWhere (\<lambda>l. el_project_env_id l \<in> set gone) (app_env_links d),
        cron_env_links := deleteWhere (\<lambda>l. ck_project_env_id l \<in> set gone) (cron_env_links d),
        serverless_env_links := deleteWhere (\<lambda>l. sl_project_env_id l \<in> set gone) (serverless_env_links d)\<rparr>)"

definition instances_linking :: "(project_env_variable \<Rightarrow> bool) \<Rightarrow> database \<Rightarrow> uuid list" where
  "instances_linking p d = map el_app_instance_id
     (selectWhere (\<lambda>l. existsWhere (\<lambda>r. pv_id r = el_project_env_id l \<and> p r) (project_env_variables d)) (app_env_links d))"

definition unpublish_project_env :: "string \<Rightarrow> uuid \<Rightarrow> uuid list handler" where
  "unpublish_project_env src source_id =
     (let p = (\<lambda>r. pv_source r = src \<and> pv_source_id r = Some source_id) in
      andThen (orElse (fetch (\<lambda>w. instances_linking p (db w))) []) (\<lambda>linked.
      andThen (discard (execute (\<lambda>w. delete_pool_vars p (db w)))) (\<lambda>_.
      ret linked)))"

section \<open>Hot reload\<close>

definition hot_reload_instance_envs :: "uuid \<Rightarrow> string \<Rightarrow> uuid \<Rightarrow> bool \<Rightarrow> unit handler" where
  "hot_reload_instance_envs instance_id container_name workspace_id knative_enabled =
     andThen (resolve_instance_env instance_id) (\<lambda>envs.
     andThen (k8s_do GetClient) (\<lambda>_.
       let ns = ws_namespace workspace_id in
       andThen (k8s_do (CreateSecret ns container_name envs)) (\<lambda>_.
       if knative_enabled then discard (k8s_do (RestartKnative ns container_name))
       else discard (k8s_do (RestartDeployment ns container_name)))))"

definition hot_reload_if_running :: "uuid \<Rightarrow> unit handler" where
  "hot_reload_if_running instance_id =
     andThen (attempt (fetch (\<lambda>w.
       case firstWhere (\<lambda>ai. ai_id ai = instance_id \<and> ai_status ai = Running) (app_instances (db w)) of
         None \<Rightarrow> None
       | Some ai \<Rightarrow> map_option (\<lambda>a. (ai, a_workspace_id a)) (firstWhere (\<lambda>a. a_id a = ai_app_id ai) (apps (db w)))))) (\<lambda>inst.
     case inst of
       Inr (Some (ai, ws)) \<Rightarrow>
         discard (hot_reload_instance_envs instance_id (ai_container_name ai) ws (ai_knative_enabled ai))
     | _ \<Rightarrow> ret ())"

definition reload_linked_instances :: "uuid \<Rightarrow> unit handler" where
  "reload_linked_instances project_env_id =
     andThen (attempt (fetch (\<lambda>w. map el_app_instance_id
       (selectWhere (\<lambda>l. el_project_env_id l = project_env_id) (app_env_links (db w)))))) (\<lambda>r.
     case r of Inl _ \<Rightarrow> ret () | Inr insts \<Rightarrow> forEach insts hot_reload_if_running)"

section \<open>Authorization\<close>

definition active_workspace :: "claims \<Rightarrow> uuid handler" where
  "active_workspace c = okOr (Validation ''No active workspace selected.'') (c_current_workspace_id c)"

definition authorize_project :: "uuid \<Rightarrow> uuid \<Rightarrow> uuid handler" where
  "authorize_project project_id expected_ws =
     andThen (query (fetch (\<lambda>w. firstWhere (\<lambda>p. pr_id p = project_id) (projects (db w))))) (\<lambda>row.
     andThen (okOr (NotFound ''Project not found.'') row) (\<lambda>p.
     andThen (rejectIf (pr_workspace_id p \<noteq> expected_ws)
       (Permission ''Project does not belong to the active workspace.'')) (\<lambda>_.
     ret (pr_workspace_id p))))"

definition instance_app :: "uuid \<Rightarrow> database \<Rightarrow> app option" where
  "instance_app i d =
     (case firstWhere (\<lambda>ai. ai_id ai = i) (app_instances d) of
        None \<Rightarrow> None | Some ai \<Rightarrow> firstWhere (\<lambda>a. a_id a = ai_app_id ai) (apps d))"

definition authorize_instance_project :: "uuid \<Rightarrow> uuid \<Rightarrow> uuid handler" where
  "authorize_instance_project instance_id expected_ws =
     andThen (query (fetch (\<lambda>w. instance_app instance_id (db w)))) (\<lambda>row.
     andThen (okOr (NotFound ''App instance not found.'') row) (\<lambda>a.
     andThen (rejectIf (a_workspace_id a \<noteq> expected_ws)
       (Permission ''Instance does not belong to the active workspace.'')) (\<lambda>_.
     ret (a_project_id a))))"

definition resolve_instance_workspace :: "uuid \<Rightarrow> uuid \<Rightarrow> uuid handler" where
  "resolve_instance_workspace instance_id expected_ws =
     andThen (query (fetch (\<lambda>w. instance_app instance_id (db w)))) (\<lambda>row.
     andThen (okOr (NotFound ''App instance not found.'') row) (\<lambda>a.
     andThen (rejectIf (a_workspace_id a \<noteq> expected_ws)
       (Permission ''Instance does not belong to the active workspace.'')) (\<lambda>_.
     ret (a_workspace_id a))))"

section \<open>The handlers of the pool\<close>

record project_env_response =
  per_id :: uuid
  per_project_id :: uuid
  per_key :: string
  per_value :: "string option"
  per_is_secret :: bool
  per_source :: string
  per_linked :: "bool option"

definition pool_response :: "externals \<Rightarrow> bool option \<Rightarrow> project_env_variable \<Rightarrow> project_env_response" where
  "pool_response x linked r =
     \<lparr>per_id = pv_id r, per_project_id = pv_project_id r, per_key = pv_key r,
      per_value = (if \<not> pv_is_secret r then unseal x (pv_encrypted_value r) (pv_nonce r) else None),
      per_is_secret = pv_is_secret r, per_source = pv_source r, per_linked = linked\<rparr>"

definition list_project_env :: "claims \<Rightarrow> uuid \<Rightarrow> project_env_response list handler" where
  "list_project_env claims project_id =
     andThen (active_workspace claims) (\<lambda>ws.
     andThen (authorize_project project_id ws) (\<lambda>_.
     andThen (query (fetch (\<lambda>w. sort_key pv_key
       (selectWhere (\<lambda>r. pv_project_id r = project_id) (project_env_variables (db w)))))) (\<lambda>rows.
     readState (\<lambda>w. map (pool_response (ext w) None) rows))))"

definition set_project_env ::
  "claims \<Rightarrow> uuid \<Rightarrow> string \<Rightarrow> string \<Rightarrow> bool option \<Rightarrow> project_env_response handler" where
  "set_project_env claims project_id raw_key val secret =
     andThen (active_workspace claims) (\<lambda>ws.
     andThen (authorize_project project_id ws) (\<lambda>_.
     andThen (cleaned_key raw_key) (\<lambda>key.
     let is_secret = (case secret of None \<Rightarrow> True | Some b \<Rightarrow> b) in
     andThen (encrypt_env_value val) (\<lambda>(enc, nonce).
     andThen new_v4 (\<lambda>i.
     andThen (query (put_project_env
         \<lparr>pv_id = i, pv_workspace_id = ws, pv_project_id = project_id, pv_key = key,
          pv_encrypted_value = enc, pv_nonce = nonce, pv_is_secret = is_secret, pv_source = ''manual'',
          pv_source_id = None\<rparr>
         (\<lambda>x. x\<lparr>pv_encrypted_value := enc, pv_nonce := nonce, pv_is_secret := is_secret,
            pv_source := ''manual''\<rparr>))) (\<lambda>rec_id.
     andThen (reload_linked_instances rec_id) (\<lambda>_.
     ret \<lparr>per_id = rec_id, per_project_id = project_id, per_key = key,
          per_value = (if \<not> is_secret then Some val else None), per_is_secret = is_secret,
          per_source = ''manual'', per_linked = None\<rparr>)))))))"

definition delete_project_env :: "claims \<Rightarrow> uuid \<Rightarrow> uuid \<Rightarrow> unit handler" where
  "delete_project_env claims project_id i =
     andThen (active_workspace claims) (\<lambda>ws.
     andThen (authorize_project project_id ws) (\<lambda>_.
     andThen (orElse (fetch (\<lambda>w. map el_app_instance_id
       (selectWhere (\<lambda>l. el_project_env_id l = i) (app_env_links (db w))))) []) (\<lambda>linked.
     let p = (\<lambda>r. pv_id r = i \<and> pv_project_id r = project_id) in
     andThen (query (executing (\<lambda>w. (countWhere p (project_env_variables (db w)), delete_pool_vars p (db w))))) (\<lambda>deleted.
     andThen (rejectIf (deleted = 0) (NotFound ''Project env var not found.'')) (\<lambda>_.
     forEach linked hot_reload_if_running)))))"

definition list_instance_project_env :: "claims \<Rightarrow> uuid \<Rightarrow> project_env_response list handler" where
  "list_instance_project_env claims instance_id =
     andThen (active_workspace claims) (\<lambda>ws.
     andThen (authorize_instance_project instance_id ws) (\<lambda>project_id.
     andThen (query (fetch (\<lambda>w. map (\<lambda>r. (r, existsWhere (\<lambda>l. el_project_env_id l = pv_id r
         \<and> el_app_instance_id l = instance_id) (app_env_links (db w))))
       (sort_key pv_key (selectWhere (\<lambda>r. pv_project_id r = project_id) (project_env_variables (db w))))))) (\<lambda>rows.
     readState (\<lambda>w. map (\<lambda>(r, linked). pool_response (ext w) (Some linked) r) rows))))"

definition link_project_env :: "claims \<Rightarrow> uuid \<Rightarrow> uuid \<Rightarrow> string option handler" where
  "link_project_env claims instance_id project_env_id =
     andThen (active_workspace claims) (\<lambda>ws.
     andThen (authorize_instance_project instance_id ws) (\<lambda>project_id.
     andThen (query (fetch (\<lambda>w. existsWhere (\<lambda>r. pv_id r = project_env_id \<and> pv_project_id r = project_id)
       (project_env_variables (db w))))) (\<lambda>belongs.
     andThen (rejectIf (\<not> belongs) (Permission ''Project env var is not in this app's project.'')) (\<lambda>_.
     andThen (query (fetch (\<lambda>w. map_option pv_key
       (firstWhere (\<lambda>r. pv_id r = project_env_id) (project_env_variables (db w)))))) (\<lambda>key.
     andThen (case key of
         None \<Rightarrow> ret None
       | Some k \<Rightarrow>
           let p = (\<lambda>r. ev_app_instance_id r = instance_id \<and> ev_key r = k) in
           andThen (query (executing (\<lambda>w. (countWhere p (environment_variables (db w)),
             (db w)\<lparr>environment_variables := deleteWhere p (environment_variables (db w))\<rparr>)))) (\<lambda>deleted.
           ret (if deleted > 0 then Some k else None))) (\<lambda>replaced_local_key.
     andThen (query (checked
       (\<lambda>w. if existsWhere (\<lambda>r. pv_id r = project_env_id) (project_env_variables (db w))
            \<and> existsWhere (\<lambda>ai. ai_id ai = instance_id) (app_instances (db w)) then None else Some fk_error)
       (\<lambda>w. (db w)\<lparr>app_env_links := insertIfAbsent
         (\<lambda>l. el_app_instance_id l = instance_id \<and> el_project_env_id l = project_env_id)
         \<lparr>el_app_instance_id = instance_id, el_project_env_id = project_env_id\<rparr> (app_env_links (db w))\<rparr>))) (\<lambda>_.
     andThen (hot_reload_if_running instance_id) (\<lambda>_.
     ret replaced_local_key))))))))"

definition rename_project_env :: "claims \<Rightarrow> uuid \<Rightarrow> uuid \<Rightarrow> string \<Rightarrow> project_env_response handler" where
  "rename_project_env claims project_id i raw_key =
     andThen (active_workspace claims) (\<lambda>ws.
     andThen (authorize_project project_id ws) (\<lambda>_.
     andThen (cleaned_key raw_key) (\<lambda>key.
     andThen (query (fetch (\<lambda>w. existsWhere (\<lambda>r. pv_project_id r = project_id \<and> pv_key r = key \<and> pv_id r \<noteq> i)
       (project_env_variables (db w))))) (\<lambda>collision.
     andThen (rejectIf collision (Validation (''A project variable named '' @ key @ '' already exists.''))) (\<lambda>_.
     let p = (\<lambda>r. pv_id r = i \<and> pv_project_id r = project_id) in
     andThen (query (sql (\<lambda>w.
       if existsWhere p (project_env_variables (db w))
          \<and> existsWhere (\<lambda>r. pv_project_id r = project_id \<and> pv_key r = key \<and> pv_id r \<noteq> i) (project_env_variables (db w))
       then Inl (conflict_on ''unique_project_env_key'')
       else let t = updateWhere p (\<lambda>r. r\<lparr>pv_key := key\<rparr>) (project_env_variables (db w)) in
            Inr (firstWhere p t, (db w)\<lparr>project_env_variables := t\<rparr>)))) (\<lambda>row.
     andThen (okOr (NotFound ''Project env var not found.'') row) (\<lambda>rec.
     andThen (reload_linked_instances (pv_id rec)) (\<lambda>_.
     readState (\<lambda>w. pool_response (ext w) None rec)))))))))"

definition reveal_project_env :: "claims \<Rightarrow> uuid \<Rightarrow> uuid \<Rightarrow> string handler" where
  "reveal_project_env claims project_id i =
     andThen (active_workspace claims) (\<lambda>ws.
     andThen (authorize_project project_id ws) (\<lambda>_.
     andThen (query (fetch (\<lambda>w. firstWhere (\<lambda>r. pv_id r = i \<and> pv_project_id r = project_id)
       (project_env_variables (db w))))) (\<lambda>row.
     andThen (okOr (NotFound ''Project env var not found.'') row) (\<lambda>rec.
     mapErr (\<lambda>_. Infrastructure ''Failed to decrypt value.'')
       (decrypt_env_value (pv_encrypted_value rec) (pv_nonce rec))))))"

definition unlink_project_env :: "claims \<Rightarrow> uuid \<Rightarrow> uuid \<Rightarrow> unit handler" where
  "unlink_project_env claims instance_id project_env_id =
     andThen (active_workspace claims) (\<lambda>ws.
     andThen (authorize_instance_project instance_id ws) (\<lambda>_.
     andThen (query (execute (\<lambda>w. (db w)\<lparr>app_env_links := deleteWhere
       (\<lambda>l. el_app_instance_id l = instance_id \<and> el_project_env_id l = project_env_id) (app_env_links (db w))\<rparr>))) (\<lambda>_.
     hot_reload_if_running instance_id)))"

section \<open>The handlers of an instance's own variables\<close>

record env_response =
  vr_id :: uuid
  vr_app_instance_id :: uuid
  vr_key :: string
  vr_value :: "string option"
  vr_is_secret :: bool

record env_var_input =
  vi_key :: string
  vi_value :: string
  vi_is_secret :: "bool option"

text \<open>\<open>INSERT .. ON CONFLICT (app_instance_id, key) DO UPDATE\<close> of one variable, shared by the two handlers.\<close>

definition same_env_key :: "env_variable \<Rightarrow> env_variable \<Rightarrow> bool" where
  "same_env_key row r \<longleftrightarrow> ev_app_instance_id r = ev_app_instance_id row \<and> ev_key r = ev_key row"

definition put_env :: "env_variable \<Rightarrow> database \<Rightarrow> database" where
  "put_env row d = d\<lparr>environment_variables := upsertRow (same_env_key row) row
     (\<lambda>x. x\<lparr>ev_encrypted_value := ev_encrypted_value row, ev_nonce := ev_nonce row, ev_is_secret := ev_is_secret row\<rparr>)
     (environment_variables d)\<rparr>"

definition store_env :: "uuid \<Rightarrow> uuid \<Rightarrow> env_var_input \<Rightarrow> env_response handler" where
  "store_env workspace_id instance_id var =
     andThen (cleaned_key (vi_key var)) (\<lambda>clean_key.
     let is_secret = (case vi_is_secret var of None \<Rightarrow> True | Some b \<Rightarrow> b) in
     andThen (encrypt_env_value (vi_value var)) (\<lambda>(encrypted_value, nonce).
     andThen new_v4 (\<lambda>record_id.
     andThen (query (execute (\<lambda>w. put_env
       \<lparr>ev_id = record_id, ev_workspace_id = workspace_id, ev_app_instance_id = instance_id, ev_key = clean_key,
        ev_encrypted_value = encrypted_value, ev_nonce = nonce, ev_is_secret = is_secret\<rparr> (db w)))) (\<lambda>_.
     ret \<lparr>vr_id = record_id, vr_app_instance_id = instance_id, vr_key = clean_key,
          vr_value = (if is_secret then None else Some (vi_value var)), vr_is_secret = is_secret\<rparr>))))"

definition set_env_variable :: "claims \<Rightarrow> uuid \<Rightarrow> env_var_input \<Rightarrow> env_response handler" where
  "set_env_variable claims app_instance_id var =
     andThen (active_workspace claims) (\<lambda>ws_id.
     andThen (resolve_instance_workspace app_instance_id ws_id) (\<lambda>workspace_id.
     andThen (store_env workspace_id app_instance_id var) (\<lambda>response.
     andThen (hot_reload_if_running app_instance_id) (\<lambda>_.
     ret response))))"

definition set_envs_bulk :: "claims \<Rightarrow> uuid \<Rightarrow> env_var_input list \<Rightarrow> env_response list handler" where
  "set_envs_bulk claims app_instance_id variables =
     andThen (active_workspace claims) (\<lambda>ws_id.
     andThen (resolve_instance_workspace app_instance_id ws_id) (\<lambda>workspace_id.
     andThen (transaction (
       andThen (query (execute (\<lambda>w. (db w)\<lparr>environment_variables :=
         deleteWhere (\<lambda>r. ev_app_instance_id r = app_instance_id) (environment_variables (db w))\<rparr>))) (\<lambda>_.
       foldEach variables (\<lambda>var response.
         andThen (store_env workspace_id app_instance_id var) (\<lambda>r. ret (response @ [r]))) []))) (\<lambda>response.
     andThen (hot_reload_if_running app_instance_id) (\<lambda>_.
     ret response))))"

definition to_env_response :: "externals \<Rightarrow> env_variable \<Rightarrow> env_response" where
  "to_env_response x r =
     \<lparr>vr_id = ev_id r, vr_app_instance_id = ev_app_instance_id r, vr_key = ev_key r,
      vr_value = (if \<not> ev_is_secret r then unseal x (ev_encrypted_value r) (ev_nonce r) else None),
      vr_is_secret = ev_is_secret r\<rparr>"

definition list_env_variables :: "claims \<Rightarrow> uuid \<Rightarrow> pagination_params \<Rightarrow> env_response paginated handler" where
  "list_env_variables claims app_instance_id params =
     andThen (active_workspace claims) (\<lambda>ws_id.
     andThen (resolve_instance_workspace app_instance_id ws_id) (\<lambda>_.
     case resolve_page params of (page, page_size, offset) \<Rightarrow>
       andThen (query (fetch (\<lambda>w. int (length (own_vars app_instance_id (db w)))))) (\<lambda>total.
       andThen (query (fetchTry (\<lambda>w.
         case limit_offset page_size offset (sort_key ev_key (own_vars app_instance_id (db w))) of
           None \<Rightarrow> Inl (Database ''2201X'' None) | Some rows \<Rightarrow> Inr rows))) (\<lambda>envs.
       readState (\<lambda>w. \<lparr>pd_items = map (to_env_response (ext w)) envs, pd_total = total, pd_page = page,
         pd_page_size = page_size\<rparr>)))))"

definition list_project_envs_grouped ::
  "claims \<Rightarrow> uuid \<Rightarrow> (uuid \<times> string \<times> (uuid \<times> string \<times> env_response list) list) list handler" where
  "list_project_envs_grouped claims project_id =
     andThen (active_workspace claims) (\<lambda>ws_id.
     andThen (query (fetch (\<lambda>w. sort_key a_name
       (selectWhere (\<lambda>a. a_project_id a = project_id \<and> a_workspace_id a = ws_id) (apps (db w)))))) (\<lambda>as.
     foldEach as (\<lambda>a grouped.
       andThen (query (fetch (\<lambda>w. sort_key ai_branch_name
         (selectWhere (\<lambda>ai. ai_app_id ai = a_id a) (app_instances (db w)))))) (\<lambda>insts.
       andThen (foldEach insts (\<lambda>inst groups.
         andThen (query (fetch (\<lambda>w. sort_key ev_key (own_vars (ai_id inst) (db w))))) (\<lambda>envs.
         andThen (readState (\<lambda>w. map (to_env_response (ext w)) envs)) (\<lambda>vars.
         ret (groups @ [(ai_id inst, ai_branch_name inst, vars)])))) []) (\<lambda>groups.
       ret (grouped @ [(a_id a, a_name a, groups)])))) []))"

definition delete_env_variable :: "claims \<Rightarrow> uuid \<Rightarrow> unit handler" where
  "delete_env_variable claims env_id =
     andThen (active_workspace claims) (\<lambda>ws_id.
     let p = (\<lambda>r. ev_id r = env_id \<and> ev_workspace_id r = ws_id) in
     andThen (query (executing (\<lambda>w. (map_option ev_app_instance_id (firstWhere p (environment_variables (db w))),
       (db w)\<lparr>environment_variables := deleteWhere p (environment_variables (db w))\<rparr>)))) (\<lambda>affected.
     andThen (okOr (NotFound ''Environment variable not found.'') affected) hot_reload_if_running))"

end
