(* ===== verification/Env_Laws.thy ===== *)
theory Env_Laws
  imports Env_Pool
begin

text \<open>
  What the environment components guarantee: keys Kubernetes accepts, the precedence of the
  effective environment, secrecy of the build environment, the round trip of a stored
  variable, atomic bulk replacement, renamed keys that survive a republication, the
  constraints of the tables, and the isolation of workspaces.
\<close>

section \<open>Keys\<close>

lemma char_upper_idem: "char_upper (char_upper c) = char_upper c"
proof (cases "is_lower c")
  case True
  then have "code c - 32 < 256" "\<not> is_lower (char_of (code c - 32))"
    by (auto simp: is_lower_def code_char_of)
  with True show ?thesis by (simp add: char_upper_def)
qed (simp add: char_upper_def)

lemma not_lower_upper: "\<not> is_lower (char_upper c)"
  by (auto simp: char_upper_def is_lower_def code_char_of)

lemma key_char_not_space: "key_rest_ok c \<Longrightarrow> \<not> is_whitespace c \<and> c \<noteq> CHR '' ''"
  by (auto simp: key_rest_ok_def is_ascii_alphanumeric_def is_ascii_alphabetic_def is_upper_def is_lower_def
      is_ascii_digit_def is_whitespace_def code_def)

lemma trim_matches_id: "list_all (\<lambda>c. \<not> p c) s \<Longrightarrow> trim_matches p s = s"
proof -
  assume "list_all (\<lambda>c. \<not> p c) s"
  then have none: "\<not> p c" if "c \<in> set s" for c using that by (simp add: list_all_iff)
  have "dropWhile p s = s" using none hd_in_set [of s] by (auto simp: dropWhile_eq_self_iff)
  moreover have "dropWhile p (rev s) = rev s"
    using none last_in_set [of s] by (auto simp: dropWhile_eq_self_iff hd_rev)
  ultimately show ?thesis by (simp add: trim_matches_def)
qed

lemma hd_trim_matches:
  assumes "trim_matches p s \<noteq> []"
  shows "\<not> p (hd (trim_matches p s))"
proof -
  let ?d = "dropWhile p s"
  have t: "trim_matches p s = rev (dropWhile p (rev ?d))" by (simp add: trim_matches_def)
  have d: "?d = trim_matches p s @ rev (takeWhile p (rev ?d))"
    unfolding t by (metis rev_append rev_rev_ident takeWhile_dropWhile_id)
  then have "hd ?d = hd (trim_matches p s)" using assms by (metis hd_append2)
  moreover have "?d \<noteq> []" using assms d by (metis append_is_Nil_conv)
  ultimately show ?thesis using hd_dropWhile by metis
qed

lemma clean_env_key_fixed:
  assumes "s \<noteq> []" "key_first_ok (hd s)" "list_all key_rest_ok s" "list_all (\<lambda>c. \<not> is_lower c) s"
  shows "clean_env_key s = Inr s"
proof -
  have plain: "\<not> is_whitespace c \<and> c \<noteq> CHR '' ''" if "c \<in> set s" for c
    using assms(3) that by (intro key_char_not_space) (simp add: list_all_iff)
  have "list_all (\<lambda>c. \<not> is_whitespace c) s" using plain by (simp add: list_all_iff)
  then have "trim s = s" unfolding trim_def by (rule trim_matches_id)
  moreover have "to_uppercase s = s" unfolding to_uppercase_def
    by (rule map_idI) (use assms(4) in \<open>simp add: char_upper_def list_all_iff\<close>)
  moreover have "replace_char (CHR '' '') (CHR ''_'') s = s" unfolding replace_char_def
    by (rule map_idI) (simp only: plain if_False)
  ultimately show ?thesis using assms(1-3) by (simp add: clean_env_key_def Let_def)
qed

text \<open>
  A key the handlers accept is a C identifier in capitals, the form Kubernetes injects,
  and cleaning it again changes nothing; so the collision test and the unique constraint
  compare keys in their final form.
\<close>

theorem cleaned_keys_are_identifiers:
  assumes "clean_env_key raw = Inr k"
  shows "k \<noteq> [] \<and> key_first_ok (hd k) \<and> list_all key_rest_ok k \<and> list_all (\<lambda>c. \<not> is_lower c) k
    \<and> clean_env_key k = Inr k"
proof -
  have k: "k = replace_char (CHR '' '') (CHR ''_'') (to_uppercase (trim raw))" "k \<noteq> []"
    "key_first_ok (hd k)" "list_all key_rest_ok k"
    using assms by (auto simp: clean_env_key_def Let_def split: if_splits)
  have "list_all (\<lambda>c. \<not> is_lower c) k"
    by (auto simp: k(1) replace_char_def to_uppercase_def list_all_iff not_lower_upper)
      (simp add: is_lower_def code_def)
  with k clean_env_key_fixed show ?thesis by blast
qed

theorem cleaned_keys_are_identifiers_witness:
  "clean_env_key '' db url '' = Inr ''DB_URL'' \<and> clean_env_key ''DB_URL'' = Inr ''DB_URL''"
proof -
  have "clean_env_key '' db url '' = Inr ''DB_URL''" by code_simp
  with cleaned_keys_are_identifiers [OF this] show ?thesis by simp
qed

text \<open>
  The key fragment made from a resource's name uses only capitals, digits and underscores,
  or is the fallback; but it may start with a digit, and then the handlers' own test refuses
  it as a key: the variable published under it never reaches a pod.
\<close>

theorem sanitized_fragment_may_be_invalid:
  "(sanitize_key_fragment name fallback = fallback
     \<or> (list_all key_rest_ok (sanitize_key_fragment name fallback)
        \<and> hd (sanitize_key_fragment name fallback) \<noteq> CHR ''_''))
   \<and> sanitize_key_fragment ''2fa-db'' ''POSTGRES'' = ''2FA_DB''
   \<and> clean_env_key (sanitize_key_fragment ''2fa-db'' ''POSTGRES'' @ ''_DATABASE_URL'')
       = Inl (Validation (''Invalid environment key '' @ [CHR 39] @ ''2FA_DB_DATABASE_URL'' @ [CHR 39] @
               '': use only letters, digits and underscores, and don't start with a digit.''))"
proof (intro conjI)
  let ?c = "map_chars (\<lambda>c. if is_ascii_alphanumeric c then c else CHR ''_'') (to_uppercase (trim name))"
  let ?t = "trim_matches (\<lambda>c. c = CHR ''_'') ?c"
  have "list_all key_rest_ok ?t"
    using set_trim_matches [of "\<lambda>c. c = CHR ''_''" ?c] by (auto simp: list_all_iff key_rest_ok_def map_chars_def)
  moreover have "hd ?t \<noteq> CHR ''_''" if "?t \<noteq> []"
    by (rule hd_trim_matches [OF that])
  ultimately show "sanitize_key_fragment name fallback = fallback
     \<or> (list_all key_rest_ok (sanitize_key_fragment name fallback)
        \<and> hd (sanitize_key_fragment name fallback) \<noteq> CHR ''_'')"
    by (simp add: sanitize_key_fragment_def Let_def)
  show "sanitize_key_fragment ''2fa-db'' ''POSTGRES'' = ''2FA_DB''" by code_simp
  then show "clean_env_key (sanitize_key_fragment ''2fa-db'' ''POSTGRES'' @ ''_DATABASE_URL'')
       = Inl (Validation (''Invalid environment key '' @ [CHR 39] @ ''2FA_DB_DATABASE_URL'' @ [CHR 39] @
               '': use only letters, digits and underscores, and don't start with a digit.''))"
    by simp code_simp
qed

section \<open>The effective environment\<close>

text \<open>The values a list of rows gives: a later row of the same key overrides.\<close>

definition values_of :: "externals \<Rightarrow> sealed list \<Rightarrow> string \<Rightarrow> string option" where
  "values_of x rows = map_of (rev (List.map_filter (\<lambda>(k, e, n). map_option (Pair k) (unseal x e n)) rows))"

lemma insert_decrypted_Nil [simp]: "insert_decrypted x [] m = m"
  by (simp add: insert_decrypted_def)

lemma insert_decrypted_Cons [simp]:
  "insert_decrypted x ((k, e, n) # rows) m =
     insert_decrypted x rows (case unseal x e n of None \<Rightarrow> m | Some v \<Rightarrow> AList.update k v m)"
  by (simp add: insert_decrypted_def)

lemma map_of_insert_decrypted: "map_of (insert_decrypted x rows m) = map_of m ++ values_of x rows"
proof (induction rows arbitrary: m)
  case Nil
  then show ?case by (simp add: values_of_def map_filter_simps)
next
  case (Cons r rows)
  obtain k e n where r: "r = (k, e, n)" by (cases r)
  show ?case
    using Cons by (cases "unseal x e n")
      (auto simp: r values_of_def map_filter_simps update_conv' map_add_def fun_eq_iff split: option.splits)
qed

lemma distinct_insert_decrypted:
  "distinct (map fst m) \<Longrightarrow> distinct (map fst (insert_decrypted x rows m))"
  by (induction rows arbitrary: m) (auto simp: distinct_update split: option.split)

lemma finalize_props:
  assumes "distinct (map fst m)"
  shows "map_of (finalize m) = map_of m" "distinct (map fst (finalize m))" "sorted (map fst (finalize m))"
proof -
  have "distinct (map fst (finalize m))"
    using assms by (simp add: finalize_def distinct_map inj_on_def)
  then show "distinct (map fst (finalize m))" .
  then have "map_of (finalize m) k = Some v \<longleftrightarrow> map_of m k = Some v" for k v
    using assms by (simp add: finalize_def)
  then show "map_of (finalize m) = map_of m" by (metis ext option.exhaust)
  show "sorted (map fst (finalize m))" by (simp add: finalize_def)
qed

lemma distinct_loaded:
  "distinct (map fst (insert_decrypted x rows2 (insert_decrypted x rows1 [])))"
  by (intro distinct_insert_decrypted) simp

lemma load_vars_run:
  "faults w = [] \<Longrightarrow> load_vars g m w = (Inr (insert_decrypted (ext w) (g (db w)) m), w)"
  by (simp add: load_vars_def run_simps)

lemma resolve_instance_env_run:
  "faults w = [] \<Longrightarrow> resolve_instance_env i w =
     (Inr (finalize (insert_decrypted (ext w) (map sealed_ev (own_vars i (db w)))
        (insert_decrypted (ext w) (map sealed_pv (linked_vars i (db w))) []))), w)"
  by (simp add: resolve_instance_env_def andThen_def load_vars_run ret_def)

lemma resolve_cron_env_run:
  "faults w = [] \<Longrightarrow> resolve_cron_env i w =
     (Inr (finalize (insert_decrypted (ext w) (map sealed_ce
          (selectWhere (\<lambda>r. ce_cron_job_id r = i) (cron_env_variables (db w))))
        (insert_decrypted (ext w) (map sealed_pv (cron_linked_vars i (db w))) []))), w)"
  by (simp add: resolve_cron_env_def andThen_def load_vars_run ret_def)

lemma loaded_lookup:
  "map_of (finalize (insert_decrypted x own (insert_decrypted x linked []))) k =
     (case values_of x own k of Some v \<Rightarrow> Some v | None \<Rightarrow> values_of x linked k)"
  by (simp add: finalize_props(1) distinct_loaded map_of_insert_decrypted map_add_def split: option.split)

text \<open>
  The effective environment of an instance, and of a cron job, has each key once, in
  order; a key has the value of its own variable when that decrypts and otherwise the value
  of the linked pool variable: the own value wins. Nothing is written by resolving it.
\<close>

theorem own_value_wins:
  assumes "faults w = []"
  shows "(\<exists>env. resolve_instance_env i w = (Inr env, w) \<and> sorted (map fst env) \<and> distinct (map fst env)
      \<and> (\<forall>k. map_of env k = (case values_of (ext w) (map sealed_ev (own_vars i (db w))) k of
            Some v \<Rightarrow> Some v | None \<Rightarrow> values_of (ext w) (map sealed_pv (linked_vars i (db w))) k)))
    \<and> (\<exists>env. resolve_cron_env i w = (Inr env, w) \<and> sorted (map fst env) \<and> distinct (map fst env)
      \<and> (\<forall>k. map_of env k = (case values_of (ext w) (map sealed_ce
              (selectWhere (\<lambda>r. ce_cron_job_id r = i) (cron_env_variables (db w)))) k of
            Some v \<Rightarrow> Some v | None \<Rightarrow> values_of (ext w) (map sealed_pv (cron_linked_vars i (db w))) k)))"
  using assms
  by (auto simp: resolve_instance_env_run resolve_cron_env_run loaded_lookup finalize_props(2,3) distinct_loaded)

definition env_world :: world where
  "env_world = base_world\<lparr>db := empty_db\<lparr>
     projects := [\<lparr>pr_id = 3, pr_workspace_id = 7, pr_name = ''p'', pr_slug = ''p'', pr_created_by = 1, pr_created_at = 0, pr_ingress_ip = None,
       pr_base_domain = None, pr_cloudflare_credential_id = None\<rparr>],
     apps := [\<lparr>a_id = 4, a_workspace_id = 7, a_project_id = 3, a_name = ''web'', a_slug = ''web'', a_git_repository = ''g'',
       a_build_command = None, a_start_command = None, a_git_subpath = None, a_git_credential_id = None, a_tcp_udp_ports = []\<rparr>],
     app_instances := [\<lparr>ai_id = 5, ai_app_id = 4, ai_branch_name = ''main'', ai_instance_type = Production,
       ai_status = Stopped, ai_internal_port = 3000, ai_external_port = None, ai_port_is_auto = True,
       ai_container_name = ''c'', ai_cpu_limit = Some 0, ai_memory_limit_mb = Some 0, ai_replicas_min = 1, ai_replicas_max = 1,
       ai_knative_enabled = False, ai_auto_sleep_enabled = False, ai_auto_sleep_after_minutes = 30, ai_health_check_path = None,
       ai_consecutive_health_failures = 0, ai_autoscale_cpu_percent = 80, ai_assigned_domain = None,
       ai_current_image_tag = None, ai_updated_at = 0, ai_network_alias = None, ai_env_seeded = False,
       ai_knative_scaling = (None, None, None), ai_github_webhook = None\<rparr>],
     project_env_variables := [
       \<lparr>pv_id = 20, pv_workspace_id = 7, pv_project_id = 3, pv_key = ''A'', pv_encrypted_value = ''n#pool'', pv_nonce = ''n'',
        pv_is_secret = True, pv_source = ''database'', pv_source_id = Some 30\<rparr>,
       \<lparr>pv_id = 21, pv_workspace_id = 7, pv_project_id = 3, pv_key = ''B'', pv_encrypted_value = ''n#bee'', pv_nonce = ''n'',
        pv_is_secret = False, pv_source = ''manual'', pv_source_id = None\<rparr>],
     app_env_links := [\<lparr>el_app_instance_id = 5, el_project_env_id = 20\<rparr>, \<lparr>el_app_instance_id = 5, el_project_env_id = 21\<rparr>],
     environment_variables := [
       \<lparr>ev_id = 40, ev_workspace_id = 7, ev_app_instance_id = 5, ev_key = ''A'', ev_encrypted_value = ''m#own'', ev_nonce = ''m'',
        ev_is_secret = True\<rparr>]\<rparr>\<rparr>"

lemmas env_world_defs = env_world_def base_world_def empty_db_def plain_ext_def

theorem own_value_wins_witness:
  "\<exists>env. resolve_instance_env 5 env_world = (Inr env, env_world) \<and> map_of env ''A'' = Some ''own''"
  using own_value_wins [of env_world 5]
  by (auto simp: env_world_defs own_vars_def selectWhere_def sealed_ev_def values_of_def map_filter_simps starts_with_def)

lemma values_of_Some:
  assumes "values_of x rows k = Some v"
  shows "\<exists>e n. (k, e, n) \<in> set rows \<and> unseal x e n = Some v"
proof -
  from assms have "(k, v) \<in> set (List.map_filter (\<lambda>(k, e, n). map_option (Pair k) (unseal x e n)) rows)"
    unfolding values_of_def by (auto dest: map_of_SomeD)
  then show ?thesis by (induction rows) (auto simp: map_filter_simps split: option.splits)
qed

lemma load_vars_cases:
  "load_vars g m w = (r, w') \<Longrightarrow>
     (r = Inr m \<or> r = Inr (insert_decrypted (ext w) (g (db w)) m)) \<and> db w' = db w \<and> ext w' = ext w"
  by (auto simp: load_vars_def act_defs fetch_def sql_def Let_def split: if_splits)

lemma resolved_from_rows:
  assumes "andThen (load_vars g []) (\<lambda>m. andThen (load_vars h m) (\<lambda>m. ret (finalize m))) w = (Inr env, w')"
    "(k, v) \<in> set env"
  shows "\<exists>e n. (k, e, n) \<in> set (g (db w)) \<union> set (h (db w)) \<and> unseal (ext w) e n = Some v"
proof -
  obtain r1 w1 where 1: "load_vars g [] w = (r1, w1)" by fastforce
  note c1 = load_vars_cases [OF 1]
  then obtain m1 where m1: "r1 = Inr m1" by blast
  obtain r2 w2 where 2: "load_vars h m1 w1 = (r2, w2)" by fastforce
  note c2 = load_vars_cases [OF 2]
  then obtain m2 where m2: "r2 = Inr m2" by blast
  have env: "env = finalize m2" using assms(1) by (simp add: act_defs 1 2 m1 m2)
  have "m1 = [] \<or> m1 = insert_decrypted (ext w) (g (db w)) []" using c1 m1 by simp
  then have d1: "distinct (map fst m1)" and l1: "map_of m1 k = Some v \<Longrightarrow> values_of (ext w) (g (db w)) k = Some v"
    by (auto simp: distinct_insert_decrypted map_of_insert_decrypted)
  have "m2 = m1 \<or> m2 = insert_decrypted (ext w) (h (db w)) m1" using c1 c2 m2 by simp
  then have d2: "distinct (map fst m2)"
    and l2: "map_of m2 k = Some v \<Longrightarrow> values_of (ext w) (h (db w)) k = Some v \<or> map_of m1 k = Some v"
    using d1 by (auto simp: distinct_insert_decrypted map_of_insert_decrypted)
  have "map_of m2 k = Some v"
    using assms(2) d2 finalize_props(1,2) [OF d2] by (simp add: env flip: finalize_props(1) [OF d2])
  with l1 l2 show ?thesis using values_of_Some by blast
qed

text \<open>
  No secret is baked into an image: whatever fails on the way, every entry of the build
  environment is the decrypted value of a variable that is not marked secret, linked or own.
\<close>

theorem build_env_has_no_secret:
  assumes "resolve_instance_build_env i w = (Inr env, w')" "(k, v) \<in> set env"
  shows "(\<exists>r \<in> set (linked_vars i (db w)). \<not> pv_is_secret r \<and> pv_key r = k
        \<and> unseal (ext w) (pv_encrypted_value r) (pv_nonce r) = Some v)
    \<or> (\<exists>r \<in> set (own_vars i (db w)). \<not> ev_is_secret r \<and> ev_key r = k
        \<and> unseal (ext w) (ev_encrypted_value r) (ev_nonce r) = Some v)"
  using resolved_from_rows [OF assms(1) [unfolded resolve_instance_build_env_def] assms(2)]
  by (auto simp: sealed_pv_def sealed_ev_def)

theorem build_env_has_no_secret_witness:
  "\<exists>r \<in> set (linked_vars 5 (db env_world)) . pv_key r = ''B'' \<and> \<not> pv_is_secret r"
proof -
  have run: "resolve_instance_build_env 5 env_world = (Inr [(''B'', ''bee'')], env_world)"
    by (simp add: resolve_instance_build_env_def andThen_def load_vars_run ret_def env_world_defs linked_vars_def own_vars_def
        selectWhere_def sealed_pv_def sealed_ev_def starts_with_def finalize_def)
  from build_env_has_no_secret [OF run, of "''B''" "''bee''"] show ?thesis
    by (auto simp: env_world_defs own_vars_def selectWhere_def)
qed

text \<open>
  A read that fails is taken for an empty one: when the query of the linked variables
  fails, resolving reports success with the own variables alone, and the hot reload replaces
  the secret of the running instance by that and restarts it.
\<close>

theorem failed_read_empties_the_pool:
  assumes "faults w = [True]" "\<And>j m. k8s_reply w j \<noteq> Refused m"
  shows "\<exists>w'. hot_reload_instance_envs i c ws kn w = (Inr (), w')
    \<and> k8s_calls w' = k8s_calls w @ [GetClient,
        CreateSecret (ws_namespace ws) c (finalize (insert_decrypted (ext w) (map sealed_ev (own_vars i (db w))) [])),
        (if kn then RestartKnative (ws_namespace ws) c else RestartDeployment (ws_namespace ws) c)]"
proof -
  have load1: "load_vars g m w = (Inr m, w\<lparr>faults := []\<rparr>)" for g m
    using assms(1) by (simp add: load_vars_def act_defs fetch_def sql_def next_fails_def)
  have ok: "k8s_do call v = (Inr (), v\<lparr>k8s_calls := k8s_calls v @ [call]\<rparr>)"
    if "k8s_reply v = k8s_reply w" for call v
  proof (cases "k8s_reply w (length (k8s_calls v))")
    case (Refused m)
    with assms(2) [of "length (k8s_calls v)" m] show ?thesis by simp
  qed (use that in \<open>simp_all add: run_simps\<close>)
  show ?thesis
    by (simp add: hot_reload_instance_envs_def resolve_instance_env_def load1 load_vars_run act_defs ok Let_def)
qed

theorem failed_read_empties_the_pool_witness:
  "\<exists>w'. hot_reload_instance_envs 5 ''c'' 7 False (env_world\<lparr>faults := [True]\<rparr>) = (Inr (), w')
     \<and> CreateSecret (ws_namespace 7) ''c'' [(''A'', ''own'')] \<in> set (k8s_calls w')"
proof -
  have own: "finalize (insert_decrypted (ext env_world) (map sealed_ev (own_vars 5 (db env_world))) []) = [(''A'', ''own'')]"
    by (simp add: env_world_defs own_vars_def selectWhere_def sealed_ev_def starts_with_def finalize_def)
  show ?thesis
    using failed_read_empties_the_pool [of "env_world\<lparr>faults := [True]\<rparr>" 5 "''c''" 7 False] own
    by (auto simp: env_world_def base_world_def)
qed

section \<open>Storing variables\<close>

lemma cleaned_key_cases:
  "cleaned_key raw w = (case clean_env_key raw of Inl e \<Rightarrow> (Inl e, w) | Inr k \<Rightarrow> (Inr k, w))"
  by (simp add: cleaned_key_def act_defs split: sum.split)

lemma encrypt_env_value_run:
  "encrypt_env_value p w =
     (case seal (ext w) p (random_text w (drawn w)) of
        None \<Rightarrow> (Inl (Fatal (FromText ''Encryption failed'')), w\<lparr>drawn := Suc (drawn w)\<rparr>)
      | Some c \<Rightarrow> (Inr (c, random_text w (drawn w)), w\<lparr>drawn := Suc (drawn w)\<rparr>))"
  by (simp add: encrypt_env_value_def act_defs random_string_def split: option.split)

text \<open>What storing one variable does, whatever fails: nothing, or exactly the upsert of its key.\<close>

lemma store_env_effect:
  assumes "store_env ws i var w = (r, w')"
  shows "case r of Inl _ \<Rightarrow> db w' = db w
    | Inr resp \<Rightarrow> \<exists>row. ev_app_instance_id row = i \<and> ev_workspace_id row = ws \<and> ev_key row = vr_key resp
        \<and> clean_env_key (vi_key var) = Inr (ev_key row) \<and> vr_app_instance_id resp = i \<and> db w' = put_env row (db w)"
  using assms
  by (auto simp: store_env_def act_defs cleaned_key_cases encrypt_env_value_run new_v4_def query_def execute_def sql_def Let_def
      split: sum.splits option.splits if_splits prod.splits intro!: exI)

lemma store_env_run:
  assumes "faults w = []" "clean_env_key (vi_key var) = Inr k"
    "seal (ext w) (vi_value var) (random_text w (drawn w)) = Some c"
  shows "store_env ws i var w =
    (Inr \<lparr>vr_id = random_uuid w (Suc (drawn w)), vr_app_instance_id = i, vr_key = k,
        vr_value = (if vi_is_secret var = Some False then Some (vi_value var) else None),
        vr_is_secret = (vi_is_secret var \<noteq> Some False)\<rparr>,
     w\<lparr>drawn := drawn w + 2,
       db := put_env \<lparr>ev_id = random_uuid w (Suc (drawn w)), ev_workspace_id = ws, ev_app_instance_id = i, ev_key = k,
        ev_encrypted_value = c, ev_nonce = random_text w (drawn w), ev_is_secret = (vi_is_secret var \<noteq> Some False)\<rparr> (db w)\<rparr>)"
  using assms
  by (auto simp: store_env_def act_defs cleaned_key_cases encrypt_env_value_run new_v4_def query_def execute_ok Let_def
      split: option.splits)

lemma hot_reload_if_running_run:
  assumes "faults w = []"
  shows "\<exists>w'. hot_reload_if_running i w = (Inr (), w') \<and> db w' = db w \<and> ext w' = ext w \<and> faults w' = []"
  using assms
  by (auto simp: hot_reload_if_running_def hot_reload_instance_envs_def resolve_instance_env_run run_simps Let_def
      split: option.split k8s_answer.split)

lemma put_env_own:
  "own_vars i (put_env row d) = (if ev_app_instance_id row = i then
     upsertRow (\<lambda>r. ev_key r = ev_key row) row
       (\<lambda>x. x\<lparr>ev_encrypted_value := ev_encrypted_value row, ev_nonce := ev_nonce row, ev_is_secret := ev_is_secret row\<rparr>)
       (own_vars i d) else own_vars i d)"
proof -
  have up: "filter (\<lambda>r. ev_app_instance_id r = i) (updateWhere (same_env_key row) f t)
      = (if ev_app_instance_id row = i then updateWhere (\<lambda>r. ev_key r = ev_key row) f (filter (\<lambda>r. ev_app_instance_id r = i) t)
         else filter (\<lambda>r. ev_app_instance_id r = i) t)"
    if "\<And>r. ev_app_instance_id (f r) = ev_app_instance_id r" for f t
    using that by (induction t) (auto simp: updateWhere_def same_env_key_def)
  show ?thesis
    by (auto simp: own_vars_def put_env_def upsertRow_def selectWhere_def up filter_insertRow existsWhere_iff same_env_key_def
        insertRow_def)
qed

lemma values_of_unambiguous:
  assumes "(k, e, n) \<in> set rows" "\<And>e' n'. (k, e', n') \<in> set rows \<Longrightarrow> e' = e \<and> n' = n"
  shows "values_of x rows k = unseal x e n"
proof (cases "values_of x rows k")
  case (Some v)
  with values_of_Some [OF this] assms(2) show ?thesis by auto
next
  case None
  have "unseal x e n = None"
  proof (rule ccontr)
    assume "unseal x e n \<noteq> None"
    then obtain v where "unseal x e n = Some v" by blast
    with assms(1) have "(k, v) \<in> set (List.map_filter (\<lambda>(k, e, n). map_option (Pair k) (unseal x e n)) rows)"
      by (force simp: map_filter_def)
    then have "k \<in> fst ` set (List.map_filter (\<lambda>(k, e, n). map_option (Pair k) (unseal x e n)) rows)" by force
    with None show False by (simp add: values_of_def map_of_eq_None_iff)
  qed
  with None show ?thesis by simp
qed

lemma values_of_upsert:
  "values_of x (map sealed_ev (upsertRow (\<lambda>r. ev_key r = ev_key row) row
       (\<lambda>y. y\<lparr>ev_encrypted_value := ev_encrypted_value row, ev_nonce := ev_nonce row, ev_is_secret := ev_is_secret row\<rparr>)
       rows)) (ev_key row) = unseal x (ev_encrypted_value row) (ev_nonce row)"
    (is "values_of x (map sealed_ev ?t) _ = _")
proof (rule values_of_unambiguous)
  let ?f = "\<lambda>y. y\<lparr>ev_encrypted_value := ev_encrypted_value row, ev_nonce := ev_nonce row, ev_is_secret := ev_is_secret row\<rparr>"
  show "(ev_key row, ev_encrypted_value row, ev_nonce row) \<in> set (map sealed_ev ?t)"
  proof (cases "\<exists>r \<in> set rows. ev_key r = ev_key row")
    case True
    then obtain r where r: "r \<in> set rows" "ev_key r = ev_key row" by blast
    then have "?f r \<in> set ?t" by (auto simp: upsertRow_def set_updateWhere existsWhere_iff)
    moreover have "sealed_ev (?f r) = (ev_key row, ev_encrypted_value row, ev_nonce row)" by (simp add: sealed_ev_def r(2))
    ultimately show ?thesis by (metis image_eqI set_map)
  next
    case False
    then show ?thesis by (auto simp: upsertRow_def set_insertRow existsWhere_iff sealed_ev_def)
  qed
  show "e' = ev_encrypted_value row \<and> n' = ev_nonce row"
    if "(ev_key row, e', n') \<in> set (map sealed_ev ?t)" for e' n'
  proof -
    from that obtain r where r: "r \<in> set ?t" "ev_key r = ev_key row" "e' = ev_encrypted_value r" "n' = ev_nonce r"
      by (auto simp: sealed_ev_def)
    show ?thesis
    proof (cases "existsWhere (\<lambda>r. ev_key r = ev_key row) rows")
      case True
      then have "r \<in> (\<lambda>y. if ev_key y = ev_key row then ?f y else y) ` set rows"
        using r(1) by (simp add: upsertRow_def set_updateWhere)
      then obtain y where y: "r = (if ev_key y = ev_key row then ?f y else y)" by blast
      show ?thesis using r(2) unfolding r(3,4) y by (cases "ev_key y = ev_key row") simp_all
    next
      case False
      then have "r = row" using r(1,2) by (auto simp: upsertRow_def set_insertRow existsWhere_iff)
      then show ?thesis by (simp add: r(3,4))
    qed
  qed
qed

text \<open>The constraints of the tables of environment variables, with the foreign keys of the links.\<close>

definition env_tables_ok :: "database \<Rightarrow> bool" where
  "env_tables_ok d \<longleftrightarrow>
     uniqueOn (\<lambda>r. (ev_app_instance_id r, ev_key r)) (environment_variables d)
     \<and> uniqueOn pv_id (project_env_variables d)
     \<and> uniqueOn (\<lambda>r. (pv_project_id r, pv_key r)) (project_env_variables d)
     \<and> uniqueOn (\<lambda>l. (el_app_instance_id l, el_project_env_id l)) (app_env_links d)
     \<and> (\<forall>l \<in> set (app_env_links d). el_project_env_id l \<in> pv_id ` set (project_env_variables d))"

lemma set_env_variable_run:
  assumes "faults w = []" "c_current_workspace_id c = Some ws" "instance_app i (db w) = Some a" "a_workspace_id a = ws"
    "store_env ws i var w = (Inr resp, w1)" "faults w1 = []"
  shows "\<exists>w'. set_env_variable c i var w = (Inr resp, w') \<and> db w' = db w1 \<and> ext w' = ext w1 \<and> faults w' = []"
  using assms hot_reload_if_running_run [OF assms(6), of i]
  by (auto simp: set_env_variable_def active_workspace_def resolve_instance_workspace_def run_simps)

text \<open>
  C18. What is stored is what the app sees: after a caller of the owning workspace sets a
  variable of an instance, the effective environment gives the cleaned key exactly the
  submitted value, over any linked variable and any previous value, provided the cipher
  opens what it sealed.
\<close>

theorem set_then_resolve:
  assumes "faults w = []"
    and "c_current_workspace_id c = Some ws" "instance_app i (db w) = Some a" "a_workspace_id a = ws"
    and "clean_env_key (vi_key var) = Inr k"
    and "\<And>p n. \<exists>e. seal (ext w) p n = Some e \<and> unseal (ext w) e n = Some p"
  shows "\<exists>resp w' env. set_env_variable c i var w = (Inr resp, w') \<and> vr_key resp = k
    \<and> resolve_instance_env i w' = (Inr env, w') \<and> map_of env k = Some (vi_value var)"
proof -
  from assms(6) obtain e where e: "seal (ext w) (vi_value var) (random_text w (drawn w)) = Some e"
    "unseal (ext w) e (random_text w (drawn w)) = Some (vi_value var)" by blast
  define row where "row = \<lparr>ev_id = random_uuid w (Suc (drawn w)), ev_workspace_id = ws, ev_app_instance_id = i, ev_key = k,
        ev_encrypted_value = e, ev_nonce = random_text w (drawn w), ev_is_secret = (vi_is_secret var \<noteq> Some False)\<rparr>"
  define w1 where "w1 = w\<lparr>drawn := drawn w + 2, db := put_env row (db w)\<rparr>"
  obtain resp where resp: "store_env ws i var w = (Inr resp, w1)" "vr_key resp = k"
    using store_env_run [OF assms(1,5) e(1)] by (auto simp: w1_def row_def)
  have "faults w1 = []" by (simp add: w1_def assms(1))
  from set_env_variable_run [OF assms(1,2,3,4) resp(1) this] obtain w' where w':
    "set_env_variable c i var w = (Inr resp, w')" "db w' = put_env row (db w)" "ext w' = ext w" "faults w' = []"
    by (auto simp: w1_def)
  have "values_of (ext w) (map sealed_ev (own_vars i (put_env row (db w)))) (ev_key row) = Some (vi_value var)"
    using values_of_upsert [of "ext w" row "own_vars i (db w)"] e(2) by (simp add: put_env_own row_def)
  then have "map_of (finalize (insert_decrypted (ext w') (map sealed_ev (own_vars i (db w')))
      (insert_decrypted (ext w') (map sealed_pv (linked_vars i (db w'))) []))) k = Some (vi_value var)"
    by (simp add: loaded_lookup w'(2,3) row_def)
  with w'(1,4) resp(2) show ?thesis by (auto simp: resolve_instance_env_run)
qed

definition sample_claims :: claims where
  "sample_claims = \<lparr>c_sub = 1, c_username = ''u'', c_email = ''e'', c_status = Active, c_is_super_admin = False,
     c_current_workspace_id = Some 7, c_exp = 0\<rparr>"

lemma env_world_facts:
  "faults env_world = []" "env_tables_ok (db env_world)" "c_current_workspace_id sample_claims = Some 7"
  "\<exists>a. instance_app 5 (db env_world) = Some a \<and> a_workspace_id a = 7 \<and> a_project_id a = 3"
  "\<exists>e. seal (ext env_world) p n = Some e \<and> unseal (ext env_world) e n = Some p"
  by (simp_all add: env_world_defs env_tables_ok_def uniqueOn_def sample_claims_def instance_app_def firstWhere_def starts_with_def)

lemma clean_a: "clean_env_key ''a'' = Inr ''A''" "clean_env_key ''b'' = Inr ''B''"
  by code_simp+

theorem set_then_resolve_witness:
  "\<exists>resp w' env. set_env_variable sample_claims 5 \<lparr>vi_key = ''a'', vi_value = ''new'', vi_is_secret = None\<rparr> env_world = (Inr resp, w')
     \<and> resolve_instance_env 5 w' = (Inr env, w') \<and> map_of env ''A'' = Some ''new''"
proof -
  obtain a where a: "instance_app 5 (db env_world) = Some a" "a_workspace_id a = 7" using env_world_facts(4) by blast
  show ?thesis
    using set_then_resolve [OF env_world_facts(1,3) a, of "\<lparr>vi_key = ''a'', vi_value = ''new'', vi_is_secret = None\<rparr>" "''A''"]
      clean_a(1) env_world_facts(5) by auto
qed

text \<open>
  The response to a second write of the same key names an identifier that no row has:
  the upsert keeps the old row's identifier while the response carries the fresh one, and
  deleting the variable by the reported identifier is answered with not found.
\<close>

theorem updated_variable_reports_unknown_id:
  assumes "faults w = []" "c_current_workspace_id c = Some ws" "instance_app i (db w) = Some a" "a_workspace_id a = ws"
    and "clean_env_key (vi_key var) = Inr k" "seal (ext w) (vi_value var) (random_text w (drawn w)) = Some e"
    and "\<exists>r \<in> set (environment_variables (db w)). ev_app_instance_id r = i \<and> ev_key r = k"
    and "random_uuid w (Suc (drawn w)) \<notin> ev_id ` set (environment_variables (db w))"
  shows "\<exists>resp w' w''. set_env_variable c i var w = (Inr resp, w')
    \<and> vr_id resp \<notin> ev_id ` set (environment_variables (db w'))
    \<and> delete_env_variable c (vr_id resp) w' = (Inl (NotFound ''Environment variable not found.''), w'')
    \<and> db w'' = db w'"
proof -
  let ?row = "\<lparr>ev_id = random_uuid w (Suc (drawn w)), ev_workspace_id = ws, ev_app_instance_id = i, ev_key = k,
        ev_encrypted_value = e, ev_nonce = random_text w (drawn w), ev_is_secret = (vi_is_secret var \<noteq> Some False)\<rparr>"
  obtain resp w1 where resp: "store_env ws i var w = (Inr resp, w1)" "vr_id resp = random_uuid w (Suc (drawn w))"
    "db w1 = put_env ?row (db w)" "faults w1 = []"
    using store_env_run [OF assms(1,5,6)] assms(1) by auto
  from set_env_variable_run [OF assms(1-4) resp(1,4)] obtain w' where w':
    "set_env_variable c i var w = (Inr resp, w')" "db w' = put_env ?row (db w)" "faults w' = []"
    using resp(3) by auto
  have "map ev_id (environment_variables (put_env ?row (db w))) = map ev_id (environment_variables (db w))"
    using assms(7) by (simp add: put_env_def upsertRow_def existsWhere_iff map_updateWhere same_env_key_def)
  then have "ev_id ` set (environment_variables (put_env ?row (db w))) = ev_id ` set (environment_variables (db w))"
    by (metis set_map)
  then have gone: "vr_id resp \<notin> ev_id ` set (environment_variables (db w'))" using assms(8) resp(2) w'(2) by simp
  let ?p = "\<lambda>r. ev_id r = vr_id resp \<and> ev_workspace_id r = ws"
  have none: "\<forall>r \<in> set (environment_variables (db w')). \<not> ?p r" using gone by (auto simp: image_iff)
  then have f: "firstWhere ?p (environment_variables (db w')) = None"
    and d: "deleteWhere ?p (environment_variables (db w')) = environment_variables (db w')"
    by (simp_all only: firstWhere_None deleteWhere_none)
  have "delete_env_variable c (vr_id resp) w' = (Inl (NotFound ''Environment variable not found.''), w')"
    using w'(3) assms(2) by (simp add: delete_env_variable_def active_workspace_def run_simps Let_def f d)
  with w'(1) gone show ?thesis by blast
qed

theorem updated_variable_reports_unknown_id_witness:
  "\<exists>resp w'. set_env_variable sample_claims 5 \<lparr>vi_key = ''a'', vi_value = ''new'', vi_is_secret = None\<rparr> env_world = (Inr resp, w')
     \<and> vr_id resp \<notin> ev_id ` set (environment_variables (db w'))"
proof -
  obtain a where a: "instance_app 5 (db env_world) = Some a" "a_workspace_id a = 7" using env_world_facts(4) by blast
  show ?thesis
    using updated_variable_reports_unknown_id [OF env_world_facts(1,3) a,
      of "\<lparr>vi_key = ''a'', vi_value = ''new'', vi_is_secret = None\<rparr>" "''A''"] clean_a(1)
    by (auto simp: env_world_defs)
qed

section \<open>Frame rules of the components\<close>

lemma keeps_load_vars [keeps_intros]: "keeps (\<lambda>w. I (db w)) (load_vars g m)"
  unfolding load_vars_def by (intro keeps_intros)

lemma keeps_resolve_instance_env [keeps_intros]: "keeps (\<lambda>w. I (db w)) (resolve_instance_env i)"
  unfolding resolve_instance_env_def by (intro keeps_intros)

lemma keeps_resolve_cron_env [keeps_intros]: "keeps (\<lambda>w. I (db w)) (resolve_cron_env i)"
  unfolding resolve_cron_env_def by (intro keeps_intros)

lemma keeps_hot_reload_instance_envs [keeps_intros]:
  "keeps (\<lambda>w. I (db w)) (hot_reload_instance_envs i c ws k)"
  unfolding hot_reload_instance_envs_def by (intro keeps_intros)

lemma keeps_hot_reload_if_running [keeps_intros]: "keeps (\<lambda>w. I (db w)) (hot_reload_if_running i)"
  unfolding hot_reload_if_running_def by (intro keeps_intros)

lemma keeps_reload_linked_instances [keeps_intros]: "keeps (\<lambda>w. I (db w)) (reload_linked_instances i)"
  unfolding reload_linked_instances_def by (intro keeps_intros)

lemma keeps_active_workspace [keeps_intros]: "keeps P (active_workspace c)"
  unfolding active_workspace_def by (intro keeps_intros)

lemma keeps_authorize_project [keeps_intros]: "keeps (\<lambda>w. I (db w)) (authorize_project p ws)"
  unfolding authorize_project_def by (intro keeps_intros)

lemma keeps_authorize_instance_project [keeps_intros]: "keeps (\<lambda>w. I (db w)) (authorize_instance_project i ws)"
  unfolding authorize_instance_project_def by (intro keeps_intros)

lemma keeps_resolve_instance_workspace [keeps_intros]: "keeps (\<lambda>w. I (db w)) (resolve_instance_workspace i ws)"
  unfolding resolve_instance_workspace_def by (intro keeps_intros)

lemma keeps_cleaned_key [keeps_intros]: "keeps P (cleaned_key k)"
  unfolding cleaned_key_def by (intro keeps_intros)

lemma andThen_cases:
  assumes "andThen m f w = (r, w')"
  obtains (error) e where "m w = (Inl e, w')" "r = Inl e"
  | (ok) x w1 where "m w = (Inr x, w1)" "f x w1 = (r, w')"
  using assms by (auto simp: andThen_def split: prod.splits sum.splits)

lemma db_kept: "(\<And>D. keeps (\<lambda>w. db w = D) m) \<Longrightarrow> m w = (r, w') \<Longrightarrow> db w' = db w"
  using keeps_step [where P = "\<lambda>v. db v = db w" and m = m and w = w] by blast

lemma db_hot_reload: "hot_reload_if_running i w = (r, w') \<Longrightarrow> db w' = db w"
  by (rule db_kept [OF keeps_hot_reload_if_running [where I = "\<lambda>d. d = D" for D]])

lemma attempt_Inr: "\<exists>x w'. attempt m w = (Inr x, w')"
  by (cases "m w") (simp add: attempt_def)

lemma andThen_Inr:
  assumes "\<exists>x w'. m w = (Inr x, w')" "\<And>x v. \<exists>w'. f x v = (Inr y, w')"
  shows "\<exists>w'. andThen m f w = (Inr y, w')"
proof -
  obtain x w' where "m w = (Inr x, w')" using assms(1) by blast
  then show ?thesis using assms(2) [of x w'] by (simp add: andThen_def)
qed

lemma discard_Inr: "\<exists>w'. discard m w = (Inr (), w')"
  by (cases "m w") (simp add: discard_def)

lemma hot_reload_succeeds: "\<exists>w'. hot_reload_if_running i w = (Inr (), w')"
proof -
  have "\<exists>w'. (case inst of Inr (Some (ai, ws)) \<Rightarrow>
         discard (hot_reload_instance_envs i (ai_container_name ai) ws (ai_knative_enabled ai))
     | _ \<Rightarrow> ret ()) v = (Inr (), w')" for inst v
  proof (cases inst)
    case (Inr x)
    then show ?thesis using discard_Inr by (cases x) (auto simp: ret_def)
  qed (simp add: ret_def)
  note cont = this
  show ?thesis unfolding hot_reload_if_running_def
    by (rule andThen_Inr [OF attempt_Inr]) (rule cont)
qed

section \<open>Bulk replacement\<close>

lemma own_keys_put_env:
  "ev_key ` set (own_vars i (put_env row d)) =
     (if ev_app_instance_id row = i then insert (ev_key row) (ev_key ` set (own_vars i d)) else ev_key ` set (own_vars i d))"
proof -
  have "ev_key ` set (upsertRow (\<lambda>r. ev_key r = ev_key row) row f t) = insert (ev_key row) (ev_key ` set t)"
    if "\<And>r. ev_key (f r) = ev_key r" for f t
  proof (cases "\<exists>r \<in> set t. ev_key r = ev_key row")
    case True
    then have "ev_key row \<in> ev_key ` set t" by (metis image_eqI)
    moreover have "ev_key ` set (updateWhere (\<lambda>r. ev_key r = ev_key row) f t) = ev_key ` set t"
      using map_updateWhere [of ev_key f "\<lambda>r. ev_key r = ev_key row" t, OF that] by (metis set_map)
    ultimately show ?thesis using True by (simp add: upsertRow_def existsWhere_iff insert_absorb)
  next
    case False
    then show ?thesis by (auto simp: upsertRow_def existsWhere_iff set_insertRow)
  qed
  then show ?thesis by (simp add: put_env_own)
qed

definition others_vars :: "uuid \<Rightarrow> database \<Rightarrow> env_variable list" where
  "others_vars i d = filter (\<lambda>r. ev_app_instance_id r \<noteq> i) (environment_variables d)"

lemma others_put_env: "ev_app_instance_id row = i \<Longrightarrow> others_vars i (put_env row d) = others_vars i d"
  by (auto simp: others_vars_def put_env_def upsertRow_def filter_insertRow same_env_key_def
      intro!: filter_updateWhere_disjoint)

lemma bulk_loop:
  assumes "foldEach vars (\<lambda>var response. andThen (store_env ws i var) (\<lambda>r. ret (response @ [r]))) acc w = (Inr rs, w')"
    "ev_key ` set (own_vars i (db w)) = vr_key ` set acc"
  shows "ev_key ` set (own_vars i (db w')) = vr_key ` set rs \<and> others_vars i (db w') = others_vars i (db w)
    \<and> map (\<lambda>r. Inr (vr_key r)) rs = map (\<lambda>r. Inr (vr_key r)) acc @ map (\<lambda>v. clean_env_key (vi_key v)) vars"
  using assms
proof (induction vars arbitrary: acc w)
  case Nil
  then show ?case by (simp add: ret_def)
next
  case (Cons v vars)
  from Cons.prems(1) obtain acc1 w1 where 1: "andThen (store_env ws i v) (\<lambda>r. ret (acc @ [r])) w = (Inr acc1, w1)"
    "foldEach vars (\<lambda>var response. andThen (store_env ws i var) (\<lambda>r. ret (response @ [r]))) acc1 w1 = (Inr rs, w')"
    by (auto elim: andThen_cases)
  from 1(1) obtain r where r: "store_env ws i v w = (Inr r, w1)" "acc1 = acc @ [r]"
    by (auto simp: ret_def elim: andThen_cases)
  from store_env_effect [OF r(1)] obtain row where row: "ev_app_instance_id row = i" "ev_key row = vr_key r"
    "clean_env_key (vi_key v) = Inr (vr_key r)" "db w1 = put_env row (db w)" by auto
  have "ev_key ` set (own_vars i (db w1)) = vr_key ` set acc1"
    using Cons.prems(2) row by (auto simp: own_keys_put_env r(2))
  from Cons.IH [OF 1(2) this] show ?case by (simp add: row others_put_env r(2))
qed

text \<open>
  Replacing all variables of an instance is all or nothing: on any error no table has
  changed, and on success the instance has exactly the cleaned keys that were submitted and
  the variables of every other instance are what they were.
\<close>

theorem bulk_is_all_or_nothing:
  assumes "set_envs_bulk c i vars w = (r, w')"
  shows "(\<forall>e. r = Inl e \<longrightarrow> db w' = db w)
    \<and> (\<forall>rs. r = Inr rs \<longrightarrow>
         Inr ` ev_key ` set (own_vars i (db w')) = (\<lambda>v. clean_env_key (vi_key v)) ` set vars
         \<and> others_vars i (db w') = others_vars i (db w))"
proof -
  let ?body = "\<lambda>ws. andThen (query (execute (\<lambda>w. (db w)\<lparr>environment_variables :=
         deleteWhere (\<lambda>r. ev_app_instance_id r = i) (environment_variables (db w))\<rparr>))) (\<lambda>_.
       foldEach vars (\<lambda>var response. andThen (store_env ws i var) (\<lambda>r. ret (response @ [r]))) [])"
  have keep: "db w1 = db w" if "active_workspace c w = (x, w1)" for x w1
    using that by (auto simp: active_workspace_def act_defs split: option.splits)
  have auth: "db w2 = db w1" if "resolve_instance_workspace i ws w1 = (x, w2)" for x w1 w2 ws
    using db_kept [OF keeps_resolve_instance_workspace [where I = "\<lambda>d. d = D" for D] that] .
  from assms show ?thesis unfolding set_envs_bulk_def
  proof (cases rule: andThen_cases)
    case (error e)
    then show ?thesis using keep by simp
  next
    case (ok ws w1)
    note 1 = keep [OF ok(1)]
    from ok(2) show ?thesis
    proof (cases rule: andThen_cases)
      case (error e)
      then show ?thesis using 1 auth by auto
    next
      case (ok ws' w2)
      note 2 = auth [OF ok(1)]
      from ok(2) show ?thesis
      proof (cases rule: andThen_cases)
        case (error e)
        from transaction_error_db [OF error(1)] show ?thesis using error(2) 1 2 by simp
      next
        case (ok rs w3)
        from transaction_success_db [OF ok(1)] obtain v1 v2 where t: "db v1 = db w2" "?body ws' v1 = (Inr rs, v2)"
          "db w3 = db v2" by blast
        from t(2) obtain u v3 where q: "query (execute (\<lambda>w. (db w)\<lparr>environment_variables :=
              deleteWhere (\<lambda>r. ev_app_instance_id r = i) (environment_variables (db w))\<rparr>)) v1 = (Inr u, v3)"
          and loop0: "foldEach vars (\<lambda>var response. andThen (store_env ws' i var) (\<lambda>r. ret (response @ [r]))) [] v3 = (Inr rs, v2)"
          by (rule andThen_cases) auto
        have del: "db v3 = (db v1)\<lparr>environment_variables :=
            deleteWhere (\<lambda>r. ev_app_instance_id r = i) (environment_variables (db v1))\<rparr>"
          using execute_success_db [OF q] by simp
        have "own_vars i (db v3) = []" "others_vars i (db v3) = others_vars i (db v1)"
          by (auto simp: del own_vars_def selectWhere_def others_vars_def deleteWhere_def filter_empty_conv)
        note empty = this
        from ok(2) obtain w4 where h: "hot_reload_if_running i w3 = (Inr (), w4)" "r = Inr rs" "w' = w4"
          using hot_reload_succeeds [of i w3] by (auto simp: andThen_def ret_def)
        have loop: "ev_key ` set (own_vars i (db v2)) = vr_key ` set rs" "others_vars i (db v2) = others_vars i (db v3)"
          "map (\<lambda>r. Inr (vr_key r)) rs = map (\<lambda>v. clean_env_key (vi_key v)) vars"
          using bulk_loop [OF loop0] empty(1) by simp_all
        have "Inr ` vr_key ` set rs = (\<lambda>v. clean_env_key (vi_key v)) ` set vars"
          using arg_cong [OF loop(3), of set] by (simp add: image_image)
        then show ?thesis using loop empty(2) 1 2 t(1,3) db_hot_reload [OF h(1)] h(2,3) by auto
      qed
    qed
  qed
qed

lemma clean_bad: "\<exists>e. clean_env_key ''1x'' = Inl e"
proof -
  have "case clean_env_key ''1x'' of Inl _ \<Rightarrow> True | Inr _ \<Rightarrow> False" by code_simp
  then show ?thesis by (auto split: sum.splits)
qed

theorem bulk_is_all_or_nothing_witness:
  "db (snd (set_envs_bulk sample_claims 5 [\<lparr>vi_key = ''b'', vi_value = ''v'', vi_is_secret = None\<rparr>,
      \<lparr>vi_key = ''1x'', vi_value = ''v'', vi_is_secret = None\<rparr>] env_world)) = db env_world"
proof -
  let ?vars = "[\<lparr>vi_key = ''b'', vi_value = ''v'', vi_is_secret = None\<rparr>, \<lparr>vi_key = ''1x'', vi_value = ''v'', vi_is_secret = None\<rparr>]"
  obtain a where a: "instance_app 5 (db env_world) = Some a" "a_workspace_id a = 7" using env_world_facts(4) by blast
  obtain e where e: "clean_env_key ''1x'' = Inl e" using clean_bad by blast
  have "\<exists>w'. set_envs_bulk sample_claims 5 ?vars env_world = (Inl e, w')"
    using a e clean_a(2) env_world_facts(1,3) env_world_facts(5)
    by (auto simp: set_envs_bulk_def active_workspace_def resolve_instance_workspace_def run_simps transaction_def
        store_env_def cleaned_key_cases encrypt_env_value_run split: option.split)
      (auto simp: env_world_defs)
  then obtain w' where "set_envs_bulk sample_claims 5 ?vars env_world = (Inl e, w')" by blast
  with bulk_is_all_or_nothing [OF this] show ?thesis by simp
qed

section \<open>Links and renames\<close>

text \<open>
  Linking wins: after an instance is linked to a variable of its project, no own variable
  has that key any more, the link exists, and the effective environment gives the key the
  pool's value.
\<close>

theorem linking_wins:
  assumes "faults w = []" "env_tables_ok (db w)"
    and "c_current_workspace_id c = Some ws" "instance_app i (db w) = Some a" "a_workspace_id a = ws"
    and "v \<in> set (project_env_variables (db w))" "pv_project_id v = a_project_id a"
    and "\<And>l r. \<lbrakk>l \<in> set (app_env_links (db w)); el_app_instance_id l = i;
        r \<in> set (project_env_variables (db w)); pv_id r = el_project_env_id l\<rbrakk> \<Longrightarrow> pv_project_id r = a_project_id a"
  shows "\<exists>rep w' env. link_project_env c i (pv_id v) w = (Inr rep, w')
    \<and> (\<forall>r \<in> set (environment_variables (db w')). ev_app_instance_id r = i \<longrightarrow> ev_key r \<noteq> pv_key v)
    \<and> \<lparr>el_app_instance_id = i, el_project_env_id = pv_id v\<rparr> \<in> set (app_env_links (db w'))
    \<and> resolve_instance_env i w' = (Inr env, w')
    \<and> map_of env (pv_key v) = unseal (ext w) (pv_encrypted_value v) (pv_nonce v)"
proof -
  have ids: "uniqueOn pv_id (project_env_variables (db w))" using assms(2) by (simp add: env_tables_ok_def)
  let ?p = "\<lambda>r. ev_app_instance_id r = i \<and> ev_key r = pv_key v"
  let ?q = "\<lambda>l. el_app_instance_id l = i \<and> el_project_env_id l = pv_id v"
  let ?l = "\<lparr>el_app_instance_id = i, el_project_env_id = pv_id v\<rparr>"
  define d where "d = (db w)\<lparr>environment_variables := deleteWhere ?p (environment_variables (db w)),
      app_env_links := insertIfAbsent ?q ?l (app_env_links (db w))\<rparr>"
  have first: "firstWhere (\<lambda>r. pv_id r = pv_id v) (project_env_variables (db w)) = Some v"
  proof -
    obtain r where r: "firstWhere (\<lambda>r. pv_id r = pv_id v) (project_env_variables (db w)) = Some r"
      using assms(6) firstWhere_None [of "\<lambda>r. pv_id r = pv_id v" "project_env_variables (db w)"]
      by (cases "firstWhere (\<lambda>r. pv_id r = pv_id v) (project_env_variables (db w))") auto
    with uniqueOn_eq [OF ids, of r v] firstWhere_Some [OF r] assms(6) show ?thesis by simp
  qed
  obtain ai where ai: "ai \<in> set (app_instances (db w))" "ai_id ai = i"
    using assms(4) by (auto simp: instance_app_def dest: firstWhere_Some split: option.splits)
  define w1 where "w1 = w\<lparr>db := d\<rparr>"
  have run: "link_project_env c i (pv_id v) w = andThen (hot_reload_if_running i) (\<lambda>_.
      ret (if 0 < countWhere ?p (environment_variables (db w)) then Some (pv_key v) else None)) w1"
    using assms(1,3,4,5,6,7) ai first
    by (auto simp: link_project_env_def active_workspace_def authorize_instance_project_def run_simps existsWhere_iff Let_def
        w1_def d_def)
  obtain w' where w': "hot_reload_if_running i w1 = (Inr (), w')" "db w' = d" "ext w' = ext w" "faults w' = []"
    using hot_reload_if_running_run [of w1 i] by (auto simp: w1_def assms(1))
  have own: "values_of (ext w) (map sealed_ev (own_vars i d)) (pv_key v) = None"
    using values_of_Some [of "ext w" "map sealed_ev (own_vars i d)" "pv_key v"]
    by (cases "values_of (ext w) (map sealed_ev (own_vars i d)) (pv_key v)")
      (auto simp: own_vars_def selectWhere_def d_def deleteWhere_def sealed_ev_def)
  have linkset: "set (app_env_links d) = insert ?l (set (app_env_links (db w)))"
  proof (cases "existsWhere ?q (app_env_links (db w))")
    case True
    then obtain l where "l \<in> set (app_env_links (db w))" "?q l" by (auto simp: existsWhere_iff)
    moreover from this(2) have "l = ?l" by (cases l) simp
    ultimately show ?thesis using True by (simp add: d_def insertIfAbsent_def insert_absorb)
  next
    case False
    then show ?thesis by (simp add: d_def insertIfAbsent_def set_insertRow)
  qed
  have vars: "project_env_variables d = project_env_variables (db w)" by (simp add: d_def)
  have linked: "r \<in> set (linked_vars i d) \<longleftrightarrow>
      (\<exists>l \<in> set (app_env_links d). el_app_instance_id l = i \<and> r \<in> set (project_env_variables (db w)) \<and> pv_id r = el_project_env_id l)" for r
    by (auto simp: linked_vars_def selectWhere_def vars)
  have same: "r = v" if "r \<in> set (linked_vars i d)" "pv_key r = pv_key v" for r
  proof -
    have "pv_project_id r = a_project_id a"
    proof (cases "pv_id r = pv_id v")
      case True
      with that(1) uniqueOn_eq [OF ids _ assms(6), of r] assms(7) show ?thesis by (auto simp: linked)
    next
      case False
      with that(1) assms(8) linkset show ?thesis by (auto simp: linked)
    qed
    with that assms(7) have "(pv_project_id r, pv_key r) = (pv_project_id v, pv_key v)" by simp
    moreover have "uniqueOn (\<lambda>r. (pv_project_id r, pv_key r)) (project_env_variables (db w))"
      using assms(2) by (simp add: env_tables_ok_def)
    ultimately show ?thesis using uniqueOn_eq [of _ _ r v] that(1) assms(6) by (auto simp: linked)
  qed
  have "v \<in> set (linked_vars i d)" using assms(6) linkset by (auto simp: linked)
  then have "values_of (ext w) (map sealed_pv (linked_vars i d)) (pv_key v) = unseal (ext w) (pv_encrypted_value v) (pv_nonce v)"
    by (intro values_of_unambiguous) (auto simp: sealed_pv_def image_iff dest: same intro!: bexI [of _ v])
  then have "map_of (finalize (insert_decrypted (ext w') (map sealed_ev (own_vars i (db w')))
      (insert_decrypted (ext w') (map sealed_pv (linked_vars i (db w'))) []))) (pv_key v) =
      unseal (ext w) (pv_encrypted_value v) (pv_nonce v)"
    by (simp add: loaded_lookup w'(2,3) own)
  moreover have "\<forall>r \<in> set (environment_variables (db w')). ev_app_instance_id r = i \<longrightarrow> ev_key r \<noteq> pv_key v"
    by (auto simp: w'(2) d_def set_deleteWhere)
  moreover have "?l \<in> set (app_env_links (db w'))" by (simp add: w'(2) linkset)
  moreover have "link_project_env c i (pv_id v) w =
      (Inr (if 0 < countWhere ?p (environment_variables (db w)) then Some (pv_key v) else None), w')"
    by (simp add: run andThen_def w'(1) ret_def)
  ultimately show ?thesis using w'(4) by (auto simp: resolve_instance_env_run)
qed

theorem linking_wins_witness:
  "\<exists>rep w' env. link_project_env sample_claims 5 20 env_world = (Inr rep, w')
     \<and> resolve_instance_env 5 w' = (Inr env, w') \<and> map_of env ''A'' = Some ''pool''"
proof -
  obtain a where a: "instance_app 5 (db env_world) = Some a" "a_workspace_id a = 7" "a_project_id a = 3"
    using env_world_facts(4) by blast
  let ?v = "\<lparr>pv_id = 20, pv_workspace_id = 7, pv_project_id = 3, pv_key = ''A'', pv_encrypted_value = ''n#pool'', pv_nonce = ''n'',
        pv_is_secret = True, pv_source = ''database'', pv_source_id = Some 30\<rparr>"
  have "?v \<in> set (project_env_variables (db env_world))"
    "\<And>r. r \<in> set (project_env_variables (db env_world)) \<Longrightarrow> pv_project_id r = 3"
    "unseal (ext env_world) ''n#pool'' ''n'' = Some ''pool''"
    by (auto simp: env_world_defs uniqueOn_def starts_with_def)
  with linking_wins [OF env_world_facts(1,2,3) a(1,2), of ?v] a(3) show ?thesis by auto
qed

text \<open>
  A renamed variable keeps its name: after a resource has published a variable and the
  user has given it another key, publishing again refreshes the value in the same row under
  the user's key, and no link is lost.
\<close>

theorem rename_survives_republish:
  assumes "faults w = []"
    and "firstWhere (\<lambda>r. pv_project_id r = p \<and> pv_source r = src \<and> pv_source_id r = Some sid)
           (project_env_variables (db w)) = Some v"
    and "seal (ext w) val (random_text w (drawn w)) = Some e"
  shows "\<exists>w'. publish_project_env ws p key val secret src sid w = (Inr (pv_id v), w')
    \<and> v\<lparr>pv_encrypted_value := e, pv_nonce := random_text w (drawn w), pv_is_secret := secret\<rparr>
        \<in> set (project_env_variables (db w'))
    \<and> map (\<lambda>r. (pv_id r, pv_key r)) (project_env_variables (db w')) = map (\<lambda>r. (pv_id r, pv_key r)) (project_env_variables (db w))
    \<and> app_env_links (db w') = app_env_links (db w) \<and> cron_env_links (db w') = cron_env_links (db w)"
  using assms firstWhere_Some [OF assms(2)]
  by (auto simp: publish_project_env_def encrypt_env_value_run act_defs query_def fetch_ok execute_ok set_updateWhere
      map_updateWhere image_iff intro!: bexI [of _ v])

theorem rename_survives_republish_witness:
  "\<exists>w'. publish_project_env 7 3 ''DATABASE_URL'' ''v2'' True ''database'' 30 env_world = (Inr 20, w')
     \<and> map pv_key (project_env_variables (db w')) = [''A'', ''B'']"
proof -
  let ?v = "\<lparr>pv_id = 20, pv_workspace_id = 7, pv_project_id = 3, pv_key = ''A'', pv_encrypted_value = ''n#pool'', pv_nonce = ''n'',
        pv_is_secret = True, pv_source = ''database'', pv_source_id = Some 30\<rparr>"
  have f: "firstWhere (\<lambda>r. pv_project_id r = 3 \<and> pv_source r = ''database'' \<and> pv_source_id r = Some 30)
           (project_env_variables (db env_world)) = Some ?v"
    by (simp add: env_world_defs firstWhere_def)
  obtain e where "seal (ext env_world) ''v2'' (random_text env_world (drawn env_world)) = Some e"
    using env_world_facts(5) by blast
  from rename_survives_republish [OF env_world_facts(1) f this, of 7 "''DATABASE_URL''" True] obtain w' where
    "publish_project_env 7 3 ''DATABASE_URL'' ''v2'' True ''database'' 30 env_world = (Inr 20, w')"
    "map (\<lambda>r. (pv_id r, pv_key r)) (project_env_variables (db w')) = [(20, ''A''), (21, ''B'')]"
    by (auto simp: env_world_defs)
  then show ?thesis by (metis (no_types, lifting) list.map_comp comp_def list.simps(8,9) map_eq_conv snd_conv)
qed

section \<open>The constraints hold throughout\<close>

lemma env_ok_put_env: "env_tables_ok d \<Longrightarrow> env_tables_ok (put_env row d)"
  by (simp add: env_tables_ok_def put_env_def uniqueOn_upsertRow same_env_key_def)

lemma env_ok_delete_env:
  "env_tables_ok d \<Longrightarrow> env_tables_ok (d\<lparr>environment_variables := deleteWhere p (environment_variables d)\<rparr>)"
  by (simp add: env_tables_ok_def uniqueOn_deleteWhere)

lemma env_ok_delete_pool: "env_tables_ok d \<Longrightarrow> env_tables_ok (delete_pool_vars p d)"
  by (auto simp: env_tables_ok_def delete_pool_vars_def Let_def uniqueOn_deleteWhere set_deleteWhere selectWhere_def)

lemma env_ok_update_pool:
  "\<lbrakk>env_tables_ok d; \<And>r. pv_id (f r) = pv_id r \<and> pv_project_id (f r) = pv_project_id r \<and> pv_key (f r) = pv_key r\<rbrakk> \<Longrightarrow>
     env_tables_ok (d\<lparr>project_env_variables := updateWhere p f (project_env_variables d)\<rparr>)"
  using map_updateWhere [of pv_id f p "project_env_variables d"]
  by (simp add: env_tables_ok_def uniqueOn_updateWhere) (metis set_map)

lemma env_ok_insert_pool:
  "\<lbrakk>env_tables_ok d; \<forall>r \<in> set (project_env_variables d). pv_id r \<noteq> pv_id row;
    \<forall>r \<in> set (project_env_variables d). \<not> same_pool_key row r\<rbrakk> \<Longrightarrow>
     env_tables_ok (d\<lparr>project_env_variables := insertRow row (project_env_variables d)\<rparr>)"
  by (auto simp: env_tables_ok_def uniqueOn_insertRow set_insertRow same_pool_key_def)

lemma env_ok_put_project_env [keeps_intros]:
  assumes "\<And>r. pv_id (f r) = pv_id r \<and> pv_project_id (f r) = pv_project_id r \<and> pv_key (f r) = pv_key r"
  shows "keeps (\<lambda>w. env_tables_ok (db w)) (put_project_env row f)"
proof (rule keepsI)
  fix w :: world assume ok: "env_tables_ok (db w)"
  show "env_tables_ok (db (snd (put_project_env row f w)))"
    using ok env_ok_update_pool [OF ok assms, of "same_pool_key row"] env_ok_insert_pool [OF ok, of row]
    by (auto simp: put_project_env_def sql_def Let_def upsertRow_def existsWhere_iff)
qed

lemma env_ok_link:
  "\<lbrakk>env_tables_ok d; existsWhere (\<lambda>r. pv_id r = v) (project_env_variables d)\<rbrakk> \<Longrightarrow>
    env_tables_ok (d\<lparr>app_env_links := insertIfAbsent (\<lambda>l. el_app_instance_id l = i \<and> el_project_env_id l = v)
         \<lparr>el_app_instance_id = i, el_project_env_id = v\<rparr> (app_env_links d)\<rparr>)"
  by (auto simp: env_tables_ok_def insertIfAbsent_def existsWhere_iff uniqueOn_insertRow set_insertRow)

lemma env_ok_unlink:
  "env_tables_ok d \<Longrightarrow> env_tables_ok (d\<lparr>app_env_links := deleteWhere p (app_env_links d)\<rparr>)"
  by (auto simp: env_tables_ok_def uniqueOn_deleteWhere set_deleteWhere)

lemma env_ok_rename:
  assumes "env_tables_ok d" "p = (\<lambda>r. pv_id r = i \<and> pv_project_id r = pid)"
    and "\<not> (existsWhere p (project_env_variables d)
      \<and> existsWhere (\<lambda>r. pv_project_id r = pid \<and> pv_key r = k \<and> pv_id r \<noteq> i) (project_env_variables d))"
  shows "env_tables_ok (d\<lparr>project_env_variables := updateWhere p (\<lambda>r. r\<lparr>pv_key := k\<rparr>) (project_env_variables d)\<rparr>)"
proof (cases "existsWhere p (project_env_variables d)")
  case False
  then have "updateWhere p (\<lambda>r. r\<lparr>pv_key := k\<rparr>) (project_env_variables d) = project_env_variables d"
    by (intro updateWhere_none) (auto simp: existsWhere_iff)
  with assms(1) show ?thesis by simp
next
  case True
  let ?t = "project_env_variables d" and ?u = "updateWhere p (\<lambda>r. r\<lparr>pv_key := k\<rparr>) (project_env_variables d)"
  have free: "\<not> (pv_project_id r = pid \<and> pv_key r = k \<and> pv_id r \<noteq> i)" if "r \<in> set ?t" for r
    using assms(3) True that by (auto simp: existsWhere_iff)
  have ids: "map pv_id ?u = map pv_id ?t" by (rule map_updateWhere) simp
  have u: "uniqueOn pv_id ?t" "uniqueOn (\<lambda>r. (pv_project_id r, pv_key r)) ?t" using assms(1) by (simp_all add: env_tables_ok_def)
  have "inj_on (\<lambda>r. (pv_project_id r, pv_key r)) (set ?u)"
  proof (rule inj_onI)
    fix r s assume r: "r \<in> set ?u" and s: "s \<in> set ?u" and eq: "(pv_project_id r, pv_key r) = (pv_project_id s, pv_key s)"
    obtain r0 s0 where 0: "r0 \<in> set ?t" "r = (if p r0 then r0\<lparr>pv_key := k\<rparr> else r0)"
      "s0 \<in> set ?t" "s = (if p s0 then s0\<lparr>pv_key := k\<rparr> else s0)" using r s by (auto simp: set_updateWhere)
    have "r0 = s0"
    proof (cases "p r0 = p s0")
      case True
      show ?thesis
      proof (cases "p r0")
        case True
        with \<open>p r0 = p s0\<close> show ?thesis using uniqueOn_eq [OF u(1) 0(1,3)] by (simp add: assms(2))
      next
        case False
        with \<open>p r0 = p s0\<close> eq 0 show ?thesis using uniqueOn_eq [OF u(2) 0(1,3)] by simp
      qed
    next
      case False
      with eq 0 free [OF 0(1)] free [OF 0(3)] show ?thesis by (cases "p r0") (auto simp: assms(2))
    qed
    with 0 show "r = s" by simp
  qed
  moreover have "distinct ?u" using u(1) ids by (metis distinct_map uniqueOn_def)
  ultimately have "uniqueOn (\<lambda>r. (pv_project_id r, pv_key r)) ?u" by (simp add: uniqueOn_def distinct_map)
  moreover have "pv_id ` set ?u = pv_id ` set ?t" using ids by (metis set_map)
  ultimately show ?thesis using assms(1) ids by (simp add: env_tables_ok_def uniqueOn_def)
qed

lemma keeps_rename_sql:
  assumes "p = (\<lambda>r. pv_id r = i \<and> pv_project_id r = pid)"
  shows "keeps (\<lambda>w. env_tables_ok (db w)) (sql (\<lambda>w.
       if existsWhere p (project_env_variables (db w))
          \<and> existsWhere (\<lambda>r. pv_project_id r = pid \<and> pv_key r = k \<and> pv_id r \<noteq> i) (project_env_variables (db w))
       then Inl e
       else let t = updateWhere p (\<lambda>r. r\<lparr>pv_key := k\<rparr>) (project_env_variables (db w)) in
            Inr (firstWhere p t, (db w)\<lparr>project_env_variables := t\<rparr>)))"
proof (rule keepsI)
  fix w :: world assume "env_tables_ok (db w)"
  from env_ok_rename [OF this assms, of k] this
  show "env_tables_ok (db (snd (sql (\<lambda>w.
       if existsWhere p (project_env_variables (db w))
          \<and> existsWhere (\<lambda>r. pv_project_id r = pid \<and> pv_key r = k \<and> pv_id r \<noteq> i) (project_env_variables (db w))
       then Inl e
       else let t = updateWhere p (\<lambda>r. r\<lparr>pv_key := k\<rparr>) (project_env_variables (db w)) in
            Inr (firstWhere p t, (db w)\<lparr>project_env_variables := t\<rparr>)) w)))"
    by (simp add: sql_def Let_def)
qed

lemmas env_frame = keeps_intros keeps_rename_sql
  keeps_execute [where I = env_tables_ok] keeps_executing [where I = env_tables_ok] keeps_checked [where I = env_tables_ok]

lemma keeps_store_env:
  assumes "\<And>row d. \<lbrakk>I d; ev_app_instance_id row = i; ev_workspace_id row = ws\<rbrakk> \<Longrightarrow> I (put_env row d)"
  shows "keeps (\<lambda>w. I (db w)) (store_env ws i var)"
proof (rule keepsI)
  fix w :: world assume I: "I (db w)"
  obtain r w' where s: "store_env ws i var w = (r, w')" by fastforce
  from store_env_effect [OF s] I assms show "I (db (snd (store_env ws i var w)))"
    by (auto simp: s split: sum.splits)
qed

text \<open>
  Every operation on environment variables keeps the constraints, whatever fails and in
  whatever order they run: one value per instance and key, one pool variable per project and
  key, no duplicate link and no link to a variable that does not exist.
\<close>

theorem env_constraints_hold:
  "keeps (\<lambda>w. env_tables_ok (db w)) (publish_project_env ws p key val secret src sid)
   \<and> keeps (\<lambda>w. env_tables_ok (db w)) (unpublish_project_env src sid)
   \<and> keeps (\<lambda>w. env_tables_ok (db w)) (set_project_env c p key val sec)
   \<and> keeps (\<lambda>w. env_tables_ok (db w)) (delete_project_env c p v)
   \<and> keeps (\<lambda>w. env_tables_ok (db w)) (rename_project_env c p v key)
   \<and> keeps (\<lambda>w. env_tables_ok (db w)) (link_project_env c i v)
   \<and> keeps (\<lambda>w. env_tables_ok (db w)) (unlink_project_env c i v)
   \<and> keeps (\<lambda>w. env_tables_ok (db w)) (set_env_variable c i var)
   \<and> keeps (\<lambda>w. env_tables_ok (db w)) (set_envs_bulk c i vars)
   \<and> keeps (\<lambda>w. env_tables_ok (db w)) (delete_env_variable c ev)"
proof (intro conjI)
  note store = keeps_store_env [where I = env_tables_ok, OF env_ok_put_env]
  show "keeps (\<lambda>w. env_tables_ok (db w)) (publish_project_env ws p key val secret src sid)"
    unfolding publish_project_env_def by (intro env_frame) (auto intro: env_ok_update_pool)
  show "keeps (\<lambda>w. env_tables_ok (db w)) (unpublish_project_env src sid)"
    unfolding unpublish_project_env_def by (intro env_frame) (simp_all add: env_ok_delete_pool)
  show "keeps (\<lambda>w. env_tables_ok (db w)) (set_project_env c p key val sec)"
    unfolding set_project_env_def by (intro env_frame) simp
  show "keeps (\<lambda>w. env_tables_ok (db w)) (delete_project_env c p v)"
    unfolding delete_project_env_def by (intro env_frame) (simp_all add: env_ok_delete_pool)
  show "keeps (\<lambda>w. env_tables_ok (db w)) (rename_project_env c p v key)"
    unfolding rename_project_env_def by (intro env_frame) simp_all
  show "keeps (\<lambda>w. env_tables_ok (db w)) (link_project_env c i v)"
    unfolding link_project_env_def
    by (intro env_frame) (auto simp: env_ok_delete_env split: if_splits intro!: env_ok_link)
  show "keeps (\<lambda>w. env_tables_ok (db w)) (unlink_project_env c i v)"
    unfolding unlink_project_env_def by (intro env_frame) (simp_all add: env_ok_unlink)
  show "keeps (\<lambda>w. env_tables_ok (db w)) (set_env_variable c i var)"
    unfolding set_env_variable_def by (intro env_frame store)
  show "keeps (\<lambda>w. env_tables_ok (db w)) (set_envs_bulk c i vars)"
    unfolding set_envs_bulk_def by (intro env_frame store) (simp add: env_ok_delete_env)
  show "keeps (\<lambda>w. env_tables_ok (db w)) (delete_env_variable c ev)"
    unfolding delete_env_variable_def by (intro env_frame) (simp_all add: env_ok_delete_env)
qed

section \<open>Isolation of workspaces\<close>

text \<open>
  What belongs to other workspaces than \<open>ws\<close>: the own variables of their instances and the
  pool variables of their projects.
\<close>

definition instance_ws :: "database \<Rightarrow> uuid \<Rightarrow> uuid option" where
  "instance_ws d i = map_option a_workspace_id (instance_app i d)"

definition project_ws :: "database \<Rightarrow> uuid \<Rightarrow> uuid option" where
  "project_ws d p = map_option pr_workspace_id (firstWhere (\<lambda>r. pr_id r = p) (projects d))"

definition foreign_env :: "uuid \<Rightarrow> database \<Rightarrow> env_variable list \<times> project_env_variable list" where
  "foreign_env ws d =
     (filter (\<lambda>r. instance_ws d (ev_app_instance_id r) \<noteq> Some ws) (environment_variables d),
      filter (\<lambda>r. project_ws d (pv_project_id r) \<noteq> Some ws) (project_env_variables d))"

text \<open>The workspace column of a variable agrees with the owner of its instance.\<close>

definition env_owner_ok :: "database \<Rightarrow> bool" where
  "env_owner_ok d \<longleftrightarrow> (\<forall>r \<in> set (environment_variables d). instance_ws d (ev_app_instance_id r) = Some (ev_workspace_id r))"

text \<open>
  The predicate carried through a handler: the owners are those of \<open>d0\<close>, the columns agree
  with them and what is foreign to \<open>ws\<close> is what it was in \<open>d0\<close>.
\<close>

definition isolated :: "uuid \<Rightarrow> database \<Rightarrow> database \<Rightarrow> bool" where
  "isolated ws d0 d \<longleftrightarrow> projects d = projects d0 \<and> apps d = apps d0 \<and> app_instances d = app_instances d0
     \<and> (\<forall>r \<in> set (environment_variables d). instance_ws d0 (ev_app_instance_id r) = Some (ev_workspace_id r))
     \<and> filter (\<lambda>r. instance_ws d0 (ev_app_instance_id r) \<noteq> Some ws) (environment_variables d)
         = filter (\<lambda>r. instance_ws d0 (ev_app_instance_id r) \<noteq> Some ws) (environment_variables d0)
     \<and> filter (\<lambda>r. project_ws d0 (pv_project_id r) \<noteq> Some ws) (project_env_variables d)
         = filter (\<lambda>r. project_ws d0 (pv_project_id r) \<noteq> Some ws) (project_env_variables d0)"

lemma owners_fixed:
  assumes "projects d = projects d0" "apps d = apps d0" "app_instances d = app_instances d0"
  shows "instance_app i d = instance_app i d0" "instance_ws d i = instance_ws d0 i" "project_ws d p = project_ws d0 p"
  unfolding instance_ws_def project_ws_def instance_app_def assms by simp_all

lemma isolated_start: "env_owner_ok d \<Longrightarrow> isolated ws d d"
  by (simp add: isolated_def env_owner_ok_def)

lemma isolated_foreign: "isolated ws d0 d \<Longrightarrow> foreign_env ws d = foreign_env ws d0"
  using owners_fixed [of d d0] by (simp add: isolated_def foreign_env_def)

lemma isolated_links [simp]:
  "isolated ws d0 (d\<lparr>app_env_links := l\<rparr>) = isolated ws d0 d"
  "isolated ws d0 (d\<lparr>cron_env_links := k\<rparr>) = isolated ws d0 d"
  "isolated ws d0 (d\<lparr>serverless_env_links := s\<rparr>) = isolated ws d0 d"
  by (simp_all add: isolated_def)

lemma isolated_put_env:
  assumes "isolated ws d0 d" "instance_ws d0 (ev_app_instance_id row) = Some ws" "ev_workspace_id row = ws"
  shows "isolated ws d0 (put_env row d)"
proof -
  let ?q = "\<lambda>r. instance_ws d0 (ev_app_instance_id r) \<noteq> Some ws"
  let ?f = "\<lambda>x. x\<lparr>ev_encrypted_value := ev_encrypted_value row, ev_nonce := ev_nonce row, ev_is_secret := ev_is_secret row\<rparr>"
  have "filter ?q (updateWhere (same_env_key row) ?f (environment_variables d)) = filter ?q (environment_variables d)"
    by (rule filter_updateWhere_disjoint) (use assms(2) in \<open>auto simp: same_env_key_def\<close>)
  then show ?thesis
    using assms by (auto simp: isolated_def put_env_def upsertRow_def filter_insertRow set_insertRow set_updateWhere)
qed

lemma isolated_delete_env:
  assumes "isolated ws d0 d" "\<And>r. \<lbrakk>r \<in> set (environment_variables d); p r\<rbrakk> \<Longrightarrow> instance_ws d0 (ev_app_instance_id r) = Some ws"
  shows "isolated ws d0 (d\<lparr>environment_variables := deleteWhere p (environment_variables d)\<rparr>)"
proof -
  let ?q = "\<lambda>r. instance_ws d0 (ev_app_instance_id r) \<noteq> Some ws"
  have "filter ?q (deleteWhere p (environment_variables d)) = filter ?q (environment_variables d)"
    unfolding deleteWhere_def filter_filter by (rule filter_cong [OF refl]) (use assms(2) in auto)
  with assms(1) show ?thesis by (simp add: isolated_def set_deleteWhere)
qed

lemma isolated_pool_update:
  assumes "isolated ws d0 d" "\<And>r. p r \<Longrightarrow> project_ws d0 (pv_project_id r) = Some ws" "\<And>r. pv_project_id (f r) = pv_project_id r"
  shows "isolated ws d0 (d\<lparr>project_env_variables := updateWhere p f (project_env_variables d)\<rparr>)"
    "isolated ws d0 (d\<lparr>project_env_variables := deleteWhere p (project_env_variables d)\<rparr>)"
  using assms filter_updateWhere_disjoint [of p "\<lambda>r. project_ws d0 (pv_project_id r) \<noteq> Some ws" f "project_env_variables d"]
    filter_deleteWhere_disjoint [of p "\<lambda>r. project_ws d0 (pv_project_id r) \<noteq> Some ws" "project_env_variables d"]
  by (auto simp: isolated_def)

lemma isolated_pool_insert:
  "\<lbrakk>isolated ws d0 d; project_ws d0 (pv_project_id row) = Some ws\<rbrakk> \<Longrightarrow>
    isolated ws d0 (d\<lparr>project_env_variables := insertRow row (project_env_variables d)\<rparr>)"
  by (simp add: isolated_def filter_insertRow)

lemma keeps_isolated_put_pool:
  assumes "project_ws d0 (pv_project_id row) = Some ws" "\<And>r. pv_project_id (f r) = pv_project_id r"
  shows "keeps (\<lambda>w. isolated ws d0 (db w)) (put_project_env row f)"
proof (rule keepsI)
  fix w :: world assume i: "isolated ws d0 (db w)"
  have "isolated ws d0 ((db w)\<lparr>project_env_variables := updateWhere (same_pool_key row) f (project_env_variables (db w))\<rparr>)"
    by (rule isolated_pool_update [OF i _ assms(2)]) (use assms(1) in \<open>simp add: same_pool_key_def\<close>)
  with i isolated_pool_insert [OF i assms(1)]
  show "isolated ws d0 (db (snd (put_project_env row f w)))"
    by (auto simp: put_project_env_def sql_def Let_def upsertRow_def)
qed

lemma isolated_delete_pool:
  assumes "isolated ws d0 d" "\<And>r. p r \<Longrightarrow> project_ws d0 (pv_project_id r) = Some ws"
  shows "isolated ws d0 (delete_pool_vars p d)"
  using isolated_pool_update(2) [OF assms(1), of p "\<lambda>r. r", OF assms(2)] by (simp add: delete_pool_vars_def Let_def)

subsection \<open>What an authorization that succeeded tells\<close>

lemma authorized_project:
  assumes "authorize_project p ws w = (Inr x, w')"
  shows "project_ws (db w) p = Some ws"
  using assms
  by (auto simp: authorize_project_def act_defs query_def fetch_def sql_def Let_def project_ws_def
      split: if_splits option.splits)

lemma authorized_instance:
  "authorize_instance_project i ws w = (Inr x, w') \<Longrightarrow> instance_ws (db w) i = Some ws"
  "resolve_instance_workspace i ws w = (Inr x, w') \<Longrightarrow> instance_ws (db w) i = Some ws \<and> x = ws"
  by (auto simp: authorize_instance_project_def resolve_instance_workspace_def act_defs query_def fetch_def sql_def Let_def
      instance_ws_def split: if_splits option.splits)

lemma active_workspace_Inr: "active_workspace c w = (Inr ws, w') \<longleftrightarrow> c_current_workspace_id c = Some ws \<and> w' = w"
  by (auto simp: active_workspace_def act_defs split: option.splits)

text \<open>The frame of an authorized handler: what follows may rely on the authorization.\<close>

lemma keeps_with_project:
  assumes "c_current_workspace_id c = Some ws" "project_ws d0 p = Some ws \<Longrightarrow> (\<And>x. keeps (\<lambda>w. isolated ws d0 (db w)) (f ws x))"
  shows "keeps (\<lambda>w. isolated ws d0 (db w))
    (andThen (active_workspace c) (\<lambda>ws. andThen (authorize_project p ws) (\<lambda>x. f ws x)))"
proof (rule keeps_andThen_post [where Q = "\<lambda>v. v = ws"])
  show "keeps (\<lambda>w. isolated ws d0 (db w)) (active_workspace c)" by (rule keeps_active_workspace)
  show "active_workspace c w = (Inr x, w') \<Longrightarrow> x = ws" for w x w' using assms(1) by (simp add: active_workspace_Inr)
  show "keeps (\<lambda>w. isolated ws d0 (db w)) (andThen (authorize_project p x) (\<lambda>y. f x y))" if "x = ws" for x
    unfolding that
  proof (rule keeps_andThen_post [where Q = "\<lambda>_. project_ws d0 p = Some ws"])
    show "keeps (\<lambda>w. isolated ws d0 (db w)) (authorize_project p ws)" by (rule keeps_authorize_project)
    show "project_ws d0 p = Some ws" if "isolated ws d0 (db w)" "authorize_project p ws w = (Inr y, w')" for w y w'
    proof -
      have "project_ws (db w) p = project_ws d0 p" using that(1) by (intro owners_fixed) (simp_all add: isolated_def)
      with authorized_project [OF that(2)] show ?thesis by simp
    qed
  qed (use assms(2) in blast)
qed

lemma keeps_with_instance:
  assumes "c_current_workspace_id c = Some ws" "m = authorize_instance_project i \<or> m = resolve_instance_workspace i"
    and "\<And>x. \<lbrakk>instance_ws d0 i = Some ws; m = resolve_instance_workspace i \<Longrightarrow> x = ws\<rbrakk> \<Longrightarrow> keeps (\<lambda>w. isolated ws d0 (db w)) (f ws x)"
  shows "keeps (\<lambda>w. isolated ws d0 (db w))
    (andThen (active_workspace c) (\<lambda>ws. andThen (m ws) (\<lambda>x. f ws x)))"
proof (rule keeps_andThen_post [where Q = "\<lambda>v. v = ws"])
  show "keeps (\<lambda>w. isolated ws d0 (db w)) (active_workspace c)" by (rule keeps_active_workspace)
  show "active_workspace c w = (Inr x, w') \<Longrightarrow> x = ws" for w x w' using assms(1) by (simp add: active_workspace_Inr)
  show "keeps (\<lambda>w. isolated ws d0 (db w)) (andThen (m x) (\<lambda>y. f x y))" if "x = ws" for x
    unfolding that
  proof (rule keeps_andThen_post
      [where Q = "\<lambda>x. instance_ws d0 i = Some ws \<and> (m = resolve_instance_workspace i \<longrightarrow> x = ws)"])
    show "keeps (\<lambda>w. isolated ws d0 (db w)) (m ws)"
      using assms(2) keeps_authorize_instance_project keeps_resolve_instance_workspace by fastforce
    show "instance_ws d0 i = Some ws \<and> (m = resolve_instance_workspace i \<longrightarrow> y = ws)"
      if iso: "isolated ws d0 (db w)" and run: "m ws w = (Inr y, w')" for w y w'
    proof -
      have "instance_ws (db w) i = instance_ws d0 i" using iso by (intro owners_fixed) (simp_all add: isolated_def)
      then show ?thesis using assms(2) run authorized_instance [of i ws w y w'] by auto
    qed
  qed (use assms(3) in blast)
qed

lemma keeps_authorized_instance:
  assumes "c_current_workspace_id c = Some ws"
    and "\<And>x. instance_ws d0 i = Some ws \<Longrightarrow> keeps (\<lambda>w. isolated ws d0 (db w)) (f ws x)"
  shows "keeps (\<lambda>w. isolated ws d0 (db w))
    (andThen (active_workspace c) (\<lambda>ws. andThen (authorize_instance_project i ws) (\<lambda>x. f ws x)))"
  by (rule keeps_with_instance [OF assms(1) disjI1 [OF refl]]) (rule assms(2))

lemma keeps_resolved_instance:
  assumes "c_current_workspace_id c = Some ws"
    and "instance_ws d0 i = Some ws \<Longrightarrow> keeps (\<lambda>w. isolated ws d0 (db w)) (f ws ws)"
  shows "keeps (\<lambda>w. isolated ws d0 (db w))
    (andThen (active_workspace c) (\<lambda>ws. andThen (resolve_instance_workspace i ws) (\<lambda>x. f ws x)))"
  by (rule keeps_with_instance [OF assms(1) disjI2 [OF refl]]) (use assms(2) in simp)

lemma keeps_isolated_store_env:
  "instance_ws d0 i = Some ws \<Longrightarrow> keeps (\<lambda>w. isolated ws d0 (db w)) (store_env ws i var)"
  by (rule keeps_store_env) (rule isolated_put_env, simp_all)

lemma isolated_delete_instance_env:
  "\<lbrakk>isolated ws d0 d; instance_ws d0 i = Some ws\<rbrakk> \<Longrightarrow>
    isolated ws d0 (d\<lparr>environment_variables := deleteWhere (\<lambda>r. ev_app_instance_id r = i \<and> q r) (environment_variables d)\<rparr>)"
  by (rule isolated_delete_env) simp_all

lemma isolated_delete_owned:
  "isolated ws d0 d \<Longrightarrow> isolated ws d0
    (d\<lparr>environment_variables := deleteWhere (\<lambda>r. q r \<and> ev_workspace_id r = ws) (environment_variables d)\<rparr>)"
  by (rule isolated_delete_env) (simp_all add: isolated_def)

lemmas iso_execute = keeps_execute [where I = "isolated ws d0" for ws d0]
  and iso_executing = keeps_executing [where I = "isolated ws d0" for ws d0]
  and iso_checked = keeps_checked [where I = "isolated ws d0" for ws d0]

lemma iso_rename_sql:
  assumes "project_ws d0 pid = Some ws" "p = (\<lambda>r. pv_id r = i \<and> pv_project_id r = pid)"
  shows "keeps (\<lambda>w. isolated ws d0 (db w)) (sql (\<lambda>w.
       if existsWhere p (project_env_variables (db w))
          \<and> existsWhere (\<lambda>r. pv_project_id r = pid \<and> pv_key r = k \<and> pv_id r \<noteq> i) (project_env_variables (db w))
       then Inl e
       else let t = updateWhere p (\<lambda>r. r\<lparr>pv_key := k\<rparr>) (project_env_variables (db w)) in
            Inr (firstWhere p t, (db w)\<lparr>project_env_variables := t\<rparr>)))"
proof (rule keepsI)
  fix w :: world assume i: "isolated ws d0 (db w)"
  have "isolated ws d0 ((db w)\<lparr>project_env_variables := updateWhere p (\<lambda>r. r\<lparr>pv_key := k\<rparr>) (project_env_variables (db w))\<rparr>)"
    by (rule isolated_pool_update(1) [OF i]) (use assms in auto)
  with i show "isolated ws d0 (db (snd (sql (\<lambda>w.
       if existsWhere p (project_env_variables (db w))
          \<and> existsWhere (\<lambda>r. pv_project_id r = pid \<and> pv_key r = k \<and> pv_id r \<noteq> i) (project_env_variables (db w))
       then Inl e
       else let t = updateWhere p (\<lambda>r. r\<lparr>pv_key := k\<rparr>) (project_env_variables (db w)) in
            Inr (firstWhere p t, (db w)\<lparr>project_env_variables := t\<rparr>)) w)))"
    by (simp add: sql_def Let_def)
qed

lemma isolated_handlers:
  assumes c: "c_current_workspace_id c = Some ws"
  shows "keeps (\<lambda>w. isolated ws d0 (db w)) (set_project_env c p key val sec)"
    "keeps (\<lambda>w. isolated ws d0 (db w)) (delete_project_env c p v)"
    "keeps (\<lambda>w. isolated ws d0 (db w)) (rename_project_env c p v key)"
    "keeps (\<lambda>w. isolated ws d0 (db w)) (link_project_env c i v)"
    "keeps (\<lambda>w. isolated ws d0 (db w)) (unlink_project_env c i v)"
    "keeps (\<lambda>w. isolated ws d0 (db w)) (set_env_variable c i var)"
    "keeps (\<lambda>w. isolated ws d0 (db w)) (set_envs_bulk c i vars)"
    "keeps (\<lambda>w. isolated ws d0 (db w)) (delete_env_variable c ev)"
proof -
  show "keeps (\<lambda>w. isolated ws d0 (db w)) (set_project_env c p key val sec)"
    unfolding set_project_env_def
    by (rule keeps_with_project [OF c]) (intro keeps_intros keeps_isolated_put_pool, simp_all)
  show "keeps (\<lambda>w. isolated ws d0 (db w)) (delete_project_env c p v)"
    unfolding delete_project_env_def
    by (rule keeps_with_project [OF c]) (intro keeps_intros iso_executing, auto intro: isolated_delete_pool)
  show "keeps (\<lambda>w. isolated ws d0 (db w)) (rename_project_env c p v key)"
    unfolding rename_project_env_def
    by (rule keeps_with_project [OF c]) (intro keeps_intros iso_rename_sql, simp_all)
  show "keeps (\<lambda>w. isolated ws d0 (db w)) (link_project_env c i v)"
    unfolding link_project_env_def
    by (rule keeps_authorized_instance [OF c])
      (intro keeps_intros iso_executing iso_checked, auto intro: isolated_delete_instance_env)
  show "keeps (\<lambda>w. isolated ws d0 (db w)) (unlink_project_env c i v)"
    unfolding unlink_project_env_def
    by (rule keeps_authorized_instance [OF c]) (intro keeps_intros iso_execute, simp)
  show "keeps (\<lambda>w. isolated ws d0 (db w)) (set_env_variable c i var)"
    unfolding set_env_variable_def
    by (rule keeps_resolved_instance [OF c]) (intro keeps_intros keeps_isolated_store_env)
  show "keeps (\<lambda>w. isolated ws d0 (db w)) (set_envs_bulk c i vars)"
    unfolding set_envs_bulk_def
    by (rule keeps_resolved_instance [OF c])
      (intro keeps_intros iso_execute keeps_isolated_store_env,
        auto intro: isolated_delete_instance_env [where q = "\<lambda>_. True", simplified])
  show "keeps (\<lambda>w. isolated ws d0 (db w)) (delete_env_variable c ev)"
    unfolding delete_env_variable_def
  proof (rule keeps_andThen_post [where Q = "\<lambda>v. v = ws"])
    show "keeps (\<lambda>w. isolated ws d0 (db w)) (active_workspace c)" by (rule keeps_active_workspace)
    show "active_workspace c w = (Inr x, w') \<Longrightarrow> x = ws" for w x w' using c by (simp add: active_workspace_Inr)
    show "keeps (\<lambda>w. isolated ws d0 (db w)) (let p = \<lambda>r. ev_id r = ev \<and> ev_workspace_id r = x
        in andThen (query (executing (\<lambda>w. (map_option ev_app_instance_id (firstWhere p (environment_variables (db w))),
             (db w)\<lparr>environment_variables := deleteWhere p (environment_variables (db w))\<rparr>)))) (\<lambda>affected.
           andThen (okOr (NotFound ''Environment variable not found.'') affected) hot_reload_if_running))" if "x = ws" for x
      unfolding that
      by (intro keeps_intros iso_executing) (simp add: isolated_delete_owned)
  qed
qed



end
