(* ===== verification/Cron.thy ===== *)
theory Cron
  imports Env_Pool
begin

text \<open>
  Scheduled jobs: \<open>cron_controller.rs\<close> (the handlers, the managed backup job of a database,
  the job's own environment) and \<open>utils/cron.rs\<close> (the scheduler, the auto-sleep worker and
  the runs). The \<open>cron\<close> crate is the pair \<open>cron_error\<close>, \<open>cron_next\<close> of the external
  functions; the image lookup of \<open>builder.rs\<close> and the backup itself
  (\<open>perform_database_backup\<close>) are parameters of the runs.
\<close>

section \<open>Schedules and commands\<close>

definition normalize_schedule :: "string \<Rightarrow> string" where
  "normalize_schedule raw =
     (if length (split_whitespace raw) = 5 then ''0 '' @ raw else raw)"

text \<open>\<open>Schedule::from_str\<close> followed by \<open>upcoming(Utc).next()\<close>.\<close>

definition parse_schedule :: "string \<Rightarrow> unit handler" where
  "parse_schedule s =
     andThen (readState (\<lambda>w. cron_error (ext w) s)) (\<lambda>err.
     case err of None \<Rightarrow> ret () | Some e \<Rightarrow> raise (Validation (''Invalid cron expression: '' @ e)))"

definition next_run :: "string \<Rightarrow> world \<Rightarrow> instant option" where
  "next_run s w = (if cron_error (ext w) s = None then cron_next (ext w) s (clock w) else None)"

definition check_mark :: string where
  "check_mark = [CHR 0xE2, CHR 0x9C, CHR 0x85]"

definition middle_dot :: string where
  "middle_dot = [CHR 0xC2, CHR 0xB7]"

definition quoted :: "string \<Rightarrow> string" where
  "quoted s = [CHR 34] @ s @ [CHR 34]"

definition default_backup_command :: "db_type \<Rightarrow> string" where
  "default_backup_command t =
     (case t of
        Postgres \<Rightarrow> ''pg_dump --clean --if-exists -U '' @ quoted ''$POSTGRES_USER'' @ '' '' @ quoted ''$POSTGRES_DB''
          @ '' && echo '' @ quoted (check_mark @ '' Postgres backup of database $POSTGRES_DB completed successfully.'') @ '' >&2''
      | Mysql \<Rightarrow> ''mysqldump --add-drop-table -u'' @ quoted ''$MYSQL_USER'' @ '' -p'' @ quoted ''$MYSQL_PASSWORD'' @ '' ''
          @ quoted ''$MYSQL_DATABASE'' @ '' && echo ''
          @ quoted (check_mark @ '' MySQL backup of database $MYSQL_DATABASE completed successfully.'') @ '' >&2''
      | Mongodb \<Rightarrow> ''mongodump --username '' @ quoted ''$MONGO_INITDB_ROOT_USERNAME'' @ '' --password ''
          @ quoted ''$MONGO_INITDB_ROOT_PASSWORD'' @ '' --authenticationDatabase admin --archive && echo ''
          @ quoted (check_mark @ '' MongoDB backup completed successfully.'') @ '' >&2''
      | Redis \<Rightarrow> ''redis-cli --rdb /dev/stdout && echo '' @ quoted (check_mark @ '' Redis backup completed successfully.'')
          @ '' >&2'')"

section \<open>The job's own environment\<close>

definition same_cron_key :: "cron_env_variable \<Rightarrow> cron_env_variable \<Rightarrow> bool" where
  "same_cron_key row r \<longleftrightarrow> ce_cron_job_id r = ce_cron_job_id row \<and> ce_key r = ce_key row"

definition put_cron_env :: "cron_env_variable \<Rightarrow> database \<Rightarrow> database" where
  "put_cron_env row d = d\<lparr>cron_env_variables := upsertRow (same_cron_key row) row
     (\<lambda>x. x\<lparr>ce_encrypted_value := ce_encrypted_value row, ce_nonce := ce_nonce row, ce_is_secret := ce_is_secret row\<rparr>)
     (cron_env_variables d)\<rparr>"

definition replace_cron_custom_env :: "uuid \<Rightarrow> uuid \<Rightarrow> env_var_input list \<Rightarrow> unit handler" where
  "replace_cron_custom_env ws_id job_id vars =
     andThen (query (execute (\<lambda>w. (db w)\<lparr>cron_env_variables :=
       deleteWhere (\<lambda>r. ce_cron_job_id r = job_id) (cron_env_variables (db w))\<rparr>))) (\<lambda>_.
     forEach vars (\<lambda>var.
       let key = replace_char (CHR '' '') (CHR ''_'') (to_uppercase (trim (vi_key var))) in
       if key = [] then ret ()
       else
         let is_secret = (case vi_is_secret var of None \<Rightarrow> True | Some b \<Rightarrow> b) in
         andThen (encrypt_env_value (vi_value var)) (\<lambda>(enc, nonce).
         andThen new_v4 (\<lambda>i.
         query (checked
           (\<lambda>w. if existsWhere (\<lambda>j. cj_id j = job_id) (cron_jobs (db w)) then None else Some fk_error)
           (\<lambda>w. put_cron_env \<lparr>ce_id = i, ce_workspace_id = ws_id, ce_cron_job_id = job_id, ce_key = key,
              ce_encrypted_value = enc, ce_nonce = nonce, ce_is_secret = is_secret\<rparr> (db w)))))))"

definition replace_cron_links :: "uuid \<Rightarrow> uuid \<Rightarrow> uuid list \<Rightarrow> unit handler" where
  "replace_cron_links job_id project_id ids =
     andThen (query (execute (\<lambda>w. (db w)\<lparr>cron_env_links :=
       deleteWhere (\<lambda>l. ck_cron_job_id l = job_id) (cron_env_links (db w))\<rparr>))) (\<lambda>_.
     forEach ids (\<lambda>i.
       andThen (query (fetch (\<lambda>w. existsWhere (\<lambda>r. pv_id r = i \<and> pv_project_id r = project_id)
         (project_env_variables (db w))))) (\<lambda>belongs.
       if \<not> belongs then ret ()
       else query (checked
         (\<lambda>w. if existsWhere (\<lambda>j. cj_id j = job_id) (cron_jobs (db w))
              \<and> existsWhere (\<lambda>r. pv_id r = i) (project_env_variables (db w)) then None else Some fk_error)
         (\<lambda>w. (db w)\<lparr>cron_env_links := insertIfAbsent
           (\<lambda>l. ck_cron_job_id l = job_id \<and> ck_project_env_id l = i)
           \<lparr>ck_cron_job_id = job_id, ck_project_env_id = i\<rparr> (cron_env_links (db w))\<rparr>)))))"

section \<open>The managed backup job\<close>

text \<open>Deleting jobs takes their logs and environment with them.\<close>

definition delete_cron_rows :: "(cron_job \<Rightarrow> bool) \<Rightarrow> database \<Rightarrow> database" where
  "delete_cron_rows p d =
     (let gone = map cj_id (selectWhere p (cron_jobs d)) in
      d\<lparr>cron_jobs := deleteWhere p (cron_jobs d),
        cron_job_logs := deleteWhere (\<lambda>l. cl_cron_job_id l \<in> set gone) (cron_job_logs d),
        cron_env_variables := deleteWhere (\<lambda>v. ce_cron_job_id v \<in> set gone) (cron_env_variables d),
        cron_env_links := deleteWhere (\<lambda>l. ck_cron_job_id l \<in> set gone) (cron_env_links d)\<rparr>)"

definition backup_job_of :: "uuid \<Rightarrow> cron_job \<Rightarrow> bool" where
  "backup_job_of db_id j \<longleftrightarrow> cj_target_type j = ''database'' \<and> cj_target_id j = Some db_id \<and> cj_is_backup j"

definition ensure_backup_cron :: "uuid \<Rightarrow> unit handler" where
  "ensure_backup_cron db_id =
     andThen (query (fetch (\<lambda>w. firstWhere (\<lambda>s. ds_id s = db_id) (databases (db w))))) (\<lambda>row.
     case row of None \<Rightarrow> ret ()
     | Some s \<Rightarrow>
         andThen (query (fetch (\<lambda>w. existsWhere (backup_job_of db_id) (cron_jobs (db w))))) (\<lambda>ex.
         if ex then ret ()
         else
           let schedule = ''0 0 3 * * *'' in
           andThen (readState (next_run schedule)) (\<lambda>nxt.
           andThen new_v4 (\<lambda>i.
           query (execute (\<lambda>w. (db w)\<lparr>cron_jobs := insertRow
             \<lparr>cj_id = i, cj_workspace_id = ds_workspace_id s, cj_project_id = ds_project_id s, cj_app_id = None,
              cj_target_type = ''database'', cj_target_id = Some db_id, cj_is_backup = True,
              cj_name = ''Backup '' @ middle_dot @ '' '' @ ds_name s, cj_schedule = schedule,
              cj_command = default_backup_command (ds_type s), cj_status = CronActive, cj_next_run_at = nxt,
              cj_created_at = clock w\<rparr> (cron_jobs (db w))\<rparr>))))))"

definition remove_backup_cron :: "uuid \<Rightarrow> unit handler" where
  "remove_backup_cron db_id = query (execute (\<lambda>w. delete_cron_rows (backup_job_of db_id) (db w)))"

definition reconcile_backup_crons :: "unit handler" where
  "reconcile_backup_crons =
     andThen (attempt (fetch (\<lambda>w. map ds_id (selectWhere ds_backup_enabled (databases (db w)))))) (\<lambda>r.
     case r of Inl _ \<Rightarrow> ret () | Inr ids \<Rightarrow> forEach ids (\<lambda>i. discard (ensure_backup_cron i)))"

section \<open>The handlers\<close>

record create_cron_request =
  cc_project_id :: uuid
  cc_target_type :: string
  cc_target_id :: "uuid option"
  cc_app_id :: "uuid option"
  cc_name :: string
  cc_schedule :: string
  cc_command :: string
  cc_env_variables :: "env_var_input list option"
  cc_linked_project_env_ids :: "uuid list option"

record cron_response =
  kr_id :: uuid
  kr_app_id :: "uuid option"
  kr_target_type :: string
  kr_target_id :: "uuid option"
  kr_is_backup :: bool
  kr_name :: string
  kr_schedule :: string
  kr_command :: string
  kr_status :: cron_status

definition unknown_target :: "string \<Rightarrow> string" where
  "unknown_target t = ''Unknown target type '' @ [CHR 39] @ t @ [CHR 39] @ ''.''"

definition target_exists :: "string \<Rightarrow> uuid \<Rightarrow> uuid \<Rightarrow> uuid \<Rightarrow> database \<Rightarrow> bool" where
  "target_exists t i ws p d =
     (if t = ''app'' then existsWhere (\<lambda>a. a_id a = i \<and> a_workspace_id a = ws \<and> a_project_id a = p) (apps d)
      else if t = ''database'' then
        existsWhere (\<lambda>s. ds_id s = i \<and> ds_workspace_id s = ws \<and> ds_project_id s = p) (databases d)
      else existsWhere (\<lambda>b. sb_id b = i \<and> sb_workspace_id b = ws \<and> sb_project_id b = Some p) (storage_buckets d))"

text \<open>Reading the stored job back and announcing it.\<close>

definition announce_cron :: "uuid \<Rightarrow> uuid \<Rightarrow> unit handler" where
  "announce_cron ws_id i =
     andThen (attempt (fetchOne (\<lambda>w. firstWhere (\<lambda>j. cj_id j = i) (cron_jobs (db w))))) (\<lambda>r.
     case r of Inl _ \<Rightarrow> ret () | Inr j \<Rightarrow> broadcast_event (CronJobUpdated ws_id j))"

definition optionally :: "'a option \<Rightarrow> ('a \<Rightarrow> unit handler) \<Rightarrow> unit handler" where
  "optionally x f = (case x of None \<Rightarrow> ret () | Some a \<Rightarrow> f a)"

definition create_cron_job :: "claims \<Rightarrow> create_cron_request \<Rightarrow> cron_response handler" where
  "create_cron_job claims p =
     andThen (active_workspace claims) (\<lambda>ws_id.
     let target_type = to_lowercase (cc_target_type p) in
     andThen (okOr (Validation ''A target resource (app, database or storage) is required.'')
       (case cc_target_id p of Some i \<Rightarrow> Some i | None \<Rightarrow> cc_app_id p)) (\<lambda>target_id.
     andThen (if target_type = ''app'' \<or> target_type = ''database'' \<or> target_type = ''storage''
       then query (fetch (\<lambda>w. target_exists target_type target_id ws_id (cc_project_id p) (db w)))
       else raise (Validation (unknown_target target_type))) (\<lambda>valid.
     andThen (rejectIf (\<not> valid) (NotFound ''Target resource not found in this project.'')) (\<lambda>_.
     let normalized_schedule = normalize_schedule (cc_schedule p) in
     andThen (parse_schedule normalized_schedule) (\<lambda>_.
     andThen (readState (next_run normalized_schedule)) (\<lambda>nxt.
     let app_id_col = (if target_type = ''app'' then Some target_id else None) in
     andThen new_v4 (\<lambda>i.
     andThen (query (checked
       (\<lambda>w. case app_id_col of None \<Rightarrow> None
          | Some a \<Rightarrow> if existsWhere (\<lambda>x. a_id x = a) (apps (db w)) then None else Some fk_error)
       (\<lambda>w. (db w)\<lparr>cron_jobs := insertRow
         \<lparr>cj_id = i, cj_workspace_id = ws_id, cj_project_id = cc_project_id p, cj_app_id = app_id_col,
          cj_target_type = target_type, cj_target_id = Some target_id, cj_is_backup = False, cj_name = cc_name p,
          cj_schedule = normalized_schedule, cj_command = cc_command p, cj_status = CronActive, cj_next_run_at = nxt,
          cj_created_at = clock w\<rparr> (cron_jobs (db w))\<rparr>))) (\<lambda>_.
     andThen (optionally (cc_env_variables p) (replace_cron_custom_env ws_id i)) (\<lambda>_.
     andThen (optionally (cc_linked_project_env_ids p) (replace_cron_links i (cc_project_id p))) (\<lambda>_.
     andThen (announce_cron ws_id i) (\<lambda>_.
     ret \<lparr>kr_id = i, kr_app_id = app_id_col, kr_target_type = target_type, kr_target_id = Some target_id,
          kr_is_backup = False, kr_name = cc_name p, kr_schedule = normalized_schedule, kr_command = cc_command p,
          kr_status = CronActive\<rparr>)))))))))))"

definition delete_cron_job :: "claims \<Rightarrow> uuid \<Rightarrow> unit handler" where
  "delete_cron_job claims job_id =
     andThen (active_workspace claims) (\<lambda>ws_id.
     andThen (query (fetch (\<lambda>w. firstWhere (\<lambda>j. cj_id j = job_id \<and> cj_workspace_id j = ws_id) (cron_jobs (db w))))) (\<lambda>row.
     andThen (case row of None \<Rightarrow> ret ()
       | Some j \<Rightarrow>
           if cj_is_backup j then
             optionally (cj_target_id j) (\<lambda>db_id. discard (execute (\<lambda>w. (db w)\<lparr>databases :=
               updateWhere (\<lambda>s. ds_id s = db_id) (\<lambda>s. s\<lparr>ds_backup_enabled := False\<rparr>) (databases (db w))\<rparr>)))
           else ret ()) (\<lambda>_.
     let p = (\<lambda>j. cj_id j = job_id \<and> cj_workspace_id j = ws_id) in
     andThen (query (executing (\<lambda>w. (countWhere p (cron_jobs (db w)), delete_cron_rows p (db w))))) (\<lambda>deleted.
     andThen (rejectIf (deleted = 0) (NotFound ''Cron job not found.'')) (\<lambda>_.
     broadcast_event (CronJobDeleted ws_id job_id))))))"

record update_cron_request =
  cu_name :: "string option"
  cu_schedule :: "string option"
  cu_command :: "string option"
  cu_app_id :: "uuid option"
  cu_status :: "cron_status option"
  cu_env_variables :: "env_var_input list option"
  cu_linked_project_env_ids :: "uuid list option"

text \<open>The fields of the request written over the job that was read.\<close>

definition edit_cron :: "update_cron_request \<Rightarrow> cron_job \<Rightarrow> cron_job" where
  "edit_cron p j =
     (let j1 = (case cu_name p of None \<Rightarrow> j | Some n \<Rightarrow> j\<lparr>cj_name := n\<rparr>);
          j2 = (case cu_app_id p of None \<Rightarrow> j1
                | Some a \<Rightarrow> if cj_target_type j1 = ''app'' then j1\<lparr>cj_app_id := Some a, cj_target_id := Some a\<rparr> else j1);
          j3 = (case cu_status p of None \<Rightarrow> j2 | Some s \<Rightarrow> j2\<lparr>cj_status := s\<rparr>)
      in (case cu_command p of None \<Rightarrow> j3 | Some c \<Rightarrow> j3\<lparr>cj_command := c\<rparr>))"

definition reschedule :: "update_cron_request \<Rightarrow> cron_job \<Rightarrow> cron_job handler" where
  "reschedule p j =
     (case cu_schedule p of
        Some raw \<Rightarrow>
          let normalized = normalize_schedule raw in
          andThen (parse_schedule normalized) (\<lambda>_.
          readState (\<lambda>w. j\<lparr>cj_schedule := normalized,
            cj_next_run_at := (if cj_status j = CronActive then next_run normalized w else None)\<rparr>))
      | None \<Rightarrow>
          if cj_status j = CronActive then
            andThen (parse_schedule (cj_schedule j)) (\<lambda>_.
            readState (\<lambda>w. j\<lparr>cj_next_run_at := next_run (cj_schedule j) w\<rparr>))
          else ret (j\<lparr>cj_next_run_at := None\<rparr>))"

definition update_cron_job :: "claims \<Rightarrow> uuid \<Rightarrow> update_cron_request \<Rightarrow> cron_response handler" where
  "update_cron_job claims job_id p =
     andThen (active_workspace claims) (\<lambda>ws_id.
     andThen (query (fetch (\<lambda>w. firstWhere (\<lambda>j. cj_id j = job_id \<and> cj_workspace_id j = ws_id) (cron_jobs (db w))))) (\<lambda>row.
     andThen (okOr (NotFound ''Cron job not found.'') row) (\<lambda>stored.
     andThen (reschedule p (edit_cron p stored)) (\<lambda>j.
     andThen (query (checked
       (\<lambda>w. case cj_app_id j of None \<Rightarrow> None
          | Some a \<Rightarrow> if existsWhere (\<lambda>x. a_id x = a) (apps (db w)) then None else Some fk_error)
       (\<lambda>w. (db w)\<lparr>cron_jobs := updateWhere (\<lambda>x. cj_id x = cj_id j \<and> cj_workspace_id x = ws_id)
         (\<lambda>x. x\<lparr>cj_name := cj_name j, cj_app_id := cj_app_id j, cj_target_id := cj_target_id j,
            cj_schedule := cj_schedule j, cj_command := cj_command j, cj_status := cj_status j,
            cj_next_run_at := cj_next_run_at j\<rparr>) (cron_jobs (db w))\<rparr>))) (\<lambda>_.
     andThen (optionally (cu_env_variables p) (replace_cron_custom_env ws_id (cj_id j))) (\<lambda>_.
     andThen (optionally (cu_linked_project_env_ids p) (replace_cron_links (cj_id j) (cj_project_id j))) (\<lambda>_.
     andThen (announce_cron ws_id (cj_id j)) (\<lambda>_.
     ret \<lparr>kr_id = cj_id j, kr_app_id = cj_app_id j, kr_target_type = cj_target_type j, kr_target_id = cj_target_id j,
          kr_is_backup = cj_is_backup j, kr_name = cj_name j, kr_schedule = cj_schedule j, kr_command = cj_command j,
          kr_status = cj_status j\<rparr>))))))))"

definition get_cron_env :: "claims \<Rightarrow> uuid \<Rightarrow> ((uuid \<times> string \<times> string option \<times> bool) list \<times> uuid list) handler" where
  "get_cron_env claims job_id =
     andThen (active_workspace claims) (\<lambda>ws_id.
     andThen (query (fetch (\<lambda>w. existsWhere (\<lambda>j. cj_id j = job_id \<and> cj_workspace_id j = ws_id) (cron_jobs (db w))))) (\<lambda>ex.
     andThen (rejectIf (\<not> ex) (NotFound ''Cron job not found.'')) (\<lambda>_.
     andThen (query (fetch (\<lambda>w. sort_key ce_key
       (selectWhere (\<lambda>r. ce_cron_job_id r = job_id) (cron_env_variables (db w)))))) (\<lambda>rows.
     andThen (readState (\<lambda>w. map (\<lambda>r. (ce_id r, ce_key r,
       (if \<not> ce_is_secret r then unseal (ext w) (ce_encrypted_value r) (ce_nonce r) else None), ce_is_secret r)) rows)) (\<lambda>vars.
     andThen (query (fetch (\<lambda>w. map ck_project_env_id
       (selectWhere (\<lambda>l. ck_cron_job_id l = job_id) (cron_env_links (db w)))))) (\<lambda>linked.
     ret (vars, linked)))))))"

section \<open>Runs\<close>

text \<open>The parts of a run that are not modelled: the image of an instance and the backup of a database.\<close>

record cron_tools =
  instance_image :: "uuid \<Rightarrow> world \<Rightarrow> string"
  database_backup :: "uuid \<Rightarrow> string \<Rightarrow> world \<Rightarrow> (string + string \<times> string \<times> string option) \<times> world"

definition log_cron :: "uuid \<Rightarrow> uuid \<Rightarrow> int \<Rightarrow> string \<Rightarrow> instant \<Rightarrow> unit handler" where
  "log_cron job_id workspace_id exit_code out started_at =
     andThen new_v4 (\<lambda>log_id.
     andThen now (\<lambda>finished_at.
     let log = \<lparr>cl_id = log_id, cl_cron_job_id = job_id, cl_exit_code = exit_code, cl_output = Some out,
                cl_started_at = started_at, cl_finished_at = finished_at\<rparr> in
     andThen (discard (checked
       (\<lambda>w. if existsWhere (\<lambda>j. cj_id j = job_id) (cron_jobs (db w)) then None else Some fk_error)
       (\<lambda>w. (db w)\<lparr>cron_job_logs := insertRow log (cron_job_logs (db w))\<rparr>))) (\<lambda>_.
     broadcast_event (CronJobLogCreated workspace_id job_id log))))"

text \<open>The two ways a run ends, as the code's \<open>Result<(), ()>\<close> inside the handler.\<close>

definition cron_failed :: "uuid \<Rightarrow> uuid \<Rightarrow> string \<Rightarrow> instant \<Rightarrow> (unit + unit) handler" where
  "cron_failed job_id ws msg started_at = andThen (log_cron job_id ws 1 msg started_at) (\<lambda>_. ret (Inl ()))"

definition run_k8s_job ::
  "uuid \<Rightarrow> uuid \<Rightarrow> string \<Rightarrow> string \<Rightarrow> env \<Rightarrow> string \<Rightarrow> instant \<Rightarrow> (unit + unit) handler" where
  "run_k8s_job job_id workspace_id ns img envs command started_at =
     andThen (k8s GetClient) (\<lambda>c.
     case c of
       Refused e \<Rightarrow> cron_failed job_id workspace_id (''Kubernetes connection error: '' @ e) started_at
     | _ \<Rightarrow>
         andThen now (\<lambda>t.
         let job_name = to_lowercase (''hermes-cron-'' @ take 18 (uuid_str job_id) @ ''-'' @ show_int (t div 1000000)) in
         andThen (k8s (RunJob ns job_name img envs command)) (\<lambda>a.
         case a of
           JobResult out exit_code \<Rightarrow> andThen (log_cron job_id workspace_id exit_code out started_at) (\<lambda>_. ret (Inr ()))
         | Refused e \<Rightarrow>
             cron_failed job_id workspace_id (''Error running the container in Kubernetes: '' @ e) started_at
         | _ \<Rightarrow> cron_failed job_id workspace_id ''Error running the container in Kubernetes: '' started_at)))"

text \<open>A \<open>HashMap\<close> collected from the base, the job's own values inserted over it, sorted by key.\<close>

definition merge_env :: "env \<Rightarrow> env \<Rightarrow> env" where
  "merge_env base extra =
     sort_key fst (fold (\<lambda>(k, v). AList.update k v) extra (fold (\<lambda>(k, v). AList.update k v) base []))"

definition instance_rank :: "app_instance_type \<Rightarrow> nat" where
  "instance_rank t = (case t of Production \<Rightarrow> 1 | Staging \<Rightarrow> 2 | Preview \<Rightarrow> 3)"

definition run_app_cron ::
  "cron_tools \<Rightarrow> uuid \<Rightarrow> uuid \<Rightarrow> uuid \<Rightarrow> string \<Rightarrow> env \<Rightarrow> instant \<Rightarrow> (unit + unit) handler" where
  "run_app_cron T job_id workspace_id app_id command extra_env started_at =
     andThen (attempt (fetch (\<lambda>w. case sort_key (\<lambda>ai. instance_rank (ai_instance_type ai))
         (selectWhere (\<lambda>ai. ai_app_id ai = app_id) (app_instances (db w))) of [] \<Rightarrow> None | ai # _ \<Rightarrow> Some (ai_id ai)))) (\<lambda>inst.
     case inst of
       Inr (Some inst_id) \<Rightarrow>
         andThen (readState (instance_image T inst_id)) (\<lambda>img.
         andThen (resolve_instance_env inst_id) (\<lambda>base.
         run_k8s_job job_id workspace_id (ws_namespace workspace_id) img (merge_env base extra_env) command started_at))
     | _ \<Rightarrow> cron_failed job_id workspace_id
         ''The application has no deployed instance. The cron needs an image built by a deploy.'' started_at)"

definition db_type_str :: "db_type \<Rightarrow> string" where
  "db_type_str t = (case t of Postgres \<Rightarrow> ''postgres'' | Mysql \<Rightarrow> ''mysql'' | Redis \<Rightarrow> ''redis'' | Mongodb \<Rightarrow> ''mongodb'')"

definition cron_database_url :: "database_service \<Rightarrow> string \<Rightarrow> string" where
  "cron_database_url s password =
     (let host = ds_container_name s @ '':'' @ show_int (ds_internal_port s) in
      case ds_type s of
        Postgres \<Rightarrow> ''postgresql://'' @ ds_db_user s @ '':'' @ password @ ''@'' @ host @ ''/'' @ ds_db_name s
      | Mysql \<Rightarrow> ''mysql://'' @ ds_db_user s @ '':'' @ password @ ''@'' @ host @ ''/'' @ ds_db_name s
      | Redis \<Rightarrow> ''redis://'' @ host
      | Mongodb \<Rightarrow> ''mongodb://'' @ ds_db_user s @ '':'' @ password @ ''@'' @ host)"

definition run_database_cron ::
  "uuid \<Rightarrow> uuid \<Rightarrow> uuid \<Rightarrow> string \<Rightarrow> env \<Rightarrow> instant \<Rightarrow> (unit + unit) handler" where
  "run_database_cron job_id workspace_id db_id command extra_env started_at =
     andThen (attempt (fetch (\<lambda>w. firstWhere (\<lambda>s. ds_id s = db_id) (databases (db w))))) (\<lambda>row.
     case row of
       Inr (Some s) \<Rightarrow>
         andThen (orElse (decrypt_env_value (ds_db_password s)
           (case ds_db_password_nonce s of Some n \<Rightarrow> n | None \<Rightarrow> ''AAAAAAAAAAAAAAAA'')) []) (\<lambda>password.
         let img = db_type_str (ds_type s) @ '':'' @ ds_version s;
             envs = merge_env
               [(''DATABASE_URL'', cron_database_url s password), (''DB_HOST'', ds_container_name s),
                (''DB_PORT'', show_int (ds_internal_port s)), (''DB_USER'', ds_db_user s),
                (''DB_PASSWORD'', password), (''DB_NAME'', ds_db_name s)] extra_env
         in run_k8s_job job_id workspace_id (ws_namespace (ds_workspace_id s)) img envs command started_at)
     | _ \<Rightarrow> cron_failed job_id workspace_id ''The target database was not found.'' started_at)"

definition storage_cron_claims :: "storage_bucket \<Rightarrow> instant \<Rightarrow> claims" where
  "storage_cron_claims b t =
     \<lparr>c_sub = sb_created_by b, c_username = ''hermes-cron'', c_email = ''cron@hermes.local'', c_status = Active,
      c_is_super_admin = True, c_current_workspace_id = Some (sb_workspace_id b),
      c_exp = (t + seconds 86400) div 1000000\<rparr>"

definition run_storage_cron ::
  "uuid \<Rightarrow> uuid \<Rightarrow> uuid \<Rightarrow> string \<Rightarrow> env \<Rightarrow> instant \<Rightarrow> (unit + unit) handler" where
  "run_storage_cron job_id workspace_id bucket_id command extra_env started_at =
     andThen (attempt (fetch (\<lambda>w. firstWhere (\<lambda>b. sb_id b = bucket_id) (storage_buckets (db w))))) (\<lambda>row.
     case row of
       Inr (Some b) \<Rightarrow>
         andThen (readState (\<lambda>w. case env_var w ''HERMES_BASE_DOMAIN'' of None \<Rightarrow> ''hermes-host.vip'' | Some d \<Rightarrow> d)) (\<lambda>base_domain.
         andThen now (\<lambda>t.
         andThen (readState (\<lambda>w. jwt_sign (ext w) (storage_cron_claims b t))) (\<lambda>token.
         let envs = merge_env
               [(''BUCKET_URL'', ''https://'' @ sb_slug b @ ''.'' @ base_domain), (''BUCKET_SLUG'', sb_slug b),
                (''BUCKET_TOKEN'', token)] extra_env
         in run_k8s_job job_id workspace_id (ws_namespace (sb_workspace_id b)) ''curlimages/curl:latest'' envs command started_at)))
     | _ \<Rightarrow> cron_failed job_id workspace_id ''The target storage bucket was not found.'' started_at)"

definition package_mark :: string where
  "package_mark = [CHR 0xF0, CHR 0x9F, CHR 0x93, CHR 0xA6]"

definition execute_cron_job ::
  "cron_tools \<Rightarrow> uuid \<Rightarrow> uuid \<Rightarrow> string \<Rightarrow> uuid option \<Rightarrow> bool \<Rightarrow> string \<Rightarrow> (unit + unit) handler" where
  "execute_cron_job T job_id workspace_id target_type target is_backup command =
     andThen now (\<lambda>started_at.
     case target of
       None \<Rightarrow> cron_failed job_id workspace_id ''Error: the cron has no target resource.'' started_at
     | Some target_id \<Rightarrow>
         if target_type = ''database'' \<and> is_backup then
           andThen (\<lambda>w. case database_backup T target_id command w of (r, w') \<Rightarrow> (Inr r, w')) (\<lambda>res.
           case res of
             Inr (filename, kb, extra) \<Rightarrow>
               andThen (log_cron job_id workspace_id 0
                 (package_mark @ '' Backup created: '' @ filename @ '' '' @ middle_dot @ '' '' @ kb @ '' KB''
                  @ (case extra of None \<Rightarrow> [] | Some s \<Rightarrow> if s = [] then [] else CHR 10 # s)) started_at) (\<lambda>_. ret (Inr ()))
           | Inl e \<Rightarrow> cron_failed job_id workspace_id (''Backup failed: '' @ e) started_at)
         else if target_type = ''app'' then
           andThen (resolve_cron_env job_id) (\<lambda>extra. run_app_cron T job_id workspace_id target_id command extra started_at)
         else if target_type = ''database'' then
           andThen (resolve_cron_env job_id) (\<lambda>extra. run_database_cron job_id workspace_id target_id command extra started_at)
         else if target_type = ''storage'' then
           andThen (resolve_cron_env job_id) (\<lambda>extra. run_storage_cron job_id workspace_id target_id command extra started_at)
         else cron_failed job_id workspace_id (''Unknown target type: '' @ target_type) started_at)"

section \<open>The background workers\<close>

text \<open>One tick of the scheduler on the leader; an execution it spawns is run where it is spawned.\<close>

definition cron_due :: "instant \<Rightarrow> cron_job \<Rightarrow> bool" where
  "cron_due t j \<longleftrightarrow> cj_status j = CronActive \<and> (case cj_next_run_at j of None \<Rightarrow> False | Some n \<Rightarrow> n \<le> t)"

definition advance_cron :: "cron_job \<Rightarrow> unit handler" where
  "advance_cron job =
     andThen (readState (\<lambda>w. cron_error (ext w) (cj_schedule job))) (\<lambda>err.
     if err \<noteq> None then ret ()
     else
       andThen (readState (next_run (cj_schedule job))) (\<lambda>nxt.
       andThen (discard (execute (\<lambda>w. (db w)\<lparr>cron_jobs :=
         updateWhere (\<lambda>j. cj_id j = cj_id job) (\<lambda>j. j\<lparr>cj_next_run_at := nxt\<rparr>) (cron_jobs (db w))\<rparr>))) (\<lambda>_.
       announce_cron (cj_workspace_id job) (cj_id job))))"

definition scheduler_tick :: "cron_tools \<Rightarrow> unit handler" where
  "scheduler_tick T =
     andThen now (\<lambda>t.
     andThen (attempt (fetch (\<lambda>w. selectWhere (cron_due t) (cron_jobs (db w))))) (\<lambda>r.
     case r of
       Inl _ \<Rightarrow> ret ()
     | Inr due \<Rightarrow> forEach due (\<lambda>job.
         andThen (advance_cron job) (\<lambda>_.
         discard (execute_cron_job T (cj_id job) (cj_workspace_id job) (cj_target_type job) (cj_target_id job)
           (cj_is_backup job) (cj_command job))))))"

definition sleep_candidate :: "instant \<Rightarrow> app_instance \<Rightarrow> bool" where
  "sleep_candidate t ai \<longleftrightarrow> ai_auto_sleep_enabled ai \<and> ai_status ai = Running
     \<and> ai_updated_at ai < t - seconds (60 * ai_auto_sleep_after_minutes ai)"

definition auto_sleep_tick :: "unit handler" where
  "auto_sleep_tick =
     andThen (k8s GetClient) (\<lambda>c.
     case c of Refused _ \<Rightarrow> ret ()
     | _ \<Rightarrow>
       andThen (attempt (fetch (\<lambda>w. concat (map (\<lambda>ai. map (Pair ai)
           (map a_workspace_id (selectWhere (\<lambda>a. a_id a = ai_app_id ai) (apps (db w)))))
         (selectWhere (sleep_candidate (clock w)) (app_instances (db w))))))) (\<lambda>r.
       case r of
         Inl _ \<Rightarrow> ret ()
       | Inr insts \<Rightarrow> forEach insts (\<lambda>(inst, ws).
           andThen (k8s (ScaleDeployment (ws_namespace ws) (ai_container_name inst) 0)) (\<lambda>a.
           case a of Refused _ \<Rightarrow> ret ()
           | _ \<Rightarrow>
             andThen (discard (execute (\<lambda>w. (db w)\<lparr>app_instances := updateWhere (\<lambda>x. ai_id x = ai_id inst)
               (\<lambda>x. x\<lparr>ai_status := Stopped, ai_updated_at := clock w\<rparr>) (app_instances (db w))\<rparr>))) (\<lambda>_.
             broadcast_event (InstanceStatusChanged ws (ai_id inst) (ai_container_name inst) ''stopped''))))))"

end
