(* ===== verification/Cron_Laws.thy ===== *)
theory Cron_Laws
  imports Cron Env_Laws
begin

text \<open>
  What the scheduled jobs promise: one managed backup job per protected database, the
  precedence of a job's own variables, the validation of a new job, what an execution is
  given, and the progress of the scheduler.
\<close>

section \<open>The managed backup job\<close>

definition backup_row :: "database_service \<Rightarrow> uuid \<Rightarrow> instant option \<Rightarrow> instant \<Rightarrow> cron_job" where
  "backup_row s i nxt t =
     \<lparr>cj_id = i, cj_workspace_id = ds_workspace_id s, cj_project_id = ds_project_id s, cj_app_id = None,
      cj_target_type = ''database'', cj_target_id = Some (ds_id s), cj_is_backup = True,
      cj_name = ''Backup '' @ middle_dot @ '' '' @ ds_name s, cj_schedule = ''0 0 3 * * *'',
      cj_command = default_backup_command (ds_type s), cj_status = CronActive, cj_next_run_at = nxt,
      cj_created_at = t\<rparr>"

lemma backup_row_of [simp]: "backup_job_of k (backup_row s i nxt t) \<longleftrightarrow> k = ds_id s"
  by (auto simp: backup_job_of_def backup_row_def)

lemma ensure_backup_cron_run:
  assumes "faults w = []"
  shows "\<exists>w'. ensure_backup_cron k w = (Inr (), w') \<and> faults w' = [] \<and> ext w' = ext w \<and> clock w' = clock w
    \<and> db w' = (case firstWhere (\<lambda>s. ds_id s = k) (databases (db w)) of None \<Rightarrow> db w
        | Some s \<Rightarrow> if existsWhere (backup_job_of k) (cron_jobs (db w)) then db w
            else (db w)\<lparr>cron_jobs := cron_jobs (db w)
              @ [backup_row s (random_uuid w (drawn w)) (next_run ''0 0 3 * * *'' w) (clock w)]\<rparr>)"
proof (cases "firstWhere (\<lambda>s. ds_id s = k) (databases (db w))")
  case None
  with assms show ?thesis by (simp add: ensure_backup_cron_def run_simps)
next
  case (Some s)
  then have k: "ds_id s = k" by (auto dest: firstWhere_Some)
  show ?thesis
  proof (cases "existsWhere (backup_job_of k) (cron_jobs (db w))")
    case True
    with Some assms show ?thesis by (simp add: ensure_backup_cron_def run_simps)
  next
    case False
    with Some assms k show ?thesis
      by (simp add: ensure_backup_cron_def run_simps Let_def insertRow_def backup_row_def)
  qed
qed

lemma remove_backup_cron_run:
  "faults w = [] \<Longrightarrow> remove_backup_cron k w = (Inr (), w\<lparr>db := delete_cron_rows (backup_job_of k) (db w)\<rparr>)"
  by (simp add: remove_backup_cron_def run_simps)

lemma cron_jobs_delete [simp]: "cron_jobs (delete_cron_rows p d) = deleteWhere p (cron_jobs d)"
  by (simp add: delete_cron_rows_def Let_def)

lemma firstWhere_unique:
  "uniqueOn k t \<Longrightarrow> r \<in> set t \<Longrightarrow> firstWhere (\<lambda>x. k x = k r) t = Some r"
  using firstWhere_None [of "\<lambda>x. k x = k r" t]
  by (cases "firstWhere (\<lambda>x. k x = k r) t") (auto dest: firstWhere_Some uniqueOn_eq)

text \<open>
  Turning backups on for a database leaves it with exactly one managed backup job and
  touches no other job; repeating it changes nothing; turning backups off removes that job
  and gives back exactly the jobs there were beside it.
\<close>

theorem one_backup_job_per_database:
  assumes "faults w = []" "uniqueOn ds_id (databases (db w))" "s \<in> set (databases (db w))"
    and "countWhere (backup_job_of (ds_id s)) (cron_jobs (db w)) \<le> 1"
  shows "case ensure_backup_cron (ds_id s) w of (r, w1) \<Rightarrow>
    r = Inr () \<and> countWhere (backup_job_of (ds_id s)) (cron_jobs (db w1)) = 1
    \<and> deleteWhere (backup_job_of (ds_id s)) (cron_jobs (db w1)) = deleteWhere (backup_job_of (ds_id s)) (cron_jobs (db w))
    \<and> db (snd (ensure_backup_cron (ds_id s) w1)) = db w1
    \<and> cron_jobs (db (snd (remove_backup_cron (ds_id s) w1))) = deleteWhere (backup_job_of (ds_id s)) (cron_jobs (db w))"
proof -
  let ?p = "backup_job_of (ds_id s)"
  have first: "firstWhere (\<lambda>x. ds_id x = ds_id s) (databases (db w)) = Some s"
    using assms(2,3) by (rule firstWhere_unique)
  obtain w1 where w1: "ensure_backup_cron (ds_id s) w = (Inr (), w1)" "faults w1 = []"
    and d1: "db w1 = (if existsWhere ?p (cron_jobs (db w)) then db w
            else (db w)\<lparr>cron_jobs := cron_jobs (db w)
              @ [backup_row s (random_uuid w (drawn w)) (next_run ''0 0 3 * * *'' w) (clock w)]\<rparr>)"
    using ensure_backup_cron_run [OF assms(1), of "ds_id s"] first by auto
  have count: "countWhere ?p (cron_jobs (db w1)) = 1"
  proof (cases "existsWhere ?p (cron_jobs (db w))")
    case True
    then have "countWhere ?p (cron_jobs (db w)) \<noteq> 0" by (simp add: table_simps)
    with True d1 assms(4) show ?thesis by simp
  next
    case False
    then have "countWhere ?p (cron_jobs (db w)) = 0" by (simp add: table_simps)
    with False d1 show ?thesis by (simp add: countWhere_def)
  qed
  have rest: "deleteWhere ?p (cron_jobs (db w1)) = deleteWhere ?p (cron_jobs (db w))"
    using d1 by (simp add: deleteWhere_def)
  have ex: "existsWhere ?p (cron_jobs (db w1))"
    using count countWhere_0 [of ?p "cron_jobs (db w1)"] by (simp add: existsWhere_iff)
  have again: "db (snd (ensure_backup_cron (ds_id s) w1)) = db w1"
    using ensure_backup_cron_run [OF w1(2), of "ds_id s"] ex by (auto split: option.split)
  show ?thesis
    using w1 count rest again by (simp add: remove_backup_cron_run)
qed

text \<open>The start-up reconciliation.\<close>

lemma existsWhere_append [simp]: "existsWhere p (s @ t) \<longleftrightarrow> existsWhere p s \<or> existsWhere p t"
  by (simp add: existsWhere_def)

lemma reconcile_loop:
  assumes "faults w = []"
  shows "\<exists>w' new. forEach ids (\<lambda>i. discard (ensure_backup_cron i) :: unit handler) w = (Inr (), w') \<and> faults w' = []
    \<and> db w' = (db w)\<lparr>cron_jobs := cron_jobs (db w) @ new\<rparr>
    \<and> (\<forall>j \<in> set new. cj_is_backup j \<and> cj_status j = CronActive
          \<and> (\<exists>s \<in> set (databases (db w)). ds_id s \<in> set ids \<and> cj_target_id j = Some (ds_id s) \<and> cj_workspace_id j = ds_workspace_id s))
    \<and> (\<forall>s \<in> set (databases (db w)). ds_id s \<in> set ids \<longrightarrow>
          existsWhere (backup_job_of (ds_id s)) (cron_jobs (db w) @ new))
    \<and> (\<forall>k. countWhere (backup_job_of k) new \<le> 1 - countWhere (backup_job_of k) (cron_jobs (db w)))"
  using assms
proof (induction ids arbitrary: w)
  case Nil
  then show ?case by (intro exI [of _ w] exI [of _ "[]"]) (simp add: ret_def countWhere_def)
next
  case (Cons i ids)
  obtain w1 where w1: "ensure_backup_cron i w = (Inr (), w1)" "faults w1 = []"
    and d1: "db w1 = (case firstWhere (\<lambda>s. ds_id s = i) (databases (db w)) of None \<Rightarrow> db w
        | Some s \<Rightarrow> if existsWhere (backup_job_of i) (cron_jobs (db w)) then db w
            else (db w)\<lparr>cron_jobs := cron_jobs (db w)
              @ [backup_row s (random_uuid w (drawn w)) (next_run ''0 0 3 * * *'' w) (clock w)]\<rparr>)"
    using ensure_backup_cron_run [OF Cons.prems, of i] by auto
  have "\<exists>one. db w1 = (db w)\<lparr>cron_jobs := cron_jobs (db w) @ one\<rparr>
    \<and> (\<forall>j \<in> set one. cj_is_backup j \<and> cj_status j = CronActive
          \<and> (\<exists>s \<in> set (databases (db w)). ds_id s = i \<and> cj_target_id j = Some (ds_id s) \<and> cj_workspace_id j = ds_workspace_id s))
    \<and> (\<forall>s \<in> set (databases (db w)). ds_id s = i \<longrightarrow> existsWhere (backup_job_of i) (cron_jobs (db w) @ one))
    \<and> (\<forall>k. countWhere (backup_job_of k) one \<le> 1 - countWhere (backup_job_of k) (cron_jobs (db w)))"
  proof (cases "firstWhere (\<lambda>s. ds_id s = i) (databases (db w))")
    case None
    with d1 show ?thesis
      by (intro exI [of _ "[]"]) (auto simp: firstWhere_None countWhere_def)
  next
    case (Some s)
    then have s: "s \<in> set (databases (db w))" "ds_id s = i" by (auto dest: firstWhere_Some)
    show ?thesis
    proof (cases "existsWhere (backup_job_of i) (cron_jobs (db w))")
      case True
      with d1 Some show ?thesis by (intro exI [of _ "[]"]) (auto simp: countWhere_def)
    next
      case False
      then have z: "countWhere (backup_job_of i) (cron_jobs (db w)) = 0" by (simp add: table_simps)
      let ?b = "backup_row s (random_uuid w (drawn w)) (next_run ''0 0 3 * * *'' w) (clock w)"
      have b: "cj_is_backup ?b" "cj_status ?b = CronActive" "cj_target_id ?b = Some (ds_id s)"
        "cj_workspace_id ?b = ds_workspace_id s"
        by (simp_all add: backup_row_def)
      from False d1 Some have d: "db w1 = (db w)\<lparr>cron_jobs := cron_jobs (db w) @ [?b]\<rparr>" by simp
      have "existsWhere (backup_job_of i) [?b]" using s by (simp add: existsWhere_def)
      moreover have "countWhere (backup_job_of k) [?b] \<le> 1 - countWhere (backup_job_of k) (cron_jobs (db w))" for k
        using z s by (simp add: countWhere_def)
      ultimately show ?thesis using b d s by (intro exI [of _ "[?b]"]) auto
    qed
  qed
  then obtain one where one: "db w1 = (db w)\<lparr>cron_jobs := cron_jobs (db w) @ one\<rparr>"
    "\<forall>j \<in> set one. cj_is_backup j \<and> cj_status j = CronActive
          \<and> (\<exists>s \<in> set (databases (db w)). ds_id s = i \<and> cj_target_id j = Some (ds_id s) \<and> cj_workspace_id j = ds_workspace_id s)"
    "\<forall>s \<in> set (databases (db w)). ds_id s = i \<longrightarrow> existsWhere (backup_job_of i) (cron_jobs (db w) @ one)"
    "\<forall>k. countWhere (backup_job_of k) one \<le> 1 - countWhere (backup_job_of k) (cron_jobs (db w))"
    by blast
  obtain w2 new where w2: "forEach ids (\<lambda>i. discard (ensure_backup_cron i) :: unit handler) w1 = (Inr (), w2)" "faults w2 = []"
    and new: "db w2 = (db w1)\<lparr>cron_jobs := cron_jobs (db w1) @ new\<rparr>"
    "\<forall>j \<in> set new. cj_is_backup j \<and> cj_status j = CronActive
          \<and> (\<exists>s \<in> set (databases (db w1)). ds_id s \<in> set ids \<and> cj_target_id j = Some (ds_id s) \<and> cj_workspace_id j = ds_workspace_id s)"
    "\<forall>s \<in> set (databases (db w1)). ds_id s \<in> set ids \<longrightarrow> existsWhere (backup_job_of (ds_id s)) (cron_jobs (db w1) @ new)"
    "\<forall>k. countWhere (backup_job_of k) new \<le> 1 - countWhere (backup_job_of k) (cron_jobs (db w1))"
    using Cons.IH [OF w1(2)] by blast
  have run: "forEach (i # ids) (\<lambda>i. discard (ensure_backup_cron i) :: unit handler) w = (Inr (), w2)"
    using w1(1) w2(1) by (simp add: andThen_def discard_def)
  have "countWhere (backup_job_of k) (one @ new) \<le> 1 - countWhere (backup_job_of k) (cron_jobs (db w))" for k
    using one(4) [rule_format, of k] new(4) [rule_format, of k] one(1) by (simp add: countWhere_def)
  moreover have "existsWhere (backup_job_of (ds_id s)) (cron_jobs (db w) @ one @ new)"
    if "s \<in> set (databases (db w))" "ds_id s \<in> set (i # ids)" for s
    using that one(1,3) new(3) by auto
  ultimately show ?case
    using run w2(2) one(1,2) new(1,2)
    by (intro exI [of _ w2] exI [of _ "one @ new"]) auto
qed

text \<open>
  The reconciliation at start-up gives every database with backups enabled its
  managed job, adds nothing but active backup jobs of such databases in their own
  workspace, never a second job for a database, and keeps every job there was.
\<close>

theorem reconcile_restores_backup_jobs:
  assumes "faults w = []"
  shows "\<exists>w' new. reconcile_backup_crons w = (Inr (), w')
    \<and> cron_jobs (db w') = cron_jobs (db w) @ new
    \<and> (\<forall>s \<in> set (databases (db w)). ds_backup_enabled s \<longrightarrow> existsWhere (backup_job_of (ds_id s)) (cron_jobs (db w')))
    \<and> (\<forall>j \<in> set new. cj_status j = CronActive \<and> cj_is_backup j \<and> (\<exists>s \<in> set (databases (db w)).
          cj_target_id j = Some (ds_id s) \<and> cj_workspace_id j = ds_workspace_id s))
    \<and> (\<forall>k. countWhere (backup_job_of k) (cron_jobs (db w)) \<le> 1 \<longrightarrow> countWhere (backup_job_of k) (cron_jobs (db w')) \<le> 1)"
proof -
  let ?ids = "map ds_id (selectWhere ds_backup_enabled (databases (db w)))"
  obtain w' new where run: "forEach ?ids (\<lambda>i. discard (ensure_backup_cron i) :: unit handler) w = (Inr (), w')"
    and d: "db w' = (db w)\<lparr>cron_jobs := cron_jobs (db w) @ new\<rparr>"
    and n: "\<forall>j \<in> set new. cj_is_backup j \<and> cj_status j = CronActive
          \<and> (\<exists>s \<in> set (databases (db w)). ds_id s \<in> set ?ids \<and> cj_target_id j = Some (ds_id s) \<and> cj_workspace_id j = ds_workspace_id s)"
    and e: "\<forall>s \<in> set (databases (db w)). ds_id s \<in> set ?ids \<longrightarrow> existsWhere (backup_job_of (ds_id s)) (cron_jobs (db w) @ new)"
    and c: "\<forall>k. countWhere (backup_job_of k) new \<le> 1 - countWhere (backup_job_of k) (cron_jobs (db w))"
    using reconcile_loop [OF assms] by blast
  have "reconcile_backup_crons w = (Inr (), w')"
    using assms run by (simp add: reconcile_backup_crons_def run_simps)
  moreover have "existsWhere (backup_job_of (ds_id s)) (cron_jobs (db w'))"
    if "s \<in> set (databases (db w))" "ds_backup_enabled s" for s
    using e d that by (simp add: selectWhere_def)
  moreover have "countWhere (backup_job_of k) (cron_jobs (db w')) \<le> 1"
    if "countWhere (backup_job_of k) (cron_jobs (db w)) \<le> 1" for k
    using c [rule_format, of k] d that by (simp add: countWhere_def)
  ultimately show ?thesis using d n by (intro exI [of _ w'] exI [of _ new]) auto
qed


section \<open>The variables of an execution\<close>

lemma fold_update_props:
  "map_of (fold (\<lambda>(k, v). AList.update k v) kvs m) = map_of m ++ map_of (rev kvs)"
  "distinct (map fst m) \<Longrightarrow> distinct (map fst (fold (\<lambda>(k, v). AList.update k v) kvs m))"
proof (induction kvs arbitrary: m)
  case (Cons kv kvs)
  { case 1
    show ?case using Cons(1) by (cases kv) (auto simp: update_conv' map_add_def fun_eq_iff split: option.split) }
  { case 2
    then show ?case using Cons(2) by (cases kv) (simp add: distinct_update) }
qed simp_all

text \<open>
  The environment of an execution has every key once, in order, whatever duplicates
  the target's base variables and the job's own variables have; a key's value is the last
  one the job gives it and otherwise the last one of the base, so the job's own variables
  override even the injected connection variables.
\<close>

theorem execution_env_is_merged:
  "distinct (map fst (merge_env base extra)) \<and> sorted (map fst (merge_env base extra))
   \<and> map_of (merge_env base extra) = map_of (rev base) ++ map_of (rev extra)
   \<and> fst ` set (merge_env base extra) = fst ` set base \<union> fst ` set extra"
proof -
  let ?m = "fold (\<lambda>(k, v). AList.update k v) extra (fold (\<lambda>(k, v). AList.update k v) base [])"
  have d: "distinct (map fst ?m)" by (intro fold_update_props(2)) simp
  have eq: "merge_env base extra = finalize ?m" by (simp add: merge_env_def finalize_def)
  have m: "map_of (merge_env base extra) = map_of (rev base) ++ map_of (rev extra)"
    by (simp add: eq finalize_props(1) [OF d] fold_update_props(1))
  have "fst ` set (merge_env base extra) = dom (map_of (merge_env base extra))"
    by (simp add: dom_map_of_conv_image_fst)
  also have "\<dots> = fst ` set base \<union> fst ` set extra"
    by (auto simp: m dom_map_of_conv_image_fst)
  finally show ?thesis using m finalize_props(2,3) [OF d] by (simp add: eq)
qed

section \<open>Every execution is logged once\<close>

text \<open>
  In a world without failing statements: an action that answers without touching the
  tables, and one that adds exactly one log entry of the job.
\<close>

definition quiet :: "(world, app_error, 'a) act \<Rightarrow> bool" where
  "quiet m \<longleftrightarrow> (\<forall>w. faults w = [] \<longrightarrow> (\<exists>x w'. m w = (Inr x, w') \<and> faults w' = [] \<and> clock w' = clock w
     \<and> ext w' = ext w \<and> db w' = db w))"

definition logs_once :: "uuid \<Rightarrow> 'a handler \<Rightarrow> bool" where
  "logs_once j m \<longleftrightarrow> (\<forall>w. faults w = [] \<and> existsWhere (\<lambda>r. cj_id r = j) (cron_jobs (db w)) \<longrightarrow>
     (\<exists>x w' log. m w = (Inr x, w') \<and> faults w' = [] \<and> clock w' = clock w \<and> ext w' = ext w
        \<and> cl_cron_job_id log = j \<and> db w' = (db w)\<lparr>cron_job_logs := cron_job_logs (db w) @ [log]\<rparr>))"

named_theorems quiet_intros \<open>actions that answer without touching the tables\<close>
named_theorems logs_intros \<open>actions that log an execution once\<close>

lemma quiet_ret [quiet_intros]: "quiet (ret x)"
  by (simp add: quiet_def ret_def)

lemma quiet_readState [quiet_intros]: "quiet (readState g)"
  by (simp add: quiet_def readState_def)

lemma quiet_now [quiet_intros]: "quiet now"
  by (simp add: quiet_def now_def readState_def)

lemma quiet_k8s [quiet_intros]: "quiet (k8s c)"
  by (simp add: quiet_def k8s_def)

lemma quiet_fetched [quiet_intros]: "quiet (attempt (fetch g))"
  by (simp add: quiet_def attempt_def fetch_ok)

lemma quiet_decrypted [quiet_intros]: "quiet (orElse (decrypt_env_value e n) d)"
  by (auto simp: quiet_def run_simps decrypt_env_value_def split: option.split)

lemma quiet_instance_env [quiet_intros]: "quiet (resolve_instance_env i)"
  by (simp add: quiet_def resolve_instance_env_run)

lemma quiet_cron_env [quiet_intros]: "quiet (resolve_cron_env i)"
  by (simp add: quiet_def resolve_cron_env_run)

lemma logs_log_cron [logs_intros]: "logs_once j (log_cron j ws ec out t)"
  unfolding logs_once_def
proof (intro allI impI, elim conjE)
  fix w :: world assume w: "faults w = []" "existsWhere (\<lambda>r. cj_id r = j) (cron_jobs (db w))"
  let ?log = "\<lparr>cl_id = random_uuid w (drawn w), cl_cron_job_id = j, cl_exit_code = ec, cl_output = Some out,
                cl_started_at = t, cl_finished_at = clock w\<rparr>"
  let ?w = "w\<lparr>drawn := Suc (drawn w),
     db := (db w)\<lparr>cron_job_logs := cron_job_logs (db w) @ [?log]\<rparr>, events := events w @ [CronJobLogCreated ws j ?log]\<rparr>"
  from w have "log_cron j ws ec out t w = (Inr (), ?w)"
    by (simp add: log_cron_def run_simps Let_def insertRow_def)
  with w(1) show "\<exists>x w' log. log_cron j ws ec out t w = (Inr x, w') \<and> faults w' = [] \<and> clock w' = clock w \<and> ext w' = ext w
        \<and> cl_cron_job_id log = j \<and> db w' = (db w)\<lparr>cron_job_logs := cron_job_logs (db w) @ [log]\<rparr>"
    by - (rule exI [of _ "()"], rule exI [of _ ?w], rule exI [of _ ?log], simp)
qed

lemma logs_after [logs_intros]:
  assumes "quiet m" "\<And>x. logs_once j (f x)"
  shows "logs_once j (andThen m f)"
  unfolding logs_once_def
proof (intro allI impI, elim conjE)
  fix w :: world assume w: "faults w = []" "existsWhere (\<lambda>r. cj_id r = j) (cron_jobs (db w))"
  obtain x w1 where m: "m w = (Inr x, w1)" and w1: "faults w1 = []" "clock w1 = clock w" "ext w1 = ext w" "db w1 = db w"
    using assms(1) w(1) unfolding quiet_def by blast
  obtain y w2 log where f: "f x w1 = (Inr y, w2)" and w2: "faults w2 = []" "clock w2 = clock w1" "ext w2 = ext w1"
    "cl_cron_job_id log = j" "db w2 = (db w1)\<lparr>cron_job_logs := cron_job_logs (db w1) @ [log]\<rparr>"
    using assms(2) [of x, unfolded logs_once_def, rule_format, of w1] w1 w(2) by auto
  show "\<exists>x w' log. andThen m f w = (Inr x, w') \<and> faults w' = [] \<and> clock w' = clock w \<and> ext w' = ext w
        \<and> cl_cron_job_id log = j \<and> db w' = (db w)\<lparr>cron_job_logs := cron_job_logs (db w) @ [log]\<rparr>"
    using m f w1 w2 by (intro exI [of _ y] exI [of _ w2] exI [of _ log]) (simp add: andThen_def)
qed

lemma logs_before [logs_intros]: "logs_once j m \<Longrightarrow> logs_once j (andThen m (\<lambda>_. ret y))"
  by (fastforce simp: logs_once_def andThen_def ret_def)

lemma logs_if [logs_intros]: "logs_once j m \<Longrightarrow> logs_once j n \<Longrightarrow> logs_once j (if b then m else n)"
  by simp

lemma logs_let [logs_intros]: "(\<And>x. logs_once j (f x)) \<Longrightarrow> logs_once j (let x = t in f x)"
  by simp

lemma logs_cron_failed [logs_intros]: "logs_once j (cron_failed j ws msg t)"
  unfolding cron_failed_def by (intro logs_intros)

lemma logs_case_answer [logs_intros]:
  assumes "\<And>e. logs_once j (f1 e)" "logs_once j f2" "\<And>x. logs_once j (f3 x)" "\<And>x. logs_once j (f4 x)"
    "\<And>x y. logs_once j (f5 x y)" "\<And>x. logs_once j (f6 x)" "\<And>x. logs_once j (f7 x)"
    "\<And>x. logs_once j (f8 x)" "\<And>x. logs_once j (f9 x)"
  shows "logs_once j (case_k8s_answer f1 f2 f3 f4 f5 f6 f7 f8 f9 a)"
  using assms by (cases a) simp_all

lemma logs_run_k8s_job [logs_intros]: "logs_once j (run_k8s_job j ws ns img envs cmd t)"
  unfolding run_k8s_job_def by (intro logs_intros quiet_intros)

lemma logs_case_row [logs_intros]:
  "(\<And>a. logs_once j (f a)) \<Longrightarrow> logs_once j m \<Longrightarrow> logs_once j (case r of Inr (Some a) \<Rightarrow> f a | _ \<Rightarrow> m)"
  by (auto split: sum.split option.split)

lemma logs_run_app [logs_intros]: "logs_once j (run_app_cron T j ws a cmd extra t)"
  unfolding run_app_cron_def by (intro logs_intros quiet_intros)

lemma logs_run_database [logs_intros]: "logs_once j (run_database_cron j ws d cmd extra t)"
  unfolding run_database_cron_def by (intro logs_intros quiet_intros)

lemma logs_run_storage [logs_intros]: "logs_once j (run_storage_cron j ws b cmd extra t)"
  unfolding run_storage_cron_def by (intro logs_intros quiet_intros)

text \<open>The backup of a database, taken as a run that leaves the modelled tables alone.\<close>

definition backup_run :: "cron_tools \<Rightarrow> uuid \<Rightarrow> string \<Rightarrow> (string + string \<times> string \<times> string option) handler" where
  "backup_run T i cmd = (\<lambda>w. case database_backup T i cmd w of (r, w') \<Rightarrow> (Inr r, w'))"

lemma logs_execute [logs_intros]:
  assumes "\<And>i cmd. quiet (backup_run T i cmd)"
  shows "logs_once j (execute_cron_job T j ws ty tg b cmd)"
proof -
  have "logs_once j (case r of Inr (f, kb, x) \<Rightarrow> andThen (log_cron j ws 0 (g f kb x) t) (\<lambda>_. ret (Inr ()))
      | Inl e \<Rightarrow> cron_failed j ws (h e) t)" for r :: "string + string \<times> string \<times> string option" and g h t
    by (auto split: sum.split prod.split intro!: logs_intros)
  then show ?thesis
    using assms unfolding execute_cron_job_def backup_run_def
    by (cases tg) (auto simp: Let_def intro!: logs_intros quiet_intros split del: if_split)
qed

section \<open>The scheduler\<close>

lemma advance_cron_run:
  assumes "faults w = []" "cron_error (ext w) (cj_schedule job) = None"
  shows "\<exists>w'. advance_cron job w = (Inr (), w') \<and> faults w' = [] \<and> clock w' = clock w \<and> ext w' = ext w
    \<and> db w' = (db w)\<lparr>cron_jobs := updateWhere (\<lambda>j. cj_id j = cj_id job)
        (\<lambda>j. j\<lparr>cj_next_run_at := cron_next (ext w) (cj_schedule job) (clock w)\<rparr>) (cron_jobs (db w))\<rparr>"
  using assms
  by (simp add: advance_cron_def next_run_def announce_cron_def run_simps split: option.split)

definition advanced :: "externals \<Rightarrow> instant \<Rightarrow> cron_job list \<Rightarrow> cron_job list \<Rightarrow> cron_job list" where
  "advanced x t due js = fold (\<lambda>job. updateWhere (\<lambda>j. cj_id j = cj_id job)
     (\<lambda>j. j\<lparr>cj_next_run_at := cron_next x (cj_schedule job) t\<rparr>)) due js"

lemma exists_updateWhere:
  "(\<And>r. k (f r) = k r) \<Longrightarrow> existsWhere (\<lambda>r. k r = v) (updateWhere p f t) = existsWhere (\<lambda>r. k r = v) t"
  using updateWhere_row [of k f p t v] by (simp add: existsWhere_iff)

lemma scheduler_loop:
  assumes T: "\<And>i cmd. quiet (backup_run T i cmd)"
    and "faults w = []" "\<forall>j \<in> set due. cron_error (ext w) (cj_schedule j) = None
          \<and> existsWhere (\<lambda>r. cj_id r = cj_id j) (cron_jobs (db w))"
  shows "\<exists>w' logs. forEach due (\<lambda>job. andThen (advance_cron job) (\<lambda>_.
         discard (execute_cron_job T (cj_id job) (cj_workspace_id job) (cj_target_type job) (cj_target_id job)
           (cj_is_backup job) (cj_command job)))) w = (Inr (), w') \<and> faults w' = []
     \<and> map cl_cron_job_id logs = map cj_id due
     \<and> db w' = (db w)\<lparr>cron_jobs := advanced (ext w) (clock w) due (cron_jobs (db w)),
                       cron_job_logs := cron_job_logs (db w) @ logs\<rparr>"
  using assms(2,3)
proof (induction due arbitrary: w)
  case Nil
  then show ?case by (intro exI [of _ w] exI [of _ "[]"]) (simp add: ret_def advanced_def)
next
  case (Cons job due)
  let ?up = "updateWhere (\<lambda>j. cj_id j = cj_id job) (\<lambda>j. j\<lparr>cj_next_run_at := cron_next (ext w) (cj_schedule job) (clock w)\<rparr>)"
  obtain w1 where w1: "advance_cron job w = (Inr (), w1)" "faults w1 = []" "clock w1 = clock w" "ext w1 = ext w"
    and d1: "db w1 = (db w)\<lparr>cron_jobs := ?up (cron_jobs (db w))\<rparr>"
    using advance_cron_run [OF Cons.prems(1), of job] Cons.prems(2) by auto
  have ids: "existsWhere (\<lambda>r. cj_id r = v) (?up js) = existsWhere (\<lambda>r. cj_id r = v) js" for v js
    by (rule exists_updateWhere) simp
  have "existsWhere (\<lambda>r. cj_id r = cj_id job) (cron_jobs (db w1))"
    using Cons.prems(2) by (simp add: d1 ids)
  with w1(2) obtain r w2 log where w2: "execute_cron_job T (cj_id job) (cj_workspace_id job) (cj_target_type job)
      (cj_target_id job) (cj_is_backup job) (cj_command job) w1 = (Inr r, w2)" "faults w2 = []" "clock w2 = clock w1"
      "ext w2 = ext w1" "cl_cron_job_id log = cj_id job"
    and d2: "db w2 = (db w1)\<lparr>cron_job_logs := cron_job_logs (db w1) @ [log]\<rparr>"
    using logs_execute [OF T, of "cj_id job", unfolded logs_once_def] by blast
  have "\<forall>j \<in> set due. cron_error (ext w2) (cj_schedule j) = None
          \<and> existsWhere (\<lambda>r. cj_id r = cj_id j) (cron_jobs (db w2))"
    using Cons.prems(2) by (simp add: d1 d2 w1 w2 ids)
  from Cons.IH [OF w2(2) this] obtain w3 logs where
    "forEach due (\<lambda>job. andThen (advance_cron job) (\<lambda>_.
         discard (execute_cron_job T (cj_id job) (cj_workspace_id job) (cj_target_type job) (cj_target_id job)
           (cj_is_backup job) (cj_command job)))) w2 = (Inr (), w3)" "faults w3 = []"
     "map cl_cron_job_id logs = map cj_id due"
     "db w3 = (db w2)\<lparr>cron_jobs := advanced (ext w2) (clock w2) due (cron_jobs (db w2)),
                       cron_job_logs := cron_job_logs (db w2) @ logs\<rparr>"
    by blast
  moreover have "andThen (advance_cron job) (\<lambda>_.
         discard (execute_cron_job T (cj_id job) (cj_workspace_id job) (cj_target_type job) (cj_target_id job)
           (cj_is_backup job) (cj_command job)) :: unit handler) w = (Inr (), w2)"
    using w1(1) w2(1) by (simp add: andThen_def discard_def)
  ultimately show ?case
    using w1 w2 d1 d2
    by (intro exI [of _ w3] exI [of _ "log # logs"]) (simp add: andThen_run advanced_def)
qed

lemma advanced_row:
  assumes "distinct (map cj_id due)"
  shows "advanced x t due js = map (\<lambda>j. case firstWhere (\<lambda>d. cj_id d = cj_id j) due of None \<Rightarrow> j
     | Some d \<Rightarrow> j\<lparr>cj_next_run_at := cron_next x (cj_schedule d) t\<rparr>) js"
  using assms
proof (induction due arbitrary: js)
  case Nil
  then show ?case by (simp add: advanced_def firstWhere_def)
next
  case (Cons d due)
  have "firstWhere (\<lambda>x. cj_id x = cj_id d) due = None"
    using Cons.prems by (force simp: firstWhere_None image_iff)
  with Cons show ?case
    by (simp add: advanced_def updateWhere_def firstWhere_def)
qed


lemma advanced_due:
  assumes "uniqueOn cj_id js"
  shows "advanced x t (selectWhere (cron_due t) js) js =
     map (\<lambda>j. if cron_due t j then j\<lparr>cj_next_run_at := cron_next x (cj_schedule j) t\<rparr> else j) js"
proof -
  let ?due = "selectWhere (cron_due t) js"
  have d: "distinct (map cj_id ?due)"
    using assms by (simp add: uniqueOn_def selectWhere_def distinct_map_filter)
  have "firstWhere (\<lambda>d. cj_id d = cj_id j) ?due = (if cron_due t j then Some j else None)" if "j \<in> set js" for j
  proof (cases "cron_due t j")
    case True
    with that have "j \<in> set ?due" by (simp add: selectWhere_def)
    with d have "firstWhere (\<lambda>d. cj_id d = cj_id j) ?due = Some j"
      by (intro firstWhere_unique) (simp_all add: uniqueOn_def)
    with True show ?thesis by simp
  next
    case False
    have "cj_id d \<noteq> cj_id j" if "d \<in> set ?due" for d
      using that False \<open>j \<in> set js\<close> uniqueOn_eq [OF assms, of d j] by (auto simp: selectWhere_def)
    then have "firstWhere (\<lambda>d. cj_id d = cj_id j) ?due = None" by (simp add: firstWhere_None)
    with False show ?thesis by simp
  qed
  then show ?thesis using advanced_row [OF d] by (simp cong: map_cong)
qed

text \<open>
  C19. One tick of the scheduler moves every due job to the next instant of its schedule
  and no other, so that nothing it picked is due any more, and leaves exactly one log entry
  for each job that was due, in order, however its execution ends. It relies on the
  \<open>cron\<close> crate giving instants after the present one, and on a backup not touching the
  modelled tables.
\<close>

theorem scheduler_tick_progress:
  assumes "\<And>i cmd. quiet (backup_run T i cmd)" "faults w = []" "uniqueOn cj_id (cron_jobs (db w))"
    and "\<forall>j \<in> set (cron_jobs (db w)). cron_due (clock w) j \<longrightarrow> cron_error (ext w) (cj_schedule j) = None"
    and "\<forall>s n. cron_next (ext w) s (clock w) = Some n \<longrightarrow> clock w < n"
  shows "\<exists>w' logs. scheduler_tick T w = (Inr (), w')
    \<and> cron_jobs (db w') = map (\<lambda>j. if cron_due (clock w) j
          then j\<lparr>cj_next_run_at := cron_next (ext w) (cj_schedule j) (clock w)\<rparr> else j) (cron_jobs (db w))
    \<and> selectWhere (cron_due (clock w)) (cron_jobs (db w')) = []
    \<and> cron_job_logs (db w') = cron_job_logs (db w) @ logs
    \<and> map cl_cron_job_id logs = map cj_id (selectWhere (cron_due (clock w)) (cron_jobs (db w)))"
proof -
  let ?due = "selectWhere (cron_due (clock w)) (cron_jobs (db w))"
  have "\<forall>j \<in> set ?due. cron_error (ext w) (cj_schedule j) = None
          \<and> existsWhere (\<lambda>r. cj_id r = cj_id j) (cron_jobs (db w))"
    using assms(4) by (auto simp: selectWhere_def existsWhere_iff)
  from scheduler_loop [OF assms(1,2) this] obtain w' logs where
    run: "forEach ?due (\<lambda>job. andThen (advance_cron job) (\<lambda>_.
         discard (execute_cron_job T (cj_id job) (cj_workspace_id job) (cj_target_type job) (cj_target_id job)
           (cj_is_backup job) (cj_command job)))) w = (Inr (), w')"
    and logs: "map cl_cron_job_id logs = map cj_id ?due"
    and d: "db w' = (db w)\<lparr>cron_jobs := advanced (ext w) (clock w) ?due (cron_jobs (db w)),
                       cron_job_logs := cron_job_logs (db w) @ logs\<rparr>"
    by blast
  have jobs: "cron_jobs (db w') = map (\<lambda>j. if cron_due (clock w) j
          then j\<lparr>cj_next_run_at := cron_next (ext w) (cj_schedule j) (clock w)\<rparr> else j) (cron_jobs (db w))"
    using advanced_due [OF assms(3)] by (simp add: d)
  have "\<not> cron_due (clock w) (j\<lparr>cj_next_run_at := cron_next (ext w) (cj_schedule j) (clock w)\<rparr>)" for j
    using assms(5) by (auto simp: cron_due_def not_le split: option.splits)
  then have none: "selectWhere (cron_due (clock w)) (cron_jobs (db w')) = []"
    by (auto simp: jobs selectWhere_def filter_empty_conv)
  have "scheduler_tick T w = (Inr (), w')"
    using run assms(2) by (simp add: scheduler_tick_def step_simps)
  with jobs none logs d show ?thesis by (intro exI [of _ w'] exI [of _ logs]) simp
qed

section \<open>Creating a job\<close>

definition requested_target :: "create_cron_request \<Rightarrow> uuid option" where
  "requested_target p = (case cc_target_id p of Some i \<Rightarrow> Some i | None \<Rightarrow> cc_app_id p)"

text \<open>What a request must satisfy: a known kind of target, in the project and the workspace, and a schedule.\<close>

definition cron_request_ok :: "claims \<Rightarrow> create_cron_request \<Rightarrow> world \<Rightarrow> bool" where
  "cron_request_ok c p w \<longleftrightarrow>
     (case (c_current_workspace_id c, requested_target p) of
        (Some ws, Some i) \<Rightarrow>
          to_lowercase (cc_target_type p) \<in> {''app'', ''database'', ''storage''}
          \<and> target_exists (to_lowercase (cc_target_type p)) i ws (cc_project_id p) (db w)
          \<and> cron_error (ext w) (normalize_schedule (cc_schedule p)) = None
      | _ \<Rightarrow> False)"

lemma calm_announce_cron [calm_intros]: "keeps (calm k I) (announce_cron ws i)"
  unfolding announce_cron_def by (intro keeps_intros calm_intros)

lemma calm_replace_env [calm_intros]:
  "keeps (calm k (\<lambda>d. cron_jobs d = js)) (replace_cron_custom_env ws j vars)"
  unfolding replace_cron_custom_env_def
  by (intro keeps_intros calm_intros keeps_query calm_execute calm_checked)
    (simp_all add: calm_def put_cron_env_def)

lemma calm_replace_links [calm_intros]:
  "keeps (calm k (\<lambda>d. cron_jobs d = js)) (replace_cron_links j p ids)"
  unfolding replace_cron_links_def
  by (intro keeps_intros calm_intros keeps_query calm_execute calm_checked) (simp_all add: calm_def)

lemma calm_optionally [calm_intros]: "(\<And>a. keeps P (f a)) \<Longrightarrow> keeps P (optionally v f)"
  by (simp add: optionally_def keeps_ret split: option.split)


definition new_cron_row :: "create_cron_request \<Rightarrow> uuid \<Rightarrow> uuid \<Rightarrow> uuid \<Rightarrow> world \<Rightarrow> cron_job" where
  "new_cron_row p ws i k w = (let t = to_lowercase (cc_target_type p); s = normalize_schedule (cc_schedule p) in
     \<lparr>cj_id = k, cj_workspace_id = ws, cj_project_id = cc_project_id p,
      cj_app_id = (if t = ''app'' then Some i else None), cj_target_type = t, cj_target_id = Some i,
      cj_is_backup = False, cj_name = cc_name p, cj_schedule = s, cj_command = cc_command p,
      cj_status = CronActive, cj_next_run_at = cron_next (ext w) s (clock w), cj_created_at = clock w\<rparr>)"

text \<open>What follows the insertion of the new job keeps the jobs.\<close>

lemma create_cron_job_split:
  assumes "faults w = []" "cron_request_ok c p w"
  shows "\<exists>ws i k rest. c_current_workspace_id c = Some ws \<and> requested_target p = Some i
    \<and> (\<forall>js. keeps (calm (setting w) (\<lambda>d. cron_jobs d = js)) rest)
    \<and> create_cron_job c p w = rest (w\<lparr>drawn := Suc (drawn w),
         db := (db w)\<lparr>cron_jobs := cron_jobs (db w) @ [new_cron_row p ws i k w]\<rparr>\<rparr>)"
proof -
  let ?t = "to_lowercase (cc_target_type p)"
  obtain ws i where c: "c_current_workspace_id c = Some ws" "requested_target p = Some i"
    and t: "?t \<in> {''app'', ''database'', ''storage''}" "target_exists ?t i ws (cc_project_id p) (db w)"
    and e: "cron_error (ext w) (normalize_schedule (cc_schedule p)) = None"
    using assms(2) by (auto simp: cron_request_ok_def split: option.splits)
  have known: "?t = ''app'' \<or> ?t = ''database'' \<or> ?t = ''storage''" using t(1) by simp
  have app: "existsWhere (\<lambda>a. a_id a = i) (apps (db w))" if "?t = ''app''"
    using t(2) that by (auto simp: target_exists_def existsWhere_iff)
  let ?k = "random_uuid w (drawn w)"
  let ?rest = "andThen (optionally (cc_env_variables p) (replace_cron_custom_env ws ?k)) (\<lambda>_.
     andThen (optionally (cc_linked_project_env_ids p) (replace_cron_links ?k (cc_project_id p))) (\<lambda>_.
     andThen (announce_cron ws ?k) (\<lambda>_.
     ret \<lparr>kr_id = ?k, kr_app_id = (if ?t = ''app'' then Some i else None), kr_target_type = ?t,
          kr_target_id = Some i, kr_is_backup = False, kr_name = cc_name p,
          kr_schedule = normalize_schedule (cc_schedule p), kr_command = cc_command p, kr_status = CronActive\<rparr>)))"
  have "keeps (calm (setting w) (\<lambda>d. cron_jobs d = js)) ?rest" for js
    by (intro keeps_intros calm_intros)
  moreover have "create_cron_job c p w = ?rest (w\<lparr>drawn := Suc (drawn w),
         db := (db w)\<lparr>cron_jobs := cron_jobs (db w) @ [new_cron_row p ws i ?k w]\<rparr>\<rparr>)"
    using c t e known app assms(1)
    by (cases "?t = ''app''")
      (simp_all add: create_cron_job_def active_workspace_def requested_target_def Let_def parse_schedule_def
        next_run_def insertRow_def run_simps new_cron_row_def)
  ultimately show ?thesis using c by blast
qed

lemma create_cron_job_refused:
  assumes "faults w = []" "\<not> cron_request_ok c p w"
  shows "\<exists>e. create_cron_job c p w = (Inl e, w)"
proof (cases "c_current_workspace_id c")
  case None
  then show ?thesis by (simp add: create_cron_job_def active_workspace_def run_simps)
next
  case (Some ws)
  show ?thesis
  proof (cases "requested_target p")
    case None
    with Some show ?thesis
      by (simp add: create_cron_job_def active_workspace_def requested_target_def Let_def run_simps)
  next
    case target: (Some i)
    let ?t = "to_lowercase (cc_target_type p)"
    consider "?t \<notin> {''app'', ''database'', ''storage''}"
      | "?t \<in> {''app'', ''database'', ''storage''}" "\<not> target_exists ?t i ws (cc_project_id p) (db w)"
      | e where "?t \<in> {''app'', ''database'', ''storage''}" "target_exists ?t i ws (cc_project_id p) (db w)"
          "cron_error (ext w) (normalize_schedule (cc_schedule p)) = Some e"
      using assms(2) Some target by (auto simp: cron_request_ok_def)
    then show ?thesis
    proof cases
      case 1
      with Some target show ?thesis
        by (simp add: create_cron_job_def active_workspace_def requested_target_def Let_def run_simps)
    next
      case 2
      then have "?t = ''app'' \<or> ?t = ''database'' \<or> ?t = ''storage''" by simp
      with 2 Some target assms(1) show ?thesis
        by (simp add: create_cron_job_def active_workspace_def requested_target_def Let_def run_simps)
    next
      case 3
      then have "?t = ''app'' \<or> ?t = ''database'' \<or> ?t = ''storage''" by simp
      with 3 Some target assms(1) show ?thesis
        by (simp add: create_cron_job_def active_workspace_def requested_target_def Let_def run_simps parse_schedule_def)
    qed
  qed
qed

text \<open>
  A job is created exactly for an acceptable request: a known kind of target that
  exists in the request's project and in the caller's workspace, and a schedule the parser
  accepts. A refused request changes nothing. An accepted one stores one active job bound to
  the caller's workspace, also when the response is an error, since storing the job's
  variables afterwards is not part of the same transaction.
\<close>

theorem cron_job_created_iff_acceptable:
  assumes "faults w = []"
  shows "case create_cron_job c p w of (r, w') \<Rightarrow>
    (if cron_request_ok c p w
     then \<exists>j. cron_jobs (db w') = cron_jobs (db w) @ [j] \<and> c_current_workspace_id c = Some (cj_workspace_id j)
            \<and> cj_status j = CronActive \<and> \<not> cj_is_backup j \<and> cj_target_id j = requested_target p
            \<and> cj_project_id j = cc_project_id p \<and> cj_schedule j = normalize_schedule (cc_schedule p)
     else (\<exists>e. r = Inl e) \<and> w' = w)"
proof (cases "cron_request_ok c p w")
  case True
  from create_cron_job_split [OF assms this] obtain ws i k rest where
    c: "c_current_workspace_id c = Some ws" "requested_target p = Some i"
    and rest: "\<forall>js. keeps (calm (setting w) (\<lambda>d. cron_jobs d = js)) rest"
    and run: "create_cron_job c p w = rest (w\<lparr>drawn := Suc (drawn w),
         db := (db w)\<lparr>cron_jobs := cron_jobs (db w) @ [new_cron_row p ws i k w]\<rparr>\<rparr>)"
    by blast
  let ?j = "new_cron_row p ws i k w"
  let ?w = "w\<lparr>drawn := Suc (drawn w), db := (db w)\<lparr>cron_jobs := cron_jobs (db w) @ [?j]\<rparr>\<rparr>"
  obtain r w' where rw: "create_cron_job c p w = (r, w')" by fastforce
  have "calm (setting w) (\<lambda>d. cron_jobs d = cron_jobs (db w) @ [?j]) ?w" by (simp add: calm_def assms)
  from keepsD [OF rest [rule_format] this] have "cron_jobs (db w') = cron_jobs (db w) @ [?j]"
    by (simp add: calm_def rw [unfolded run])
  moreover have "cj_workspace_id ?j = ws" "cj_status ?j = CronActive" "\<not> cj_is_backup ?j" "cj_target_id ?j = Some i"
    "cj_project_id ?j = cc_project_id p" "cj_schedule ?j = normalize_schedule (cc_schedule p)"
    by (simp_all add: new_cron_row_def Let_def)
  ultimately show ?thesis using True rw c by simp
next
  case False
  with create_cron_job_refused [OF assms False] show ?thesis by auto
qed


section \<open>Moving a job to another application\<close>

definition only_app :: "uuid \<Rightarrow> update_cron_request" where
  "only_app a = \<lparr>cu_name = None, cu_schedule = None, cu_command = None, cu_app_id = Some a, cu_status = None,
     cu_env_variables = None, cu_linked_project_env_ids = None\<rparr>"

lemma only_app_fields [simp]:
  "cu_schedule (only_app a) = None" "cu_env_variables (only_app a) = None"
  "cu_linked_project_env_ids (only_app a) = None"
  by (simp_all add: only_app_def)

lemma update_app_run:
  assumes "faults w = []" "c_current_workspace_id c = Some ws"
    and "firstWhere (\<lambda>x. cj_id x = k \<and> cj_workspace_id x = ws) (cron_jobs (db w)) = Some j"
    and "cj_target_type j = ''app''" "cron_error (ext w) (cj_schedule j) = None"
    and "existsWhere (\<lambda>x. a_id x = a) (apps (db w))"
  shows "\<exists>r w'. update_cron_job c k (only_app a) w = (Inr r, w') \<and> faults w' = [] \<and> k8s_calls w' = k8s_calls w
    \<and> k8s_reply w' = k8s_reply w \<and> clock w' = clock w \<and> ext w' = ext w
    \<and> (\<exists>js. db w' = (db w)\<lparr>cron_jobs := js\<rparr> \<and> (\<exists>j' \<in> set js. cj_id j' = k \<and> cj_workspace_id j' = ws
          \<and> cj_target_type j' = ''app'' \<and> cj_target_id j' = Some a \<and> cj_command j' = cj_command j))"
proof -
  have j: "j \<in> set (cron_jobs (db w))" "cj_id j = k" "cj_workspace_id j = ws"
    using firstWhere_Some [OF assms(3)] by auto
  let ?e = "edit_cron (only_app a) j"
  have e: "?e = j\<lparr>cj_app_id := Some a, cj_target_id := Some a\<rparr>"
    using assms(4) by (simp add: edit_cron_def only_app_def)
  define n where "n = (if cj_status j = CronActive then cron_next (ext w) (cj_schedule j) (clock w) else None)"
  have res: "reschedule (only_app a) ?e w = (Inr (?e\<lparr>cj_next_run_at := n\<rparr>), w)"
    unfolding e using assms(5) by (simp add: reschedule_def n_def parse_schedule_def next_run_def run_simps)
  let ?f = "\<lambda>x. x\<lparr>cj_name := cj_name j, cj_app_id := Some a, cj_target_id := Some a,
            cj_schedule := cj_schedule j, cj_command := cj_command j, cj_status := cj_status j,
            cj_next_run_at := n\<rparr>"
  let ?js = "updateWhere (\<lambda>x. cj_id x = k \<and> cj_workspace_id x = ws) ?f (cron_jobs (db w))"
  have mem: "?f j \<in> set ?js" using j by (force simp: set_updateWhere)
  let ?w = "w\<lparr>db := (db w)\<lparr>cron_jobs := ?js\<rparr>\<rparr>"
  have fk: "cj_app_id (?e\<lparr>cj_next_run_at := n\<rparr>) = Some a" using e by simp
  have ann: "\<exists>evs. announce_cron ws k ?w = (Inr (), ?w\<lparr>events := evs\<rparr>)"
    using assms(1) by (auto simp: announce_cron_def run_simps split: option.split intro: exI [of _ "events w"])
  then obtain evs where ann: "announce_cron ws k ?w = (Inr (), ?w\<lparr>events := evs\<rparr>)" by blast
  let ?v = "?w\<lparr>events := evs\<rparr>"
  have "\<exists>r. update_cron_job c k (only_app a) w = (Inr r, ?v)"
    using assms j ann
    by (simp add: update_cron_job_def active_workspace_def res [unfolded e] e optionally_def run_simps)
  then obtain r where run: "update_cron_job c k (only_app a) w = (Inr r, ?v)" by blast
  have db: "db ?v = (db w)\<lparr>cron_jobs := ?js\<rparr>" by simp
  have stored: "\<exists>j' \<in> set ?js. cj_id j' = k \<and> cj_workspace_id j' = ws \<and> cj_target_type j' = ''app''
      \<and> cj_target_id j' = Some a \<and> cj_command j' = cj_command j"
    by (rule bexI [OF _ mem]) (use j assms(4) in simp)
  show ?thesis
    using assms(1) by (intro exI [of _ r] exI [of _ ?v] conjI run exI [of _ ?js] db stored) simp_all
qed

lemma log_cron_calls:
  assumes "faults w = []"
  shows "k8s_calls (snd (log_cron j ws ec out t w)) = k8s_calls w"
  using assms by (simp add: log_cron_def run_simps Let_def split: option.split)

lemma run_k8s_job_calls:
  assumes "faults w = []" "\<forall>n e. k8s_reply w n \<noteq> Refused e"
  shows "\<exists>nm. k8s_calls (snd (run_k8s_job j ws ns img envs cmd t w)) = k8s_calls w @ [GetClient, RunJob ns nm img envs cmd]"
proof -
  let ?w = "w\<lparr>k8s_calls := k8s_calls w @ [GetClient]\<rparr>"
  have calls: "k8s_calls (snd (andThen (log_cron j ws ec out t) (\<lambda>_. ret y) v)) = k8s_calls v"
    if "faults v = []" for ec out v and y :: "unit + unit"
    using log_cron_calls [OF that, of j ws ec out t]
    by (cases "log_cron j ws ec out t v") (auto simp: andThen_def ret_def split: sum.split)
  show ?thesis
    using assms
    by (cases "k8s_reply w (length (k8s_calls w))"; cases "k8s_reply w (Suc (length (k8s_calls w)))")
      (auto simp: run_k8s_job_def cron_failed_def calls step_simps Let_def)
qed

lemma app_execution_calls:
  assumes "faults w = []" "\<forall>n e. k8s_reply w n \<noteq> Refused e"
    and "sort_key (\<lambda>ai. instance_rank (ai_instance_type ai)) (selectWhere (\<lambda>ai. ai_app_id ai = a) (app_instances (db w)))
      = ai # rest"
    and "resolve_cron_env k w = (Inr extra, w)" "resolve_instance_env (ai_id ai) w = (Inr base, w)"
  shows "\<exists>nm. k8s_calls (snd (execute_cron_job T k ws ''app'' (Some a) False cmd w)) = k8s_calls w @
    [GetClient, RunJob (ws_namespace ws) nm (instance_image T (ai_id ai) w) (merge_env base extra) cmd]"
proof -
  have "execute_cron_job T k ws ''app'' (Some a) False cmd w =
      run_k8s_job k ws (ws_namespace ws) (instance_image T (ai_id ai) w) (merge_env base extra) cmd (clock w) w"
    using assms(1,3)
    by (simp add: execute_cron_job_def run_app_cron_def step_simps
        andThen_run [where m = "resolve_cron_env k", OF assms(4)]
        andThen_run [where m = "resolve_instance_env (ai_id ai)", OF assms(5)])
  with run_k8s_job_calls [OF assms(1,2)] show ?thesis by simp
qed

text \<open>
  A job can be pointed at an application of another workspace: the update checks only
  that some application has the identifier. Its next execution then hands the caller's
  command, in the caller's own namespace, the image and the whole decrypted environment of
  the other workspace's instance.
\<close>

theorem job_reads_foreign_application:
  assumes "faults w = []" "\<forall>n e. k8s_reply w n \<noteq> Refused e" "c_current_workspace_id c = Some ws"
    and "firstWhere (\<lambda>x. cj_id x = k \<and> cj_workspace_id x = ws) (cron_jobs (db w)) = Some j"
    and "cj_target_type j = ''app''" "cron_error (ext w) (cj_schedule j) = None"
    and "a \<in> set (apps (db w))" "a_workspace_id a \<noteq> ws"
    and "sort_key (\<lambda>ai. instance_rank (ai_instance_type ai))
           (selectWhere (\<lambda>ai. ai_app_id ai = a_id a) (app_instances (db w))) = ai # rest"
    and "resolve_cron_env k w = (Inr extra, w)" "resolve_instance_env (ai_id ai) w = (Inr base, w)"
  shows "\<exists>r w1 nm img. update_cron_job c k (only_app (a_id a)) w = (Inr r, w1)
    \<and> (\<exists>j' \<in> set (cron_jobs (db w1)). cj_id j' = k \<and> cj_target_id j' = Some (a_id a) \<and> cj_command j' = cj_command j)
    \<and> k8s_calls (snd (execute_cron_job T k ws ''app'' (Some (a_id a)) False (cj_command j) w1)) =
        k8s_calls w @ [GetClient, RunJob (ws_namespace ws) nm img (merge_env base extra) (cj_command j)]"
proof -
  have ex: "existsWhere (\<lambda>x. a_id x = a_id a) (apps (db w))" using assms(7) by (auto simp: existsWhere_iff)
  obtain r w1 js where run: "update_cron_job c k (only_app (a_id a)) w = (Inr r, w1)"
    and w1: "faults w1 = []" "k8s_calls w1 = k8s_calls w" "k8s_reply w1 = k8s_reply w" "ext w1 = ext w"
    and d: "db w1 = (db w)\<lparr>cron_jobs := js\<rparr>"
    and j': "\<exists>j' \<in> set js. cj_id j' = k \<and> cj_workspace_id j' = ws
          \<and> cj_target_type j' = ''app'' \<and> cj_target_id j' = Some (a_id a) \<and> cj_command j' = cj_command j"
    using update_app_run [OF assms(1,3,4,5,6) ex] by blast
  have extra: "resolve_cron_env k w1 = (Inr extra, w1)"
    using assms(10) by (simp add: resolve_cron_env_run assms(1) w1 d cron_linked_vars_def)
  have base: "resolve_instance_env (ai_id ai) w1 = (Inr base, w1)"
    using assms(11) by (simp add: resolve_instance_env_run assms(1) w1 d linked_vars_def own_vars_def)
  have "\<exists>nm. k8s_calls (snd (execute_cron_job T k ws ''app'' (Some (a_id a)) False (cj_command j) w1)) = k8s_calls w1 @
    [GetClient, RunJob (ws_namespace ws) nm (instance_image T (ai_id ai) w1) (merge_env base extra) (cj_command j)]"
    by (rule app_execution_calls [OF w1(1) _ _ extra base]) (use assms(2,9) w1 d in simp_all)
  with run j' w1 d show ?thesis by auto
qed

text \<open>
  The token an execution on a bucket is given is not confined to the bucket's workspace: it
  is a super-administrator's.
\<close>

lemma storage_token_is_super_admin: "c_is_super_admin (storage_cron_claims b t)"
  by (simp add: storage_cron_claims_def)


section \<open>A concrete installation\<close>

definition sample_database :: database_service where
  "sample_database = \<lparr>ds_id = 30, ds_workspace_id = 7, ds_project_id = 3, ds_app_instance_id = None, ds_name = ''main'',
     ds_type = Postgres, ds_version = ''postgres:alpine'', ds_db_user = ''u'', ds_db_password = ''n#p'',
     ds_db_password_nonce = Some ''n'', ds_db_name = ''d'', ds_container_name = ''db-main'', ds_internal_port = 5432,
     ds_external_port = None, ds_is_external = False, ds_storage_size_gb = 1, ds_status = DbRunning,
     ds_cpu_limit = Some 100, ds_memory_limit_mb = Some 256, ds_backup_enabled = True, ds_backup_count = 3,
     ds_updated_at = 0\<rparr>"

definition sample_job :: cron_job where
  "sample_job = \<lparr>cj_id = 50, cj_workspace_id = 7, cj_project_id = 3, cj_app_id = Some 4, cj_target_type = ''app'',
     cj_target_id = Some 4, cj_is_backup = False, cj_name = ''nightly'', cj_schedule = ''0 * * * * *'',
     cj_command = ''env'', cj_status = CronActive, cj_next_run_at = Some 5, cj_created_at = 0\<rparr>"

definition sample_app :: "uuid \<Rightarrow> uuid \<Rightarrow> app" where
  "sample_app i ws = \<lparr>a_id = i, a_workspace_id = ws, a_project_id = 3, a_name = ''web'', a_slug = ''web'',
     a_git_repository = ''g'', a_build_command = None, a_start_command = None, a_git_subpath = None, a_git_credential_id = None,
     a_tcp_udp_ports = []\<rparr>"

definition sample_instance :: "uuid \<Rightarrow> uuid \<Rightarrow> app_instance" where
  "sample_instance i a = \<lparr>ai_id = i, ai_app_id = a, ai_branch_name = ''main'', ai_instance_type = Production,
       ai_status = Running, ai_internal_port = 3000, ai_external_port = None, ai_port_is_auto = True,
       ai_container_name = ''c'', ai_cpu_limit = Some 0, ai_memory_limit_mb = Some 0, ai_replicas_min = 1, ai_replicas_max = 1,
       ai_knative_enabled = False, ai_auto_sleep_enabled = False, ai_auto_sleep_after_minutes = 30, ai_health_check_path = None,
       ai_consecutive_health_failures = 0, ai_autoscale_cpu_percent = 80, ai_assigned_domain = None,
       ai_current_image_tag = None, ai_updated_at = 0, ai_network_alias = None, ai_env_seeded = False,
       ai_knative_scaling = (None, None, None), ai_github_webhook = None\<rparr>"

text \<open>Workspace 7 with a database, an application and a due job; workspace 8 with a secret.\<close>

definition cron_world :: world where
  "cron_world = base_world\<lparr>db := empty_db\<lparr>databases := [sample_database], apps := [sample_app 4 7, sample_app 14 8],
     app_instances := [sample_instance 15 14], cron_jobs := [sample_job],
     environment_variables := [\<lparr>ev_id = 40, ev_workspace_id = 8, ev_app_instance_id = 15, ev_key = ''KEY'',
       ev_encrypted_value = ''m#secret'', ev_nonce = ''m'', ev_is_secret = True\<rparr>]\<rparr>\<rparr>"

definition plain_tools :: cron_tools where
  "plain_tools = \<lparr>instance_image = (\<lambda>i w. ''img''), database_backup = (\<lambda>i c w. (Inl ''no pod'', w))\<rparr>"

lemma cron_world_fields:
  "faults cron_world = []" "databases (db cron_world) = [sample_database]" "cron_jobs (db cron_world) = [sample_job]"
  "apps (db cron_world) = [sample_app 4 7, sample_app 14 8]" "app_instances (db cron_world) = [sample_instance 15 14]"
  "ext cron_world = plain_ext" "clock cron_world = seconds 1000" "k8s_reply cron_world n = Accepted"
  "cron_job_logs (db cron_world) = []" "k8s_calls cron_world = []"
  by (simp_all add: cron_world_def base_world_def empty_db_def)

lemma quiet_plain_tools: "quiet (backup_run plain_tools i cmd)"
  by (simp add: quiet_def backup_run_def plain_tools_def)

theorem one_backup_job_per_database_witness:
  "countWhere (backup_job_of 30) (cron_jobs (db (snd (ensure_backup_cron 30 cron_world)))) = 1"
  using one_backup_job_per_database [of cron_world sample_database]
  by (simp add: cron_world_fields uniqueOn_def countWhere_def backup_job_of_def sample_job_def sample_database_def
      split: prod.splits)

theorem reconcile_restores_backup_jobs_witness:
  "\<exists>w' j. reconcile_backup_crons cron_world = (Inr (), w') \<and> j \<in> set (cron_jobs (db w')) \<and> backup_job_of 30 j"
  using reconcile_restores_backup_jobs [OF cron_world_fields(1)]
  by (fastforce simp: cron_world_fields existsWhere_iff sample_database_def)

theorem scheduler_tick_progress_witness:
  "\<exists>w' log. scheduler_tick plain_tools cron_world = (Inr (), w')
     \<and> map cj_next_run_at (cron_jobs (db w')) = [Some (seconds 1060)]
     \<and> cron_job_logs (db w') = [log] \<and> cl_cron_job_id log = 50"
proof -
  have due: "cron_due (seconds 1000) sample_job" by (simp add: cron_due_def sample_job_def seconds_def)
  have ok: "cron_error plain_ext (cj_schedule sample_job) = None" by (simp add: plain_ext_def sample_job_def)
  have nxt: "cron_next plain_ext s (seconds 1000) = Some (seconds 1060)" for s
    by (simp add: plain_ext_def seconds_def)
  have later: "seconds 1000 < seconds 1060" by (simp add: seconds_def)
  obtain w' logs where w': "scheduler_tick plain_tools cron_world = (Inr (), w')"
    "cron_jobs (db w') = [sample_job\<lparr>cj_next_run_at := Some (seconds 1060)\<rparr>]"
    "cron_job_logs (db w') = logs" "map cl_cron_job_id logs = [cj_id sample_job]"
    using scheduler_tick_progress [of plain_tools cron_world, OF quiet_plain_tools]
    by (auto simp: cron_world_fields uniqueOn_def due ok nxt later selectWhere_def)
  from w'(4) obtain log where "logs = [log]" "cl_cron_job_id log = 50" by (auto simp: sample_job_def)
  with w' show ?thesis by auto
qed

theorem cron_job_created_iff_acceptable_witness:
  "map cj_target_id (cron_jobs (db (snd (create_cron_job sample_claims \<lparr>cc_project_id = 3, cc_target_type = ''App'',
      cc_target_id = Some 4, cc_app_id = None, cc_name = ''n'', cc_schedule = ''* * * * *'', cc_command = ''ls'',
      cc_env_variables = None, cc_linked_project_env_ids = None\<rparr> cron_world)))) = [Some 4, Some 4]"
proof -
  let ?p = "\<lparr>cc_project_id = 3, cc_target_type = ''App'', cc_target_id = Some 4, cc_app_id = None, cc_name = ''n'',
      cc_schedule = ''* * * * *'', cc_command = ''ls'', cc_env_variables = None, cc_linked_project_env_ids = None\<rparr>"
  have low: "to_lowercase ''App'' = ''app''" by code_simp
  have sched: "normalize_schedule ''* * * * *'' = ''0 * * * * *''" by code_simp
  have "cron_request_ok sample_claims ?p cron_world"
    by (simp add: cron_request_ok_def sample_claims_def requested_target_def low sched target_exists_def existsWhere_def
        cron_world_fields sample_app_def plain_ext_def)
  with cron_job_created_iff_acceptable [OF cron_world_fields(1), of sample_claims ?p]
  show ?thesis by (auto simp: cron_world_fields requested_target_def sample_job_def split: prod.splits)
qed

theorem job_reads_foreign_application_witness:
  "\<exists>r w1 nm img env. update_cron_job sample_claims 50 (only_app 14) cron_world = (Inr r, w1)
     \<and> k8s_calls (snd (execute_cron_job plain_tools 50 7 ''app'' (Some 14) False ''env'' w1)) =
          [GetClient, RunJob (ws_namespace 7) nm img env ''env'']
     \<and> map_of env ''KEY'' = Some ''secret''"
proof -
  let ?base = "[(''KEY'', ''secret'')]"
  have extra: "resolve_cron_env 50 cron_world = (Inr [], cron_world)"
    by (simp add: resolve_cron_env_run cron_world_fields(1) cron_linked_vars_def selectWhere_def finalize_def)
      (simp add: cron_world_def base_world_def empty_db_def)
  have base: "resolve_instance_env (ai_id (sample_instance 15 14)) cron_world = (Inr ?base, cron_world)"
    by (simp add: resolve_instance_env_run cron_world_fields(1) linked_vars_def own_vars_def selectWhere_def finalize_def
        sample_instance_def)
      (simp add: cron_world_def base_world_def empty_db_def plain_ext_def sealed_ev_def starts_with_def)
  have merged: "map_of (merge_env ?base []) ''KEY'' = Some ''secret''" by (simp add: merge_env_def)
  have "\<exists>r w1 nm img. update_cron_job sample_claims 50 (only_app (a_id (sample_app 14 8))) cron_world = (Inr r, w1)
    \<and> (\<exists>j' \<in> set (cron_jobs (db w1)). cj_id j' = 50 \<and> cj_target_id j' = Some (a_id (sample_app 14 8))
        \<and> cj_command j' = cj_command sample_job)
    \<and> k8s_calls (snd (execute_cron_job plain_tools 50 7 ''app'' (Some (a_id (sample_app 14 8))) False (cj_command sample_job) w1)) =
        k8s_calls cron_world @ [GetClient, RunJob (ws_namespace 7) nm img (merge_env ?base []) (cj_command sample_job)]"
    by (rule job_reads_foreign_application [OF _ _ _ _ _ _ _ _ _ extra base])
      (simp_all add: cron_world_fields sample_claims_def sample_job_def sample_app_def sample_instance_def plain_ext_def
        firstWhere_def selectWhere_def)
  with merged show ?thesis by (auto simp: cron_world_fields sample_app_def sample_job_def)
qed

end
