(* ===== verification/Coordination.thy ===== *)
theory Coordination
  imports Hermes_World "HOL-Library.AList"
begin

text \<open>
  Coordination between replicas: \<open>utils/locks.rs\<close> (workspace lock, build slots and the shared
  fixed-window rate limit), \<open>utils/leader.rs\<close> (the leader lease) and \<open>utils/rate_limit.rs\<close>
  (the process-local sliding window). The interface of a mutual-exclusion lock is the locale
  \<open>exclusive_lock\<close>, interpreted on the advisory locks.
\<close>

section \<open>The interface of a lock\<close>

locale exclusive_lock =
  fixes ok :: "'s \<Rightarrow> bool"
    and owner :: "'s \<Rightarrow> 'k \<Rightarrow> 'h option"
    and grab :: "'h \<Rightarrow> 'k \<Rightarrow> 's \<Rightarrow> 's option"
    and drop_lock :: "'h \<Rightarrow> 'k \<Rightarrow> 's \<Rightarrow> 's"
  assumes grab_free: "owner s k = None \<Longrightarrow> \<exists>s'. grab h k s = Some s'"
    and grab_owner: "\<lbrakk>owner s k = None; grab h k s = Some s'\<rbrakk> \<Longrightarrow>
      owner s' = (owner s)(k \<mapsto> h) \<and> (ok s \<longrightarrow> ok s')"
    and grab_held: "\<lbrakk>owner s k = Some h'; h' \<noteq> h\<rbrakk> \<Longrightarrow> grab h k s = None"
    and drop_owner: "\<lbrakk>ok s; owner s k = Some h\<rbrakk> \<Longrightarrow>
      owner (drop_lock h k s) = (owner s)(k := None) \<and> ok (drop_lock h k s)"
begin

text \<open>A held key is refused to everybody else until its holder gives it back.\<close>

lemma no_second_holder:
  assumes "owner s k = None" "grab h k s = Some s'" "h' \<noteq> h"
  shows "grab h' k s' = None"
  using grab_held [of s' k h h'] grab_owner [OF assms(1,2)] assms(3) by simp

lemma grab_after_drop:
  assumes "ok s" "owner s k = Some h"
  shows "\<exists>s'. grab h' k (drop_lock h k s) = Some s' \<and> owner s' = (owner s)(k \<mapsto> h')"
proof -
  have free: "owner (drop_lock h k s) k = None" using drop_owner [OF assms] by simp
  obtain s' where s': "grab h' k (drop_lock h k s) = Some s'" using grab_free [OF free] by blast
  have "owner s' = (owner s)(k \<mapsto> h')" using grab_owner [OF free s'] drop_owner [OF assms] by simp
  with s' show ?thesis by blast
qed

text \<open>Trying the keys of a list in order.\<close>

primrec grab_any :: "'h \<Rightarrow> 'k list \<Rightarrow> 's \<Rightarrow> ('k \<times> 's) option" where
  "grab_any h [] s = None"
| "grab_any h (k # ks) s =
     (case grab h k s of Some s' \<Rightarrow> Some (k, s') | None \<Rightarrow> grab_any h ks s)"

lemma grab_any_free:
  assumes "\<And>k. owner s k \<noteq> Some h" "grab_any h ks s = Some (k, s')"
  shows "k \<in> set ks \<and> owner s k = None \<and> owner s' = (owner s)(k \<mapsto> h)"
  using assms(2)
proof (induction ks)
  case (Cons x xs)
  show ?case
  proof (cases "grab h x s")
    case None
    then show ?thesis using Cons by simp
  next
    case (Some s1)
    have "owner s x = None"
    proof (cases "owner s x")
      case (Some h')
      with assms(1) [of x] have "h' \<noteq> h" by blast
      from grab_held [OF Some this] \<open>grab h x s = Some s1\<close> show ?thesis by simp
    qed
    with Some Cons.prems grab_owner [OF this Some] show ?thesis by simp
  qed
qed simp

lemma grab_any_full: "grab_any h ks s = None \<Longrightarrow> \<forall>k \<in> set ks. owner s k \<noteq> None"
proof (induction ks)
  case (Cons x xs)
  then have "grab h x s = None" "grab_any h xs s = None" by (auto split: option.splits)
  with Cons.IH grab_free [of s x h] show ?case by auto
qed simp

end

section \<open>Advisory locks\<close>

text \<open>
  Session-level locks of Postgres. A session may take a lock it holds again; it must then
  give it back as many times.
\<close>

type_synonym lock_table = "lock_key \<Rightarrow> (session \<times> nat) option"

definition pg_try_lock :: "session \<Rightarrow> lock_key \<Rightarrow> lock_table \<Rightarrow> lock_table option" where
  "pg_try_lock s k t =
     (case t k of
        None \<Rightarrow> Some (t(k \<mapsto> (s, 1)))
      | Some (h, n) \<Rightarrow> (if h = s then Some (t(k \<mapsto> (s, Suc n))) else None))"

definition pg_unlock :: "session \<Rightarrow> lock_key \<Rightarrow> lock_table \<Rightarrow> lock_table" where
  "pg_unlock s k t =
     (case t k of
        Some (h, n) \<Rightarrow> (if h \<noteq> s then t else if n \<le> 1 then t(k := None) else t(k \<mapsto> (s, n - 1)))
      | None \<Rightarrow> t)"

definition lock_owner :: "lock_table \<Rightarrow> lock_key \<Rightarrow> session option" where
  "lock_owner t k = map_option fst (t k)"

text \<open>The code takes each lock on a connection of its own and once.\<close>

definition held_once :: "lock_table \<Rightarrow> bool" where
  "held_once t \<longleftrightarrow> (\<forall>k h n. t k = Some (h, n) \<longrightarrow> n = 1)"

lemma pg_unlock_once:
  assumes "held_once t" "lock_owner t k = Some h"
  shows "pg_unlock h k t = t(k := None)"
proof -
  from assms(2) obtain n where n: "t k = Some (h, n)" by (auto simp: lock_owner_def)
  with assms(1) have "n = 1" unfolding held_once_def by blast
  with n show ?thesis by (simp add: pg_unlock_def)
qed

interpretation advisory: exclusive_lock held_once lock_owner pg_try_lock pg_unlock
proof unfold_locales
  fix s :: lock_table and k and h h' :: session and s'
  show "lock_owner s k = None \<Longrightarrow> \<exists>s'. pg_try_lock h k s = Some s'"
    by (simp add: lock_owner_def pg_try_lock_def)
  show "lock_owner s' = (lock_owner s)(k \<mapsto> h) \<and> (held_once s \<longrightarrow> held_once s')"
    if free: "lock_owner s k = None" and grab: "pg_try_lock h k s = Some s'"
  proof -
    have "s k = None" using free by (simp add: lock_owner_def)
    with grab have s': "s' = s(k \<mapsto> (h, 1))" by (simp add: pg_try_lock_def)
    show ?thesis by (simp add: s' lock_owner_def held_once_def fun_eq_iff)
  qed
  show "\<lbrakk>lock_owner s k = Some h'; h' \<noteq> h\<rbrakk> \<Longrightarrow> pg_try_lock h k s = None"
    by (auto simp: lock_owner_def pg_try_lock_def)
  assume "held_once s" "lock_owner s k = Some h"
  from pg_unlock_once [OF this] \<open>held_once s\<close>
  show "lock_owner (pg_unlock h k s) = (lock_owner s)(k := None) \<and> held_once (pg_unlock h k s)"
    by (auto simp: lock_owner_def held_once_def fun_eq_iff)
qed

section \<open>The workspace lock\<close>

text \<open>\<open>as_bytes\<close> lists the bytes of an identifier from the most significant one.\<close>

definition uuid_byte :: "uuid \<Rightarrow> nat \<Rightarrow> int" where
  "uuid_byte u i = int (unat u div 256 ^ (15 - i) mod 256)"

definition workspace_key :: "uuid \<Rightarrow> int" where
  "workspace_key ws = i64 (\<Sum>i \<leftarrow> [0..<8]. uuid_byte ws i * 256 ^ i)"

text \<open>
  \<open>acquire_workspace_lock\<close> on the connection \<open>s\<close>: \<open>Inr False\<close> is the call still waiting in
  \<open>pg_advisory_lock\<close>. Taking a connection and the statement may each fail.
\<close>

definition pg_advisory_lock :: "session \<Rightarrow> lock_key \<Rightarrow> bool stmt" where
  "pg_advisory_lock s k w =
     (let w1 = w\<lparr>faults := tl (faults w)\<rparr> in
      if next_fails w then (Inl (OtherSqlx ''io''), w1)
      else (case pg_try_lock s k (advisory w) of
              None \<Rightarrow> (Inr False, w1)
            | Some t \<Rightarrow> (Inr True, w1\<lparr>advisory := t\<rparr>)))"

definition pool_acquire :: "unit stmt" where
  "pool_acquire = fetch (\<lambda>_. ())"

definition sqlx_text :: "sqlx_error \<Rightarrow> string" where
  "sqlx_text e = (case e of RowNotFound \<Rightarrow> ''no rows returned by a query that expected to return at least one row''
     | Database c _ \<Rightarrow> ''error returned from database: '' @ c | OtherSqlx t \<Rightarrow> t)"

definition acquire_workspace_lock :: "session \<Rightarrow> uuid \<Rightarrow> bool handler" where
  "acquire_workspace_lock s ws_id =
     (let key = workspace_key ws_id in
      andThen (mapErr (\<lambda>e. Infrastructure (''Failed to acquire lock connection: '' @ sqlx_text e)) pool_acquire) (\<lambda>_.
      mapErr (\<lambda>e. Infrastructure (''Failed to take workspace lock: '' @ sqlx_text e))
        (pg_advisory_lock s (BigKey key))))"

text \<open>Dropping the guard: the unlock statement, its failure ignored.\<close>

definition pg_advisory_unlock :: "session \<Rightarrow> lock_key \<Rightarrow> unit stmt" where
  "pg_advisory_unlock s k w =
     (let w1 = w\<lparr>faults := tl (faults w)\<rparr> in
      if next_fails w then (Inl (OtherSqlx ''io''), w1)
      else (Inr (), w1\<lparr>advisory := pg_unlock s k (advisory w)\<rparr>))"

definition drop_workspace_lock :: "session \<Rightarrow> uuid \<Rightarrow> unit handler" where
  "drop_workspace_lock s ws_id = discard (pg_advisory_unlock s (BigKey (workspace_key ws_id)))"

section \<open>Build slots\<close>

definition BUILD_LOCK_CLASS :: int where
  "BUILD_LOCK_CLASS = 7777"

primrec probe_slots :: "session \<Rightarrow> int list \<Rightarrow> int option handler" where
  "probe_slots s [] = ret None"
| "probe_slots s (slot # rest) =
     andThen (orElse (pg_advisory_lock s (PairKey BUILD_LOCK_CLASS slot)) False) (\<lambda>got.
       if got then ret (Some slot) else probe_slots s rest)"

text \<open>One turn of the loop of \<open>acquire_build_slot\<close>; the connection is let go when no slot is free.\<close>

definition build_slot_turn :: "session \<Rightarrow> int \<Rightarrow> int option handler" where
  "build_slot_turn s mx =
     andThen (attempt pool_acquire) (\<lambda>conn.
       case conn of Inl _ \<Rightarrow> ret None
       | Inr _ \<Rightarrow> probe_slots s [0..mx - 1])"

text \<open>
  The loop polls until a slot is free, which may be never: \<open>turns\<close> bounds how often; what the
  other sessions do between two turns is \<open>meanwhile\<close>.
\<close>

fun acquire_build_slot :: "nat \<Rightarrow> (world \<Rightarrow> world) \<Rightarrow> session \<Rightarrow> int \<Rightarrow> int option handler" where
  "acquire_build_slot 0 meanwhile s mx = ret None"
| "acquire_build_slot (Suc turns) meanwhile s mx =
     andThen (build_slot_turn s (max mx 1)) (\<lambda>got.
       case got of Some slot \<Rightarrow> ret (Some slot)
       | None \<Rightarrow> andThen (modifyState meanwhile) (\<lambda>_. acquire_build_slot turns meanwhile s mx))"

definition drop_build_slot :: "session \<Rightarrow> int \<Rightarrow> unit handler" where
  "drop_build_slot s slot = discard (pg_advisory_unlock s (PairKey BUILD_LOCK_CLASS slot))"

section \<open>The shared fixed-window rate limit\<close>

definition bump_counter :: "instant \<Rightarrow> int \<Rightarrow> rate_counter \<Rightarrow> rate_counter" where
  "bump_counter t window_secs r =
     (if rc_window_start r < t - seconds window_secs then r\<lparr>rc_count := 1, rc_window_start := t\<rparr>
      else r\<lparr>rc_count := rc_count r + 1\<rparr>)"

definition check_rate_limit :: "string \<Rightarrow> int \<Rightarrow> int \<Rightarrow> bool handler" where
  "check_rate_limit bucket mx window_secs =
     andThen (attempt (sql (\<lambda>w.
       case firstWhere (\<lambda>r. rc_bucket r = bucket) (rate_limit_counters (db w)) of
         None \<Rightarrow> Inr (1, (db w)\<lparr>rate_limit_counters := insertRow
           \<lparr>rc_bucket = bucket, rc_window_start = clock w, rc_count = 1\<rparr> (rate_limit_counters (db w))\<rparr>)
       | Some r \<Rightarrow>
           (let r' = bump_counter (clock w) window_secs r in
            if fits_i32 (rc_count r') then
              Inr (rc_count r', (db w)\<lparr>rate_limit_counters :=
                updateWhere (\<lambda>x. rc_bucket x = bucket) (\<lambda>_. r') (rate_limit_counters (db w))\<rparr>)
            else Inl (Database out_of_range None))))) (\<lambda>count.
     case count of Inr c \<Rightarrow> ret (c \<le> mx) | Inl _ \<Rightarrow> ret True)"

section \<open>The leader lease\<close>

definition LEASE_TTL :: int where
  "LEASE_TTL = seconds 30"

definition RENEW_EVERY :: int where
  "RENEW_EVERY = seconds 10"

text \<open>One turn of the elector: what \<open>IS_LEADER\<close> is set to.\<close>

definition elect_turn :: "uuid \<Rightarrow> bool handler" where
  "elect_turn node_id =
     andThen (attempt (sql (\<lambda>w.
       let mine = \<lparr>ll_holder = node_id, ll_expires_at = clock w + LEASE_TTL\<rparr> in
       case leader_lease (db w) of
         None \<Rightarrow> Inr (Some True, (db w)\<lparr>leader_lease := Some mine\<rparr>)
       | Some l \<Rightarrow>
           (if ll_holder l = node_id \<or> ll_expires_at l < clock w
            then Inr (Some True, (db w)\<lparr>leader_lease := Some mine\<rparr>)
            else Inr (None, db w))))) (\<lambda>r.
     case r of Inl _ \<Rightarrow> ret False | Inr None \<Rightarrow> ret False | Inr (Some b) \<Rightarrow> ret b)"

section \<open>The process-local sliding window\<close>

record rate_limiter =
  rl_inner :: "(string \<times> instant list) list"
  rl_max_attempts :: nat
  rl_window :: int

definition new_limiter :: "nat \<Rightarrow> int \<Rightarrow> rate_limiter" where
  "new_limiter max_attempts window =
     \<lparr>rl_inner = [], rl_max_attempts = max_attempts, rl_window = window\<rparr>"

definition sweep :: "instant \<Rightarrow> int \<Rightarrow> (string \<times> instant list) list \<Rightarrow> (string \<times> instant list) list" where
  "sweep t window m =
     (if length m > 10000 then filter (\<lambda>(_, hits). list_ex (\<lambda>h. t - h < window) hits) m else m)"

definition hits_of :: "(string \<times> instant list) list \<Rightarrow> string \<Rightarrow> instant list" where
  "hits_of m key = (case map_of m key of None \<Rightarrow> [] | Some hits \<Rightarrow> hits)"

definition check :: "string \<Rightarrow> instant \<Rightarrow> rate_limiter \<Rightarrow> bool \<times> rate_limiter" where
  "check key t rl =
     (let m = sweep t (rl_window rl) (rl_inner rl);
          hits = filter (\<lambda>h. t - h < rl_window rl) (hits_of m key)
      in if rl_max_attempts rl \<le> length hits then (False, rl\<lparr>rl_inner := AList.update key hits m\<rparr>)
         else (True, rl\<lparr>rl_inner := AList.update key (hits @ [t]) m\<rparr>))"

section \<open>The locks exclude each other\<close>

lemma pg_advisory_lock_run:
  "faults w = [] \<Longrightarrow> pg_advisory_lock s k w =
     (case pg_try_lock s k (advisory w) of None \<Rightarrow> (Inr False, w) | Some t \<Rightarrow> (Inr True, w\<lparr>advisory := t\<rparr>))"
  by (simp add: pg_advisory_lock_def Let_def split: option.split)

lemma acquire_workspace_lock_run:
  "faults w = [] \<Longrightarrow> acquire_workspace_lock s ws w =
     (case pg_try_lock s (BigKey (workspace_key ws)) (advisory w) of
        None \<Rightarrow> (Inr False, w) | Some t \<Rightarrow> (Inr True, w\<lparr>advisory := t\<rparr>))"
  by (simp add: acquire_workspace_lock_def pool_acquire_def act_simps pg_advisory_lock_run Let_def
      split: option.split)

definition holds_workspace :: "session \<Rightarrow> uuid \<Rightarrow> world \<Rightarrow> bool" where
  "holds_workspace s ws w \<longleftrightarrow> lock_owner (advisory w) (BigKey (workspace_key ws)) = Some s"

text \<open>
  C14. A workspace lock is exclusive: while one session holds it every other session that
  asks keeps waiting, nobody else's lock changes when it is taken, and once it is dropped
  the next session gets it.
\<close>

theorem workspace_lock_excludes:
  assumes "faults w = []" "held_once (advisory w)" "holds_workspace s ws w" "s' \<noteq> s"
  shows "acquire_workspace_lock s' ws w = (Inr False, w)
    \<and> (\<exists>w'. acquire_workspace_lock s' ws (snd (drop_workspace_lock s ws w)) = (Inr True, w')
         \<and> holds_workspace s' ws w' \<and> db w' = db w
         \<and> (\<forall>k. k \<noteq> BigKey (workspace_key ws) \<longrightarrow>
              lock_owner (advisory w') k = lock_owner (advisory w) k))"
proof -
  let ?k = "BigKey (workspace_key ws)"
  have owner: "lock_owner (advisory w) ?k = Some s" using assms(3) by (simp add: holds_workspace_def)
  have wait: "acquire_workspace_lock s' ws w = (Inr False, w)"
    using advisory.grab_held [OF owner, of s'] assms(1,4) by (simp add: acquire_workspace_lock_run)
  obtain t where t: "pg_try_lock s' ?k (pg_unlock s ?k (advisory w)) = Some t"
    "lock_owner t = (lock_owner (advisory w))(?k \<mapsto> s')"
    using advisory.grab_after_drop [OF assms(2) owner, of s'] by blast
  have "snd (drop_workspace_lock s ws w) = w\<lparr>advisory := pg_unlock s ?k (advisory w)\<rparr>"
    using assms(1) by (simp add: drop_workspace_lock_def pg_advisory_unlock_def discard_def)
  then have "acquire_workspace_lock s' ws (snd (drop_workspace_lock s ws w)) = (Inr True, w\<lparr>advisory := t\<rparr>)"
    using assms(1) t(1) by (simp add: acquire_workspace_lock_run)
  with wait t(2) show ?thesis by (auto simp: holds_workspace_def)
qed

theorem workspace_lock_excludes_witness:
  "acquire_workspace_lock 2 7 (base_world\<lparr>advisory := [BigKey (workspace_key 7) \<mapsto> (1, 1)]\<rparr>)
     = (Inr False, base_world\<lparr>advisory := [BigKey (workspace_key 7) \<mapsto> (1, 1)]\<rparr>)"
  using workspace_lock_excludes [of "base_world\<lparr>advisory := [BigKey (workspace_key 7) \<mapsto> (1, 1)]\<rparr>" 1 7 2]
  by (simp add: base_world_def held_once_def holds_workspace_def lock_owner_def)

lemma probe_slots_run:
  assumes "faults w = []"
  shows "probe_slots s slots w =
     (case advisory.grab_any s (map (PairKey BUILD_LOCK_CLASS) slots) (advisory w) of
        None \<Rightarrow> (Inr None, w)
      | Some (k, t) \<Rightarrow> (Inr (Some (THE i. k = PairKey BUILD_LOCK_CLASS i)), w\<lparr>advisory := t\<rparr>))"
  using assms
proof (induction slots)
  case (Cons x xs)
  then show ?case
    by (cases "pg_try_lock s (PairKey BUILD_LOCK_CLASS x) (advisory w)")
      (simp_all add: act_simps pg_advisory_lock_run)
qed (simp add: act_simps)

definition builds_running :: "int \<Rightarrow> world \<Rightarrow> session set" where
  "builds_running mx w =
     {s. \<exists>i \<in> {0..<mx}. lock_owner (advisory w) (PairKey BUILD_LOCK_CLASS i) = Some s}"

lemma card_builds_running: "card (builds_running mx w) \<le> nat mx"
proof -
  let ?f = "\<lambda>i. the (lock_owner (advisory w) (PairKey BUILD_LOCK_CLASS i))"
  have "builds_running mx w \<subseteq> ?f ` {0..<mx}" by (force simp: builds_running_def)
  then have "card (builds_running mx w) \<le> card (?f ` {0..<mx})" by (rule card_mono [rotated]) simp
  also have "\<dots> \<le> card {0..<mx}" by (rule card_image_le) simp
  finally show ?thesis by simp
qed



section \<open>The fixed window counts\<close>

text \<open>Attempts at the given instants, one after the other.\<close>

primrec attempts_at :: "string \<Rightarrow> int \<Rightarrow> int \<Rightarrow> instant list \<Rightarrow> world \<Rightarrow> bool list \<times> world" where
  "attempts_at bucket mx window [] w = ([], w)"
| "attempts_at bucket mx window (t # ts) w =
     (case check_rate_limit bucket mx window (w\<lparr>clock := t\<rparr>) of
        (r, w') \<Rightarrow> (case attempts_at bucket mx window ts w' of
           (bs, w'') \<Rightarrow> ((r = Inr True) # bs, w'')))"

definition counter_of :: "string \<Rightarrow> world \<Rightarrow> (instant \<times> int) option" where
  "counter_of bucket w =
     map_option (\<lambda>r. (rc_window_start r, rc_count r))
       (firstWhere (\<lambda>r. rc_bucket r = bucket) (rate_limit_counters (db w)))"

lemma firstWhere_update_same:
  assumes "firstWhere p t = Some r" "p (f r)" "\<And>x. p x \<Longrightarrow> p (f x)"
  shows "firstWhere p (updateWhere p f t) = Some (f r)"
  using assms by (induction t) (auto simp: firstWhere_def updateWhere_def split: if_splits)

lemma firstWhere_insertRow:
  "firstWhere p (insertRow r t) = (case firstWhere p t of None \<Rightarrow> if p r then Some r else None | Some x \<Rightarrow> Some x)"
  by (induction t) (auto simp: firstWhere_def insertRow_def)

lemma check_rate_limit_next:
  assumes "faults w = []" "counter_of b w = Some (s, c)" "clock w \<le> s + seconds window" "fits_i32 (c + 1)"
  shows "\<exists>w'. check_rate_limit b mx window w = (Inr (c + 1 \<le> mx), w') \<and> faults w' = []
    \<and> counter_of b w' = Some (s, c + 1)"
proof -
  obtain r where r: "firstWhere (\<lambda>r. rc_bucket r = b) (rate_limit_counters (db w)) = Some r"
    "rc_window_start r = s" "rc_count r = c" using assms(2) by (auto simp: counter_of_def)
  let ?r' = "bump_counter (clock w) window r"
  have r': "?r' = r\<lparr>rc_count := c + 1\<rparr>" using assms(3) r(2,3) by (simp add: bump_counter_def)
  have "rc_bucket ?r' = b" using firstWhere_Some [OF r(1)] by (simp add: r')
  then have "firstWhere (\<lambda>r. rc_bucket r = b)
      (updateWhere (\<lambda>r. rc_bucket r = b) (\<lambda>_. ?r') (rate_limit_counters (db w))) = Some ?r'"
    by (intro firstWhere_update_same [OF r(1)])
  then show ?thesis
    using assms(1,4) r by (simp add: check_rate_limit_def run_simps sql_ok Let_def r' counter_of_def)
qed

lemma check_rate_limit_first:
  assumes "faults w = []" "counter_of b w = None"
  shows "\<exists>w'. check_rate_limit b mx window w = (Inr (1 \<le> mx), w') \<and> faults w' = []
    \<and> counter_of b w' = Some (clock w, 1)"
  using assms by (simp add: check_rate_limit_def run_simps sql_ok counter_of_def firstWhere_insertRow)

lemma attempts_at_run:
  assumes "faults w = []" "counter_of b w = Some (s, int c)"
    "\<forall>t \<in> set ts. t \<le> s + seconds window" "fits_i32 (int (c + length ts))"
  shows "fst (attempts_at b mx window ts w) = map (\<lambda>i. int (c + Suc i) \<le> mx) [0..<length ts]"
  using assms
proof (induction ts arbitrary: w c)
  case (Cons t ts)
  let ?w = "w\<lparr>clock := t\<rparr>"
  have "fits_i32 (int c + 1)" using Cons.prems(4) by (simp add: fits_i32_def)
  moreover have "counter_of b ?w = Some (s, int c)" using Cons.prems(2) by (simp add: counter_of_def)
  ultimately obtain w' where w': "check_rate_limit b mx window ?w = (Inr (int c + 1 \<le> mx), w')"
    "faults w' = []" "counter_of b w' = Some (s, int (Suc c))"
    using check_rate_limit_next [of ?w b s "int c" window mx] Cons.prems(1,3) by (auto simp: add.commute)
  have "fst (attempts_at b mx window ts w') = map (\<lambda>i. int (Suc c + Suc i) \<le> mx) [0..<length ts]"
    using Cons.prems(3,4) by (intro Cons.IH [OF w'(2,3)]) simp_all
  moreover have "[0..<length (t # ts)] = 0 # map Suc [0..<length ts]"
    by (simp add: upt_conv_Cons map_Suc_upt del: upt_Suc)
  ultimately show ?case
    using w'(1) by (cases "attempts_at b mx window ts w'") (auto simp: comp_def add.commute)
qed simp

text \<open>
  Within one window of a bucket exactly the first \<open>mx\<close> attempts are allowed, over all
  replicas together, because they share the counter: the window starts with the first
  attempt and the count goes on through refused attempts.
\<close>

theorem rate_limit_allows_first_attempts:
  assumes "faults w = []" "counter_of b w = None" "\<forall>u \<in> set ts. u \<le> t + seconds window"
    "fits_i32 (int (length (t # ts)))"
  shows "fst (attempts_at b mx window (t # ts) w) = map (\<lambda>i. int i < mx) [0..<length (t # ts)]"
proof -
  let ?w = "w\<lparr>clock := t\<rparr>"
  have "counter_of b ?w = None" using assms(2) by (simp add: counter_of_def)
  then obtain w' where w': "check_rate_limit b mx window ?w = (Inr (1 \<le> mx), w')" "faults w' = []"
    "counter_of b w' = Some (t, int 1)" using check_rate_limit_first [of ?w b mx window] assms(1) by auto
  have "fst (attempts_at b mx window ts w') = map (\<lambda>i. int (1 + Suc i) \<le> mx) [0..<length ts]"
    using assms(3,4) by (intro attempts_at_run [OF w'(2,3)]) simp_all
  moreover have "[0..<length (t # ts)] = 0 # map Suc [0..<length ts]"
    by (simp add: upt_conv_Cons map_Suc_upt del: upt_Suc)
  moreover have "(int (1 + Suc i) \<le> mx) = (int (Suc i) < mx)" for i by auto
  ultimately show ?thesis
    using w'(1) by (auto simp: comp_def split: prod.splits)
qed

theorem rate_limit_allows_first_attempts_witness:
  "fst (attempts_at ''login:ip'' 2 300 [0, 1, 2, seconds 300] base_world) = [True, True, False, False]"
  using rate_limit_allows_first_attempts [of base_world "''login:ip''" "[1, 2, seconds 300]" 0 300 2]
  by (simp add: base_world_def counter_of_def empty_db_def firstWhere_def fits_i32_def seconds_def upt_rec)

section \<open>At most one leader\<close>

text \<open>
  The replicas: each has its flag \<open>IS_LEADER\<close> and, while it is set, the instant the lease was
  last won. A replica may die and lose its flag. Time passes no further than every flagged
  replica still renews before its lease runs out: \<open>LEASE_TTL\<close> against \<open>RENEW_EVERY\<close>.
\<close>

record lead_state =
  ld_world :: world
  ld_flag :: "uuid \<Rightarrow> instant option"

inductive lead_step :: "lead_state \<Rightarrow> lead_state \<Rightarrow> bool" where
  tick: "elect_turn n (ld_world s) = (Inr won, w) \<Longrightarrow>
    lead_step s \<lparr>ld_world = w, ld_flag = (ld_flag s)(n := if won then Some (clock w) else None)\<rparr>"
| die: "lead_step s (s\<lparr>ld_flag := (ld_flag s)(n := None)\<rparr>)"
| pass: "\<lbrakk>0 \<le> d; \<And>n t. ld_flag s n = Some t \<Longrightarrow> clock (ld_world s) + d \<le> t + LEASE_TTL\<rbrakk> \<Longrightarrow>
    lead_step s (s\<lparr>ld_world := (ld_world s)\<lparr>clock := clock (ld_world s) + d\<rparr>\<rparr>)"

inductive lead_reach :: "lead_state \<Rightarrow> lead_state \<Rightarrow> bool" where
  start: "lead_reach s s"
| steps: "\<lbrakk>lead_reach s t; lead_step t u\<rbrakk> \<Longrightarrow> lead_reach s u"

inductive_cases lead_stepE: "lead_step s t"

definition lead_inv :: "lead_state \<Rightarrow> bool" where
  "lead_inv s \<longleftrightarrow> (\<forall>n t. ld_flag s n = Some t \<longrightarrow>
     clock (ld_world s) \<le> t + LEASE_TTL
     \<and> leader_lease (db (ld_world s)) = Some \<lparr>ll_holder = n, ll_expires_at = t + LEASE_TTL\<rparr>)"

lemma elect_turn_cases:
  assumes "elect_turn n w = (Inr won, w')"
  shows "clock w' = clock w \<and>
    (if won then leader_lease (db w') = Some \<lparr>ll_holder = n, ll_expires_at = clock w + LEASE_TTL\<rparr>
         \<and> (\<forall>l. leader_lease (db w) = Some l \<longrightarrow> ll_holder l = n \<or> ll_expires_at l < clock w)
     else leader_lease (db w') = leader_lease (db w))"
  using assms
  by (auto simp: elect_turn_def act_defs sql_def Let_def split: if_splits option.splits sum.splits prod.splits)

lemma lead_inv_step: "lead_step s t \<Longrightarrow> lead_inv s \<Longrightarrow> lead_inv t"
proof (induction rule: lead_step.induct)
  case (tick n s won w)
  note e = elect_turn_cases [OF tick(1)]
  show ?case
  proof (cases won)
    case False
    with e tick(2) show ?thesis by (simp add: lead_inv_def)
  next
    case True
    have "ld_flag s m = None" if "m \<noteq> n" for m
    proof (cases "ld_flag s m")
      case (Some t)
      with tick(2) have "clock (ld_world s) \<le> t + LEASE_TTL"
        "leader_lease (db (ld_world s)) = Some \<lparr>ll_holder = m, ll_expires_at = t + LEASE_TTL\<rparr>"
        by (simp_all add: lead_inv_def)
      with e True that show ?thesis by auto
    qed simp
    with e True show ?thesis by (simp add: lead_inv_def LEASE_TTL_def seconds_def)
  qed
next
  case (die s n)
  then show ?case by (simp add: lead_inv_def)
next
  case (pass d s)
  then show ?case by (simp add: lead_inv_def)
qed

lemma lead_inv_reach: "lead_reach s t \<Longrightarrow> lead_inv s \<Longrightarrow> lead_inv t"
  by (induction rule: lead_reach.induct) (auto dest: lead_inv_step)

text \<open>
  C16. As long as a leader's loop comes round within the life of its lease, no two replicas
  believe they are the leader at the same time, through elections, failed renewals and
  deaths in any order; and the replica that believes it holds the lease.
\<close>

theorem at_most_one_leader:
  assumes "ld_flag s = (\<lambda>_. None)" "lead_reach s t"
  shows "(ld_flag t m = Some a \<and> ld_flag t n = Some b \<longrightarrow> m = n)
    \<and> (ld_flag t m = Some a \<longrightarrow> leader_lease (db (ld_world t)) = Some \<lparr>ll_holder = m, ll_expires_at = a + LEASE_TTL\<rparr>)"
proof -
  have "lead_inv s" using assms(1) by (simp add: lead_inv_def)
  with assms(2) have "lead_inv t" by (rule lead_inv_reach)
  then have lease: "leader_lease (db (ld_world t)) = Some \<lparr>ll_holder = n, ll_expires_at = b + LEASE_TTL\<rparr>"
    if "ld_flag t n = Some b" for n b using that by (simp add: lead_inv_def)
  show ?thesis
  proof (intro conjI impI)
    assume "ld_flag t m = Some a \<and> ld_flag t n = Some b"
    then show "m = n" using lease [of m a] lease [of n b] by simp
  qed (rule lease)
qed

theorem at_most_one_leader_witness:
  "\<exists>t. lead_reach \<lparr>ld_world = base_world, ld_flag = (\<lambda>_. None)\<rparr> t \<and> ld_flag t 4 \<noteq> None
     \<and> leader_lease (db (ld_world t)) \<noteq> None"
proof -
  let ?s = "\<lparr>ld_world = base_world, ld_flag = (\<lambda>_. None)\<rparr> :: lead_state"
  obtain w where w: "elect_turn 4 (ld_world ?s) = (Inr True, w)"
    by (simp add: elect_turn_def act_defs sql_ok base_world_def empty_db_def Let_def)
  let ?t = "\<lparr>ld_world = w, ld_flag = (ld_flag ?s)(4 := if True then Some (clock w) else None)\<rparr>"
  have reach: "lead_reach ?s ?t" by (rule lead_reach.steps [OF lead_reach.start lead_step.tick [OF w]])
  from at_most_one_leader [OF _ this, of 4 "clock w"] show ?thesis
    by (intro exI [of _ ?t]) (use reach in simp)
qed

section \<open>The sliding window\<close>

text \<open>A run of attempts, each with its key and instant; the allowed instants of a key.\<close>

primrec check_all :: "(string \<times> instant) list \<Rightarrow> rate_limiter \<Rightarrow> bool list \<times> rate_limiter" where
  "check_all [] rl = ([], rl)"
| "check_all (a # as) rl =
     (case check (fst a) (snd a) rl of (b, rl1) \<Rightarrow>
        (case check_all as rl1 of (bs, rl2) \<Rightarrow> (b # bs, rl2)))"

definition allowed :: "string \<Rightarrow> (string \<times> instant) list \<Rightarrow> bool list \<Rightarrow> instant list" where
  "allowed k as bs = map (snd \<circ> fst) (filter (\<lambda>(a, b). fst a = k \<and> b) (zip as bs))"

definition in_window :: "int \<Rightarrow> instant \<Rightarrow> instant \<Rightarrow> bool" where
  "in_window W t h \<longleftrightarrow> t - h < W \<and> h \<le> t"

text \<open>
  The invariant at instant \<open>t\<close>: \<open>H\<close> gives the allowed instants of each key so far; the table
  remembers those still inside the window, and no window holds more than the limit.
\<close>

definition limiter_inv :: "instant \<Rightarrow> (string \<Rightarrow> instant list) \<Rightarrow> rate_limiter \<Rightarrow> bool" where
  "limiter_inv t H rl \<longleftrightarrow>
     distinct (map fst (rl_inner rl)) \<and>
     (\<forall>k. (\<forall>h \<in> set (H k). h \<le> t)
       \<and> filter (\<lambda>h. t - h < rl_window rl) (hits_of (rl_inner rl) k) = filter (\<lambda>h. t - h < rl_window rl) (H k)
       \<and> (\<forall>u. length (filter (in_window (rl_window rl) u) (H k)) \<le> rl_max_attempts rl))"

lemma filter_later:
  fixes t u :: int
  assumes "t \<le> u" "filter (\<lambda>h. t - h < W) xs = filter (\<lambda>h. t - h < W) ys"
  shows "filter (\<lambda>h. u - h < W) xs = filter (\<lambda>h. u - h < W) ys"
proof -
  have "filter (\<lambda>h. u - h < W) zs = filter (\<lambda>h. u - h < W) (filter (\<lambda>h. t - h < W) zs)" for zs
    unfolding filter_filter by (rule filter_cong [OF refl]) (use assms(1) in linarith)
  then show ?thesis using assms(2) by metis
qed

lemma hits_of_sweep:
  assumes "distinct (map fst m)"
  shows "filter (\<lambda>h. t - h < W) (hits_of (sweep t W m) k) = filter (\<lambda>h. t - h < W) (hits_of m k)
    \<and> distinct (map fst (sweep t W m))"
proof -
  let ?live = "\<lambda>(_, hits). list_ex (\<lambda>h. t - h < W) hits"
  have gone: "map_of (filter ?live m) k = None" if "map_of m k = None"
    using that by (auto simp: map_of_eq_None_iff)
  have kept: "map_of (filter ?live m) k = (if list_ex (\<lambda>h. t - h < W) hits then Some hits else None)"
    if h: "map_of m k = Some hits" for hits
  proof (cases "list_ex (\<lambda>h. t - h < W) hits")
    case True
    have "(k, hits) \<in> set (filter ?live m)" using map_of_SomeD [OF h] True by simp
    moreover have "distinct (map fst (filter ?live m))" using assms by (rule distinct_map_filter)
    ultimately show ?thesis using True by simp
  next
    case False
    have "(k, hs) \<notin> set (filter ?live m)" for hs
      using eq_key_imp_eq_value [OF assms, of k hs hits] map_of_SomeD [OF h] False by auto
    then have "map_of (filter ?live m) k = None" by (force simp: map_of_eq_None_iff)
    with False show ?thesis by simp
  qed
  have "filter (\<lambda>h. t - h < W) hits = []" if "\<not> list_ex (\<lambda>h. t - h < W) hits" for hits
    using that by (simp add: list_ex_iff filter_empty_conv)
  then have "filter (\<lambda>h. t - h < W) (hits_of (filter ?live m) k) = filter (\<lambda>h. t - h < W) (hits_of m k)"
    using gone kept by (cases "map_of m k") (simp_all add: hits_of_def)
  with assms show ?thesis by (simp add: sweep_def distinct_map_filter)
qed

lemma limiter_inv_check:
  assumes "limiter_inv t H rl" "t \<le> u" "check k u rl = (b, rl')"
  shows "limiter_inv u (if b then H(k := H k @ [u]) else H) rl'
    \<and> rl_window rl' = rl_window rl \<and> rl_max_attempts rl' = rl_max_attempts rl"
proof -
  let ?W = "rl_window rl" and ?m = "sweep u (rl_window rl) (rl_inner rl)"
  let ?hits = "filter (\<lambda>h. u - h < ?W) (hits_of ?m k)"
  note sw = hits_of_sweep [of "rl_inner rl" u ?W]
  have d: "distinct (map fst (rl_inner rl))" using assms(1) by (simp add: limiter_inv_def)
  have live: "filter (\<lambda>h. u - h < ?W) (hits_of ?m x) = filter (\<lambda>h. u - h < ?W) (H x)" for x
  proof -
    have "filter (\<lambda>h. t - h < ?W) (hits_of (rl_inner rl) x) = filter (\<lambda>h. t - h < ?W) (H x)"
      using assms(1) unfolding limiter_inv_def by blast
    from filter_later [OF assms(2) this] sw [OF d, of x] show ?thesis by metis
  qed
  have "\<forall>h \<in> set (H x). h \<le> t" for x using assms(1) unfolding limiter_inv_def by blast
  then have old1: "\<forall>h \<in> set (H x). h \<le> u" for x using assms(2) by (meson order_trans)
  have old2: "length (filter (in_window ?W v) (H x)) \<le> rl_max_attempts rl" for x v
    using assms(1) unfolding limiter_inv_def by blast
  note old = old1 old2
  have upd: "hits_of (AList.update k hs ?m) x = (if x = k then hs else hits_of ?m x)" for hs x
    by (simp add: hits_of_def update_conv')
  have dist: "distinct (map fst (AList.update k hs ?m))" for hs
    using sw [OF d] by (simp add: distinct_update)
  show ?thesis
  proof (cases "rl_max_attempts rl \<le> length ?hits")
    case True
    then have "\<not> b" "rl' = rl\<lparr>rl_inner := AList.update k ?hits ?m\<rparr>"
      using assms(3) by (auto simp: check_def Let_def)
    then show ?thesis using old live dist by (simp add: limiter_inv_def upd)
  next
    case False
    then have b: "b" "rl' = rl\<lparr>rl_inner := AList.update k (?hits @ [u]) ?m\<rparr>"
      using assms(3) by (auto simp: check_def Let_def)
    have "length (filter (in_window ?W v) (H k @ [u])) \<le> rl_max_attempts rl" for v
    proof (cases "in_window ?W v u")
      case True
      then have "length (filter (in_window ?W v) (H k)) \<le> length (filter (\<lambda>h. u - h < ?W) (H k))"
        by (intro length_filter_mono ballI) (use old(1) in \<open>auto simp: in_window_def\<close>)
      with False live [of k] True show ?thesis by simp
    qed (simp add: old(2))
    with b old live dist show ?thesis by (simp add: limiter_inv_def upd)
  qed
qed

lemma limiter_inv_run:
  assumes "limiter_inv t H rl" "sorted (t # map snd as)"
  shows "limiter_inv (last (t # map snd as)) (\<lambda>k. H k @ allowed k as (fst (check_all as rl))) (snd (check_all as rl))
    \<and> rl_window (snd (check_all as rl)) = rl_window rl \<and> rl_max_attempts (snd (check_all as rl)) = rl_max_attempts rl"
  using assms
proof (induction "as" arbitrary: t H rl)
  case Nil
  then show ?case by (simp add: allowed_def)
next
  case (Cons a "as")
  obtain k u where a: "a = (k, u)" by fastforce
  obtain b rl1 where c: "check k u rl = (b, rl1)" by fastforce
  obtain bs rl2 where r: "check_all as rl1 = (bs, rl2)" by fastforce
  let ?H = "if b then H(k := H k @ [u]) else H"
  have tu: "t \<le> u" "sorted (u # map snd as)" using Cons.prems(2) by (simp_all add: a)
  note i = limiter_inv_check [OF Cons.prems(1) tu(1) c]
  note IH = Cons.IH [OF conjunct1 [OF i] tu(2), unfolded r, simplified]
  have "?H x @ allowed x as bs = H x @ allowed x (a # as) (b # bs)" for x
    by (simp add: allowed_def a)
  then have "(\<lambda>x. ?H x @ allowed x as bs) = (\<lambda>x. H x @ allowed x (a # as) (b # bs))" by blast
  then show ?case using IH i by (simp add: a c r)
qed

text \<open>
  However the attempts of all keys are spread in time, no window of the limiter's
  length contains more than \<open>max_attempts\<close> allowed attempts of one key, the sweep of old
  entries included.
\<close>

theorem sliding_window_limit:
  assumes "sorted (map snd as)"
  shows "length (filter (in_window W u) (allowed k as (fst (check_all as (new_limiter mx W))))) \<le> mx"
proof (cases "as")
  case (Cons a rest)
  have "limiter_inv (snd a) (\<lambda>_. []) (new_limiter mx W)"
    by (simp add: limiter_inv_def new_limiter_def hits_of_def)
  moreover have "sorted (snd a # map snd as)" using assms Cons by auto
  ultimately have "limiter_inv (last (snd a # map snd as)) (\<lambda>k. [] @ allowed k as (fst (check_all as (new_limiter mx W))))
      (snd (check_all as (new_limiter mx W)))" "rl_window (snd (check_all as (new_limiter mx W))) = W"
      "rl_max_attempts (snd (check_all as (new_limiter mx W))) = mx"
    using limiter_inv_run [of "snd a" "\<lambda>_. []" "new_limiter mx W" "as"] by (simp_all add: new_limiter_def)
  then show ?thesis unfolding limiter_inv_def by (metis append_Nil)
qed (simp add: allowed_def)

theorem sliding_window_limit_witness:
  "length (filter (in_window 60 5) (allowed ''ip'' [(''ip'', 1), (''ip'', 2), (''ip'', 3)]
     (fst (check_all [(''ip'', 1), (''ip'', 2), (''ip'', 3)] (new_limiter 2 60))))) \<le> 2"
  using sliding_window_limit [of "[(''ip'', 1), (''ip'', 2), (''ip'', 3)]" 60 5 "''ip''" 2] by simp

end
