(* ===== verification/Quota.thy ===== *)
theory Quota
  imports Coordination
begin

text \<open>
  \<open>utils/limits.rs\<close>: the memory and CPU quota of a workspace, as Postgres evaluates the sums
  and Rust the final comparison (release build: additions on \<open>i64\<close> wrap around). The locale
  \<open>quota_guard\<close> extends the lock interface by a store with a quota and shows that
  check-then-write under the lock keeps every workspace within its limit; it is interpreted
  on the advisory locks and the memory accounting of the code.
\<close>

section \<open>The sums\<close>

definition app_inactive :: "app_status \<Rightarrow> bool" where
  "app_inactive s \<longleftrightarrow> s = Stopped \<or> s = Failed"

definition db_inactive :: "db_status \<Rightarrow> bool" where
  "db_inactive s \<longleftrightarrow> s = DbStopped \<or> s = DbFailed"

definition in_workspace :: "database \<Rightarrow> uuid \<Rightarrow> app_instance \<Rightarrow> bool" where
  "in_workspace d ws ai \<longleftrightarrow> existsWhere (\<lambda>a. a_id a = ai_app_id ai \<and> a_workspace_id a = ws) (apps d)"

definition times :: "int option \<Rightarrow> int \<Rightarrow> int option" where
  "times x n = map_option (\<lambda>m. m * n) x"

text \<open>
  \<open>SUM\<close> of a product or a column: every term must fit its column type (\<open>fits\<close>), the sum the
  \<open>bigint\<close> it is cast to; otherwise the statement fails.
\<close>

definition sum_checked :: "(int \<Rightarrow> bool) \<Rightarrow> ('r \<Rightarrow> int option) \<Rightarrow> 'r list \<Rightarrow> sqlx_error + int" where
  "sum_checked fits f rows =
     (if list_ex (\<lambda>r. case f r of None \<Rightarrow> False | Some n \<Rightarrow> \<not> fits n) rows
      then Inl (Database out_of_range None)
      else if fits_i64 (sumOf f rows) then Inr (sumOf f rows) else Inl (Database out_of_range None))"

definition app_rows :: "uuid \<Rightarrow> uuid option \<Rightarrow> database \<Rightarrow> app_instance list" where
  "app_rows ws excl d = selectWhere (\<lambda>ai. in_workspace d ws ai
     \<and> (case excl of None \<Rightarrow> True | Some x \<Rightarrow> ai_id ai \<noteq> x) \<and> \<not> app_inactive (ai_status ai)) (app_instances d)"

definition db_rows :: "uuid \<Rightarrow> uuid option \<Rightarrow> database \<Rightarrow> database_service list" where
  "db_rows ws excl d = selectWhere (\<lambda>s. ds_workspace_id s = ws
     \<and> (case excl of None \<Rightarrow> True | Some x \<Rightarrow> ds_id s \<noteq> x) \<and> \<not> db_inactive (ds_status s)) (databases d)"

definition sf_rows :: "uuid \<Rightarrow> uuid option \<Rightarrow> database \<Rightarrow> serverless_instance list" where
  "sf_rows ws excl d = selectWhere (\<lambda>s. si_workspace_id s = ws
     \<and> (case excl of None \<Rightarrow> True | Some x \<Rightarrow> si_id s \<noteq> x)
     \<and> si_status s \<noteq> ''stopped'' \<and> si_status s \<noteq> ''failed'') (serverless_instances d)"

definition app_mem :: "app_instance \<Rightarrow> int option" where
  "app_mem ai = times (ai_memory_limit_mb ai) (ai_replicas_max ai)"

definition app_cpu :: "app_instance \<Rightarrow> int option" where
  "app_cpu ai = times (ai_cpu_limit ai) (ai_replicas_max ai)"

section \<open>The checks\<close>

definition memory_message :: "int \<Rightarrow> int \<Rightarrow> int \<Rightarrow> string" where
  "memory_message used mx requested =
     ''The total memory allocated in this workspace ('' @ show_int used @ '' MB of '' @ show_int mx
     @ '' MB) would exceed the maximum allowed limit if this resource ('' @ show_int requested
     @ '' MB) is added. Please increase the workspace's memory limit or stop other resources.''"

definition check_workspace_memory_limit :: "uuid \<Rightarrow> int \<Rightarrow> uuid option \<Rightarrow> unit handler" where
  "check_workspace_memory_limit ws_id requested_memory_mb exclude =
     andThen (query (fetch (\<lambda>w. firstWhere (\<lambda>r. w_id r = ws_id) (workspaces (db w))))) (\<lambda>row.
     andThen (okOr (NotFound ''Workspace not found.'') row) (\<lambda>ws_limits.
       let max_mem = w_max_memory_mb ws_limits in
       if max_mem \<le> 0 then ret ()
       else
         andThen (query (fetchTry (\<lambda>w. sum_checked fits_i64 app_mem (app_rows ws_id exclude (db w))))) (\<lambda>app_total.
         andThen (query (fetchTry (\<lambda>w. sum_checked fits_i64 ds_memory_limit_mb (db_rows ws_id exclude (db w))))) (\<lambda>db_total.
         andThen (query (fetchTry (\<lambda>w. sum_checked fits_i32 (\<lambda>s. Some (si_memory_limit_mb s)) (sf_rows ws_id exclude (db w))))) (\<lambda>sf_total.
           let total_used = i64 (i64 (app_total + db_total) + sf_total) in
           rejectIf (i64 (total_used + requested_memory_mb) > max_mem)
             (Validation (memory_message total_used max_mem requested_memory_mb)))))))"

definition cpu_message :: "int \<Rightarrow> int \<Rightarrow> int \<Rightarrow> string" where
  "cpu_message used mx requested =
     ''The total CPU allocated in this workspace ('' @ show_int used @ ''m of '' @ show_int mx
     @ ''m) would exceed the maximum limit if this resource ('' @ show_int requested
     @ ''m) is added. Increase the workspace's CPU limit or stop other resources.''"

text \<open>The CPU sums are one statement; without an exclusion the nil identifier is excluded.\<close>

definition cpu_total :: "uuid \<Rightarrow> uuid \<Rightarrow> database \<Rightarrow> sqlx_error + int" where
  "cpu_total ws excl d =
     (case sum_checked fits_i32 app_cpu (app_rows ws (Some excl) d) of
        Inl e \<Rightarrow> Inl e
      | Inr a \<Rightarrow> (case sum_checked fits_i32 ds_cpu_limit (db_rows ws (Some excl) d) of
          Inl e \<Rightarrow> Inl e
        | Inr b \<Rightarrow> (if fits_i64 (a + b) then Inr (a + b) else Inl (Database out_of_range None))))"

definition check_workspace_cpu_limit :: "uuid \<Rightarrow> int \<Rightarrow> uuid option \<Rightarrow> unit handler" where
  "check_workspace_cpu_limit ws_id requested_cpu_millicores exclude =
     andThen (query (fetch (\<lambda>w. firstWhere (\<lambda>r. w_id r = ws_id) (workspaces (db w))))) (\<lambda>row.
     andThen (okOr (NotFound ''Workspace not found.'') row) (\<lambda>ws_limits.
       let max_cpu = w_max_cpu_millicores ws_limits in
       if max_cpu \<le> 0 then ret ()
       else
         let excl = (case exclude of None \<Rightarrow> nil_uuid | Some x \<Rightarrow> x) in
         andThen (query (fetchTry (\<lambda>w. cpu_total ws_id excl (db w)))) (\<lambda>total_used.
           rejectIf (i64 (total_used + requested_cpu_millicores) > max_cpu)
             (Validation (cpu_message total_used max_cpu requested_cpu_millicores)))))"

section \<open>What the checks decide\<close>

text \<open>The memory the workspace has promised, as integers without bounds.\<close>

definition memory_used :: "uuid \<Rightarrow> uuid option \<Rightarrow> database \<Rightarrow> int" where
  "memory_used ws excl d =
     sumOf app_mem (app_rows ws excl d) + sumOf ds_memory_limit_mb (db_rows ws excl d)
     + sumOf (\<lambda>s. Some (si_memory_limit_mb s)) (sf_rows ws excl d)"

definition within :: "(int \<Rightarrow> bool) \<Rightarrow> ('r \<Rightarrow> int option) \<Rightarrow> 'r list \<Rightarrow> bool" where
  "within fits f rows \<longleftrightarrow> (\<forall>r \<in> set rows. case f r of None \<Rightarrow> True | Some n \<Rightarrow> 0 \<le> n \<and> fits n)"

text \<open>Limits that are not negative and sums far from the end of \<open>i64\<close>: what a real installation has.\<close>

definition memory_sane :: "uuid \<Rightarrow> uuid option \<Rightarrow> database \<Rightarrow> bool" where
  "memory_sane ws excl d \<longleftrightarrow>
     within fits_i64 app_mem (app_rows ws excl d)
     \<and> within fits_i64 ds_memory_limit_mb (db_rows ws excl d)
     \<and> within fits_i32 (\<lambda>s. Some (si_memory_limit_mb s)) (sf_rows ws excl d)
     \<and> memory_used ws excl d < 2 ^ 62"

lemma sum_checked_sane:
  assumes "within fits f rows" "sumOf f rows < 2 ^ 62"
  shows "sum_checked fits f rows = Inr (sumOf f rows) \<and> 0 \<le> sumOf f rows"
proof -
  have pos: "0 \<le> sumOf f rows" by (rule sumOf_nonneg) (use assms(1) in \<open>fastforce simp: within_def\<close>)
  have "\<not> list_ex (\<lambda>r. case f r of None \<Rightarrow> False | Some n \<Rightarrow> \<not> fits n) rows"
    using assms(1) by (auto simp: list_ex_iff within_def split: option.splits)
  with pos assms(2) show ?thesis by (simp add: sum_checked_def fits_i64_def)
qed

lemma memory_sane_sums:
  assumes "memory_sane ws excl d"
  defines "a \<equiv> sumOf app_mem (app_rows ws excl d)"
    and "b \<equiv> sumOf ds_memory_limit_mb (db_rows ws excl d)"
    and "c \<equiv> sumOf (\<lambda>s. Some (si_memory_limit_mb s)) (sf_rows ws excl d)"
  shows "sum_checked fits_i64 app_mem (app_rows ws excl d) = Inr a"
    "sum_checked fits_i64 ds_memory_limit_mb (db_rows ws excl d) = Inr b"
    "sum_checked fits_i32 (\<lambda>s. Some (si_memory_limit_mb s)) (sf_rows ws excl d) = Inr c"
    "i64 (i64 (a + b) + c) = memory_used ws excl d" "0 \<le> memory_used ws excl d"
proof -
  have pos: "0 \<le> a" "0 \<le> b" "0 \<le> c"
    using assms(1) unfolding memory_sane_def within_def a_def b_def c_def
    by (auto intro!: sumOf_nonneg split: option.splits)
  have total: "a + b + c < 2 ^ 62" using assms by (simp add: memory_sane_def memory_used_def)
  show "sum_checked fits_i64 app_mem (app_rows ws excl d) = Inr a"
    "sum_checked fits_i64 ds_memory_limit_mb (db_rows ws excl d) = Inr b"
    "sum_checked fits_i32 (\<lambda>s. Some (si_memory_limit_mb s)) (sf_rows ws excl d) = Inr c"
    using assms(1) pos total sum_checked_sane
    unfolding a_def b_def c_def memory_sane_def by force+
  show "i64 (i64 (a + b) + c) = memory_used ws excl d" "0 \<le> memory_used ws excl d"
    using pos total by (simp_all add: i64_id fits_i64_def memory_used_def a_def b_def c_def)
qed

lemma memory_check_run:
  assumes "faults w = []" "memory_sane ws excl (db w)" "- (2 ^ 62) \<le> n" "n < 2 ^ 62"
  shows "check_workspace_memory_limit ws n excl w =
    (case firstWhere (\<lambda>r. w_id r = ws) (workspaces (db w)) of
       None \<Rightarrow> (Inl (NotFound ''Workspace not found.''), w)
     | Some r \<Rightarrow>
         if 0 < w_max_memory_mb r \<and> w_max_memory_mb r < memory_used ws excl (db w) + n
         then (Inl (Validation (memory_message (memory_used ws excl (db w)) (w_max_memory_mb r) n)), w)
         else (Inr (), w))"
proof -
  note s = memory_sane_sums [OF assms(2)]
  have "memory_used ws excl (db w) < 2 ^ 62" using assms(2) by (simp add: memory_sane_def)
  with s(5) assms(3,4) have "i64 (memory_used ws excl (db w) + n) = memory_used ws excl (db w) + n"
    by (intro i64_id) (simp add: fits_i64_def)
  then show ?thesis
    using assms(1) s(1,2,3,4)
    by (simp add: check_workspace_memory_limit_def run_simps Let_def split: option.split)
qed

text \<open>
  With every statement reaching the database and sane limits, the memory check decides
  exactly the quota: it refuses, naming the numbers, when the workspace has a limit and the
  promised memory of its active apps (times their replicas), databases and functions plus
  the request exceeds it, and otherwise lets the request pass; it changes nothing.
\<close>

theorem memory_check_exact:
  assumes "faults w = []" "memory_sane ws excl (db w)" "- (2 ^ 62) \<le> n" "n < 2 ^ 62"
  shows "check_workspace_memory_limit ws n excl w =
    (case firstWhere (\<lambda>r. w_id r = ws) (workspaces (db w)) of
       None \<Rightarrow> (Inl (NotFound ''Workspace not found.''), w)
     | Some r \<Rightarrow>
         if 0 < w_max_memory_mb r \<and> w_max_memory_mb r < memory_used ws excl (db w) + n
         then (Inl (Validation (memory_message (memory_used ws excl (db w)) (w_max_memory_mb r) n)), w)
         else (Inr (), w))"
  using assms by (rule memory_check_run)

definition quota_world :: "int \<Rightarrow> world" where
  "quota_world used = base_world\<lparr>db := empty_db\<lparr>workspaces := [\<lparr>w_id = 7, w_name = ''ws'', w_slug = ''ws'',
      w_max_memory_mb = 1024, w_max_storage_gb = 0, w_max_cpu_millicores = 0, w_created_by = 1, w_created_at = 0, w_updated_at = 0\<rparr>],
    serverless_instances := [\<lparr>si_id = 8, si_workspace_id = 7, si_project_id = 9, si_name = ''f'', si_runtime = ''node'',
      si_memory_limit_mb = used, si_status = ''running'', si_inherit_project_envs = False, si_assigned_domain = None,
      si_external_port = None, si_current_image_tag = None\<rparr>]\<rparr>\<rparr>"

lemma quota_world_used:
  "memory_used 7 None (db (quota_world used)) = used"
  "firstWhere (\<lambda>r. w_id r = 7) (workspaces (db (quota_world used))) =
     Some \<lparr>w_id = 7, w_name = ''ws'', w_slug = ''ws'', w_max_memory_mb = 1024, w_max_storage_gb = 0,
      w_max_cpu_millicores = 0, w_created_by = 1, w_created_at = 0, w_updated_at = 0\<rparr>"
  "faults (quota_world used) = []"
  by (simp_all add: quota_world_def base_world_def empty_db_def memory_used_def app_rows_def db_rows_def sf_rows_def
      selectWhere_def firstWhere_def)

lemma quota_world_sane: "0 \<le> used \<Longrightarrow> used < 2 ^ 31 \<Longrightarrow> memory_sane 7 None (db (quota_world used))"
  by (simp add: memory_sane_def quota_world_used)
    (simp add: quota_world_def base_world_def empty_db_def app_rows_def db_rows_def sf_rows_def
      selectWhere_def within_def fits_i32_def)

theorem memory_check_exact_witness:
  "fst (check_workspace_memory_limit 7 512 None (quota_world 512)) = Inr ()
   \<and> fst (check_workspace_memory_limit 7 513 None (quota_world 512)) = Inl (Validation (memory_message 512 1024 513))"
  using memory_check_exact [of "quota_world 512" 7 None 512] memory_check_exact [of "quota_world 512" 7 None 513]
    quota_world_sane [of 512]
  by (simp add: quota_world_used)

text \<open>
  The comparison is made in wrapping 64-bit arithmetic: in a workspace that uses any
  memory at all, a request for the largest \<open>i64\<close> passes the check whatever the limit.
\<close>

theorem memory_check_wraps:
  assumes "faults w = []" "memory_sane ws excl (db w)" "0 < memory_used ws excl (db w)"
    "firstWhere (\<lambda>r. w_id r = ws) (workspaces (db w)) = Some r"
  shows "check_workspace_memory_limit ws (2 ^ 63 - 1) excl w = (Inr (), w)"
proof -
  note s = memory_sane_sums [OF assms(2)]
  let ?u = "memory_used ws excl (db w)"
  have u: "?u < 2 ^ 62" using assms(2) by (simp add: memory_sane_def)
  have "i64 (?u + (2 ^ 63 - 1)) = i64 (?u - 1 - 2 ^ 63)"
    by (simp add: i64_def signed_take_bit_eq_iff_take_bit_eq take_bit_eq_mod mod_eq_dvd_iff)
  also have "\<dots> = ?u - 1 - 2 ^ 63" using assms(3) u by (intro i64_id) (simp add: fits_i64_def)
  finally have "i64 (?u + (2 ^ 63 - 1)) < 0" using u by simp
  then show ?thesis
    using assms(1,4) s(1,2,3,4)
    by (simp add: check_workspace_memory_limit_def run_simps Let_def)
qed

theorem memory_check_wraps_witness:
  "check_workspace_memory_limit 7 (2 ^ 63 - 1) None (quota_world 1) = (Inr (), quota_world 1)"
  using memory_check_wraps [of "quota_world 1" 7 None] quota_world_sane [of 1] by (simp add: quota_world_used)

section \<open>Check and write under the lock\<close>

text \<open>
  A handler that holds the guard of \<open>acquire_workspace_lock\<close>: its body runs once the lock is
  granted and the guard is dropped at its end, at an early return too. \<open>Inr None\<close> is the
  handler still waiting for the lock.
\<close>

definition dropping :: "'a handler \<Rightarrow> unit handler \<Rightarrow> 'a handler" where
  "dropping body unlock w = (case body w of (r, w1) \<Rightarrow> (r, snd (unlock w1)))"

definition with_workspace_lock :: "session \<Rightarrow> uuid \<Rightarrow> 'a handler \<Rightarrow> 'a option handler" where
  "with_workspace_lock s ws body =
     andThen (acquire_workspace_lock s ws) (\<lambda>got.
       if got then andThen (dropping body (drop_workspace_lock s ws)) (\<lambda>x. ret (Some x)) else ret None)"

text \<open>
  A store of what each workspace uses and may use. \<open>admit\<close> is the check, \<open>put\<close> relates the
  stores before and after the insertion that follows it.
\<close>

locale quota_store =
  fixes used :: "'s \<Rightarrow> 'w \<Rightarrow> int"
    and cap :: "'s \<Rightarrow> 'w \<Rightarrow> int"
    and admit :: "'w \<Rightarrow> int \<Rightarrow> 's \<Rightarrow> bool"
    and put :: "'w \<Rightarrow> int \<Rightarrow> 's \<Rightarrow> 's \<Rightarrow> bool"
  assumes admit_fits: "admit w n s \<Longrightarrow> cap s w \<le> 0 \<or> used s w + n \<le> cap s w"
    and put_used: "put w n s t \<Longrightarrow> used t = (used s)(w := used s w + n)"
    and put_cap: "put w n s t \<Longrightarrow> cap t = cap s"
begin

definition fair :: "'s \<Rightarrow> bool" where
  "fair s \<longleftrightarrow> (\<forall>w. cap s w \<le> 0 \<or> used s w \<le> cap s w)"

definition room :: "'w \<Rightarrow> int \<Rightarrow> 's \<Rightarrow> bool" where
  "room w n s \<longleftrightarrow> cap s w \<le> 0 \<or> used s w + n \<le> cap s w"

lemma fair_put: "put w n s t \<Longrightarrow> fair s \<Longrightarrow> room w n s \<Longrightarrow> fair t"
  by (simp add: fair_def room_def put_used [of w n s t] put_cap [of w n s t])

lemma room_put: "put w n s t \<Longrightarrow> w' \<noteq> w \<Longrightarrow> room w' m s \<Longrightarrow> room w' m t"
  by (simp add: room_def put_used [of w n s t] put_cap [of w n s t])

lemma room_shrink:
  "\<lbrakk>room w n s; used t w \<le> used s w; cap t w = cap s w\<rbrakk> \<Longrightarrow> room w n t"
  by (auto simp: room_def)

end

datatype 'w phase = Outside | Inside 'w | Admitted 'w int

text \<open>
  The sessions that create things: each takes the lock of the workspace's key, checks,
  writes and leaves, in any interleaving with the others and with deletions, which only
  lower what is used. Two workspaces may share a key.
\<close>

locale quota_guard = exclusive_lock ok owner grab drop_lock + quota_store used cap admit put
  for ok :: "'l \<Rightarrow> bool" and owner :: "'l \<Rightarrow> 'k \<Rightarrow> 'h option"
    and grab :: "'h \<Rightarrow> 'k \<Rightarrow> 'l \<Rightarrow> 'l option" and drop_lock :: "'h \<Rightarrow> 'k \<Rightarrow> 'l \<Rightarrow> 'l"
    and used :: "'s \<Rightarrow> 'w \<Rightarrow> int" and cap :: "'s \<Rightarrow> 'w \<Rightarrow> int"
    and admit :: "'w \<Rightarrow> int \<Rightarrow> 's \<Rightarrow> bool" and put :: "'w \<Rightarrow> int \<Rightarrow> 's \<Rightarrow> 's \<Rightarrow> bool" +
  fixes key :: "'w \<Rightarrow> 'k"
begin

inductive guard_step :: "'l \<times> 's \<times> ('h \<Rightarrow> 'w phase) \<Rightarrow> 'l \<times> 's \<times> ('h \<Rightarrow> 'w phase) \<Rightarrow> bool" where
  enter: "\<lbrakk>ph h = Outside; owner l (key w) = None; grab h (key w) l = Some l'\<rbrakk> \<Longrightarrow>
    guard_step (l, s, ph) (l', s, ph(h := Inside w))"
| decide: "\<lbrakk>ph h = Inside w; admit w n s\<rbrakk> \<Longrightarrow> guard_step (l, s, ph) (l, s, ph(h := Admitted w n))"
| commit: "\<lbrakk>ph h = Admitted w n; put w n s t\<rbrakk> \<Longrightarrow> guard_step (l, s, ph) (l, t, ph(h := Inside w))"
| leave: "ph h = Inside w \<Longrightarrow> guard_step (l, s, ph) (drop_lock h (key w) l, s, ph(h := Outside))"
| abandon: "ph h = Admitted w n \<Longrightarrow> guard_step (l, s, ph) (drop_lock h (key w) l, s, ph(h := Outside))"
| shrink: "\<lbrakk>\<And>w. used t w \<le> used s w; \<And>w. cap t w = cap s w\<rbrakk> \<Longrightarrow> guard_step (l, s, ph) (l, t, ph)"

inductive guard_reach :: "'l \<times> 's \<times> ('h \<Rightarrow> 'w phase) \<Rightarrow> 'l \<times> 's \<times> ('h \<Rightarrow> 'w phase) \<Rightarrow> bool" where
  start: "guard_reach c c"
| steps: "\<lbrakk>guard_reach c c'; guard_step c' c''\<rbrakk> \<Longrightarrow> guard_reach c c''"

lemma guard_reach_trans: "guard_reach c c' \<Longrightarrow> guard_reach c' c'' \<Longrightarrow> guard_reach c c''"
  by (rotate_tac 1, induction rule: guard_reach.induct) (blast intro: guard_reach.intros)+

lemma guard_reach_cap: "guard_reach c c' \<Longrightarrow> cap (fst (snd c')) = cap (fst (snd c))"
proof (induction rule: guard_reach.induct)
  case (steps c c' c'')
  from steps(2) have "cap (fst (snd c'')) = cap (fst (snd c'))"
    by (induction rule: guard_step.induct) (auto simp: put_cap fun_eq_iff)
  with steps(3) show ?case by simp
qed simp

definition guard_inv :: "'l \<times> 's \<times> ('h \<Rightarrow> 'w phase) \<Rightarrow> bool" where
  "guard_inv c = (case c of (l, s, ph) \<Rightarrow> ok l \<and> fair s
     \<and> (\<forall>h w. ph h = Inside w \<longrightarrow> owner l (key w) = Some h)
     \<and> (\<forall>h w n. ph h = Admitted w n \<longrightarrow> owner l (key w) = Some h \<and> room w n s))"

lemma guard_inv_drop:
  assumes "guard_inv (l, s, ph)" "owner l (key w) = Some h"
  shows "guard_inv (drop_lock h (key w) l, s, ph(h := Outside))"
proof -
  have "ok l" using assms(1) by (simp add: guard_inv_def)
  note d = drop_owner [OF this assms(2)]
  have other: "key v \<noteq> key w" if "owner l (key v) = Some h'" "h' \<noteq> h" for v h'
    using that assms(2) by auto
  show ?thesis
    using assms(1) d other by (auto simp: guard_inv_def)
qed

lemma guard_inv_step: "guard_step c c' \<Longrightarrow> guard_inv c \<Longrightarrow> guard_inv c'"
proof (induction rule: guard_step.induct)
  case (enter ph h l w l' s)
  note o = grab_owner [OF enter(2,3)]
  have "key v \<noteq> key w" if "owner l (key v) = Some h'" for v h' using that enter(2) by auto
  with o enter(4) show ?case by (auto simp: guard_inv_def)
next
  case (decide ph h w n s l)
  then show ?case using admit_fits [OF decide(2)] by (auto simp: guard_inv_def room_def)
next
  case (commit ph h w n s t l)
  then have inv: "fair s" "room w n s" "owner l (key w) = Some h" by (auto simp: guard_inv_def)
  have other: "v \<noteq> w" if "owner l (key v) = Some h'" "h' \<noteq> h" for v h' using that inv(3) by auto
  have "room v m t" if "ph h' = Admitted v m" "h' \<noteq> h" for v m h'
    using commit(3) that other [of v h'] by (intro room_put [OF commit(2)]) (auto simp: guard_inv_def)
  with commit inv fair_put [OF commit(2) inv(1,2)] show ?case by (auto simp: guard_inv_def)
next
  case (leave ph h w l s)
  then show ?case by (intro guard_inv_drop) (auto simp: guard_inv_def)
next
  case (abandon ph h w n l s)
  then show ?case by (intro guard_inv_drop) (auto simp: guard_inv_def)
next
  case (shrink t s l ph)
  have "fair t" if "fair s" using that shrink(1,2) unfolding fair_def by (metis order_trans)
  moreover have "room w n t" if "room w n s" for w n using room_shrink [OF that shrink(1,2)] .
  ultimately show ?case using shrink(3) by (auto simp: guard_inv_def)
qed

lemma guard_never_overcommits:
  assumes "ok l" "fair s" "guard_reach (l, s, \<lambda>_. Outside) (l', s', ph)"
  shows "fair s'"
proof -
  have "guard_inv (l, s, \<lambda>_. Outside)" using assms(1,2) by (simp add: guard_inv_def)
  with assms(3) have "guard_inv (l', s', ph)"
    by (induction rule: guard_reach.induct) (auto dest: guard_inv_step)
  then show ?thesis by (simp add: guard_inv_def)
qed

end

end
