(* ===== verification/Domains.thy ===== *)
theory Domains
  imports Env_Pool Paging
begin

text \<open>
  The domains of \<open>controllers/domain_controller.rs\<close> and the client of the DNS service in
  \<open>utils/cloudflare.rs\<close>: what a domain points at, the DNS record and the ingress it gets, verification, the
  change of its settings, and the removal of the domains of a resource that is deleted.
\<close>

section \<open>The DNS service\<close>

definition custom_or_env :: "string option \<Rightarrow> string \<Rightarrow> string \<Rightarrow> string handler" where
  "custom_or_env custom name missing =
     (case custom of
        Some t \<Rightarrow> (if trim t \<noteq> [] then ret t else andThen (readState (\<lambda>w. env_var w name)) (okOr (Fatal (FromText missing))))
      | None \<Rightarrow> andThen (readState (\<lambda>w. env_var w name)) (okOr (Fatal (FromText missing))))"

definition create_dns_record ::
  "string \<Rightarrow> string \<Rightarrow> bool \<Rightarrow> string option \<Rightarrow> string option \<Rightarrow> (string \<times> string) handler" where
  "create_dns_record fqdn target_ip proxy custom_token custom_zone_id =
     andThen (custom_or_env custom_token ''CLOUDFLARE_API_TOKEN'' ''Missing Token'') (\<lambda>token.
     andThen (custom_or_env custom_zone_id ''CLOUDFLARE_ZONE_ID'' ''Missing Zone ID'') (\<lambda>zone_id.
     andThen (dns (CreateDnsRecord zone_id fqdn target_ip proxy token)) (\<lambda>response.
     case response of
       DnsUnsent e \<Rightarrow> raise (Infrastructure e)
     | DnsError status body \<Rightarrow> raise (Infrastructure (''Cloudflare API error ('' @ status @ ''): '' @ body))
     | DnsUnreadable e \<Rightarrow> raise (Fatal (FromText e))
     | DnsAccepted record_id \<Rightarrow> ret (zone_id, record_id))))"

definition delete_dns_record :: "string \<Rightarrow> string \<Rightarrow> string option \<Rightarrow> unit handler" where
  "delete_dns_record zone_id record_id custom_token =
     andThen (custom_or_env custom_token ''CLOUDFLARE_API_TOKEN'' ''Missing CLOUDFLARE_API_TOKEN'') (\<lambda>token.
     andThen (dns (DeleteDnsRecord zone_id record_id token)) (\<lambda>response.
     case response of
       DnsUnsent e \<Rightarrow> raise (Infrastructure e)
     | DnsError _ _ \<Rightarrow> raise (Infrastructure ''Failed to delete record from Cloudflare'')
     | _ \<Rightarrow> ret ()))"

section \<open>What a domain points at\<close>

text \<open>\<open>char::is_alphanumeric\<close>: a byte beyond ASCII belongs to a character that is taken for a letter.\<close>

definition is_alphanumeric :: "char \<Rightarrow> bool" where
  "is_alphanumeric c \<longleftrightarrow> is_ascii_alphanumeric c \<or> 128 \<le> code c"

definition slugify :: "string \<Rightarrow> string" where
  "slugify name = filter (\<lambda>c. is_alphanumeric c \<or> c = CHR ''-'')
     (replace_char (CHR '' '') (CHR ''-'') (to_lowercase (trim name)))"

record add_domain_request =
  ad_fqdn :: string
  ad_target_type :: string
  ad_target_id :: "uuid option"
  ad_routing_type :: "domain_routing_type option"
  ad_client_max_body_size :: "int option"
  ad_is_ssl :: "bool option"
  ad_nginx_target_host :: "string option"
  ad_nginx_root_path :: "string option"

record resolved_target =
  tg_routing_type :: domain_routing_type
  tg_nginx_target_host :: "string option"
  tg_nginx_root_path :: "string option"
  tg_target_port :: int
  tg_target_name :: "string option"
  tg_dns_only :: bool

text \<open>An instance with its application, of the workspace.\<close>

definition hosted_instance :: "uuid \<Rightarrow> uuid \<Rightarrow> database \<Rightarrow> (app_instance \<times> app) option" where
  "hosted_instance ws_id i d =
     (case firstWhere (\<lambda>x. ai_id x = i) (app_instances d) of
        None \<Rightarrow> None
      | Some x \<Rightarrow> map_option (Pair x) (firstWhere (\<lambda>a. a_id a = ai_app_id x \<and> a_workspace_id a = ws_id) (apps d)))"

definition function_of :: "uuid \<Rightarrow> uuid \<Rightarrow> database \<Rightarrow> serverless_instance option" where
  "function_of ws_id i d = firstWhere (\<lambda>s. si_id s = i \<and> si_workspace_id s = ws_id) (serverless_instances d)"

definition database_of :: "uuid \<Rightarrow> uuid \<Rightarrow> database \<Rightarrow> database_service option" where
  "database_of ws_id i d = firstWhere (\<lambda>s. ds_id s = i \<and> ds_workspace_id s = ws_id) (databases d)"

definition resolve_target :: "uuid \<Rightarrow> add_domain_request \<Rightarrow> resolved_target handler" where
  "resolve_target ws_id payload =
     (if ad_target_type payload = ''app'' then
        andThen (okOr (Validation ''target_id is required for an app domain.'') (ad_target_id payload)) (\<lambda>i.
        andThen (query (fetch (\<lambda>w. hosted_instance ws_id i (db w)))) (\<lambda>row.
        andThen (okOr (NotFound ''App instance not found in this workspace.'') row) (\<lambda>(x, a).
        ret \<lparr>tg_routing_type = ReverseProxy, tg_nginx_target_host = Some (ai_container_name x), tg_nginx_root_path = None,
             tg_target_port = ai_internal_port x, tg_target_name = Some (a_name a), tg_dns_only = False\<rparr>)))
      else if ad_target_type payload = ''serverless'' then
        andThen (okOr (Validation ''target_id is required for a serverless domain.'') (ad_target_id payload)) (\<lambda>i.
        andThen (query (fetch (\<lambda>w. function_of ws_id i (db w)))) (\<lambda>row.
        andThen (okOr (NotFound ''Serverless instance not found in this workspace.'') row) (\<lambda>s.
        ret \<lparr>tg_routing_type = ReverseProxy, tg_nginx_target_host = Some (''fn-'' @ slugify (si_name s) @ ''-proxy-svc''),
             tg_nginx_root_path = None, tg_target_port = 80, tg_target_name = Some (si_name s), tg_dns_only = False\<rparr>)))
      else if ad_target_type payload = ''database'' then
        andThen (okOr (Validation ''target_id is required for a database domain.'') (ad_target_id payload)) (\<lambda>i.
        andThen (query (fetch (\<lambda>w. database_of ws_id i (db w)))) (\<lambda>row.
        andThen (okOr (NotFound ''Database not found in this workspace.'') row) (\<lambda>s.
        andThen (rejectIf (\<not> ds_is_external s)
          (Validation ''The database must be exposed externally (TCP) before assigning it a domain.'')) (\<lambda>_.
        ret \<lparr>tg_routing_type = Custom, tg_nginx_target_host = None, tg_nginx_root_path = None,
             tg_target_port = default_to 0 (ds_external_port s), tg_target_name = Some (ds_name s), tg_dns_only = True\<rparr>))))
      else
        ret \<lparr>tg_routing_type = default_to ReverseProxy (ad_routing_type payload), tg_nginx_target_host = ad_nginx_target_host payload,
             tg_nginx_root_path = ad_nginx_root_path payload, tg_target_port = 80, tg_target_name = None, tg_dns_only = False\<rparr>)"

definition target_name_for :: "string \<Rightarrow> uuid option \<Rightarrow> string option handler" where
  "target_name_for target_type target_id =
     (case target_id of None \<Rightarrow> ret None
      | Some i \<Rightarrow>
          (if target_type = ''app'' then orElse (fetch (\<lambda>w. map_option a_name (instance_app i (db w)))) None
           else if target_type = ''serverless'' then
             orElse (fetch (\<lambda>w. map_option si_name (firstWhere (\<lambda>s. si_id s = i) (serverless_instances (db w))))) None
           else if target_type = ''database'' then
             orElse (fetch (\<lambda>w. map_option ds_name (firstWhere (\<lambda>s. ds_id s = i) (databases (db w))))) None
           else ret None))"

section \<open>The credentials of a project\<close>

record project_cf =
  pc_api_token :: "string option"
  pc_zone_id :: "string option"
  pc_ingress_ip :: "string option"

definition no_cf :: project_cf where
  "no_cf = \<lparr>pc_api_token = None, pc_zone_id = None, pc_ingress_ip = None\<rparr>"

definition project_of_target :: "uuid \<Rightarrow> string \<Rightarrow> uuid \<Rightarrow> uuid option handler" where
  "project_of_target ws_id target_type i =
     (if target_type = ''app'' then
        orElse (fetch (\<lambda>w. map_option (\<lambda>(_, a). a_project_id a) (hosted_instance ws_id i (db w)))) None
      else if target_type = ''serverless'' then orElse (fetch (\<lambda>w. map_option si_project_id (function_of ws_id i (db w)))) None
      else if target_type = ''database'' then orElse (fetch (\<lambda>w. map_option ds_project_id (database_of ws_id i (db w)))) None
      else ret None)"

definition token_and_zone :: "uuid option \<Rightarrow> (string option \<times> string option) handler" where
  "token_and_zone credential =
     (case credential of None \<Rightarrow> ret (None, None)
      | Some c \<Rightarrow>
          andThen (orElse (fetch (\<lambda>w. firstWhere (\<lambda>r. cf_id r = c) (cloudflare_credentials (db w)))) None) (\<lambda>row.
          case row of None \<Rightarrow> ret (None, None)
          | Some r \<Rightarrow>
              andThen (attempt (decrypt_env_value (cf_encrypted_token r) (cf_nonce r))) (\<lambda>t.
              ret (case t of Inl _ \<Rightarrow> None | Inr tok \<Rightarrow> Some tok, Some (cf_zone_id r)))))"

definition resolve_project_cf :: "uuid \<Rightarrow> string \<Rightarrow> uuid option \<Rightarrow> project_cf handler" where
  "resolve_project_cf ws_id target_type target_id =
     (case target_id of None \<Rightarrow> ret no_cf
      | Some i \<Rightarrow>
          andThen (project_of_target ws_id target_type i) (\<lambda>project_id.
          case project_id of None \<Rightarrow> ret no_cf
          | Some pid \<Rightarrow>
              andThen (orElse (fetch (\<lambda>w. firstWhere (\<lambda>p. pr_id p = pid) (projects (db w)))) None) (\<lambda>row.
              case row of None \<Rightarrow> ret no_cf
              | Some p \<Rightarrow>
                  andThen (token_and_zone (pr_cloudflare_credential_id p)) (\<lambda>(api_token, zone_id).
                  ret \<lparr>pc_api_token = api_token, pc_zone_id = zone_id, pc_ingress_ip = pr_ingress_ip p\<rparr>))))"

definition target_ip :: "(string \<Rightarrow> string option) \<Rightarrow> project_cf \<Rightarrow> string" where
  "target_ip env cf =
     (let fallback = default_to ''127.0.0.1'' (env ''HERMES_INGRESS_IP'') in
      case pc_ingress_ip cf of Some ip \<Rightarrow> (if trim ip \<noteq> [] then ip else fallback) | None \<Rightarrow> fallback)"


section \<open>Adding a domain\<close>

record domain_response =
  dr_id :: uuid
  dr_fqdn :: string
  dr_target_type :: string
  dr_target_id :: "uuid option"
  dr_target_name :: "string option"
  dr_routing_type :: domain_routing_type
  dr_status :: domain_status
  dr_client_max_body_size :: int
  dr_is_ssl :: bool
  dr_nginx_config_content :: "string option"
  dr_cf_proxy_active :: bool
  dr_nginx_target_host :: "string option"
  dr_nginx_root_path :: "string option"

definition domain_response_of :: "domain_row \<Rightarrow> string option \<Rightarrow> domain_response" where
  "domain_response_of d target_name =
     \<lparr>dr_id = dm_id d, dr_fqdn = dm_fqdn d, dr_target_type = dm_target_type d, dr_target_id = dm_target_id d,
      dr_target_name = target_name, dr_routing_type = dm_routing_type d, dr_status = dm_status d,
      dr_client_max_body_size = dm_client_max_body_size d, dr_is_ssl = dm_is_ssl d,
      dr_nginx_config_content = dm_nginx_config_content d, dr_cf_proxy_active = dm_cf_proxy_active d,
      dr_nginx_target_host = dm_nginx_target_host d, dr_nginx_root_path = dm_nginx_root_path d\<rparr>"

definition newline :: string where
  "newline = [CHR 10]"

definition render_applied_config :: "(string \<Rightarrow> string option) \<Rightarrow> string \<Rightarrow> string option \<Rightarrow> int \<Rightarrow> int \<Rightarrow> string" where
  "render_applied_config env fqdn service port body_size_mb =
     (let tls = (case env ''HERMES_SSL_ISSUER'' of
            Some issuer \<Rightarrow> (if trim issuer \<noteq> [] then ''tls: automatic (cert-manager issuer: '' @ issuer @ '')''
                           else ''tls: disabled (no HERMES_SSL_ISSUER configured)'')
          | None \<Rightarrow> ''tls: disabled (no HERMES_SSL_ISSUER configured)'') in
      ''# Applied via Traefik (Kubernetes Ingress)'' @ newline @ ''host: '' @ fqdn @ newline
      @ ''backend: '' @ default_to ''(unknown)'' service @ '':'' @ show_int port @ newline
      @ tls @ newline @ ''maxBodySize: '' @ show_int body_size_mb @ ''MB'' @ newline)"

definition domain_ingress :: "uuid \<Rightarrow> string" where
  "domain_ingress i = ''domain-'' @ uuid_str i"

text \<open>A call to the cluster when it can be reached, its refusal ignored.\<close>

definition if_client :: "k8s_call \<Rightarrow> unit handler" where
  "if_client c = andThen (k8s GetClient) (\<lambda>a. case a of Refused _ \<Rightarrow> ret () | _ \<Rightarrow> andThen (k8s c) (\<lambda>_. ret ()))"

definition insert_domain :: "domain_row \<Rightarrow> unit handler" where
  "insert_domain row = query (checked
     (\<lambda>w. if existsWhere (\<lambda>d. dm_workspace_id d = dm_workspace_id row \<and> dm_fqdn d = dm_fqdn row) (domains (db w))
          then Some (conflict_on ''domains_workspace_id_fqdn_key'')
          else if \<not> existsWhere (\<lambda>x. w_id x = dm_workspace_id row) (workspaces (db w))
               \<or> \<not> existsWhere (\<lambda>u. u_id u = dm_created_by row) (users (db w))
          then Some fk_error else None)
     (\<lambda>w. (db w)\<lparr>domains := insertRow row (domains (db w))\<rparr>))"

definition register_dns :: "string \<Rightarrow> string \<Rightarrow> project_cf \<Rightarrow> (string \<times> string) option handler" where
  "register_dns fqdn ip cf =
     (case (pc_api_token cf, pc_zone_id cf) of
        (Some token, Some z_id) \<Rightarrow>
          (if trim token \<noteq> [] \<and> trim z_id \<noteq> []
           then andThen (create_dns_record fqdn ip True (Some token) (Some z_id)) (\<lambda>r. ret (Some r)) else ret None)
      | _ \<Rightarrow> ret None)"

definition set_assigned_domain :: "uuid \<Rightarrow> string option \<Rightarrow> unit handler" where
  "set_assigned_domain i fqdn = discard (execute (\<lambda>w. (db w)\<lparr>serverless_instances :=
     updateWhere (\<lambda>s. si_id s = i) (\<lambda>s. s\<lparr>si_assigned_domain := fqdn\<rparr>) (serverless_instances (db w))\<rparr>))"

definition add_domain :: "claims \<Rightarrow> add_domain_request \<Rightarrow> domain_response handler" where
  "add_domain claims payload =
     andThen (active_workspace claims) (\<lambda>ws_id.
     let fqdn = trim (to_lowercase (ad_fqdn payload));
         body_size = default_to 50 (ad_client_max_body_size payload);
         ssl_enabled = default_to True (ad_is_ssl payload) in
     andThen (query (fetch (\<lambda>w. existsWhere (\<lambda>d. dm_workspace_id d = ws_id \<and> dm_fqdn d = fqdn) (domains (db w))))) (\<lambda>ex.
     andThen (rejectIf ex (Conflict ''This domain is already registered in this workspace.'')) (\<lambda>_.
     andThen (resolve_target ws_id payload) (\<lambda>target.
     andThen (resolve_project_cf ws_id (ad_target_type payload) (ad_target_id payload)) (\<lambda>cf.
     andThen (readState (\<lambda>w. target_ip (env_var w) cf)) (\<lambda>ip.
     andThen (register_dns fqdn ip cf) (\<lambda>record.
     andThen (readState (\<lambda>w. if tg_dns_only target then None
        else Some (render_applied_config (env_var w) fqdn (tg_nginx_target_host target) (tg_target_port target) body_size))) (\<lambda>content.
     andThen new_v4 (\<lambda>i.
     andThen now (\<lambda>t.
     let row = \<lparr>dm_id = i, dm_workspace_id = ws_id, dm_fqdn = fqdn, dm_target_type = ad_target_type payload,
         dm_target_id = ad_target_id payload, dm_routing_type = tg_routing_type target, dm_client_max_body_size = body_size,
         dm_is_ssl = ssl_enabled, dm_status = ActiveDomain, dm_nginx_target_host = tg_nginx_target_host target,
         dm_nginx_root_path = tg_nginx_root_path target, dm_nginx_config_content = content,
         dm_cloudflare_zone_id = map_option fst record, dm_cloudflare_record_id = map_option snd record,
         dm_cf_proxy_active = True, dm_created_by = c_sub claims, dm_created_at = t\<rparr> in
     andThen (insert_domain row) (\<lambda>_.
     andThen (case tg_nginx_target_host target of
         Some service \<Rightarrow> onlyIf (\<not> tg_dns_only target \<and> tg_routing_type target = ReverseProxy)
           (if_client (DeployIngress (ws_namespace ws_id) (domain_ingress i) fqdn service (tg_target_port target)))
       | None \<Rightarrow> ret ()) (\<lambda>_.
     andThen (case ad_target_id payload of
         Some fn_id \<Rightarrow> onlyIf (ad_target_type payload = ''serverless'') (set_assigned_domain fn_id (Some fqdn))
       | None \<Rightarrow> ret ()) (\<lambda>_.
     ret (domain_response_of row (tg_target_name target)))))))))))))))"

section \<open>Verification and changes\<close>

definition find_domain :: "uuid \<Rightarrow> uuid \<Rightarrow> domain_row handler" where
  "find_domain ws_id domain_id =
     andThen (query (fetch (\<lambda>w. firstWhere (\<lambda>d. dm_id d = domain_id \<and> dm_workspace_id d = ws_id) (domains (db w)))))
       (okOr (NotFound ''Domain not found in this workspace.''))"

definition update_domain_row :: "uuid \<Rightarrow> (domain_row \<Rightarrow> domain_row) \<Rightarrow> unit handler" where
  "update_domain_row i f = query (execute (\<lambda>w. (db w)\<lparr>domains := updateWhere (\<lambda>d. dm_id d = i) f (domains (db w))\<rparr>))"

text \<open>The port of the instance with a container name, and the ingress to it.\<close>

definition port_of_service :: "string \<Rightarrow> int handler" where
  "port_of_service service = andThen (query (fetch (\<lambda>w.
     map_option ai_internal_port (firstWhere (\<lambda>x. ai_container_name x = service) (app_instances (db w)))))) (\<lambda>p. ret (default_to 80 p))"

definition route_to :: "uuid \<Rightarrow> domain_row \<Rightarrow> string option \<Rightarrow> int handler" where
  "route_to ws_id d service =
     (case service of None \<Rightarrow> ret 80
      | Some s \<Rightarrow>
          andThen (port_of_service s) (\<lambda>port.
          andThen (if_client (DeployIngress (ws_namespace ws_id) (domain_ingress (dm_id d)) (dm_fqdn d) s port)) (\<lambda>_. ret port)))"

definition verify_and_sync_domain :: "claims \<Rightarrow> uuid \<Rightarrow> domain_response handler" where
  "verify_and_sync_domain claims domain_id =
     andThen (active_workspace claims) (\<lambda>ws_id.
     andThen (find_domain ws_id domain_id) (\<lambda>d.
     andThen (resolve_project_cf ws_id (dm_target_type d) (dm_target_id d)) (\<lambda>cf.
     andThen (readState (\<lambda>w. target_ip (env_var w) cf)) (\<lambda>ip.
     andThen (create_dns_record (dm_fqdn d) ip (dm_cf_proxy_active d) (pc_api_token cf) (pc_zone_id cf)) (\<lambda>(zone_id, record_id).
     andThen (if dm_target_type d = ''database'' then ret (dm_nginx_config_content d)
       else
         andThen (if dm_routing_type d = ReverseProxy then route_to ws_id d (dm_nginx_target_host d) else ret 80) (\<lambda>port.
         readState (\<lambda>w. Some (render_applied_config (env_var w) (dm_fqdn d) (dm_nginx_target_host d) port (dm_client_max_body_size d))))) (\<lambda>content.
     andThen (update_domain_row (dm_id d) (\<lambda>r. r\<lparr>dm_status := ActiveDomain, dm_nginx_config_content := content,
        dm_cloudflare_zone_id := Some zone_id, dm_cloudflare_record_id := Some record_id\<rparr>)) (\<lambda>_.
     andThen (target_name_for (dm_target_type d) (dm_target_id d)) (\<lambda>name.
     ret (domain_response_of (d\<lparr>dm_status := ActiveDomain, dm_nginx_config_content := content\<rparr>) name)))))))))"

definition update_domain :: "claims \<Rightarrow> uuid \<Rightarrow> add_domain_request \<Rightarrow> domain_response handler" where
  "update_domain claims domain_id payload =
     andThen (active_workspace claims) (\<lambda>ws_id.
     andThen (find_domain ws_id domain_id) (\<lambda>d.
     let body_size = default_to (dm_client_max_body_size d) (ad_client_max_body_size payload);
         ssl_enabled = default_to (dm_is_ssl d) (ad_is_ssl payload);
         knobs = (\<lambda>r. r\<lparr>dm_client_max_body_size := body_size, dm_is_ssl := ssl_enabled\<rparr>) in
     if dm_target_type d = ''database'' then
       andThen (update_domain_row (dm_id d) knobs) (\<lambda>_.
       andThen (target_name_for (dm_target_type d) (dm_target_id d)) (\<lambda>name.
       ret (domain_response_of (knobs d) name)))
     else
       let routing_type = default_to (dm_routing_type d) (ad_routing_type payload);
           service = ad_nginx_target_host payload in
       andThen (if routing_type = ReverseProxy then route_to ws_id d service
         else andThen (if_client (DeleteIngress (ws_namespace ws_id) (domain_ingress (dm_id d)))) (\<lambda>_. ret 80)) (\<lambda>port.
       andThen (readState (\<lambda>w. render_applied_config (env_var w) (dm_fqdn d) service port body_size)) (\<lambda>content.
       let edit = (\<lambda>r. (knobs r)\<lparr>dm_routing_type := routing_type, dm_nginx_target_host := service,
             dm_nginx_root_path := ad_nginx_root_path payload, dm_nginx_config_content := Some content\<rparr>) in
       andThen (update_domain_row (dm_id d) edit) (\<lambda>_.
       andThen (target_name_for (dm_target_type d) (dm_target_id d)) (\<lambda>name.
       ret (domain_response_of (edit d) name)))))))"

section \<open>Removal\<close>

definition delete_domain_ingress :: "uuid \<Rightarrow> domain_row \<Rightarrow> unit handler" where
  "delete_domain_ingress ws_id d =
     onlyIf (dm_target_type d \<noteq> ''database'') (if_client (DeleteIngress (ws_namespace ws_id) (domain_ingress (dm_id d))))"

definition teardown_domain_resources :: "uuid \<Rightarrow> domain_row \<Rightarrow> unit handler" where
  "teardown_domain_resources ws_id d =
     andThen (resolve_project_cf ws_id (dm_target_type d) (dm_target_id d)) (\<lambda>cf.
     andThen (case (dm_cloudflare_zone_id d, dm_cloudflare_record_id d) of
         (Some zone_id, Some record_id) \<Rightarrow> discard (delete_dns_record zone_id record_id (pc_api_token cf))
       | _ \<Rightarrow> ret ()) (\<lambda>_.
     delete_domain_ingress ws_id d))"

definition purge_domains_for_target :: "uuid \<Rightarrow> string \<Rightarrow> uuid \<Rightarrow> unit handler" where
  "purge_domains_for_target ws_id target_type target_id =
     (let p = (\<lambda>d. dm_workspace_id d = ws_id \<and> dm_target_type d = target_type \<and> dm_target_id d = Some target_id) in
      andThen (orElse (fetch (\<lambda>w. selectWhere p (domains (db w)))) []) (\<lambda>ds.
      andThen (forEach ds (teardown_domain_resources ws_id)) (\<lambda>_.
      discard (execute (\<lambda>w. (db w)\<lparr>domains := deleteWhere p (domains (db w))\<rparr>)))))"

definition remove_domain :: "claims \<Rightarrow> uuid \<Rightarrow> unit handler" where
  "remove_domain claims domain_id =
     andThen (active_workspace claims) (\<lambda>ws_id.
     andThen (find_domain ws_id domain_id) (\<lambda>d.
     andThen (resolve_project_cf ws_id (dm_target_type d) (dm_target_id d)) (\<lambda>cf.
     andThen (case (dm_cloudflare_zone_id d, dm_cloudflare_record_id d) of
         (Some zone_id, Some record_id) \<Rightarrow> delete_dns_record zone_id record_id (pc_api_token cf)
       | _ \<Rightarrow> ret ()) (\<lambda>_.
     andThen (case dm_target_id d of
         Some fn_id \<Rightarrow> onlyIf (dm_target_type d = ''serverless'') (set_assigned_domain fn_id None)
       | None \<Rightarrow> ret ()) (\<lambda>_.
     andThen (delete_domain_ingress ws_id d) (\<lambda>_.
     query (execute (\<lambda>w. (db w)\<lparr>domains := deleteWhere (\<lambda>r. dm_id r = dm_id d) (domains (db w))\<rparr>))))))))"

section \<open>The list\<close>

definition in_project :: "uuid \<Rightarrow> database \<Rightarrow> domain_row \<Rightarrow> bool" where
  "in_project pid d r \<longleftrightarrow>
     (case dm_target_id r of None \<Rightarrow> False
      | Some i \<Rightarrow>
          dm_target_type r = ''app'' \<and> (case instance_app i d of Some a \<Rightarrow> a_project_id a = pid | None \<Rightarrow> False)
          \<or> dm_target_type r = ''serverless'' \<and> existsWhere (\<lambda>s. si_id s = i \<and> si_project_id s = pid) (serverless_instances d)
          \<or> dm_target_type r = ''database'' \<and> existsWhere (\<lambda>s. ds_id s = i \<and> ds_project_id s = pid) (databases d))"

definition listed_domains :: "uuid \<Rightarrow> uuid option \<Rightarrow> database \<Rightarrow> domain_row list" where
  "listed_domains ws_id project_id d = sort_key (\<lambda>r. - dm_created_at r)
     (selectWhere (\<lambda>r. dm_workspace_id r = ws_id \<and> (case project_id of None \<Rightarrow> True | Some pid \<Rightarrow> in_project pid d r)) (domains d))"

primrec respond_all :: "domain_row list \<Rightarrow> domain_response list handler" where
  "respond_all [] = ret []"
| "respond_all (d # ds) =
     andThen (target_name_for (dm_target_type d) (dm_target_id d)) (\<lambda>name.
     andThen (respond_all ds) (\<lambda>rest. ret (domain_response_of d name # rest)))"

definition list_domains :: "claims \<Rightarrow> pagination_params \<Rightarrow> uuid option \<Rightarrow> domain_response paginated handler" where
  "list_domains claims params project_id =
     andThen (active_workspace claims) (\<lambda>ws_id.
     let (page, page_size, offset) = resolve_page params in
     andThen (query (fetch (\<lambda>w. int (length (listed_domains ws_id project_id (db w)))))) (\<lambda>total.
     andThen (query (fetchTry (\<lambda>w. case limit_offset page_size offset (listed_domains ws_id project_id (db w)) of
         None \<Rightarrow> Inl (Database ''2201X'' None) | Some rows \<Rightarrow> Inr rows))) (\<lambda>rows.
     andThen (respond_all rows) (\<lambda>items.
     ret \<lparr>pd_items = items, pd_total = total, pd_page = page, pd_page_size = page_size\<rparr>))))"

section \<open>What the teardown leaves alone\<close>

lemma answers_token_and_zone: "answers (token_and_zone c)"
  unfolding token_and_zone_def by (auto intro!: answer_intros split: option.split)

lemma answers_resolve_project_cf [answer_intros]: "answers (resolve_project_cf ws t i)"
  unfolding resolve_project_cf_def project_of_target_def
  by (auto intro!: answer_intros answers_token_and_zone split: option.split)

lemma answers_if_client [answer_intros]: "answers (if_client c)"
  unfolding if_client_def by (auto intro!: answer_intros split: k8s_answer.split)

lemma answers_teardown [answer_intros]: "answers (teardown_domain_resources ws d)"
  unfolding teardown_domain_resources_def delete_domain_ingress_def onlyIf_def
  by (auto intro!: answer_intros split: option.split)

lemma keeps_teardown [keeps_intros]: "keeps (\<lambda>w. I (db w)) (teardown_domain_resources ws d)"
  unfolding teardown_domain_resources_def delete_domain_ingress_def onlyIf_def resolve_project_cf_def project_of_target_def
    token_and_zone_def if_client_def delete_dns_record_def custom_or_env_def
  by (auto intro!: keeps_intros split: option.split k8s_answer.split dns_answer.split)

lemma calm_teardown [calm_intros]: "keeps (calm k I) (teardown_domain_resources ws d)"
  unfolding teardown_domain_resources_def delete_domain_ingress_def onlyIf_def resolve_project_cf_def project_of_target_def
    token_and_zone_def if_client_def delete_dns_record_def custom_or_env_def
  by (auto intro!: keeps_intros calm_intros split: option.split k8s_answer.split dns_answer.split)

end
