(* ===== verification/Databases.thy ===== *)
theory Databases
  imports Cron Quota Domains
begin

text \<open>
  The managed databases (\<open>database_controller.rs\<close>): creation under the quota lock with the
  publication of the connection string, the provisioning task it spawns, settings,
  credentials, the status read from the cluster, and deletion.
\<close>

section \<open>The four kinds\<close>

definition image_name :: "db_type \<Rightarrow> string" where
  "image_name t = (case t of Postgres \<Rightarrow> ''postgres'' | Redis \<Rightarrow> ''redis'' | Mongodb \<Rightarrow> ''mongo'' | Mysql \<Rightarrow> ''mysql'')"

definition default_version :: "db_type \<Rightarrow> string" where
  "default_version t = (case t of Postgres \<Rightarrow> ''alpine'' | Redis \<Rightarrow> ''alpine'' | Mongodb \<Rightarrow> ''6.0'' | Mysql \<Rightarrow> ''8.0'')"

definition db_internal_port :: "db_type \<Rightarrow> int" where
  "db_internal_port t = (case t of Postgres \<Rightarrow> 5432 | Mysql \<Rightarrow> 3306 | Redis \<Rightarrow> 6379 | Mongodb \<Rightarrow> 27017)"

definition url_host :: "string \<Rightarrow> int \<Rightarrow> string" where
  "url_host container port = container @ '':'' @ show_int port"

text \<open>The URL published at creation, and the one rebuilt later from a stored row.\<close>

definition creation_url :: "db_type \<Rightarrow> string \<Rightarrow> string \<Rightarrow> string \<Rightarrow> int \<Rightarrow> string \<Rightarrow> string" where
  "creation_url t usr pw container port name =
     (case t of
        Postgres \<Rightarrow> ''postgresql://'' @ usr @ '':'' @ pw @ ''@'' @ url_host container port @ ''/'' @ name
      | Mysql \<Rightarrow> ''mysql://'' @ usr @ '':'' @ pw @ ''@'' @ url_host container port @ ''/'' @ name
      | Redis \<Rightarrow> ''redis://:'' @ pw @ ''@'' @ url_host container port
      | Mongodb \<Rightarrow> ''mongodb://'' @ usr @ '':'' @ pw @ ''@'' @ url_host container port @ ''/?authSource=admin'')"

definition stored_url :: "database_service \<Rightarrow> string \<Rightarrow> string" where
  "stored_url s pw =
     (case ds_type s of
        Postgres \<Rightarrow> ''postgresql://'' @ ds_db_user s @ '':'' @ pw @ ''@''
          @ url_host (ds_container_name s) (ds_internal_port s) @ ''/'' @ ds_db_name s
      | Mysql \<Rightarrow> ''mysql://'' @ ds_db_user s @ '':'' @ pw @ ''@''
          @ url_host (ds_container_name s) (ds_internal_port s) @ ''/'' @ ds_db_name s
      | Redis \<Rightarrow> ''redis://:'' @ pw @ ''@'' @ url_host (ds_container_name s) (ds_internal_port s)
      | Mongodb \<Rightarrow> ''mongodb://'' @ ds_db_user s @ '':'' @ pw @ ''@''
          @ url_host (ds_container_name s) (ds_internal_port s))"

definition container_envs :: "db_type \<Rightarrow> string \<Rightarrow> string \<Rightarrow> string \<Rightarrow> env" where
  "container_envs t usr pw name =
     (case t of
        Postgres \<Rightarrow> [(''POSTGRES_USER'', usr), (''POSTGRES_PASSWORD'', pw), (''POSTGRES_DB'', name)]
      | Mysql \<Rightarrow> [(''MYSQL_ROOT_PASSWORD'', pw), (''MYSQL_USER'', usr), (''MYSQL_PASSWORD'', pw), (''MYSQL_DATABASE'', name)]
      | Mongodb \<Rightarrow> [(''MONGO_INITDB_ROOT_USERNAME'', usr), (''MONGO_INITDB_ROOT_PASSWORD'', pw)]
      | Redis \<Rightarrow> [(''REDIS_PASSWORD'', pw)])"

definition stored_password :: "database_service \<Rightarrow> string handler" where
  "stored_password s = decrypt_env_value (ds_db_password s)
     (case ds_db_password_nonce s of Some n \<Rightarrow> n | None \<Rightarrow> ''AAAAAAAAAAAAAAAA'')"

section \<open>Status\<close>

definition db_status_str :: "db_status \<Rightarrow> string" where
  "db_status_str s = (case s of DbProvisioning \<Rightarrow> ''provisioning'' | DbRunning \<Rightarrow> ''running''
     | DbStopped \<Rightarrow> ''stopped'' | DbFailed \<Rightarrow> ''failed'')"

definition update_db_status :: "uuid \<Rightarrow> db_status \<Rightarrow> unit stmt" where
  "update_db_status i status =
     andThen (execute (\<lambda>w. (db w)\<lparr>databases := updateWhere (\<lambda>s. ds_id s = i)
       (\<lambda>s. s\<lparr>ds_status := status, ds_updated_at := clock w\<rparr>) (databases (db w))\<rparr>)) (\<lambda>_.
     andThen (attempt (fetch (\<lambda>w. firstWhere (\<lambda>s. ds_id s = i) (databases (db w))))) (\<lambda>r.
     case r of
       Inr (Some s) \<Rightarrow> broadcast_event
         (DatabaseStatusChanged (ds_workspace_id s) i (ds_container_name s) (db_status_str status))
     | _ \<Rightarrow> ret ()))"

definition get_actual_db_status :: "string \<Rightarrow> string \<Rightarrow> db_status \<Rightarrow> db_status handler" where
  "get_actual_db_status ns container stored =
     (if stored = DbFailed \<or> stored = DbStopped then ret stored
      else
        andThen (k8s (DatabasePods ns container)) (\<lambda>a.
        ret (case a of
               Refused _ \<Rightarrow> stored
             | PodState (Some (ph, ready)) \<Rightarrow>
                 let ph = (case ph of None \<Rightarrow> ''Unknown'' | Some p \<Rightarrow> p) in
                 if ph = ''Running'' \<and> ready then DbRunning
                 else if ph = ''Failed'' then DbFailed
                 else DbProvisioning
             | _ \<Rightarrow> DbProvisioning)))"

definition find_database :: "uuid \<Rightarrow> uuid \<Rightarrow> database_service handler" where
  "find_database ws_id db_id =
     andThen (query (fetch (\<lambda>w. firstWhere (\<lambda>s. ds_id s = db_id \<and> ds_workspace_id s = ws_id) (databases (db w))))) (\<lambda>row.
     okOr (NotFound ''Database service not found.'') row)"

definition get_database :: "claims \<Rightarrow> uuid \<Rightarrow> database_service handler" where
  "get_database claims db_id =
     andThen (active_workspace claims) (\<lambda>ws_id.
     andThen (find_database ws_id db_id) (\<lambda>s.
     andThen (k8s GetClient) (\<lambda>c.
     case c of
       Refused _ \<Rightarrow> ret s
     | _ \<Rightarrow>
         andThen (get_actual_db_status (ws_namespace ws_id) (ds_container_name s) (ds_status s)) (\<lambda>actual.
         if actual = ds_status s then ret s
         else andThen (discard (update_db_status (ds_id s) actual)) (\<lambda>_. ret (s\<lparr>ds_status := actual\<rparr>))))))"

definition reveal_database_credentials :: "claims \<Rightarrow> uuid \<Rightarrow> (string \<times> string \<times> string) handler" where
  "reveal_database_credentials claims db_id =
     andThen (active_workspace claims) (\<lambda>ws_id.
     andThen (find_database ws_id db_id) (\<lambda>s.
     andThen (stored_password s) (\<lambda>pw.
     ret (ds_db_user s, pw, stored_url s pw))))"

section \<open>Provisioning\<close>

definition workspace_limits :: "uuid \<Rightarrow> (int \<times> int \<times> int) handler" where
  "workspace_limits ws_id =
     orElse (fetchOne (\<lambda>w. map_option (\<lambda>r. (w_max_memory_mb r, w_max_storage_gb r, w_max_cpu_millicores r))
       (firstWhere (\<lambda>r. w_id r = ws_id) (workspaces (db w))))) (0, 0, 0)"

record provision_request =
  pq_workspace_id :: uuid
  pq_db_id :: uuid
  pq_type :: db_type
  pq_container :: string
  pq_image :: string
  pq_user :: string
  pq_password :: string
  pq_name :: string
  pq_port :: int
  pq_cpu :: int
  pq_memory :: int
  pq_storage :: int
  pq_external :: bool
  pq_external_port :: "int option"

text \<open>The task \<open>create_database\<close> spawns.\<close>

definition expose_database :: "provision_request \<Rightarrow> string \<Rightarrow> unit handler" where
  "expose_database q ns =
     onlyIf (pq_external q) (andThen (k8s (DeployLoadBalancer ns (pq_container q @ ''-external'') (pq_container q)
       (pq_port q) (case pq_external_port q of None \<Rightarrow> pq_port q | Some p \<Rightarrow> p) ''TCP'')) (\<lambda>_. ret ()))"

definition provision_database :: "provision_request \<Rightarrow> unit handler" where
  "provision_database q =
     andThen (k8s GetClient) (\<lambda>c.
     case c of
       Refused _ \<Rightarrow> discard (update_db_status (pq_db_id q) DbFailed)
     | _ \<Rightarrow>
         let ns = ws_namespace (pq_workspace_id q) in
         andThen (workspace_limits (pq_workspace_id q)) (\<lambda>(mem, storage, cpu).
         andThen (k8s (CreateNamespace ns mem storage cpu)) (\<lambda>_.
         andThen (k8s (DeployDatabase ns (pq_container q) (pq_image q)
           (container_envs (pq_type q) (pq_user q) (pq_password q) (pq_name q)) (pq_port q) (pq_cpu q) (pq_memory q)
           (pq_storage q))) (\<lambda>a.
         case a of
           Refused _ \<Rightarrow> discard (update_db_status (pq_db_id q) DbFailed)
         | _ \<Rightarrow> andThen (expose_database q ns) (\<lambda>_. discard (update_db_status (pq_db_id q) DbRunning))))))"

text \<open>The variant used by the compose import waits for the pod: at most 150 polls, two seconds apart.\<close>

primrec poll_ready :: "nat \<Rightarrow> string \<Rightarrow> string \<Rightarrow> bool handler" where
  "poll_ready 0 ns container = ret False"
| "poll_ready (Suc n) ns container =
     andThen (modifyState (\<lambda>w. w\<lparr>clock := clock w + seconds 2\<rparr>)) (\<lambda>_.
     andThen (get_actual_db_status ns container DbProvisioning) (\<lambda>actual.
       if actual = DbRunning then ret True
       else if actual = DbFailed then ret False
       else poll_ready n ns container))"

definition spawn_db_provisioning :: "provision_request \<Rightarrow> unit handler" where
  "spawn_db_provisioning q =
     andThen (k8s GetClient) (\<lambda>c.
     case c of
       Refused _ \<Rightarrow> discard (update_db_status (pq_db_id q) DbFailed)
     | _ \<Rightarrow>
         let ns = ws_namespace (pq_workspace_id q) in
         andThen (workspace_limits (pq_workspace_id q)) (\<lambda>(mem, storage, cpu).
         andThen (k8s (CreateNamespace ns mem storage cpu)) (\<lambda>_.
         andThen (orElse (fetchOne (\<lambda>w. map_option ds_storage_size_gb
           (firstWhere (\<lambda>s. ds_id s = pq_db_id q) (databases (db w))))) 1) (\<lambda>storage_gb.
         andThen (k8s (DeployDatabase ns (pq_container q) (pq_image q)
           (container_envs (pq_type q) (pq_user q) (pq_password q) (pq_name q)) (pq_port q) (pq_cpu q) (pq_memory q)
           storage_gb)) (\<lambda>a.
         case a of
           Refused _ \<Rightarrow> discard (update_db_status (pq_db_id q) DbFailed)
         | _ \<Rightarrow>
             andThen (expose_database q ns) (\<lambda>_.
             andThen (poll_ready 150 ns (pq_container q)) (\<lambda>ready.
             discard (update_db_status (pq_db_id q) (if ready then DbRunning else DbFailed)))))))))"

section \<open>Creation\<close>

record create_database_request =
  cd_project_id :: uuid
  cd_app_instance_id :: "uuid option"
  cd_name :: string
  cd_type :: db_type
  cd_version :: "string option"
  cd_cpu_limit :: "int option"
  cd_memory_limit_mb :: "int option"
  cd_storage_size_gb :: "int option"
  cd_is_external :: "bool option"
  cd_external_port :: "int option"
  cd_publish_to_env :: "bool option"
  cd_env_key :: "string option"

definition or_else :: "'a option \<Rightarrow> 'a \<Rightarrow> 'a" where
  "or_else x d = (case x of None \<Rightarrow> d | Some v \<Rightarrow> v)"

definition wanted_memory :: "create_database_request \<Rightarrow> int" where
  "wanted_memory p = or_else (cd_memory_limit_mb p) 0"

definition wanted_cpu :: "create_database_request \<Rightarrow> int" where
  "wanted_cpu p = (case cd_cpu_limit p of None \<Rightarrow> 0 | Some c \<Rightarrow> if 0 < c then c else 0)"

definition wanted_storage :: "create_database_request \<Rightarrow> int" where
  "wanted_storage p = (case cd_storage_size_gb p of None \<Rightarrow> 1 | Some s \<Rightarrow> if 0 < s then s else 1)"

text \<open>The constraints on \<open>databases\<close>; a \<open>NULL\<close> instance conflicts with nothing.\<close>

definition database_conflict :: "database_service \<Rightarrow> database_service list \<Rightarrow> sqlx_error option" where
  "database_conflict row t =
     (if existsWhere (\<lambda>s. ds_id s = ds_id row) t then Some (conflict_on ''databases_pkey'')
      else if existsWhere (\<lambda>s. ds_container_name s = ds_container_name row) t
      then Some (conflict_on ''databases_container_name_key'')
      else if ds_app_instance_id row \<noteq> None \<and> existsWhere (\<lambda>s. ds_project_id s = ds_project_id row
          \<and> ds_app_instance_id s = ds_app_instance_id row \<and> ds_type s = ds_type row) t
      then Some (conflict_on ''unique_db_per_target'')
      else None)"

definition check_database_quota :: "uuid \<Rightarrow> create_database_request \<Rightarrow> unit handler" where
  "check_database_quota ws_id p =
     andThen (onlyIf (0 < wanted_memory p) (check_workspace_memory_limit ws_id (wanted_memory p) None)) (\<lambda>_.
     onlyIf (0 < wanted_cpu p) (check_workspace_cpu_limit ws_id (wanted_cpu p) None))"

definition insert_database :: "database_service \<Rightarrow> unit handler" where
  "insert_database row = query (checked (\<lambda>w. database_conflict row (databases (db w)))
     (\<lambda>w. (db w)\<lparr>databases := insertRow row (databases (db w))\<rparr>))"

definition published_key :: "create_database_request \<Rightarrow> bool \<Rightarrow> string" where
  "published_key p taken =
     (let default_key = (if taken
            then sanitize_key_fragment (cd_name p) (to_uppercase (db_type_str (cd_type p))) @ ''_DATABASE_URL''
            else ''DATABASE_URL'')
      in case map_option trim (cd_env_key p) of
           Some custom \<Rightarrow> if custom = [] then default_key else sanitize_key_fragment custom default_key
         | None \<Rightarrow> default_key)"

definition publish_database :: "uuid \<Rightarrow> uuid \<Rightarrow> create_database_request \<Rightarrow> string \<Rightarrow> unit handler" where
  "publish_database ws_id db_id p url =
     andThen (query (fetch (\<lambda>w. existsWhere (\<lambda>r. pv_project_id r = cd_project_id p \<and> pv_key r = ''DATABASE_URL''
       \<and> pv_source_id r \<noteq> Some db_id) (project_env_variables (db w))))) (\<lambda>taken.
     andThen (publish_project_env ws_id (cd_project_id p) (published_key p taken) url True ''database'' db_id) (\<lambda>pe_id.
     case cd_app_instance_id p of
       None \<Rightarrow> ret ()
     | Some instance_id \<Rightarrow>
         andThen (query (checked
           (\<lambda>w. if existsWhere (\<lambda>ai. ai_id ai = instance_id) (app_instances (db w))
                \<and> existsWhere (\<lambda>r. pv_id r = pe_id) (project_env_variables (db w)) then None else Some fk_error)
           (\<lambda>w. (db w)\<lparr>app_env_links := insertIfAbsent
             (\<lambda>l. el_app_instance_id l = instance_id \<and> el_project_env_id l = pe_id)
             \<lparr>el_app_instance_id = instance_id, el_project_env_id = pe_id\<rparr> (app_env_links (db w))\<rparr>))) (\<lambda>_.
         hot_reload_if_running instance_id)))"

text \<open>
  The new row, from the drawn values. The response repeats its fields with the URL; the
  second component of the result is the spawned provisioning.
\<close>

definition new_database_row ::
  "uuid \<Rightarrow> create_database_request \<Rightarrow> uuid \<Rightarrow> string \<times> string \<Rightarrow> string \<Rightarrow> string \<Rightarrow> instant \<Rightarrow> database_service" where
  "new_database_row ws_id p db_id sealed usr name t =
     \<lparr>ds_id = db_id, ds_workspace_id = ws_id, ds_project_id = cd_project_id p, ds_app_instance_id = cd_app_instance_id p,
      ds_name = cd_name p, ds_type = cd_type p,
      ds_version = image_name (cd_type p) @ '':'' @ or_else (cd_version p) (default_version (cd_type p)),
      ds_db_user = usr, ds_db_password = fst sealed, ds_db_password_nonce = Some (snd sealed), ds_db_name = name,
      ds_container_name = ''h-db-'' @ db_type_str (cd_type p) @ ''-'' @ take 8 (uuid_str db_id),
      ds_internal_port = db_internal_port (cd_type p),
      ds_external_port = (if or_else (cd_is_external p) False
        then Some (or_else (cd_external_port p) (db_internal_port (cd_type p))) else None),
      ds_is_external = or_else (cd_is_external p) False, ds_storage_size_gb = wanted_storage p,
      ds_status = DbProvisioning, ds_cpu_limit = Some (or_else (cd_cpu_limit p) 0),
      ds_memory_limit_mb = Some (wanted_memory p), ds_backup_enabled = False, ds_backup_count = 7, ds_updated_at = t\<rparr>"

definition provisioning_of :: "database_service \<Rightarrow> string \<Rightarrow> provision_request" where
  "provisioning_of row pw =
     \<lparr>pq_workspace_id = ds_workspace_id row, pq_db_id = ds_id row, pq_type = ds_type row,
      pq_container = ds_container_name row, pq_image = ds_version row, pq_user = ds_db_user row, pq_password = pw,
      pq_name = ds_db_name row, pq_port = ds_internal_port row, pq_cpu = or_else (ds_cpu_limit row) 0,
      pq_memory = or_else (ds_memory_limit_mb row) 0, pq_storage = ds_storage_size_gb row,
      pq_external = ds_is_external row, pq_external_port = ds_external_port row\<rparr>"

definition create_database_locked ::
  "uuid \<Rightarrow> create_database_request \<Rightarrow> (database_service \<times> string \<times> provision_request) handler" where
  "create_database_locked ws_id p =
     andThen new_v4 (\<lambda>db_id.
     andThen random_string (\<lambda>raw_password.
     andThen (encrypt_env_value raw_password) (\<lambda>sealed.
     andThen random_string (\<lambda>u.
     andThen random_string (\<lambda>n.
     andThen now (\<lambda>t.
     let row = new_database_row ws_id p db_id sealed (''hermes_user_'' @ to_lowercase u) (''hermes_db_'' @ to_lowercase n) t;
         url = creation_url (ds_type row) (ds_db_user row) raw_password (ds_container_name row) (ds_internal_port row)
           (ds_db_name row)
     in
     andThen (check_database_quota ws_id p) (\<lambda>_.
     andThen (insert_database row) (\<lambda>_.
     andThen (broadcast_event (DatabaseStatusChanged ws_id db_id (ds_container_name row) ''provisioning'')) (\<lambda>_.
     andThen (onlyIf (or_else (cd_publish_to_env p) True) (publish_database ws_id db_id p url)) (\<lambda>_.
     ret (row, url, provisioning_of row raw_password)))))))))))"

definition create_database ::
  "session \<Rightarrow> claims \<Rightarrow> create_database_request \<Rightarrow> (database_service \<times> string \<times> provision_request) option handler" where
  "create_database s claims p =
     andThen (active_workspace claims) (\<lambda>ws_id. with_workspace_lock s ws_id (create_database_locked ws_id p))"

section \<open>Settings and deletion\<close>

record update_database_settings_request =
  us_cpu_limit :: int
  us_memory_limit_mb :: int
  us_backup_enabled :: "bool option"
  us_backup_count :: "int option"

definition rebind_database_url :: "uuid \<Rightarrow> uuid \<Rightarrow> string \<Rightarrow> unit handler" where
  "rebind_database_url ws_id instance_id url =
     andThen (encrypt_env_value url) (\<lambda>(enc, nonce).
     andThen new_v4 (\<lambda>i.
     query (checked
       (\<lambda>w. if existsWhere (\<lambda>ai. ai_id ai = instance_id) (app_instances (db w)) then None else Some fk_error)
       (\<lambda>w. let row = \<lparr>ev_id = i, ev_workspace_id = ws_id, ev_app_instance_id = instance_id, ev_key = ''DATABASE_URL'',
                        ev_encrypted_value = enc, ev_nonce = nonce, ev_is_secret = True\<rparr> in
            (db w)\<lparr>environment_variables := upsertRow (same_env_key row) row
              (\<lambda>x. x\<lparr>ev_encrypted_value := enc, ev_nonce := nonce\<rparr>) (environment_variables (db w))\<rparr>))))"

definition update_settings_locked :: "uuid \<Rightarrow> uuid \<Rightarrow> update_database_settings_request \<Rightarrow> unit handler" where
  "update_settings_locked ws_id db_id p =
     andThen (find_database ws_id db_id) (\<lambda>s.
     andThen (check_workspace_memory_limit ws_id (us_memory_limit_mb p) (Some db_id)) (\<lambda>_.
     andThen (onlyIf (0 < us_cpu_limit p) (check_workspace_cpu_limit ws_id (us_cpu_limit p) (Some db_id))) (\<lambda>_.
     let backup_enabled = or_else (us_backup_enabled p) False in
     andThen (query (execute (\<lambda>w. (db w)\<lparr>databases := updateWhere (\<lambda>x. ds_id x = db_id)
       (\<lambda>x. x\<lparr>ds_cpu_limit := Some (us_cpu_limit p), ds_memory_limit_mb := Some (us_memory_limit_mb p),
          ds_backup_enabled := backup_enabled, ds_backup_count := or_else (us_backup_count p) 7,
          ds_updated_at := clock w\<rparr>) (databases (db w))\<rparr>))) (\<lambda>_.
     andThen (if backup_enabled then discard (ensure_backup_cron db_id) else discard (remove_backup_cron db_id)) (\<lambda>_.
     andThen (stored_password s) (\<lambda>pw.
     andThen (case ds_app_instance_id s of None \<Rightarrow> ret () | Some i \<Rightarrow> rebind_database_url ws_id i (stored_url s pw)) (\<lambda>_.
     andThen (k8s_do GetClient) (\<lambda>_.
     andThen (k8s (DeployDatabase (ws_namespace ws_id) (ds_container_name s) (ds_version s)
       (container_envs (ds_type s) (ds_db_user s) pw (ds_db_name s)) (ds_internal_port s) (us_cpu_limit p)
       (us_memory_limit_mb p) (ds_storage_size_gb s))) (\<lambda>a.
     case a of
       Refused m \<Rightarrow> andThen (discard (update_db_status db_id DbFailed)) (\<lambda>_. raise (Infrastructure m))
     | _ \<Rightarrow> discard (update_db_status db_id DbRunning))))))))))"

definition update_database_settings ::
  "session \<Rightarrow> claims \<Rightarrow> uuid \<Rightarrow> update_database_settings_request \<Rightarrow> unit option handler" where
  "update_database_settings s claims db_id p =
     andThen (active_workspace claims) (\<lambda>ws_id. with_workspace_lock s ws_id (update_settings_locked ws_id db_id p))"

text \<open>Deleting databases takes the records of their backups with them.\<close>

definition delete_database_rows :: "(database_service \<Rightarrow> bool) \<Rightarrow> database \<Rightarrow> database" where
  "delete_database_rows p d =
     (let gone = map ds_id (selectWhere p (databases d)) in
      d\<lparr>databases := deleteWhere p (databases d),
        database_backups := deleteWhere (\<lambda>b. bk_database_id b \<in> set gone) (database_backups d)\<rparr>)"

definition delete_database :: "claims \<Rightarrow> uuid \<Rightarrow> unit handler" where
  "delete_database claims db_id =
     andThen (active_workspace claims) (\<lambda>ws_id.
     andThen (find_database ws_id db_id) (\<lambda>s.
     andThen (k8s GetClient) (\<lambda>c.
     andThen (case c of Refused _ \<Rightarrow> ret ()
       | _ \<Rightarrow> andThen (k8s (DeleteDatabase (ws_namespace ws_id) (ds_container_name s))) (\<lambda>_. ret ())) (\<lambda>_.
     let mine = (\<lambda>r. pv_source r = ''database'' \<and> pv_source_id r = Some db_id) in
     andThen (orElse (fetch (\<lambda>w. instances_linking mine (db w))) []) (\<lambda>linked.
     andThen (query (execute (\<lambda>w. delete_pool_vars mine (db w)))) (\<lambda>_.
     andThen (forEach linked hot_reload_if_running) (\<lambda>_.
     andThen (discard (execute (\<lambda>w. delete_cron_rows
       (\<lambda>j. cj_target_type j = ''database'' \<and> cj_target_id j = Some db_id) (db w)))) (\<lambda>_.
     andThen (purge_domains_for_target ws_id ''database'' db_id) (\<lambda>_.
     query (execute (\<lambda>w. delete_database_rows (\<lambda>x. ds_id x = db_id \<and> ds_workspace_id x = ws_id) (db w))))))))))))"

end
