(* ===== verification/Databases_Laws.thy ===== *)
theory Databases_Laws
  imports Databases Cron_Laws
begin

text \<open>
  What the managed databases promise: the quota holds under any interleaving of creations
  (the interpretation of \<open>quota_guard\<close> on the advisory locks and the memory accounting, and
  the refinement of the handler into its steps), what a creation writes, what it leaves
  behind when it fails half-way, and what a deletion removes.
\<close>

section \<open>The quota as a store\<close>

definition memory_cap :: "database \<Rightarrow> uuid \<Rightarrow> int" where
  "memory_cap d ws = (case firstWhere (\<lambda>r. w_id r = ws) (workspaces d) of None \<Rightarrow> 0 | Some r \<Rightarrow> w_max_memory_mb r)"

text \<open>The request passes the memory check in a world with these tables.\<close>

definition admits :: "uuid \<Rightarrow> int \<Rightarrow> database \<Rightarrow> bool" where
  "admits ws n d \<longleftrightarrow> memory_sane ws None d \<and> 0 < n \<and> n < 2 ^ 62
     \<and> (\<exists>w. faults w = [] \<and> db w = d \<and> fst (check_workspace_memory_limit ws n None w) = Inr ())"

text \<open>The tables before and after the insertion of an active database with that much memory.\<close>

definition inserts :: "uuid \<Rightarrow> int \<Rightarrow> database \<Rightarrow> database \<Rightarrow> bool" where
  "inserts ws n d d' \<longleftrightarrow> (\<exists>row w w'. faults w = [] \<and> db w = d \<and> insert_database row w = (Inr (), w') \<and> db w' = d'
     \<and> ds_workspace_id row = ws \<and> ds_memory_limit_mb row = Some n \<and> \<not> db_inactive (ds_status row))"

lemma insert_database_run:
  "faults w = [] \<Longrightarrow> insert_database row w =
     (case database_conflict row (databases (db w)) of
        None \<Rightarrow> (Inr (), w\<lparr>db := (db w)\<lparr>databases := databases (db w) @ [row]\<rparr>\<rparr>)
      | Some e \<Rightarrow> (Inl (from_sqlx e), w))"
  by (simp add: insert_database_def query_def mapErr_def checked_ok insertRow_def split: option.split)

lemma memory_used_insert:
  assumes "ds_memory_limit_mb row = Some n" "\<not> db_inactive (ds_status row)"
  shows "memory_used v None (d\<lparr>databases := databases d @ [row]\<rparr>) =
    memory_used v None d + (if v = ds_workspace_id row then n else 0)"
  using assms by (simp add: memory_used_def app_rows_def db_rows_def sf_rows_def selectWhere_def in_workspace_def)

lemma inserts_tables:
  assumes "inserts ws n d d'"
  shows "\<exists>row. d' = d\<lparr>databases := databases d @ [row]\<rparr> \<and> ds_workspace_id row = ws \<and> ds_memory_limit_mb row = Some n
    \<and> \<not> db_inactive (ds_status row)"
proof -
  from assms obtain row w w' where "faults w = []" "db w = d" "insert_database row w = (Inr (), w')" "db w' = d'"
    "ds_workspace_id row = ws" "ds_memory_limit_mb row = Some n" "\<not> db_inactive (ds_status row)"
    unfolding inserts_def by blast
  then show ?thesis by (intro exI [of _ row]) (auto simp: insert_database_run split: option.splits)
qed

interpretation memory: quota_store "\<lambda>d ws. memory_used ws None d" memory_cap admits inserts
proof unfold_locales
  fix w n and s t :: database
  show "memory_cap s w \<le> 0 \<or> memory_used w None s + n \<le> memory_cap s w" if "admits w n s"
  proof -
    from that obtain v where v: "faults v = []" "db v = s" "fst (check_workspace_memory_limit w n None v) = Inr ()"
      "memory_sane w None (db v)" "- (2 ^ 62) \<le> n" "n < 2 ^ 62"
      by (auto simp: admits_def)
    from memory_check_run [OF v(1,4,5,6)] v(2,3) show ?thesis
      by (auto simp: memory_cap_def split: option.splits if_splits)
  qed
  show "(\<lambda>ws. memory_used ws None t) = (\<lambda>ws. memory_used ws None s)(w := memory_used w None s + n)"
    if "inserts w n s t"
    using inserts_tables [OF that] by (auto simp: memory_used_insert fun_eq_iff)
  show "memory_cap t = memory_cap s" if "inserts w n s t"
    using inserts_tables [OF that] by (auto simp: memory_cap_def fun_eq_iff)
qed

interpretation create_guard: quota_guard held_once lock_owner pg_try_lock pg_unlock
  "\<lambda>d ws. memory_used ws None d" memory_cap admits inserts "\<lambda>ws. BigKey (workspace_key ws)" ..



section \<open>One creation is a path of the protocol\<close>

text \<open>The tables the quota looks at.\<close>

definition quota_tables ::
  "database \<Rightarrow> workspace list \<times> app list \<times> app_instance list \<times> database_service list \<times> serverless_instance list" where
  "quota_tables d = (workspaces d, apps d, app_instances d, databases d, serverless_instances d)"

lemma quota_tables_used:
  "quota_tables d = quota_tables d' \<Longrightarrow> memory_used ws x d = memory_used ws x d' \<and> memory_cap d ws = memory_cap d' ws"
  by (simp add: quota_tables_def memory_used_def memory_cap_def app_rows_def db_rows_def sf_rows_def in_workspace_def)

lemma quota_tables_update [simp]:
  "quota_tables (d\<lparr>project_env_variables := x1\<rparr>) = quota_tables d"
  "quota_tables (d\<lparr>app_env_links := x2\<rparr>) = quota_tables d"
  "quota_tables (d\<lparr>environment_variables := x3\<rparr>) = quota_tables d"
  "quota_tables (d\<lparr>cron_jobs := x4\<rparr>) = quota_tables d"
  by (simp_all add: quota_tables_def)

lemma calm_load_vars [calm_intros]: "keeps (calm k I) (load_vars g m)"
  unfolding load_vars_def by (intro keeps_intros calm_intros)

lemma calm_resolve_instance_env [calm_intros]: "keeps (calm k I) (resolve_instance_env i)"
  unfolding resolve_instance_env_def by (intro keeps_intros calm_intros)

lemma calm_hot_reload_instance_envs [calm_intros]: "keeps (calm k I) (hot_reload_instance_envs i c ws kn)"
  unfolding hot_reload_instance_envs_def by (intro keeps_intros calm_intros)

lemma calm_hot_reload_if_running [calm_intros]: "keeps (calm k I) (hot_reload_if_running i)"
  unfolding hot_reload_if_running_def by (intro keeps_intros calm_intros)

lemma calm_put_project_env [calm_intros]:
  "keeps (calm k (\<lambda>d. quota_tables d = Q)) (put_project_env row f)"
  by (auto simp: keeps_def calm_def put_project_env_def sql_ok split: sum.split prod.split)

lemma calm_publish_project_env [calm_intros]:
  "keeps (calm k (\<lambda>d. quota_tables d = Q)) (publish_project_env ws p key val sec src i)"
  unfolding publish_project_env_def
  by (intro keeps_intros calm_intros keeps_query calm_execute) (simp_all add: calm_def)

lemma calm_publish_database [calm_intros]:
  "keeps (calm k (\<lambda>d. quota_tables d = Q)) (publish_database ws i p url)"
  unfolding publish_database_def
  by (intro keeps_intros calm_intros keeps_query calm_checked) (simp_all add: calm_def)

lemma check_memory_state:
  "faults w = [] \<Longrightarrow> snd (check_workspace_memory_limit ws n x w) = w"
  by (simp add: check_workspace_memory_limit_def run_simps Let_def split: option.split sum.split)

lemma check_cpu_state:
  "faults w = [] \<Longrightarrow> snd (check_workspace_cpu_limit ws n x w) = w"
  by (simp add: check_workspace_cpu_limit_def run_simps Let_def split: option.split sum.split)

lemma check_database_quota_run:
  assumes "faults w = []" "check_database_quota ws p w = (r, w')"
  shows "w' = w \<and> (r = Inr () \<longrightarrow> 0 < wanted_memory p \<longrightarrow>
    fst (check_workspace_memory_limit ws (wanted_memory p) None w) = Inr ())"
  using assms(2) check_memory_state [OF assms(1), of ws "wanted_memory p" None]
    check_cpu_state [OF assms(1), of ws "wanted_cpu p" None]
  by (cases "check_workspace_memory_limit ws (wanted_memory p) None w";
      cases "check_workspace_cpu_limit ws (wanted_cpu p) None w")
    (auto simp: check_database_quota_def onlyIf_def andThen_def ret_def split: if_splits sum.splits)

lemma andThen_encrypt [step_simps]:
  "andThen (encrypt_env_value v) f w =
     (case seal (ext w) v (random_text w (drawn w)) of
        None \<Rightarrow> (Inl (Fatal (FromText ''Encryption failed'')), w\<lparr>drawn := Suc (drawn w)\<rparr>)
      | Some e \<Rightarrow> f (e, random_text w (drawn w)) (w\<lparr>drawn := Suc (drawn w)\<rparr>))"
  by (simp add: encrypt_env_value_def andThen_assoc step_simps split: option.split)


lemma setting_advisory: "setting w' = setting w \<Longrightarrow> advisory w' = advisory w"
  by (simp add: setting_def)

text \<open>The values a creation draws, the row made of them, and what follows its insertion.\<close>

definition drawn_password :: "world \<Rightarrow> string" where
  "drawn_password w = random_text w (Suc (drawn w))"

definition drawn_nonce :: "world \<Rightarrow> string" where
  "drawn_nonce w = random_text w (Suc (Suc (drawn w)))"

definition drawn_row :: "uuid \<Rightarrow> create_database_request \<Rightarrow> string \<Rightarrow> world \<Rightarrow> database_service" where
  "drawn_row ws p e w = new_database_row ws p (random_uuid w (drawn w)) (e, drawn_nonce w)
     (''hermes_user_'' @ to_lowercase (random_text w (Suc (Suc (Suc (drawn w))))))
     (''hermes_db_'' @ to_lowercase (random_text w (Suc (Suc (Suc (Suc (drawn w))))))) (clock w)"

definition row_url :: "database_service \<Rightarrow> string \<Rightarrow> string" where
  "row_url row pw = creation_url (ds_type row) (ds_db_user row) pw (ds_container_name row) (ds_internal_port row) (ds_db_name row)"

definition after_insert ::
  "uuid \<Rightarrow> create_database_request \<Rightarrow> database_service \<Rightarrow> string \<Rightarrow> (database_service \<times> string \<times> provision_request) handler" where
  "after_insert ws p row pw =
     andThen (broadcast_event (DatabaseStatusChanged ws (ds_id row) (ds_container_name row) ''provisioning'')) (\<lambda>_.
     andThen (onlyIf (or_else (cd_publish_to_env p) True) (publish_database ws (ds_id row) p (row_url row pw))) (\<lambda>_.
     ret (row, row_url row pw, provisioning_of row pw)))"

lemma drawn_row_fields [simp]:
  "ds_workspace_id (drawn_row ws p e w) = ws" "ds_memory_limit_mb (drawn_row ws p e w) = Some (wanted_memory p)"
  "ds_status (drawn_row ws p e w) = DbProvisioning" "ds_id (drawn_row ws p e w) = random_uuid w (drawn w)"
  "ds_project_id (drawn_row ws p e w) = cd_project_id p" "ds_app_instance_id (drawn_row ws p e w) = cd_app_instance_id p"
  by (simp_all add: drawn_row_def new_database_row_def)

lemma drawn_advisory [simp]:
  "drawn_row ws p e (w\<lparr>advisory := a\<rparr>) = drawn_row ws p e w"
  "drawn_password (w\<lparr>advisory := a\<rparr>) = drawn_password w" "drawn_nonce (w\<lparr>advisory := a\<rparr>) = drawn_nonce w"
  by (simp_all add: drawn_row_def drawn_password_def drawn_nonce_def)

lemma create_locked_run:
  "create_database_locked ws p w =
     (case seal (ext w) (drawn_password w) (drawn_nonce w) of
        None \<Rightarrow> (Inl (Fatal (FromText ''Encryption failed'')), w\<lparr>drawn := Suc (Suc (Suc (drawn w)))\<rparr>)
      | Some e \<Rightarrow> andThen (check_database_quota ws p) (\<lambda>_. andThen (insert_database (drawn_row ws p e w))
          (\<lambda>_. after_insert ws p (drawn_row ws p e w) (drawn_password w)))
          (w\<lparr>drawn := Suc (Suc (Suc (Suc (Suc (drawn w)))))\<rparr>))"
  by (simp add: create_database_locked_def step_simps Let_def drawn_password_def drawn_nonce_def drawn_row_def
      new_database_row_def after_insert_def row_url_def split: option.split)

lemma calm_after_insert: "keeps (calm k (\<lambda>d. quota_tables d = Q)) (after_insert ws p row pw)"
  unfolding after_insert_def by (intro keeps_intros calm_intros)

text \<open>
  How the body ends: before the insertion with the tables as they were, or after it with
  the new row in place, whatever becomes of the publication.
\<close>

lemma create_locked_outcome:
  assumes "faults w = []" "create_database_locked ws p w = (r, w')"
  shows "faults w' = [] \<and> advisory w' = advisory w \<and>
    (db w' = db w \<and> isl r \<or>
     (\<exists>row. ds_workspace_id row = ws \<and> ds_memory_limit_mb row = Some (wanted_memory p) \<and> ds_status row = DbProvisioning
        \<and> database_conflict row (databases (db w)) = None
        \<and> quota_tables (db w') = quota_tables ((db w)\<lparr>databases := databases (db w) @ [row]\<rparr>)
        \<and> (0 < wanted_memory p \<longrightarrow>
             (\<exists>v. faults v = [] \<and> db v = db w \<and> fst (check_workspace_memory_limit ws (wanted_memory p) None v) = Inr ()))))"
proof (cases "seal (ext w) (drawn_password w) (drawn_nonce w)")
  case None
  with assms show ?thesis by (auto simp: create_locked_run)
next
  case (Some e)
  let ?w5 = "w\<lparr>drawn := Suc (Suc (Suc (Suc (Suc (drawn w)))))\<rparr>"
  let ?row = "drawn_row ws p e w"
  obtain q w6 where q: "check_database_quota ws p ?w5 = (q, w6)" by fastforce
  have quota: "w6 = ?w5" "q = Inr () \<Longrightarrow> 0 < wanted_memory p \<Longrightarrow>
      fst (check_workspace_memory_limit ws (wanted_memory p) None ?w5) = Inr ()"
    using check_database_quota_run [OF _ q] assms(1) by auto
  note run = create_locked_run [of ws p w, unfolded Some option.case]
  show ?thesis
  proof (cases "isl q \<or> database_conflict ?row (databases (db w)) \<noteq> None")
    case True
    then show ?thesis using assms run q quota(1)
      by (cases q) (auto simp: andThen_def insert_database_run)
  next
    case False
    then have qu: "q = Inr ()" and free: "database_conflict ?row (databases (db w)) = None" by (cases q; simp)+
    let ?w7 = "?w5\<lparr>db := (db w)\<lparr>databases := databases (db w) @ [?row]\<rparr>\<rparr>"
    let ?P = "calm (setting w) (\<lambda>d. quota_tables d = quota_tables ((db w)\<lparr>databases := databases (db w) @ [?row]\<rparr>))"
    have tail: "create_database_locked ws p w = after_insert ws p ?row (drawn_password w) ?w7"
      using free assms(1) q quota(1) qu unfolding run by (simp add: andThen_def insert_database_run)
    have "?P ?w7" using assms(1) by (simp add: calm_def)
    from keepsD [OF calm_after_insert this, of ws p ?row "drawn_password w"] have "?P w'"
      using assms(2) by (simp add: tail)
    then show ?thesis
      using free quota(2) qu assms(1)
      by (intro conjI disjI2 exI [of _ ?row]) (auto simp: calm_def dest: setting_advisory intro!: exI [of _ ?w5])
  qed
qed

lemma create_database_path:
  assumes "faults w = []" "c_current_workspace_id c = Some ws" "lock_owner (advisory w) (BigKey (workspace_key ws)) = None"
    and "memory_sane ws None (db w)" "0 < wanted_memory p" "wanted_memory p < 2 ^ 62"
    and "create_database s c p w = (r, w')"
  shows "create_guard.guard_reach (advisory w, db w, \<lambda>_. Outside) (advisory w', db w', \<lambda>_. Outside)"
proof -
  let ?k = "BigKey (workspace_key ws)"
  let ?in = "(\<lambda>_. Outside)(s := Inside ws)"
  obtain t where t: "pg_try_lock s ?k (advisory w) = Some t"
    using advisory.grab_free [OF assms(3)] by blast
  let ?w1 = "w\<lparr>advisory := t\<rparr>"
  obtain q w2 where q: "create_database_locked ws p ?w1 = (q, w2)" by fastforce
  have out: "faults w2 = []" "advisory w2 = t"
    using create_locked_outcome [OF _ q] assms(1) by simp_all
  let ?w3 = "w2\<lparr>advisory := pg_unlock s ?k t\<rparr>"
  have w': "w' = ?w3"
    using assms(1,2,7) t q out
    by (cases q) (auto simp: create_database_def active_workspace_def with_workspace_lock_def dropping_def
        drop_workspace_lock_def pg_advisory_unlock_def acquire_workspace_lock_run discard_def andThen_def okOr_def ret_def)
  have enter: "create_guard.guard_reach (advisory w, db w, \<lambda>_. Outside) (t, db w, ?in)"
    by (rule create_guard.guard_reach.steps [OF create_guard.guard_reach.start])
      (rule create_guard.guard_step.enter, simp_all add: assms(3) t)
  have leave: "create_guard.guard_step (t, d, ?in) (pg_unlock s ?k t, d, \<lambda>_. Outside)" for d
  proof -
    have out: "?in(s := Outside) = (\<lambda>_. Outside)" by (simp add: fun_eq_iff)
    have "create_guard.guard_step (t, d, ?in) (pg_unlock s ?k t, d, ?in(s := Outside))"
      by (rule create_guard.guard_step.leave) simp
    then show ?thesis by (simp only: out)
  qed
  have "db w2 = db w \<or> (\<exists>d. create_guard.guard_reach (t, db w, ?in) (t, d, ?in) \<and> d = db w2)"
  proof (cases "db w2 = db w")
    case False
    with create_locked_outcome [OF _ q] assms(1,5) obtain row v where row: "ds_workspace_id row = ws"
      "ds_memory_limit_mb row = Some (wanted_memory p)" "ds_status row = DbProvisioning"
      "database_conflict row (databases (db w)) = None"
      and tabs: "quota_tables (db w2) = quota_tables ((db w)\<lparr>databases := databases (db w) @ [row]\<rparr>)"
      and v: "faults v = []" "db v = db w" "fst (check_workspace_memory_limit ws (wanted_memory p) None v) = Inr ()"
      by auto
    let ?d1 = "(db w)\<lparr>databases := databases (db w) @ [row]\<rparr>"
    have adm: "admits ws (wanted_memory p) (db w)"
      using v assms(4,5,6) unfolding admits_def by blast
    have "insert_database row w = (Inr (), w\<lparr>db := ?d1\<rparr>)"
      using row(4) assms(1) by (simp add: insert_database_run)
    then have ins: "inserts ws (wanted_memory p) (db w) ?d1"
      using assms(1) row unfolding inserts_def
      by (intro exI [of _ row] exI [of _ w] exI [of _ "w\<lparr>db := ?d1\<rparr>"]) (simp add: db_inactive_def)
    have 1: "create_guard.guard_step (t, db w, ?in) (t, db w, ?in(s := Admitted ws (wanted_memory p)))"
      by (rule create_guard.guard_step.decide [OF _ adm]) simp
    have 2: "create_guard.guard_step (t, db w, ?in(s := Admitted ws (wanted_memory p))) (t, ?d1, ?in)"
      using create_guard.guard_step.commit [of "?in(s := Admitted ws (wanted_memory p))" s ws "wanted_memory p", OF _ ins]
      by simp
    have 3: "create_guard.guard_step (t, ?d1, ?in) (t, db w2, ?in)"
      using quota_tables_used [OF tabs] by (intro create_guard.guard_step.shrink) simp_all
    have "create_guard.guard_reach (t, db w, ?in) (t, db w2, ?in)"
      by (intro create_guard.guard_reach.steps [OF _ 3] create_guard.guard_reach.steps [OF _ 2]
          create_guard.guard_reach.steps [OF _ 1] create_guard.guard_reach.start)
    then show ?thesis by blast
  qed simp
  then have "create_guard.guard_reach (t, db w, ?in) (t, db w2, ?in)"
    using create_guard.guard_reach.start by auto
  with enter have "create_guard.guard_reach (advisory w, db w, \<lambda>_. Outside) (t, db w2, ?in)"
    by (rule create_guard.guard_reach_trans)
  from create_guard.guard_reach.steps [OF this leave] show ?thesis by (simp add: w')
qed



section \<open>What a creation writes\<close>

lemma check_quota_tables:
  assumes "faults v = []" "faults w = []" "db v = db w"
  shows "fst (check_database_quota ws p v) = fst (check_database_quota ws p w)"
proof -
  have mem: "check_workspace_memory_limit ws n x v = (fst (check_workspace_memory_limit ws n x w), v)" for n x
    using assms check_memory_state [OF assms(1)]
    by (intro prod_eqI) (simp_all add: check_workspace_memory_limit_def run_simps Let_def split: option.split sum.split)
  have cpu: "check_workspace_cpu_limit ws n x v = (fst (check_workspace_cpu_limit ws n x w), v)" for n x
    using assms check_cpu_state [OF assms(1)]
    by (intro prod_eqI) (simp_all add: check_workspace_cpu_limit_def run_simps Let_def split: option.split sum.split)
  have memw: "check_workspace_memory_limit ws n x w = (fst (check_workspace_memory_limit ws n x w), w)" for n x
    using check_memory_state [OF assms(2)] by (metis prod.collapse)
  have cpuw: "check_workspace_cpu_limit ws n x w = (fst (check_workspace_cpu_limit ws n x w), w)" for n x
    using check_cpu_state [OF assms(2)] by (metis prod.collapse)
  show ?thesis
    unfolding check_database_quota_def onlyIf_def andThen_def ret_def
    using mem [of "wanted_memory p" None] memw [of "wanted_memory p" None] cpu [of "wanted_cpu p" None] cpuw [of "wanted_cpu p" None]
    by (cases "fst (check_workspace_memory_limit ws (wanted_memory p) None w)") auto
qed

text \<open>A request that gets the lock, passes the quota and conflicts with no row.\<close>

definition grantable :: "claims \<Rightarrow> uuid \<Rightarrow> create_database_request \<Rightarrow> string \<Rightarrow> world \<Rightarrow> bool" where
  "grantable c ws p e w \<longleftrightarrow> faults w = [] \<and> c_current_workspace_id c = Some ws
     \<and> advisory w (BigKey (workspace_key ws)) = None
     \<and> seal (ext w) (drawn_password w) (drawn_nonce w) = Some e
     \<and> fst (check_database_quota ws p w) = Inr ()
     \<and> database_conflict (drawn_row ws p e w) (databases (db w)) = None"

definition inserted_world :: "session \<Rightarrow> uuid \<Rightarrow> create_database_request \<Rightarrow> string \<Rightarrow> world \<Rightarrow> world" where
  "inserted_world s ws p e w = w\<lparr>advisory := (advisory w)(BigKey (workspace_key ws) \<mapsto> (s, 1)),
     drawn := Suc (Suc (Suc (Suc (Suc (drawn w))))),
     db := (db w)\<lparr>databases := databases (db w) @ [drawn_row ws p e w]\<rparr>\<rparr>"

lemma create_database_run:
  assumes "grantable c ws p e w" "after_insert ws p (drawn_row ws p e w) (drawn_password w) (inserted_world s ws p e w) = (r, w1)"
  shows "create_database s c p w =
    (map_sum id Some r, w1\<lparr>advisory := advisory w\<rparr>)"
proof -
  let ?k = "BigKey (workspace_key ws)"
  let ?w1 = "w\<lparr>advisory := (advisory w)(?k \<mapsto> (s, 1))\<rparr>"
  let ?w6 = "?w1\<lparr>drawn := Suc (Suc (Suc (Suc (Suc (drawn w)))))\<rparr>"
  note g = assms(1) [unfolded grantable_def]
  have lock: "acquire_workspace_lock s ws w = (Inr True, ?w1)"
    using g by (simp add: acquire_workspace_lock_run pg_try_lock_def)
  obtain q v where q: "check_database_quota ws p ?w6 = (q, v)" by fastforce
  have "v = ?w6" using check_database_quota_run [OF _ q] g by simp
  moreover have "q = Inr ()" using check_quota_tables [of ?w6 w ws p] g q by simp
  ultimately have "create_database_locked ws p ?w1 = after_insert ws p (drawn_row ws p e w) (drawn_password w) (inserted_world s ws p e w)"
    using g q by (simp add: create_locked_run andThen_def insert_database_run inserted_world_def)
  then have body: "create_database_locked ws p ?w1 = (r, w1)" using assms(2) by simp
  have end_: "faults w1 = []" "advisory w1 = advisory ?w1"
    using create_locked_outcome [OF _ body] g by simp_all
  then have "drop_workspace_lock s ws w1 = (Inr (), w1\<lparr>advisory := advisory w\<rparr>)"
    using g by (simp add: drop_workspace_lock_def pg_advisory_unlock_def discard_def pg_unlock_def fun_upd_idem)
  then show ?thesis
    using g lock body
    by (cases r) (simp_all add: create_database_def active_workspace_def with_workspace_lock_def dropping_def andThen_def
        okOr_def ret_def)
qed

text \<open>Publishing a value: the row under the key, new or overwritten.\<close>

definition published :: "externals \<Rightarrow> uuid \<Rightarrow> string \<Rightarrow> string \<Rightarrow> string \<Rightarrow> uuid \<Rightarrow> project_env_variable \<Rightarrow> bool" where
  "published x proj key val src i v \<longleftrightarrow> pv_project_id v = proj \<and> pv_key v = key \<and> pv_source v = src
     \<and> pv_source_id v = Some i \<and> pv_is_secret v \<and> unseal x (pv_encrypted_value v) (pv_nonce v) = Some val"

lemma upsert_member:
  "p r \<Longrightarrow> \<exists>x \<in> set (upsertRow p r f t). x = r \<or> (\<exists>y \<in> set t. p y \<and> x = f y)"
proof (cases "existsWhere p t")
  case True
  then obtain y where y: "y \<in> set t" "p y" by (auto simp: existsWhere_iff)
  then have "f y \<in> set (upsertRow p r f t)" using True by (auto simp: upsertRow_def set_updateWhere)
  with y show ?thesis by blast
next
  case False
  then show ?thesis by (simp add: upsertRow_def set_insertRow)
qed

lemma query_put_project_env:
  "faults w = [] \<Longrightarrow> query (put_project_env row f) w =
     (if \<not> existsWhere (\<lambda>p. pr_id p = pv_project_id row) (projects (db w)) then (Inl (from_sqlx fk_error), w)
      else if existsWhere (\<lambda>r. pv_id r = pv_id row) (project_env_variables (db w))
      then (Inl (from_sqlx (conflict_on ''project_env_variables_pkey'')), w)
      else (Inr (case firstWhere (same_pool_key row) (project_env_variables (db w)) of None \<Rightarrow> pv_id row | Some r \<Rightarrow> pv_id r),
        w\<lparr>db := (db w)\<lparr>project_env_variables := upsertRow (same_pool_key row) row f (project_env_variables (db w))\<rparr>\<rparr>))"
  by (simp add: query_def mapErr_def put_project_env_def sql_ok)

lemma publish_unknown_project:
  assumes "faults w = []" "\<not> existsWhere (\<lambda>pr. pr_id pr = proj) (projects (db w))"
    and "\<forall>v \<in> set (project_env_variables (db w)). pv_project_id v \<noteq> proj"
  shows "\<exists>e w'. publish_project_env ws proj key val sec src i w = (Inl e, w') \<and> db w' = db w \<and> k8s_calls w' = k8s_calls w
    \<and> events w' = events w"
proof -
  have "firstWhere (\<lambda>r. pv_project_id r = proj \<and> pv_source r = src \<and> pv_source_id r = Some i) (project_env_variables (db w)) = None"
    using assms(3) by (simp add: firstWhere_None)
  with assms(1,2) show ?thesis
    by (cases "seal (ext w) val (random_text w (drawn w))")
      (simp_all add: publish_project_env_def step_simps query_put_project_env)
qed

text \<open>
  A database created for a project that does not exist (the handler never checks it)
  is half-made: the answer is an error, but the row stays, in the state provisioning,
  counted by the quota, and nothing is deployed for it.
\<close>

theorem failed_publication_leaves_orphan:
  assumes "grantable c ws p e w" "or_else (cd_publish_to_env p) True"
    and "\<not> existsWhere (\<lambda>pr. pr_id pr = cd_project_id p) (projects (db w))"
    and "\<forall>v \<in> set (project_env_variables (db w)). pv_project_id v \<noteq> cd_project_id p"
  shows "\<exists>err w' row. create_database s c p w = (Inl err, w') \<and> databases (db w') = databases (db w) @ [row]
    \<and> ds_project_id row = cd_project_id p \<and> ds_status row = DbProvisioning \<and> \<not> db_inactive (ds_status row)
    \<and> ds_memory_limit_mb row = Some (wanted_memory p) \<and> k8s_calls w' = k8s_calls w"
proof -
  let ?row = "drawn_row ws p e w"
  let ?w = "(inserted_world s ws p e w)\<lparr>events := events w @ [DatabaseStatusChanged ws (ds_id ?row) (ds_container_name ?row) ''provisioning'']\<rparr>"
  have f: "faults ?w = []" "db ?w = (db w)\<lparr>databases := databases (db w) @ [?row]\<rparr>" "k8s_calls ?w = k8s_calls w"
    "faults (inserted_world s ws p e w) = []"
    using assms(1) by (simp_all add: inserted_world_def grantable_def)
  obtain err w1 where pub: "publish_project_env ws (cd_project_id p) (published_key p False) (row_url ?row (drawn_password w)) True
      ''database'' (ds_id ?row) ?w = (Inl err, w1)" "db w1 = db ?w" "k8s_calls w1 = k8s_calls ?w"
    using publish_unknown_project [of ?w "cd_project_id p"] f assms(3,4) by force
  have taken: "\<not> existsWhere (\<lambda>r. pv_project_id r = cd_project_id p \<and> pv_key r = ''DATABASE_URL'' \<and> pv_source_id r \<noteq> Some (ds_id ?row))
      (project_env_variables (db ?w))"
    using assms(4) f(2) by (auto simp: existsWhere_iff)
  have "publish_database ws (ds_id ?row) p (row_url ?row (drawn_password w)) ?w = (Inl err, w1)"
    using taken pub(1) f(1) unfolding publish_database_def
    by (simp add: andThen_query_fetch andThen_stop [where m = "publish_project_env a b k u t sr i" for a b k u t sr i])
  then have "after_insert ws p ?row (drawn_password w) (inserted_world s ws p e w) = (Inl err, w1)"
    using assms(2) unfolding after_insert_def
    by (simp add: step_simps andThen_stop [where m = "publish_database a i p u" for a i u] inserted_world_def)
  from create_database_run [OF assms(1) this]
  have "create_database s c p w = (Inl err, w1\<lparr>advisory := advisory w\<rparr>)" by simp
  moreover have "databases (db (w1\<lparr>advisory := advisory w\<rparr>)) = databases (db w) @ [?row]" using pub(2) f(2) by simp
  ultimately show ?thesis
    using pub(3) f(3) by (intro exI [of _ err] exI [of _ "w1\<lparr>advisory := advisory w\<rparr>"] exI [of _ ?row]) (simp add: db_inactive_def)
qed


lemma publish_known_project:
  assumes "faults w = []" "existsWhere (\<lambda>pr. pr_id pr = proj) (projects (db w))"
    and "\<exists>e. seal (ext w) val (random_text w (drawn w)) = Some e \<and> unseal (ext w) e (random_text w (drawn w)) = Some val"
    and "\<forall>v \<in> set (project_env_variables (db w)). pv_id v \<noteq> random_uuid w (Suc (drawn w)) \<and> pv_source_id v \<noteq> Some i"
  shows "\<exists>pe w' vs. publish_project_env ws proj key val True src i w = (Inr pe, w') \<and> faults w' = [] \<and> ext w' = ext w
    \<and> advisory w' = advisory w \<and> db w' = (db w)\<lparr>project_env_variables := vs\<rparr>
    \<and> (\<exists>v \<in> set vs. published (ext w) proj key val src i v \<and> pv_id v = pe)"
proof -
  obtain e where e: "seal (ext w) val (random_text w (drawn w)) = Some e"
    "unseal (ext w) e (random_text w (drawn w)) = Some val" using assms(3) by blast
  let ?pool = "project_env_variables (db w)"
  let ?row = "\<lparr>pv_id = random_uuid w (Suc (drawn w)), pv_workspace_id = ws, pv_project_id = proj, pv_key = key,
     pv_encrypted_value = e, pv_nonce = random_text w (drawn w), pv_is_secret = True, pv_source = src, pv_source_id = Some i\<rparr>"
  let ?f = "\<lambda>x. x\<lparr>pv_encrypted_value := e, pv_nonce := random_text w (drawn w), pv_is_secret := True, pv_source := src,
     pv_source_id := Some i\<rparr>"
  let ?vs = "upsertRow (same_pool_key ?row) ?row ?f ?pool"
  let ?pe = "case firstWhere (same_pool_key ?row) ?pool of None \<Rightarrow> pv_id ?row | Some r \<Rightarrow> pv_id r"
  have none: "firstWhere (\<lambda>r. pv_project_id r = proj \<and> pv_source r = src \<and> pv_source_id r = Some i) ?pool = None"
    using assms(4) by (auto simp: firstWhere_None)
  have fresh: "\<not> existsWhere (\<lambda>r. pv_id r = random_uuid w (Suc (drawn w))) ?pool"
    using assms(4) by (auto simp: existsWhere_iff)
  have run: "publish_project_env ws proj key val True src i w =
      (Inr ?pe, w\<lparr>drawn := Suc (Suc (drawn w)), db := (db w)\<lparr>project_env_variables := ?vs\<rparr>\<rparr>)"
    using assms(1,2) none fresh e(1) by (simp add: publish_project_env_def step_simps query_put_project_env)
  have "\<exists>v \<in> set ?vs. published (ext w) proj key val src i v \<and> pv_id v = ?pe"
  proof (cases "firstWhere (same_pool_key ?row) ?pool")
    case None
    then have "?row \<in> set ?vs" by (auto simp: upsertRow_def existsWhere_iff firstWhere_None set_insertRow)
    moreover have "published (ext w) proj key val src i ?row" using e(2) by (simp add: published_def)
    ultimately show ?thesis using None by (intro bexI [of _ ?row]) simp_all
  next
    case (Some y)
    then have y: "y \<in> set ?pool" "same_pool_key ?row y" by (auto dest: firstWhere_Some)
    then have "?f y \<in> set ?vs" by (auto simp: upsertRow_def existsWhere_iff set_updateWhere)
    moreover have "published (ext w) proj key val src i (?f y)"
      using y(2) e(2) by (simp add: published_def same_pool_key_def)
    ultimately show ?thesis using Some by (intro bexI [of _ "?f y"]) simp_all
  qed
  with run assms(1) show ?thesis
    by (intro exI [of _ ?pe] exI [of _ "w\<lparr>drawn := Suc (Suc (drawn w)), db := (db w)\<lparr>project_env_variables := ?vs\<rparr>\<rparr>"]
        exI [of _ ?vs]) simp
qed

lemma publish_database_ok:
  assumes "faults w = []" "existsWhere (\<lambda>pr. pr_id pr = cd_project_id p) (projects (db w))"
    and "\<forall>v n. \<exists>e. seal (ext w) v n = Some e \<and> unseal (ext w) e n = Some v"
    and "\<forall>v \<in> set (project_env_variables (db w)). \<forall>n. pv_id v \<noteq> random_uuid w n" "\<forall>v \<in> set (project_env_variables (db w)). pv_source_id v \<noteq> Some i"
    and "\<And>a. cd_app_instance_id p = Some a \<Longrightarrow> existsWhere (\<lambda>ai. ai_id ai = a) (app_instances (db w))"
  shows "\<exists>w' taken v. publish_database ws i p url w = (Inr (), w') \<and> databases (db w') = databases (db w)
    \<and> v \<in> set (project_env_variables (db w'))
    \<and> published (ext w) (cd_project_id p) (published_key p taken) url ''database'' i v
    \<and> (\<forall>a. cd_app_instance_id p = Some a \<longrightarrow> \<lparr>el_app_instance_id = a, el_project_env_id = pv_id v\<rparr> \<in> set (app_env_links (db w')))"
proof -
  let ?taken = "existsWhere (\<lambda>r. pv_project_id r = cd_project_id p \<and> pv_key r = ''DATABASE_URL'' \<and> pv_source_id r \<noteq> Some i)
      (project_env_variables (db w))"
  have fresh: "\<forall>v \<in> set (project_env_variables (db w)). pv_id v \<noteq> random_uuid w (Suc (drawn w)) \<and> pv_source_id v \<noteq> Some i"
    using assms(4,5) by blast
  have sealed: "\<exists>e. seal (ext w) url (random_text w (drawn w)) = Some e \<and> unseal (ext w) e (random_text w (drawn w)) = Some url"
    using assms(3) by blast
  obtain pe w1 vs where pub: "publish_project_env ws (cd_project_id p) (published_key p ?taken) url True ''database'' i w = (Inr pe, w1)"
    "faults w1 = []" "db w1 = (db w)\<lparr>project_env_variables := vs\<rparr>"
    and v: "\<exists>v \<in> set vs. published (ext w) (cd_project_id p) (published_key p ?taken) url ''database'' i v \<and> pv_id v = pe"
    using publish_known_project [OF assms(1,2) sealed fresh] by blast
  from v obtain v where v: "v \<in> set vs" "published (ext w) (cd_project_id p) (published_key p ?taken) url ''database'' i v"
    "pv_id v = pe" by blast
  note start = publish_database_def andThen_query_fetch [OF assms(1)]
    andThen_run [where m = "publish_project_env ws (cd_project_id p) (published_key p ?taken) url True ''database'' i", OF pub(1)]
  show ?thesis
  proof (cases "cd_app_instance_id p")
    case None
    then have "publish_database ws i p url w = (Inr (), w1)" by (simp add: start ret_step)
    with None v pub(3) show ?thesis by (intro exI [of _ w1] exI [of _ ?taken] exI [of _ v]) simp
  next
    case (Some a)
    let ?link = "\<lparr>el_app_instance_id = a, el_project_env_id = pe\<rparr>"
    let ?links = "insertIfAbsent (\<lambda>l. el_app_instance_id l = a \<and> el_project_env_id l = pe) ?link (app_env_links (db w1))"
    let ?w2 = "w1\<lparr>db := (db w1)\<lparr>app_env_links := ?links\<rparr>\<rparr>"
    have ex: "existsWhere (\<lambda>ai. ai_id ai = a) (app_instances (db w1))" "existsWhere (\<lambda>r. pv_id r = pe) (project_env_variables (db w1))"
      using assms(6) [OF Some] v pub(3) by (auto simp: existsWhere_iff)
    obtain w3 where hot: "hot_reload_if_running a ?w2 = (Inr (), w3)" using hot_reload_succeeds by blast
    have db3: "db w3 = db ?w2" using db_hot_reload [OF hot] .
    have "publish_database ws i p url w = (Inr (), w3)"
      using Some ex hot by (simp add: start andThen_query_checked [OF pub(2)])
    moreover have "?link \<in> set ?links"
      by (auto simp: insertIfAbsent_def set_insertRow existsWhere_iff) (metis app_env_link.surjective old.unit.exhaust)
    ultimately show ?thesis
      using Some v pub(3) db3 by (intro exI [of _ w3] exI [of _ ?taken] exI [of _ v]) simp
  qed
qed

text \<open>
  A granted creation writes the row in the caller's workspace and publishes the
  connection string, encrypted, under the suggested or requested key in the pool of the
  request's project, linked to the bound instance if there is one. Nothing relates that
  project or that instance to the caller's workspace.
\<close>

theorem creation_publishes_the_url:
  assumes "grantable c ws p e w" "or_else (cd_publish_to_env p) True"
    and "existsWhere (\<lambda>pr. pr_id pr = cd_project_id p) (projects (db w))"
    and "\<forall>v n. \<exists>e. seal (ext w) v n = Some e \<and> unseal (ext w) e n = Some v"
    and "\<forall>v \<in> set (project_env_variables (db w)). \<forall>n. pv_id v \<noteq> random_uuid w n \<and> pv_source_id v \<noteq> Some (random_uuid w n)"
    and "\<And>a. cd_app_instance_id p = Some a \<Longrightarrow> existsWhere (\<lambda>ai. ai_id ai = a) (app_instances (db w))"
  shows "\<exists>row url q w' taken v. create_database s c p w = (Inr (Some (row, url, q)), w') \<and> advisory w' = advisory w
    \<and> databases (db w') = databases (db w) @ [row] \<and> ds_workspace_id row = ws \<and> ds_project_id row = cd_project_id p
    \<and> q = provisioning_of row (drawn_password w)
    \<and> v \<in> set (project_env_variables (db w'))
    \<and> published (ext w) (cd_project_id p) (published_key p taken) url ''database'' (ds_id row) v
    \<and> (\<forall>a. cd_app_instance_id p = Some a \<longrightarrow> \<lparr>el_app_instance_id = a, el_project_env_id = pv_id v\<rparr> \<in> set (app_env_links (db w')))"
proof -
  let ?row = "drawn_row ws p e w"
  let ?url = "row_url ?row (drawn_password w)"
  let ?w = "(inserted_world s ws p e w)\<lparr>events := events w @ [DatabaseStatusChanged ws (ds_id ?row) (ds_container_name ?row) ''provisioning'']\<rparr>"
  have f: "faults ?w = []" "db ?w = (db w)\<lparr>databases := databases (db w) @ [?row]\<rparr>" "ext ?w = ext w" "random_uuid ?w = random_uuid w"
    using assms(1) by (simp_all add: inserted_world_def grantable_def)
  obtain w1 taken v where pub: "publish_database ws (ds_id ?row) p ?url ?w = (Inr (), w1)" "databases (db w1) = databases (db ?w)"
    "v \<in> set (project_env_variables (db w1))"
    "published (ext w) (cd_project_id p) (published_key p taken) ?url ''database'' (ds_id ?row) v"
    "\<forall>a. cd_app_instance_id p = Some a \<longrightarrow> \<lparr>el_app_instance_id = a, el_project_env_id = pv_id v\<rparr> \<in> set (app_env_links (db w1))"
    using publish_database_ok [of ?w p "ds_id ?row" ws ?url] f assms(3,4,5,6) by auto
  have "after_insert ws p ?row (drawn_password w) (inserted_world s ws p e w) = (Inr (?row, ?url, provisioning_of ?row (drawn_password w)), w1)"
    using assms(2) pub(1) unfolding after_insert_def
    by (simp add: step_simps andThen_run [where m = "publish_database a i p u" for a i u] inserted_world_def)
  from create_database_run [OF assms(1) this]
  have "create_database s c p w = (Inr (Some (?row, ?url, provisioning_of ?row (drawn_password w))), w1\<lparr>advisory := advisory w\<rparr>)"
    by simp
  with pub f(2) show ?thesis
    by (intro exI [of _ ?row] exI [of _ ?url] exI [of _ "provisioning_of ?row (drawn_password w)"]
        exI [of _ "w1\<lparr>advisory := advisory w\<rparr>"] exI [of _ taken] exI [of _ v]) simp
qed


section \<open>Deletion\<close>

lemma forEach_total:
  assumes "\<And>x w. \<exists>w'. f x w = (Inr (), w')"
  shows "\<exists>w'. forEach xs f w = (Inr (), w')"
proof (induction xs arbitrary: w)
  case (Cons x xs)
  obtain w1 where "f x w = (Inr (), w1)" using assms by blast
  with Cons.IH [of w1] show ?case by (simp add: andThen_def)
qed (simp add: ret_def)

text \<open>An action that always succeeds and keeps the tables in a run without failing statements.\<close>

lemma calm_run:
  assumes "faults w = []" "keeps (calm (setting w) (\<lambda>d. d = db w)) m" "\<exists>w'. m w = (Inr x, w')"
  shows "\<exists>w'. m w = (Inr x, w') \<and> faults w' = [] \<and> db w' = db w"
proof -
  obtain w' where m: "m w = (Inr x, w')" using assms(3) by blast
  have "calm (setting w) (\<lambda>d. d = db w) w" using assms(1) by (simp add: calm_def)
  from keeps_step [OF assms(2) this m] m show ?thesis by (simp add: calm_def)
qed

lemma hot_reload_all_run:
  "faults w = [] \<Longrightarrow> \<exists>w'. forEach is hot_reload_if_running w = (Inr (), w') \<and> faults w' = [] \<and> db w' = db w"
  by (intro calm_run forEach_total hot_reload_succeeds keeps_forEach calm_intros)

lemma teardown_returns: "\<exists>w'. teardown_domain_resources ws d w = (Inr (), w')"
  using answersD [OF answers_teardown] by simp

lemma teardown_all_run:
  assumes "faults w = []"
  shows "\<exists>w'. forEach ds (teardown_domain_resources ws) w = (Inr (), w')
    \<and> faults w' = [] \<and> db w' = db w"
  by (rule calm_run [OF assms]) (intro keeps_intros calm_intros, rule forEach_total, rule teardown_returns)

definition targets_database :: "uuid \<Rightarrow> cron_job \<Rightarrow> bool" where
  "targets_database i j \<longleftrightarrow> cj_target_type j = ''database'' \<and> cj_target_id j = Some i"

definition published_by :: "uuid \<Rightarrow> project_env_variable \<Rightarrow> bool" where
  "published_by i v \<longleftrightarrow> pv_source v = ''database'' \<and> pv_source_id v = Some i"

definition domain_of_database :: "uuid \<Rightarrow> uuid \<Rightarrow> domain_row \<Rightarrow> bool" where
  "domain_of_database ws i d \<longleftrightarrow> dm_workspace_id d = ws \<and> dm_target_type d = ''database'' \<and> dm_target_id d = Some i"

definition without_database :: "uuid \<Rightarrow> uuid \<Rightarrow> database \<Rightarrow> database" where
  "without_database ws i d =
     (let d1 = delete_cron_rows (targets_database i) (delete_pool_vars (published_by i) d) in
      delete_database_rows (\<lambda>s. ds_id s = i \<and> ds_workspace_id s = ws)
        (d1\<lparr>domains := deleteWhere (domain_of_database ws i) (domains d1)\<rparr>))"

lemma purge_domains_run:
  assumes "faults w = []"
  shows "\<exists>w'. purge_domains_for_target ws ''database'' i w = (Inr (), w') \<and> faults w' = []
    \<and> db w' = (db w)\<lparr>domains := deleteWhere (domain_of_database ws i) (domains (db w))\<rparr>"
proof -
  let ?p = "\<lambda>d. dm_workspace_id d = ws \<and> dm_target_type d = ''database'' \<and> dm_target_id d = Some i"
  obtain w1 where w1: "forEach (selectWhere ?p (domains (db w))) (teardown_domain_resources ws) w
      = (Inr (), w1)" "faults w1 = []" "db w1 = db w"
    using teardown_all_run [OF assms] by blast
  have p: "?p = domain_of_database ws i" by (simp add: domain_of_database_def fun_eq_iff)
  have "purge_domains_for_target ws ''database'' i w =
      (Inr (), w1\<lparr>db := (db w)\<lparr>domains := deleteWhere (domain_of_database ws i) (domains (db w))\<rparr>\<rparr>)"
    using w1 assms unfolding purge_domains_for_target_def p Let_def
    by (simp add: andThen_orElse_fetch andThen_run [where m = "forEach ds f" for ds f] discard_execute_step)
  with w1 show ?thesis by (intro exI conjI) (assumption | simp)+
qed

lemma delete_database_run:
  assumes "faults w = []" "c_current_workspace_id c = Some ws" "s \<in> set (databases (db w))" "ds_id s = i" "ds_workspace_id s = ws"
  shows "\<exists>w'. delete_database c i w = (Inr (), w') \<and> faults w' = [] \<and> db w' = without_database ws i (db w)"
proof -
  let ?own = "\<lambda>s. ds_id s = i \<and> ds_workspace_id s = ws"
  obtain s' where row: "firstWhere ?own (databases (db w)) = Some s'"
    using assms(3-5) firstWhere_None [of ?own "databases (db w)"] by (cases "firstWhere ?own (databases (db w))") auto
  have mine: "(\<lambda>r. pv_source r = ''database'' \<and> pv_source_id r = Some i) = published_by i"
    and jobs: "(\<lambda>j. cj_target_type j = ''database'' \<and> cj_target_id j = Some i) = targets_database i"
    by (simp_all add: published_by_def targets_database_def fun_eq_iff)
  let ?stop = "\<lambda>a :: k8s_answer. (case a of Refused _ \<Rightarrow> ret ()
       | _ \<Rightarrow> andThen (k8s (DeleteDatabase (ws_namespace ws) (ds_container_name s'))) (\<lambda>_. ret ())) :: unit handler"
  let ?w1 = "w\<lparr>k8s_calls := k8s_calls w @ [GetClient]\<rparr>"
  let ?a = "k8s_reply w (length (k8s_calls w))"
  have "\<exists>w2. ?stop ?a ?w1 = (Inr (), w2) \<and> faults w2 = [] \<and> db w2 = db w"
    using assms(1) by (cases ?a) (simp_all add: step_simps)
  then obtain w2 where w2: "?stop ?a ?w1 = (Inr (), w2)" "faults w2 = []" "db w2 = db w" by blast
  let ?w3 = "w2\<lparr>db := delete_pool_vars (published_by i) (db w)\<rparr>"
  obtain w4 where w4: "forEach (instances_linking (published_by i) (db w)) hot_reload_if_running ?w3 = (Inr (), w4)"
    "faults w4 = []" "db w4 = delete_pool_vars (published_by i) (db w)"
    using hot_reload_all_run [of ?w3] w2(2) by auto
  let ?w5 = "w4\<lparr>db := delete_cron_rows (targets_database i) (db w4)\<rparr>"
  obtain w6 where w6: "purge_domains_for_target ws ''database'' i ?w5 = (Inr (), w6)" "faults w6 = []"
    "db w6 = (db ?w5)\<lparr>domains := deleteWhere (domain_of_database ws i) (domains (db ?w5))\<rparr>"
    using purge_domains_run [of ?w5 ws i] w4(2) by auto
  have "delete_database c i w = (Inr (), w6\<lparr>db := delete_database_rows ?own (db w6)\<rparr>)"
    using assms(1,2) row w2 w4 w6(1,2) unfolding delete_database_def active_workspace_def find_database_def mine jobs Let_def
    by (simp add: andThen_assoc andThen_okOr andThen_query_fetch andThen_k8s andThen_run [where m = "?stop ?a", OF w2(1)]
        andThen_orElse_fetch andThen_query_execute andThen_run [where m = "forEach x hot_reload_if_running" for x] andThen_discard_execute
        andThen_run [where m = "purge_domains_for_target a t j" for a t j] query_execute_step)
  moreover have "delete_database_rows ?own (db w6) = without_database ws i (db w)"
    using w4(3) w6(3) by (simp add: without_database_def Let_def)
  ultimately show ?thesis using w6(2) by (intro exI conjI) (assumption | simp)+
qed


text \<open>
  Deleting a database removes its row, the pool variables it published with the links of
  the apps to them, the cron jobs aimed at it with their logs, and its domains, and nothing
  else. The variables of the instances are not touched, so a \<open>DATABASE_URL\<close> that a settings
  update wrote there outlives the database.
\<close>

theorem deletion_leaves_no_reference:
  assumes "faults w = []" "c_current_workspace_id c = Some ws" "s \<in> set (databases (db w))" "ds_id s = i" "ds_workspace_id s = ws"
  shows "\<exists>w'. delete_database c i w = (Inr (), w')
    \<and> databases (db w') = deleteWhere (\<lambda>x. ds_id x = i \<and> ds_workspace_id x = ws) (databases (db w))
    \<and> (\<forall>v \<in> set (project_env_variables (db w')). \<not> published_by i v)
    \<and> project_env_variables (db w') = deleteWhere (published_by i) (project_env_variables (db w))
    \<and> (\<forall>l \<in> set (app_env_links (db w')). \<forall>v \<in> set (project_env_variables (db w)). published_by i v \<longrightarrow> el_project_env_id l \<noteq> pv_id v)
    \<and> cron_jobs (db w') = deleteWhere (targets_database i) (cron_jobs (db w))
    \<and> (\<forall>l \<in> set (cron_job_logs (db w')). \<forall>j \<in> set (cron_jobs (db w)). targets_database i j \<longrightarrow> cl_cron_job_id l \<noteq> cj_id j)
    \<and> domains (db w') = deleteWhere (domain_of_database ws i) (domains (db w))
    \<and> environment_variables (db w') = environment_variables (db w)
    \<and> quota_tables ((db w')\<lparr>databases := databases (db w)\<rparr>) = quota_tables (db w)"
proof -
  obtain w' where w': "delete_database c i w = (Inr (), w')" "db w' = without_database ws i (db w)"
    using delete_database_run [OF assms] by blast
  have fields: "databases (without_database ws i d) = deleteWhere (\<lambda>x. ds_id x = i \<and> ds_workspace_id x = ws) (databases d)"
    "project_env_variables (without_database ws i d) = deleteWhere (published_by i) (project_env_variables d)"
    "app_env_links (without_database ws i d) =
       deleteWhere (\<lambda>l. el_project_env_id l \<in> pv_id ` {v \<in> set (project_env_variables d). published_by i v}) (app_env_links d)"
    "cron_jobs (without_database ws i d) = deleteWhere (targets_database i) (cron_jobs d)"
    "cron_job_logs (without_database ws i d) =
       deleteWhere (\<lambda>l. cl_cron_job_id l \<in> cj_id ` {j \<in> set (cron_jobs d). targets_database i j}) (cron_job_logs d)"
    "domains (without_database ws i d) = deleteWhere (domain_of_database ws i) (domains d)"
    "environment_variables (without_database ws i d) = environment_variables d"
    "quota_tables ((without_database ws i d)\<lparr>databases := databases d\<rparr>) = quota_tables d" for d
    by (simp_all add: without_database_def delete_database_rows_def delete_cron_rows_def delete_pool_vars_def Let_def selectWhere_def quota_tables_def)
  have "el_project_env_id l \<noteq> pv_id v"
    if "l \<in> set (app_env_links (db w'))" "v \<in> set (project_env_variables (db w))" "published_by i v" for l v
    using that by (auto simp: w'(2) fields set_deleteWhere)
  moreover have "cl_cron_job_id l \<noteq> cj_id j"
    if "l \<in> set (cron_job_logs (db w'))" "j \<in> set (cron_jobs (db w))" "targets_database i j" for l j
    using that by (auto simp: w'(2) fields set_deleteWhere)
  moreover have "\<not> published_by i v" if "v \<in> set (project_env_variables (db w'))" for v
    using that by (simp add: w'(2) fields set_deleteWhere)
  ultimately show ?thesis
    using w' by (intro exI [of _ w']) (simp add: fields)
qed

section \<open>Reading and rebuilding\<close>

text \<open>
  The URL rebuilt from a stored row is the one published at creation, except that a MongoDB
  one loses the authentication source.
\<close>

lemma rebuilt_url:
  "row_url s pw = stored_url s pw @ (if ds_type s = Mongodb then ''/?authSource=admin'' else [])"
  by (cases "ds_type s") (simp_all add: row_url_def creation_url_def stored_url_def)

text \<open>The URL of a scheduled Redis execution carries no password although the server asks for one.\<close>

lemma cron_redis_url_has_no_password:
  "ds_type s = Redis \<Longrightarrow> cron_database_url s pw = cron_database_url s pw'"
  by (simp add: cron_database_url_def)

lemma andThen_find_database [step_simps]:
  "faults w = [] \<Longrightarrow> andThen (find_database ws i) f w =
     (case firstWhere (\<lambda>s. ds_id s = i \<and> ds_workspace_id s = ws) (databases (db w)) of
        None \<Rightarrow> (Inl (NotFound ''Database service not found.''), w) | Some s \<Rightarrow> f s w)"
  by (simp add: find_database_def andThen_assoc step_simps split: option.split)

lemma credentials_roundtrip:
  assumes "faults w = []" "c_current_workspace_id c = Some ws"
    and "firstWhere (\<lambda>s. ds_id s = i \<and> ds_workspace_id s = ws) (databases (db w)) = Some s"
    and "ds_db_password_nonce s = Some n" "unseal (ext w) (ds_db_password s) n = Some pw"
  shows "reveal_database_credentials c i w = (Inr (ds_db_user s, pw, stored_url s pw), w)"
  using assms
  by (simp add: reveal_database_credentials_def active_workspace_def step_simps stored_password_def decrypt_env_value_def
      andThen_assoc)


section \<open>What a creation costs\<close>

text \<open>
  A granted creation changes the memory the workspace has promised by exactly the
  requested amount, whatever its sign, and that of no other workspace: a negative request is
  never checked and makes room beyond the limit.
\<close>

theorem creation_counts_its_memory:
  assumes "grantable c ws p e w" "create_database s c p w = (r, w')"
  shows "memory_used v None (db w') = memory_used v None (db w) + (if v = ws then wanted_memory p else 0)"
proof -
  let ?row = "drawn_row ws p e w"
  let ?w = "inserted_world s ws p e w"
  obtain q w1 where q: "after_insert ws p ?row (drawn_password w) ?w = (q, w1)" by fastforce
  have "db w' = db w1" using create_database_run [OF assms(1) q] assms(2) by auto
  moreover have "calm (setting ?w) (\<lambda>d. quota_tables d = quota_tables (db ?w)) ?w"
    using assms(1) by (simp add: calm_def inserted_world_def grantable_def)
  from keeps_step [OF calm_after_insert this q] have "quota_tables (db w1) = quota_tables (db ?w)"
    by (simp add: calm_def)
  from quota_tables_used [OF this, of v None] have "memory_used v None (db w1) = memory_used v None (db ?w)" by simp
  ultimately show ?thesis
    by (simp add: inserted_world_def memory_used_insert db_inactive_def)
qed

section \<open>A concrete installation\<close>

definition shop_request :: "uuid \<Rightarrow> int \<Rightarrow> create_database_request" where
  "shop_request proj mem = \<lparr>cd_project_id = proj, cd_app_instance_id = None, cd_name = ''orders'', cd_type = Postgres,
     cd_version = None, cd_cpu_limit = None, cd_memory_limit_mb = Some mem, cd_storage_size_gb = None, cd_is_external = None,
     cd_external_port = None, cd_publish_to_env = None, cd_env_key = None\<rparr>"

text \<open>Workspace 7, limited to 1024 MB, with a database; project 13 belongs to workspace 8.\<close>

definition shop_world :: world where
  "shop_world = base_world\<lparr>db := empty_db\<lparr>workspaces := [\<lparr>w_id = 7, w_name = ''ws'', w_slug = ''ws'',
      w_max_memory_mb = 1024, w_max_storage_gb = 0, w_max_cpu_millicores = 0, w_created_by = 1, w_created_at = 0, w_updated_at = 0\<rparr>],
    projects := [\<lparr>pr_id = 13, pr_workspace_id = 8, pr_name = ''p'', pr_slug = ''p'', pr_created_by = 2, pr_created_at = 0, pr_ingress_ip = None,
       pr_base_domain = None, pr_cloudflare_credential_id = None\<rparr>],
    databases := [sample_database]\<rparr>\<rparr>"

lemma shop_world_fields:
  "faults shop_world = []" "databases (db shop_world) = [sample_database]" "advisory shop_world k = None"
  "projects (db shop_world) = [\<lparr>pr_id = 13, pr_workspace_id = 8, pr_name = ''p'', pr_slug = ''p'', pr_created_by = 2, pr_created_at = 0, pr_ingress_ip = None,
       pr_base_domain = None, pr_cloudflare_credential_id = None\<rparr>]"
  "project_env_variables (db shop_world) = []" "app_env_links (db shop_world) = []" "cron_jobs (db shop_world) = []"
  "ext shop_world = plain_ext" "drawn shop_world = 0" "random_uuid shop_world n = word_of_nat n + 1000"
  "app_instances (db shop_world) = []"
  by (simp_all add: shop_world_def base_world_def empty_db_def)

lemma plain_seal: "\<exists>e. seal plain_ext v n = Some e \<and> unseal plain_ext e n = Some v"
  by (simp add: plain_ext_def starts_with_def)

lemma shop_memory:
  "memory_used v None (db shop_world) = (if v = 7 then 256 else 0)" "memory_cap (db shop_world) v = (if v = 7 then 1024 else 0)"
  "memory_sane 7 None (db shop_world)"
  by (auto simp: shop_world_def base_world_def empty_db_def memory_used_def memory_cap_def memory_sane_def app_rows_def
      db_rows_def sf_rows_def selectWhere_def firstWhere_def sample_database_def within_def fits_i64_def db_inactive_def)

lemma shop_limits: "\<exists>r. firstWhere (\<lambda>r. w_id r = 7) (workspaces (db shop_world)) = Some r \<and> w_max_memory_mb r = 1024"
  by (simp add: shop_world_def base_world_def empty_db_def firstWhere_def)

lemma shop_path:
  assumes "create_database 1 sample_claims (shop_request 3 256) shop_world = (r, w')"
  shows "create_guard.guard_reach (advisory shop_world, db shop_world, \<lambda>_. Outside) (advisory w', db w', \<lambda>_. Outside)"
  by (rule create_database_path [OF _ _ _ _ _ _ assms, of 7])
    (simp_all add: shop_world_fields shop_memory sample_claims_def lock_owner_def shop_request_def wanted_memory_def or_else_def)

lemma shop_grantable:
  assumes "mem \<le> 768"
  shows "\<exists>e. grantable sample_claims 7 (shop_request proj mem) e shop_world"
proof -
  obtain e where e: "seal plain_ext (drawn_password shop_world) (drawn_nonce shop_world) = Some e" using plain_seal by blast
  have req: "wanted_memory (shop_request proj mem) = mem" "wanted_cpu (shop_request proj mem) = 0"
    by (simp_all add: shop_request_def wanted_memory_def wanted_cpu_def or_else_def)
  have mem: "fst (check_workspace_memory_limit 7 mem None shop_world) = Inr ()" if "0 < mem"
    using memory_check_run [OF shop_world_fields(1) shop_memory(3), of mem] that assms shop_limits
    by (auto simp: shop_memory)
  then have "fst (check_database_quota 7 (shop_request proj mem) shop_world) = Inr ()"
    using check_memory_state [OF shop_world_fields(1), of 7 mem None]
    by (cases "check_workspace_memory_limit 7 mem None shop_world")
      (simp add: check_database_quota_def onlyIf_def andThen_def ret_def req)
  moreover have "database_conflict (drawn_row 7 (shop_request proj mem) e shop_world) (databases (db shop_world)) = None"
    by (simp add: database_conflict_def shop_world_fields existsWhere_iff sample_database_def drawn_row_def new_database_row_def
        shop_request_def)
  ultimately show ?thesis
    using e by (auto simp: grantable_def shop_world_fields sample_claims_def)
qed

theorem creation_counts_its_memory_witness:
  "memory_used 7 None (db (snd (create_database 1 sample_claims (shop_request 3 (- 4096)) shop_world))) = - 3840"
proof -
  obtain e where "grantable sample_claims 7 (shop_request 3 (- 4096)) e shop_world" using shop_grantable by fastforce
  from creation_counts_its_memory [OF this, of 1 _ _ 7] show ?thesis
    by (cases "create_database 1 sample_claims (shop_request 3 (- 4096)) shop_world")
      (simp add: shop_memory shop_request_def wanted_memory_def or_else_def)
qed

theorem failed_publication_leaves_orphan_witness:
  "\<exists>err w' row. create_database 1 sample_claims (shop_request 99 256) shop_world = (Inl err, w')
     \<and> databases (db w') = [sample_database, row] \<and> ds_status row = DbProvisioning"
proof -
  obtain e where "grantable sample_claims 7 (shop_request 99 256) e shop_world" using shop_grantable by fastforce
  from failed_publication_leaves_orphan [OF this, of 1] show ?thesis
    by (fastforce simp: shop_world_fields shop_request_def or_else_def existsWhere_iff)
qed

theorem creation_publishes_the_url_witness:
  "\<exists>row url q w' v. create_database 1 sample_claims (shop_request 13 256) shop_world = (Inr (Some (row, url, q)), w')
     \<and> ds_workspace_id row = 7 \<and> v \<in> set (project_env_variables (db w')) \<and> pv_project_id v = 13
     \<and> unseal plain_ext (pv_encrypted_value v) (pv_nonce v) = Some url"
proof -
  obtain e where g: "grantable sample_claims 7 (shop_request 13 256) e shop_world" using shop_grantable by fastforce
  have "\<exists>row url q w' taken v. create_database 1 sample_claims (shop_request 13 256) shop_world = (Inr (Some (row, url, q)), w')
    \<and> advisory w' = advisory shop_world
    \<and> databases (db w') = databases (db shop_world) @ [row] \<and> ds_workspace_id row = 7 \<and> ds_project_id row = cd_project_id (shop_request 13 256)
    \<and> q = provisioning_of row (drawn_password shop_world)
    \<and> v \<in> set (project_env_variables (db w'))
    \<and> published (ext shop_world) (cd_project_id (shop_request 13 256)) (published_key (shop_request 13 256) taken) url ''database'' (ds_id row) v
    \<and> (\<forall>a. cd_app_instance_id (shop_request 13 256) = Some a \<longrightarrow> \<lparr>el_app_instance_id = a, el_project_env_id = pv_id v\<rparr> \<in> set (app_env_links (db w')))"
    by (rule creation_publishes_the_url [OF g])
      (simp_all add: shop_world_fields plain_seal shop_request_def or_else_def existsWhere_iff)
  then show ?thesis by (auto simp: published_def shop_world_fields shop_request_def)
qed

theorem deletion_leaves_no_reference_witness:
  "\<exists>w'. delete_database sample_claims 30 shop_world = (Inr (), w') \<and> databases (db w') = []"
  using deletion_leaves_no_reference [of shop_world sample_claims 7 sample_database 30]
  by (auto simp: shop_world_fields sample_claims_def sample_database_def deleteWhere_def)



end
