(* ===== verification/Auth.thy ===== *)
theory Auth
  imports Coordination
begin

text \<open>
  Sessions and accounts: \<open>utils/jwt.rs\<close> (the token bundle), \<open>middlewares/auth_middleware.rs\<close>,
  \<open>permission_middleware.rs\<close> and \<open>workspace_middleware.rs\<close> (who may call what),
  \<open>models/audit_log_model.rs\<close> and the handlers of \<open>controllers/auth_controller.rs\<close>.
  A middleware is a handler that takes the rest of the request, \<open>next\<close>, as its argument.
\<close>

section \<open>Requests\<close>

text \<open>\<open>HeaderMap\<close>: names in lower case; \<open>to_str\<close> refuses a value that is not visible ASCII.\<close>

type_synonym headers = "(string \<times> string) list"

definition visible_ascii :: "char \<Rightarrow> bool" where
  "visible_ascii c \<longleftrightarrow> 32 \<le> code c \<and> code c < 127 \<or> code c = 9"

definition header_str :: "string \<Rightarrow> headers \<Rightarrow> string option" where
  "header_str name hs =
     (case map_of hs name of None \<Rightarrow> None | Some v \<Rightarrow> (if list_all visible_ascii v then Some v else None))"

definition non_empty :: "string \<Rightarrow> string option" where
  "non_empty s = (if s = [] then None else Some s)"

definition extract_client_ip :: "headers \<Rightarrow> string option" where
  "extract_client_ip hs =
     (case Option.bind (header_str ''x-forwarded-for'' hs)
             (\<lambda>s. non_empty (trim (hd (split_on (CHR '','') s)))) of
        Some ip \<Rightarrow> Some ip
      | None \<Rightarrow> Option.bind (header_str ''x-real-ip'' hs) (\<lambda>s. non_empty (trim s)))"

definition user_agent :: "headers \<Rightarrow> string option" where
  "user_agent hs = header_str ''user-agent'' hs"

record request_parts =
  rp_headers :: headers
  rp_query :: "string option"
  rp_path :: string

section \<open>Tokens\<close>

record token_bundle =
  tb_access_token :: string
  tb_refresh_token :: string
  tb_expires_in :: int
  tb_refresh_expires_at :: instant
  tb_refresh_token_hash :: string

text \<open>\<open>var(..).unwrap_or(default).parse().unwrap_or(default)\<close>.\<close>

definition expiry_secs :: "string \<Rightarrow> int \<Rightarrow> world \<Rightarrow> int" where
  "expiry_secs name default_secs w =
     (case env_var w name of
        None \<Rightarrow> default_secs
      | Some s \<Rightarrow> (case parse_int fits_i64 s of None \<Rightarrow> default_secs | Some n \<Rightarrow> n))"

definition claims_of :: "user \<Rightarrow> int \<Rightarrow> claims" where
  "claims_of u expiry =
     \<lparr>c_sub = u_id u, c_username = u_username u, c_email = u_email u, c_status = u_status u,
      c_is_super_admin = u_is_super_admin u, c_current_workspace_id = u_current_workspace_id u, c_exp = expiry\<rparr>"

definition generate_token_bundle :: "user \<Rightarrow> token_bundle handler" where
  "generate_token_bundle u =
     andThen now (\<lambda>t.
     andThen (readState (expiry_secs ''JWT_ACCESS_EXPIRY'' 900)) (\<lambda>access_secs.
     andThen (readState (expiry_secs ''JWT_REFRESH_EXPIRY'' 604800)) (\<lambda>refresh_secs.
     let access_expiry = t + seconds access_secs in
     andThen (readState (\<lambda>w. jwt_sign (ext w) (claims_of u (access_expiry div 1000000)))) (\<lambda>access_token.
     andThen new_v4 (\<lambda>a.
     andThen new_v4 (\<lambda>b.
     let refresh_token = uuid_str a @ ''.'' @ uuid_str b in
     andThen (readState (\<lambda>w. sha256_hex (ext w) refresh_token)) (\<lambda>h.
     ret \<lparr>tb_access_token = access_token, tb_refresh_token = refresh_token, tb_expires_in = access_secs,
          tb_refresh_expires_at = t + seconds refresh_secs, tb_refresh_token_hash = h\<rparr>)))))))"

text \<open>\<open>Duration::num_seconds\<close> rounds towards zero.\<close>

definition num_seconds :: "int \<Rightarrow> int" where
  "num_seconds d = (if d < 0 then - (- d div 1000000) else d div 1000000)"

section \<open>Who is calling\<close>

definition bearer_token :: "request_parts \<Rightarrow> string handler" where
  "bearer_token rp =
     (case header_str ''authorization'' (rp_headers rp) of
        Some auth_header \<Rightarrow>
          (if starts_with ''Bearer '' auth_header then ret (drop 7 auth_header)
           else raise (Auth ''Invalid Authorization header format''))
      | None \<Rightarrow>
          (case rp_query rp of
             Some q \<Rightarrow> okOr (Auth ''Missing Authorization token in query parameter'')
               (map_option (drop 6) (firstWhere (starts_with ''token='') (split_on (CHR ''&'') q)))
           | None \<Rightarrow> raise (Auth ''Missing Authorization header or token query parameter'')))"

definition authenticated_user :: "request_parts \<Rightarrow> claims handler" where
  "authenticated_user rp =
     andThen (bearer_token rp) (\<lambda>token.
     andThen (readState (\<lambda>w. jwt_decode (ext w) (clock w) token)) (\<lambda>decoded.
     andThen (okOr (Auth ''Invalid or expired token'') decoded) (\<lambda>claims.
     andThen (rejectIf (c_status claims = Suspended) (Permission ''This account has been suspended'')) (\<lambda>_.
     andThen (rejectIf (c_status claims = PendingVerification \<and> rp_path rp \<noteq> ''/api/v1/auth/activate'')
       (Permission ''Account activation required'')) (\<lambda>_.
     ret claims)))))"

definition require_auth :: "request_parts \<Rightarrow> 'a handler \<Rightarrow> 'a handler" where
  "require_auth rp next_call = andThen (authenticated_user rp) (\<lambda>_. next_call)"

definition enforce_super_admin :: "request_parts \<Rightarrow> 'a handler \<Rightarrow> 'a handler" where
  "enforce_super_admin rp next_call =
     andThen (authenticated_user rp) (\<lambda>claims.
     andThen (rejectIf (\<not> c_is_super_admin claims) (Permission ''Super Admin privileges required'')) (\<lambda>_.
     next_call))"

text \<open>The joins of the permission query: the member's role carries a permission of that name.\<close>

definition has_permission :: "uuid \<Rightarrow> uuid \<Rightarrow> string \<Rightarrow> database \<Rightarrow> bool" where
  "has_permission ws_id user_id permission d =
     existsWhere (\<lambda>wm. wm_workspace_id wm = ws_id \<and> wm_user_id wm = user_id
       \<and> existsWhere (\<lambda>(r, p). r = wm_role_id wm
           \<and> existsWhere (\<lambda>x. pe_id x = p \<and> pe_name x = permission) (permissions d)) (role_permissions d))
       (workspace_members d)"

definition check_permission :: "request_parts \<Rightarrow> string \<Rightarrow> 'a handler \<Rightarrow> 'a handler" where
  "check_permission rp permission next_call =
     andThen (authenticated_user rp) (\<lambda>claims.
     andThen (okOr (Validation ''No active workspace selected.'') (c_current_workspace_id claims)) (\<lambda>ws_id.
     if c_is_super_admin claims then next_call
     else
       andThen (query (fetch (\<lambda>w. has_permission ws_id (c_sub claims) permission (db w)))) (\<lambda>has_perm.
       andThen (rejectIf (\<not> has_perm)
         (Permission (''Permission '' @ [CHR 0x27] @ permission @ [CHR 0x27] @ '' required for this workspace.''))) (\<lambda>_.
       next_call))))"

text \<open>The name of the member's role, by the join of \<open>workspace_members\<close> with \<open>roles\<close>.\<close>

definition member_role :: "uuid \<Rightarrow> uuid \<Rightarrow> database \<Rightarrow> string option" where
  "member_role ws_id user_id d =
     map_option ro_name (Option.bind (firstWhere (\<lambda>wm. wm_workspace_id wm = ws_id \<and> wm_user_id wm = user_id)
         (workspace_members d))
       (\<lambda>wm. firstWhere (\<lambda>r. ro_id r = wm_role_id wm) (roles d)))"

definition enforce_workspace_developer :: "request_parts \<Rightarrow> 'a handler \<Rightarrow> 'a handler" where
  "enforce_workspace_developer rp next_call =
     andThen (authenticated_user rp) (\<lambda>claims.
     andThen (okOr (Validation ''No active workspace selected.'') (c_current_workspace_id claims)) (\<lambda>ws_id.
     if c_is_super_admin claims then next_call
     else
       andThen (query (fetch (\<lambda>w. member_role ws_id (c_sub claims) (db w)))) (\<lambda>role.
       if role \<in> {Some ''owner'', Some ''admin'', Some ''developer''} then next_call
       else raise (Permission ''Developer privileges for this workspace required.''))))"

section \<open>Statements the handlers share\<close>

definition user_exists :: "uuid \<Rightarrow> database \<Rightarrow> bool" where
  "user_exists i d = existsWhere (\<lambda>u. u_id u = i) (users d)"

definition record_audit ::
  "uuid option \<Rightarrow> string \<Rightarrow> string \<Rightarrow> string option \<Rightarrow> string option \<Rightarrow> unit handler" where
  "record_audit user_id ident action client_ip agent =
     query (checked
       (\<lambda>w. case user_id of None \<Rightarrow> None | Some i \<Rightarrow> if user_exists i (db w) then None else Some fk_error)
       (\<lambda>w. (db w)\<lparr>auth_audit_logs := insertRow
         \<lparr>al_user_id = user_id, al_identity = ident, al_action = action, al_client_ip = client_ip,
          al_user_agent = agent, al_created_at = clock w\<rparr> (auth_audit_logs (db w))\<rparr>))"

text \<open>The token is unique and belongs to a user.\<close>

definition token_conflict :: "uuid \<Rightarrow> string \<Rightarrow> database \<Rightarrow> sqlx_error option" where
  "token_conflict user_id h d =
     (if existsWhere (\<lambda>r. rt_token r = h) (refresh_tokens d) then Some (conflict_on ''refresh_tokens_token_key'')
      else if user_exists user_id d then None else Some fk_error)"

definition store_refresh_token :: "uuid \<Rightarrow> string \<Rightarrow> instant \<Rightarrow> unit handler" where
  "store_refresh_token user_id h expires_at =
     query (checked (\<lambda>w. token_conflict user_id h (db w))
       (\<lambda>w. (db w)\<lparr>refresh_tokens := insertRow
         \<lparr>rt_user_id = user_id, rt_token = h, rt_expires_at = expires_at\<rparr> (refresh_tokens (db w))\<rparr>))"

text \<open>\<open>UPDATE users SET .. WHERE id = ..\<close>, without and with the foreign key of the selected workspace.\<close>

definition update_user :: "uuid \<Rightarrow> (instant \<Rightarrow> user \<Rightarrow> user) \<Rightarrow> unit handler" where
  "update_user i f = query (execute (\<lambda>w. (db w)\<lparr>users :=
     updateWhere (\<lambda>u. u_id u = i) (f (clock w)) (users (db w))\<rparr>))"

definition select_workspace :: "uuid \<Rightarrow> uuid \<Rightarrow> unit handler" where
  "select_workspace i ws_id = query (checked
     (\<lambda>w. if user_exists i (db w) \<and> \<not> existsWhere (\<lambda>x. w_id x = ws_id) (workspaces (db w))
          then Some fk_error else None)
     (\<lambda>w. (db w)\<lparr>users := updateWhere (\<lambda>u. u_id u = i)
       (\<lambda>u. u\<lparr>u_current_workspace_id := Some ws_id\<rparr>) (users (db w))\<rparr>))"

definition fetch_user :: "uuid \<Rightarrow> user handler" where
  "fetch_user i = query (fetchOne (\<lambda>w. firstWhere (\<lambda>u. u_id u = i) (users (db w))))"

text \<open>The text of a fresh UUID without its hyphens.\<close>

definition temporary_password :: "string handler" where
  "temporary_password = andThen new_v4 (\<lambda>u. ret (filter (\<lambda>c. c \<noteq> CHR ''-'') (uuid_str u)))"

section \<open>The handlers of the sessions\<close>

record user_response =
  ur_id :: uuid
  ur_username :: string
  ur_email :: string
  ur_status :: user_status
  ur_is_super_admin :: bool
  ur_current_workspace_id :: "uuid option"
  ur_github_username :: "string option"
  ur_last_login_at :: "instant option"
  ur_created_at :: instant

definition user_response_of :: "user \<Rightarrow> user_response" where
  "user_response_of u =
     \<lparr>ur_id = u_id u, ur_username = u_username u, ur_email = u_email u, ur_status = u_status u,
      ur_is_super_admin = u_is_super_admin u, ur_current_workspace_id = u_current_workspace_id u,
      ur_github_username = u_github_username u, ur_last_login_at = u_last_login_at u, ur_created_at = u_created_at u\<rparr>"

record auth_token_response =
  at_access_token :: string
  at_refresh_token :: string
  at_expires_in :: int
  at_user :: user_response

text \<open>
  The end of every handler that opens a session: a bundle for the user, its refresh token
  stored by its hash, and the response for the row \<open>reload\<close> reads.
\<close>

definition open_session :: "user \<Rightarrow> user handler \<Rightarrow> auth_token_response handler" where
  "open_session u reload =
     andThen (generate_token_bundle u) (\<lambda>tb.
     andThen (readState (\<lambda>w. sha256_hex (ext w) (tb_refresh_token tb))) (\<lambda>token_hash.
     andThen (store_refresh_token (u_id u) token_hash (tb_refresh_expires_at tb)) (\<lambda>_.
     andThen reload (\<lambda>shown.
     andThen now (\<lambda>t.
     ret \<lparr>at_access_token = tb_access_token tb, at_refresh_token = tb_refresh_token tb,
          at_expires_in = num_seconds (tb_refresh_expires_at tb - t), at_user = user_response_of shown\<rparr>)))))"

text \<open>\<open>LOWER(email) = LOWER(..) OR LOWER(username) = LOWER(..)\<close>.\<close>

definition named_as :: "string \<Rightarrow> string \<Rightarrow> user \<Rightarrow> bool" where
  "named_as email username u \<longleftrightarrow>
     to_lowercase (u_email u) = to_lowercase email \<or> to_lowercase (u_username u) = to_lowercase username"

definition login_bucket :: "headers \<Rightarrow> string" where
  "login_bucket hs = ''login:'' @ (case extract_client_ip hs of Some ip \<Rightarrow> ip | None \<Rightarrow> ''unknown'')"

text \<open>A user without a selected workspace gets the first one he is a member of.\<close>

definition default_workspace :: "user \<Rightarrow> user handler" where
  "default_workspace u =
     (if u_current_workspace_id u \<noteq> None then ret u
      else
        andThen (query (fetch (\<lambda>w. map_option wm_workspace_id
          (firstWhere (\<lambda>wm. wm_user_id wm = u_id u) (workspace_members (db w)))))) (\<lambda>member_record.
        case member_record of None \<Rightarrow> ret u
        | Some ws \<Rightarrow>
            andThen (select_workspace (u_id u) ws) (\<lambda>_. ret (u\<lparr>u_current_workspace_id := Some ws\<rparr>))))"

definition login :: "headers \<Rightarrow> string \<Rightarrow> string \<Rightarrow> auth_token_response handler" where
  "login hs login_identity password =
     (let client_ip = extract_client_ip hs; agent = user_agent hs;
          failed = (\<lambda>i. discard (record_audit i login_identity ''LOGIN_FAILED'' client_ip agent)) in
     andThen (check_rate_limit (login_bucket hs) 10 300) (\<lambda>allowed.
     andThen (rejectIf (\<not> allowed) (RateLimited ''Too many login attempts. Please try again in a few minutes.'')) (\<lambda>_.
     andThen (query (fetch (\<lambda>w. firstWhere (named_as login_identity login_identity) (users (db w))))) (\<lambda>user_opt.
     case user_opt of
       None \<Rightarrow> andThen (failed None) (\<lambda>_. raise (Auth ''Invalid credentials.''))
     | Some u \<Rightarrow>
         if u_status u = Suspended
         then andThen (failed (Some (u_id u))) (\<lambda>_. raise (Auth ''This account has been suspended.''))
         else
           andThen (verify_password password (u_password_hash u)) (\<lambda>valid.
           if \<not> valid then andThen (failed (Some (u_id u))) (\<lambda>_. raise (Auth ''Invalid credentials.''))
           else
             andThen (default_workspace u) (\<lambda>u.
             andThen (update_user (u_id u) (\<lambda>t r. r\<lparr>u_last_login_at := Some t, u_last_login_ip := client_ip,
               u_last_login_user_agent := agent\<rparr>)) (\<lambda>_.
             andThen (discard (record_audit (Some (u_id u)) (u_email u) ''LOGIN_SUCCESS'' client_ip agent)) (\<lambda>_.
             open_session u (fetch_user (u_id u))))))))))"

text \<open>\<open>DELETE .. RETURNING user_id\<close> of a token that has not expired.\<close>

definition live_token :: "string \<Rightarrow> instant \<Rightarrow> refresh_token_row \<Rightarrow> bool" where
  "live_token h t r \<longleftrightarrow> rt_token r = h \<and> t < rt_expires_at r"

definition refresh_session :: "string \<Rightarrow> auth_token_response handler" where
  "refresh_session refresh_token =
     andThen (readState (\<lambda>w. sha256_hex (ext w) refresh_token)) (\<lambda>token_hash.
     andThen (query (executing (\<lambda>w.
       (map_option rt_user_id (firstWhere (live_token token_hash (clock w)) (refresh_tokens (db w))),
        (db w)\<lparr>refresh_tokens := deleteWhere (live_token token_hash (clock w)) (refresh_tokens (db w))\<rparr>)))) (\<lambda>found.
     andThen (okOr (Auth ''Invalid or expired refresh token.'') found) (\<lambda>user_id.
     andThen (fetch_user user_id) (\<lambda>u.
     andThen (rejectIf (u_status u = Suspended) (Auth ''This account has been suspended.'')) (\<lambda>_.
     open_session u (ret u))))))"

definition switch_workspace :: "claims \<Rightarrow> uuid \<Rightarrow> auth_token_response handler" where
  "switch_workspace claims ws_id =
     andThen (query (fetch (\<lambda>w. existsWhere (\<lambda>wm. wm_workspace_id wm = ws_id \<and> wm_user_id wm = c_sub claims)
       (workspace_members (db w))))) (\<lambda>is_member.
     andThen (rejectIf (\<not> is_member \<and> \<not> c_is_super_admin claims)
       (Permission ''You do not have access to this workspace.'')) (\<lambda>_.
     andThen (select_workspace (c_sub claims) ws_id) (\<lambda>_.
     andThen (fetch_user (c_sub claims)) (\<lambda>u.
     open_session u (ret u)))))"

section \<open>The handlers of the accounts\<close>

definition set_password :: "string \<Rightarrow> instant \<Rightarrow> user \<Rightarrow> user" where
  "set_password h t u = u\<lparr>u_password_hash := h, u_password_changed_at := t, u_updated_at := t\<rparr>"

definition change_password :: "headers \<Rightarrow> claims \<Rightarrow> string \<Rightarrow> string \<Rightarrow> unit handler" where
  "change_password hs claims current_password new_password =
     andThen (fetch_user (c_sub claims)) (\<lambda>u.
     andThen (verify_password current_password (u_password_hash u)) (\<lambda>valid.
     andThen (rejectIf (\<not> valid) (Auth ''Current password inside data is incorrect.'')) (\<lambda>_.
     andThen (hash_password new_password) (\<lambda>h.
     andThen (update_user (u_id u) (set_password h)) (\<lambda>_.
     discard (record_audit (Some (u_id u)) (u_email u) ''PASSWORD_CHANGE'' (extract_client_ip hs) (user_agent hs)))))))"

definition user_conflict :: "user \<Rightarrow> user list \<Rightarrow> sqlx_error option" where
  "user_conflict r t =
     (if existsWhere (\<lambda>u. u_id u = u_id r) t then Some (conflict_on ''users_pkey'')
      else if existsWhere (\<lambda>u. u_username u = u_username r) t then Some (conflict_on ''users_username_key'')
      else if existsWhere (\<lambda>u. u_email u = u_email r) t then Some (conflict_on ''users_email_key'') else None)"

definition provisioned_user :: "uuid \<Rightarrow> string \<Rightarrow> string \<Rightarrow> string \<Rightarrow> bool \<Rightarrow> instant \<Rightarrow> user" where
  "provisioned_user i username email h super t =
     \<lparr>u_id = i, u_username = username, u_email = email, u_password_hash = h, u_status = PendingVerification,
      u_is_super_admin = super, u_current_workspace_id = None, u_password_changed_at = t, u_last_login_at = None,
      u_last_login_ip = None, u_last_login_user_agent = None, u_created_at = t, u_updated_at = t,
      u_github_token = None, u_github_username = None\<rparr>"

definition provision_user :: "headers \<Rightarrow> claims \<Rightarrow> string \<Rightarrow> string \<Rightarrow> bool \<Rightarrow> string handler" where
  "provision_user hs claims username email super =
     andThen (query (fetch (\<lambda>w. existsWhere (named_as email username) (users (db w))))) (\<lambda>taken.
     andThen (rejectIf taken (Conflict ''A user with this email or username already exists.'')) (\<lambda>_.
     andThen new_v4 (\<lambda>user_id.
     andThen temporary_password (\<lambda>password.
     andThen (hash_password password) (\<lambda>h.
     andThen (query (checked
       (\<lambda>w. user_conflict (provisioned_user user_id username email h super (clock w)) (users (db w)))
       (\<lambda>w. (db w)\<lparr>users := insertRow (provisioned_user user_id username email h super (clock w)) (users (db w))\<rparr>))) (\<lambda>_.
     andThen (discard (record_audit (Some (c_sub claims)) email ''USER_PROVISIONED''
       (extract_client_ip hs) (user_agent hs))) (\<lambda>_.
     ret password)))))))"

definition activate :: "string \<Rightarrow> string \<Rightarrow> string \<Rightarrow> unit handler" where
  "activate email temporary new_password =
     andThen (query (fetch (\<lambda>w. firstWhere (\<lambda>u. to_lowercase (u_email u) = to_lowercase email) (users (db w))))) (\<lambda>found.
     andThen (okOr (NotFound ''User not found.'') found) (\<lambda>u.
     andThen (rejectIf (u_status u \<noteq> PendingVerification) (Validation ''Account is already verified or active.'')) (\<lambda>_.
     andThen (verify_password temporary (u_password_hash u)) (\<lambda>valid.
     andThen (rejectIf (\<not> valid) (Auth ''Invalid temporary password.'')) (\<lambda>_.
     andThen (hash_password new_password) (\<lambda>h.
     update_user (u_id u) (\<lambda>t r. (set_password h t r)\<lparr>u_status := Active\<rparr>)))))))"

definition require_super :: "claims \<Rightarrow> unit handler" where
  "require_super claims = rejectIf (\<not> c_is_super_admin claims) (Permission ''Super Admin privileges required'')"

definition list_users :: "claims \<Rightarrow> user_response list handler" where
  "list_users claims =
     andThen (require_super claims) (\<lambda>_.
     andThen (query (fetch (\<lambda>w. sort_key (\<lambda>u. - u_created_at u) (users (db w))))) (\<lambda>us.
     ret (map user_response_of us)))"

text \<open>
  The statement that reassigns what a user created: the new owner must be a user when there
  is something to reassign.
\<close>

definition adopt ::
  "uuid \<Rightarrow> (database \<Rightarrow> bool) \<Rightarrow> (database \<Rightarrow> database) \<Rightarrow> unit handler" where
  "adopt new_owner anything f = query (checked
     (\<lambda>w. if anything (db w) \<and> \<not> user_exists new_owner (db w) then Some fk_error else None) (\<lambda>w. f (db w)))"

text \<open>
  Deleting a user: refused while he owns something, otherwise his tokens and memberships go
  with him and his audit entries lose their user.
\<close>

definition owns_something :: "uuid \<Rightarrow> database \<Rightarrow> bool" where
  "owns_something i d \<longleftrightarrow> existsWhere (\<lambda>r. w_created_by r = i) (workspaces d)
     \<or> existsWhere (\<lambda>r. pr_created_by r = i) (projects d) \<or> existsWhere (\<lambda>r. dm_created_by r = i) (domains d)"

definition delete_user_row :: "uuid \<Rightarrow> database \<Rightarrow> database" where
  "delete_user_row i d =
     d\<lparr>users := deleteWhere (\<lambda>u. u_id u = i) (users d),
       refresh_tokens := deleteWhere (\<lambda>r. rt_user_id r = i) (refresh_tokens d),
       workspace_members := deleteWhere (\<lambda>r. wm_user_id r = i) (workspace_members d),
       auth_audit_logs := updateWhere (\<lambda>l. al_user_id l = Some i) (\<lambda>l. l\<lparr>al_user_id := None\<rparr>) (auth_audit_logs d)\<rparr>"

definition delete_user :: "claims \<Rightarrow> uuid \<Rightarrow> unit handler" where
  "delete_user claims target =
     andThen (require_super claims) (\<lambda>_.
     andThen (rejectIf (target = c_sub claims) (Validation ''You cannot delete your own account.'')) (\<lambda>_.
     transaction (
       let me = c_sub claims in
       andThen (adopt me (\<lambda>d. existsWhere (\<lambda>r. w_created_by r = target) (workspaces d))
         (\<lambda>d. d\<lparr>workspaces := updateWhere (\<lambda>r. w_created_by r = target) (\<lambda>r. r\<lparr>w_created_by := me\<rparr>) (workspaces d)\<rparr>)) (\<lambda>_.
       andThen (adopt me (\<lambda>d. existsWhere (\<lambda>r. pr_created_by r = target) (projects d))
         (\<lambda>d. d\<lparr>projects := updateWhere (\<lambda>r. pr_created_by r = target) (\<lambda>r. r\<lparr>pr_created_by := me\<rparr>) (projects d)\<rparr>)) (\<lambda>_.
       andThen (adopt me (\<lambda>d. existsWhere (\<lambda>r. dm_created_by r = target) (domains d))
         (\<lambda>d. d\<lparr>domains := updateWhere (\<lambda>r. dm_created_by r = target) (\<lambda>r. r\<lparr>dm_created_by := me\<rparr>) (domains d)\<rparr>)) (\<lambda>_.
       andThen (query (sql (\<lambda>w.
         if user_exists target (db w) \<and> owns_something target (db w) then Inl fk_error
         else Inr (countWhere (\<lambda>u. u_id u = target) (users (db w)), delete_user_row target (db w))))) (\<lambda>rows_affected.
       if rows_affected = 0 then andThen tx_stmt (\<lambda>_. raise (NotFound ''User not found.'')) else ret ())))))))"

definition reset_user_password :: "claims \<Rightarrow> uuid \<Rightarrow> string handler" where
  "reset_user_password claims target =
     andThen (require_super claims) (\<lambda>_.
     andThen (rejectIf (target = c_sub claims)
       (Validation ''You cannot reset your own password this way. Use the settings page instead.'')) (\<lambda>_.
     andThen (query (fetch (\<lambda>w. user_exists target (db w)))) (\<lambda>ex.
     andThen (rejectIf (\<not> ex) (NotFound ''User not found.'')) (\<lambda>_.
     andThen temporary_password (\<lambda>password.
     andThen (hash_password password) (\<lambda>h.
     andThen (update_user target (\<lambda>t r. (set_password h t r)\<lparr>u_status := PendingVerification\<rparr>)) (\<lambda>_.
     ret password)))))))"

definition toggle_user_suspend :: "claims \<Rightarrow> uuid \<Rightarrow> user_status handler" where
  "toggle_user_suspend claims target =
     andThen (require_super claims) (\<lambda>_.
     andThen (rejectIf (target = c_sub claims) (Validation ''You cannot suspend your own account.'')) (\<lambda>_.
     andThen (query (fetch (\<lambda>w. firstWhere (\<lambda>u. u_id u = target) (users (db w))))) (\<lambda>found.
     andThen (okOr (NotFound ''User not found.'') found) (\<lambda>u.
     let new_status = (case u_status u of Suspended \<Rightarrow> Active | _ \<Rightarrow> Suspended) in
     andThen (update_user target (\<lambda>t r. r\<lparr>u_status := new_status, u_updated_at := t\<rparr>)) (\<lambda>_.
     ret new_status)))))"

definition get_auth_logs :: "audit_log_row list handler" where
  "get_auth_logs = query (fetch (\<lambda>w. take 500 (sort_key (\<lambda>l. - al_created_at l) (auth_audit_logs (db w)))))"

end
