(* ===== verification/Workspaces.thy ===== *)
theory Workspaces
  imports Databases Auth
begin

text \<open>
  Workspaces and their members: the handlers of \<open>controllers/workspace_controller.rs\<close> and the
  guard their routes share (\<open>routes/workspace_routes.rs\<close>). Deleting a workspace goes through
  most tables; the rows that the foreign keys of the migrations take along are written out.
\<close>

section \<open>Requests and responses\<close>

record update_workspace_request =
  uw_name :: "string option"
  uw_max_memory_mb :: "int option"
  uw_max_storage_gb :: "int option"
  uw_max_cpu_millicores :: "int option"

record workspace_response =
  wr_id :: uuid
  wr_name :: string
  wr_slug :: string
  wr_max_memory_mb :: int
  wr_max_storage_gb :: int
  wr_max_cpu_millicores :: int

definition workspace_response_of :: "workspace \<Rightarrow> workspace_response" where
  "workspace_response_of x =
     \<lparr>wr_id = w_id x, wr_name = w_name x, wr_slug = w_slug x, wr_max_memory_mb = w_max_memory_mb x,
      wr_max_storage_gb = w_max_storage_gb x, wr_max_cpu_millicores = w_max_cpu_millicores x\<rparr>"

record member_response =
  mr_user_id :: uuid
  mr_email :: string
  mr_username :: string
  mr_role_name :: string

text \<open>\<open>config/platform_defaults.rs\<close>: a new workspace is unlimited.\<close>

definition WORKSPACE_MAX_MEMORY_MB :: int where "WORKSPACE_MAX_MEMORY_MB = 0"

definition WORKSPACE_MAX_STORAGE_GB :: int where "WORKSPACE_MAX_STORAGE_GB = 0"

definition WORKSPACE_MAX_CPU_MILLICORES :: int where "WORKSPACE_MAX_CPU_MILLICORES = 0"

definition workspace_slug :: "string \<Rightarrow> string" where
  "workspace_slug name = replace_char (CHR '' '') (CHR ''-'') (trim (to_lowercase name))"

section \<open>Statements\<close>

definition not_null_violation :: string where
  "not_null_violation = ''23502''"

definition workspace_conflict :: "workspace \<Rightarrow> database \<Rightarrow> sqlx_error option" where
  "workspace_conflict r d =
     (if existsWhere (\<lambda>x. w_id x = w_id r) (workspaces d) then Some (conflict_on ''workspaces_pkey'')
      else if existsWhere (\<lambda>x. w_slug x = w_slug r) (workspaces d) then Some (conflict_on ''workspaces_slug_key'')
      else if user_exists (w_created_by r) d then None else Some fk_error)"

definition is_member :: "uuid \<Rightarrow> uuid \<Rightarrow> workspace_member \<Rightarrow> bool" where
  "is_member ws_id user_id m \<longleftrightarrow> wm_workspace_id m = ws_id \<and> wm_user_id m = user_id"

definition member_conflict :: "workspace_member \<Rightarrow> database \<Rightarrow> sqlx_error option" where
  "member_conflict m d =
     (if existsWhere (is_member (wm_workspace_id m) (wm_user_id m)) (workspace_members d)
      then Some (conflict_on ''workspace_members_pkey'')
      else if existsWhere (\<lambda>x. w_id x = wm_workspace_id m) (workspaces d) \<and> user_exists (wm_user_id m) d
        \<and> existsWhere (\<lambda>r. ro_id r = wm_role_id m) (roles d) then None else Some fk_error)"

definition role_named :: "string \<Rightarrow> database \<Rightarrow> uuid option" where
  "role_named n d = map_option ro_id (firstWhere (\<lambda>r. ro_name r = n) (roles d))"

text \<open>The insertion whose role is a sub-select: no such role is a \<open>NULL\<close>.\<close>

definition insert_owner :: "uuid \<Rightarrow> uuid \<Rightarrow> unit handler" where
  "insert_owner ws_id user_id = query (sql (\<lambda>w.
     case role_named ''owner'' (db w) of
       None \<Rightarrow> Inl (Database not_null_violation None)
     | Some r \<Rightarrow>
         (let m = \<lparr>wm_workspace_id = ws_id, wm_user_id = user_id, wm_role_id = r\<rparr> in
          case member_conflict m (db w) of
            Some e \<Rightarrow> Inl e
          | None \<Rightarrow> Inr ((), (db w)\<lparr>workspace_members := insertRow m (workspace_members (db w))\<rparr>))))"

section \<open>Creation and settings\<close>

definition new_workspace :: "claims \<Rightarrow> string \<Rightarrow> uuid \<Rightarrow> instant \<Rightarrow> workspace" where
  "new_workspace claims name ws_id t =
     \<lparr>w_id = ws_id, w_name = name, w_slug = workspace_slug name, w_max_memory_mb = WORKSPACE_MAX_MEMORY_MB,
      w_max_storage_gb = WORKSPACE_MAX_STORAGE_GB, w_max_cpu_millicores = WORKSPACE_MAX_CPU_MILLICORES,
      w_created_by = c_sub claims, w_created_at = t, w_updated_at = t\<rparr>"

text \<open>The statements of the transaction, the cluster's namespace among them.\<close>

definition create_workspace_tx :: "claims \<Rightarrow> string \<Rightarrow> uuid \<Rightarrow> unit handler" where
  "create_workspace_tx claims name ws_id =
     andThen (query (checked (\<lambda>w. workspace_conflict (new_workspace claims name ws_id (clock w)) (db w))
       (\<lambda>w. (db w)\<lparr>workspaces := insertRow (new_workspace claims name ws_id (clock w)) (workspaces (db w))\<rparr>))) (\<lambda>_.
     andThen (insert_owner ws_id (c_sub claims)) (\<lambda>_.
     andThen (onlyIf (c_current_workspace_id claims = None) (select_workspace (c_sub claims) ws_id)) (\<lambda>_.
     andThen get_client (\<lambda>_.
     k8s_do (CreateNamespace (ws_namespace ws_id) WORKSPACE_MAX_MEMORY_MB WORKSPACE_MAX_STORAGE_GB
       WORKSPACE_MAX_CPU_MILLICORES)))))"

definition create_workspace :: "claims \<Rightarrow> string \<Rightarrow> workspace_response handler" where
  "create_workspace claims name =
     andThen (rejectIf (\<not> c_is_super_admin claims) (Permission ''Only platform administrators can create workspaces.'')) (\<lambda>_.
     let slug = workspace_slug name in
     andThen new_v4 (\<lambda>ws_id.
     andThen (query (fetch (\<lambda>w. existsWhere (\<lambda>x. w_slug x = slug) (workspaces (db w))))) (\<lambda>slug_exists.
     andThen (rejectIf slug_exists (Conflict ''A workspace with a similar name already exists'')) (\<lambda>_.
     andThen (transaction (create_workspace_tx claims name ws_id)) (\<lambda>_.
     ret (workspace_response_of (new_workspace claims name ws_id 0)))))))"

definition list_my_workspaces :: "claims \<Rightarrow> workspace_response list handler" where
  "list_my_workspaces claims =
     andThen (query (fetch (\<lambda>w. selectWhere (\<lambda>x. existsWhere (is_member (w_id x) (c_sub claims)) (workspace_members (db w)))
       (workspaces (db w))))) (\<lambda>ws.
     ret (map workspace_response_of ws))"

definition fetch_workspace :: "uuid \<Rightarrow> workspace handler" where
  "fetch_workspace ws_id = query (fetchOne (\<lambda>w. firstWhere (\<lambda>x. w_id x = ws_id) (workspaces (db w))))"

definition get_current_workspace :: "claims \<Rightarrow> workspace_response handler" where
  "get_current_workspace claims =
     andThen (active_workspace claims) (\<lambda>ws_id.
     andThen (fetch_workspace ws_id) (\<lambda>x. ret (workspace_response_of x)))"

definition edited :: "update_workspace_request \<Rightarrow> workspace \<Rightarrow> workspace" where
  "edited p x = x\<lparr>
     w_name := or_else (uw_name p) (w_name x),
     w_slug := (case uw_name p of Some n \<Rightarrow> workspace_slug n | None \<Rightarrow> w_slug x),
     w_max_memory_mb := or_else (uw_max_memory_mb p) (w_max_memory_mb x),
     w_max_storage_gb := or_else (uw_max_storage_gb p) (w_max_storage_gb x),
     w_max_cpu_millicores := or_else (uw_max_cpu_millicores p) (w_max_cpu_millicores x)\<rparr>"

definition update_workspace_settings :: "claims \<Rightarrow> update_workspace_request \<Rightarrow> workspace_response handler" where
  "update_workspace_settings claims p =
     andThen (active_workspace claims) (\<lambda>ws_id.
     andThen (fetch_workspace ws_id) (\<lambda>x.
     let current = edited p x in
     andThen (query (checked
       (\<lambda>w. if existsWhere (\<lambda>y. w_id y \<noteq> ws_id \<and> w_slug y = w_slug current) (workspaces (db w))
              \<and> existsWhere (\<lambda>y. w_id y = ws_id) (workspaces (db w))
            then Some (conflict_on ''workspaces_slug_key'') else None)
       (\<lambda>w. (db w)\<lparr>workspaces := updateWhere (\<lambda>y. w_id y = ws_id)
         (\<lambda>y. y\<lparr>w_name := w_name current, w_slug := w_slug current, w_max_memory_mb := w_max_memory_mb current,
           w_max_storage_gb := w_max_storage_gb current, w_max_cpu_millicores := w_max_cpu_millicores current,
           w_updated_at := clock w\<rparr>) (workspaces (db w))\<rparr>))) (\<lambda>_.
     andThen (attempt get_client) (\<lambda>client.
     andThen (case client of Inl _ \<Rightarrow> ret ()
       | Inr _ \<Rightarrow> andThen (k8s (ApplyNamespaceLimits (ws_namespace ws_id) (w_max_memory_mb current)
           (w_max_storage_gb current) (w_max_cpu_millicores current))) (\<lambda>_. ret ())) (\<lambda>_.
     ret (workspace_response_of current))))))"

section \<open>Members\<close>

text \<open>\<open>ORDER BY u.email\<close> of the joined rows.\<close>

definition member_rows :: "uuid \<Rightarrow> database \<Rightarrow> member_response list" where
  "member_rows ws_id d = concat (map (\<lambda>m.
     case (firstWhere (\<lambda>u. u_id u = wm_user_id m) (users d), firstWhere (\<lambda>r. ro_id r = wm_role_id m) (roles d)) of
       (Some u, Some r) \<Rightarrow> [\<lparr>mr_user_id = u_id u, mr_email = u_email u, mr_username = u_username u, mr_role_name = ro_name r\<rparr>]
     | _ \<Rightarrow> [])
     (selectWhere (\<lambda>m. wm_workspace_id m = ws_id) (workspace_members d)))"

definition list_workspace_members :: "claims \<Rightarrow> member_response list handler" where
  "list_workspace_members claims =
     andThen (active_workspace claims) (\<lambda>ws_id.
     query (fetch (\<lambda>w. sort_key (\<lambda>m. map code (mr_email m)) (member_rows ws_id (db w)))))"

definition invalid_role :: app_error where
  "invalid_role = Validation ''Invalid role name specified.''"

definition add_workspace_member :: "claims \<Rightarrow> string \<Rightarrow> string \<Rightarrow> unit handler" where
  "add_workspace_member claims email role_name =
     andThen (active_workspace claims) (\<lambda>ws_id.
     let user_email = to_lowercase (trim email) in
     andThen (query (fetch (\<lambda>w. map_option u_id (firstWhere (\<lambda>u. u_email u = user_email) (users (db w)))))) (\<lambda>found.
     andThen (okOr (NotFound ''User with this email not found.'') found) (\<lambda>target.
     andThen (query (fetch (\<lambda>w. existsWhere (is_member ws_id target) (workspace_members (db w))))) (\<lambda>already_member.
     andThen (rejectIf already_member (Conflict ''User is already a member of this workspace.'')) (\<lambda>_.
     andThen (query (fetch (\<lambda>w. role_named (to_lowercase (trim role_name)) (db w)))) (\<lambda>role.
     andThen (okOr invalid_role role) (\<lambda>role_id.
     let m = \<lparr>wm_workspace_id = ws_id, wm_user_id = target, wm_role_id = role_id\<rparr> in
     query (checked (\<lambda>w. member_conflict m (db w))
       (\<lambda>w. (db w)\<lparr>workspace_members := insertRow m (workspace_members (db w))\<rparr>)))))))))"

definition workspace_owner :: "uuid \<Rightarrow> uuid handler" where
  "workspace_owner ws_id = andThen (fetch_workspace ws_id) (\<lambda>x. ret (w_created_by x))"

definition update_workspace_member_role :: "claims \<Rightarrow> uuid \<Rightarrow> string \<Rightarrow> unit handler" where
  "update_workspace_member_role claims user_id role_name =
     andThen (active_workspace claims) (\<lambda>ws_id.
     andThen (workspace_owner ws_id) (\<lambda>owner.
     andThen (rejectIf (user_id = owner) (Validation ''Cannot modify the role of the workspace owner.'')) (\<lambda>_.
     andThen (query (fetch (\<lambda>w. existsWhere (is_member ws_id user_id) (workspace_members (db w))))) (\<lambda>member_exists.
     andThen (rejectIf (\<not> member_exists) (NotFound ''Member not found in this workspace.'')) (\<lambda>_.
     andThen (query (fetch (\<lambda>w. role_named (to_lowercase (trim role_name)) (db w)))) (\<lambda>role.
     andThen (okOr invalid_role role) (\<lambda>role_id.
     query (checked
       (\<lambda>w. if existsWhere (is_member ws_id user_id) (workspace_members (db w)) \<and> \<not> existsWhere (\<lambda>r. ro_id r = role_id) (roles (db w))
            then Some fk_error else None)
       (\<lambda>w. (db w)\<lparr>workspace_members := updateWhere (is_member ws_id user_id) (\<lambda>m. m\<lparr>wm_role_id := role_id\<rparr>)
         (workspace_members (db w))\<rparr>)))))))))"

definition remove_workspace_member :: "claims \<Rightarrow> uuid \<Rightarrow> unit handler" where
  "remove_workspace_member claims user_id =
     andThen (active_workspace claims) (\<lambda>ws_id.
     andThen (workspace_owner ws_id) (\<lambda>owner.
     andThen (rejectIf (user_id = owner) (Validation ''Cannot remove the workspace owner.'')) (\<lambda>_.
     andThen (rejectIf (user_id = c_sub claims) (Validation ''Cannot remove yourself from the workspace.'')) (\<lambda>_.
     andThen (query (executing (\<lambda>w. (countWhere (is_member ws_id user_id) (workspace_members (db w)),
       (db w)\<lparr>workspace_members := deleteWhere (is_member ws_id user_id) (workspace_members (db w))\<rparr>)))) (\<lambda>rows_affected.
     rejectIf (rows_affected = 0) (NotFound ''Member not found in this workspace.''))))))"

text \<open>Every route of the settings and the members is behind the permission to read projects.\<close>

definition workspace_route :: "request_parts \<Rightarrow> (claims \<Rightarrow> 'a handler) \<Rightarrow> 'a handler" where
  "workspace_route rp h = check_permission rp ''project:read'' (andThen (authenticated_user rp) h)"

section \<open>Deletion\<close>

text \<open>The rows that go with deleted instances, apps, projects and buckets by \<open>ON DELETE CASCADE\<close>.\<close>

definition delete_instance_rows :: "(app_instance \<Rightarrow> bool) \<Rightarrow> database \<Rightarrow> database" where
  "delete_instance_rows p d =
     (let gone = map ai_id (selectWhere p (app_instances d)) in
      d\<lparr>app_instances := deleteWhere p (app_instances d),
        app_env_links := deleteWhere (\<lambda>l. el_app_instance_id l \<in> set gone) (app_env_links d),
        app_incident_logs := deleteWhere (\<lambda>l. in_app_instance_id l \<in> set gone) (app_incident_logs d),
        chaos_experiments := deleteWhere (\<lambda>x. cx_app_instance_id x \<in> set gone) (chaos_experiments d),
        app_builds := deleteWhere (\<lambda>b. ab_app_instance_id b \<in> set gone) (app_builds d)\<rparr>)"

definition delete_app_rows :: "(app \<Rightarrow> bool) \<Rightarrow> database \<Rightarrow> database" where
  "delete_app_rows p d =
     (let gone = map a_id (selectWhere p (apps d));
          d1 = delete_cron_rows (\<lambda>j. \<exists>a \<in> set gone. cj_app_id j = Some a)
                 (delete_instance_rows (\<lambda>i. ai_app_id i \<in> set gone) d) in
      d1\<lparr>apps := deleteWhere p (apps d1),
         app_volumes := deleteWhere (\<lambda>v. vo_app_id v \<in> set gone) (app_volumes d1),
         app_builds := deleteWhere (\<lambda>b. ab_app_id b \<in> set gone) (app_builds d1)\<rparr>)"

definition delete_baas_rows :: "(baas_service \<Rightarrow> bool) \<Rightarrow> database \<Rightarrow> database" where
  "delete_baas_rows p d =
     (let gone = map bs_id (selectWhere p (baas_services d));
          users_gone = map au_id (selectWhere (\<lambda>u. au_baas_id u \<in> set gone) (app_users d)) in
      d\<lparr>baas_services := deleteWhere p (baas_services d),
        app_users := deleteWhere (\<lambda>u. au_baas_id u \<in> set gone) (app_users d),
        app_user_roles := deleteWhere (\<lambda>r. uo_baas_id r \<in> set gone \<or> uo_app_user_id r \<in> set users_gone) (app_user_roles d),
        app_refresh_tokens := deleteWhere (\<lambda>t. ar_baas_id t \<in> set gone \<or> ar_app_user_id t \<in> set users_gone) (app_refresh_tokens d),
        app_api_keys := deleteWhere (\<lambda>k. ak_baas_id k \<in> set gone) (app_api_keys d)\<rparr>)"

definition delete_serverless_rows :: "(serverless_instance \<Rightarrow> bool) \<Rightarrow> database \<Rightarrow> database" where
  "delete_serverless_rows p d =
     (let gone = map si_id (selectWhere p (serverless_instances d)) in
      d\<lparr>serverless_instances := deleteWhere p (serverless_instances d),
        serverless_routes := deleteWhere (\<lambda>r. sr_instance_id r \<in> set gone) (serverless_routes d),
        serverless_builds := deleteWhere (\<lambda>b. sv_instance_id b \<in> set gone) (serverless_builds d),
        serverless_env_variables := deleteWhere (\<lambda>v. se_instance_id v \<in> set gone) (serverless_env_variables d),
        serverless_env_links := deleteWhere (\<lambda>l. sl_instance_id l \<in> set gone) (serverless_env_links d)\<rparr>)"

definition delete_project_rows :: "(project \<Rightarrow> bool) \<Rightarrow> database \<Rightarrow> database" where
  "delete_project_rows p d =
     (let gone = map pr_id (selectWhere p (projects d));
          d1 = delete_serverless_rows (\<lambda>s. si_project_id s \<in> set gone)
            (delete_baas_rows (\<lambda>b. bs_project_id b \<in> set gone) (delete_pool_vars (\<lambda>v. pv_project_id v \<in> set gone) d)) in
      d1\<lparr>projects := deleteWhere p (projects d1),
         project_webhooks := deleteWhere (\<lambda>h. pw_project_id h \<in> set gone) (project_webhooks d1),
         project_ssh_keys := deleteWhere (\<lambda>k. sk_project_id k \<in> set gone) (project_ssh_keys d1),
         storage_buckets := updateWhere (\<lambda>b. \<exists>i \<in> set gone. sb_project_id b = Some i)
           (\<lambda>b. b\<lparr>sb_project_id := None\<rparr>) (storage_buckets d1)\<rparr>)"

definition delete_bucket_rows :: "(storage_bucket \<Rightarrow> bool) \<Rightarrow> database \<Rightarrow> database" where
  "delete_bucket_rows p d =
     (let gone = map sb_id (selectWhere p (storage_buckets d)) in
      d\<lparr>storage_buckets := deleteWhere p (storage_buckets d),
        storage_objects := deleteWhere (\<lambda>b. so_bucket_id b \<in> set gone) (storage_objects d)\<rparr>)"

definition delete_workspace_row :: "uuid \<Rightarrow> database \<Rightarrow> database" where
  "delete_workspace_row ws_id d =
     (if existsWhere (\<lambda>x. w_id x = ws_id) (workspaces d)
      then
        let d1 = delete_serverless_rows (\<lambda>s. si_workspace_id s = ws_id) (delete_project_rows (\<lambda>p. pr_workspace_id p = ws_id) d) in
        d1\<lparr>workspaces := deleteWhere (\<lambda>x. w_id x = ws_id) (workspaces d1),
           domains := deleteWhere (\<lambda>x. dm_workspace_id x = ws_id) (domains d1),
           workspace_members := deleteWhere (\<lambda>m. wm_workspace_id m = ws_id) (workspace_members d1),
           git_credentials := deleteWhere (\<lambda>g. gt_workspace_id g = ws_id) (git_credentials d1),
           users := updateWhere (\<lambda>u. u_current_workspace_id u = Some ws_id)
             (\<lambda>u. u\<lparr>u_current_workspace_id := None\<rparr>) (users d1)\<rparr>
      else d)"

text \<open>The statements of the transaction, in their order.\<close>

definition in_apps :: "uuid \<Rightarrow> database \<Rightarrow> uuid \<Rightarrow> bool" where
  "in_apps ws_id d i \<longleftrightarrow> existsWhere (\<lambda>a. a_id a = i \<and> a_workspace_id a = ws_id) (apps d)"

definition first_membership :: "database \<Rightarrow> user \<Rightarrow> uuid option" where
  "first_membership d u =
     map_option wm_workspace_id (firstWhere (\<lambda>m. wm_user_id m = u_id u) (workspace_members d))"

definition deletion_steps :: "uuid \<Rightarrow> (database \<Rightarrow> database) list" where
  "deletion_steps ws_id =
     [\<lambda>d. d\<lparr>environment_variables := deleteWhere (\<lambda>v. ev_workspace_id v = ws_id) (environment_variables d)\<rparr>,
      \<lambda>d. d\<lparr>domains := deleteWhere (\<lambda>x. dm_workspace_id x = ws_id) (domains d)\<rparr>,
      \<lambda>d. d\<lparr>storage_objects := deleteWhere (\<lambda>o'. existsWhere (\<lambda>b. sb_id b = so_bucket_id o' \<and> sb_workspace_id b = ws_id)
            (storage_buckets d)) (storage_objects d)\<rparr>,
      delete_bucket_rows (\<lambda>b. sb_workspace_id b = ws_id),
      \<lambda>d. d\<lparr>database_backups := deleteWhere (\<lambda>b. existsWhere (\<lambda>s. ds_id s = bk_database_id b \<and> ds_workspace_id s = ws_id)
            (databases d)) (database_backups d)\<rparr>,
      delete_database_rows (\<lambda>s. ds_workspace_id s = ws_id),
      \<lambda>d. d\<lparr>app_builds := deleteWhere (\<lambda>b. in_apps ws_id d (ab_app_id b)) (app_builds d)\<rparr>,
      \<lambda>d. delete_instance_rows (\<lambda>i. in_apps ws_id d (ai_app_id i)) d,
      \<lambda>d. d\<lparr>app_volumes := deleteWhere (\<lambda>v. vo_workspace_id v = ws_id) (app_volumes d)\<rparr>,
      delete_app_rows (\<lambda>a. a_workspace_id a = ws_id),
      delete_project_rows (\<lambda>p. pr_workspace_id p = ws_id),
      \<lambda>d. d\<lparr>workspace_members := deleteWhere (\<lambda>m. wm_workspace_id m = ws_id) (workspace_members d)\<rparr>,
      \<lambda>d. d\<lparr>users := updateWhere (\<lambda>u. u_current_workspace_id u = Some ws_id)
            (\<lambda>u. u\<lparr>u_current_workspace_id := None\<rparr>) (users d)\<rparr>,
      \<lambda>d. d\<lparr>users := updateWhere (\<lambda>u. u_current_workspace_id u = None)
            (\<lambda>u. u\<lparr>u_current_workspace_id := first_membership d u\<rparr>) (users d)\<rparr>,
      delete_workspace_row ws_id]"

definition may_delete_workspace :: "claims \<Rightarrow> uuid \<Rightarrow> bool handler" where
  "may_delete_workspace claims ws_id =
     (if c_is_super_admin claims then ret True
      else
        andThen (query (fetchOne (\<lambda>w. role_named ''owner'' (db w)))) (\<lambda>owner_role_id.
        query (fetch (\<lambda>w. existsWhere (\<lambda>m. is_member ws_id (c_sub claims) m \<and> wm_role_id m = owner_role_id)
          (workspace_members (db w))))))"

definition delete_workspace :: "claims \<Rightarrow> uuid \<Rightarrow> unit handler" where
  "delete_workspace claims ws_id =
     andThen (may_delete_workspace claims ws_id) (\<lambda>is_owner.
     andThen (rejectIf (\<not> is_owner) (Permission ''Only workspace owners or super admins can delete workspaces.'')) (\<lambda>_.
     andThen get_client (\<lambda>_.
     andThen (k8s (DeleteNamespace (ws_namespace ws_id))) (\<lambda>_.
     andThen (orElse (fetch (\<lambda>w. selectWhere (\<lambda>b. sb_workspace_id b = ws_id) (storage_buckets (db w)))) []) (\<lambda>buckets.
     andThen (forEach buckets (\<lambda>b. host (RemoveBucketDir ws_id (sb_slug b) (sb_access_type b)))) (\<lambda>_.
     andThen (orElse (fetch (\<lambda>w. selectWhere (\<lambda>s. ds_workspace_id s = ws_id) (databases (db w)))) []) (\<lambda>dbs.
     andThen (forEach dbs (\<lambda>s. host (RemoveBackupDir (ds_id s)))) (\<lambda>_.
     transaction (forEach (deletion_steps ws_id) (\<lambda>f. query (execute (\<lambda>w. f (db w)))))))))))))"

end
