(* ===== verification/Auth_Laws.thy ===== *)
theory Auth_Laws
  imports Auth
begin

text \<open>
  What the account and session handlers guarantee: who gets a session, how long a refresh
  token and an access token live, what deleting a user leaves, which way an account changes
  its status, and exactly whom the permission check lets through.
\<close>

section \<open>The statements the handlers share, in a steady world\<close>

lemma steady_record_audit [steady_intros]:
  assumes "\<And>d l. I d \<Longrightarrow> I (d\<lparr>auth_audit_logs := l\<rparr>)"
  shows "keeps (steady k I) (record_audit i n a ip ag)"
  unfolding record_audit_def using assms
  by (intro keeps_intros steady_checked) (auto simp: steady_def)

lemma steady_check_rate_limit [steady_intros]:
  assumes "\<And>d l. I d \<Longrightarrow> I (d\<lparr>rate_limit_counters := l\<rparr>)"
  shows "keeps (steady k I) (check_rate_limit b mx win)"
  unfolding check_rate_limit_def using assms
  by (intro keeps_intros steady_sql)
     (auto simp: steady_def Let_def split: option.splits if_splits intro: keeps_ret)

lemma steady_update_user [steady_intros]:
  assumes "\<And>d t. I d \<Longrightarrow> I (d\<lparr>users := updateWhere (\<lambda>u. u_id u = i) (f t) (users d)\<rparr>)"
  shows "keeps (steady k I) (update_user i f)"
  unfolding update_user_def using assms
  by (intro keeps_intros steady_execute) (auto simp: steady_def)

lemma steady_select_workspace [steady_intros]:
  assumes "\<And>d. I d \<Longrightarrow> I (d\<lparr>users := updateWhere (\<lambda>u. u_id u = i) (\<lambda>u. u\<lparr>u_current_workspace_id := Some ws\<rparr>) (users d)\<rparr>)"
  shows "keeps (steady k I) (select_workspace i ws)"
  unfolding select_workspace_def using assms
  by (intro keeps_intros steady_checked) (auto simp: steady_def)

lemma steady_default_workspace:
  assumes "\<And>d t. I d \<Longrightarrow> I (d\<lparr>users := t\<rparr>)"
  shows "keeps (steady k I) (default_workspace u)"
  unfolding default_workspace_def using assms
  by (intro keeps_intros steady_intros)

lemma steadyD: "keeps (steady k I) m \<Longrightarrow> m w = (r, w') \<Longrightarrow> steady k I w \<Longrightarrow> steady k I w'"
  by (metis keeps_step)

section \<open>Opening a session\<close>

text \<open>What was done to open the session reported by \<open>r\<close> for the user \<open>u\<close>.\<close>

definition session_of :: "user \<Rightarrow> auth_token_response \<Rightarrow> world \<Rightarrow> refresh_token_row" where
  "session_of u r w = \<lparr>rt_user_id = u_id u, rt_token = sha256_hex (ext w) (at_refresh_token r),
     rt_expires_at = clock w + seconds (expiry_secs ''JWT_REFRESH_EXPIRY'' 604800 w)\<rparr>"

definition access_of :: "user \<Rightarrow> world \<Rightarrow> string" where
  "access_of u w = jwt_sign (ext w)
     (claims_of u ((clock w + seconds (expiry_secs ''JWT_ACCESS_EXPIRY'' 900 w)) div 1000000))"

lemma opened_ambient:
  "ambient w = ambient w' \<Longrightarrow> session_of u r w = session_of u r w' \<and> access_of u w = access_of u w'"
  by (simp add: ambient_def session_of_def access_of_def expiry_secs_def)

lemma session_of_user: "u_id u = u_id v \<Longrightarrow> session_of u r w = session_of v r w"
  by (simp add: session_of_def)

lemma open_session_success:
  assumes "open_session u m w = (Inr r, w')" "\<And>k I. keeps (steady k I) m"
  shows "refresh_tokens (db w') = insertRow (session_of u r w) (refresh_tokens (db w))"
    and "\<forall>x \<in> set (refresh_tokens (db w)). rt_token x \<noteq> rt_token (session_of u r w)"
    and "at_access_token r = access_of u w" "ambient w' = ambient w"
proof -
  obtain x w1 where m: "m w1 = (Inr x, w')"
    and w1: "refresh_tokens (db w1) = insertRow (session_of u r w) (refresh_tokens (db w))"
      "\<forall>x \<in> set (refresh_tokens (db w)). rt_token x \<noteq> rt_token (session_of u r w)"
      "ambient w1 = ambient w" "at_access_token r = access_of u w"
    using assms(1)
    by (auto simp: open_session_def generate_token_bundle_def store_refresh_token_def success_simps Let_def
        token_conflict_def session_of_def access_of_def ambient_def existsWhere_iff split: if_splits)
  note st = steadyD [OF assms(2) m, of "ambient w1" "\<lambda>d. refresh_tokens d = refresh_tokens (db w1)"]
  show "refresh_tokens (db w') = insertRow (session_of u r w) (refresh_tokens (db w))"
    "\<forall>x \<in> set (refresh_tokens (db w)). rt_token x \<noteq> rt_token (session_of u r w)"
    "at_access_token r = access_of u w" "ambient w' = ambient w"
    using st w1 by (simp_all add: steady_def)
qed

lemma steady_fetch_user [steady_intros]: "keeps (steady k I) (fetch_user i)"
  unfolding fetch_user_def by (intro keeps_intros steady_intros)

text \<open>
  C20. A session is only opened for a user whose name or address was given, who is not
  suspended and whose password verifies, within the limit on attempts. It adds exactly one
  refresh token, known by its hash only, to those stored, and the access token names that
  user. This holds whatever statements fail on the way.
\<close>

theorem login_is_authenticated:
  assumes "login hs ident pw w = (Inr r, w')"
  shows "fst (check_rate_limit (login_bucket hs) 10 300 w) = Inr True
    \<and> (\<exists>u v. u \<in> set (users (db w)) \<and> named_as ident ident u \<and> u_status u \<noteq> Suspended
        \<and> pw_verify (ext w) pw (u_password_hash u) = Some True
        \<and> u_id v = u_id u \<and> u_status v = u_status u \<and> u_is_super_admin v = u_is_super_admin u
        \<and> at_access_token r = access_of v w
        \<and> refresh_tokens (db w') = insertRow (session_of u r w) (refresh_tokens (db w)))"
proof -
  let ?I = "\<lambda>d. users d = users (db w) \<and> refresh_tokens d = refresh_tokens (db w)"
  obtain w1 found w2 where limit: "check_rate_limit (login_bucket hs) 10 300 w = (Inr True, w1)"
    and w2: "w2 = w1\<lparr>faults := tl (faults w1)\<rparr>" "found = firstWhere (named_as ident ident) (users (db w2))"
    and rest: "(case found of
       None \<Rightarrow> andThen (discard (record_audit None ident ''LOGIN_FAILED'' (extract_client_ip hs) (user_agent hs)))
         (\<lambda>_. raise (Auth ''Invalid credentials.''))
     | Some u \<Rightarrow>
         if u_status u = Suspended
         then andThen (discard (record_audit (Some (u_id u)) ident ''LOGIN_FAILED'' (extract_client_ip hs) (user_agent hs)))
           (\<lambda>_. raise (Auth ''This account has been suspended.''))
         else
           andThen (verify_password pw (u_password_hash u)) (\<lambda>valid.
           if \<not> valid
           then andThen (discard (record_audit (Some (u_id u)) ident ''LOGIN_FAILED'' (extract_client_ip hs) (user_agent hs)))
             (\<lambda>_. raise (Auth ''Invalid credentials.''))
           else
             andThen (default_workspace u) (\<lambda>u.
             andThen (update_user (u_id u) (\<lambda>t r. r\<lparr>u_last_login_at := Some t, u_last_login_ip := extract_client_ip hs,
               u_last_login_user_agent := user_agent hs\<rparr>)) (\<lambda>_.
             andThen (discard (record_audit (Some (u_id u)) (u_email u) ''LOGIN_SUCCESS'' (extract_client_ip hs) (user_agent hs))) (\<lambda>_.
             open_session u (fetch_user (u_id u))))))) w2 = (Inr r, w')"
    using assms by (auto simp: login_def Let_def andThen_success rejectIf_success query_success fetch_success)
  have st1: "steady (ambient w) ?I w1"
    by (rule steadyD [OF steady_check_rate_limit limit]) (simp_all add: steady_def)
  then have st2: "steady (ambient w) ?I w2" by (simp add: steady_def w2)
  obtain u where u: "found = Some u" "u_status u \<noteq> Suspended"
    using rest by (cases found) (auto simp: andThen_success raise_success split: if_splits)
  then have "u \<in> set (users (db w))" "named_as ident ident u"
    using w2(2) st2 by (auto simp: steady_def dest: firstWhere_Some)
  from rest u obtain v w3 w4 w5 where pw: "pw_verify (ext w2) pw (u_password_hash u) = Some True"
    and dw: "default_workspace u w2 = (Inr v, w3)"
    and w4: "update_user (u_id v) (\<lambda>t r. r\<lparr>u_last_login_at := Some t, u_last_login_ip := extract_client_ip hs,
               u_last_login_user_agent := user_agent hs\<rparr>) w3 = (Inr (), w4)"
    and w5: "(discard (record_audit (Some (u_id v)) (u_email v) ''LOGIN_SUCCESS'' (extract_client_ip hs) (user_agent hs)) :: unit handler) w4 = (Inr (), w5)"
    and op: "open_session v (fetch_user (u_id v)) w5 = (Inr r, w')"
    by (auto simp: verify_password_def andThen_success readState_success raise_success ret_success split: option.splits if_splits)
  let ?J = "\<lambda>d. refresh_tokens d = refresh_tokens (db w)"
  have "steady (ambient w) ?J w2" using st2 by (simp add: steady_def)
  then have "steady (ambient w) ?J w5"
    using steadyD [OF steady_default_workspace dw] steadyD [OF steady_update_user w4] steadyD [OF keeps_discard [OF steady_record_audit] w5]
    by simp
  then have w5': "ambient w5 = ambient w" "refresh_tokens (db w5) = refresh_tokens (db w)" by (simp_all add: steady_def)
  have v: "u_id v = u_id u" "u_status v = u_status u" "u_is_super_admin v = u_is_super_admin u"
    using dw by (auto simp: default_workspace_def success_simps split: if_splits option.splits)
  have "refresh_tokens (db w') = insertRow (session_of u r w) (refresh_tokens (db w))" "at_access_token r = access_of v w"
    using open_session_success(1,3) [OF op steady_fetch_user] w5' opened_ambient [OF w5'(1)] session_of_user [OF v(1)] by simp_all
  moreover have "ext w2 = ext w" using st2 by (simp add: steady_def ambient_def)
  ultimately show ?thesis
    using limit pw v \<open>u \<in> set (users (db w))\<close> \<open>named_as ident ident u\<close> u(2) by fastforce
qed

text \<open>
  A concrete installation: \<open>root\<close> administers the platform, \<open>ann\<close> created workspace 7,
  \<open>bob\<close> is a viewer there and \<open>eve\<close> has not activated her account. Passwords are \<open>pw\<close>.
\<close>

definition sample_user :: "uuid \<Rightarrow> string \<Rightarrow> user_status \<Rightarrow> bool \<Rightarrow> uuid option \<Rightarrow> user" where
  "sample_user i n st super ws =
     \<lparr>u_id = i, u_username = n, u_email = n @ ''@x.io'', u_password_hash = ''s$pw'', u_status = st,
      u_is_super_admin = super, u_current_workspace_id = ws, u_password_changed_at = 0, u_last_login_at = None,
      u_last_login_ip = None, u_last_login_user_agent = None, u_created_at = 0, u_updated_at = 0,
      u_github_token = None, u_github_username = None\<rparr>"

definition auth_db :: database where
  "auth_db = empty_db\<lparr>
     users := [sample_user 1 ''root'' Active True None, sample_user 2 ''ann'' Active False (Some 7),
       sample_user 3 ''bob'' Active False (Some 7), sample_user 4 ''eve'' PendingVerification False None],
     refresh_tokens := [\<lparr>rt_user_id = 2, rt_token = ''nekot'', rt_expires_at = seconds 2000\<rparr>],
     workspaces := [\<lparr>w_id = 7, w_name = ''Team'', w_slug = ''team'', w_max_memory_mb = 1024, w_max_storage_gb = 10,
       w_max_cpu_millicores = 1000, w_created_by = 2, w_created_at = 0, w_updated_at = 0\<rparr>],
     roles := [\<lparr>ro_id = 51, ro_name = ''owner''\<rparr>, \<lparr>ro_id = 52, ro_name = ''viewer''\<rparr>],
     permissions := [\<lparr>pe_id = 61, pe_name = ''project:read''\<rparr>, \<lparr>pe_id = 62, pe_name = ''workspace:update''\<rparr>],
     role_permissions := [(51, 61), (51, 62), (52, 61)],
     workspace_members := [\<lparr>wm_workspace_id = 7, wm_user_id = 2, wm_role_id = 51\<rparr>,
       \<lparr>wm_workspace_id = 7, wm_user_id = 3, wm_role_id = 52\<rparr>]\<rparr>"

definition auth_world :: world where
  "auth_world = base_world\<lparr>db := auth_db\<rparr>"

lemmas auth_world_defs = auth_world_def auth_db_def sample_user_def base_world_def empty_db_def

lemma auth_world_login: "\<exists>r w'. login [] ''ann'' ''pw'' (auth_world\<lparr>db := auth_db\<lparr>refresh_tokens := []\<rparr>\<rparr>) = (Inr r, w')"
  by (simp add: login_def auth_world_defs run_simps check_rate_limit_def sql_ok login_bucket_def extract_client_ip_def header_str_def
    firstWhere_def named_as_def to_lowercase_def char_lower_def code_def seconds_def is_upper_def Let_def
    plain_ext_def verify_password_def last_segment_def default_workspace_def update_user_def record_audit_def user_exists_def
    existsWhere_def updateWhere_def open_session_def generate_token_bundle_def store_refresh_token_def token_conflict_def fetch_user_def
    user_agent_def insertRow_def)

theorem login_is_authenticated_witness:
  "\<exists>r w' row. login [] ''ann'' ''pw'' (auth_world\<lparr>db := auth_db\<lparr>refresh_tokens := []\<rparr>\<rparr>) = (Inr r, w')
    \<and> refresh_tokens (db w') = [row]"
proof -
  obtain r w' where r: "login [] ''ann'' ''pw'' (auth_world\<lparr>db := auth_db\<lparr>refresh_tokens := []\<rparr>\<rparr>) = (Inr r, w')"
    using auth_world_login by blast
  from login_is_authenticated [OF r] have "\<exists>row. refresh_tokens (db w') = [row]" by (auto simp: insertRow_def)
  with r show ?thesis by blast
qed

section \<open>Refresh tokens\<close>

text \<open>
  C21. A refresh token works once: it must be stored, unexpired and belong to a user who is not
  suspended, and after a successful refresh no later state that still has the stored tokens
  of the refresh accepts it again. Nothing is assumed of the statements in between.
\<close>

theorem refresh_token_works_once:
  assumes "refresh_session t w = (Inr r, w')" "sha256_hex (ext w) (at_refresh_token r) \<noteq> sha256_hex (ext w) t"
    and "ext v = ext w" "refresh_tokens (db v) = refresh_tokens (db w')" "clock w \<le> clock v"
  shows "(\<exists>u \<in> set (users (db w)). u_status u \<noteq> Suspended
      \<and> (\<exists>row \<in> set (refresh_tokens (db w)). live_token (sha256_hex (ext w) t) (clock w) row \<and> rt_user_id row = u_id u))
    \<and> (\<forall>r' v'. refresh_session t v \<noteq> (Inr r', v'))"
proof -
  let ?h = "sha256_hex (ext w) t"
  obtain row u w1 where row: "firstWhere (live_token ?h (clock w)) (refresh_tokens (db w)) = Some row"
    and u: "firstWhere (\<lambda>u. u_id u = rt_user_id row) (users (db w)) = Some u" "u_status u \<noteq> Suspended"
    and w1: "open_session u (ret u) w1 = (Inr r, w')" "ambient w1 = ambient w"
      "refresh_tokens (db w1) = deleteWhere (live_token ?h (clock w)) (refresh_tokens (db w))"
    using assms(1) by (auto simp: refresh_session_def success_simps fetch_user_def)
  have "refresh_tokens (db w') = insertRow (session_of u r w) (refresh_tokens (db w1))"
    using open_session_success(1) [OF w1(1) keeps_ret] opened_ambient [OF w1(2)] by simp
  then have "firstWhere (live_token ?h (clock v)) (refresh_tokens (db v)) = None"
    using assms(2,4,5) w1(3) by (auto simp: firstWhere_None set_insertRow set_deleteWhere live_token_def session_of_def)
  then have "refresh_session t v \<noteq> (Inr r', v')" for r' v'
    using assms(3) by (auto simp: refresh_session_def success_simps)
  then show ?thesis using u(2) firstWhere_Some [OF row] firstWhere_Some [OF u(1)] by (intro conjI bexI [of _ u] bexI [of _ row]) simp_all
qed

theorem refresh_token_works_once_witness:
  "\<exists>r w'. refresh_session ''token'' auth_world = (Inr r, w') \<and> (\<forall>r' v'. refresh_session ''token'' w' \<noteq> (Inr r', v'))"
proof -
  have run: "\<exists>r w'. refresh_session ''token'' auth_world = (Inr r, w') \<and> ext w' = ext auth_world
      \<and> clock w' = clock auth_world \<and> CHR ''-'' \<in> set (at_refresh_token r) \<and> sha256_hex (ext auth_world) = rev"
    by (simp add: refresh_session_def auth_world_defs run_simps firstWhere_def live_token_def seconds_def plain_ext_def fetch_user_def
      open_session_def generate_token_bundle_def store_refresh_token_def token_conflict_def existsWhere_def deleteWhere_def
      user_exists_def uuid_str_def Let_def)
  then obtain r w' where r: "refresh_session ''token'' auth_world = (Inr r, w')" "ext w' = ext auth_world" "clock w' = clock auth_world"
    "CHR ''-'' \<in> set (at_refresh_token r)" "sha256_hex (ext auth_world) = rev" by blast
  moreover have "at_refresh_token r \<noteq> ''token''" using r(4) by auto
  ultimately show ?thesis using refresh_token_works_once [OF r(1), of w'] by auto
qed

section \<open>Access tokens\<close>

lemma authenticated_user_run:
  "authenticated_user rp w = (fst (authenticated_user rp w), w)"
  "ambient v = ambient w \<Longrightarrow> fst (authenticated_user rp v) = fst (authenticated_user rp w)"
  by (auto simp: authenticated_user_def bearer_token_def ambient_def act_defs split: option.splits)

lemma steady_delete_user: "keeps (steady k (\<lambda>_. True)) (delete_user c t)"
  unfolding delete_user_def require_super_def adopt_def
  by (intro keeps_intros steady_intros steady_checked steady_sql keeps_let) simp_all

lemma steady_temporary_password [steady_intros]: "keeps (steady k I) temporary_password"
  unfolding temporary_password_def by (intro keeps_intros steady_intros)

lemma steady_reset_user_password: "keeps (steady k (\<lambda>_. True)) (reset_user_password c t)"
  unfolding reset_user_password_def require_super_def by (intro keeps_intros steady_intros) simp_all

lemma steady_toggle_user_suspend: "keeps (steady k (\<lambda>_. True)) (toggle_user_suspend c t)"
  unfolding toggle_user_suspend_def require_super_def by (intro keeps_intros steady_intros) simp_all

text \<open>
  An access token outlives the account: after its user was suspended, deleted or had the
  password reset, the same request is still let in with the claims of before, super
  administrator rights included, until the token expires.
\<close>

theorem access_token_outlives_account:
  assumes "authenticated_user rp w = (Inr c, w1)"
    and "m \<in> {discard (toggle_user_suspend a t), delete_user a t, discard (reset_user_password a t)}"
  shows "authenticated_user rp (snd (m w)) = (Inr c, snd (m w))"
proof -
  have "keeps (steady (ambient w) (\<lambda>_. True)) m"
    using assms(2) by (elim insertE)
      (simp_all add: keeps_discard steady_delete_user steady_reset_user_password steady_toggle_user_suspend)
  from keepsD [OF this, of w] have "ambient (snd (m w)) = ambient w" by (simp add: steady_def)
  from authenticated_user_run(2) [OF this] show ?thesis
    using assms(1) authenticated_user_run(1) [of rp "snd (m w)"] by simp
qed

text \<open>A request that carries \<open>root\<close>'s or \<open>bob\<close>'s token.\<close>

definition as_user :: "string \<Rightarrow> request_parts" where
  "as_user n = \<lparr>rp_headers = [(''authorization'', ''Bearer '' @ n)], rp_query = None, rp_path = ''/api/v1/users''\<rparr>"

definition sample_decode :: "instant \<Rightarrow> string \<Rightarrow> claims option" where
  "sample_decode t s = map_option (\<lambda>u. claims_of u 1000)
     (firstWhere (\<lambda>u. u_username u = s \<and> t \<le> seconds 1060) (users auth_db))"

definition token_world :: world where
  "token_world = auth_world\<lparr>ext := plain_ext\<lparr>jwt_decode := sample_decode\<rparr>\<rparr>"

lemma authenticated_sample:
  assumes "clock w = seconds 1000" "jwt_decode (ext w) = sample_decode"
  shows "authenticated_user (as_user ''root'') w = (Inr (claims_of (sample_user 1 ''root'' Active True None) 1000), w)"
    "authenticated_user (as_user ''bob'') w = (Inr (claims_of (sample_user 3 ''bob'' Active False (Some 7)) 1000), w)"
  using assms
  by (simp_all add: authenticated_user_def bearer_token_def as_user_def header_str_def visible_ascii_def code_def starts_with_def
      sample_decode_def firstWhere_def auth_db_def sample_user_def claims_of_def act_defs seconds_def)

lemma token_world_simps [simp]:
  "clock token_world = seconds 1000" "jwt_decode (ext token_world) = sample_decode" "db token_world = auth_db" "faults token_world = []"
  by (simp_all add: token_world_def auth_world_def base_world_def plain_ext_def)

theorem access_token_outlives_account_witness:
  "fst (authenticated_user (as_user ''root'')
     (snd (delete_user (claims_of (sample_user 2 ''ann'' Active True None) 0) 1 token_world)))
   = Inr (claims_of (sample_user 1 ''root'' Active True None) 1000)"
  using access_token_outlives_account [OF authenticated_sample(1), of token_world
      "delete_user (claims_of (sample_user 2 ''ann'' Active True None) 0) 1" "claims_of (sample_user 2 ''ann'' Active True None) 0" 1]
  by simp

section \<open>Deleting a user\<close>

definition reassigned :: "uuid \<Rightarrow> uuid \<Rightarrow> database \<Rightarrow> database" where
  "reassigned me t d = d\<lparr>
     workspaces := updateWhere (\<lambda>r. w_created_by r = t) (\<lambda>r. r\<lparr>w_created_by := me\<rparr>) (workspaces d),
     projects := updateWhere (\<lambda>r. pr_created_by r = t) (\<lambda>r. r\<lparr>pr_created_by := me\<rparr>) (projects d),
     domains := updateWhere (\<lambda>r. dm_created_by r = t) (\<lambda>r. r\<lparr>dm_created_by := me\<rparr>) (domains d)\<rparr>"

lemma delete_user_success:
  assumes "delete_user c t w = (Inr u, w')"
  shows "c_is_super_admin c \<and> t \<noteq> c_sub c \<and> user_exists t (db w)
    \<and> db w' = delete_user_row t (reassigned (c_sub c) t (db w))"
proof -
  let ?body = "andThen (adopt (c_sub c) (\<lambda>d. existsWhere (\<lambda>r. w_created_by r = t) (workspaces d))
         (\<lambda>d. d\<lparr>workspaces := updateWhere (\<lambda>r. w_created_by r = t) (\<lambda>r. r\<lparr>w_created_by := c_sub c\<rparr>) (workspaces d)\<rparr>)) (\<lambda>_.
       andThen (adopt (c_sub c) (\<lambda>d. existsWhere (\<lambda>r. pr_created_by r = t) (projects d))
         (\<lambda>d. d\<lparr>projects := updateWhere (\<lambda>r. pr_created_by r = t) (\<lambda>r. r\<lparr>pr_created_by := c_sub c\<rparr>) (projects d)\<rparr>)) (\<lambda>_.
       andThen (adopt (c_sub c) (\<lambda>d. existsWhere (\<lambda>r. dm_created_by r = t) (domains d))
         (\<lambda>d. d\<lparr>domains := updateWhere (\<lambda>r. dm_created_by r = t) (\<lambda>r. r\<lparr>dm_created_by := c_sub c\<rparr>) (domains d)\<rparr>)) (\<lambda>_.
       andThen (query (sql (\<lambda>w.
         if user_exists t (db w) \<and> owns_something t (db w) then Inl fk_error
         else Inr (countWhere (\<lambda>u. u_id u = t) (users (db w)), delete_user_row t (db w))))) (\<lambda>rows_affected.
       if rows_affected = 0 then andThen tx_stmt (\<lambda>_. raise (NotFound ''User not found.'')) else ret ()))))"
  have gate: "c_is_super_admin c" "t \<noteq> c_sub c" "transaction ?body w = (Inr u, w')"
    using assms by (simp_all add: delete_user_def require_super_def success_simps Let_def)
  from transaction_success_db [OF gate(3)] obtain w1 w2
    where body: "db w1 = db w" "?body w1 = (Inr u, w2)" "db w' = db w2" by blast
  from body(2) have "user_exists t (db w1)" "db w2 = delete_user_row t (reassigned (c_sub c) t (db w1))"
    by (auto simp: adopt_def success_simps sql_success reassigned_def user_exists_def existsWhere_iff countWhere_0 split: if_splits)
  with gate body show ?thesis by simp
qed

text \<open>
  Deleting a user is all or nothing, whatever fails: an error leaves every table as it
  was; a success, which only a super administrator other than the target gets, leaves no
  account, session, membership, audit entry or ownership of the user, hands what he created
  to the administrator without losing any of it, and touches no other user.
\<close>

theorem user_deletion_is_atomic:
  assumes "delete_user c t w = (r, w')"
  shows "case r of
      Inl _ \<Rightarrow> db w' = db w
    | Inr _ \<Rightarrow> c_is_super_admin c \<and> t \<noteq> c_sub c \<and> user_exists t (db w)
        \<and> users (db w') = deleteWhere (\<lambda>u. u_id u = t) (users (db w))
        \<and> refresh_tokens (db w') = deleteWhere (\<lambda>x. rt_user_id x = t) (refresh_tokens (db w))
        \<and> workspace_members (db w') = deleteWhere (\<lambda>m. wm_user_id m = t) (workspace_members (db w))
        \<and> \<not> owns_something t (db w')
        \<and> (\<forall>l \<in> set (auth_audit_logs (db w')). al_user_id l \<noteq> Some t)
        \<and> map w_id (workspaces (db w')) = map w_id (workspaces (db w))
        \<and> map pr_id (projects (db w')) = map pr_id (projects (db w))
        \<and> map dm_id (domains (db w')) = map dm_id (domains (db w))"
proof (cases r)
  case (Inl e)
  then show ?thesis
    using assms transaction_error_db
    by (auto simp: delete_user_def require_super_def andThen_def rejectIf_def ret_def raise_def split: if_splits sum.splits prod.splits)
next
  case (Inr u)
  from delete_user_success [OF assms [unfolded Inr]] show ?thesis
    by (auto simp: Inr delete_user_row_def reassigned_def owns_something_def existsWhere_iff set_updateWhere map_updateWhere)
qed

theorem user_deletion_is_atomic_witness:
  "\<exists>w'. delete_user (claims_of (sample_user 1 ''root'' Active True None) 0) 2 auth_world = (Inr (), w')
    \<and> \<not> owns_something 2 (db w') \<and> map w_id (workspaces (db w')) = [7]"
proof -
  have "\<exists>w'. delete_user (claims_of (sample_user 1 ''root'' Active True None) 0) 2 auth_world = (Inr (), w')"
    by (simp add: delete_user_def require_super_def adopt_def claims_of_def auth_world_defs run_simps transaction_def tx_stmt_ok sql_ok
      existsWhere_def user_exists_def owns_something_def updateWhere_def countWhere_def delete_user_row_def)
  then obtain w' where w': "delete_user (claims_of (sample_user 1 ''root'' Active True None) 0) 2 auth_world = (Inr (), w')" by blast
  from user_deletion_is_atomic [OF w'] w' show ?thesis by (auto simp: auth_world_def auth_db_def)
qed

section \<open>Who changes an account\<close>

text \<open>The standing of the accounts: who exists, with which status and rights.\<close>

definition accounts :: "database \<Rightarrow> (uuid \<times> user_status \<times> bool) list" where
  "accounts d = map (\<lambda>u. (u_id u, u_status u, u_is_super_admin u)) (users d)"

lemma accounts_updateWhere:
  "(\<And>u. (u_id (f u), u_status (f u), u_is_super_admin (f u)) = (u_id u, u_status u, u_is_super_admin u)) \<Longrightarrow>
    accounts (d\<lparr>users := updateWhere p f (users d)\<rparr>) = accounts d"
  by (simp add: accounts_def map_updateWhere)

lemma accounts_other [simp]:
  "accounts (d\<lparr>refresh_tokens := a\<rparr>) = accounts d" "accounts (d\<lparr>auth_audit_logs := b\<rparr>) = accounts d"
  "accounts (d\<lparr>rate_limit_counters := e\<rparr>) = accounts d"
  by (simp_all add: accounts_def)

text \<open>The guarded route of \<open>provision_user\<close> (\<open>routes/auth_routes.rs\<close>).\<close>

definition provision_route :: "request_parts \<Rightarrow> string \<Rightarrow> string \<Rightarrow> bool \<Rightarrow> string handler" where
  "provision_route rp username email super = enforce_super_admin rp
     (andThen (authenticated_user rp) (\<lambda>c. provision_user (rp_headers rp) c username email super))"

lemma steady_store_refresh_token [steady_intros]:
  assumes "\<And>d t. I d \<Longrightarrow> I (d\<lparr>refresh_tokens := t\<rparr>)"
  shows "keeps (steady k I) (store_refresh_token i h t)"
  unfolding store_refresh_token_def using assms by (intro keeps_intros steady_checked) (auto simp: steady_def)

lemma steady_generate_token_bundle [steady_intros]: "keeps (steady k I) (generate_token_bundle u)"
  unfolding generate_token_bundle_def by (intro keeps_intros steady_intros keeps_let)

lemma steady_open_session [steady_intros]:
  assumes "\<And>d t. I d \<Longrightarrow> I (d\<lparr>refresh_tokens := t\<rparr>)" "keeps (steady k I) m"
  shows "keeps (steady k I) (open_session u m)"
  unfolding open_session_def using assms by (intro keeps_intros steady_intros) auto

lemma accounts_select: "keeps (steady k (\<lambda>d. accounts d = A)) (select_workspace i ws)"
  by (rule steady_select_workspace) (simp add: accounts_updateWhere)

lemma accounts_default_workspace: "keeps (steady k (\<lambda>d. accounts d = A)) (default_workspace u)"
  unfolding default_workspace_def by (intro keeps_intros steady_intros accounts_select)

lemma accounts_login: "keeps (steady k (\<lambda>d. accounts d = A)) (login hs ident pw)"
  unfolding login_def Let_def
  by (intro keeps_intros steady_intros accounts_default_workspace) (simp_all add: accounts_updateWhere)

lemma accounts_refresh: "keeps (steady k (\<lambda>d. accounts d = A)) (refresh_session t)"
  unfolding refresh_session_def by (intro keeps_intros steady_intros steady_executing) (simp_all add: steady_def)

lemma accounts_switch: "keeps (steady k (\<lambda>d. accounts d = A)) (switch_workspace c ws)"
  unfolding switch_workspace_def by (intro keeps_intros steady_intros accounts_select) simp_all

lemma accounts_change_password: "keeps (steady k (\<lambda>d. accounts d = A)) (change_password hs c p n)"
  unfolding change_password_def
  by (intro keeps_intros steady_intros) (simp_all add: accounts_updateWhere set_password_def)

lemma provision_route_refused:
  "fst (authenticated_user rp w) = Inr c \<Longrightarrow> \<not> c_is_super_admin c \<Longrightarrow>
    provision_route rp n e s w = (Inl (Permission ''Super Admin privileges required''), w)"
  using authenticated_user_run(1) [of rp w]
  by (simp add: provision_route_def enforce_super_admin_def andThen_def rejectIf_def raise_def)



section \<open>The life of an account\<close>

lemma toggle_run:
  assumes "faults w = []" "c_is_super_admin c" "t \<noteq> c_sub c" "firstWhere (\<lambda>u. u_id u = t) (users (db w)) = Some u"
  defines "s \<equiv> (case u_status u of Suspended \<Rightarrow> Active | _ \<Rightarrow> Suspended)"
  shows "toggle_user_suspend c t w = (Inr s, w\<lparr>db := (db w)\<lparr>users :=
    updateWhere (\<lambda>u. u_id u = t) (\<lambda>r. r\<lparr>u_status := s, u_updated_at := clock w\<rparr>) (users (db w))\<rparr>\<rparr>)"
  using assms by (simp add: toggle_user_suspend_def require_super_def update_user_def step_simps Let_def)

lemma firstWhere_updateWhere_same:
  "(\<And>r. p (f r) = p r) \<Longrightarrow> firstWhere p (updateWhere p f t) = map_option f (firstWhere p t)"
  by (induction t) (auto simp: firstWhere_def updateWhere_def)

text \<open>
  Suspending a user who never activated the account and lifting the suspension makes the
  account active: the activation, and with it the choice of an own password, is skipped, and
  the temporary password stays in force.
\<close>

theorem suspension_skips_activation:
  assumes "faults w = []" "c_is_super_admin c" "t \<noteq> c_sub c"
    and "firstWhere (\<lambda>u. u_id u = t) (users (db w)) = Some u" "u_status u = PendingVerification"
  shows "\<exists>w1 w2 v. toggle_user_suspend c t w = (Inr Suspended, w1) \<and> toggle_user_suspend c t w1 = (Inr Active, w2)
    \<and> firstWhere (\<lambda>u. u_id u = t) (users (db w2)) = Some v \<and> u_status v = Active
    \<and> u_password_hash v = u_password_hash u"
proof -
  let ?w1 = "snd (toggle_user_suspend c t w)"
  let ?w2 = "snd (toggle_user_suspend c t ?w1)"
  note 1 = toggle_run [OF assms(1-4)]
  have found: "firstWhere (\<lambda>u. u_id u = t) (users (db ?w1)) = Some (u\<lparr>u_status := Suspended, u_updated_at := clock w\<rparr>)"
    using assms(4,5) by (simp add: 1 firstWhere_updateWhere_same)
  have "faults ?w1 = []" using assms(1) by (simp add: 1)
  note 2 = toggle_run [OF this assms(2,3) found]
  have "toggle_user_suspend c t w = (Inr Suspended, ?w1)" using assms(5) by (simp add: 1)
  moreover have "toggle_user_suspend c t ?w1 = (Inr Active, ?w2)" by (simp add: 2)
  moreover have "firstWhere (\<lambda>u. u_id u = t) (users (db ?w2)) = Some (u\<lparr>u_status := Active, u_updated_at := clock ?w1\<rparr>)"
    using found by (simp add: 2 firstWhere_updateWhere_same)
  ultimately show ?thesis by (intro exI conjI) (assumption | simp)+
qed

theorem suspension_skips_activation_witness:
  "\<exists>w1 w2. toggle_user_suspend (claims_of (sample_user 1 ''root'' Active True None) 0) 4 auth_world = (Inr Suspended, w1)
    \<and> toggle_user_suspend (claims_of (sample_user 1 ''root'' Active True None) 0) 4 w1 = (Inr Active, w2)"
  using suspension_skips_activation [of auth_world "claims_of (sample_user 1 ''root'' Active True None) 0" 4
      "sample_user 4 ''eve'' PendingVerification False None"]
  by (fastforce simp: auth_world_defs claims_of_def firstWhere_def)

section \<open>The permission check\<close>

lemma has_permission_iff:
  "has_permission ws i perm d \<longleftrightarrow>
     (\<exists>m \<in> set (workspace_members d). wm_workspace_id m = ws \<and> wm_user_id m = i
       \<and> (\<exists>p \<in> set (permissions d). pe_name p = perm \<and> (wm_role_id m, pe_id p) \<in> set (role_permissions d)))"
  by (fastforce simp: has_permission_def existsWhere_iff)

text \<open>
  A guarded request reaches its handler exactly when the caller is authenticated, works
  in a workspace and is a super administrator or a member there whose role carries the
  permission; every other request is answered with the error and changes nothing.
\<close>

theorem permission_check_exact:
  assumes "faults w = []"
  shows "check_permission rp perm next_call w =
    (case fst (authenticated_user rp w) of
       Inl e \<Rightarrow> (Inl e, w)
     | Inr c \<Rightarrow> (case c_current_workspace_id c of
         None \<Rightarrow> (Inl (Validation ''No active workspace selected.''), w)
       | Some ws \<Rightarrow>
           (if c_is_super_admin c \<or> (\<exists>m \<in> set (workspace_members (db w)). wm_workspace_id m = ws \<and> wm_user_id m = c_sub c
                \<and> (\<exists>p \<in> set (permissions (db w)). pe_name p = perm \<and> (wm_role_id m, pe_id p) \<in> set (role_permissions (db w))))
            then next_call w
            else (Inl (Permission (''Permission '' @ [CHR 0x27] @ perm @ [CHR 0x27] @ '' required for this workspace.'')), w))))"
proof (cases "fst (authenticated_user rp w)")
  case (Inl e)
  then show ?thesis using authenticated_user_run(1) [of rp w] by (simp add: check_permission_def andThen_def)
next
  case (Inr c)
  then have "authenticated_user rp w = (Inr c, w)" using authenticated_user_run(1) [of rp w] by simp
  then show ?thesis
    using assms Inr
    by (simp add: check_permission_def andThen_run [where m = "authenticated_user rp"] step_simps has_permission_iff split: option.split)
qed

theorem permission_check_exact_witness:
  "check_permission (as_user ''bob'') ''workspace:update'' (ret ()) token_world =
     (Inl (Permission (''Permission '' @ [CHR 0x27] @ ''workspace:update'' @ [CHR 0x27] @ '' required for this workspace.'')), token_world)
   \<and> check_permission (as_user ''bob'') ''project:read'' (ret ()) token_world = (Inr (), token_world)"
  using authenticated_sample(2) [of token_world]
  by (simp add: permission_check_exact claims_of_def sample_user_def auth_db_def ret_def)

section \<open>The limit on login attempts\<close>

lemma split_on_absent: "d \<notin> set s \<Longrightarrow> split_on d s = [s]"
  by (induction s) auto

lemma dropWhile_none: "\<forall>c \<in> set s. \<not> p c \<Longrightarrow> dropWhile p s = s"
  by (cases s) auto

lemma trim_none: "\<forall>c \<in> set s. \<not> is_whitespace c \<Longrightarrow> trim s = s"
  by (simp add: trim_def trim_matches_def dropWhile_none)

lemma forwarded_bucket:
  assumes "ip \<noteq> []" "\<forall>c \<in> set ip. visible_ascii c \<and> \<not> is_whitespace c \<and> c \<noteq> CHR '',''"
  shows "login_bucket [(''x-forwarded-for'', ip)] = ''login:'' @ ip"
proof -
  have "split_on (CHR '','') ip = [ip]" using assms(2) by (intro split_on_absent) auto
  moreover have "trim ip = ip" using assms(2) by (intro trim_none) auto
  ultimately show ?thesis using assms
    by (simp add: login_bucket_def extract_client_ip_def header_str_def non_empty_def list_all_iff)
qed

text \<open>
  The limit on login attempts does not bind a caller who chooses his own headers: the
  counter is picked by the first entry of \<open>X-Forwarded-For\<close>, which the caller writes, and
  whatever has been counted so far there is an entry whose counter is still unused.
\<close>

theorem forwarded_header_evades_limit:
  assumes "faults w = []"
  shows "\<exists>ip. fst (check_rate_limit (login_bucket [(''x-forwarded-for'', ip)]) 10 300 w) = Inr True"
proof -
  define n where "n = Suc (sum_list (map (\<lambda>r. length (rc_bucket r)) (rate_limit_counters (db w))))"
  let ?ip = "replicate n (CHR ''1'')"
  have b: "login_bucket [(''x-forwarded-for'', ?ip)] = ''login:'' @ ?ip"
    by (rule forwarded_bucket) (auto simp: n_def visible_ascii_def is_whitespace_def code_def)
  have "length (rc_bucket r) < n" if "r \<in> set (rate_limit_counters (db w))" for r
    using member_le_sum_list [of "length (rc_bucket r)" "map (\<lambda>r. length (rc_bucket r)) (rate_limit_counters (db w))"] that
    by (simp add: n_def less_Suc_eq_le)
  then have "rc_bucket r \<noteq> ''login:'' @ ?ip" if "r \<in> set (rate_limit_counters (db w))" for r
    using that by fastforce
  then have "counter_of (login_bucket [(''x-forwarded-for'', ?ip)]) w = None"
    by (simp add: b counter_of_def firstWhere_None)
  from check_rate_limit_first [OF assms this, of 10 300] show ?thesis by (intro exI [of _ ?ip]) auto
qed

theorem forwarded_header_evades_limit_witness:
  "\<exists>ip. fst (check_rate_limit (login_bucket [(''x-forwarded-for'', ip)]) 10 300 auth_world) = Inr True"
  by (rule forwarded_header_evades_limit) (simp add: auth_world_def base_world_def)

end
