(* ===== verification/Workspaces_Laws.thy ===== *)
theory Workspaces_Laws
  imports Workspaces Auth_Laws
begin

text \<open>
  What the workspace handlers guarantee and what they leave open: what a deletion removes and
  what outlives it, that the membership of a workspace's creator cannot be taken away, that
  creation is all or nothing, and what a member who may only read can do.
\<close>

section \<open>What a deletion does to each table\<close>

lemma delete_instance_frame [simp]:
  "environment_variables (delete_instance_rows p d) = environment_variables d" "domains (delete_instance_rows p d) = domains d"
  "storage_buckets (delete_instance_rows p d) = storage_buckets d" "databases (delete_instance_rows p d) = databases d"
  "apps (delete_instance_rows p d) = apps d" "app_instances (delete_instance_rows p d) = deleteWhere p (app_instances d)"
  "app_builds (delete_instance_rows p d) = deleteWhere (\<lambda>b. ab_app_instance_id b \<in> set (map ai_id (selectWhere p (app_instances d)))) (app_builds d)"
  "app_volumes (delete_instance_rows p d) = app_volumes d"
  "projects (delete_instance_rows p d) = projects d" "workspace_members (delete_instance_rows p d) = workspace_members d"
  "users (delete_instance_rows p d) = users d" "workspaces (delete_instance_rows p d) = workspaces d"
  "cron_jobs (delete_instance_rows p d) = cron_jobs d" "project_env_variables (delete_instance_rows p d) = project_env_variables d"
  by (simp_all add: delete_instance_rows_def Let_def)

lemma delete_cron_frame [simp]:
  "environment_variables (delete_cron_rows p d) = environment_variables d" "domains (delete_cron_rows p d) = domains d"
  "storage_buckets (delete_cron_rows p d) = storage_buckets d" "databases (delete_cron_rows p d) = databases d"
  "apps (delete_cron_rows p d) = apps d" "app_instances (delete_cron_rows p d) = app_instances d"
  "app_builds (delete_cron_rows p d) = app_builds d" "app_volumes (delete_cron_rows p d) = app_volumes d"
  "projects (delete_cron_rows p d) = projects d" "workspace_members (delete_cron_rows p d) = workspace_members d"
  "users (delete_cron_rows p d) = users d" "workspaces (delete_cron_rows p d) = workspaces d"
  "cron_jobs (delete_cron_rows p d) = deleteWhere p (cron_jobs d)"
  "project_env_variables (delete_cron_rows p d) = project_env_variables d"
  by (simp_all add: delete_cron_rows_def Let_def)

lemma delete_app_frame [simp]:
  "environment_variables (delete_app_rows p d) = environment_variables d" "domains (delete_app_rows p d) = domains d"
  "storage_buckets (delete_app_rows p d) = storage_buckets d" "databases (delete_app_rows p d) = databases d"
  "apps (delete_app_rows p d) = deleteWhere p (apps d)"
  "app_instances (delete_app_rows p d) = deleteWhere (\<lambda>i. ai_app_id i \<in> a_id ` {a \<in> set (apps d). p a}) (app_instances d)"
  "app_builds (delete_app_rows p d) = deleteWhere (\<lambda>b. ab_app_id b \<in> a_id ` {a \<in> set (apps d). p a})
     (deleteWhere (\<lambda>b. ab_app_instance_id b \<in> ai_id ` {i \<in> set (app_instances d). ai_app_id i \<in> a_id ` {a \<in> set (apps d). p a}})
        (app_builds d))"
  "app_volumes (delete_app_rows p d) = deleteWhere (\<lambda>v. vo_app_id v \<in> a_id ` {a \<in> set (apps d). p a}) (app_volumes d)"
  "projects (delete_app_rows p d) = projects d" "workspace_members (delete_app_rows p d) = workspace_members d"
  "users (delete_app_rows p d) = users d" "workspaces (delete_app_rows p d) = workspaces d"
  "cron_jobs (delete_app_rows p d) = deleteWhere (\<lambda>j. \<exists>a \<in> set (apps d). p a \<and> cj_app_id j = Some (a_id a)) (cron_jobs d)"
  "project_env_variables (delete_app_rows p d) = project_env_variables d"
  by (simp_all add: delete_app_rows_def Let_def selectWhere_def Bex_def)

lemma delete_pool_frame [simp]:
  "environment_variables (delete_pool_vars p d) = environment_variables d" "domains (delete_pool_vars p d) = domains d"
  "storage_buckets (delete_pool_vars p d) = storage_buckets d" "databases (delete_pool_vars p d) = databases d"
  "apps (delete_pool_vars p d) = apps d" "app_instances (delete_pool_vars p d) = app_instances d"
  "app_builds (delete_pool_vars p d) = app_builds d" "app_volumes (delete_pool_vars p d) = app_volumes d"
  "projects (delete_pool_vars p d) = projects d" "workspace_members (delete_pool_vars p d) = workspace_members d"
  "users (delete_pool_vars p d) = users d" "workspaces (delete_pool_vars p d) = workspaces d"
  "cron_jobs (delete_pool_vars p d) = cron_jobs d" "project_env_variables (delete_pool_vars p d) = deleteWhere p (project_env_variables d)"
  by (simp_all add: delete_pool_vars_def Let_def)

lemma delete_serverless_frame [simp]:
  "environment_variables (delete_serverless_rows p d) = environment_variables d" "domains (delete_serverless_rows p d) = domains d"
  "databases (delete_serverless_rows p d) = databases d" "storage_buckets (delete_serverless_rows p d) = storage_buckets d"
  "apps (delete_serverless_rows p d) = apps d" "app_instances (delete_serverless_rows p d) = app_instances d"
  "app_builds (delete_serverless_rows p d) = app_builds d" "app_volumes (delete_serverless_rows p d) = app_volumes d"
  "projects (delete_serverless_rows p d) = projects d" "workspace_members (delete_serverless_rows p d) = workspace_members d"
  "users (delete_serverless_rows p d) = users d" "workspaces (delete_serverless_rows p d) = workspaces d"
  "cron_jobs (delete_serverless_rows p d) = cron_jobs d" "project_env_variables (delete_serverless_rows p d) = project_env_variables d"
  by (simp_all add: delete_serverless_rows_def Let_def)

lemma delete_project_frame [simp]:
  "environment_variables (delete_project_rows p d) = environment_variables d" "domains (delete_project_rows p d) = domains d"
  "databases (delete_project_rows p d) = databases d"
  "map sb_workspace_id (storage_buckets (delete_project_rows p d)) = map sb_workspace_id (storage_buckets d)"
  "apps (delete_project_rows p d) = apps d" "app_instances (delete_project_rows p d) = app_instances d"
  "app_builds (delete_project_rows p d) = app_builds d" "app_volumes (delete_project_rows p d) = app_volumes d"
  "projects (delete_project_rows p d) = deleteWhere p (projects d)"
  "workspace_members (delete_project_rows p d) = workspace_members d"
  "users (delete_project_rows p d) = users d" "workspaces (delete_project_rows p d) = workspaces d"
  "cron_jobs (delete_project_rows p d) = cron_jobs d"
  "project_env_variables (delete_project_rows p d) =
     deleteWhere (\<lambda>v. pv_project_id v \<in> pr_id ` {r \<in> set (projects d). p r}) (project_env_variables d)"
  by (simp_all add: delete_project_rows_def delete_baas_rows_def Let_def selectWhere_def map_updateWhere)

lemma delete_bucket_frame [simp]:
  "environment_variables (delete_bucket_rows p d) = environment_variables d" "domains (delete_bucket_rows p d) = domains d"
  "storage_buckets (delete_bucket_rows p d) = deleteWhere p (storage_buckets d)" "databases (delete_bucket_rows p d) = databases d"
  "apps (delete_bucket_rows p d) = apps d" "app_instances (delete_bucket_rows p d) = app_instances d"
  "app_builds (delete_bucket_rows p d) = app_builds d" "app_volumes (delete_bucket_rows p d) = app_volumes d"
  "projects (delete_bucket_rows p d) = projects d" "workspace_members (delete_bucket_rows p d) = workspace_members d"
  "users (delete_bucket_rows p d) = users d" "workspaces (delete_bucket_rows p d) = workspaces d"
  "cron_jobs (delete_bucket_rows p d) = cron_jobs d" "project_env_variables (delete_bucket_rows p d) = project_env_variables d"
  by (simp_all add: delete_bucket_rows_def Let_def)

lemma delete_database_frame [simp]:
  "environment_variables (delete_database_rows p d) = environment_variables d" "domains (delete_database_rows p d) = domains d"
  "storage_buckets (delete_database_rows p d) = storage_buckets d" "databases (delete_database_rows p d) = deleteWhere p (databases d)"
  "apps (delete_database_rows p d) = apps d" "app_instances (delete_database_rows p d) = app_instances d"
  "app_builds (delete_database_rows p d) = app_builds d" "app_volumes (delete_database_rows p d) = app_volumes d"
  "projects (delete_database_rows p d) = projects d" "workspace_members (delete_database_rows p d) = workspace_members d"
  "users (delete_database_rows p d) = users d" "workspaces (delete_database_rows p d) = workspaces d"
  "cron_jobs (delete_database_rows p d) = cron_jobs d" "project_env_variables (delete_database_rows p d) = project_env_variables d"
  by (simp_all add: delete_database_rows_def Let_def)

lemma delete_workspace_row_frame [simp]:
  "environment_variables (delete_workspace_row i d) = environment_variables d"
  "databases (delete_workspace_row i d) = databases d"
  "map sb_workspace_id (storage_buckets (delete_workspace_row i d)) = map sb_workspace_id (storage_buckets d)"
  "apps (delete_workspace_row i d) = apps d" "app_instances (delete_workspace_row i d) = app_instances d"
  "app_builds (delete_workspace_row i d) = app_builds d" "app_volumes (delete_workspace_row i d) = app_volumes d"
  "workspaces (delete_workspace_row i d) = deleteWhere (\<lambda>x. w_id x = i) (workspaces d)"
  "cron_jobs (delete_workspace_row i d) = cron_jobs d"
  by (simp_all add: delete_workspace_row_def Let_def existsWhere_iff deleteWhere_none)

text \<open>When what hangs on the workspace is gone already, only its own row goes.\<close>

lemma delete_workspace_row_last:
  assumes "\<forall>x \<in> set (projects d). pr_workspace_id x \<noteq> i" "\<forall>x \<in> set (domains d). dm_workspace_id x \<noteq> i"
    "\<forall>x \<in> set (workspace_members d). wm_workspace_id x \<noteq> i" "\<forall>x \<in> set (users d). u_current_workspace_id x \<noteq> Some i"
  shows "projects (delete_workspace_row i d) = projects d" "domains (delete_workspace_row i d) = domains d"
    "workspace_members (delete_workspace_row i d) = workspace_members d" "users (delete_workspace_row i d) = users d"
  using assms by (simp_all add: delete_workspace_row_def Let_def deleteWhere_none updateWhere_none)

text \<open>The whole transaction as one function of the tables.\<close>

definition purged :: "uuid \<Rightarrow> database \<Rightarrow> database" where
  "purged ws d = fold (\<lambda>f. f) (deletion_steps ws) d"

lemma deleteWhere_idem: "deleteWhere p (deleteWhere p t) = deleteWhere p t"
  by (simp add: deleteWhere_def)

lemma purged_tables:
  "environment_variables (purged ws d) = deleteWhere (\<lambda>v. ev_workspace_id v = ws) (environment_variables d)"
  "databases (purged ws d) = deleteWhere (\<lambda>s. ds_workspace_id s = ws) (databases d)"
  "apps (purged ws d) = deleteWhere (\<lambda>a. a_workspace_id a = ws) (apps d)"
  "workspaces (purged ws d) = deleteWhere (\<lambda>x. w_id x = ws) (workspaces d)"
  "cron_jobs (purged ws d) =
     deleteWhere (\<lambda>j. \<exists>a \<in> set (apps d). a_workspace_id a = ws \<and> cj_app_id j = Some (a_id a)) (cron_jobs d)"
  by (simp_all add: purged_def deletion_steps_def)

text \<open>A build goes with its app and with its instance.\<close>

definition build_goes :: "uuid \<Rightarrow> database \<Rightarrow> app_build \<Rightarrow> bool" where
  "build_goes ws d b \<longleftrightarrow> in_apps ws d (ab_app_id b) \<or>
     (\<exists>i \<in> set (app_instances d). in_apps ws d (ai_app_id i) \<and> ab_app_instance_id b = ai_id i)"

lemma purged_instances:
  "app_instances (purged ws d) = deleteWhere (\<lambda>i. in_apps ws d (ai_app_id i)) (app_instances d)"
  "app_builds (purged ws d) = deleteWhere (build_goes ws d) (app_builds d)"
  by (auto simp: purged_def deletion_steps_def build_goes_def selectWhere_def in_apps_def existsWhere_iff deleteWhere_def intro!: filter_cong)

text \<open>The tables that hang on the workspace's own row.\<close>

lemma purged_rest:
  "projects (purged ws d) = deleteWhere (\<lambda>p. pr_workspace_id p = ws) (projects d)"
  "domains (purged ws d) = deleteWhere (\<lambda>x. dm_workspace_id x = ws) (domains d)"
  "workspace_members (purged ws d) = deleteWhere (\<lambda>m. wm_workspace_id m = ws) (workspace_members d)"
  "map u_id (users (purged ws d)) = map u_id (users d)"
  "\<forall>u \<in> set (users (purged ws d)). u_current_workspace_id u \<noteq> Some ws"
proof -
  define d1 where "d1 = fold (\<lambda>f. f) (take 14 (deletion_steps ws)) d"
  have p: "purged ws d = delete_workspace_row ws d1"
    by (simp add: purged_def d1_def deletion_steps_def)
  have members: "workspace_members d1 = deleteWhere (\<lambda>m. wm_workspace_id m = ws) (workspace_members d)"
    and rest: "projects d1 = deleteWhere (\<lambda>p. pr_workspace_id p = ws) (projects d)"
      "domains d1 = deleteWhere (\<lambda>x. dm_workspace_id x = ws) (domains d)"
    by (simp_all add: d1_def deletion_steps_def)
  have ids: "map u_id (users d1) = map u_id (users d)"
    by (simp add: d1_def deletion_steps_def map_updateWhere)
  have current: "\<forall>u \<in> set (users d1). u_current_workspace_id u \<noteq> Some ws"
    by (auto simp: d1_def deletion_steps_def set_updateWhere first_membership_def set_deleteWhere dest!: firstWhere_Some)
  note last = delete_workspace_row_last [of d1 ws]
  show "projects (purged ws d) = deleteWhere (\<lambda>p. pr_workspace_id p = ws) (projects d)"
    "domains (purged ws d) = deleteWhere (\<lambda>x. dm_workspace_id x = ws) (domains d)"
    "workspace_members (purged ws d) = deleteWhere (\<lambda>m. wm_workspace_id m = ws) (workspace_members d)"
    "map u_id (users (purged ws d)) = map u_id (users d)"
    "\<forall>u \<in> set (users (purged ws d)). u_current_workspace_id u \<noteq> Some ws"
    using last current by (simp_all add: p members rest ids set_deleteWhere)
qed

lemma run_steps_success:
  "forEach fs (\<lambda>f. query (execute (\<lambda>w. f (db w)))) w = (Inr u, w') \<Longrightarrow> db w' = fold (\<lambda>f. f) fs (db w)"
proof (induction fs arbitrary: w)
  case Nil
  then show ?case by (simp add: ret_success)
next
  case (Cons f fs)
  then obtain w1 where "query (execute (\<lambda>w. f (db w))) w = (Inr (), w1)"
    and rest: "forEach fs (\<lambda>f. query (execute (\<lambda>w. f (db w)))) w1 = (Inr u, w')"
    by (auto simp: andThen_success)
  from this(1) have "db w1 = f (db w)" by (auto simp: query_success execute_success)
  with Cons.IH [OF rest] show ?case by simp
qed

lemma keeps_may_delete_workspace [keeps_intros]: "keeps (\<lambda>w. I (db w)) (may_delete_workspace c ws)"
  unfolding may_delete_workspace_def by (intro keeps_intros)

lemma delete_workspace_clean: "clean_errors (delete_workspace c ws)"
  unfolding delete_workspace_def by (intro clean_intros keeps_intros)

text \<open>A super administrator, or a member of the workspace with the owner's role.\<close>

definition deletes_workspace :: "claims \<Rightarrow> uuid \<Rightarrow> database \<Rightarrow> bool" where
  "deletes_workspace c ws d \<longleftrightarrow> c_is_super_admin c \<or>
     (\<exists>r. role_named ''owner'' d = Some r \<and> (\<exists>m \<in> set (workspace_members d). is_member ws (c_sub c) m \<and> wm_role_id m = r))"

lemma delete_workspace_success:
  assumes "delete_workspace c ws w = (Inr u, w')"
  shows "deletes_workspace c ws (db w) \<and> db w' = purged ws (db w)"
proof -
  let ?rest = "andThen get_client (\<lambda>_.
     andThen (k8s (DeleteNamespace (ws_namespace ws))) (\<lambda>_.
     andThen (orElse (fetch (\<lambda>w. selectWhere (\<lambda>b. sb_workspace_id b = ws) (storage_buckets (db w)))) []) (\<lambda>buckets.
     andThen (forEach buckets (\<lambda>b. host (RemoveBucketDir ws (sb_slug b) (sb_access_type b)))) (\<lambda>_.
     orElse (fetch (\<lambda>w. selectWhere (\<lambda>s. ds_workspace_id s = ws) (databases (db w)))) []))))"
  obtain w1 w2 dbs w3 w4 where gate: "may_delete_workspace c ws w = (Inr True, w1)"
    and pre: "?rest w1 = (Inr dbs, w2)"
    and dirs: "(forEach dbs (\<lambda>s. host (RemoveBackupDir (ds_id s))) :: unit handler) w2 = (Inr (), w3)"
    and tx: "transaction (forEach (deletion_steps ws) (\<lambda>f. query (execute (\<lambda>w. f (db w))))) w3 = (Inr u, w')"
    using assms by (auto simp: delete_workspace_def andThen_success rejectIf_success)
  have k: "keeps (\<lambda>w. db w = db w1) ?rest" by (intro keeps_intros)
  have "db w1 = db w"
    using keeps_step [OF keeps_may_delete_workspace [of "\<lambda>d. d = db w"] refl gate] .
  moreover have "db w2 = db w1" using keeps_step [OF k refl pre] .
  moreover have "db w3 = db w2"
    using keeps_step [OF keeps_forEach [OF keeps_host [of "\<lambda>d. d = db w2"]] refl dirs] .
  moreover have "deletes_workspace c ws (db w)"
    using gate by (auto simp: may_delete_workspace_def success_simps deletes_workspace_def existsWhere_iff split: if_splits)
  ultimately show ?thesis
    using transaction_success_db [OF tx] run_steps_success by (auto simp: purged_def)
qed


lemma run_steps_ok:
  "faults w = [] \<Longrightarrow> forEach fs (\<lambda>f. query (execute (\<lambda>w. f (db w)))) w = (Inr (), w\<lparr>db := fold (\<lambda>f. f) fs (db w)\<rparr>)"
  by (induction fs arbitrary: w) (simp_all add: step_simps)

lemma forEach_host_ok:
  "\<exists>hs. (forEach bs (\<lambda>b. host (h b)) :: unit handler) w = (Inr (), w\<lparr>host_calls := hs\<rparr>)"
proof (induction bs arbitrary: w)
  case Nil
  show ?case by (intro exI [of _ "host_calls w"]) (simp add: step_simps)
next
  case (Cons b bs)
  obtain hs where "(forEach bs (\<lambda>b. host (h b)) :: unit handler) (w\<lparr>host_calls := host_calls w @ [h b]\<rparr>)
      = (Inr (), w\<lparr>host_calls := hs\<rparr>)"
    using Cons.IH [of "w\<lparr>host_calls := host_calls w @ [h b]\<rparr>"] by auto
  then show ?case by (auto simp: andThen_host)
qed

lemma delete_workspace_run:
  assumes "faults w = []" "c_is_super_admin c" "k8s_reply w (length (k8s_calls w)) = Accepted"
  shows "\<exists>w'. delete_workspace c ws w = (Inr (), w')"
proof -
  let ?w1 = "w\<lparr>k8s_calls := k8s_calls w @ [GetClient, DeleteNamespace (ws_namespace ws)]\<rparr>"
  obtain hs where hs: "(forEach (selectWhere (\<lambda>b. sb_workspace_id b = ws) (storage_buckets (db w)))
      (\<lambda>b. host (RemoveBucketDir ws (sb_slug b) (sb_access_type b))) :: unit handler) ?w1 = (Inr (), ?w1\<lparr>host_calls := hs\<rparr>)"
    using forEach_host_ok [where h = "\<lambda>b. RemoveBucketDir ws (sb_slug b) (sb_access_type b)" and w = ?w1] by blast
  obtain hs' where hs': "(forEach (selectWhere (\<lambda>s. ds_workspace_id s = ws) (databases (db w)))
      (\<lambda>s. host (RemoveBackupDir (ds_id s))) :: unit handler) (?w1\<lparr>host_calls := hs\<rparr>) = (Inr (), (?w1\<lparr>host_calls := hs\<rparr>)\<lparr>host_calls := hs'\<rparr>)"
    using forEach_host_ok [where h = "\<lambda>s. RemoveBackupDir (ds_id s)" and w = "?w1\<lparr>host_calls := hs\<rparr>"] by blast
  show ?thesis
    using assms hs hs'
    by (simp add: delete_workspace_def may_delete_workspace_def get_client_def andThen_assoc step_simps
        andThen_run [where m = "forEach bs f" for bs f] transaction_ok [OF _ run_steps_ok])
qed


section \<open>Creation\<close>

lemma clean_commit: "clean_errors (andThen (transaction m) (\<lambda>_. ret x))"
  using transaction_error_db by (fastforce simp: clean_errors_def andThen_def ret_def split: prod.splits sum.splits)

lemma create_workspace_clean: "clean_errors (create_workspace c name)"
  unfolding create_workspace_def Let_def by (intro clean_commit clean_intros keeps_intros)

text \<open>What the transaction did when it succeeded.\<close>

lemma create_workspace_tx_success:
  assumes "create_workspace_tx c name i w = (Inr u, w')"
  shows "\<exists>t role. workspaces (db w') = workspaces (db w) @ [new_workspace c name i t]
    \<and> (\<forall>y \<in> set (workspaces (db w)). w_slug y \<noteq> workspace_slug name \<and> w_id y \<noteq> i)
    \<and> role_named ''owner'' (db w) = Some role
    \<and> workspace_members (db w') = workspace_members (db w) @ [\<lparr>wm_workspace_id = i, wm_user_id = c_sub c, wm_role_id = role\<rparr>]"
proof -
  let ?rest = "andThen (onlyIf (c_current_workspace_id c = None) (select_workspace (c_sub c) i)) (\<lambda>_.
     andThen get_client (\<lambda>_. k8s_do (CreateNamespace (ws_namespace i) WORKSPACE_MAX_MEMORY_MB
         WORKSPACE_MAX_STORAGE_GB WORKSPACE_MAX_CPU_MILLICORES)))"
  obtain w1 w2 where 1: "query (checked (\<lambda>w. workspace_conflict (new_workspace c name i (clock w)) (db w))
       (\<lambda>w. (db w)\<lparr>workspaces := insertRow (new_workspace c name i (clock w)) (workspaces (db w))\<rparr>)) w = (Inr (), w1)"
    and 2: "insert_owner i (c_sub c) w1 = (Inr (), w2)" and rest: "?rest w2 = (Inr u, w')"
    using assms by (auto simp: create_workspace_tx_def andThen_success)
  have db1: "db w1 = (db w)\<lparr>workspaces := insertRow (new_workspace c name i (clock w)) (workspaces (db w))\<rparr>"
    and free: "workspace_conflict (new_workspace c name i (clock w)) (db w) = None"
    using 1 by (auto simp: query_success checked_success)
  from 2 obtain role where role: "role_named ''owner'' (db w1) = Some role"
    "db w2 = (db w1)\<lparr>workspace_members := insertRow \<lparr>wm_workspace_id = i, wm_user_id = c_sub c, wm_role_id = role\<rparr>
       (workspace_members (db w1))\<rparr>"
    by (auto simp: insert_owner_def query_success sql_success Let_def split: option.splits)
  have "keeps (\<lambda>w. workspaces (db w) = workspaces (db w2) \<and> workspace_members (db w) = workspace_members (db w2)) ?rest"
    unfolding select_workspace_def by (intro keeps_intros keeps_checked) simp_all
  from keeps_step [OF this _ rest] have "workspaces (db w') = workspaces (db w2)" "workspace_members (db w') = workspace_members (db w2)"
    by simp_all
  then show ?thesis
    using db1 free role
    by (intro exI [of _ "clock w"] exI [of _ role])
       (auto simp: insertRow_def role_named_def workspace_conflict_def new_workspace_def existsWhere_iff split: if_splits)
qed

text \<open>
  Creating a workspace is all or nothing in the tables: whenever it reports an error, the
  failure of the cluster included, no row was added. A success, which only a super
  administrator gets, adds one workspace under an unused slug and identifier, without limits
  and owned by its creator, and one membership, the creator's with the owner's role.
\<close>

theorem workspace_creation_is_atomic:
  assumes "create_workspace c name w = (r, w')"
  shows "case r of
      Inl _ \<Rightarrow> db w' = db w
    | Inr x \<Rightarrow> c_is_super_admin c \<and> wr_slug x = workspace_slug name
        \<and> (\<forall>y \<in> set (workspaces (db w)). w_slug y \<noteq> wr_slug x \<and> w_id y \<noteq> wr_id x)
        \<and> (\<exists>row role. workspaces (db w') = workspaces (db w) @ [row] \<and> w_id row = wr_id x \<and> w_slug row = wr_slug x
            \<and> w_created_by row = c_sub c \<and> w_max_memory_mb row = 0 \<and> role_named ''owner'' (db w) = Some role
            \<and> workspace_members (db w') = workspace_members (db w)
                @ [\<lparr>wm_workspace_id = wr_id x, wm_user_id = c_sub c, wm_role_id = role\<rparr>])"
proof (cases r)
  case (Inl e)
  then show ?thesis using clean_errorsD [OF create_workspace_clean] assms by simp
next
  case (Inr x)
  define i where "i = random_uuid w (drawn w)"
  obtain w1 where gate: "transaction (create_workspace_tx c name i) w1 = (Inr (), w')" "db w1 = db w" "c_is_super_admin c"
    and x: "x = workspace_response_of (new_workspace c name i 0)"
    using assms unfolding i_def by (auto simp: Inr create_workspace_def success_simps Let_def)
  from transaction_success_db [OF gate(1)] obtain w2 w3
    where body: "db w2 = db w" "create_workspace_tx c name i w2 = (Inr (), w3)" "db w' = db w3"
    using gate(2) by metis
  from create_workspace_tx_success [OF body(2)] obtain t role where
    "workspaces (db w') = workspaces (db w) @ [new_workspace c name i t]"
    "\<forall>y \<in> set (workspaces (db w)). w_slug y \<noteq> workspace_slug name \<and> w_id y \<noteq> i"
    "role_named ''owner'' (db w) = Some role"
    "workspace_members (db w') = workspace_members (db w) @ [\<lparr>wm_workspace_id = i, wm_user_id = c_sub c, wm_role_id = role\<rparr>]"
    using body(1,3) by auto
  moreover have "wr_id x = i" "wr_slug x = workspace_slug name" by (simp_all add: x workspace_response_of_def new_workspace_def)
  ultimately show ?thesis
    using gate(3) by (simp add: Inr new_workspace_def WORKSPACE_MAX_MEMORY_MB_def)
qed

theorem workspace_creation_is_atomic_witness:
  "\<exists>x w'. create_workspace (claims_of (sample_user 1 ''root'' Active True None) 0) ''My Shop'' auth_world = (Inr x, w')
    \<and> wr_slug x = workspace_slug ''My Shop'' \<and> length (workspaces (db w')) = 2"
proof -
  have "\<exists>x w'. create_workspace (claims_of (sample_user 1 ''root'' Active True None) 0) ''My Shop'' auth_world = (Inr x, w')"
  proof -
    have "workspace_slug ''My Shop'' \<noteq> ''team''"
      by (simp add: workspace_slug_def to_lowercase_def char_lower_def is_upper_def code_def trim_def trim_matches_def is_whitespace_def
          replace_char_def)
    then show ?thesis
      by (simp add: create_workspace_def create_workspace_tx_def new_workspace_def claims_of_def auth_world_defs run_simps transaction_def
          tx_stmt_ok sql_ok existsWhere_def user_exists_def workspace_conflict_def insert_owner_def role_named_def firstWhere_def
          member_conflict_def is_member_def select_workspace_def get_client_def insertRow_def updateWhere_def Let_def)
  qed
  then obtain x w' where w': "create_workspace (claims_of (sample_user 1 ''root'' Active True None) 0) ''My Shop'' auth_world = (Inr x, w')"
    by blast
  from workspace_creation_is_atomic [OF w'] w' show ?thesis by (auto simp: auth_world_def auth_db_def)
qed

section \<open>Members\<close>

lemma active_workspace_bind:
  "c_current_workspace_id c = Some ws \<Longrightarrow> andThen (active_workspace c) f = f ws"
  by (simp add: active_workspace_def fun_eq_iff step_simps)

lemma rejectIf_bind: "andThen (rejectIf b e) f = (if b then raise e else f ())"
  by (simp add: fun_eq_iff step_simps)

text \<open>
  Whoever changes the members of the workspace he works in, and whatever fails: the
  membership of the workspace's creator stays as it is, role included, and so does every
  membership of every other workspace.
\<close>

theorem creator_stays_member:
  assumes "c_current_workspace_id c = Some ws" "firstWhere (\<lambda>x. w_id x = ws) (workspaces (db w)) = Some x"
    and "m \<in> {add_workspace_member c email role, update_workspace_member_role c i role, remove_workspace_member c i}"
    and "k \<in> set (workspace_members (db w))" "wm_workspace_id k = ws \<longrightarrow> wm_user_id k = w_created_by x"
  shows "k \<in> set (workspace_members (db (snd (m w))))"
proof -
  let ?I = "\<lambda>d. k \<in> set (workspace_members d) \<and> workspaces d = workspaces (db w)"
  let ?P = "\<lambda>w. ?I (db w)"
  have owner: "y = w_created_by x" if "?P v" "workspace_owner ws v = (Inr y, v')" for v y v'
    using that assms(2) by (auto simp: workspace_owner_def fetch_workspace_def success_simps)
  have read: "keeps ?P (workspace_owner ws)" unfolding workspace_owner_def fetch_workspace_def by (intro keeps_intros)
  have other: "\<not> is_member ws i k" if "i \<noteq> w_created_by x" using assms(5) that by (auto simp: is_member_def)
  have "keeps ?P (add_workspace_member c email role)"
    unfolding add_workspace_member_def active_workspace_bind [OF assms(1)]
    by (intro keeps_intros keeps_checked) (auto simp: set_insertRow)
  moreover have "keeps ?P (update_workspace_member_role c i role)"
    unfolding update_workspace_member_role_def active_workspace_bind [OF assms(1)] rejectIf_bind
    by (rule keeps_andThen_post [OF read owner], assumption+, intro keeps_intros keeps_checked)
       (auto simp: set_updateWhere image_iff dest!: other)
  moreover have "keeps ?P (remove_workspace_member c i)"
    unfolding remove_workspace_member_def active_workspace_bind [OF assms(1)] rejectIf_bind
    by (rule keeps_andThen_post [OF read owner], assumption+, intro keeps_intros keeps_executing)
       (auto simp: set_deleteWhere dest!: other)
  ultimately have "keeps ?P m" using assms(3) by auto
  from keepsD [OF this, of w] assms(4) show ?thesis by simp
qed

theorem creator_stays_member_witness:
  "\<lparr>wm_workspace_id = 7, wm_user_id = 2, wm_role_id = 51\<rparr> \<in> set (workspace_members
     (db (snd (remove_workspace_member (claims_of (sample_user 3 ''bob'' Active False (Some 7)) 0) 2 auth_world))))"
  by (rule creator_stays_member [of "claims_of (sample_user 3 ''bob'' Active False (Some 7)) 0" 7 auth_world
        "hd (workspaces auth_db)" _ "[]" "[]" 2])
     (simp_all add: claims_of_def sample_user_def auth_world_def auth_db_def firstWhere_def)

section \<open>What reading is enough for\<close>

lemma update_role_run:
  assumes "faults w = []" "c_current_workspace_id c = Some ws"
    and "firstWhere (\<lambda>x. w_id x = ws) (workspaces (db w)) = Some x" "i \<noteq> w_created_by x"
    and "existsWhere (is_member ws i) (workspace_members (db w))"
    and "role_named (to_lowercase (trim n)) (db w) = Some r"
  shows "update_workspace_member_role c i n w = (Inr (), w\<lparr>db := (db w)\<lparr>workspace_members :=
    updateWhere (is_member ws i) (\<lambda>m. m\<lparr>wm_role_id := r\<rparr>) (workspace_members (db w))\<rparr>\<rparr>)"
proof -
  have "existsWhere (\<lambda>x. ro_id x = r) (roles (db w))"
    using assms(6) by (auto simp: role_named_def existsWhere_iff dest!: firstWhere_Some)
  then show ?thesis
    using assms
    by (simp add: update_workspace_member_role_def active_workspace_bind workspace_owner_def fetch_workspace_def andThen_assoc
        step_simps)
qed

lemma owner_name: "to_lowercase (trim ''owner'') = ''owner''"
  by (simp add: to_lowercase_def char_lower_def is_upper_def code_def trim_def trim_matches_def is_whitespace_def)

text \<open>
  The permission to read projects, which a viewer has, is enough to become an owner: the
  route that changes roles asks for nothing more, so a member other than the creator gives
  himself the owner's role, and with it every permission that role carries.
\<close>

theorem reader_becomes_owner:
  assumes "faults w = []" "fst (authenticated_user rp w) = Inr c" "c_current_workspace_id c = Some ws"
    and "has_permission ws (c_sub c) ''project:read'' (db w)"
    and "firstWhere (\<lambda>x. w_id x = ws) (workspaces (db w)) = Some x" "c_sub c \<noteq> w_created_by x"
    and "role_named ''owner'' (db w) = Some r"
  shows "\<exists>w'. workspace_route rp (\<lambda>c. update_workspace_member_role c (c_sub c) ''owner'') w = (Inr (), w')
    \<and> (\<forall>p \<in> set (permissions (db w)). (r, pe_id p) \<in> set (role_permissions (db w)) \<longrightarrow>
          has_permission ws (c_sub c) (pe_name p) (db w'))"
proof -
  let ?d = "(db w)\<lparr>workspace_members := updateWhere (is_member ws (c_sub c)) (\<lambda>m. m\<lparr>wm_role_id := r\<rparr>) (workspace_members (db w))\<rparr>"
  have auth: "authenticated_user rp w = (Inr c, w)" using assms(2) authenticated_user_run(1) [of rp w] by simp
  obtain m where m: "m \<in> set (workspace_members (db w))" "is_member ws (c_sub c) m"
    using assms(4) by (auto simp: has_permission_iff is_member_def)
  then have "existsWhere (is_member ws (c_sub c)) (workspace_members (db w))" by (auto simp: existsWhere_iff)
  from update_role_run [OF assms(1,3,5,6) this] have run:
    "update_workspace_member_role c (c_sub c) ''owner'' w = (Inr (), w\<lparr>db := ?d\<rparr>)"
    using assms(7) by (simp add: owner_name)
  have "workspace_route rp (\<lambda>c. update_workspace_member_role c (c_sub c) ''owner'') w = (Inr (), w\<lparr>db := ?d\<rparr>)"
    using assms(1,3,4) run
    by (simp add: workspace_route_def check_permission_def andThen_run [where m = "authenticated_user rp", OF auth] step_simps)
  moreover have "has_permission ws (c_sub c) (pe_name p) ?d"
    if "p \<in> set (permissions (db w))" "(r, pe_id p) \<in> set (role_permissions (db w))" for p
  proof -
    have "m\<lparr>wm_role_id := r\<rparr> \<in> set (workspace_members ?d)" using m by (force simp: set_updateWhere)
    moreover have "wm_workspace_id m = ws" "wm_user_id m = c_sub c" using m(2) by (simp_all add: is_member_def)
    ultimately show ?thesis using that unfolding has_permission_iff by (intro bexI [of _ "m\<lparr>wm_role_id := r\<rparr>"] conjI bexI [of _ p]) simp_all
  qed
  ultimately show ?thesis by auto
qed

theorem reader_becomes_owner_witness:
  "\<exists>w'. workspace_route (as_user ''bob'') (\<lambda>c. update_workspace_member_role c (c_sub c) ''owner'') token_world = (Inr (), w')
    \<and> has_permission 7 3 ''workspace:update'' (db w')"
  using reader_becomes_owner [of token_world "as_user ''bob''" "claims_of (sample_user 3 ''bob'' Active False (Some 7)) 1000" 7
      "hd (workspaces auth_db)" 51] authenticated_sample(2) [of token_world]
  by (auto simp: claims_of_def sample_user_def auth_db_def firstWhere_def role_named_def has_permission_iff)

text \<open>
  A reader can also switch the workspace's quota off: settings take any limits, and a
  memory limit of zero or less makes every later request for memory pass the quota check.
\<close>

theorem reader_lifts_the_quota:
  assumes "faults w = []" "fst (authenticated_user rp w) = Inr c" "c_current_workspace_id c = Some ws"
    and "has_permission ws (c_sub c) ''project:read'' (db w)" "uniqueOn w_slug (workspaces (db w))"
    and "firstWhere (\<lambda>x. w_id x = ws) (workspaces (db w)) = Some x" "n \<le> 0"
  shows "\<exists>y w'. workspace_route rp (\<lambda>c. update_workspace_settings c \<lparr>uw_name = None, uw_max_memory_mb = Some n,
      uw_max_storage_gb = None, uw_max_cpu_millicores = None\<rparr>) w = (Inr y, w')
    \<and> (\<forall>mb exclude. fst (check_workspace_memory_limit ws mb exclude w') = Inr ())"
proof -
  let ?p = "\<lparr>uw_name = None, uw_max_memory_mb = Some n, uw_max_storage_gb = None, uw_max_cpu_millicores = None\<rparr>"
  let ?f = "\<lambda>y. y\<lparr>w_name := w_name x, w_slug := w_slug x, w_max_memory_mb := n, w_max_storage_gb := w_max_storage_gb x,
      w_max_cpu_millicores := w_max_cpu_millicores x, w_updated_at := clock w\<rparr>"
  let ?w1 = "w\<lparr>db := (db w)\<lparr>workspaces := updateWhere (\<lambda>y. w_id y = ws) ?f (workspaces (db w))\<rparr>\<rparr>"
  let ?cur = "x\<lparr>w_max_memory_mb := n\<rparr>"
  let ?sync = "andThen (attempt get_client) (\<lambda>client. case client of Inl _ \<Rightarrow> ret ()
       | Inr _ \<Rightarrow> andThen (k8s (ApplyNamespaceLimits (ws_namespace ws) (w_max_memory_mb ?cur) (w_max_storage_gb ?cur)
           (w_max_cpu_millicores ?cur))) (\<lambda>_. ret ())) :: unit handler"
  have auth: "authenticated_user rp w = (Inr c, w)" using assms(2) authenticated_user_run(1) [of rp w] by simp
  have free: "\<not> existsWhere (\<lambda>y. w_id y \<noteq> ws \<and> w_slug y = w_slug x) (workspaces (db w))"
    using uniqueOn_eq [OF assms(5)] firstWhere_Some [OF assms(6)] by (auto simp: existsWhere_iff)
  have "\<exists>w'. ?sync ?w1 = (Inr (), w') \<and> faults w' = [] \<and> db w' = db ?w1"
    using assms(1)
    by (cases "k8s_reply ?w1 (length (k8s_calls ?w1))")
       (simp_all add: get_client_def act_defs k8s_def)
  then obtain w' where w': "?sync ?w1 = (Inr (), w')" "faults w' = []" "db w' = db ?w1" by blast
  define y where "y = workspace_response_of (x\<lparr>w_max_memory_mb := n\<rparr>)"
  have "andThen ?sync (\<lambda>_. ret y) ?w1 = (Inr y, w')"
    using w'(1) by (simp add: andThen_run [where m = ?sync] ret_step)
  then have "update_workspace_settings c ?p w = (Inr y, w')"
    using assms(1,3,6) free
    by (simp add: update_workspace_settings_def active_workspace_bind fetch_workspace_def step_simps edited_def or_else_def Let_def
        andThen_assoc y_def)
  then have "workspace_route rp (\<lambda>c. update_workspace_settings c ?p) w = (Inr y, w')"
    using assms(1,3,4)
    by (simp add: workspace_route_def check_permission_def andThen_run [where m = "authenticated_user rp", OF auth] step_simps)
  moreover have "firstWhere (\<lambda>r. w_id r = ws) (workspaces (db w')) = Some (?f x)"
    using assms(6) by (simp add: w'(3) firstWhere_updateWhere_same)
  then have "fst (check_workspace_memory_limit ws mb exclude w') = Inr ()" for mb exclude
    using w'(2) assms(7) by (simp add: check_workspace_memory_limit_def step_simps)
  ultimately show ?thesis by blast
qed

theorem reader_lifts_the_quota_witness:
  "\<exists>y w'. workspace_route (as_user ''bob'') (\<lambda>c. update_workspace_settings c \<lparr>uw_name = None, uw_max_memory_mb = Some (-1),
      uw_max_storage_gb = None, uw_max_cpu_millicores = None\<rparr>) token_world = (Inr y, w')
    \<and> fst (check_workspace_memory_limit 7 1000000 None w') = Inr ()"
  using reader_lifts_the_quota [of token_world "as_user ''bob''" "claims_of (sample_user 3 ''bob'' Active False (Some 7)) 1000" 7
      "hd (workspaces auth_db)" "-1"] authenticated_sample(2) [of token_world]
  by (fastforce simp: claims_of_def sample_user_def auth_db_def firstWhere_def has_permission_iff uniqueOn_def)

end
