(* ===== verification/Incidents.thy ===== *)
theory Incidents
  imports Databases
begin

text \<open>
  Health probes, incidents and chaos experiments: \<open>utils/health.rs\<close>, \<open>utils/chaos.rs\<close> and the
  handlers of \<open>controllers/incident_controller.rs\<close> and \<open>controllers/chaos_controller.rs\<close>. What a
  probe finds and what the metrics say of the memory are arguments; the tasks the code spawns
  run where it spawns them.
\<close>

section \<open>Instances and their app\<close>

definition instance_with_app :: "uuid \<Rightarrow> database \<Rightarrow> (app_instance \<times> app) option" where
  "instance_with_app i d =
     (case firstWhere (\<lambda>x. ai_id x = i \<and> existsWhere (\<lambda>a. a_id a = ai_app_id x) (apps d)) (app_instances d) of
        None \<Rightarrow> None
      | Some x \<Rightarrow> map_option (Pair x) (firstWhere (\<lambda>a. a_id a = ai_app_id x) (apps d)))"

text \<open>The joined rows of the instances that satisfy \<open>p\<close>.\<close>

definition instance_rows :: "(app_instance \<Rightarrow> bool) \<Rightarrow> database \<Rightarrow> (app_instance \<times> uuid) list" where
  "instance_rows p d = concat (map (\<lambda>x.
     case firstWhere (\<lambda>a. a_id a = ai_app_id x) (apps d) of None \<Rightarrow> [] | Some a \<Rightarrow> [(x, a_workspace_id a)])
     (selectWhere p (app_instances d)))"

definition update_instance :: "uuid \<Rightarrow> (app_instance \<Rightarrow> app_instance) \<Rightarrow> database \<Rightarrow> database" where
  "update_instance i f d = d\<lparr>app_instances := updateWhere (\<lambda>x. ai_id x = i) f (app_instances d)\<rparr>"

definition status_text :: "app_status \<Rightarrow> string" where
  "status_text st = (case st of Building \<Rightarrow> ''building'' | Running \<Rightarrow> ''running'' | Stopped \<Rightarrow> ''stopped''
     | Failed \<Rightarrow> ''failed'' | Crashed \<Rightarrow> ''crashed'')"

section \<open>Incidents\<close>

definition open_of :: "uuid \<Rightarrow> incident \<Rightarrow> bool" where
  "open_of i r \<longleftrightarrow> in_app_instance_id r = i \<and> in_resolved_at r = None"

text \<open>The insertion every raising function makes; the instance must exist.\<close>

definition log_incident :: "uuid \<Rightarrow> uuid \<Rightarrow> uuid \<Rightarrow> string \<Rightarrow> string \<Rightarrow> unit stmt" where
  "log_incident incident_id ws i kind msg = checked
     (\<lambda>w. if existsWhere (\<lambda>x. ai_id x = i) (app_instances (db w)) then None else Some fk_error)
     (\<lambda>w. (db w)\<lparr>app_incident_logs := insertRow
       \<lparr>in_id = incident_id, in_workspace_id = ws, in_app_instance_id = i, in_incident_type = kind, in_message = msg,
        in_resolved_at = None, in_created_at = clock w\<rparr> (app_incident_logs (db w))\<rparr>)"

text \<open>\<open>UPDATE .. SET resolved_at = now() WHERE .. AND resolved_at IS NULL\<close>, with the rows affected.\<close>

definition resolve_where :: "(incident \<Rightarrow> bool) \<Rightarrow> nat stmt" where
  "resolve_where p = executing (\<lambda>w.
     (countWhere (\<lambda>r. p r \<and> in_resolved_at r = None) (app_incident_logs (db w)),
      (db w)\<lparr>app_incident_logs := updateWhere (\<lambda>r. p r \<and> in_resolved_at r = None)
        (\<lambda>r. r\<lparr>in_resolved_at := Some (clock w)\<rparr>) (app_incident_logs (db w))\<rparr>))"

definition alert_hooks :: "uuid \<Rightarrow> database \<Rightarrow> project_webhook list" where
  "alert_hooks i d = (case instance_with_app i d of None \<Rightarrow> []
     | Some (_, a) \<Rightarrow> selectWhere (\<lambda>h. pw_project_id h = a_project_id a \<and> pw_is_active h) (project_webhooks d))"

definition alert_for :: "uuid \<Rightarrow> uuid \<Rightarrow> string \<Rightarrow> string \<Rightarrow> instant \<Rightarrow> project_webhook \<Rightarrow> alert" where
  "alert_for ws i kind msg t h =
     (if pw_webhook_type h = ''discord'' then DiscordAlert (pw_url h) i kind msg t
      else if pw_webhook_type h = ''slack'' then SlackAlert (pw_url h) i kind msg t
      else PlainAlert (pw_url h) ws i kind msg t)"

definition dispatch_external_alert :: "uuid \<Rightarrow> uuid \<Rightarrow> string \<Rightarrow> string \<Rightarrow> unit stmt" where
  "dispatch_external_alert ws i kind msg =
     andThen (orElse (fetch (\<lambda>w. alert_hooks i (db w))) []) (\<lambda>hooks.
     andThen now (\<lambda>t.
     forEach hooks (\<lambda>h. post_alert (alert_for ws i kind msg t h))))"

section \<open>The health probe\<close>

definition trigger_incident :: "uuid \<Rightarrow> uuid \<Rightarrow> string \<Rightarrow> string \<Rightarrow> unit stmt" where
  "trigger_incident ws i kind msg =
     andThen (fetch (\<lambda>w. existsWhere (open_of i) (app_incident_logs (db w)))) (\<lambda>already_logged.
     if already_logged then ret ()
     else
       andThen new_v4 (\<lambda>incident_id.
       andThen (log_incident incident_id ws i kind msg) (\<lambda>_.
       andThen (execute (\<lambda>w. update_instance i (\<lambda>x. x\<lparr>ai_status := Failed, ai_updated_at := clock w\<rparr>) (db w))) (\<lambda>_.
       andThen (orElse (fetch (\<lambda>w. instance_with_app i (db w))) None) (\<lambda>meta.
       andThen (case meta of None \<Rightarrow> ret ()
         | Some (x, a) \<Rightarrow>
             andThen (broadcast_event (IncidentCreated ws incident_id (a_project_id a) msg)) (\<lambda>_.
             broadcast_event (InstanceStatusChanged ws i (ai_container_name x) ''failed''))) (\<lambda>_.
       dispatch_external_alert ws i kind msg))))))"

definition failure_threshold :: "world \<Rightarrow> int" where
  "failure_threshold w =
     (case Option.bind (env_var w ''HERMES_HEALTH_FAILURE_THRESHOLD'') (parse_int fits_i32) of
        None \<Rightarrow> 3 | Some n \<Rightarrow> (if 0 < n then n else 3))"

text \<open>The increment returns the new count; the column is an \<open>integer\<close>.\<close>

definition count_failure :: "uuid \<Rightarrow> int stmt" where
  "count_failure i = sql (\<lambda>w.
     case firstWhere (\<lambda>x. ai_id x = i) (app_instances (db w)) of
       None \<Rightarrow> Inl RowNotFound
     | Some x \<Rightarrow>
         (if fits_i32 (ai_consecutive_health_failures x + 1)
          then Inr (ai_consecutive_health_failures x + 1, update_instance i (\<lambda>x.
            x\<lparr>ai_consecutive_health_failures := ai_consecutive_health_failures x + 1, ai_updated_at := clock w\<rparr>) (db w))
          else Inl (Database out_of_range None)))"

definition record_health_failure :: "uuid \<Rightarrow> uuid \<Rightarrow> string \<Rightarrow> string \<Rightarrow> unit stmt" where
  "record_health_failure ws i kind msg =
     andThen (readState failure_threshold) (\<lambda>threshold.
     andThen (count_failure i) (\<lambda>c.
     if threshold \<le> c then trigger_incident ws i kind msg else ret ()))"

definition resolve_active_incidents :: "uuid \<Rightarrow> unit stmt" where
  "resolve_active_incidents i =
     andThen (discard (execute (\<lambda>w. (db w)\<lparr>app_instances :=
       updateWhere (\<lambda>x. ai_id x = i \<and> ai_consecutive_health_failures x \<noteq> 0)
         (\<lambda>x. x\<lparr>ai_consecutive_health_failures := 0\<rparr>) (app_instances (db w))\<rparr>) :: unit stmt)) (\<lambda>_.
     andThen (resolve_where (\<lambda>r. in_app_instance_id r = i)) (\<lambda>rows.
     andThen (execute (\<lambda>w. (db w)\<lparr>app_instances :=
       updateWhere (\<lambda>x. ai_id x = i \<and> ai_status x \<noteq> Running)
         (\<lambda>x. x\<lparr>ai_status := Running, ai_updated_at := clock w\<rparr>) (app_instances (db w))\<rparr>)) (\<lambda>_.
     if rows = 0 then ret ()
     else
       andThen (orElse (fetch (\<lambda>w. instance_with_app i (db w))) None) (\<lambda>meta.
       case meta of None \<Rightarrow> ret ()
       | Some (x, a) \<Rightarrow> broadcast_event (InstanceStatusChanged (a_workspace_id a) i (ai_container_name x) ''running'')))))"

text \<open>What the HTTP request of a probe came to: a status code with its text, or a failure.\<close>

datatype http_probe = Answered nat string | Unreachable string

text \<open>\<open>Deployment\<close> present with a ready replica.\<close>

definition deployment_ready :: "uuid \<Rightarrow> string \<Rightarrow> bool stmt" where
  "deployment_ready ws container =
     andThen (k8s GetClient) (\<lambda>client.
     case client of Refused _ \<Rightarrow> ret False
     | _ \<Rightarrow>
         andThen (k8s (GetDeployment (ws_namespace ws) container)) (\<lambda>d.
         ret (case d of ReadyReplicas (Some n) \<Rightarrow> 0 < n | _ \<Rightarrow> False)))"

definition probe_task :: "http_probe \<Rightarrow> app_instance \<Rightarrow> uuid \<Rightarrow> unit stmt" where
  "probe_task response inst ws =
     (case response of
        Answered s text \<Rightarrow>
          (if s < 500 then discard (resolve_active_incidents (ai_id inst))
           else discard (record_health_failure ws (ai_id inst) ''UNHEALTHY_HTTP_CODE''
             (''App returned unhealthy status code: '' @ text)))
      | Unreachable e \<Rightarrow>
          andThen (deployment_ready ws (ai_container_name inst)) (\<lambda>is_healthy.
          if is_healthy then discard (resolve_active_incidents (ai_id inst))
          else discard (record_health_failure ws (ai_id inst) ''TIMEOUT_OR_DOWN''
            (''Failed to reach application endpoint. Error: '' @ e))))"

definition probe_url :: "app_instance \<Rightarrow> string" where
  "probe_url x = ''http://'' @ ai_container_name x @ '':'' @ show_int (ai_internal_port x)
     @ (case ai_health_check_path x of Some p \<Rightarrow> p | None \<Rightarrow> ''/'')"

text \<open>One round of the worker; only the leader probes.\<close>

definition health_tick :: "bool \<Rightarrow> (string \<Rightarrow> http_probe) \<Rightarrow> unit stmt" where
  "health_tick leading probe =
     (if \<not> leading then ret ()
      else
        andThen (orElse (fetch (\<lambda>w. instance_rows (\<lambda>x. ai_status x \<in> {Running, Failed, Crashed}) (db w))) []) (\<lambda>rows.
        forEach rows (\<lambda>(x, ws). probe_task (probe (probe_url x)) x ws)))"

section \<open>The memory alert\<close>

definition high_memory :: "uuid \<Rightarrow> incident \<Rightarrow> bool" where
  "high_memory i r \<longleftrightarrow> in_app_instance_id r = i \<and> in_incident_type r = ''HIGH_MEMORY''"

text \<open>
  A reading of Prometheus compared with the limit in floating point: whether the ratio
  reaches the threshold, and the percentage it prints; \<open>None\<close> when the query has no answer.
\<close>

type_synonym memory_reading = "(bool \<times> string) option"

definition memory_check :: "memory_reading \<Rightarrow> app_instance \<Rightarrow> uuid \<Rightarrow> unit stmt" where
  "memory_check reading inst ws =
     (let i = ai_id inst; limit_mb = (case ai_memory_limit_mb inst of Some n \<Rightarrow> n | None \<Rightarrow> 0) in
      if limit_mb \<le> 0 then ret ()
      else
        (case reading of None \<Rightarrow> ret ()
         | Some (saturated, pct) \<Rightarrow>
             andThen (orElse (fetch (\<lambda>w. existsWhere (\<lambda>r. high_memory i r \<and> in_resolved_at r = None)
               (app_incident_logs (db w)))) False) (\<lambda>is_open.
             if saturated \<and> \<not> is_open then
               (let msg = ''Memory usage at '' @ pct @ ''% of the '' @ show_int limit_mb @ ''MB limit.'' in
                andThen new_v4 (\<lambda>incident_id.
                andThen (discard (log_incident incident_id ws i ''HIGH_MEMORY'' msg) :: unit stmt) (\<lambda>_.
                dispatch_external_alert ws i ''HIGH_MEMORY'' msg)))
             else if \<not> saturated \<and> is_open then discard (resolve_where (high_memory i))
             else ret ())))"

definition metric_tick :: "bool \<Rightarrow> (app_instance \<Rightarrow> memory_reading) \<Rightarrow> unit stmt" where
  "metric_tick leading reading =
     (if \<not> leading then ret ()
      else
        andThen (orElse (fetch (\<lambda>w. instance_rows
          (\<lambda>x. ai_status x = Running \<and> (case ai_memory_limit_mb x of Some n \<Rightarrow> 0 < n | None \<Rightarrow> False)) (db w))) []) (\<lambda>rows.
        forEach rows (\<lambda>(x, ws). memory_check (reading x) x ws)))"

section \<open>Chaos experiments\<close>

record start_chaos_request =
  cq_chaos_kind :: string
  cq_duration_sec :: "int option"
  cq_target_all_pods :: "bool option"
  cq_target_replicas :: "int option"
  cq_cpu_workers :: "int option"

record chaos_response =
  cr_id :: uuid
  cr_kind :: string
  cr_status :: string
  cr_message :: string
  cr_params :: chaos_params
  cr_original_replicas :: "int option"
  cr_started_at :: instant
  cr_revert_at :: "instant option"
  cr_ended_at :: "instant option"

definition MIN_DURATION_SEC :: int where "MIN_DURATION_SEC = 5"

definition MAX_DURATION_SEC :: int where "MAX_DURATION_SEC = 300"

definition clamp_duration :: "int option \<Rightarrow> int" where
  "clamp_duration secs = clamp (or_else secs 60) MIN_DURATION_SEC MAX_DURATION_SEC"

definition nudge :: "uuid \<Rightarrow> uuid \<Rightarrow> string \<Rightarrow> string \<Rightarrow> unit handler" where
  "nudge ws i container status = broadcast_event (InstanceStatusChanged ws i container status)"

definition open_incident :: "uuid \<Rightarrow> uuid \<Rightarrow> string \<Rightarrow> string \<Rightarrow> unit handler" where
  "open_incident ws i kind msg =
     andThen new_v4 (\<lambda>incident_id. discard (log_incident incident_id ws i (''CHAOS_'' @ to_uppercase kind) msg))"

definition resolve_chaos_incidents :: "uuid \<Rightarrow> unit handler" where
  "resolve_chaos_incidents i =
     discard (resolve_where (\<lambda>r. in_app_instance_id r = i \<and> starts_with ''CHAOS_'' (in_incident_type r)))"

text \<open>What applying a fault decides: status, time of the revert, replicas to restore, message, parameters.\<close>

type_synonym fault_outcome = "string \<times> instant option \<times> int option \<times> string \<times> chaos_params"

definition pod_kill :: "string \<Rightarrow> string \<Rightarrow> start_chaos_request \<Rightarrow> fault_outcome handler" where
  "pod_kill namespace container req =
     (let all_pods = or_else (cq_target_all_pods req) False in
      andThen (k8s (ListPods namespace container)) (\<lambda>l.
      let names = (case l of Names ns \<Rightarrow> ns | _ \<Rightarrow> []) in
      andThen (rejectIf (names = []) (Validation ''No running pods to kill for this instance.'')) (\<lambda>_.
      let targets = (if all_pods then names else take 1 names) in
      andThen (forEach targets (\<lambda>n. andThen (k8s (DeletePod namespace n)) (\<lambda>_. ret ()))) (\<lambda>_.
      ret (''completed'', None, None, ''Killed '' @ show_nat (length targets) @ '' pod(s)'', KilledPods targets all_pods)))))"

definition scale_down :: "uuid \<Rightarrow> uuid \<Rightarrow> string \<Rightarrow> int \<Rightarrow> instant \<Rightarrow> start_chaos_request \<Rightarrow> fault_outcome handler" where
  "scale_down ws i container replicas_min started_at req =
     (let target = max (or_else (cq_target_replicas req) 0) 0; dur = clamp_duration (cq_duration_sec req);
          msg = ''Scaled down to '' @ show_int target @ '' replica(s) for '' @ show_int dur @ ''s (restores to ''
            @ show_int replicas_min @ '')'' in
      andThen (k8s_do (ScaleDeployment (ws_namespace ws) container target)) (\<lambda>_.
      andThen (open_incident ws i (cq_chaos_kind req) msg) (\<lambda>_.
      ret (''running'', Some (started_at + seconds dur), Some replicas_min, msg, ScaledTo target dur))))"

definition burn_command :: "int \<Rightarrow> int \<Rightarrow> string" where
  "burn_command dur workers =
     ''timeout '' @ show_int dur @ '' sh -c '' @ [CHR 0x27] @ ''n='' @ show_int workers
     @ ''; i=0; while [ $i -lt $n ]; do (while true; do :; done) & i=$((i+1)); done; wait'' @ [CHR 0x27]
     @ '' 2>/dev/null || true''"

definition pod_name_for_app :: "string \<Rightarrow> string \<Rightarrow> string handler" where
  "pod_name_for_app namespace app_label =
     andThen (k8s (PodNameForApp namespace app_label)) (\<lambda>a.
     case a of
       Refused m \<Rightarrow> raise (Infrastructure (''Failed to list pods: '' @ m))
     | Names (n # _) \<Rightarrow> ret n
     | _ \<Rightarrow> raise (Infrastructure (''No running pod found for '' @ [CHR 0x27] @ app_label @ [CHR 0x27] @ ''.'')))"

definition cpu_stress :: "uuid \<Rightarrow> uuid \<Rightarrow> string \<Rightarrow> instant \<Rightarrow> start_chaos_request \<Rightarrow> fault_outcome handler" where
  "cpu_stress ws i container started_at req =
     (let dur = clamp_duration (cq_duration_sec req); workers = clamp (or_else (cq_cpu_workers req) 1) 1 8;
          msg = ''CPU stress: '' @ show_int workers @ '' worker(s) for '' @ show_int dur @ ''s (best-effort)'' in
      andThen (pod_name_for_app (ws_namespace ws) container) (\<lambda>pod.
      andThen (k8s (ExecInPod (ws_namespace ws) pod [''sh'', ''-c'', burn_command dur workers])) (\<lambda>_.
      andThen (open_incident ws i (cq_chaos_kind req) msg) (\<lambda>_.
      ret (''running'', Some (started_at + seconds dur), None, msg, StressedBy workers dur)))))"

definition apply_fault :: "uuid \<Rightarrow> uuid \<Rightarrow> string \<Rightarrow> int \<Rightarrow> instant \<Rightarrow> start_chaos_request \<Rightarrow> fault_outcome handler" where
  "apply_fault ws i container replicas_min started_at req =
     (if cq_chaos_kind req = ''pod_kill'' then pod_kill (ws_namespace ws) container req
      else if cq_chaos_kind req = ''scale_down'' then scale_down ws i container replicas_min started_at req
      else if cq_chaos_kind req = ''cpu_stress'' then cpu_stress ws i container started_at req
      else raise (Validation (''Unknown chaos kind '' @ [CHR 0x27] @ cq_chaos_kind req @ [CHR 0x27] @ ''.'')))"

text \<open>The experiment is recorded after its fault was applied.\<close>

definition start_experiment ::
  "uuid \<Rightarrow> uuid \<Rightarrow> uuid \<Rightarrow> string \<Rightarrow> int \<Rightarrow> uuid \<Rightarrow> start_chaos_request \<Rightarrow> chaos_response handler" where
  "start_experiment ws app_id i container replicas_min created_by req =
     andThen get_client (\<lambda>_.
     andThen new_v4 (\<lambda>exp_id.
     andThen now (\<lambda>started_at.
     andThen (apply_fault ws i container replicas_min started_at req) (\<lambda>(status, revert_at, original, msg, params).
     andThen now (\<lambda>t.
     let ended_at = (if status = ''completed'' then Some t else None) in
     andThen (mapErr (\<lambda>e. Fatal (FromSqlx e)) (checked
       (\<lambda>w. if existsWhere (\<lambda>x. ai_id x = i) (app_instances (db w)) then None else Some fk_error)
       (\<lambda>w. (db w)\<lparr>chaos_experiments := insertRow
         \<lparr>cx_id = exp_id, cx_workspace_id = ws, cx_app_id = app_id, cx_app_instance_id = i, cx_kind = cq_chaos_kind req,
          cx_params = params, cx_status = status, cx_original_replicas = original, cx_message = msg,
          cx_started_at = started_at, cx_revert_at = revert_at, cx_ended_at = ended_at, cx_created_by = created_by\<rparr>
         (chaos_experiments (db w))\<rparr>))) (\<lambda>_.
     andThen (nudge ws i container ''running'') (\<lambda>_.
     ret \<lparr>cr_id = exp_id, cr_kind = cq_chaos_kind req, cr_status = status, cr_message = msg, cr_params = params,
          cr_original_replicas = original, cr_started_at = started_at, cr_revert_at = revert_at, cr_ended_at = ended_at\<rparr>)))))))"

definition running_experiment :: "uuid \<Rightarrow> database \<Rightarrow> (chaos_experiment \<times> app_instance) option" where
  "running_experiment exp_id d =
     (case firstWhere (\<lambda>e. cx_id e = exp_id \<and> cx_status e = ''running''
             \<and> existsWhere (\<lambda>x. ai_id x = cx_app_instance_id e) (app_instances d)) (chaos_experiments d) of
        None \<Rightarrow> None
      | Some e \<Rightarrow> map_option (Pair e) (firstWhere (\<lambda>x. ai_id x = cx_app_instance_id e) (app_instances d)))"

definition close_experiment :: "uuid \<Rightarrow> string \<Rightarrow> instant \<Rightarrow> database \<Rightarrow> database" where
  "close_experiment exp_id final_status t d = d\<lparr>chaos_experiments :=
     updateWhere (\<lambda>e. cx_id e = exp_id) (\<lambda>e. e\<lparr>cx_status := final_status, cx_ended_at := Some t\<rparr>) (chaos_experiments d)\<rparr>"

definition restore_replicas :: "chaos_experiment \<Rightarrow> string \<Rightarrow> unit handler" where
  "restore_replicas e container =
     (case (cx_kind e = ''scale_down'', cx_original_replicas e) of
        (True, Some target) \<Rightarrow>
          andThen (k8s GetClient) (\<lambda>client.
          case client of Refused _ \<Rightarrow> ret ()
          | _ \<Rightarrow> andThen (k8s (ScaleDeployment (ws_namespace (cx_workspace_id e)) container target)) (\<lambda>_. ret ()))
      | _ \<Rightarrow> ret ())"

definition revert_experiment :: "uuid \<Rightarrow> string \<Rightarrow> unit handler" where
  "revert_experiment exp_id final_status =
     andThen (orElse (fetch (\<lambda>w. running_experiment exp_id (db w))) None) (\<lambda>found.
     case found of None \<Rightarrow> ret ()
     | Some (e, x) \<Rightarrow>
         andThen (restore_replicas e (ai_container_name x)) (\<lambda>_.
         andThen (discard (execute (\<lambda>w. close_experiment exp_id final_status (clock w) (db w)))) (\<lambda>_.
         andThen (resolve_chaos_incidents (cx_app_instance_id e)) (\<lambda>_.
         nudge (cx_workspace_id e) (cx_app_instance_id e) (ai_container_name x) ''running''))))"

definition has_active_experiment :: "uuid \<Rightarrow> bool handler" where
  "has_active_experiment i = orElse (fetch (\<lambda>w.
     existsWhere (\<lambda>e. cx_app_instance_id e = i \<and> cx_status e = ''running'') (chaos_experiments (db w)))) False"

definition experiment_due :: "instant \<Rightarrow> chaos_experiment \<Rightarrow> bool" where
  "experiment_due t e \<longleftrightarrow> cx_status e = ''running'' \<and> (case cx_revert_at e of Some r \<Rightarrow> r \<le> t | None \<Rightarrow> False)"

definition chaos_tick :: "bool \<Rightarrow> unit handler" where
  "chaos_tick leading =
     (if \<not> leading then ret ()
      else
        andThen (orElse (fetch (\<lambda>w. map cx_id (selectWhere (experiment_due (clock w)) (chaos_experiments (db w))))) []) (\<lambda>due.
        forEach due (\<lambda>i. revert_experiment i ''completed'')))"

section \<open>The handlers\<close>

definition find_instance :: "uuid \<Rightarrow> uuid \<Rightarrow> uuid \<Rightarrow> database \<Rightarrow> (app_instance \<times> app) option" where
  "find_instance i app_id ws d =
     (case instance_with_app i d of None \<Rightarrow> None
      | Some (x, a) \<Rightarrow> (if ai_app_id x = app_id \<and> a_workspace_id a = ws then Some (x, a) else None))"

definition no_instance :: app_error where
  "no_instance = NotFound ''Application instance not found.''"

definition start_chaos :: "claims \<Rightarrow> uuid \<Rightarrow> uuid \<Rightarrow> start_chaos_request \<Rightarrow> chaos_response handler" where
  "start_chaos claims app_id i req =
     andThen (active_workspace claims) (\<lambda>ws_id.
     andThen (query (fetch (\<lambda>w. find_instance i app_id ws_id (db w)))) (\<lambda>row.
     andThen (okOr no_instance row) (\<lambda>(x, a).
     andThen (rejectIf (status_text (ai_status x) \<noteq> ''running'')
       (Validation ''The instance must be Running to start a chaos experiment.'')) (\<lambda>_.
     start_experiment (a_workspace_id a) (ai_app_id x) i (ai_container_name x) (ai_replicas_min x) (c_sub claims) req))))"

definition chaos_response_of :: "chaos_experiment \<Rightarrow> chaos_response" where
  "chaos_response_of e =
     \<lparr>cr_id = cx_id e, cr_kind = cx_kind e, cr_status = cx_status e, cr_message = cx_message e, cr_params = cx_params e,
      cr_original_replicas = cx_original_replicas e, cr_started_at = cx_started_at e, cr_revert_at = cx_revert_at e,
      cr_ended_at = cx_ended_at e\<rparr>"

definition list_chaos :: "claims \<Rightarrow> uuid \<Rightarrow> uuid \<Rightarrow> chaos_response list handler" where
  "list_chaos claims app_id i =
     andThen (active_workspace claims) (\<lambda>ws_id.
     andThen (query (fetch (\<lambda>w. find_instance i app_id ws_id (db w) \<noteq> None))) (\<lambda>ok.
     andThen (rejectIf (\<not> ok) no_instance) (\<lambda>_.
     andThen (query (fetch (\<lambda>w. take 15 (sort_key (\<lambda>e. - cx_started_at e)
       (selectWhere (\<lambda>e. cx_app_instance_id e = i) (chaos_experiments (db w))))))) (\<lambda>rows.
     ret (map chaos_response_of rows)))))"

definition cancel_chaos :: "claims \<Rightarrow> uuid \<Rightarrow> uuid \<Rightarrow> uuid \<Rightarrow> unit handler" where
  "cancel_chaos claims app_id i exp_id =
     andThen (active_workspace claims) (\<lambda>ws_id.
     andThen (query (fetch (\<lambda>w. existsWhere (\<lambda>e. cx_id e = exp_id \<and> cx_app_instance_id e = i \<and> cx_status e = ''running'')
         (chaos_experiments (db w)) \<and> find_instance i app_id ws_id (db w) \<noteq> None))) (\<lambda>running.
     andThen (rejectIf (\<not> running) (NotFound ''No running experiment with that id.'')) (\<lambda>_.
     revert_experiment exp_id ''cancelled'')))"

record incident_response =
  ir_id :: uuid
  ir_workspace_id :: uuid
  ir_app_instance_id :: uuid
  ir_instance_name :: string
  ir_incident_type :: string
  ir_message :: string
  ir_resolved_at :: "instant option"
  ir_created_at :: instant

definition incident_rows :: "uuid \<Rightarrow> uuid \<Rightarrow> database \<Rightarrow> incident_response list" where
  "incident_rows project_id ws d = concat (map (\<lambda>r.
     case instance_with_app (in_app_instance_id r) d of
       Some (x, a) \<Rightarrow>
         (if a_project_id a = project_id \<and> in_workspace_id r = ws
          then [\<lparr>ir_id = in_id r, ir_workspace_id = in_workspace_id r, ir_app_instance_id = in_app_instance_id r,
                 ir_instance_name = ai_container_name x, ir_incident_type = in_incident_type r, ir_message = in_message r,
                 ir_resolved_at = in_resolved_at r, ir_created_at = in_created_at r\<rparr>]
          else [])
     | None \<Rightarrow> []) (app_incident_logs d))"

definition list_project_incidents ::
  "claims \<Rightarrow> uuid \<Rightarrow> pagination_params \<Rightarrow> incident_response paginated handler" where
  "list_project_incidents claims project_id pagination =
     andThen (active_workspace claims) (\<lambda>ws_id.
     andThen (query (fetch (\<lambda>w. existsWhere (\<lambda>p. pr_id p = project_id \<and> pr_workspace_id p = ws_id) (projects (db w))))) (\<lambda>ex.
     andThen (rejectIf (\<not> ex) (NotFound ''Project not found in this workspace.'')) (\<lambda>_.
     let (page, page_size, offset) = resolve_page pagination in
     andThen (query (fetch (\<lambda>w. int (length (incident_rows project_id ws_id (db w)))))) (\<lambda>total.
     andThen (query (fetchTry (\<lambda>w.
       case limit_offset page_size offset (sort_key (\<lambda>r. - ir_created_at r) (incident_rows project_id ws_id (db w))) of
         None \<Rightarrow> Inl (Database ''2201X'' None) | Some rows \<Rightarrow> Inr rows))) (\<lambda>items.
     ret \<lparr>pd_items = items, pd_total = total, pd_page = page, pd_page_size = page_size\<rparr>)))))"

definition resolve_incident :: "claims \<Rightarrow> uuid \<Rightarrow> unit handler" where
  "resolve_incident claims incident_id =
     andThen (active_workspace claims) (\<lambda>ws_id.
     andThen (query (resolve_where (\<lambda>r. in_id r = incident_id \<and> in_workspace_id r = ws_id))) (\<lambda>rows_affected.
     rejectIf (rows_affected = 0) (NotFound ''Active incident not found or already resolved.'')))"

end
