(* ===== verification/Incidents_Laws.thy ===== *)
theory Incidents_Laws
  imports Incidents Workspaces_Laws Cron_Laws
begin

text \<open>
  What the health worker and the chaos worker do over time: when an outage becomes an
  incident and an alert, what a healthy probe repairs, which experiments the worker ends,
  and what remains when an experiment could not be recorded.
\<close>

section \<open>A sample installation\<close>

definition chaos_sample :: "uuid \<Rightarrow> instant \<Rightarrow> chaos_experiment" where
  "chaos_sample k t = \<lparr>cx_id = k, cx_workspace_id = 7, cx_app_id = 4, cx_app_instance_id = 15, cx_kind = ''scale_down'',
     cx_params = ScaledTo 0 60, cx_status = ''running'', cx_original_replicas = Some 2, cx_message = ''Scaled down'',
     cx_started_at = seconds 900, cx_revert_at = Some t, cx_ended_at = None, cx_created_by = 1\<rparr>"

definition incident_sample :: "string \<Rightarrow> incident" where
  "incident_sample kind = \<lparr>in_id = 60, in_workspace_id = 7, in_app_instance_id = 15, in_incident_type = kind,
     in_message = ''Memory usage'', in_resolved_at = None, in_created_at = seconds 900\<rparr>"

definition health_world :: "incident list \<Rightarrow> chaos_experiment list \<Rightarrow> world" where
  "health_world l cs = base_world\<lparr>db := empty_db\<lparr>apps := [sample_app 4 7], app_instances := [sample_instance 15 4],
     app_incident_logs := l, chaos_experiments := cs\<rparr>\<rparr>"

definition scale_request :: start_chaos_request where
  "scale_request = \<lparr>cq_chaos_kind = ''scale_down'', cq_duration_sec = Some 900, cq_target_all_pods = None,
     cq_target_replicas = Some (-1), cq_cpu_workers = None\<rparr>"

lemmas health_world_defs = health_world_def base_world_def empty_db_def sample_app_def sample_instance_def
  chaos_sample_def incident_sample_def

section \<open>Instances under an update\<close>

lemma firstWhere_updateWhere:
  "(\<And>r. p r \<Longrightarrow> q (f r) = q r) \<Longrightarrow>
     firstWhere q (updateWhere p f t) = map_option (\<lambda>r. if p r then f r else r) (firstWhere q t)"
  by (induction t) (auto simp: firstWhere_def updateWhere_def)

lemma existsWhere_updateWhere:
  "(\<And>r. p r \<Longrightarrow> q (f r) = q r) \<Longrightarrow> existsWhere q (updateWhere p f t) = existsWhere q t"
  by (induction t) (auto simp: existsWhere_def updateWhere_def)

lemma first_update_instance:
  assumes "\<And>x. ai_id (f x) = ai_id x"
  shows "firstWhere (\<lambda>x. ai_id x = i) (app_instances (update_instance j f d)) =
     map_option (\<lambda>x. if ai_id x = j then f x else x) (firstWhere (\<lambda>x. ai_id x = i) (app_instances d))"
  using assms by (simp add: update_instance_def firstWhere_updateWhere)

lemma alert_hooks_update_instance:
  assumes "\<And>x. ai_id (f x) = ai_id x" "\<And>x. ai_app_id (f x) = ai_app_id x"
  shows "alert_hooks i (update_instance j f d) = alert_hooks i d"
  using assms
  by (auto simp: alert_hooks_def instance_with_app_def update_instance_def firstWhere_updateWhere
      split: option.split)

lemma alert_hooks_logs [simp]: "alert_hooks i (d\<lparr>app_incident_logs := l\<rparr>) = alert_hooks i d"
  by (auto simp: alert_hooks_def instance_with_app_def split: option.split)

lemma tables_of_update_instance [simp]:
  "app_incident_logs (update_instance j f d) = app_incident_logs d"
  "chaos_experiments (update_instance j f d) = chaos_experiments d"
  "app_instances (update_instance j f d) = updateWhere (\<lambda>x. ai_id x = j) f (app_instances d)"
  by (simp_all add: update_instance_def)

section \<open>Raising an incident\<close>

lemma forEach_post_alert:
  "forEach hs (\<lambda>h. post_alert (g h)) w = (Inr (), w\<lparr>alerts := alerts w @ map g hs\<rparr>)"
  by (induction hs arbitrary: w) (simp_all add: step_simps)

lemma dispatch_run:
  "faults w = [] \<Longrightarrow> dispatch_external_alert ws i kind msg w =
     (Inr (), w\<lparr>alerts := alerts w @ map (alert_for ws i kind msg (clock w)) (alert_hooks i (db w))\<rparr>)"
  by (simp add: dispatch_external_alert_def step_simps forEach_post_alert)

lemma log_incident_run:
  assumes "faults w = []" "existsWhere (\<lambda>x. ai_id x = i) (app_instances (db w))"
  shows "log_incident k ws i kind msg w = (Inr (), w\<lparr>db := (db w)\<lparr>app_incident_logs := insertRow
       \<lparr>in_id = k, in_workspace_id = ws, in_app_instance_id = i, in_incident_type = kind, in_message = msg,
        in_resolved_at = None, in_created_at = clock w\<rparr> (app_incident_logs (db w))\<rparr>\<rparr>)"
  using assms by (simp add: log_incident_def checked_ok)

lemma andThen_log_incident:
  assumes "faults w = []" "existsWhere (\<lambda>x. ai_id x = i) (app_instances (db w))"
  shows "andThen (log_incident k ws i kind msg) f w = f () (w\<lparr>db := (db w)\<lparr>app_incident_logs := insertRow
       \<lparr>in_id = k, in_workspace_id = ws, in_app_instance_id = i, in_incident_type = kind, in_message = msg,
        in_resolved_at = None, in_created_at = clock w\<rparr> (app_incident_logs (db w))\<rparr>\<rparr>)"
  by (simp add: andThen_def log_incident_run [OF assms])

lemma trigger_skips:
  "faults w = [] \<Longrightarrow> existsWhere (open_of i) (app_incident_logs (db w)) \<Longrightarrow>
     trigger_incident ws i kind msg w = (Inr (), w)"
  by (simp add: trigger_incident_def step_simps)

lemma trigger_raises:
  assumes f: "faults w = []" and n: "\<not> existsWhere (open_of i) (app_incident_logs (db w))"
    and x: "firstWhere (\<lambda>x. ai_id x = i) (app_instances (db w)) = Some x"
  shows "\<exists>w' k. trigger_incident ws i kind msg w = (Inr (), w') \<and> faults w' = [] \<and> env_var w' = env_var w \<and> clock w' = clock w
     \<and> db w' = update_instance i (\<lambda>x. x\<lparr>ai_status := Failed, ai_updated_at := clock w\<rparr>)
         ((db w)\<lparr>app_incident_logs := insertRow
            \<lparr>in_id = k, in_workspace_id = ws, in_app_instance_id = i, in_incident_type = kind, in_message = msg,
             in_resolved_at = None, in_created_at = clock w\<rparr> (app_incident_logs (db w))\<rparr>)
     \<and> alerts w' = alerts w @ map (alert_for ws i kind msg (clock w)) (alert_hooks i (db w))"
proof -
  have e: "existsWhere (\<lambda>x. ai_id x = i) (app_instances (db w))"
    using firstWhere_Some [OF x] by (auto simp: existsWhere_iff)
  have h: "alert_hooks i (update_instance i (\<lambda>x. x\<lparr>ai_status := Failed, ai_updated_at := t\<rparr>) d) = alert_hooks i d" for t d
    by (rule alert_hooks_update_instance) simp_all
  define d where "d = update_instance i (\<lambda>x. x\<lparr>ai_status := Failed, ai_updated_at := clock w\<rparr>)
    ((db w)\<lparr>app_incident_logs := insertRow
            \<lparr>in_id = random_uuid w (drawn w), in_workspace_id = ws, in_app_instance_id = i, in_incident_type = kind,
             in_message = msg, in_resolved_at = None, in_created_at = clock w\<rparr> (app_incident_logs (db w))\<rparr>)"
  have "alert_hooks i d = alert_hooks i (db w)" by (simp add: d_def h)
  then show ?thesis
    unfolding trigger_incident_def
    by (cases "instance_with_app i d")
      (auto simp: step_simps f n andThen_log_incident e dispatch_run andThen_assoc simp flip: d_def,
       auto simp: d_def)
qed

section \<open>From failed probes to an incident\<close>

lemma count_failure_run:
  assumes "faults w = []" "firstWhere (\<lambda>x. ai_id x = i) (app_instances (db w)) = Some x"
    "fits_i32 (ai_consecutive_health_failures x + 1)"
  shows "andThen (count_failure i) f w = f (ai_consecutive_health_failures x + 1)
     (w\<lparr>db := update_instance i (\<lambda>x. x\<lparr>ai_consecutive_health_failures := ai_consecutive_health_failures x + 1,
        ai_updated_at := clock w\<rparr>) (db w)\<rparr>)"
  using assms by (simp add: count_failure_def step_simps)

text \<open>What holds after \<open>n\<close> failed probes in a row; \<open>up\<close> tells whether the threshold was reached.\<close>

definition after_failures ::
  "uuid \<Rightarrow> uuid \<Rightarrow> string \<Rightarrow> string \<Rightarrow> world \<Rightarrow> app_instance \<Rightarrow> nat \<Rightarrow> world \<Rightarrow> bool" where
  "after_failures ws i kind msg w x n w' \<longleftrightarrow>
     (let up = (0 < n \<and> failure_threshold w \<le> ai_consecutive_health_failures x + int n) in
      faults w' = [] \<and> env_var w' = env_var w \<and> clock w' = clock w \<and> alert_hooks i (db w') = alert_hooks i (db w)
      \<and> (\<exists>x'. firstWhere (\<lambda>x. ai_id x = i) (app_instances (db w')) = Some x'
           \<and> ai_consecutive_health_failures x' = ai_consecutive_health_failures x + int n
           \<and> ai_status x' = (if up then Failed else ai_status x))
      \<and> (\<exists>k. selectWhere (open_of i) (app_incident_logs (db w')) =
            (if up then [\<lparr>in_id = k, in_workspace_id = ws, in_app_instance_id = i, in_incident_type = kind,
                          in_message = msg, in_resolved_at = None, in_created_at = clock w\<rparr>] else []))
      \<and> alerts w' = alerts w @ (if up then map (alert_for ws i kind msg (clock w)) (alert_hooks i (db w)) else []))"

lemma selectWhere_Nil: "selectWhere p t = [] \<longleftrightarrow> \<not> existsWhere p t"
  by (auto simp: selectWhere_def existsWhere_iff filter_empty_conv)

lemma selectWhere_Cons: "selectWhere p t = r # rs \<Longrightarrow> existsWhere p t"
  using selectWhere_Nil [of p t] by simp

lemma selectWhere_insertRow: "selectWhere p (insertRow r t) = selectWhere p t @ (if p r then [r] else [])"
  by (simp add: selectWhere_def filter_insertRow)

lemma one_more_failure:
  assumes a: "after_failures ws i kind msg w x n w1" and b: "ai_consecutive_health_failures x + int (Suc n) \<le> 2147483647"
    and c: "0 \<le> ai_consecutive_health_failures x"
  shows "\<exists>w'. record_health_failure ws i kind msg w1 = (Inr (), w') \<and> after_failures ws i kind msg w x (Suc n) w'"
proof -
  let ?c = "ai_consecutive_health_failures x"
  let ?up = "0 < n \<and> failure_threshold w \<le> ?c + int n"
  have t: "failure_threshold w1 = failure_threshold w" and f: "faults w1 = []"
    using a by (simp_all add: after_failures_def failure_threshold_def Let_def)
  obtain x1 where x1: "firstWhere (\<lambda>x. ai_id x = i) (app_instances (db w1)) = Some x1"
      "ai_consecutive_health_failures x1 = ?c + int n" "ai_status x1 = (if ?up then Failed else ai_status x)"
    using a by (auto simp: after_failures_def Let_def)
  have i32: "fits_i32 (?c + int n + 1)" using b c by (simp add: fits_i32_def)
  define w2 where "w2 = w1\<lparr>db := update_instance i (\<lambda>x. x\<lparr>ai_consecutive_health_failures :=
     ai_consecutive_health_failures x + 1, ai_updated_at := clock w1\<rparr>) (db w1)\<rparr>"
  have run: "record_health_failure ws i kind msg w1 =
     (if failure_threshold w \<le> ?c + int n + 1 then trigger_incident ws i kind msg w2 else (Inr (), w2))"
    using x1 i32 by (simp add: record_health_failure_def step_simps count_failure_run [OF f x1(1)] t w2_def)
  have h: "alert_hooks i (db w2) = alert_hooks i (db w1)"
    by (simp add: w2_def alert_hooks_update_instance)
  have x2: "firstWhere (\<lambda>x. ai_id x = i) (app_instances (db w2)) =
      Some (x1\<lparr>ai_consecutive_health_failures := ?c + int n + 1, ai_updated_at := clock w1\<rparr>)"
    using x1 firstWhere_Some [OF x1(1)] by (simp add: w2_def firstWhere_updateWhere)
  have same: "faults w2 = []" "env_var w2 = env_var w1" "clock w2 = clock w1" "alerts w2 = alerts w1"
      "app_incident_logs (db w2) = app_incident_logs (db w1)"
    using f by (simp_all add: w2_def)
  show ?thesis
  proof (cases "failure_threshold w \<le> ?c + int n + 1")
    case False
    then show ?thesis using a run x2 x1 same h
      by (auto simp: after_failures_def Let_def algebra_simps)
  next
    case up: True
    show ?thesis
    proof (cases ?up)
      case True
      then have "existsWhere (open_of i) (app_incident_logs (db w2))"
        using a same by (auto simp: after_failures_def intro: selectWhere_Cons)
      from trigger_skips [OF same(1) this] show ?thesis
        using True a run up x2 x1 same h by (auto simp: after_failures_def Let_def algebra_simps)
    next
      case False
      then have none: "selectWhere (open_of i) (app_incident_logs (db w2)) = []"
        using a same by (auto simp: after_failures_def Let_def)
      obtain w' k where w': "trigger_incident ws i kind msg w2 = (Inr (), w')" "faults w' = []" "env_var w' = env_var w2"
          "clock w' = clock w2" "db w' = update_instance i (\<lambda>x. x\<lparr>ai_status := Failed, ai_updated_at := clock w2\<rparr>)
             ((db w2)\<lparr>app_incident_logs := insertRow
               \<lparr>in_id = k, in_workspace_id = ws, in_app_instance_id = i, in_incident_type = kind, in_message = msg,
                in_resolved_at = None, in_created_at = clock w2\<rparr> (app_incident_logs (db w2))\<rparr>)"
          "alerts w' = alerts w2 @ map (alert_for ws i kind msg (clock w2)) (alert_hooks i (db w2))"
        using trigger_raises [OF same(1) none [unfolded selectWhere_Nil] x2, of ws kind msg] by blast
      have "after_failures ws i kind msg w x (Suc n) w'"
        using False a up x1 firstWhere_Some [OF x1(1)] same h none w'(2-)
        by (auto simp: after_failures_def Let_def algebra_simps firstWhere_updateWhere x2 selectWhere_insertRow
          open_of_def alert_hooks_update_instance)
      with w'(1) run up show ?thesis by simp
    qed
  qed
qed

lemma failures_in_a_row:
  assumes a: "after_failures ws i kind msg w x m w1" and b: "ai_consecutive_health_failures x + int (m + n) \<le> 2147483647"
    and c: "0 \<le> ai_consecutive_health_failures x"
  shows "\<exists>w'. forEach (replicate n ()) (\<lambda>_. record_health_failure ws i kind msg) w1 = (Inr (), w')
     \<and> after_failures ws i kind msg w x (m + n) w'"
  using a b
proof (induction n arbitrary: m w1)
  case 0
  then show ?case by (simp add: step_simps)
next
  case (Suc n)
  obtain w2 where 2: "record_health_failure ws i kind msg w1 = (Inr (), w2)" "after_failures ws i kind msg w x (Suc m) w2"
    using one_more_failure [OF Suc.prems(1) _ c] Suc.prems(2) by fastforce
  from Suc.IH [OF 2(2)] Suc.prems(2) show ?case
    by (simp add: step_simps andThen_run [where m = "record_health_failure ws i kind msg", OF 2(1)])
qed

text \<open>
  C24. An outage becomes an incident exactly when the count of consecutive failed probes reaches
  the threshold: before that nothing is logged or sent; from then on exactly one incident is
  open, the instance is marked failed, and every active webhook of the project has been
  alerted exactly once, however many further probes fail.
\<close>

theorem outage_raises_one_incident:
  fixes w :: world and x :: app_instance
  assumes "faults w = []"
    and "firstWhere (\<lambda>x. ai_id x = i) (app_instances (db w)) = Some x"
    and "0 \<le> ai_consecutive_health_failures x" "ai_consecutive_health_failures x + int n \<le> 2147483647"
    and "\<not> existsWhere (open_of i) (app_incident_logs (db w))"
  defines "up \<equiv> 0 < n \<and> failure_threshold w \<le> ai_consecutive_health_failures x + int n"
  shows "\<exists>w' x' k. forEach (replicate n ()) (\<lambda>_. record_health_failure ws i kind msg) w = (Inr (), w')
     \<and> firstWhere (\<lambda>x. ai_id x = i) (app_instances (db w')) = Some x'
     \<and> ai_consecutive_health_failures x' = ai_consecutive_health_failures x + int n
     \<and> ai_status x' = (if up then Failed else ai_status x)
     \<and> selectWhere (open_of i) (app_incident_logs (db w')) =
         (if up then [\<lparr>in_id = k, in_workspace_id = ws, in_app_instance_id = i, in_incident_type = kind,
                       in_message = msg, in_resolved_at = None, in_created_at = clock w\<rparr>] else [])
     \<and> alerts w' = alerts w @ (if up then map (alert_for ws i kind msg (clock w)) (alert_hooks i (db w)) else [])"
proof -
  have "after_failures ws i kind msg w x 0 w"
    using assms by (auto simp: after_failures_def selectWhere_Nil)
  from failures_in_a_row [OF this, of n] assms(3,4) show ?thesis
    unfolding after_failures_def Let_def up_def by fastforce
qed

theorem outage_raises_one_incident_witness:
  "\<exists>w' x'. forEach (replicate 5 ()) (\<lambda>_. record_health_failure 7 15 ''TIMEOUT_OR_DOWN'' ''down'') (health_world [] []) = (Inr (), w')
     \<and> firstWhere (\<lambda>x. ai_id x = 15) (app_instances (db w')) = Some x' \<and> ai_status x' = Failed
     \<and> length (selectWhere (open_of 15) (app_incident_logs (db w'))) = 1"
  using outage_raises_one_incident [of "health_world [] []" 15 "sample_instance 15 4" 5 7 "''TIMEOUT_OR_DOWN''" "''down''"]
  by (fastforce simp: health_world_defs firstWhere_def existsWhere_def failure_threshold_def)


section \<open>What an open incident hides\<close>

text \<open>What the users of the platform see of an instance: its status, the incident log, the alerts and events sent.\<close>

definition visible :: "world \<Rightarrow> app_status list \<times> incident list \<times> alert list \<times> system_event list" where
  "visible w = (map ai_status (app_instances (db w)), app_incident_logs (db w), alerts w, events w)"

lemma count_failure_visible: "count_failure i w = (r, w') \<Longrightarrow> visible w' = visible w"
  by (auto simp: count_failure_def sql_def Let_def visible_def update_instance_def map_updateWhere
      split: if_splits option.splits)

lemma trigger_masked:
  assumes "existsWhere (open_of i) (app_incident_logs (db w))" "trigger_incident ws i kind msg w = (r, w')"
  shows "visible w' = visible w"
  using assms by (auto simp: trigger_incident_def andThen_def fetch_def sql_def Let_def ret_def visible_def
      split: if_splits)

lemma failure_masked:
  assumes o: "existsWhere (open_of i) (app_incident_logs (db w))" and r: "record_health_failure ws i kind msg w = (r, w')"
  shows "visible w' = visible w"
proof -
  obtain r1 w1 where 1: "count_failure i w = (r1, w1)" by fastforce
  have v: "visible w1 = visible w" by (rule count_failure_visible [OF 1])
  then have "existsWhere (open_of i) (app_incident_logs (db w1))" using o by (simp add: visible_def)
  from trigger_masked [OF this] v r show ?thesis
    by (auto simp: record_health_failure_def andThen_def readState_def 1 ret_def split: sum.splits if_splits)
qed

text \<open>
  An open incident of any kind hides an outage: while a memory alert or a chaos incident of
  the instance is open, any number of failed probes, and any failure of the database while
  they are recorded, changes no status, logs nothing, alerts nobody and sends no event.
\<close>

theorem open_incident_hides_outage:
  assumes "existsWhere (open_of i) (app_incident_logs (db w))"
    "forEach probes (\<lambda>(kind, msg). record_health_failure ws i kind msg) w = (r, w')"
  shows "visible w' = visible w"
  using assms
proof (induction probes arbitrary: w)
  case Nil
  then show ?case by (simp add: step_simps)
next
  case (Cons p probes)
  obtain r1 w1 where 1: "record_health_failure ws i (fst p) (snd p) w = (r1, w1)" by fastforce
  have v: "visible w1 = visible w" by (rule failure_masked [OF Cons.prems(1) 1])
  then have "existsWhere (open_of i) (app_incident_logs (db w1))" using Cons.prems(1) by (simp add: visible_def)
  from Cons.IH [OF this] Cons.prems(2) v 1 show ?case
    by (cases p) (auto simp: andThen_def split: sum.splits)
qed

theorem open_incident_hides_outage_witness:
  "visible (snd (forEach (replicate 50 (''TIMEOUT_OR_DOWN'', ''down'')) (\<lambda>(kind, msg). record_health_failure 7 15 kind msg)
      (health_world [incident_sample ''HIGH_MEMORY''] []))) = visible (health_world [incident_sample ''HIGH_MEMORY''] [])"
  by (rule open_incident_hides_outage [of 15 _ "replicate 50 (''TIMEOUT_OR_DOWN'', ''down'')" 7, OF _ prod.collapse [symmetric]])
    (simp add: health_world_defs existsWhere_def open_of_def)


section \<open>A healthy round\<close>

text \<open>The reference: every instance of \<open>S\<close> runs with a clean record, and its incidents are closed.\<close>

definition healed :: "instant \<Rightarrow> app_instance \<Rightarrow> app_instance" where
  "healed t x = x\<lparr>ai_consecutive_health_failures := 0, ai_status := Running,
     ai_updated_at := (if ai_status x = Running then ai_updated_at x else t)\<rparr>"

definition heal :: "uuid set \<Rightarrow> instant \<Rightarrow> database \<Rightarrow> database" where
  "heal S t d = d\<lparr>app_incident_logs := updateWhere (\<lambda>r. in_app_instance_id r \<in> S \<and> in_resolved_at r = None)
       (\<lambda>r. r\<lparr>in_resolved_at := Some t\<rparr>) (app_incident_logs d),
     app_instances := updateWhere (\<lambda>x. ai_id x \<in> S) (healed t) (app_instances d)\<rparr>"

lemma heal_heal: "heal S t (heal T t d) = heal (S \<union> T) t d"
  by (simp add: heal_def updateWhere_def healed_def)

lemma heal_none: "heal {} t d = d"
  by (simp add: heal_def updateWhere_def)

lemma resolve_run:
  assumes f: "faults w = []"
  shows "\<exists>es. resolve_active_incidents i w = (Inr (), w\<lparr>db := heal {i} (clock w) (db w), events := es\<rparr>)"
proof -
  have two: "updateWhere (\<lambda>x. ai_id x = i \<and> ai_status x \<noteq> Running)
       (\<lambda>x. x\<lparr>ai_status := Running, ai_updated_at := clock w\<rparr>)
       (updateWhere (\<lambda>x. ai_id x = i \<and> ai_consecutive_health_failures x \<noteq> 0)
         (\<lambda>x. x\<lparr>ai_consecutive_health_failures := 0\<rparr>) t)
     = updateWhere (\<lambda>x. ai_id x = i) (healed (clock w)) t" for t
    by (induction t) (auto simp: updateWhere_def healed_def)
  define d where "d = (db w)\<lparr>app_incident_logs := updateWhere (\<lambda>r. in_app_instance_id r = i \<and> in_resolved_at r = None)
       (\<lambda>r. r\<lparr>in_resolved_at := Some (clock w)\<rparr>) (app_incident_logs (db w)),
     app_instances := updateWhere (\<lambda>x. ai_id x = i) (healed (clock w)) (app_instances (db w))\<rparr>"
  have "heal {i} (clock w) (db w) = d" by (simp add: d_def heal_def)
  then show ?thesis
    unfolding resolve_active_incidents_def resolve_where_def
    by (cases "instance_with_app i d") (auto simp: step_simps f two simp flip: d_def intro: exI [of _ "events w"])
qed

text \<open>
  One step of a round, when the probe was answered below 500.
\<close>

lemma probe_task_healthy:
  assumes "faults w = []" "s < 500"
  shows "\<exists>es. probe_task (Answered s text) x ws w = (Inr (), w\<lparr>db := heal {ai_id x} (clock w) (db w), events := es\<rparr>)"
  using resolve_run [OF assms(1), of "ai_id x"] assms(2) by (auto simp: probe_task_def discard_def)

lemma healthy_round:
  assumes "\<And>x ws. (x, ws) \<in> set rows \<Longrightarrow> \<exists>s text. probe (probe_url x) = Answered s text \<and> s < 500" "faults w = []"
  shows "\<exists>es. forEach rows (\<lambda>(x, ws). probe_task (probe (probe_url x)) x ws) w =
     (Inr (), w\<lparr>db := heal ((ai_id \<circ> fst) ` set rows) (clock w) (db w), events := es\<rparr>)"
  using assms
proof (induction rows arbitrary: w)
  case Nil
  then show ?case by (auto simp: step_simps heal_none intro: exI [of _ "events w"])
next
  case (Cons row rows)
  obtain x ws where row: "row = (x, ws)" by fastforce
  obtain s phrase where a: "probe (probe_url x) = Answered s phrase" "s < 500"
    using Cons.prems(1) row by (metis list.set_intros(1))
  obtain es where 1: "probe_task (Answered s phrase) x ws w =
      (Inr (), w\<lparr>db := heal {ai_id x} (clock w) (db w), events := es\<rparr>)" (is "_ = (_, ?w1)")
    using probe_task_healthy [OF Cons.prems(2) a(2)] by fast
  have "\<exists>es. forEach rows (\<lambda>(x, ws). probe_task (probe (probe_url x)) x ws) ?w1 =
      (Inr (), ?w1\<lparr>db := heal ((ai_id \<circ> fst) ` set rows) (clock ?w1) (db ?w1), events := es\<rparr>)"
    using Cons.prems by (intro Cons.IH) auto
  then show ?case
    by (simp add: step_simps row a andThen_run [where m = "probe_task (Answered s phrase) x ws", OF 1] heal_heal)
qed

text \<open>Which instances the worker probes.\<close>

definition probed :: "database \<Rightarrow> uuid set" where
  "probed d = {ai_id x |x. x \<in> set (app_instances d) \<and> ai_status x \<in> {Running, Failed, Crashed}
     \<and> (\<exists>a \<in> set (apps d). a_id a = ai_app_id x)}"

lemma instance_rows_members:
  "(x, ws) \<in> set (instance_rows p d) \<longleftrightarrow>
     x \<in> set (app_instances d) \<and> p x \<and> (\<exists>a. firstWhere (\<lambda>a. a_id a = ai_app_id x) (apps d) = Some a \<and> ws = a_workspace_id a)"
  by (force simp: instance_rows_def selectWhere_def split: option.splits)

lemma probed_rows:
  "(ai_id \<circ> fst) ` set (instance_rows (\<lambda>x. ai_status x \<in> {Running, Failed, Crashed}) d) = probed d"
proof -
  have "(\<exists>a \<in> set (apps d). a_id a = k) \<longleftrightarrow> (\<exists>a. firstWhere (\<lambda>a. a_id a = k) (apps d) = Some a)" for k
    by (metis (mono_tags, lifting) firstWhere_None firstWhere_Some option.exhaust option.distinct(1))
  then have m: "(\<exists>ws. (x, ws) \<in> set (instance_rows p d)) \<longleftrightarrow>
      x \<in> set (app_instances d) \<and> p x \<and> (\<exists>a \<in> set (apps d). a_id a = ai_app_id x)" for x p
    by (simp add: instance_rows_members)
  have "(ai_id \<circ> fst) ` set rows = {ai_id x |x. \<exists>ws. (x, ws) \<in> set rows}" for rows :: "(app_instance \<times> uuid) list"
    by force
  then show ?thesis by (simp only: m probed_def)
qed

text \<open>
  A round of the leader in which every probed instance answers below 500 has the effect of
  one bulk update: the probed instances run with a clean record, whatever they were marked
  before, all their incidents are closed, the memory alert included, and nothing else in
  the tables changes; instances that are stopped or building are not looked at.
\<close>

theorem healthy_round_is_bulk_heal:
  assumes "faults w = []"
    and "\<And>x. x \<in> set (app_instances (db w)) \<Longrightarrow> ai_status x \<in> {Running, Failed, Crashed} \<Longrightarrow>
           \<exists>s text. probe (probe_url x) = Answered s text \<and> s < 500"
  shows "\<exists>es. health_tick True probe w = (Inr (), w\<lparr>db := heal (probed (db w)) (clock w) (db w), events := es\<rparr>)"
proof -
  have "\<exists>s text. probe (probe_url x) = Answered s text \<and> s < 500"
    if "(x, ws) \<in> set (instance_rows (\<lambda>x. ai_status x \<in> {Running, Failed, Crashed}) (db w))" for x ws
    using that assms(2) by (auto simp: instance_rows_members)
  then have "\<exists>es. forEach (instance_rows (\<lambda>x. ai_status x \<in> {Running, Failed, Crashed}) (db w))
      (\<lambda>(x, ws). probe_task (probe (probe_url x)) x ws) w =
     (Inr (), w\<lparr>db := heal (probed (db w)) (clock w) (db w), events := es\<rparr>)"
    unfolding probed_rows [symmetric] using assms(1) by (intro healthy_round) blast+
  then show ?thesis
    using assms(1) by (simp add: health_tick_def step_simps)
qed

theorem healthy_round_is_bulk_heal_witness:
  "\<exists>es. health_tick True (\<lambda>_. Answered 404 ''404 Not Found'') (health_world [incident_sample ''HIGH_MEMORY''] []) =
     (Inr (), (health_world [incident_sample ''HIGH_MEMORY''] [])\<lparr>db := heal {15} (seconds 1000)
        (db (health_world [incident_sample ''HIGH_MEMORY''] [])), events := es\<rparr>)"
  using healthy_round_is_bulk_heal [of "health_world [incident_sample ''HIGH_MEMORY''] []" "\<lambda>_. Answered 404 ''404 Not Found''"]
  by (simp add: health_world_defs probed_def)


section \<open>The chaos worker\<close>

text \<open>The reference: the experiments \<open>K\<close> are completed, and the chaos incidents of their instances closed.\<close>

definition completed :: "uuid set \<Rightarrow> string \<Rightarrow> instant \<Rightarrow> database \<Rightarrow> database" where
  "completed K final t d = d\<lparr>
     chaos_experiments := updateWhere (\<lambda>e. cx_id e \<in> K) (\<lambda>e. e\<lparr>cx_status := final, cx_ended_at := Some t\<rparr>) (chaos_experiments d),
     app_incident_logs := updateWhere (\<lambda>r. existsWhere (\<lambda>e. cx_id e \<in> K \<and> cx_app_instance_id e = in_app_instance_id r) (chaos_experiments d)
         \<and> starts_with ''CHAOS_'' (in_incident_type r) \<and> in_resolved_at r = None)
       (\<lambda>r. r\<lparr>in_resolved_at := Some t\<rparr>) (app_incident_logs d)\<rparr>"

lemma updateWhere_twice:
  "(\<And>r. q r \<Longrightarrow> p (f r) \<Longrightarrow> f (f r) = f r) \<Longrightarrow>
     updateWhere p f (updateWhere q f t) = updateWhere (\<lambda>r. p r \<or> q r) f t"
  by (auto simp: updateWhere_def)

lemma completed_none: "completed {} final t d = d"
  by (simp add: completed_def updateWhere_none existsWhere_iff)

lemma completed_completed: "completed K final t (completed L final t d) = completed (K \<union> L) final t d"
  by (simp add: completed_def existsWhere_updateWhere updateWhere_twice)
    (simp add: existsWhere_iff bex_Un conj_disj_distribR bex_disj_distrib)

lemma firstWhere_only:
  "uniqueOn k t \<Longrightarrow> r \<in> set t \<Longrightarrow> q r \<Longrightarrow> firstWhere (\<lambda>s. k s = k r \<and> q s) t = Some r"
  using firstWhere_None [of "\<lambda>s. k s = k r \<and> q s" t]
  by (cases "firstWhere (\<lambda>s. k s = k r \<and> q s) t") (auto dest: firstWhere_Some uniqueOn_eq)

lemma andThen_discard_executing:
  "faults w = [] \<Longrightarrow> andThen (discard (executing g)) f w = f () (w\<lparr>db := snd (g w)\<rparr>)"
  by (simp add: andThen_def discard_def executing_ok)

lemma restore_run:
  "\<exists>cs. restore_replicas e container w = (Inr (), w\<lparr>k8s_calls := k8s_calls w @ cs\<rparr>)
     \<and> ((\<forall>n m. k8s_reply w n \<noteq> Refused m) \<and> cx_kind e = ''scale_down'' \<longrightarrow>
          (\<forall>target. cx_original_replicas e = Some target \<longrightarrow>
             ScaleDeployment (ws_namespace (cx_workspace_id e)) container target \<in> set cs))"
proof (cases "cx_kind e = ''scale_down'' \<and> cx_original_replicas e \<noteq> None")
  case True
  then obtain target where "cx_kind e = ''scale_down''" "cx_original_replicas e = Some target" by auto
  then show ?thesis
    by (cases "k8s_reply w (length (k8s_calls w))") (auto simp: restore_replicas_def step_simps)
next
  case False
  then show ?thesis
    by (auto simp: restore_replicas_def step_simps intro!: exI [of _ "[]"] split: bool.split option.split)
qed

lemma revert_run:
  assumes f: "faults w = []" and u: "uniqueOn cx_id (chaos_experiments (db w))"
    and e: "e \<in> set (chaos_experiments (db w))" "cx_status e = ''running''"
    and x: "firstWhere (\<lambda>x. ai_id x = cx_app_instance_id e) (app_instances (db w)) = Some x"
  shows "\<exists>cs es. revert_experiment (cx_id e) final w =
       (Inr (), w\<lparr>k8s_calls := k8s_calls w @ cs, db := completed {cx_id e} final (clock w) (db w), events := es\<rparr>)
     \<and> ((\<forall>n m. k8s_reply w n \<noteq> Refused m) \<and> cx_kind e = ''scale_down'' \<longrightarrow>
          (\<forall>target. cx_original_replicas e = Some target \<longrightarrow>
             ScaleDeployment (ws_namespace (cx_workspace_id e)) (ai_container_name x) target \<in> set cs))"
proof -
  have "existsWhere (\<lambda>x. ai_id x = cx_app_instance_id e) (app_instances (db w))"
    using firstWhere_Some [OF x] by (auto simp: existsWhere_iff)
  then have "running_experiment (cx_id e) (db w) = Some (e, x)"
    using firstWhere_only [OF u e(1), of "\<lambda>e'. cx_status e' = ''running''
        \<and> existsWhere (\<lambda>x. ai_id x = cx_app_instance_id e') (app_instances (db w))"] e x
    by (simp add: running_experiment_def)
  moreover have "existsWhere (\<lambda>e'. cx_id e' = cx_id e \<and> cx_app_instance_id e' = i) (chaos_experiments (db w))
      = (i = cx_app_instance_id e)" for i
    using e(1) uniqueOn_eq [OF u _ e(1)] by (auto simp: existsWhere_iff)
  ultimately have "\<exists>es. revert_experiment (cx_id e) final w =
      (Inr (), w\<lparr>k8s_calls := k8s_calls w @ cs, db := completed {cx_id e} final (clock w) (db w), events := es\<rparr>)"
    if "restore_replicas e (ai_container_name x) w = (Inr (), w\<lparr>k8s_calls := k8s_calls w @ cs\<rparr>)" for cs
    using f by (auto simp: revert_experiment_def step_simps andThen_run [where m = "restore_replicas e (ai_container_name x)", OF that]
        completed_def close_experiment_def resolve_chaos_incidents_def resolve_where_def andThen_discard_executing nudge_def)
  then show ?thesis using restore_run [of e "ai_container_name x" w] by blast
qed

text \<open>What the call log shows of an experiment whose replicas were asked back.\<close>

definition asked_back :: "database \<Rightarrow> k8s_call list \<Rightarrow> chaos_experiment \<Rightarrow> bool" where
  "asked_back d cs e \<longleftrightarrow> (\<forall>x target. cx_kind e = ''scale_down'' \<longrightarrow> cx_original_replicas e = Some target \<longrightarrow>
     firstWhere (\<lambda>x. ai_id x = cx_app_instance_id e) (app_instances d) = Some x \<longrightarrow>
     ScaleDeployment (ws_namespace (cx_workspace_id e)) (ai_container_name x) target \<in> set cs)"

lemma asked_back_append:
  "asked_back d cs e \<Longrightarrow> asked_back d (cs @ cs') e" "asked_back d cs' e \<Longrightarrow> asked_back d (cs @ cs') e"
  by (auto simp: asked_back_def)

definition has_instance :: "database \<Rightarrow> chaos_experiment \<Rightarrow> bool" where
  "has_instance d e \<longleftrightarrow> existsWhere (\<lambda>x. ai_id x = cx_app_instance_id e) (app_instances d)"

lemma completed_tables [simp]:
  "app_instances (completed K final t d) = app_instances d"
  "chaos_experiments (completed K final t d) =
     updateWhere (\<lambda>e. cx_id e \<in> K) (\<lambda>e. e\<lparr>cx_status := final, cx_ended_at := Some t\<rparr>) (chaos_experiments d)"
  by (simp_all add: completed_def)

lemma revert_all:
  assumes u: "uniqueOn cx_id (chaos_experiments d)" and e: "set es \<subseteq> set (chaos_experiments d)" "distinct (map cx_id es)"
    "\<And>e. e \<in> set es \<Longrightarrow> cx_status e = ''running'' \<and> has_instance d e" "K \<inter> cx_id ` set es = {}"
    and w: "faults w = []" "db w = completed K final (clock w) d"
  shows "\<exists>cs evs. forEach (map cx_id es) (\<lambda>i. revert_experiment i final) w =
       (Inr (), w\<lparr>k8s_calls := k8s_calls w @ cs, db := completed (K \<union> cx_id ` set es) final (clock w) d, events := evs\<rparr>)
     \<and> ((\<forall>n m. k8s_reply w n \<noteq> Refused m) \<longrightarrow> (\<forall>e \<in> set es. asked_back d cs e))"
  using e w
proof (induction es arbitrary: K w)
  case Nil
  show ?case
    by (rule exI [of _ "[]"], rule exI [of _ "events w"]) (simp add: step_simps Nil.prems(6) [symmetric])
next
  case (Cons e es)
  have e: "e \<in> set (chaos_experiments d)" "cx_id e \<notin> K" "cx_status e = ''running''" "has_instance d e"
    using Cons.prems(1,4) Cons.prems(3) [of e] by simp_all
  have i: "e \<in> set (chaos_experiments (db w))" "uniqueOn cx_id (chaos_experiments (db w))"
    using e u by (simp_all add: Cons.prems(6) set_updateWhere uniqueOn_updateWhere image_iff bexI [of _ e])
  obtain x where x: "firstWhere (\<lambda>x. ai_id x = cx_app_instance_id e) (app_instances (db w)) = Some x"
    using e(4) firstWhere_None [of "\<lambda>x. ai_id x = cx_app_instance_id e" "app_instances d"]
    by (cases "firstWhere (\<lambda>x. ai_id x = cx_app_instance_id e) (app_instances d)")
      (simp_all add: Cons.prems(6) has_instance_def existsWhere_iff)
  obtain cs evs where 1: "revert_experiment (cx_id e) final w = (Inr (), w\<lparr>k8s_calls := k8s_calls w @ cs,
        db := completed {cx_id e} final (clock w) (db w), events := evs\<rparr>)" (is "_ = (_, ?w1)")
      "(\<forall>n m. k8s_reply w n \<noteq> Refused m) \<and> cx_kind e = ''scale_down'' \<longrightarrow>
          (\<forall>target. cx_original_replicas e = Some target \<longrightarrow>
             ScaleDeployment (ws_namespace (cx_workspace_id e)) (ai_container_name x) target \<in> set cs)"
    using revert_run [OF Cons.prems(5) i(2,1) e(3) x, of final] by blast
  have asked: "(\<forall>n m. k8s_reply w n \<noteq> Refused m) \<longrightarrow> asked_back d cs e"
    using 1(2) x by (simp add: Cons.prems(6) asked_back_def)
  have d: "db ?w1 = completed (insert (cx_id e) K) final (clock ?w1) d"
    by (simp add: Cons.prems(6) completed_completed)
  have "\<exists>cs evs. forEach (map cx_id es) (\<lambda>i. revert_experiment i final) ?w1 =
       (Inr (), ?w1\<lparr>k8s_calls := k8s_calls ?w1 @ cs, db := completed (insert (cx_id e) K \<union> cx_id ` set es) final (clock ?w1) d, events := evs\<rparr>)
     \<and> ((\<forall>n m. k8s_reply ?w1 n \<noteq> Refused m) \<longrightarrow> (\<forall>e \<in> set es. asked_back d cs e))"
    using Cons.prems d by (intro Cons.IH) auto
  then obtain cs' evs' where 2: "forEach (map cx_id es) (\<lambda>i. revert_experiment i final) ?w1 =
       (Inr (), ?w1\<lparr>k8s_calls := k8s_calls ?w1 @ cs', db := completed (insert (cx_id e) K \<union> cx_id ` set es) final (clock ?w1) d, events := evs'\<rparr>)"
     "(\<forall>n m. k8s_reply ?w1 n \<noteq> Refused m) \<longrightarrow> (\<forall>e \<in> set es. asked_back d cs' e)"
    by blast
  have "forEach (map cx_id (e # es)) (\<lambda>i. revert_experiment i final) w =
     (Inr (), w\<lparr>k8s_calls := k8s_calls w @ cs @ cs', db := completed (K \<union> cx_id ` set (e # es)) final (clock w) d, events := evs'\<rparr>)"
    using 2(1) by (simp add: step_simps andThen_run [where m = "revert_experiment (cx_id e) final", OF 1(1)])
  moreover have "(\<forall>n m. k8s_reply w n \<noteq> Refused m) \<longrightarrow> (\<forall>e \<in> set (e # es). asked_back d (cs @ cs') e)"
    using asked 2(2) by (auto intro: asked_back_append)
  ultimately show ?case by blast
qed

text \<open>
  C25. A tick of the chaos worker ends every experiment whose window has passed, whatever the
  cluster answers: each is completed with the time of the tick and the chaos incidents of
  its instance are closed, and no other row changes. When the cluster accepts the calls,
  every scaled-down deployment is asked back to its original number of replicas. A refused
  call is not repeated: the experiment is completed all the same.
\<close>

theorem chaos_tick_ends_due_experiments:
  assumes "faults w = []" "uniqueOn cx_id (chaos_experiments (db w))"
    "\<And>e. e \<in> set (chaos_experiments (db w)) \<Longrightarrow> has_instance (db w) e"
  defines "due \<equiv> {e \<in> set (chaos_experiments (db w)). experiment_due (clock w) e}"
  shows "\<exists>cs evs. chaos_tick True w = (Inr (), w\<lparr>k8s_calls := k8s_calls w @ cs, db := completed (cx_id ` due) ''completed'' (clock w) (db w), events := evs\<rparr>)
     \<and> ((\<forall>n m. k8s_reply w n \<noteq> Refused m) \<longrightarrow> (\<forall>e \<in> due. asked_back (db w) cs e))"
proof -
  let ?es = "selectWhere (experiment_due (clock w)) (chaos_experiments (db w))"
  have s: "set ?es = due" by (auto simp: selectWhere_def due_def)
  have "distinct (map cx_id ?es)" using assms(2) by (simp add: uniqueOn_def selectWhere_def distinct_map_filter)
  moreover have "cx_status e = ''running'' \<and> has_instance (db w) e" if "e \<in> set ?es" for e
    using that assms(3) by (auto simp: selectWhere_def experiment_due_def)
  moreover have "set ?es \<subseteq> set (chaos_experiments (db w))" by (simp add: selectWhere_def)
  ultimately have "\<exists>cs evs. forEach (map cx_id ?es) (\<lambda>i. revert_experiment i ''completed'') w =
       (Inr (), w\<lparr>k8s_calls := k8s_calls w @ cs, db := completed ({} \<union> cx_id ` set ?es) ''completed'' (clock w) (db w), events := evs\<rparr>)
     \<and> ((\<forall>n m. k8s_reply w n \<noteq> Refused m) \<longrightarrow> (\<forall>e \<in> set ?es. asked_back (db w) cs e))"
    using assms(1,2) by (intro revert_all) (simp_all add: completed_none)
  then show ?thesis using assms(1) by (simp add: chaos_tick_def step_simps s)
qed

theorem chaos_tick_ends_due_experiments_witness:
  "\<exists>cs evs. chaos_tick True (health_world [] [chaos_sample 50 (seconds 960), chaos_sample 51 (seconds 1060)]) =
       (Inr (), (health_world [] [chaos_sample 50 (seconds 960), chaos_sample 51 (seconds 1060)])\<lparr>k8s_calls := cs,
          db := completed {50} ''completed'' (seconds 1000)
            (db (health_world [] [chaos_sample 50 (seconds 960), chaos_sample 51 (seconds 1060)])), events := evs\<rparr>)
     \<and> ScaleDeployment (ws_namespace 7) ''c'' 2 \<in> set cs"
proof -
  let ?w = "health_world [] [chaos_sample 50 (seconds 960), chaos_sample 51 (seconds 1060)]"
  have due: "{e \<in> set (chaos_experiments (db ?w)). experiment_due (clock ?w) e} = {chaos_sample 50 (seconds 960)}"
    by (auto simp: health_world_def base_world_def experiment_due_def chaos_sample_def seconds_def)
  obtain cs evs where t: "chaos_tick True ?w = (Inr (), ?w\<lparr>k8s_calls := k8s_calls ?w @ cs,
      db := completed (cx_id ` {chaos_sample 50 (seconds 960)}) ''completed'' (clock ?w) (db ?w), events := evs\<rparr>)"
    "(\<forall>n m. k8s_reply ?w n \<noteq> Refused m) \<longrightarrow> (\<forall>e \<in> {chaos_sample 50 (seconds 960)}. asked_back (db ?w) cs e)"
    using chaos_tick_ends_due_experiments [of ?w, unfolded due]
    by (force simp: health_world_defs uniqueOn_def has_instance_def existsWhere_def)
  then have "ScaleDeployment (ws_namespace 7) ''c'' 2 \<in> set cs"
    by (simp add: health_world_defs asked_back_def firstWhere_def)
  moreover have "k8s_calls ?w = []" "clock ?w = seconds 1000" by (simp_all add: health_world_def base_world_def)
  ultimately show ?thesis using t(1) by (auto simp: chaos_sample_def)
qed


section \<open>Starting an experiment\<close>

lemma discard_success: "discard m w = (Inr u, w') \<longleftrightarrow> (\<exists>r. m w = (r, w'))"
  by (auto simp: discard_def split: prod.split)

lemma k8s_success: "k8s c w = (Inr y, w') \<longleftrightarrow>
    y = k8s_reply w (length (k8s_calls w)) \<and> w' = w\<lparr>k8s_calls := k8s_calls w @ [c]\<rparr>"
  by (auto simp: k8s_def)

lemma keeps_case_k8s [keeps_intros]:
  "(\<And>m. keeps P (f m)) \<Longrightarrow> keeps P g \<Longrightarrow> (\<And>l. keeps P (h l)) \<Longrightarrow> (\<And>n. keeps P (j n)) \<Longrightarrow>
     (\<And>l n. keeps P (k l n)) \<Longrightarrow> (\<And>p. keeps P (q p)) \<Longrightarrow> (\<And>p. keeps P (r p)) \<Longrightarrow>
     (\<And>p. keeps P (s p)) \<Longrightarrow> (\<And>p. keeps P (t p)) \<Longrightarrow>
     keeps P (case a of Refused m \<Rightarrow> f m | Accepted \<Rightarrow> g | Names l \<Rightarrow> h l | ReadyReplicas n \<Rightarrow> j n
        | JobResult l n \<Rightarrow> k l n | PodState p \<Rightarrow> q p | FailedPods p \<Rightarrow> r p
        | JobCounts p \<Rightarrow> s p | ClusterIp p \<Rightarrow> t p)"
  by (cases a) auto

lemma keeps_case_list [keeps_intros]:
  "keeps P m \<Longrightarrow> (\<And>y ys. keeps P (f y ys)) \<Longrightarrow> keeps P (case xs of [] \<Rightarrow> m | y # ys \<Rightarrow> f y ys)"
  by (cases xs) auto

lemma steady_open_incident [steady_intros]:
  "keeps (steady k (\<lambda>d. I (chaos_experiments d))) (open_incident ws i kind msg)"
  unfolding open_incident_def log_incident_def
  by (intro keeps_intros steady_intros steady_checked) (simp add: steady_def)

lemma steady_apply_fault:
  "keeps (steady k (\<lambda>d. I (chaos_experiments d))) (apply_fault ws i container rmin t req)"
  unfolding apply_fault_def pod_kill_def scale_down_def cpu_stress_def pod_name_for_app_def
  by (intro keeps_intros steady_intros)

lemma clamp_duration_bounds: "MIN_DURATION_SEC \<le> clamp_duration s" "clamp_duration s \<le> MAX_DURATION_SEC"
  by (simp_all add: clamp_duration_def clamp_def MIN_DURATION_SEC_def MAX_DURATION_SEC_def)

lemma apply_fault_values:
  assumes "apply_fault ws i container rmin t req w = (Inr (status, revert, original, msg, params), w')"
  shows "if cq_chaos_kind req = ''pod_kill'' then status = ''completed'' \<and> revert = None \<and> original = None
     else status = ''running'' \<and> revert = Some (t + seconds (clamp_duration (cq_duration_sec req)))
       \<and> (cq_chaos_kind req = ''scale_down'' \<longrightarrow> original = Some rmin)"
  using assms
  by (auto simp: apply_fault_def pod_kill_def scale_down_def cpu_stress_def success_simps Let_def split: if_splits)

lemma start_experiment_row:
  assumes "start_experiment ws app_id i container rmin who req w = (Inr r, w')"
  shows "\<exists>e status revert original msg params w1 w2 t.
     apply_fault ws i container rmin (clock w) req w1 = (Inr (status, revert, original, msg, params), w2)
     \<and> clock w1 = clock w \<and> db w1 = db w \<and> t = clock w2
     \<and> chaos_experiments (db w') = insertRow e (chaos_experiments (db w2)) \<and> r = chaos_response_of e
     \<and> cx_app_instance_id e = i \<and> cx_kind e = cq_chaos_kind req \<and> cx_status e = status \<and> cx_revert_at e = revert
     \<and> cx_started_at e = clock w \<and> cx_original_replicas e = original
     \<and> cx_ended_at e = (if status = ''completed'' then Some t else None)"
proof -
  obtain u wa k wb status revert original msg params w2 where
      1: "get_client w = (Inr u, wa)" and 2: "new_v4 wa = (Inr k :: app_error + uuid, wb)"
      and 3: "apply_fault ws i container rmin (clock wb) req wb = (Inr (status, revert, original, msg, params), w2)"
    using assms by (auto simp: start_experiment_def andThen_success now_success split_paired_all)
  have c: "clock wa = clock w" "db wa = db w"
    using 1 by (auto simp: get_client_def andThen_success k8s_success raise_def ret_def split: k8s_answer.splits)
  then have c': "clock wb = clock w" "db wb = db w" using 2 by (auto simp: new_v4_def)
  define e where "e = \<lparr>cx_id = k, cx_workspace_id = ws, cx_app_id = app_id, cx_app_instance_id = i, cx_kind = cq_chaos_kind req,
    cx_params = params, cx_status = status, cx_original_replicas = original, cx_message = msg, cx_started_at = clock w,
    cx_revert_at = revert, cx_ended_at = (if status = ''completed'' then Some (clock w2) else None), cx_created_by = who\<rparr>"
  note 3 = 3 [unfolded c'(1)]
  have "chaos_experiments (db w') = insertRow e (chaos_experiments (db w2)) \<and> r = chaos_response_of e"
    using assms c'
    by (auto simp: start_experiment_def andThen_run [where m = get_client, OF 1] andThen_run [where m = new_v4, OF 2]
        andThen_now andThen_run [where m = "apply_fault ws i container rmin (clock w) req", OF 3] e_def)
      (auto simp: Let_def andThen_success mapErr_def checked_success nudge_def broadcast_event_def modifyState_def
        ret_success chaos_response_of_def split: sum.splits prod.splits)
  with 3 c' show ?thesis
    by (intro exI [of _ e] exI [of _ status] exI [of _ revert] exI [of _ original] exI [of _ msg] exI [of _ params]
        exI [of _ wb] exI [of _ w2]) (simp add: e_def)
qed

text \<open>
  An experiment that is started is recorded, whatever fails meanwhile: a pod kill is over
  at once and has nothing to revert; every other fault is running and is reverted no sooner
  than 5 and no later than 300 seconds after its start, and a scale-down remembers the
  number of replicas to restore.
\<close>

theorem chaos_window_is_bounded:
  assumes "start_experiment ws app_id i container rmin who req w = (Inr r, w')"
  shows "\<exists>e. chaos_experiments (db w') = insertRow e (chaos_experiments (db w)) \<and> r = chaos_response_of e
     \<and> cx_app_instance_id e = i \<and> cx_kind e = cq_chaos_kind req \<and> cx_started_at e = clock w
     \<and> (if cq_chaos_kind req = ''pod_kill''
        then cx_status e = ''completed'' \<and> cx_revert_at e = None \<and> cx_ended_at e = Some (clock w)
        else cx_status e = ''running'' \<and> cx_ended_at e = None
          \<and> (\<exists>t. cx_revert_at e = Some t \<and> clock w + seconds 5 \<le> t \<and> t \<le> clock w + seconds 300)
          \<and> (cq_chaos_kind req = ''scale_down'' \<longrightarrow> cx_original_replicas e = Some rmin))"
proof -
  obtain e status revert original msg params w1 w2 where s:
      "apply_fault ws i container rmin (clock w) req w1 = (Inr (status, revert, original, msg, params), w2)"
      "clock w1 = clock w" "db w1 = db w"
      "chaos_experiments (db w') = insertRow e (chaos_experiments (db w2))" "r = chaos_response_of e"
      "cx_app_instance_id e = i" "cx_kind e = cq_chaos_kind req" "cx_status e = status" "cx_revert_at e = revert"
      "cx_started_at e = clock w" "cx_original_replicas e = original"
      "cx_ended_at e = (if status = ''completed'' then Some (clock w2) else None)"
    using start_experiment_row [OF assms] by blast
  have "steady (ambient w1) (\<lambda>d. chaos_experiments d = chaos_experiments (db w)) w2"
    using s(3)
    by (intro keeps_step [OF steady_apply_fault [where I = "\<lambda>c. c = chaos_experiments (db w)"] _ s(1)]) (simp add: steady_def)
  then have "chaos_experiments (db w2) = chaos_experiments (db w)" "clock w2 = clock w"
    using s(2) by (auto simp: steady_def ambient_def)
  then show ?thesis
    using s apply_fault_values [OF s(1)] clamp_duration_bounds [of "cq_duration_sec req"]
    by (intro exI [of _ e]) (auto simp: seconds_def MIN_DURATION_SEC_def MAX_DURATION_SEC_def)
qed

theorem chaos_window_is_bounded_witness:
  "\<exists>r w'. start_experiment 7 4 15 ''c'' 2 1 scale_request (health_world [] []) = (Inr r, w')
     \<and> cr_revert_at r \<noteq> None \<and> the (cr_revert_at r) \<le> seconds 1300"
proof -
  have "\<exists>r w'. start_experiment 7 4 15 ''c'' 2 1 scale_request (health_world [] []) = (Inr r, w')"
    by (simp add: start_experiment_def get_client_def apply_fault_def scale_down_def open_incident_def log_incident_def nudge_def
        scale_request_def run_simps sql_ok Let_def health_world_defs existsWhere_def fits_i32_def)
  then obtain r w' where r: "start_experiment 7 4 15 ''c'' 2 1 scale_request (health_world [] []) = (Inr r, w')" by blast
  show ?thesis
    using chaos_window_is_bounded [OF r] r
    by (auto simp: scale_request_def chaos_response_of_def health_world_def base_world_def seconds_def)
qed


text \<open>
  The deployment is scaled before the experiment is recorded: when the insertion fails, the
  caller gets an error, the deployment stays scaled down, and there is no experiment that
  the worker would revert; the chaos incident opened meanwhile stays open.
\<close>

theorem unrecorded_scale_down:
  assumes "cq_chaos_kind req = ''scale_down''" "faults w = b # True # fs"
    "existsWhere (\<lambda>x. ai_id x = i) (app_instances (db w))"
    "\<And>n m. k8s_reply w n \<noteq> Refused m"
  defines "target \<equiv> max (or_else (cq_target_replicas req) 0) 0"
  shows "\<exists>w' log. start_experiment ws app_id i container rmin who req w = (Inl (Fatal (FromSqlx (OtherSqlx ''io''))), w')
     \<and> k8s_calls w' = k8s_calls w @ [GetClient, ScaleDeployment (ws_namespace ws) container target]
     \<and> chaos_experiments (db w') = chaos_experiments (db w)
     \<and> app_incident_logs (db w') = app_incident_logs (db w) @ log
     \<and> (if b then log = [] else length log = 1 \<and> open_of i (hd log) \<and> in_incident_type (hd log) = ''CHAOS_SCALE_DOWN'')"
proof -
  have up: "to_uppercase ''scale_down'' = ''SCALE_DOWN''" by code_simp
  have k: "k8s_do c v = (Inr (), v\<lparr>k8s_calls := k8s_calls v @ [c]\<rparr>)" if "k8s_reply v = k8s_reply w" for c v
    using assms(4) that by (simp add: k8s_do_def andThen_k8s ret_def split: k8s_answer.split)
  have g: "get_client v = (Inr (), v\<lparr>k8s_calls := k8s_calls v @ [GetClient]\<rparr>)" if "k8s_reply v = k8s_reply w" for v
    using assms(4) that by (simp add: get_client_def andThen_k8s ret_def split: k8s_answer.split)
  show ?thesis
    using assms(1-3)
    by (cases b) (simp_all add: start_experiment_def andThen_def [of get_client] g step_simps apply_fault_def scale_down_def k
        andThen_def andThen_new_v4 open_incident_def log_incident_def checked_def sql_def discard_def mapErr_def Let_def
        target_def up next_fails_def new_v4_def now_def readState_def ret_def insertRow_def open_of_def)
qed

theorem unrecorded_scale_down_witness:
  "\<exists>w'. start_experiment 7 4 15 ''c'' 2 1 scale_request ((health_world [] [])\<lparr>faults := [False, True]\<rparr>) =
       (Inl (Fatal (FromSqlx (OtherSqlx ''io''))), w')
     \<and> k8s_calls w' = [GetClient, ScaleDeployment (ws_namespace 7) ''c'' 0] \<and> chaos_experiments (db w') = []"
proof -
  let ?w = "(health_world [] [])\<lparr>faults := [False, True]\<rparr>"
  have w: "k8s_calls ?w = []" "chaos_experiments (db ?w) = []" "faults ?w = False # True # []"
      "existsWhere (\<lambda>x. ai_id x = 15) (app_instances (db ?w))" "k8s_reply ?w n \<noteq> Refused m" for n m
    by (simp_all add: health_world_defs existsWhere_def)
  have r: "cq_chaos_kind scale_request = ''scale_down''" "max (or_else (cq_target_replicas scale_request) 0) 0 = 0"
    by (simp_all add: scale_request_def or_else_def)
  from unrecorded_scale_down [OF r(1) w(3,4) w(5), of 7 4 "''c''" 2 1] show ?thesis
    unfolding w(1,2) r(2) append_Nil by blast
qed

end
