(* ===== verification/Build_Failures.thy ===== *)
theory Build_Failures
  imports Incidents
begin

text \<open>
  \<open>classify_build_failure\<close> of \<open>utils/builder.rs\<close>: from the logs of the two containers of a builder
  pod, their exit codes and the reasons the cluster gives, the category and the explanation of
  a failed build. The function panics where it cuts a text inside a character; that outcome
  is \<open>None\<close>.
\<close>

definition em_dash :: string where
  "em_dash = [CHR 0xE2, CHR 0x80, CHR 0x94]"

definition en_dash :: string where
  "en_dash = [CHR 0xE2, CHR 0x80, CHR 0x93]"

definition quote_s :: string where
  "quote_s = [CHR 0x27, CHR ''s'']"

text \<open>The text contains one of the patterns.\<close>

definition says :: "string list \<Rightarrow> string \<Rightarrow> bool" where
  "says ps s \<longleftrightarrow> list_ex (\<lambda>p. contains p s) ps"

definition killed_inside :: "string \<Rightarrow> bool" where
  "killed_inside kaniko_lower =
     says [''signal: killed'', ''exit status 137'', ''exit code 137'', ''oomkilled''] kaniko_lower"

definition compiling :: "string \<Rightarrow> bool" where
  "compiling kaniko_lower =
     says [''npm run build'', ''ng build'', ''cargo build'', ''go build'', ''webpack'', ''vite build''] kaniko_lower"

definition pushed :: "string \<Rightarrow> bool" where
  "pushed kaniko_lower = contains ''hermes-app-image'' kaniko_lower"

section \<open>The stages\<close>

definition memory_failure ::
  "string \<Rightarrow> int option \<Rightarrow> string option \<Rightarrow> string option \<Rightarrow> string option \<Rightarrow> (string \<times> string) option" where
  "memory_failure kaniko_lower kaniko_exit_code pod_reason pod_message kaniko_reason =
     (if kaniko_reason = Some ''OOMKilled'' \<or> kaniko_exit_code = Some 137 then
        Some (''BUILD_OOM'', ''The build ran out of memory (OOMKilled). Increase the workspace'' @ quote_s
          @ '' memory limit or reduce the build command'' @ quote_s @ '' footprint.'')
      else if pod_reason = Some ''Evicted''
            \<or> (case pod_message of Some m \<Rightarrow> contains ''evict'' (to_lowercase m) | None \<Rightarrow> False) then
        Some (''BUILD_EVICTED'', ''The build pod was evicted by Kubernetes. Detail: ''
          @ (case pod_message of Some m \<Rightarrow> m
             | None \<Rightarrow> ''Evicted by Kubernetes due to insufficient resources on the node.''))
      else if killed_inside kaniko_lower then
        Some (''BUILD_OOM'', ''The build process was killed (KILL signal / code 137) '' @ em_dash
          @ '' almost certainly out of memory during compilation. Increase the workspace'' @ quote_s
          @ '' memory limit (Angular/webpack builds usually need 1.5'' @ en_dash @ ''2 GB).'')
      else None)"

text \<open>No exit code and no reason: the pod vanished, unless the clone already failed.\<close>

definition vanished_failure ::
  "string \<Rightarrow> int option \<Rightarrow> int option \<Rightarrow> string option \<Rightarrow> (string \<times> string) option" where
  "vanished_failure kaniko_lower cloner_exit_code kaniko_exit_code kaniko_reason =
     (if kaniko_exit_code = None \<and> kaniko_reason = None
         \<and> (case cloner_exit_code of Some c \<Rightarrow> c | None \<Rightarrow> 0) = 0 \<and> \<not> pushed kaniko_lower then
        (if compiling kaniko_lower then
           Some (''BUILD_OOM'', ''The build stopped abruptly during compilation (possible memory overflow / node-level OOM). ''
             @ ''Angular/webpack/bundlers usually need 1-2 GB RAM. ''
             @ ''Check that the K8s node has enough free memory or increase the workspace limit.'')
         else
           Some (''BUILD_KILLED'', ''The build pod vanished without finishing (likely eviction due to resource pressure). ''
             @ ''Check the available memory on the K8s node and try again.''))
      else None)"

definition clone_failed :: "int option \<Rightarrow> bool" where
  "clone_failed cloner_exit_code \<longleftrightarrow> (case cloner_exit_code of Some c \<Rightarrow> c \<noteq> 0 | None \<Rightarrow> False)"

definition clone_failure :: "string \<Rightarrow> string \<Rightarrow> int option \<Rightarrow> (string \<times> string) option" where
  "clone_failure cloner_lower kaniko_logs cloner_exit_code =
     (if \<not> (clone_failed cloner_exit_code \<or> trim kaniko_logs = []) then None
      else if says [''authentication failed'', ''could not read username'', ''permission denied (publickey'',
          ''invalid username or password''] cloner_lower then
        Some (''GIT_AUTH'', ''Authentication to the repository failed. Reconnect the GitHub token or check the project''
          @ quote_s @ '' SSH key.'')
      else if says [''remote branch'', ''couldn'' @ [CHR 0x27] @ ''t find remote ref'', ''not found in upstream''] cloner_lower then
        Some (''BRANCH_MISSING'', ''The configured branch does not exist in the repository. Check the branch name in the application settings.'')
      else if says [''repository not found'', ''does not exist''] cloner_lower then
        Some (''REPO_NOT_FOUND'', ''The repository was not found. Check the Git URL and the account'' @ quote_s @ '' permissions.'')
      else if says [''could not resolve host'', ''connection timed out''] cloner_lower then
        Some (''NETWORK'', ''Network error while cloning the code. Retry the build '' @ em_dash @ '' it'' @ quote_s @ '' usually a temporary problem.'')
      else if clone_failed cloner_exit_code then
        Some (''CLONE_FAILED'', ''Downloading the code failed. See the clone stage logs for details.'')
      else None)"

text \<open>\<open>String::truncate\<close> panics when the position is inside a character.\<close>

definition truncate_at :: "nat \<Rightarrow> string \<Rightarrow> string option" where
  "truncate_at n s =
     (if length s \<le> n then Some s else if continuation_byte (s ! n) then None else Some (take n s))"

text \<open>The last \<open>n\<close> lines that satisfy \<open>p\<close>, in their order.\<close>

definition last_lines :: "(string \<Rightarrow> bool) \<Rightarrow> nat \<Rightarrow> string \<Rightarrow> string list" where
  "last_lines p n s = rev (take n (rev (filter p (lines_of s))))"

definition error_detail :: "string \<Rightarrow> string option" where
  "error_detail kaniko_logs =
     truncate_at 300 (join '' | ''
       (last_lines (\<lambda>l. says [''error'', ''err!'', ''failed''] (to_lowercase l)) 3 kaniko_logs))"

definition command_failed :: "string \<Rightarrow> bool" where
  "command_failed kaniko_lower =
     says [''npm err!'', ''error[e'', ''syntaxerror'', ''compilation failed'', ''returned a non-zero code'', ''exit code'',
       ''exit status'', ''error building image'', ''build failed'', ''fatal''] kaniko_lower"

definition log_tail :: "string \<Rightarrow> string" where
  "log_tail kaniko_logs = join [CHR 0x0A] (last_lines (\<lambda>l. trim l \<noteq> []) 12 kaniko_logs)"

definition unknown_reason :: "string \<Rightarrow> int option \<Rightarrow> string option \<Rightarrow> string option \<Rightarrow> string" where
  "unknown_reason kaniko_logs kaniko_exit_code kaniko_reason pod_reason =
     ''The build failed without a classifiable error. ''
     @ (case kaniko_exit_code of Some c \<Rightarrow> ''build exit code: '' @ show_int c @ ''; '' | None \<Rightarrow> [])
     @ (case kaniko_reason of Some r \<Rightarrow> ''termination reason: '' @ r @ ''; '' | None \<Rightarrow> [])
     @ (case pod_reason of Some r \<Rightarrow> ''pod reason: '' @ r @ ''; '' | None \<Rightarrow> [])
     @ ''Last lines from the log:'' @ [CHR 0x0A] @ log_tail kaniko_logs"

definition image_failure ::
  "string \<Rightarrow> string \<Rightarrow> int option \<Rightarrow> string option \<Rightarrow> string option \<Rightarrow> (string \<times> string) option" where
  "image_failure kaniko_logs kaniko_lower kaniko_exit_code kaniko_reason pod_reason =
     (if contains ''error resolving dockerfile path'' kaniko_lower
         \<or> contains ''no such file or directory'' kaniko_lower \<and> contains ''dockerfile'' kaniko_lower then
        Some (''NO_DOCKERFILE'', ''No Dockerfile was found in the repository. Add a Dockerfile at the root (or in the configured subpath).'')
      else if contains ''unauthorized'' kaniko_lower \<or> contains ''401'' kaniko_lower \<and> contains ''push'' kaniko_lower then
        Some (''REGISTRY_AUTH'', ''Pushing the image to the registry was rejected (authentication). Platform issue '' @ em_dash
          @ '' check the registry credentials.'')
      else if says [''connection refused'', ''no such host''] kaniko_lower then
        Some (''REGISTRY'', ''The image registry could not be reached. Retry the build; if it persists, check the registry service.'')
      else if command_failed kaniko_lower then
        map_option (\<lambda>detail. (''BUILD_COMMAND'', ''The build command failed inside the image.''
          @ (if detail = [] then [] else '' Detail: '' @ detail))) (error_detail kaniko_logs)
      else if compiling kaniko_lower \<and> \<not> pushed kaniko_lower then
        Some (''BUILD_OOM'', ''The build stopped during compilation without producing an error '' @ em_dash
          @ '' a typical sign of running out of memory (the process was killed). Increase the workspace'' @ quote_s
          @ '' memory limit (Angular/webpack usually need 1.5'' @ en_dash @ ''2 GB).'')
      else Some (''UNKNOWN'', unknown_reason kaniko_logs kaniko_exit_code kaniko_reason pod_reason))"

definition classify_build_failure ::
  "string \<Rightarrow> string \<Rightarrow> int option \<Rightarrow> int option \<Rightarrow> string option \<Rightarrow> string option \<Rightarrow> string option
     \<Rightarrow> (string \<times> string) option" where
  "classify_build_failure cloner_logs kaniko_logs cloner_exit_code kaniko_exit_code pod_reason pod_message kaniko_reason =
     (let cloner_lower = to_lowercase cloner_logs; kaniko_lower = to_lowercase kaniko_logs in
      case memory_failure kaniko_lower kaniko_exit_code pod_reason pod_message kaniko_reason of Some v \<Rightarrow> Some v
      | None \<Rightarrow> (case vanished_failure kaniko_lower cloner_exit_code kaniko_exit_code kaniko_reason of Some v \<Rightarrow> Some v
      | None \<Rightarrow> (case clone_failure cloner_lower kaniko_logs cloner_exit_code of Some v \<Rightarrow> Some v
      | None \<Rightarrow> image_failure kaniko_logs kaniko_lower kaniko_exit_code kaniko_reason pod_reason)))"

end
