(* ===== verification/Deploys.thy ===== *)
theory Deploys
  imports Incidents
begin

text \<open>
  The second half of \<open>utils/builder.rs\<close>: the rows of builds, the deployment of a built image
  (\<open>deploy_compiled_app\<close>), the two minutes in which its pods are watched, and the workers that settle
  interrupted deployments and restore lost ones. Log lines of a build, metrics and the screenshot of a healthy
  instance are left out.
\<close>

section \<open>Rows of builds\<close>

definition update_build :: "uuid \<Rightarrow> (app_build \<Rightarrow> app_build) \<Rightarrow> database \<Rightarrow> database" where
  "update_build b f d = d\<lparr>app_builds := updateWhere (\<lambda>r. ab_id r = b) f (app_builds d)\<rparr>"

text \<open>\<open>WHERE app_instance_id = $1 ORDER BY created_at DESC LIMIT 1\<close>.\<close>

definition latest_build :: "uuid \<Rightarrow> database \<Rightarrow> app_build option" where
  "latest_build i d =
     (case sort_key (\<lambda>b. - ab_created_at b) (selectWhere (\<lambda>b. ab_app_instance_id b = i) (app_builds d)) of
        [] \<Rightarrow> None | b # _ \<Rightarrow> Some b)"

definition update_latest :: "uuid \<Rightarrow> (app_build \<Rightarrow> bool) \<Rightarrow> (app_build \<Rightarrow> app_build) \<Rightarrow> database \<Rightarrow> database" where
  "update_latest i p f d =
     (case latest_build i d of None \<Rightarrow> d
      | Some b \<Rightarrow> d\<lparr>app_builds := updateWhere (\<lambda>r. ab_id r = ab_id b \<and> p r) f (app_builds d)\<rparr>)"

definition build_phase_db :: "uuid \<Rightarrow> string option handler" where
  "build_phase_db b = orElse (fetch (\<lambda>w. map_option ab_phase (firstWhere (\<lambda>r. ab_id r = b) (app_builds (db w))))) None"

definition set_build_phase :: "uuid \<Rightarrow> uuid \<Rightarrow> uuid \<Rightarrow> string \<Rightarrow> unit handler" where
  "set_build_phase b ws a phase =
     andThen (discard (execute (\<lambda>w. update_build b (\<lambda>r. r\<lparr>ab_phase := phase\<rparr>) (db w)))) (\<lambda>_.
     broadcast_event (BuildStatusChanged ws b a ''building'' phase))"

definition terminal_phase :: "app_status \<Rightarrow> string option" where
  "terminal_phase st = (case st of Running \<Rightarrow> Some ''running'' | Failed \<Rightarrow> Some ''failed'' | _ \<Rightarrow> None)"

definition update_status :: "uuid \<Rightarrow> app_status \<Rightarrow> unit stmt" where
  "update_status i st =
     andThen (execute (\<lambda>w. update_instance i (\<lambda>x. x\<lparr>ai_status := st, ai_updated_at := clock w\<rparr>) (db w))) (\<lambda>_.
     andThen (case terminal_phase st of None \<Rightarrow> ret ()
       | Some phase \<Rightarrow> discard (execute (\<lambda>w. update_latest i
           (\<lambda>b. ab_phase b \<notin> {''cancelled'', ''superseded'', ''timed_out''}) (\<lambda>b. b\<lparr>ab_phase := phase\<rparr>) (db w)))) (\<lambda>_.
     andThen (orElse (fetch (\<lambda>w. instance_with_app i (db w))) None) (\<lambda>meta.
     case meta of None \<Rightarrow> ret ()
     | Some (x, a) \<Rightarrow> broadcast_event (InstanceStatusChanged (a_workspace_id a) i (ai_container_name x) (status_text st)))))"

definition set_status :: "uuid \<Rightarrow> app_status \<Rightarrow> unit handler" where
  "set_status i st = discard (update_status i st)"

definition fail_instance :: "uuid \<Rightarrow> unit handler" where
  "fail_instance i = set_status i Failed"

definition registry_url :: "world \<Rightarrow> string" where
  "registry_url w = (case env_var w ''HERMES_REGISTRY_URL'' of None \<Rightarrow> ''localhost:5000'' | Some u \<Rightarrow> u)"


text \<open>Nodes pull from their own registry.\<close>

definition image_for_nodes :: "(string \<Rightarrow> string option) \<Rightarrow> string \<Rightarrow> string" where
  "image_for_nodes env img =
     (case env ''HERMES_REGISTRY_URL'' of None \<Rightarrow> img
      | Some url \<Rightarrow>
          (if starts_with url img \<and> (contains ''192.168.'' url \<or> contains ''127.0.0.1'' url \<or> contains ''localhost'' url)
           then replace_all url ''localhost:5000'' img else img))"

definition resolve_instance_image_tag :: "uuid \<Rightarrow> string handler" where
  "resolve_instance_image_tag i =
     andThen (orElse (fetch (\<lambda>w. Option.bind (firstWhere (\<lambda>x. ai_id x = i) (app_instances (db w))) ai_current_image_tag)) None) (\<lambda>stored.
     case stored of Some tag \<Rightarrow> ret tag
     | None \<Rightarrow> readState (\<lambda>w. registry_url w @ ''/hermes-app-image:'' @ uuid_str i))"

section \<open>Watching a fresh deployment\<close>

text \<open>A pod of the listing: per container the reason it waits and its restarts.\<close>

record pod_status =
  ps_name :: string
  ps_ready :: bool
  ps_containers :: "(string option \<times> int) list"

text \<open>One turn: the listing, when it succeeded, and the seconds since the start after it.\<close>

record health_turn =
  ht_pods :: "pod_status list option"
  ht_logs :: string
  ht_elapsed :: int

definition HEALTH_WINDOW :: int where
  "HEALTH_WINDOW = 120"

definition crash_reasons :: "string list" where
  "crash_reasons = [''CrashLoopBackOff'', ''ImagePullBackOff'', ''ErrImagePull'', ''CreateContainerError'',
     ''CreateContainerConfigError'', ''RunContainerError'', ''InvalidImageName'']"

definition container_crash :: "string \<Rightarrow> string option \<times> int \<Rightarrow> (string \<times> string) option \<Rightarrow> (string \<times> string) option" where
  "container_crash pod c crash =
     (if snd c \<ge> 3 then Some (''CrashLoopBackOff'', pod)
      else case fst c of Some reason \<Rightarrow> (if reason \<in> set crash_reasons then Some (reason, pod) else crash) | None \<Rightarrow> crash)"

text \<open>The last crash of the listing, with its pod.\<close>

definition crash_of :: "pod_status list \<Rightarrow> (string \<times> string) option" where
  "crash_of pods = fold (\<lambda>p. fold (container_crash (ps_name p)) (ps_containers p)) pods None"

definition healthy_of :: "pod_status list \<Rightarrow> bool" where
  "healthy_of pods = list_ex ps_ready pods"

definition short_reason :: "string \<Rightarrow> string" where
  "short_reason reason =
     (if reason \<in> {''ImagePullBackOff'', ''ErrImagePull'', ''InvalidImageName''} then ''The image could not be pulled/resolved''
      else if reason \<in> {''CreateContainerError'', ''CreateContainerConfigError'', ''RunContainerError''}
      then ''The container could not start (invalid configuration)''
      else ''The application crashed at startup (restart loop)'')"

definition record_crash :: "uuid \<Rightarrow> uuid \<Rightarrow> uuid \<Rightarrow> string \<Rightarrow> string \<Rightarrow> unit handler" where
  "record_crash i ws project reason logs =
     andThen (set_status i Crashed) (\<lambda>_.
     andThen (discard (execute (\<lambda>w. update_latest i (\<lambda>_. True) (\<lambda>b. b\<lparr>ab_phase := ''crashed'',
        ab_failure_category := Some ''CRASH'',
        ab_failure_reason := Some (''Build succeeded, but the application crashed at startup: '' @ short_reason reason
          @ '' ('' @ reason @ ''). Check the environment variables and the start command.'')\<rparr>) (db w)))) (\<lambda>_.
     andThen new_v4 (\<lambda>n.
     andThen (discard (log_incident n ws i (''crash:'' @ reason)
        (short_reason reason @ '' ('' @ reason @ '').'' @ [CHR 0x0A, CHR 0x0A] @ ''Ultimele linii din container:''
           @ [CHR 0x0A] @ logs))) (\<lambda>_.
     broadcast_event (IncidentCreated ws n project (short_reason reason))))))"

text \<open>How the watch ends; \<open>None\<close> when the turns given are used up and it still waits.\<close>

datatype deploy_end = DeployedRunning | DeployedCrashed string | DeployFailed | StillWaiting

primrec monitor_deploy_health :: "health_turn list \<Rightarrow> uuid \<Rightarrow> uuid \<Rightarrow> uuid \<Rightarrow> deploy_end handler" where
  "monitor_deploy_health [] i ws project = ret StillWaiting"
| "monitor_deploy_health (t # ts) i ws project =
     (let pods = (case ht_pods t of None \<Rightarrow> [] | Some ps \<Rightarrow> ps) in
      if healthy_of pods then andThen (set_status i Running) (\<lambda>_. ret DeployedRunning)
      else
        (case crash_of pods of
           Some (reason, _) \<Rightarrow>
             andThen (record_crash i ws project reason (ht_logs t)) (\<lambda>_. ret (DeployedCrashed (short_reason reason)))
         | None \<Rightarrow>
             if HEALTH_WINDOW \<le> ht_elapsed t then andThen (set_status i Running) (\<lambda>_. ret DeployedRunning)
             else monitor_deploy_health ts i ws project))"

section \<open>Deploying an image\<close>

text \<open>One \<open>LoadBalancer\<close> for each extra port, numbered by its place in the list.\<close>

fun expose_ports :: "string \<Rightarrow> string \<Rightarrow> nat \<Rightarrow> (int \<times> int \<times> string) list \<Rightarrow> unit handler" where
  "expose_ports ns name n [] = ret ()"
| "expose_ports ns name n ((internal, external, proto) # ps) =
     andThen (k8s (DeployLoadBalancer ns (name @ ''-port-'' @ show_nat n) name (i32 internal) (i32 external) proto)) (\<lambda>_.
     expose_ports ns name (Suc n) ps)"

definition volume_binds :: "uuid \<Rightarrow> (string \<times> string) list handler" where
  "volume_binds a = orElse (fetch (\<lambda>w. map (\<lambda>v. (vo_host_path v, vo_container_path v))
     (selectWhere (\<lambda>v. vo_app_id v = a) (app_volumes (db w))))) []"

definition column_of :: "uuid \<Rightarrow> (app_instance \<Rightarrow> 'a) \<Rightarrow> 'a stmt" where
  "column_of i f = fetchOne (\<lambda>w. map_option f (firstWhere (\<lambda>x. ai_id x = i) (app_instances (db w))))"

definition limit_of :: "int option \<Rightarrow> int" where
  "limit_of x = (case x of None \<Rightarrow> 0 | Some n \<Rightarrow> n)"

definition scale_or :: "int option \<Rightarrow> int \<Rightarrow> int" where
  "scale_or x d = (case x of None \<Rightarrow> d | Some n \<Rightarrow> i32 n)"

definition fail_deploy :: "uuid \<Rightarrow> deploy_end handler" where
  "fail_deploy i =
     andThen (discard (execute (\<lambda>w. update_latest i (\<lambda>_. True) (\<lambda>b. b\<lparr>ab_phase := ''failed'',
        ab_failure_reason := Some ''Deploying the Kubernetes resources failed (see stage 4 in the logs). The image was built correctly.'',
        ab_failure_category := Some ''DEPLOY''\<rparr>) (db w)))) (\<lambda>_.
     andThen (set_status i Failed) (\<lambda>_. ret DeployFailed))"

definition deploy_knative ::
  "uuid \<Rightarrow> string \<Rightarrow> app_instance \<Rightarrow> string \<Rightarrow> (string \<times> string) list \<Rightarrow> deploy_end handler" where
  "deploy_knative i ns x img envs =
     (let name = ai_container_name x; (mn, mx, target) = ai_knative_scaling x in
      andThen (k8s (DeleteApp ns name)) (\<lambda>_.
      andThen (k8s (DeployKnativeService ns name img envs (scale_or mn 0) (scale_or mx 5) (scale_or target 10)
        (i32 (limit_of (ai_memory_limit_mb x))))) (\<lambda>a.
      case a of Refused _ \<Rightarrow> fail_deploy i
      | _ \<Rightarrow>
          andThen (case ai_assigned_domain x of None \<Rightarrow> ret ()
            | Some domain \<Rightarrow> andThen (k8s (DeployIngress ns name domain name 80)) (\<lambda>_. ret ())) (\<lambda>_.
          andThen (set_status i Running) (\<lambda>_. ret DeployedRunning)))))"

definition expose_instance :: "string \<Rightarrow> app_instance \<Rightarrow> app \<Rightarrow> unit handler" where
  "expose_instance ns x a =
     (let name = ai_container_name x in
      andThen (expose_ports ns name 0 (a_tcp_udp_ports a)) (\<lambda>_.
      andThen (case ai_external_port x of None \<Rightarrow> ret ()
        | Some p \<Rightarrow> andThen (k8s (DeployLoadBalancer ns (name @ ''-external'') name (ai_internal_port x) p ''TCP'')) (\<lambda>_. ret ())) (\<lambda>_.
      case ai_assigned_domain x of None \<Rightarrow> ret ()
      | Some domain \<Rightarrow> andThen (k8s (DeployIngress ns name domain name (ai_internal_port x))) (\<lambda>_. ret ()))))"

definition deploy_standard ::
  "health_turn list \<Rightarrow> uuid \<Rightarrow> string \<Rightarrow> app_instance \<Rightarrow> app \<Rightarrow> string \<Rightarrow> (string \<times> string) list \<Rightarrow> (string \<times> string) list
     \<Rightarrow> deploy_end handler" where
  "deploy_standard health i ns x a img envs binds =
     (let name = ai_container_name x in
      andThen (k8s (DeleteKnativeService ns name)) (\<lambda>_.
      andThen (orElse (column_of i ai_autoscale_cpu_percent) 80) (\<lambda>cpu_target.
      andThen (orElse (column_of i ai_network_alias) None) (\<lambda>alias.
      andThen (k8s (DeployApp ns name img (ai_internal_port x) envs binds (limit_of (ai_cpu_limit x))
        (limit_of (ai_memory_limit_mb x)) (ai_replicas_min x) (ai_replicas_max x) cpu_target)) (\<lambda>d.
      case d of Refused _ \<Rightarrow> fail_deploy i
      | _ \<Rightarrow>
          andThen (k8s (DeployService ns name (ai_internal_port x) alias)) (\<lambda>s.
          case s of Refused _ \<Rightarrow> fail_deploy i
          | _ \<Rightarrow>
              andThen (expose_instance ns x a) (\<lambda>_.
              monitor_deploy_health health i (a_workspace_id a) (a_project_id a))))))))"

definition deploy_compiled_app :: "health_turn list \<Rightarrow> uuid \<Rightarrow> string \<Rightarrow> deploy_end handler" where
  "deploy_compiled_app health i tag =
     andThen (readState (\<lambda>w. image_for_nodes (env_var w) tag)) (\<lambda>img.
     andThen (orElse (fetch (\<lambda>w. instance_with_app i (db w))) None) (\<lambda>row.
     case row of None \<Rightarrow> fail_deploy i
     | Some (x, a) \<Rightarrow>
         andThen (k8s GetClient) (\<lambda>client.
         case client of Refused _ \<Rightarrow> andThen (set_status i Failed) (\<lambda>_. ret DeployFailed)
         | _ \<Rightarrow>
             let ns = ws_namespace (a_workspace_id a) in
             andThen (workspace_limits (a_workspace_id a)) (\<lambda>(mem, storage, cpu).
             andThen (k8s (CreateNamespace ns mem storage cpu)) (\<lambda>_.
             andThen (resolve_instance_env i) (\<lambda>own.
             let envs = fst (apply_runtime_port_defaults own (ai_internal_port x)) in
             andThen (volume_binds (a_id a)) (\<lambda>binds.
             if ai_knative_enabled x then deploy_knative i ns x img envs
             else deploy_standard health i ns x a img envs binds)))))))"

section \<open>Interrupted and lost deployments\<close>

definition settle_build :: "bool \<Rightarrow> app_build \<Rightarrow> app_build" where
  "settle_build deployed b =
     (if deployed then b\<lparr>ab_status := ''succeeded'', ab_phase := ''deployed''\<rparr>
      else b\<lparr>ab_status := ''failed'', ab_phase := ''failed'',
        ab_failure_reason := (case ab_failure_reason b of None \<Rightarrow> Some ''Build/deploy interrupted'' | r \<Rightarrow> r),
        ab_failure_category := (case ab_failure_category b of None \<Rightarrow> Some ''INTERRUPTED'' | c \<Rightarrow> c)\<rparr>)"

definition workload_exists :: "string \<Rightarrow> string \<Rightarrow> bool handler" where
  "workload_exists ns name =
     andThen (k8s (GetDeployment ns name)) (\<lambda>d.
     case d of Refused _ \<Rightarrow>
       andThen (k8s (GetKnativeService ns name)) (\<lambda>s. ret (case s of Refused _ \<Rightarrow> False | _ \<Rightarrow> True))
     | _ \<Rightarrow> ret True)"

definition reconcile_one_stuck_instance :: "uuid \<Rightarrow> string \<Rightarrow> uuid \<Rightarrow> unit handler" where
  "reconcile_one_stuck_instance i container ws =
     andThen (workload_exists (ws_namespace ws) container) (\<lambda>deployed.
     andThen (set_status i (if deployed then Running else Failed)) (\<lambda>_.
     andThen (orElse (fetch (\<lambda>w. latest_build i (db w))) None) (\<lambda>latest.
     case latest of None \<Rightarrow> ret ()
     | Some b \<Rightarrow>
         if ab_status b \<in> {''queued'', ''building''}
         then discard (execute (\<lambda>w. (db w)\<lparr>app_builds := updateWhere (\<lambda>r. ab_id r = ab_id b) (settle_build deployed) (app_builds (db w))\<rparr>))
         else ret ())))"

definition reconcile_all :: "(database \<Rightarrow> app_instance \<Rightarrow> bool) \<Rightarrow> unit handler" where
  "reconcile_all stuck =
     andThen (attempt (fetch (\<lambda>w. instance_rows (stuck (db w)) (db w)))) (\<lambda>r.
     case r of Inl _ \<Rightarrow> ret ()
     | Inr xs \<Rightarrow>
         if xs = [] then ret ()
         else andThen (k8s GetClient) (\<lambda>client.
           case client of Refused _ \<Rightarrow> ret ()
           | _ \<Rightarrow> forEach xs (\<lambda>(x, ws). reconcile_one_stuck_instance (ai_id x) (ai_container_name x) ws)))"

definition reconcile_stuck_deploys :: "unit handler" where
  "reconcile_stuck_deploys = reconcile_all (\<lambda>_ x. ai_status x = Building)"

text \<open>The latest build succeeded, and its end is more than five minutes ago.\<close>

definition long_succeeded :: "instant \<Rightarrow> database \<Rightarrow> app_instance \<Rightarrow> bool" where
  "long_succeeded t d x \<longleftrightarrow> ai_status x = Building
     \<and> (case latest_build (ai_id x) d of None \<Rightarrow> False
        | Some b \<Rightarrow> ab_status b = ''succeeded''
            \<and> ab_created_at b + seconds (limit_of (ab_duration_sec b)) < t - seconds 300)"

definition stuck_deploy_tick :: "bool \<Rightarrow> unit handler" where
  "stuck_deploy_tick leading =
     (if \<not> leading then ret () else andThen now (\<lambda>t. reconcile_all (long_succeeded t)))"

text \<open>
  \<open>reconcile_instance\<close>: a row with a \<open>NULL\<close> limit does not decode, which ends the function.
\<close>

definition reconcile_instance :: "uuid \<Rightarrow> unit handler" where
  "reconcile_instance i =
     andThen (orElse (fetch (\<lambda>w. instance_with_app i (db w))) None) (\<lambda>row.
     case row of None \<Rightarrow> ret ()
     | Some (x, a) \<Rightarrow>
         (case (ai_cpu_limit x, ai_memory_limit_mb x) of
            (Some cpu, Some mem) \<Rightarrow>
              if ai_status x \<noteq> Running \<or> ai_knative_enabled x then ret ()
              else
                andThen (has_active_experiment i) (\<lambda>chaos.
                if chaos then ret ()
                else case ai_current_image_tag x of None \<Rightarrow> ret ()
                | Some tag \<Rightarrow>
                    if tag = [] then ret ()
                    else
                      andThen (readState (\<lambda>w. image_for_nodes (env_var w) tag)) (\<lambda>img.
                      andThen (k8s GetClient) (\<lambda>client.
                      case client of Refused _ \<Rightarrow> ret ()
                      | _ \<Rightarrow>
                          andThen (resolve_instance_env i) (\<lambda>own.
                          andThen (volume_binds (a_id a)) (\<lambda>binds.
                          andThen (k8s (DeployApp (ws_namespace (a_workspace_id a)) (ai_container_name x) img (ai_internal_port x)
                            (fst (apply_runtime_port_defaults own (ai_internal_port x))) binds cpu mem
                            (ai_replicas_min x) (ai_replicas_max x) (ai_autoscale_cpu_percent x))) (\<lambda>_. ret ()))))))
          | _ \<Rightarrow> ret ()))"

definition reconcile_tick :: "bool \<Rightarrow> unit handler" where
  "reconcile_tick leading =
     (if \<not> leading then ret ()
      else andThen (orElse (fetch (\<lambda>w. map ai_id (selectWhere (\<lambda>x. ai_status x = Running) (app_instances (db w))))) []) (\<lambda>ids.
        forEach ids reconcile_instance))"

end
