(* ===== verification/Builds.thy ===== *)
theory Builds
  imports Build_Failures Deploys
begin

text \<open>
  The builds of \<open>utils/builder.rs\<close>: the row of a build and its phases, \<open>run_ephemeral_build\<close> from the
  queue through its deployment to its end. What GitHub and the builder pod answer, and what
  other tasks do to the tables while the build sleeps, are arguments (\<open>build_oracle\<close>). The text of the
  pod manifest and the log column are left out.
\<close>

section \<open>Slots\<close>

definition max_concurrent_builds :: "world \<Rightarrow> int" where
  "max_concurrent_builds w =
     (case Option.bind (env_var w ''HERMES_MAX_CONCURRENT_BUILDS'') (parse_int fits_i32) of
        None \<Rightarrow> 3 | Some n \<Rightarrow> (if 0 < n then n else 3))"

definition available_build_permits :: "int handler" where
  "available_build_permits =
     andThen (orElse (fetch (\<lambda>w. int (countWhere (\<lambda>b. ab_phase b = ''building'') (app_builds (db w))))) 0) (\<lambda>running.
     andThen (readState max_concurrent_builds) (\<lambda>cap.
     ret (max (cap - running) 0)))"

section \<open>Resources and secrets of a builder pod\<close>

text \<open>The memory limit and the request; a workspace without a limit, or already full, caps nothing.\<close>

definition builder_memory :: "int \<Rightarrow> int \<Rightarrow> int option \<times> int" where
  "builder_memory max_mem total_used_mem =
     (let limit = (if max_mem \<le> 0 then None
                   else let free = max_mem - total_used_mem in if 0 < free then Some free else None)
      in (limit, case limit of None \<Rightarrow> 512 | Some l \<Rightarrow> min 512 l))"

definition image_of_build :: "string \<Rightarrow> uuid \<Rightarrow> string" where
  "image_of_build url b = url @ ''/hermes-app-image:'' @ uuid_str b"

definition builder_pod_name :: "uuid \<Rightarrow> string" where
  "builder_pod_name i = ''hermes-builder-'' @ uuid_str i"

text \<open>Each secret is named after the build; the action returns the names that were created.\<close>

definition registry_secret :: "(string \<Rightarrow> string \<Rightarrow> string \<Rightarrow> string) \<Rightarrow> string \<Rightarrow> uuid \<Rightarrow> string list handler" where
  "registry_secret docker_config ns b =
     andThen (readState (\<lambda>w. (env_var w ''HERMES_REGISTRY_USER'', env_var w ''HERMES_REGISTRY_PASSWORD'', registry_url w))) (\<lambda>(u, p, url).
     case (u, p) of
       (Some user, Some pass) \<Rightarrow>
         (if user \<noteq> [] \<and> pass \<noteq> [] then
            let name = ''hermes-registry-creds-'' @ uuid_str b in
            andThen (k8s (CreateSecret ns name [(''.dockerconfigjson'', docker_config url user pass)])) (\<lambda>_. ret [name])
          else ret [])
     | _ \<Rightarrow> ret [])"

text \<open>Inserting into the JSON object of a secret: a later value replaces an earlier one.\<close>

definition put_entry :: "string \<Rightarrow> string \<Rightarrow> (string \<times> string) list \<Rightarrow> (string \<times> string) list" where
  "put_entry k v m = (if list_ex (\<lambda>e. fst e = k) m then map (\<lambda>e. if fst e = k then (k, v) else e) m else m @ [(k, v)])"

definition ssh_entry :: "project_ssh_key \<Rightarrow> (string \<times> string) list \<Rightarrow> (string \<times> string) list handler" where
  "ssh_entry key m =
     andThen (attempt (decrypt_env_value (sk_encrypted_private_key key) (sk_nonce key))) (\<lambda>r.
     ret (case r of Inl _ \<Rightarrow> m
          | Inr t \<Rightarrow> put_entry (''key-'' @ replace_char (CHR '':'') (CHR ''_'') (sk_host key)) t m))"

definition ssh_secret :: "string \<Rightarrow> uuid \<Rightarrow> uuid \<Rightarrow> string list handler" where
  "ssh_secret ns project_id b =
     andThen (orElse (fetch (\<lambda>w. selectWhere (\<lambda>k. sk_project_id k = project_id) (project_ssh_keys (db w)))) []) (\<lambda>ks.
     andThen (foldEach ks ssh_entry []) (\<lambda>entries.
     if entries = [] then ret []
     else
       let name = ''hermes-ssh-keys-'' @ uuid_str b in
       andThen (k8s (CreateSecret ns name entries)) (\<lambda>_. ret [name])))"

definition clone_token :: "uuid option \<Rightarrow> string option \<Rightarrow> string \<Rightarrow> string option handler" where
  "clone_token credential github_token git_repo =
     (case credential of
        Some cred_id \<Rightarrow>
          andThen (attempt (fetchOne (\<lambda>w. firstWhere (\<lambda>c. gt_id c = cred_id) (git_credentials (db w))))) (\<lambda>r.
          case r of Inl _ \<Rightarrow> ret None
          | Inr c \<Rightarrow>
              andThen (attempt (decrypt_env_value (gt_encrypted_token c) (gt_nonce c))) (\<lambda>t.
              ret (case t of Inl _ \<Rightarrow> None | Inr tok \<Rightarrow> Some tok)))
      | None \<Rightarrow>
          ret (if starts_with ''https://github.com/'' git_repo
               then (case github_token of Some t \<Rightarrow> (if trim t \<noteq> [] then Some (trim t) else None) | None \<Rightarrow> None)
               else None))"

definition git_secret :: "string \<Rightarrow> uuid option \<Rightarrow> string option \<Rightarrow> string \<Rightarrow> uuid \<Rightarrow> string list handler" where
  "git_secret ns credential github_token git_repo b =
     andThen (clone_token credential github_token git_repo) (\<lambda>token.
     case token of None \<Rightarrow> ret []
     | Some t \<Rightarrow>
         let name = ''hermes-git-token-'' @ uuid_str b in
         andThen (k8s (CreateSecret ns name [(''token'', t)])) (\<lambda>_. ret [name]))"

definition delete_secrets :: "string \<Rightarrow> string list \<Rightarrow> unit handler" where
  "delete_secrets ns names = forEach names (\<lambda>n. andThen (k8s (DeleteSecret ns n)) (\<lambda>_. ret ()))"

section \<open>Waiting for the pod\<close>

text \<open>
  One turn of the loop: the seconds since the start at its top, what others did to the tables
  while it slept, and the pod it then read: \<open>None\<close> when the read failed, otherwise the status, with
  whether the container \<open>kaniko\<close> started and the phase.
\<close>

record pod_view =
  po_kaniko_started :: bool
  po_phase :: "string option"

record build_turn =
  bt_elapsed :: int
  bt_others :: "database \<Rightarrow> database"
  bt_pod :: "pod_view option option"

datatype build_end = BuildSucceeded | BuildFailed | BuildTimedOut | BuildCancelled

definition BUILD_TIMEOUT :: int where
  "BUILD_TIMEOUT = 900"

definition others :: "(database \<Rightarrow> database) \<Rightarrow> unit handler" where
  "others f = modifyState (\<lambda>w. w\<lparr>db := f (db w)\<rparr>)"

definition enter_building :: "uuid \<Rightarrow> uuid \<Rightarrow> uuid \<Rightarrow> bool \<Rightarrow> pod_view \<Rightarrow> bool handler" where
  "enter_building b ws a building_phase_set pod =
     (if \<not> building_phase_set \<and> po_kaniko_started pod
      then andThen (set_build_phase b ws a ''building'') (\<lambda>_. ret True)
      else ret building_phase_set)"

text \<open>\<open>None\<close>: the turns given are used up and the loop still waits.\<close>

primrec watch_build :: "uuid \<Rightarrow> uuid \<Rightarrow> uuid \<Rightarrow> build_turn list \<Rightarrow> bool \<Rightarrow> build_end option handler" where
  "watch_build b ws a [] building_phase_set = ret None"
| "watch_build b ws a (turn # turns) building_phase_set =
     (if BUILD_TIMEOUT \<le> bt_elapsed turn then ret (Some BuildTimedOut)
      else
        andThen (others (bt_others turn)) (\<lambda>_.
        andThen (build_phase_db b) (\<lambda>phase.
        if phase \<in> {Some ''cancelled'', Some ''superseded''} then ret (Some BuildCancelled)
        else
          (case bt_pod turn of None \<Rightarrow> ret (Some BuildFailed)
           | Some None \<Rightarrow> watch_build b ws a turns building_phase_set
           | Some (Some pod) \<Rightarrow>
               andThen (enter_building b ws a building_phase_set pod) (\<lambda>is_set.
               if po_phase pod = Some ''Succeeded'' then ret (Some BuildSucceeded)
               else if po_phase pod = Some ''Failed'' then ret (Some BuildFailed)
               else watch_build b ws a turns is_set)))))"

text \<open>What is read of the pod when it is over.\<close>

record build_report =
  br_cloner_logs :: string
  br_kaniko_logs :: string
  br_cloner_exit :: "int option"
  br_kaniko_exit :: "int option"
  br_pod_reason :: "string option"
  br_pod_message :: "string option"
  br_kaniko_reason :: "string option"
  br_duration :: int

definition status_of_end :: "build_end \<Rightarrow> string" where
  "status_of_end e = (case e of BuildSucceeded \<Rightarrow> ''succeeded'' | BuildTimedOut \<Rightarrow> ''timed_out'' | _ \<Rightarrow> ''failed'')"

definition phase_of_end :: "build_end \<Rightarrow> string" where
  "phase_of_end e = (case e of BuildSucceeded \<Rightarrow> ''deploying'' | BuildTimedOut \<Rightarrow> ''timed_out'' | _ \<Rightarrow> ''failed'')"

text \<open>Category and reason; \<open>None\<close> when the classification panics.\<close>

definition diagnosis :: "build_end \<Rightarrow> build_report \<Rightarrow> (string option \<times> string option) option" where
  "diagnosis e r =
     (case e of BuildSucceeded \<Rightarrow> Some (None, None)
      | BuildTimedOut \<Rightarrow> Some (Some ''TIMEOUT'',
          Some ''The build exceeded the maximum allotted time (15 minutes) and was stopped automatically.'')
      | _ \<Rightarrow> map_option (\<lambda>(cat, reason). (Some cat, Some reason))
          (classify_build_failure (br_cloner_logs r) (br_kaniko_logs r) (br_cloner_exit r) (br_kaniko_exit r)
            (br_pod_reason r) (br_pod_message r) (br_kaniko_reason r)))"

definition record_end :: "uuid \<Rightarrow> uuid \<Rightarrow> uuid \<Rightarrow> build_end \<Rightarrow> string option \<Rightarrow> string option \<Rightarrow> int \<Rightarrow> unit handler" where
  "record_end b ws a e category reason duration =
     andThen (discard (execute (\<lambda>w. update_build b (\<lambda>r. r\<lparr>ab_status := status_of_end e, ab_duration_sec := Some duration,
        ab_failure_reason := reason, ab_failure_category := category, ab_phase := phase_of_end e\<rparr>) (db w)))) (\<lambda>_.
     broadcast_event (BuildStatusChanged ws b a (status_of_end e) (phase_of_end e)))"

section \<open>What a Dockerfile declares\<close>

record detected =
  de_port :: "int option"
  de_envs :: "(string \<times> string) list"
  de_volumes :: "string list"

definition valid_env_key :: "string \<Rightarrow> bool" where
  "valid_env_key k \<longleftrightarrow> k \<noteq> [] \<and> (is_ascii_alphabetic (hd k) \<or> hd k = CHR ''_'')
     \<and> list_all (\<lambda>c. is_ascii_alphanumeric c \<or> c = CHR ''_'') k"

definition read_marker :: "string \<Rightarrow> detected \<Rightarrow> detected" where
  "read_marker line d =
     (let l = trim line in
      case strip_prefix ''HERMES_DETECT_PORT='' l of
        Some rest \<Rightarrow>
          (case parse_int fits_i32 (trim rest) of
             Some p \<Rightarrow> (if 0 < p \<and> p \<le> 65535 then d\<lparr>de_port := Some p\<rparr> else d) | None \<Rightarrow> d)
      | None \<Rightarrow>
          (case strip_prefix ''HERMES_DETECT_ENV='' l of
             Some rest \<Rightarrow>
               (case split_once (CHR ''='') rest of None \<Rightarrow> d
                | Some (k, v) \<Rightarrow> (if valid_env_key (trim k) then d\<lparr>de_envs := de_envs d @ [(trim k, trim v)]\<rparr> else d))
           | None \<Rightarrow>
               (case strip_prefix ''HERMES_DETECT_VOLUME='' l of
                  Some rest \<Rightarrow>
                    (if trim rest \<noteq> [] \<and> starts_with ''/'' (trim rest)
                     then d\<lparr>de_volumes := de_volumes d @ [trim rest]\<rparr> else d)
                | None \<Rightarrow> d)))"

definition detect_markers :: "string \<Rightarrow> detected" where
  "detect_markers cloner_logs = fold read_marker (lines_of cloner_logs) \<lparr>de_port = None, de_envs = [], de_volumes = []\<rparr>"

definition pool_linked :: "uuid \<Rightarrow> string \<Rightarrow> database \<Rightarrow> bool" where
  "pool_linked i k d = existsWhere (\<lambda>l. el_app_instance_id l = i
     \<and> existsWhere (\<lambda>v. pv_id v = el_project_env_id l \<and> pv_key v = k) (project_env_variables d)) (app_env_links d)"

definition seed_env :: "uuid \<Rightarrow> uuid \<Rightarrow> string \<times> string \<Rightarrow> unit handler" where
  "seed_env ws i kv =
     andThen (orElse (fetch (\<lambda>w. pool_linked i (fst kv) (db w))) False) (\<lambda>linked.
     if linked then ret ()
     else
       andThen (attempt (encrypt_env_value (snd kv))) (\<lambda>r.
       case r of Inl _ \<Rightarrow> ret ()
       | Inr (enc, nonce) \<Rightarrow>
           andThen new_v4 (\<lambda>v.
           discard (execute (\<lambda>w. (db w)\<lparr>environment_variables :=
             insertIfAbsent (\<lambda>r. ev_app_instance_id r = i \<and> ev_key r = fst kv)
               \<lparr>ev_id = v, ev_workspace_id = ws, ev_app_instance_id = i, ev_key = fst kv, ev_encrypted_value = enc,
                ev_nonce = nonce, ev_is_secret = False\<rparr> (environment_variables (db w))\<rparr>)))))"

definition import_envs :: "uuid \<Rightarrow> uuid \<Rightarrow> (string \<times> string) list \<Rightarrow> unit handler" where
  "import_envs ws i envs =
     andThen (orElse (fetch (\<lambda>w. case firstWhere (\<lambda>x. ai_id x = i) (app_instances (db w)) of
        None \<Rightarrow> False | Some x \<Rightarrow> ai_env_seeded x)) False) (\<lambda>already_seeded.
     if already_seeded then ret ()
     else
       andThen (forEach (take 50 envs) (seed_env ws i)) (\<lambda>_.
       discard (execute (\<lambda>w. update_instance i (\<lambda>x. x\<lparr>ai_env_seeded := True\<rparr>) (db w)))))"

definition import_volume :: "uuid \<Rightarrow> uuid \<Rightarrow> string \<Rightarrow> unit handler" where
  "import_volume ws a path =
     andThen (orElse (fetch (\<lambda>w. existsWhere (\<lambda>v. vo_app_id v = a \<and> vo_container_path v = path) (app_volumes (db w)))) False) (\<lambda>ex.
     if ex then ret ()
     else
       andThen new_v4 (\<lambda>v.
       andThen (host (CreateVolumeDir (''/var/lib/hermes/volumes/'' @ uuid_str v))) (\<lambda>_.
       discard (checked
         (\<lambda>w. if existsWhere (\<lambda>x. a_id x = a) (apps (db w)) then None else Some fk_error)
         (\<lambda>w. (db w)\<lparr>app_volumes := insertRow
           \<lparr>vo_id = v, vo_workspace_id = ws, vo_app_id = a, vo_name = ''auto-'' @ take 8 (uuid_str v), vo_host_path = ''/var/lib/hermes/volumes/'' @ uuid_str v,
            vo_container_path = path\<rparr> (app_volumes (db w))\<rparr>)))))"

definition import_port :: "uuid \<Rightarrow> int option \<Rightarrow> unit handler" where
  "import_port i port = (case port of None \<Rightarrow> ret ()
     | Some p \<Rightarrow> discard (execute (\<lambda>w. (db w)\<lparr>app_instances := updateWhere
         (\<lambda>x. ai_id x = i \<and> ai_port_is_auto x \<and> ai_internal_port x \<noteq> p) (\<lambda>x. x\<lparr>ai_internal_port := p\<rparr>) (app_instances (db w))\<rparr>)))"

definition import_detected :: "uuid \<Rightarrow> uuid \<Rightarrow> uuid \<Rightarrow> detected \<Rightarrow> unit handler" where
  "import_detected ws a i d =
     andThen (import_port i (de_port d)) (\<lambda>_.
     andThen (import_envs ws i (de_envs d)) (\<lambda>_.
     forEach (take 10 (de_volumes d)) (import_volume ws a)))"

section \<open>A build from the queue to its end\<close>

text \<open>What the outside world contributes to one build.\<close>

record build_oracle =
  bo_docker_config :: "string \<Rightarrow> string \<Rightarrow> string \<Rightarrow> string"
  bo_used_mem :: int
  bo_commit :: "(string \<times> string) option"
  bo_session :: session
  bo_slot_turns :: nat
  bo_meanwhile :: "world \<Rightarrow> world"
  bo_manifest :: "string option"
  bo_turns :: "build_turn list"
  bo_report :: build_report
  bo_health :: "health_turn list"

text \<open>How a call of \<open>run_ephemeral_build\<close> ends, or where it stands when the turns are used up
  (the slot is then still held).\<close>

datatype build_run =
    NotStarted
  | WaitingForSlot
  | Superseded
  | NoPod
  | Watching
  | Deploying
  | Panicked
  | Finished build_end

record build_meta =
  bm_app_id :: uuid
  bm_project_id :: uuid
  bm_workspace_id :: uuid
  bm_github_token :: "string option"
  bm_git_credential_id :: "uuid option"

definition build_meta_of :: "uuid \<Rightarrow> database \<Rightarrow> build_meta option" where
  "build_meta_of i d =
     (case instance_with_app i d of None \<Rightarrow> None
      | Some (x, a) \<Rightarrow>
          (case firstWhere (\<lambda>w. w_id w = a_workspace_id a) (workspaces d) of None \<Rightarrow> None
           | Some ws \<Rightarrow> map_option (\<lambda>u. \<lparr>bm_app_id = a_id a, bm_project_id = a_project_id a, bm_workspace_id = a_workspace_id a,
               bm_github_token = u_github_token u, bm_git_credential_id = a_git_credential_id a\<rparr>)
               (firstWhere (\<lambda>u. u_id u = w_created_by ws) (users d))))"

definition create_build :: "uuid \<Rightarrow> build_meta \<Rightarrow> uuid \<Rightarrow> string \<Rightarrow> unit handler" where
  "create_build b m i tag =
     andThen (discard (checked
       (\<lambda>w. if existsWhere (\<lambda>x. ai_id x = i) (app_instances (db w)) then None else Some fk_error)
       (\<lambda>w. (db w)\<lparr>app_builds := insertRow
         \<lparr>ab_id = b, ab_app_id = bm_app_id m, ab_app_instance_id = i, ab_status = ''queued'', ab_phase = ''queued'',
          ab_failure_reason = None, ab_failure_category = None, ab_duration_sec = None, ab_image_tag = Some tag,
          ab_commit_message = None, ab_commit_sha = None, ab_created_at = clock w\<rparr> (app_builds (db w))\<rparr>))) (\<lambda>_.
     broadcast_event (BuildStatusChanged (bm_workspace_id m) b (bm_app_id m) ''queued'' ''queued''))"

text \<open>Whether the code asks GitHub for the commit; \<open>bo_commit\<close> is the answer.\<close>

definition asks_github :: "string \<Rightarrow> string option \<Rightarrow> bool" where
  "asks_github git_repo token \<longleftrightarrow> contains ''github.com'' git_repo \<and> token \<noteq> None
     \<and> 2 \<le> length (split_on (CHR ''/'') (replace_all ''.git'' [] (replace_all ''git@github.com:'' []
           (replace_all ''https://github.com/'' [] (trim git_repo)))))"

definition record_commit :: "uuid \<Rightarrow> string \<Rightarrow> string option \<Rightarrow> (string \<times> string) option \<Rightarrow> unit handler" where
  "record_commit b git_repo token commit =
     (case (asks_github git_repo token, commit) of
        (True, Some (sha, msg)) \<Rightarrow> discard (execute (\<lambda>w.
          update_build b (\<lambda>r. r\<lparr>ab_commit_message := Some msg, ab_commit_sha := Some sha\<rparr>) (db w)))
      | _ \<Rightarrow> ret ())"

definition supersede_older :: "uuid \<Rightarrow> uuid \<Rightarrow> unit handler" where
  "supersede_older i b = discard (execute (\<lambda>w. (db w)\<lparr>app_builds := updateWhere
     (\<lambda>r. ab_app_instance_id r = i \<and> ab_id r \<noteq> b \<and> ab_status r \<in> {''queued'', ''building''})
     (\<lambda>r. r\<lparr>ab_status := ''superseded'', ab_phase := ''superseded''\<rparr>) (app_builds (db w))\<rparr>))"

definition promote_build :: "uuid \<Rightarrow> build_meta \<Rightarrow> unit handler" where
  "promote_build b m =
     andThen (discard (execute (\<lambda>w. update_build b (\<lambda>r. r\<lparr>ab_status := ''building'', ab_phase := ''starting''\<rparr>) (db w)))) (\<lambda>_.
     broadcast_event (BuildStatusChanged (bm_workspace_id m) b (bm_app_id m) ''building'' ''starting''))"

definition fail_before_pod :: "uuid \<Rightarrow> build_meta \<Rightarrow> uuid \<Rightarrow> string \<Rightarrow> string \<Rightarrow> int \<Rightarrow> unit handler" where
  "fail_before_pod b m i category reason duration =
     andThen (fail_instance i) (\<lambda>_.
     andThen (discard (execute (\<lambda>w. update_build b (\<lambda>r. r\<lparr>ab_status := ''failed'', ab_phase := ''failed'',
        ab_duration_sec := Some duration, ab_failure_reason := Some reason, ab_failure_category := Some category\<rparr>) (db w)))) (\<lambda>_.
     broadcast_event (BuildStatusChanged (bm_workspace_id m) b (bm_app_id m) ''failed'' ''failed'')))"

text \<open>At most 30 looks at the pod of an earlier build of the instance.\<close>

primrec await_gone :: "nat \<Rightarrow> string \<Rightarrow> string \<Rightarrow> unit handler" where
  "await_gone 0 ns pod = ret ()"
| "await_gone (Suc n) ns pod = andThen (k8s (GetPod ns pod)) (\<lambda>a. case a of Refused _ \<Rightarrow> ret () | _ \<Rightarrow> await_gone n ns pod)"

definition replace_pod :: "string \<Rightarrow> string \<Rightarrow> int option \<Rightarrow> int \<Rightarrow> bool \<Rightarrow> string option handler" where
  "replace_pod ns pod limit request cpu_capped =
     andThen (k8s (DeletePod ns pod)) (\<lambda>_.
     andThen (await_gone 30 ns pod) (\<lambda>_.
     andThen (k8s (CreateBuilderPod ns pod limit request cpu_capped)) (\<lambda>a.
     ret (case a of Refused e \<Rightarrow> Some e | _ \<Rightarrow> None))))"

definition finish_success :: "build_oracle \<Rightarrow> uuid \<Rightarrow> build_meta \<Rightarrow> uuid \<Rightarrow> string \<Rightarrow> string \<Rightarrow> deploy_end handler" where
  "finish_success orc b m i tag cloner_logs =
     andThen (discard (execute (\<lambda>w. update_instance i (\<lambda>x. x\<lparr>ai_current_image_tag := Some tag\<rparr>) (db w)))) (\<lambda>_.
     andThen (import_detected (bm_workspace_id m) (bm_app_id m) i (detect_markers cloner_logs)) (\<lambda>_.
     andThen (set_build_phase b (bm_workspace_id m) (bm_app_id m) ''deploying'') (\<lambda>_.
     deploy_compiled_app (bo_health orc) i tag)))"

definition finish_build :: "build_oracle \<Rightarrow> uuid \<Rightarrow> build_meta \<Rightarrow> uuid \<Rightarrow> string \<Rightarrow> string list \<Rightarrow> build_end \<Rightarrow> build_run handler" where
  "finish_build orc b m i tag secrets e =
     (let ns = ws_namespace (bm_workspace_id m); r = bo_report orc in
      if e = BuildCancelled then andThen (delete_secrets ns secrets) (\<lambda>_. ret (Finished e))
      else
        andThen (k8s (DeletePod ns (builder_pod_name i))) (\<lambda>_.
        andThen (delete_secrets ns secrets) (\<lambda>_.
        case diagnosis e r of None \<Rightarrow> ret Panicked
        | Some (category, reason) \<Rightarrow>
            andThen (record_end b (bm_workspace_id m) (bm_app_id m) e category reason (br_duration r)) (\<lambda>_.
            if e = BuildSucceeded then
              andThen (finish_success orc b m i tag (br_cloner_logs r)) (\<lambda>d.
              ret (if d = StillWaiting then Deploying else Finished e))
            else andThen (fail_instance i) (\<lambda>_. ret (Finished e))))))"

definition run_pod :: "build_oracle \<Rightarrow> uuid \<Rightarrow> build_meta \<Rightarrow> uuid \<Rightarrow> string \<Rightarrow> string list \<Rightarrow> int \<times> int \<Rightarrow> build_run handler" where
  "run_pod orc b m i tag secrets limits =
     (let ns = ws_namespace (bm_workspace_id m); pod = builder_pod_name i;
          (limit, request) = builder_memory (fst limits) (bo_used_mem orc) in
      case bo_manifest orc of
        Some _ \<Rightarrow> andThen (fail_before_pod b m i ''MANIFEST'' ''Generating the build pod manifest failed.''
          (br_duration (bo_report orc))) (\<lambda>_. ret NoPod)
      | None \<Rightarrow>
          andThen (replace_pod ns pod limit request (0 < snd limits)) (\<lambda>refused.
          case refused of
            Some _ \<Rightarrow>
              andThen (fail_before_pod b m i ''POD_CREATE''
                ''Creating the build pod failed (likely insufficient resource quota in the workspace).''
                (br_duration (bo_report orc))) (\<lambda>_.
              andThen (delete_secrets ns secrets) (\<lambda>_. ret NoPod))
          | None \<Rightarrow>
              andThen (set_build_phase b (bm_workspace_id m) (bm_app_id m) ''cloning'') (\<lambda>_.
              andThen (watch_build b (bm_workspace_id m) (bm_app_id m) (bo_turns orc) False) (\<lambda>e.
              case e of None \<Rightarrow> ret Watching | Some e \<Rightarrow> finish_build orc b m i tag secrets e))))"

definition run_in_slot :: "build_oracle \<Rightarrow> uuid \<Rightarrow> build_meta \<Rightarrow> uuid \<Rightarrow> string \<Rightarrow> string \<Rightarrow> int \<times> int \<Rightarrow> build_run handler" where
  "run_in_slot orc b m i tag git_repo limits =
     (let ns = ws_namespace (bm_workspace_id m) in
      andThen (build_phase_db b) (\<lambda>phase.
      if phase \<in> {Some ''cancelled'', Some ''superseded''} then ret Superseded
      else
        andThen (promote_build b m) (\<lambda>_.
        andThen (registry_secret (bo_docker_config orc) ns b) (\<lambda>s1.
        andThen (ssh_secret ns (bm_project_id m) b) (\<lambda>s2.
        andThen (git_secret ns (bm_git_credential_id m) (bm_github_token m) git_repo b) (\<lambda>s3.
        run_pod orc b m i tag (s1 @ s2 @ s3) limits))))))"

definition run_ephemeral_build :: "build_oracle \<Rightarrow> uuid \<Rightarrow> string \<Rightarrow> build_run handler" where
  "run_ephemeral_build orc i git_repo =
     andThen (k8s GetClient) (\<lambda>client.
     case client of Refused _ \<Rightarrow> andThen (fail_instance i) (\<lambda>_. ret NotStarted)
     | _ \<Rightarrow>
         andThen (orElse (fetch (\<lambda>w. build_meta_of i (db w))) None) (\<lambda>meta.
         case meta of None \<Rightarrow> andThen (fail_instance i) (\<lambda>_. ret NotStarted)
         | Some m \<Rightarrow>
             andThen (workspace_limits (bm_workspace_id m)) (\<lambda>(mem, storage, cpu).
             andThen (k8s (CreateNamespace (ws_namespace (bm_workspace_id m)) mem storage cpu)) (\<lambda>_.
             andThen new_v4 (\<lambda>b.
             andThen (readState registry_url) (\<lambda>url.
             let tag = image_of_build url b in
             andThen (create_build b m i tag) (\<lambda>_.
             andThen (record_commit b git_repo (bm_github_token m) (bo_commit orc)) (\<lambda>_.
             andThen (supersede_older i b) (\<lambda>_.
             andThen (readState max_concurrent_builds) (\<lambda>cap.
             andThen (acquire_build_slot (bo_slot_turns orc) (bo_meanwhile orc) (bo_session orc) cap) (\<lambda>slot.
             case slot of None \<Rightarrow> ret WaitingForSlot
             | Some s \<Rightarrow>
                 andThen (run_in_slot orc b m i tag git_repo (mem, cpu)) (\<lambda>r.
                 if r \<in> {Watching, Deploying} then ret r else andThen (drop_build_slot (bo_session orc) s) (\<lambda>_. ret r)))))))))))))"

end
