(* ===== verification/Deploys_Laws.thy ===== *)
theory Deploys_Laws
  imports Deploys Incidents_Laws
begin

text \<open>
  Facts about deployments: the watch over the pods ends within its window, the reconciler re-applies exactly what
  the deployment applied, and what becomes of a build that another process still has in its queue.
\<close>

section \<open>What a deployment asks of the cluster\<close>

definition creates_secret :: "k8s_call \<Rightarrow> bool" where
  "creates_secret c \<longleftrightarrow> (case c of CreateSecret _ _ _ \<Rightarrow> True | _ \<Rightarrow> False)"

lemmas deploy_steps = set_status_def update_status_def fail_deploy_def deploy_knative_def expose_instance_def column_of_def volume_binds_def
  workspace_limits_def record_crash_def log_incident_def resolve_instance_env_def load_vars_def

lemma answers_status [answer_intros]: "answers (set_status i st)" "answers (record_crash i ws pr r l)"
  unfolding deploy_steps by (intro answer_intros)+

lemma answers_monitor [answer_intros]: "answers (monitor_deploy_health ts i ws project)"
  by (induction ts) (auto intro!: answer_intros split: option.split)

lemma answers_expose_ports [answer_intros]: "answers (expose_ports ns name n ps)"
  by (induction ps arbitrary: n) (auto intro!: answer_intros)

lemma answers_case_k8s [answer_intros]:
  "(\<And>m. a = Refused m \<Longrightarrow> answers (f m)) \<Longrightarrow> answers g \<Longrightarrow> answers (case a of Refused m \<Rightarrow> f m | _ \<Rightarrow> g)"
  by (cases a) auto

lemma answers_deploy_standard [answer_intros]: "answers (deploy_standard health i ns x a img envs binds)"
  unfolding deploy_standard_def deploy_steps by (intro answer_intros)

lemma answers_deploy [answer_intros]: "answers (deploy_compiled_app health i tag)"
  unfolding deploy_compiled_app_def deploy_steps by (intro answer_intros)

text \<open>A predicate of the calls so far that no call other than the creation of a secret breaks.\<close>

locale plain_calls =
  fixes I :: "k8s_call list \<Rightarrow> bool"
  assumes plain: "\<not> creates_secret c \<Longrightarrow> I cs \<Longrightarrow> I (cs @ [c])"
begin

lemma k8s_plain: "\<not> creates_secret c \<Longrightarrow> keeps (\<lambda>w. I (k8s_calls w)) (k8s c)"
  by (rule calls_k8s) (rule plain)

lemma k8s_calls_plain:
  "keeps (\<lambda>w. I (k8s_calls w)) (k8s (DeleteApp ns n))" "keeps (\<lambda>w. I (k8s_calls w)) (k8s (DeletePod ns n))"
  "keeps (\<lambda>w. I (k8s_calls w)) (k8s (DeployIngress ns n d s p))" "keeps (\<lambda>w. I (k8s_calls w)) (k8s (DeployService ns n p al))"
  "keeps (\<lambda>w. I (k8s_calls w)) (k8s (DeployLoadBalancer ns n m p q pr))" "keeps (\<lambda>w. I (k8s_calls w)) (k8s GetClient)"
  "keeps (\<lambda>w. I (k8s_calls w)) (k8s (CreateNamespace ns m1 m2 m3))" "keeps (\<lambda>w. I (k8s_calls w)) (k8s (DeleteKnativeService ns n))"
  "keeps (\<lambda>w. I (k8s_calls w)) (k8s (DeployKnativeService ns n d envs a1 a2 a3 a4))"
  "keeps (\<lambda>w. I (k8s_calls w)) (k8s (DeployApp ns n d p envs binds a1 a2 a3 a4 a5))"
  by (rule k8s_plain; simp add: creates_secret_def)+

lemma status_calls: "keeps (\<lambda>w. I (k8s_calls w)) (set_status i st)" "keeps (\<lambda>w. I (k8s_calls w)) (record_crash i ws pr r l)"
  unfolding deploy_steps by (intro keeps_intros calls_intros)+

lemma monitor_calls: "keeps (\<lambda>w. I (k8s_calls w)) (monitor_deploy_health ts i ws project)"
  by (induction ts) (auto intro!: keeps_intros status_calls split: option.split)

lemma expose_calls: "keeps (\<lambda>w. I (k8s_calls w)) (expose_ports ns name n ps)"
  by (induction ps arbitrary: n) (auto intro!: keeps_intros k8s_calls_plain)

lemma env_calls: "keeps (\<lambda>w. I (k8s_calls w)) (resolve_instance_env i)"
  unfolding deploy_steps by (intro keeps_intros calls_intros)

lemma expose_instance_calls: "keeps (\<lambda>w. I (k8s_calls w)) (expose_instance ns x a)"
  unfolding expose_instance_def by (intro keeps_intros calls_intros k8s_calls_plain expose_calls)

lemma fail_deploy_calls: "keeps (\<lambda>w. I (k8s_calls w)) (fail_deploy i)"
  unfolding fail_deploy_def by (intro keeps_intros calls_intros status_calls)

lemma workspace_limits_calls: "keeps (\<lambda>w. I (k8s_calls w)) (workspace_limits ws)"
  unfolding workspace_limits_def by (intro keeps_orElse calls_statements)

lemma volume_binds_calls: "keeps (\<lambda>w. I (k8s_calls w)) (volume_binds a)"
  unfolding volume_binds_def by (intro keeps_orElse calls_statements)

lemma column_calls: "keeps (\<lambda>w. I (k8s_calls w)) (column_of i f)"
  unfolding column_of_def by (rule calls_intros)

lemma deploy_standard_calls: "keeps (\<lambda>w. I (k8s_calls w)) (deploy_standard health i ns x a img envs binds)"
  unfolding deploy_standard_def
  by (intro keeps_let keeps_andThen keeps_case_k8s keeps_orElse k8s_calls_plain fail_deploy_calls monitor_calls
    expose_instance_calls column_calls)

lemma deploy_knative_calls: "keeps (\<lambda>w. I (k8s_calls w)) (deploy_knative i ns x img envs)"
  unfolding deploy_knative_def
  by (intro keeps_let keeps_case_prod keeps_andThen keeps_case_k8s keeps_case_option keeps_ret k8s_calls_plain fail_deploy_calls status_calls)

lemma deploy_calls: "keeps (\<lambda>w. I (k8s_calls w)) (deploy_compiled_app health i tag)"
  unfolding deploy_compiled_app_def
  by (intro keeps_let keeps_case_prod keeps_andThen keeps_case_k8s keeps_case_option keeps_if keeps_ret keeps_readState
    k8s_calls_plain fail_deploy_calls status_calls deploy_standard_calls deploy_knative_calls env_calls
    keeps_orElse calls_statements workspace_limits_calls volume_binds_calls)

end

interpretation made: plain_calls "\<lambda>cs. d \<in> set cs" for d
  by unfold_locales simp

section \<open>The watch over a fresh deployment\<close>

lemma monitor_ends:
  "\<exists>t \<in> set ts. HEALTH_WINDOW \<le> ht_elapsed t \<Longrightarrow>
    achieves (\<lambda>_. True) (monitor_deploy_health ts i ws project) (\<lambda>r _. r \<noteq> StillWaiting)"
proof (induction ts)
  case Nil
  then show ?case by simp
next
  case (Cons t ts)
  have true: "keeps (\<lambda>_. True) m" for m :: "unit handler" by (simp add: keeps_def)
  have running: "achieves (\<lambda>_. True) (andThen (set_status i Running) (\<lambda>_. ret DeployedRunning) :: deploy_end handler) (\<lambda>r _. r \<noteq> StillWaiting)"
    by (intro achieves_after answer_intros true achieves_ret) simp
  have crashed: "achieves (\<lambda>_. True) (andThen (record_crash i ws project c l) (\<lambda>_. ret (DeployedCrashed s)) :: deploy_end handler) (\<lambda>r _. r \<noteq> StillWaiting)"
    for c l s by (intro achieves_after answer_intros true achieves_ret) simp
  from Cons show ?case by (auto simp: Let_def split: option.split intro: running crashed)
qed

text \<open>
  The watch reads the pods every three seconds. When the clock advances by that much in each turn, 40 turns are
  enough for it to end: a deployment is running or crashed after two minutes, whatever the cluster and the
  tables do.
\<close>

theorem deploy_watch_terminates:
  assumes turns: "40 \<le> length ts" and clock: "\<forall>k < length ts. 3 * (int k + 1) \<le> ht_elapsed (ts ! k)"
  shows "\<exists>r w'. monitor_deploy_health ts i ws project w = (Inr r, w') \<and> r \<noteq> StillWaiting"
proof -
  have "HEALTH_WINDOW \<le> ht_elapsed (ts ! 39)"
    using turns clock by (force simp: HEALTH_WINDOW_def dest!: spec [of _ 39])
  with turns have "\<exists>t \<in> set ts. HEALTH_WINDOW \<le> ht_elapsed t" by force
  from achievesD [OF monitor_ends [OF this]] show ?thesis by blast
qed

theorem deploy_watch_terminates_witness:
  "\<exists>r w'. monitor_deploy_health (map (\<lambda>k. \<lparr>ht_pods = None, ht_logs = [], ht_elapsed = 3 * (int k + 1)\<rparr>) [0..<40]) 1 2 3 base_world
     = (Inr r, w') \<and> r \<noteq> StillWaiting"
  by (rule deploy_watch_terminates) (simp_all del: upt_Suc)

section \<open>The reconciler and the deployment agree\<close>

lemma not_refused: "\<forall>m. a \<noteq> Refused m \<Longrightarrow> (case a of Refused m \<Rightarrow> f m | _ \<Rightarrow> g) = g"
  by (cases a) auto

definition desired_app :: "world \<Rightarrow> app_instance \<Rightarrow> app \<Rightarrow> string \<Rightarrow> k8s_call" where
  "desired_app w x a tag = DeployApp (ws_namespace (a_workspace_id a)) (ai_container_name x) (image_for_nodes (env_var w) tag)
     (ai_internal_port x)
     (fst (apply_runtime_port_defaults (case resolve_instance_env (ai_id x) w of (Inr env, _) \<Rightarrow> env | _ \<Rightarrow> []) (ai_internal_port x)))
     (map (\<lambda>v. (vo_host_path v, vo_container_path v)) (selectWhere (\<lambda>v. vo_app_id v = a_id a) (app_volumes (db w))))
     (limit_of (ai_cpu_limit x)) (limit_of (ai_memory_limit_mb x)) (ai_replicas_min x) (ai_replicas_max x) (ai_autoscale_cpu_percent x)"

lemma has_active_experiment_run:
  "faults w = [] \<Longrightarrow> has_active_experiment i w =
     (Inr (existsWhere (\<lambda>e. cx_app_instance_id e = i \<and> cx_status e = ''running'') (chaos_experiments (db w))), w)"
  by (simp add: has_active_experiment_def orElse_def fetch_ok)

lemma andThen_column_of:
  "faults w = [] \<Longrightarrow> firstWhere (\<lambda>x. ai_id x = i) (app_instances (db w)) = Some x \<Longrightarrow>
    andThen (orElse (column_of i g) d) f w = f (g x) w"
  by (simp add: column_of_def andThen_def orElse_def fetchOne_ok)

lemma reconcile_run:
  assumes ok: "faults w = []" "\<forall>n m. k8s_reply w n \<noteq> Refused m"
    and row: "instance_with_app i (db w) = Some (x, a)" and id: "ai_id x = i"
    and limits: "ai_cpu_limit x = Some cpu" "ai_memory_limit_mb x = Some mem"
    and live: "ai_status x = Running" "\<not> ai_knative_enabled x"
    and calm: "\<not> existsWhere (\<lambda>e. cx_app_instance_id e = i \<and> cx_status e = ''running'') (chaos_experiments (db w))"
    and tag: "ai_current_image_tag x = Some tag" "tag \<noteq> []"
  shows "reconcile_instance i w = (Inr (), w\<lparr>k8s_calls := k8s_calls w @ [GetClient, desired_app w x a tag]\<rparr>)"
  using assms
  by (simp add: reconcile_instance_def step_simps andThen_run [where m = "has_active_experiment i", OF has_active_experiment_run]
    not_refused andThen_run [where m = "resolve_instance_env i", OF resolve_instance_env_run] volume_binds_def desired_app_def
    resolve_instance_env_run limit_of_def)

lemma workspace_limits_run:
  "faults w = [] \<Longrightarrow> \<exists>l. workspace_limits ws w = (Inr l, w)"
  by (auto simp: workspace_limits_def orElse_def fetchOne_ok split: option.split)

lemma deploy_standard_applies:
  assumes ok: "faults w = []" "\<forall>n m. k8s_reply w n \<noteq> Refused m"
    and col: "firstWhere (\<lambda>y. ai_id y = i) (app_instances (db w)) = Some x"
  shows "DeployApp ns (ai_container_name x) img (ai_internal_port x) envs binds (limit_of (ai_cpu_limit x))
     (limit_of (ai_memory_limit_mb x)) (ai_replicas_min x) (ai_replicas_max x) (ai_autoscale_cpu_percent x)
     \<in> set (k8s_calls (snd (deploy_standard health i ns x a img envs binds w)))" (is "?c \<in> _")
proof -
  have rest: "keeps (\<lambda>w. ?c \<in> set (k8s_calls w)) (case d of Refused _ \<Rightarrow> fail_deploy i
      | _ \<Rightarrow> andThen (k8s (DeployService ns (ai_container_name x) (ai_internal_port x) al)) (\<lambda>s.
          case s of Refused _ \<Rightarrow> fail_deploy i
          | _ \<Rightarrow> andThen (expose_instance ns x a) (\<lambda>_. monitor_deploy_health health i (a_workspace_id a) (a_project_id a))))" for d al
    by (intro keeps_andThen keeps_case_k8s made.k8s_calls_plain made.fail_deploy_calls made.monitor_calls made.expose_instance_calls)
  show ?thesis using ok col
    by (simp add: deploy_standard_def Let_def andThen_k8s andThen_column_of del: k8s_answer.case)
      (rule keepsD [OF rest], simp)
qed

lemma deploy_applies:
  assumes ok: "faults w = []" "\<forall>n m. k8s_reply w n \<noteq> Refused m"
    and row: "instance_with_app i (db w) = Some (x, a)"
    and col: "firstWhere (\<lambda>y. ai_id y = i) (app_instances (db w)) = Some x" and live: "\<not> ai_knative_enabled x"
  shows "desired_app w x a tag \<in> set (k8s_calls (snd (deploy_compiled_app health i tag w)))"
proof -
  have id: "ai_id x = i" using firstWhere_Some [OF col] by simp
  let ?ns = "ws_namespace (a_workspace_id a)"
  let ?w1 = "w\<lparr>k8s_calls := k8s_calls w @ [GetClient]\<rparr>"
  obtain mem storage cpu where limits: "workspace_limits (a_workspace_id a) ?w1 = (Inr (mem, storage, cpu), ?w1)"
    using workspace_limits_run [of ?w1] ok by fastforce
  let ?w2 = "?w1\<lparr>k8s_calls := k8s_calls w @ [GetClient, CreateNamespace ?ns mem storage cpu]\<rparr>"
  have "desired_app w x a tag \<in> set (k8s_calls (snd (deploy_standard health i ?ns x a img envs binds ?w2)))"
    if "img = image_for_nodes (env_var w) tag"
      "envs = fst (apply_runtime_port_defaults (case resolve_instance_env i w of (Inr env, _) \<Rightarrow> env | _ \<Rightarrow> []) (ai_internal_port x))"
      "binds = map (\<lambda>v. (vo_host_path v, vo_container_path v)) (selectWhere (\<lambda>v. vo_app_id v = a_id a) (app_volumes (db w)))"
    for img envs binds
    using deploy_standard_applies [of ?w2 i x ?ns img envs binds] ok col that id by (simp add: desired_app_def)
  then show ?thesis using ok row live
    by (simp add: deploy_compiled_app_def Let_def step_simps not_refused andThen_run [where m = "workspace_limits (a_workspace_id a)", OF limits]
      andThen_run [where m = "resolve_instance_env i", OF resolve_instance_env_run] volume_binds_def resolve_instance_env_run)
qed


definition deploy_world :: world where
  "deploy_world = base_world\<lparr>db := empty_db\<lparr>apps := [sample_app 14 10],
     app_instances := [(sample_instance 15 14)\<lparr>ai_current_image_tag := Some ''localhost:5000/hermes-app-image:1''\<rparr>]\<rparr>\<rparr>"


section \<open>Where a deployment is misjudged\<close>

lemma sort_key_map_same: "(\<And>x. k (g x) = k x) \<Longrightarrow> sort_key k (map g xs) = map g (sort_key k xs)"
proof (induction xs)
  case (Cons x xs)
  have "insort_key k (g x) (map g ys) = map g (insort_key k x ys)" for ys
    by (induction ys) (simp_all add: Cons.prems)
  with Cons show ?case by simp
qed simp

lemma latest_build_update:
  assumes "\<And>r. ab_app_instance_id (f r) = ab_app_instance_id r" "\<And>r. ab_created_at (f r) = ab_created_at r"
  shows "latest_build i (d\<lparr>app_builds := updateWhere p f (app_builds d)\<rparr>)
    = map_option (\<lambda>r. if p r then f r else r) (latest_build i d)"
proof -
  let ?g = "\<lambda>r. if p r then f r else r"
  have "selectWhere (\<lambda>b. ab_app_instance_id b = i) (map ?g (app_builds d)) = map ?g (selectWhere (\<lambda>b. ab_app_instance_id b = i) (app_builds d))"
    by (simp add: selectWhere_def filter_map comp_def if_distrib [of ab_app_instance_id] assms cong: if_cong)
  moreover have "sort_key (\<lambda>b. - ab_created_at b) (map ?g xs) = map ?g (sort_key (\<lambda>b. - ab_created_at b) xs)" for xs
    by (rule sort_key_map_same) (simp add: assms)
  ultimately show ?thesis
    by (simp add: latest_build_def updateWhere_def split: list.split)
qed

lemma update_latest_other:
  "app_instances (update_latest i p f d) = app_instances d" "app_incident_logs (update_latest i p f d) = app_incident_logs d"
  by (simp_all add: update_latest_def split: option.split)

lemma updateWhere_leaves: "x \<in> set (updateWhere p f t) \<Longrightarrow> (\<exists>y. x = f y) \<or> \<not> p x"
  by (auto simp: updateWhere_def)

lemma status_of_updated:
  assumes "x \<in> set (app_instances (update_instance i (\<lambda>x. x\<lparr>ai_status := st, ai_updated_at := t\<rparr>) d))" "ai_id x = i"
  shows "ai_status x = st"
proof -
  from assms(1) have "(\<exists>y :: app_instance. x = y\<lparr>ai_status := st, ai_updated_at := t\<rparr>) \<or> \<not> ai_id x = i"
    using updateWhere_leaves by (fastforce simp: update_instance_def)
  with assms(2) show ?thesis by auto
qed

lemma status_running_run:
  assumes "faults w = []"
  shows "\<exists>w'. set_status i Running w = (Inr (), w') \<and> faults w' = []
    \<and> db w' = update_latest i (\<lambda>b. ab_phase b \<notin> {''cancelled'', ''superseded'', ''timed_out''}) (\<lambda>b. b\<lparr>ab_phase := ''running''\<rparr>)
         (update_instance i (\<lambda>x. x\<lparr>ai_status := Running, ai_updated_at := clock w\<rparr>) (db w))
    \<and> app_incident_logs (db w') = app_incident_logs (db w)
    \<and> (\<forall>x \<in> set (app_instances (db w')). ai_id x = i \<longrightarrow> ai_status x = Running)"
proof -
  have "\<exists>w'. set_status i Running w = (Inr (), w') \<and> faults w' = []
    \<and> db w' = update_latest i (\<lambda>b. ab_phase b \<notin> {''cancelled'', ''superseded'', ''timed_out''}) (\<lambda>b. b\<lparr>ab_phase := ''running''\<rparr>)
         (update_instance i (\<lambda>x. x\<lparr>ai_status := Running, ai_updated_at := clock w\<rparr>) (db w))"
    using assms by (auto simp: set_status_def update_status_def terminal_phase_def discard_def step_simps split: option.split)
  then obtain w' where w': "set_status i Running w = (Inr (), w')" "faults w' = []"
    "db w' = update_latest i (\<lambda>b. ab_phase b \<notin> {''cancelled'', ''superseded'', ''timed_out''}) (\<lambda>b. b\<lparr>ab_phase := ''running''\<rparr>)
         (update_instance i (\<lambda>x. x\<lparr>ai_status := Running, ai_updated_at := clock w\<rparr>) (db w))" by blast
  moreover have "app_incident_logs (db w') = app_incident_logs (db w)"
    by (simp add: w'(3) update_latest_other update_instance_def)
  moreover have "\<forall>x \<in> set (app_instances (db w')). ai_id x = i \<longrightarrow> ai_status x = Running"
    by (simp add: w'(3) update_latest_other status_of_updated)
  ultimately show ?thesis by blast
qed

text \<open>
  One ready pod ends the watch as a success, whatever its other pods do: in a rolling update the pods of the
  previous version are still in the listing, so a new version that crashes is recorded as running and no incident is raised.
\<close>

theorem ready_pod_hides_crash:
  assumes ok: "faults w = []" and pods: "ht_pods t = Some pods" "healthy_of pods" and crash: "crash_of pods = Some c"
  shows "\<exists>w'. monitor_deploy_health (t # ts) i ws project w = (Inr DeployedRunning, w')
    \<and> app_incident_logs (db w') = app_incident_logs (db w)
    \<and> (\<forall>x \<in> set (app_instances (db w')). ai_id x = i \<longrightarrow> ai_status x = Running)"
proof -
  obtain w' where "set_status i Running w = (Inr (), w')" "app_incident_logs (db w') = app_incident_logs (db w)"
    "\<forall>x \<in> set (app_instances (db w')). ai_id x = i \<longrightarrow> ai_status x = Running"
    using status_running_run [OF ok] by blast
  with pods show ?thesis by (auto simp: Let_def andThen_def ret_def)
qed

definition rolling_turn :: health_turn where
  "rolling_turn = \<lparr>ht_pods = Some [\<lparr>ps_name = ''old'', ps_ready = True, ps_containers = [(None, 0)]\<rparr>,
     \<lparr>ps_name = ''new'', ps_ready = False, ps_containers = [(Some ''CrashLoopBackOff'', 5)]\<rparr>], ht_logs = [], ht_elapsed = 3\<rparr>"

theorem ready_pod_hides_crash_witness:
  "crash_of (the (ht_pods rolling_turn)) = Some (''CrashLoopBackOff'', ''new'')
   \<and> (\<exists>w'. monitor_deploy_health [rolling_turn] 15 10 3 deploy_world = (Inr DeployedRunning, w'))"
proof -
  have c: "crash_of (the (ht_pods rolling_turn)) = Some (''CrashLoopBackOff'', ''new'')"
    by (simp add: rolling_turn_def crash_of_def container_crash_def crash_reasons_def)
  have "faults deploy_world = []" "ht_pods rolling_turn = Some (the (ht_pods rolling_turn))" "healthy_of (the (ht_pods rolling_turn))"
    by (simp_all add: deploy_world_def base_world_def rolling_turn_def healthy_of_def)
  from ready_pod_hides_crash [OF this c, of "[]" 15 10 3] c show ?thesis by blast
qed

text \<open>
  A process that starts settles every instance with the status \<open>building\<close>. Where an earlier version of the
  application is deployed, a rebuild that another process has only queued is recorded as succeeded and deployed, and the
  instance as running, although nothing was built.
\<close>

theorem startup_settles_unbuilt_build:
  assumes ok: "faults w = []" "\<forall>n m. k8s_reply w n \<noteq> Refused m"
    and build: "latest_build i (db w) = Some b" "ab_status b = ''queued''"
  shows "\<exists>w'. reconcile_one_stuck_instance i name ws w = (Inr (), w')
    \<and> (\<forall>r \<in> set (app_builds (db w')). ab_id r = ab_id b \<longrightarrow> ab_status r = ''succeeded'' \<and> ab_phase r = ''deployed'')
    \<and> (\<forall>x \<in> set (app_instances (db w')). ai_id x = i \<longrightarrow> ai_status x = Running)"
proof -
  let ?w1 = "w\<lparr>k8s_calls := k8s_calls w @ [GetDeployment (ws_namespace ws) name]\<rparr>"
  have there: "workload_exists (ws_namespace ws) name w = (Inr True, ?w1)"
    using ok by (simp add: workload_exists_def step_simps not_refused)
  obtain w2 where status: "set_status i Running ?w1 = (Inr (), w2)"
    and w2: "faults w2 = []" "\<forall>x \<in> set (app_instances (db w2)). ai_id x = i \<longrightarrow> ai_status x = Running"
      "\<exists>c. latest_build i (db w2) = Some c \<and> ab_id c = ab_id b \<and> ab_status c = ''queued''"
  proof -
    let ?p = "\<lambda>r. ab_id r = ab_id b \<and> ab_phase r \<notin> {''cancelled'', ''superseded'', ''timed_out''}"
    obtain w2 where w2: "set_status i Running ?w1 = (Inr (), w2)" "faults w2 = []"
      "db w2 = update_latest i (\<lambda>b. ab_phase b \<notin> {''cancelled'', ''superseded'', ''timed_out''}) (\<lambda>b. b\<lparr>ab_phase := ''running''\<rparr>)
         (update_instance i (\<lambda>x. x\<lparr>ai_status := Running, ai_updated_at := clock w\<rparr>) (db w))"
      and running: "\<forall>x \<in> set (app_instances (db w2)). ai_id x = i \<longrightarrow> ai_status x = Running"
      using status_running_run [of ?w1 i] ok(1) by auto
    have same: "latest_build i (update_instance i f (db w)) = Some b" for f
      using build by (simp add: latest_build_def update_instance_def)
    have "\<exists>c. latest_build i (db w2) = Some c \<and> ab_id c = ab_id b \<and> ab_status c = ''queued''"
      using build by (simp add: w2(3) update_latest_def same latest_build_update)
    with that w2 running show ?thesis by blast
  qed
  then obtain c where c: "latest_build i (db w2) = Some c" "ab_id c = ab_id b" "ab_status c = ''queued''" by blast
  let ?w3 = "w2\<lparr>db := (db w2)\<lparr>app_builds := updateWhere (\<lambda>r. ab_id r = ab_id c) (settle_build True) (app_builds (db w2))\<rparr>\<rparr>"
  have "reconcile_one_stuck_instance i name ws w = (Inr (), ?w3)"
    using w2(1) c by (simp add: reconcile_one_stuck_instance_def andThen_run [where m = "workload_exists (ws_namespace ws) name", OF there]
      andThen_run [where m = "set_status i Running", OF status] step_simps)
  moreover have "\<forall>r \<in> set (app_builds (db ?w3)). ab_id r = ab_id b \<longrightarrow> ab_status r = ''succeeded'' \<and> ab_phase r = ''deployed''"
    by (auto simp: set_updateWhere settle_build_def c(2))
  ultimately show ?thesis using w2(2) by (intro exI conjI) (assumption | simp)+
qed

definition restarting_world :: world where
  "restarting_world = deploy_world\<lparr>db := (db deploy_world)\<lparr>app_builds := [\<lparr>ab_id = 7, ab_app_id = 14, ab_app_instance_id = 15,
     ab_status = ''queued'', ab_phase = ''queued'', ab_failure_reason = None, ab_failure_category = None, ab_duration_sec = None,
     ab_image_tag = None, ab_commit_message = None, ab_commit_sha = None, ab_created_at = 0\<rparr>]\<rparr>\<rparr>"

theorem startup_settles_unbuilt_build_witness:
  "\<exists>w'. reconcile_one_stuck_instance 15 ''c'' 10 restarting_world = (Inr (), w')
    \<and> (\<forall>r \<in> set (app_builds (db w')). ab_id r = 7 \<longrightarrow> ab_status r = ''succeeded'' \<and> ab_phase r = ''deployed'')"
proof -
  obtain b where "latest_build 15 (db restarting_world) = Some b" "ab_status b = ''queued''" "ab_id b = 7"
    by (simp add: restarting_world_def latest_build_def selectWhere_def)
  moreover have "faults restarting_world = []" "\<forall>n m. k8s_reply restarting_world n \<noteq> Refused m"
    by (simp_all add: restarting_world_def deploy_world_def base_world_def)
  ultimately show ?thesis using startup_settles_unbuilt_build [of restarting_world 15 b "''c''" 10] by auto
qed

section \<open>The port of a deployed application\<close>

lemma port_default: "list_all (\<lambda>(k, _). k \<noteq> ''PORT'') envs \<Longrightarrow> (''PORT'', show_int p) \<in> set (fst (apply_runtime_port_defaults envs p))"
  by (auto simp: apply_runtime_port_defaults_def Let_def list_ex_iff list_all_iff)

text \<open>
  A deployment gives an application that sets no \<open>PORT\<close> of its own the one its service and its probe expect. A
  change of any variable reloads it with an environment that lacks it: the secret the application reads is replaced by the bare
  variables and the application restarted.
\<close>

theorem hot_reload_drops_port:
  assumes ok: "faults w = []" "\<forall>n m. k8s_reply w n \<noteq> Refused m"
    and row: "firstWhere (\<lambda>x. ai_id x = i \<and> ai_status x = Running) (app_instances (db w)) = Some x"
      "firstWhere (\<lambda>a. a_id a = ai_app_id x) (apps (db w)) = Some a" "\<not> ai_knative_enabled x"
    and env: "resolve_instance_env i w = (Inr env, w)" "list_all (\<lambda>(k, _). k \<noteq> ''PORT'') env"
  shows "hot_reload_if_running i w = (Inr (), w\<lparr>k8s_calls := k8s_calls w @ [GetClient,
       CreateSecret (ws_namespace (a_workspace_id a)) (ai_container_name x) env,
       RestartDeployment (ws_namespace (a_workspace_id a)) (ai_container_name x)]\<rparr>)
    \<and> (\<exists>img envs binds cpu mem mn mx target. desired_app w x a tag = DeployApp (ws_namespace (a_workspace_id a)) (ai_container_name x)
         img (ai_internal_port x) envs binds cpu mem mn mx target \<and> (''PORT'', show_int (ai_internal_port x)) \<in> set envs)"
proof
  have id: "ai_id x = i" using firstWhere_Some [OF row(1)] by simp
  show "\<exists>img envs binds cpu mem mn mx target. desired_app w x a tag = DeployApp (ws_namespace (a_workspace_id a)) (ai_container_name x)
      img (ai_internal_port x) envs binds cpu mem mn mx target \<and> (''PORT'', show_int (ai_internal_port x)) \<in> set envs"
    using port_default [OF env(2)] by (simp add: desired_app_def id env(1))
  show "hot_reload_if_running i w = (Inr (), w\<lparr>k8s_calls := k8s_calls w @ [GetClient,
       CreateSecret (ws_namespace (a_workspace_id a)) (ai_container_name x) env,
       RestartDeployment (ws_namespace (a_workspace_id a)) (ai_container_name x)]\<rparr>)"
    using ok row by (simp add: hot_reload_if_running_def hot_reload_instance_envs_def step_simps Let_def not_refused k8s_do_def
      andThen_run [where m = "resolve_instance_env i", OF env(1)] andThen_assoc discard_def)
qed

theorem hot_reload_drops_port_witness:
  "hot_reload_if_running 15 deploy_world = (Inr (), deploy_world\<lparr>k8s_calls := [GetClient,
     CreateSecret (ws_namespace 10) ''c'' [], RestartDeployment (ws_namespace 10) ''c'']\<rparr>)"
proof -
  let ?x = "(sample_instance 15 14)\<lparr>ai_current_image_tag := Some ''localhost:5000/hermes-app-image:1''\<rparr>"
  have "faults deploy_world = []" "\<forall>n m. k8s_reply deploy_world n \<noteq> Refused m"
    "firstWhere (\<lambda>x. ai_id x = 15 \<and> ai_status x = Running) (app_instances (db deploy_world)) = Some ?x"
    "firstWhere (\<lambda>a. a_id a = ai_app_id ?x) (apps (db deploy_world)) = Some (sample_app 14 10)" "\<not> ai_knative_enabled ?x"
    by (simp_all add: deploy_world_def base_world_def sample_instance_def sample_app_def firstWhere_def)
  moreover have "resolve_instance_env 15 deploy_world = (Inr [], deploy_world)"
    by (simp add: resolve_instance_env_run deploy_world_def base_world_def own_vars_def linked_vars_def empty_db_def selectWhere_def finalize_def
      insert_decrypted_def)
  ultimately show ?thesis
    using hot_reload_drops_port [of deploy_world 15 ?x "sample_app 14 10" "[]"]
    by (simp add: sample_instance_def sample_app_def) (simp add: deploy_world_def base_world_def)
qed

end
