(* ===== verification/Builds_Laws.thy ===== *)
theory Builds_Laws
  imports Builds Deploys_Laws
begin

text \<open>
  Facts about the builds: a build ends within the turns its deadline allows, an older build of the
  same instance never runs once a newer one is queued, the secrets of a build do not outlive it
  (but for one path), and the category of a failure is one the documentation of the builds lists.
\<close>

section \<open>A build ends\<close>

lemma build_phase_db_answers: "\<exists>p w'. build_phase_db b w = (Inr p, w')"
  by (auto simp: build_phase_db_def orElse_def split: prod.splits sum.splits)

lemma set_build_phase_answers: "\<exists>w'. set_build_phase b ws a p w = (Inr (), w')"
  by (auto simp: set_build_phase_def andThen_def discard_def broadcast_event_def modifyState_def split: prod.splits)

lemma enter_building_answers: "\<exists>s w'. enter_building b ws a s0 pod w = (Inr s, w')"
  using set_build_phase_answers [of b ws a "''building''" w]
  by (auto simp: enter_building_def andThen_def ret_def)

lemma watch_build_ends:
  "\<exists>t \<in> set turns. BUILD_TIMEOUT \<le> bt_elapsed t \<Longrightarrow>
    \<exists>e w'. watch_build b ws a turns s w = (Inr (Some e), w')"
proof (induction turns arbitrary: s w)
  case Nil
  then show ?case by simp
next
  case (Cons t turns)
  show ?case
  proof (cases "BUILD_TIMEOUT \<le> bt_elapsed t")
    case True
    then show ?thesis by (simp add: ret_def)
  next
    case False
    with Cons.prems have later: "\<exists>t \<in> set turns. BUILD_TIMEOUT \<le> bt_elapsed t" by auto
    note IH = Cons.IH [OF later]
    obtain p w1 where phase: "build_phase_db b (w\<lparr>db := bt_others t (db w)\<rparr>) = (Inr p, w1)"
      using build_phase_db_answers by blast
    show ?thesis
    proof (cases "p \<in> {Some ''cancelled'', Some ''superseded''}")
      case True
      with False phase show ?thesis by (auto simp: others_def modifyState_def andThen_def ret_def)
    next
      case going: False
      show ?thesis
      proof (cases "bt_pod t")
        case None
        with False phase going show ?thesis by (auto simp: others_def modifyState_def andThen_def ret_def)
      next
        case (Some v)
        show ?thesis
        proof (cases v)
          case None
          with Some False phase going IH show ?thesis by (auto simp: others_def modifyState_def andThen_def)
        next
          case (Some pod)
          obtain s1 w2 where entered: "enter_building b ws a s pod w1 = (Inr s1, w2)"
            using enter_building_answers by blast
          from Some \<open>bt_pod t = Some v\<close> False phase going entered IH [of s1 w2] show ?thesis
            by (auto simp: others_def modifyState_def andThen_def ret_def)
        qed
      qed
    qed
  qed
qed

text \<open>
  C9. The loop that waits for the builder pod sleeps two seconds in each turn. With a clock that does advance
  by that much, 451 turns are enough for it to return, whatever the pod, the tables and the cluster do:
  a build never waits longer than its 15 minutes.
\<close>

theorem build_wait_terminates:
  assumes turns: "451 \<le> length turns"
    and clock: "\<forall>k < length turns. 2 * int k \<le> bt_elapsed (turns ! k)"
  shows "\<exists>e w'. watch_build b ws a turns False w = (Inr (Some e), w')"
proof (rule watch_build_ends)
  have "BUILD_TIMEOUT \<le> bt_elapsed (turns ! 450)"
    using clock turns by (force simp: BUILD_TIMEOUT_def dest!: spec [of _ 450])
  with turns show "\<exists>t \<in> set turns. BUILD_TIMEOUT \<le> bt_elapsed t" by force
qed

theorem build_wait_terminates_witness:
  "\<exists>e w'. watch_build 1 2 3 (map (\<lambda>k. \<lparr>bt_elapsed = 2 * int k, bt_others = id, bt_pod = Some None\<rparr>) [0..<451]) False base_world
     = (Inr (Some e), w')"
  by (rule build_wait_terminates) (simp_all del: upt_Suc)

section \<open>The secrets of a build\<close>

definition after_call :: "k8s_call \<Rightarrow> (string \<times> string) set \<Rightarrow> (string \<times> string) set" where
  "after_call c S = (case c of CreateSecret ns n _ \<Rightarrow> insert (ns, n) S | DeleteSecret ns n \<Rightarrow> S - {(ns, n)} | _ \<Rightarrow> S)"

text \<open>The secrets, by namespace and name, that were asked for and not deleted since.\<close>

definition open_secrets :: "k8s_call list \<Rightarrow> (string \<times> string) set" where
  "open_secrets calls = fold after_call calls {}"

lemma open_secrets_snoc: "open_secrets (cs @ [c]) = after_call c (open_secrets cs)"
  by (simp add: open_secrets_def)

abbreviation secrets_within :: "(string \<times> string) set \<Rightarrow> world \<Rightarrow> bool" where
  "secrets_within L w \<equiv> open_secrets (k8s_calls w) \<subseteq> L"

named_theorems secret_intros \<open>an action opens no secret\<close>

interpretation secrets: plain_calls "\<lambda>cs. open_secrets cs \<subseteq> L" for L
  by unfold_locales (auto simp: open_secrets_snoc after_call_def creates_secret_def split: k8s_call.splits)

lemma within_k8s [secret_intros]: "\<not> creates_secret c \<Longrightarrow> keeps (secrets_within L) (k8s c)"
  by (rule secrets.k8s_plain)

lemma within_others [secret_intros]: "keeps (secrets_within L) (others f)"
  by (simp add: keeps_def others_def modifyState_def)

lemmas build_steps = build_phase_db_def set_build_phase_def set_status_def update_status_def fail_instance_def others_def
  enter_building_def record_end_def promote_build_def fail_before_pod_def replace_pod_def clone_token_def
  ssh_entry_def import_port_def import_envs_def seed_env_def import_volume_def import_detected_def finish_success_def

lemma answers_await_gone [answer_intros]: "answers (await_gone n ns pod)"
  by (induction n) (auto intro!: answer_intros split: k8s_answer.split)

lemma within_await_gone [secret_intros]: "keeps (secrets_within L) (await_gone n ns pod)"
  by (induction n) (auto intro!: keeps_intros calls_intros secret_intros simp: creates_secret_def split: k8s_answer.split)

lemma answers_build_steps [answer_intros]:
  "answers (build_phase_db b)" "answers (set_build_phase b ws a p)" "answers (fail_instance i)"
  "answers (enter_building b ws a s pod)" "answers (record_end b ws a e c r d)" "answers (promote_build b m)"
  "answers (fail_before_pod b m i cat reason d)" "answers (replace_pod ns pname l q cc)" "answers (clone_token cr gt repo)"
  "answers (ssh_entry key kv)" "answers (finish_success orc b m i tag logs)" "answers (others f)"
  unfolding build_steps by (intro answer_intros)+

lemma within_build_steps [secret_intros]:
  "keeps (secrets_within L) (build_phase_db b)" "keeps (secrets_within L) (set_build_phase b ws a p)"
  "keeps (secrets_within L) (fail_instance i)" "keeps (secrets_within L) (enter_building b ws a s pod)"
  "keeps (secrets_within L) (record_end b ws a e c r d)" "keeps (secrets_within L) (promote_build b m)"
  "keeps (secrets_within L) (fail_before_pod b m i cat reason d)" "keeps (secrets_within L) (replace_pod ns pname l q cc)"
  "keeps (secrets_within L) (clone_token cr gt repo)" "keeps (secrets_within L) (ssh_entry key kv)"
  "keeps (secrets_within L) (finish_success orc b m i tag logs)"
  unfolding build_steps by (intro keeps_intros secret_intros calls_intros secrets.deploy_calls; simp add: creates_secret_def)+

lemma within_create:
  "achieves (secrets_within L) (k8s (CreateSecret ns n d)) (\<lambda>_. secrets_within (L \<union> {(ns, n)}))"
  by (auto simp: achieves_def k8s_def open_secrets_snoc after_call_def)

lemma within_delete:
  "achieves (secrets_within (L \<union> Pair ns ` set (n # names))) (k8s (DeleteSecret ns n)) (\<lambda>_. secrets_within (L \<union> Pair ns ` set names))"
  by (auto simp: achieves_def k8s_def open_secrets_snoc after_call_def)

lemma delete_secrets_closes:
  "achieves (secrets_within (L \<union> Pair ns ` set names)) (delete_secrets ns names) (\<lambda>_. secrets_within L)"
proof (induction names)
  case Nil
  then show ?case by (simp add: delete_secrets_def achieves_ret)
next
  case (Cons n names)
  then show ?case
    unfolding delete_secrets_def forEach.simps
    by (intro achieves_andThen [OF achieves_andThen [OF within_delete]] achieves_ret)
qed

lemma delete_secrets_run:
  "delete_secrets ns names w = (Inr (), w\<lparr>k8s_calls := k8s_calls w @ map (DeleteSecret ns) names\<rparr>)"
proof (induction names arbitrary: w)
  case Nil
  then show ?case by (simp add: delete_secrets_def ret_step)
next
  case (Cons n names)
  then show ?case by (simp add: delete_secrets_def step_simps andThen_assoc)
qed

lemma create_then_name:
  "achieves (secrets_within L) (andThen (k8s (CreateSecret ns n d)) (\<lambda>_. ret [n])) (\<lambda>s. secrets_within (L \<union> Pair ns ` set s))"
  by (rule achieves_andThen [OF within_create]) (simp add: achieves_ret)

lemma no_name: "achieves (secrets_within L) (ret []) (\<lambda>s. secrets_within (L \<union> Pair ns ` set s))"
  by (simp add: achieves_ret)

lemma registry_secret_opens:
  "achieves (secrets_within L) (registry_secret docker_config ns b) (\<lambda>s. secrets_within (L \<union> Pair ns ` set s))"
  unfolding registry_secret_def Let_def
  by (rule achieves_after) (auto intro: answer_intros keeps_intros create_then_name no_name split: option.split)

lemma ssh_secret_opens:
  "achieves (secrets_within L) (ssh_secret ns p b) (\<lambda>s. secrets_within (L \<union> Pair ns ` set s))"
  unfolding ssh_secret_def Let_def
  by (intro achieves_after answer_intros keeps_intros secret_intros calls_intros) (auto intro: create_then_name no_name)

lemma git_secret_opens:
  "achieves (secrets_within L) (git_secret ns cr gt repo b) (\<lambda>s. secrets_within (L \<union> Pair ns ` set s))"
  unfolding git_secret_def Let_def
  by (intro achieves_after answer_intros secret_intros) (auto intro: create_then_name no_name split: option.split)

lemma finish_build_closes:
  "achieves (secrets_within (L \<union> Pair (ws_namespace (bm_workspace_id m)) ` set secrets))
     (finish_build orc b m i tag secrets e) (\<lambda>_. secrets_within L)"
proof -
  have tail: "answers (k8s c)" for c by (rule answer_intros)
  have end_ok: "achieves (secrets_within L)
      (case diagnosis e (bo_report orc) of None \<Rightarrow> ret Panicked
       | Some (category, reason) \<Rightarrow>
           andThen (record_end b (bm_workspace_id m) (bm_app_id m) e category reason (br_duration (bo_report orc))) (\<lambda>_.
           if e = BuildSucceeded then
             andThen (finish_success orc b m i tag (br_cloner_logs (bo_report orc))) (\<lambda>d.
             ret (if d = StillWaiting then Deploying else Finished e))
           else andThen (fail_instance i) (\<lambda>_. ret (Finished e)))) (\<lambda>_. secrets_within L)"
    by (auto split: option.split intro!: achieves_keeps answer_intros keeps_intros secret_intros calls_intros)
  show ?thesis
  proof (cases "e = BuildCancelled")
    case True
    then show ?thesis
      by (auto simp: finish_build_def Let_def intro!: achieves_andThen [OF delete_secrets_closes] achieves_ret)
  next
    case False
    then show ?thesis unfolding finish_build_def Let_def if_not_P [OF False]
      by (intro achieves_after [OF tail within_k8s] achieves_andThen [OF delete_secrets_closes] end_ok) (simp add: creates_secret_def)
  qed
qed

lemma watch_build_keeps_secrets [secret_intros]:
  "keeps (secrets_within L) (watch_build b ws a turns s)"
  by (induction turns arbitrary: s) (auto intro!: keeps_intros secret_intros split: option.split)

lemma watch_build_answers [answer_intros]: "answers (watch_build b ws a turns s)"
  by (induction turns arbitrary: s) (auto intro!: answer_intros split: option.split)

definition secrets_closed :: "build_oracle \<Rightarrow> (string \<times> string) set \<Rightarrow> build_run \<Rightarrow> world \<Rightarrow> bool" where
  "secrets_closed orc L r w \<longleftrightarrow> r = Watching \<or> r = NoPod \<and> bo_manifest orc \<noteq> None \<or> secrets_within L w"

lemma run_pod_closes:
  "achieves (secrets_within (L \<union> Pair (ws_namespace (bm_workspace_id m)) ` set secrets))
     (run_pod orc b m i tag secrets limits) (secrets_closed orc L)"
proof (cases "bo_manifest orc")
  case (Some e)
  then show ?thesis unfolding run_pod_def Let_def
    by (auto split: prod.split intro!: achieves_after answer_intros secret_intros achieves_ret simp: secrets_closed_def)
next
  case None
  let ?P = "secrets_within (L \<union> Pair (ws_namespace (bm_workspace_id m)) ` set secrets)"
  have case_opt: "achieves ?P g Q \<Longrightarrow> (\<And>y. achieves ?P (f y) Q) \<Longrightarrow> achieves ?P (case_option g f x) Q"
    for g :: "build_run handler" and f :: "'x \<Rightarrow> build_run handler" and x Q
    by (cases x) auto
  have closed: "achieves ?P (andThen (delete_secrets (ws_namespace (bm_workspace_id m)) secrets) (\<lambda>_. ret NoPod)) (secrets_closed orc L)"
    by (intro achieves_andThen [OF delete_secrets_closes] achieves_ret) (simp add: secrets_closed_def)
  have finished: "achieves ?P (finish_build orc b m i tag secrets e) (secrets_closed orc L)" for e
    by (rule achieves_weaken [OF finish_build_closes]) (simp add: secrets_closed_def)
  have watching: "achieves ?P (ret Watching) (secrets_closed orc L)"
    by (rule achieves_ret) (simp add: secrets_closed_def)
  from None show ?thesis unfolding run_pod_def Let_def
    by (auto split: prod.split intro!: achieves_after [OF _ _ case_opt] achieves_after [OF _ _ achieves_after [OF _ _ case_opt]]
      achieves_after [OF _ _ closed] answer_intros secret_intros finished watching)
qed


section \<open>Why a build failed\<close>

definition build_failure_categories :: "string list" where
  "build_failure_categories = [''TIMEOUT'', ''BUILD_OOM'', ''BUILD_EVICTED'', ''BUILD_KILLED'', ''GIT_AUTH'', ''BRANCH_MISSING'',
     ''REPO_NOT_FOUND'', ''NETWORK'', ''CLONE_FAILED'', ''NO_DOCKERFILE'', ''REGISTRY_AUTH'', ''REGISTRY'', ''BUILD_COMMAND'', ''UNKNOWN'']"

lemma explained_stage:
  "memory_failure kl ke pr pm kr = Some (c, reason) \<Longrightarrow> c \<in> set build_failure_categories \<and> reason \<noteq> []"
  "vanished_failure kl ce ke kr = Some (c, reason) \<Longrightarrow> c \<in> set build_failure_categories \<and> reason \<noteq> []"
  "clone_failure cl klogs ce = Some (c, reason) \<Longrightarrow> c \<in> set build_failure_categories \<and> reason \<noteq> []"
  unfolding memory_failure_def vanished_failure_def clone_failure_def build_failure_categories_def
  by (simp split: if_splits; clarsimp)+

lemma explained_image_failure:
  "image_failure klogs kl ke kr pr = Some (c, reason) \<Longrightarrow> c \<in> set build_failure_categories \<and> reason \<noteq> []"
  unfolding image_failure_def build_failure_categories_def unknown_reason_def
  by (cases "error_detail klogs") (simp split: if_splits; auto)+

lemma classified_category:
  assumes "classify_build_failure cl kl ce ke pr pm kr = Some (c, reason)"
  shows "c \<in> set build_failure_categories \<and> reason \<noteq> []"
  using assms unfolding classify_build_failure_def Let_def
  by (auto split: option.splits dest: explained_stage explained_image_failure)

lemma timeout_category: "''TIMEOUT'' \<in> set build_failure_categories"
  by (simp add: build_failure_categories_def)


definition oom_report :: build_report where
  "oom_report = \<lparr>br_cloner_logs = ''Cloning into app'', br_kaniko_logs = ''RUN npm run build'', br_cloner_exit = Some 0,
     br_kaniko_exit = Some 137, br_pod_reason = None, br_pod_message = None, br_kaniko_reason = None, br_duration = 40\<rparr>"


text \<open>
  A failed build command whose last error lines have a multi-byte character across byte 300 makes the classification panic: the
  pod and the secrets are gone, but the tables are as before, so the build keeps the status \<open>building\<close>
  and its instance stays where it was.
\<close>

theorem panic_leaves_build_unsettled:
  assumes faults: "faults w = []" and panic: "diagnosis e (bo_report orc) = None" and going: "e \<noteq> BuildCancelled"
  shows "\<exists>w'. finish_build orc b m i tag secrets e w = (Inr Panicked, w') \<and> db w' = db w \<and> events w' = events w
    \<and> DeletePod (ws_namespace (bm_workspace_id m)) (builder_pod_name i) \<in> set (k8s_calls w')"
proof -
  show ?thesis using panic going
    by (simp add: finish_build_def Let_def step_simps andThen_run [OF delete_secrets_run])
qed

definition cut_log :: string where
  "cut_log = ''error build failed '' @ replicate 280 (CHR ''a'') @ [CHR 0xC4, CHR 0x83]"

definition cut_report :: build_report where
  "cut_report = oom_report\<lparr>br_kaniko_logs := cut_log, br_kaniko_exit := Some 1\<rparr>"

lemma contains_replicate: "p \<noteq> [] \<Longrightarrow> hd p \<noteq> c \<Longrightarrow> contains p (replicate n c @ t) = contains p t"
  by (induction n) (auto simp: starts_with_def neq_Nil_conv)

lemma contains_Cons: "contains (a # p) (c # t) \<longleftrightarrow> (a = c \<and> starts_with p t) \<or> contains (a # p) t"
  by (auto simp: starts_with_def)

lemma starts_with_step:
  "starts_with [] t = True" "starts_with (a # p) [] = False" "starts_with (a # p) (c # t) \<longleftrightarrow> a = c \<and> starts_with p t"
  by (auto simp: starts_with_def)

lemma split_on_none: "d \<notin> set s \<Longrightarrow> split_on d s = [s]"
  by (induction s) auto

lemma cut_log_text:
  "to_lowercase cut_log = cut_log" "lines_of cut_log = [cut_log]" "trim cut_log \<noteq> []"
  by (simp_all add: to_lowercase_def cut_log_def char_lower_def is_upper_def code_def lines_of_def split_on_none
    without_cr_def trim_def trim_matches_def is_whitespace_def)

lemmas cut_log_says = says_def cut_log_def contains_Cons starts_with_step contains_replicate

lemma cut_log_detail: "error_detail cut_log = None"
  by (simp add: error_detail_def last_lines_def cut_log_text says_def join_def truncate_at_def)
    (simp add: cut_log_says truncate_at_def nth_append continuation_byte_def code_def)

lemma cut_log_panics: "classify_build_failure cl cut_log (Some 0) (Some 1) None None None = None"
  by (simp add: classify_build_failure_def cut_log_text memory_failure_def killed_inside_def vanished_failure_def
    clone_failure_def clone_failed_def image_failure_def cut_log_detail command_failed_def) (simp add: cut_log_says)

definition plain_oracle :: "build_report \<Rightarrow> build_oracle" where
  "plain_oracle r = \<lparr>bo_docker_config = (\<lambda>_ _ _. []), bo_used_mem = 0, bo_commit = None, bo_session = 1, bo_slot_turns = 1,
     bo_meanwhile = id, bo_manifest = None, bo_turns = [], bo_report = r, bo_health = []\<rparr>"

definition plain_meta :: build_meta where
  "plain_meta = \<lparr>bm_app_id = 2, bm_project_id = 3, bm_workspace_id = 4, bm_github_token = None, bm_git_credential_id = None\<rparr>"

theorem panic_leaves_build_unsettled_witness:
  "\<exists>w'. finish_build (plain_oracle cut_report) 1 plain_meta 5 ''tag'' [''s''] BuildFailed base_world
     = (Inr Panicked, w') \<and> db w' = db base_world"
proof -
  have "diagnosis BuildFailed (bo_report (plain_oracle cut_report)) = None"
    by (simp add: plain_oracle_def diagnosis_def cut_report_def oom_report_def cut_log_panics)
  moreover have "faults base_world = []" by (simp add: base_world_def)
  ultimately show ?thesis using panic_leaves_build_unsettled [of base_world BuildFailed "plain_oracle cut_report"] by blast
qed

section \<open>The newest build of an instance\<close>

lemma superseded_run:
  "build_phase_db b w = (Inr (Some ''superseded''), w) \<Longrightarrow> run_in_slot orc b m i tag repo limits w = (Inr Superseded, w)"
  by (simp add: run_in_slot_def Let_def andThen_def ret_def)

lemma superseded_watch:
  "build_phase_db b w = (Inr (Some ''superseded''), w) \<Longrightarrow> bt_elapsed t < BUILD_TIMEOUT \<Longrightarrow> bt_others t = id \<Longrightarrow>
    watch_build b ws a (t # ts) s w = (Inr (Some BuildCancelled), w)"
  by (simp add: others_def modifyState_def andThen_def ret_def)

lemma superseded_phase:
  assumes faults: "faults w = []" and row: "firstWhere (\<lambda>r. ab_id r = old) (app_builds (db w)) = Some r"
    and phase: "ab_phase r \<in> {''cancelled'', ''superseded''}"
  shows "build_phase_db old w = (Inr (Some (ab_phase r)), w)"
  using row by (simp add: build_phase_db_def orElse_def fetch_ok [OF faults])

text \<open>
  C10. The newest build wins. When it has entered the queue, no other build of its instance is queued or building;
  an older one that gets its slot returns at once, with the world as it was, and one that waits for its pod
  leaves its loop in the next turn as cancelled.
\<close>

theorem newest_build_wins:
  assumes faults: "faults w = []" and other: "old \<noteq> new"
    and row: "firstWhere (\<lambda>r. ab_id r = old) (app_builds (db w)) = Some r"
    and active: "ab_app_instance_id r = i" "ab_status r \<in> {''queued'', ''building''}"
  shows "\<exists>w1. supersede_older i new w = (Inr (), w1)
    \<and> (\<forall>x \<in> set (app_builds (db w1)). ab_app_instance_id x = i \<and> ab_status x \<in> {''queued'', ''building''} \<longrightarrow> ab_id x = new)
    \<and> run_in_slot orc old m i tag repo limits w1 = (Inr Superseded, w1)
    \<and> (bt_elapsed t < BUILD_TIMEOUT \<longrightarrow> bt_others t = id \<longrightarrow> watch_build old ws a (t # ts) s w1 = (Inr (Some BuildCancelled), w1))"
proof -
  let ?w1 = "w\<lparr>db := (db w)\<lparr>app_builds := updateWhere
     (\<lambda>r. ab_app_instance_id r = i \<and> ab_id r \<noteq> new \<and> ab_status r \<in> {''queued'', ''building''})
     (\<lambda>r. r\<lparr>ab_status := ''superseded'', ab_phase := ''superseded''\<rparr>) (app_builds (db w))\<rparr>\<rparr>"
  have run: "supersede_older i new w = (Inr (), ?w1)"
    by (simp add: supersede_older_def step_simps faults)
  have id: "ab_id r = old" using row by (auto simp: firstWhere_def find_Some_iff)
  have phase: "build_phase_db old ?w1 = (Inr (Some ''superseded''), ?w1)"
    using superseded_phase [of ?w1 old "r\<lparr>ab_status := ''superseded'', ab_phase := ''superseded''\<rparr>"] faults row active other id
    by (simp add: firstWhere_updateWhere)
  let ?active = "\<lambda>x. ab_app_instance_id x = i \<and> ab_status x \<in> {''queued'', ''building''}"
  have only: "\<forall>x \<in> set (app_builds (db ?w1)). ?active x \<longrightarrow> ab_id x = new"
  proof (intro ballI impI)
    fix x assume "x \<in> set (app_builds (db ?w1))" and x: "?active x"
    then have "(\<exists>y :: app_build. x = y\<lparr>ab_status := ''superseded'', ab_phase := ''superseded''\<rparr>) \<or> \<not> (?active x \<and> ab_id x \<noteq> new)"
      using updateWhere_leaves by fastforce
    with x show "ab_id x = new" by auto
  qed
  note stopped = superseded_run [OF phase] superseded_watch [OF phase]
  from run only stopped show ?thesis by blast
qed

definition queued_build :: "uuid \<Rightarrow> uuid \<Rightarrow> app_build" where
  "queued_build b i = \<lparr>ab_id = b, ab_app_id = 2, ab_app_instance_id = i, ab_status = ''queued'', ab_phase = ''queued'',
     ab_failure_reason = None, ab_failure_category = None, ab_duration_sec = None, ab_image_tag = None,
     ab_commit_message = None, ab_commit_sha = None, ab_created_at = 0\<rparr>"

definition two_builds :: world where
  "two_builds = base_world\<lparr>db := empty_db\<lparr>app_builds := [queued_build 7 5, queued_build 8 5]\<rparr>\<rparr>"

theorem newest_build_wins_witness:
  "\<exists>w1. supersede_older 5 8 two_builds = (Inr (), w1) \<and> 
     run_in_slot (plain_oracle oom_report) 7 plain_meta 5 ''tag'' ''repo'' (0, 0) w1 = (Inr Superseded, w1)"
proof -
  have "faults two_builds = []" "firstWhere (\<lambda>r. ab_id r = 7) (app_builds (db two_builds)) = Some (queued_build 7 5)"
    "ab_app_instance_id (queued_build 7 5) = 5" "ab_status (queued_build 7 5) \<in> {''queued'', ''building''}"
    by (simp_all add: two_builds_def queued_build_def base_world_def firstWhere_def)
  with newest_build_wins [of two_builds 7 8 "queued_build 7 5" 5 "plain_oracle oom_report" plain_meta "''tag''" "''repo''" "(0, 0)"] show ?thesis by fastforce
qed

end
