(* ===== verification/Apps.thy ===== *)
theory Apps
  imports Builds Workspaces Job_Queue
begin

text \<open>
  The applications of \<open>controllers/app_controller.rs\<close>: creation of an application and of further branch
  instances, the life of an instance (stop, start, redeploy, reload, settings, deletion), its builds
  (cancel, roll back, retry), and the GitHub webhook that rebuilds, previews and removes instances.
  Streams of logs and statistics, metrics and screenshots only read and are left out. What GitHub answers to the
  registration of a webhook, the MAC of a delivery and the decoded document are arguments.
\<close>

section \<open>Names and ports\<close>

definition sanitize_k8s_name :: "string \<Rightarrow> string" where
  "sanitize_k8s_name name =
     map_chars (\<lambda>c. if is_ascii_alphanumeric c \<or> c = CHR ''-'' \<or> c = CHR ''.'' then char_lower c else CHR ''-'') name"

definition rand_u32 :: "nat handler" where
  "rand_u32 w = (Inr (random_u32 w (drawn w) mod 2 ^ 32), w\<lparr>drawn := Suc (drawn w)\<rparr>)"

primrec port_tries :: "nat \<Rightarrow> int handler" where
  "port_tries 0 = raise (Fatal (FromText ''Could not allocate a free external port after 100 attempts.''))"
| "port_tries (Suc n) =
     andThen rand_u32 (\<lambda>r.
     let port = int (r mod 10000 + 20000) in
     andThen (query (fetch (\<lambda>w. existsWhere (\<lambda>x. ai_external_port x = Some port) (app_instances (db w))))) (\<lambda>port_in_use_apps.
     andThen (query (fetch (\<lambda>w. existsWhere (\<lambda>d. ds_external_port d = Some port \<and> ds_is_external d) (databases (db w))))) (\<lambda>port_in_use_dbs.
     if \<not> port_in_use_apps \<and> \<not> port_in_use_dbs then ret port else port_tries n)))"

definition get_random_available_port :: "int handler" where
  "get_random_available_port = port_tries 100"

text \<open>The port of a request: taken as it is when positive.\<close>

definition chosen_port :: "int option \<Rightarrow> int handler" where
  "chosen_port requested = (case requested of
     Some p \<Rightarrow> (if 0 < p then ret p else get_random_available_port) | None \<Rightarrow> get_random_available_port)"

definition instance_container :: "string \<Rightarrow> string \<Rightarrow> uuid \<Rightarrow> string" where
  "instance_container slug branch i =
     sanitize_k8s_name (''hermes-app-'' @ slug @ ''-'' @ branch @ ''-'' @ take 8 (uuid_str i))"

section \<open>Registering the webhook of a repository\<close>

text \<open>\<open>split\<close> by a text.\<close>

function split_by :: "string \<Rightarrow> string \<Rightarrow> string \<Rightarrow> string list" where
  "split_by p acc [] = [rev acc]"
| "split_by p acc (c # s) =
     (if p \<noteq> [] \<and> starts_with p (c # s) then rev acc # split_by p [] (drop (length p) (c # s))
      else split_by p (c # acc) s)"
  by pat_completeness auto
termination by (relation "measure (\<lambda>(p, acc, s). length s)") auto

function trim_suffixes :: "string \<Rightarrow> string \<Rightarrow> string" where
  "trim_suffixes p s =
     (if p \<noteq> [] \<and> length p \<le> length s \<and> drop (length s - length p) s = p
      then trim_suffixes p (take (length s - length p) s) else s)"
  by pat_completeness auto
termination by (relation "measure (\<lambda>(p, s). length s)") (auto simp: not_le intro!: diff_less)

declare trim_suffixes.simps [simp del]

definition owner_and_repo :: "string \<Rightarrow> (string \<times> string) option" where
  "owner_and_repo path = (case split_on (CHR ''/'') path of o1 # r # _ \<Rightarrow> Some (o1, r) | _ \<Rightarrow> None)"

definition parse_github_repo :: "string \<Rightarrow> (string \<times> string) option" where
  "parse_github_repo url =
     (let clean = trim_suffixes ''.git'' (trim url) in
      if \<not> contains ''github.com'' clean then None
      else if starts_with ''http'' clean then
        (case split_by ''github.com/'' [] clean of _ # p # _ \<Rightarrow> owner_and_repo p | _ \<Rightarrow> None)
      else if starts_with ''git@'' clean then
        (case split_on (CHR '':'') clean of _ # p # _ \<Rightarrow> owner_and_repo p | _ \<Rightarrow> None)
      else None)"

definition webhook_url :: "(string \<Rightarrow> string option) \<Rightarrow> string \<Rightarrow> string" where
  "webhook_url env h =
     (case env ''HERMES_PUBLIC_URL'' of
        Some u \<Rightarrow> trim_end_matches (\<lambda>c. c = CHR ''/'') (trim u) @ ''/api/v1/apps/webhook''
      | None \<Rightarrow>
          (case env ''HERMES_WEBHOOK_URL'' of Some u \<Rightarrow> trim u
           | None \<Rightarrow>
               (if contains ''localhost'' h \<or> contains ''127.0.0.1'' h \<or> contains ''192.168.'' h then ''http'' else ''https'')
                 @ ''://'' @ h @ ''/api/v1/apps/webhook''))"

definition github_token_for :: "uuid \<Rightarrow> uuid \<Rightarrow> uuid option \<Rightarrow> string option handler" where
  "github_token_for ws_id user_id credential =
     andThen (case credential of None \<Rightarrow> ret None
       | Some c \<Rightarrow>
           andThen (orElse (fetch (\<lambda>w. firstWhere (\<lambda>g. gt_id g = c \<and> gt_workspace_id g = ws_id) (git_credentials (db w)))) None) (\<lambda>row.
           case row of None \<Rightarrow> ret None
           | Some g \<Rightarrow>
               andThen (attempt (decrypt_env_value (gt_encrypted_token g) (gt_nonce g))) (\<lambda>t.
               ret (case t of Inl _ \<Rightarrow> None | Inr tok \<Rightarrow> Some tok)))) (\<lambda>token.
     case token of Some t \<Rightarrow> ret (Some t)
     | None \<Rightarrow> orElse (fetchOne (\<lambda>w. map_option u_github_token (firstWhere (\<lambda>u. u_id u = user_id) (users (db w))))) None)"

text \<open>\<open>outcome\<close> is the error GitHub answers, when it refuses.\<close>

definition try_register_github_webhook ::
  "string option \<Rightarrow> uuid \<Rightarrow> uuid \<Rightarrow> uuid option \<Rightarrow> string \<Rightarrow> string \<Rightarrow> uuid option \<Rightarrow> unit handler" where
  "try_register_github_webhook outcome ws_id user_id credential git_repository h inst =
     (if trim h = [] then ret ()
      else
        andThen (github_token_for ws_id user_id credential) (\<lambda>token.
        case (token, parse_github_repo git_repository) of
          (Some _, Some (owner, repo)) \<Rightarrow>
            andThen (readState (\<lambda>w. webhook_url (env_var w) h)) (\<lambda>url.
            andThen (host (RegisterHook owner repo url)) (\<lambda>_.
            case inst of None \<Rightarrow> ret ()
            | Some i \<Rightarrow> discard (execute (\<lambda>w. update_instance i (\<lambda>x. x\<lparr>ai_github_webhook := Some outcome\<rparr>) (db w)))))
        | _ \<Rightarrow> ret ()))"

section \<open>Creating an application\<close>

record create_app_request =
  cp_project_id :: uuid
  cp_name :: string
  cp_git_repository :: string
  cp_branch_name :: "string option"
  cp_build_command :: "string option"
  cp_start_command :: "string option"
  cp_internal_port :: "int option"
  cp_external_port :: "int option"
  cp_git_subpath :: "string option"
  cp_git_credential_id :: "uuid option"
  cp_env_variables :: "env_var_input list option"
  cp_linked_project_env_ids :: "uuid list option"
  cp_network_name :: "string option"
  cp_publish_url :: "bool option"
  cp_url_env_key :: "string option"

text \<open>A text that is not empty once trimmed.\<close>

definition given :: "string option \<Rightarrow> string option" where
  "given s = (case s of None \<Rightarrow> None | Some t \<Rightarrow> (if trim t = [] then None else Some (trim t)))"

definition app_slug :: "string \<Rightarrow> string" where
  "app_slug name = replace_char (CHR '' '') (CHR ''-'') (to_lowercase (trim name))"

definition app_alias :: "create_app_request \<Rightarrow> string" where
  "app_alias p = (case given (cp_network_name p) of
     Some custom \<Rightarrow> sanitize_k8s_name custom
   | None \<Rightarrow> sanitize_k8s_name (''hermes-app-'' @ app_slug (cp_name p) @ ''-'' @ default_to ''main'' (cp_branch_name p)))"

definition alias_taken :: "uuid \<Rightarrow> string \<Rightarrow> database \<Rightarrow> bool" where
  "alias_taken ws_id alias d = existsWhere (\<lambda>x. ai_network_alias x = Some alias
     \<and> existsWhere (\<lambda>a. a_id a = ai_app_id x \<and> a_workspace_id a = ws_id) (apps d)) (app_instances d)"

definition insert_app :: "app \<Rightarrow> unit handler" where
  "insert_app a = query (checked
     (\<lambda>w. if existsWhere (\<lambda>b. a_workspace_id b = a_workspace_id a \<and> a_slug b = a_slug a) (apps (db w))
          then Some (conflict_on ''unique_workspace_app_slug'')
          else (case a_git_credential_id a of None \<Rightarrow> None
                | Some c \<Rightarrow> (if existsWhere (\<lambda>g. gt_id g = c) (git_credentials (db w)) then None else Some fk_error)))
     (\<lambda>w. (db w)\<lparr>apps := insertRow a (apps (db w))\<rparr>))"

definition insert_instance :: "app_instance \<Rightarrow> unit handler" where
  "insert_instance x = query (checked
     (\<lambda>w. if existsWhere (\<lambda>y. ai_container_name y = ai_container_name x) (app_instances (db w))
          then Some (conflict_on ''app_instances_container_name_key'')
          else if existsWhere (\<lambda>y. ai_app_id y = ai_app_id x \<and> ai_branch_name y = ai_branch_name x) (app_instances (db w))
          then Some (conflict_on ''unique_app_branch'')
          else if \<not> existsWhere (\<lambda>a. a_id a = ai_app_id x) (apps (db w)) then Some fk_error else None)
     (\<lambda>w. (db w)\<lparr>app_instances := insertRow x (app_instances (db w))\<rparr>))"

text \<open>A row with the defaults of the columns.\<close>

definition new_instance :: "uuid \<Rightarrow> uuid \<Rightarrow> string \<Rightarrow> app_instance_type \<Rightarrow> int \<Rightarrow> string \<Rightarrow> int \<Rightarrow> instant \<Rightarrow> app_instance" where
  "new_instance i a branch t port container ext_port created = \<lparr>ai_id = i, ai_app_id = a, ai_branch_name = branch,
     ai_instance_type = t, ai_status = Building, ai_internal_port = port, ai_external_port = Some ext_port, ai_port_is_auto = True,
     ai_container_name = container, ai_cpu_limit = Some 0, ai_memory_limit_mb = Some 0, ai_replicas_min = 1, ai_replicas_max = 1,
     ai_knative_enabled = False, ai_auto_sleep_enabled = False, ai_auto_sleep_after_minutes = 30,
     ai_health_check_path = Some ''/'', ai_consecutive_health_failures = 0, ai_autoscale_cpu_percent = 80,
     ai_assigned_domain = None, ai_current_image_tag = None, ai_updated_at = created, ai_network_alias = None,
     ai_env_seeded = False, ai_knative_scaling = (None, None, None), ai_github_webhook = None\<rparr>"

definition set_column :: "uuid \<Rightarrow> (app_instance \<Rightarrow> app_instance) \<Rightarrow> unit handler" where
  "set_column i f = query (execute (\<lambda>w. update_instance i f (db w)))"

definition publish_app_url :: "uuid \<Rightarrow> uuid \<Rightarrow> create_app_request \<Rightarrow> int \<Rightarrow> unit handler" where
  "publish_app_url ws_id app_id p internal_port =
     (if cp_publish_url p = Some False then ret ()
      else
        let url = ''http://'' @ app_alias p @ '':'' @ show_int internal_port;
            key = (case given (cp_url_env_key p) of Some k \<Rightarrow> to_uppercase k
                   | None \<Rightarrow> sanitize_key_fragment (app_slug (cp_name p)) ''APP'' @ ''_URL'') in
        discard (publish_project_env ws_id (cp_project_id p) key url False ''app'' app_id))"

definition insert_link :: "uuid \<Rightarrow> uuid \<Rightarrow> unit handler" where
  "insert_link i v = query (checked
     (\<lambda>w. if existsWhere (\<lambda>r. pv_id r = v) (project_env_variables (db w))
          \<and> existsWhere (\<lambda>x. ai_id x = i) (app_instances (db w)) then None else Some fk_error)
     (\<lambda>w. (db w)\<lparr>app_env_links := insertIfAbsent (\<lambda>l. el_app_instance_id l = i \<and> el_project_env_id l = v)
        \<lparr>el_app_instance_id = i, el_project_env_id = v\<rparr> (app_env_links (db w))\<rparr>))"

text \<open>A variable of the request: linked when the project has its key, otherwise the instance's own.\<close>

definition provision_var :: "uuid \<Rightarrow> uuid \<Rightarrow> uuid \<Rightarrow> env_var_input \<Rightarrow> unit handler" where
  "provision_var ws_id project_id i var =
     (let clean_key = replace_char (CHR '' '') (CHR ''_'') (to_uppercase (trim (vi_key var))) in
      if clean_key = [] then ret ()
      else
        andThen (query (fetch (\<lambda>w. firstWhere (\<lambda>r. pv_project_id r = project_id \<and> pv_key r = clean_key)
          (project_env_variables (db w))))) (\<lambda>project_env.
        case project_env of Some pe \<Rightarrow> insert_link i (pv_id pe)
        | None \<Rightarrow>
            andThen (encrypt_env_value (vi_value var)) (\<lambda>(encrypted_value, nonce).
            andThen new_v4 (\<lambda>v.
            query (execute (\<lambda>w. (db w)\<lparr>environment_variables :=
              insertIfAbsent (\<lambda>r. ev_app_instance_id r = i \<and> ev_key r = clean_key)
                \<lparr>ev_id = v, ev_workspace_id = ws_id, ev_app_instance_id = i, ev_key = clean_key,
                 ev_encrypted_value = encrypted_value, ev_nonce = nonce, ev_is_secret = default_to True (vi_is_secret var)\<rparr>
                (environment_variables (db w))\<rparr>))))))"

definition link_if_of_project :: "uuid \<Rightarrow> uuid \<Rightarrow> uuid \<Rightarrow> unit handler" where
  "link_if_of_project project_id i v =
     andThen (query (fetch (\<lambda>w. existsWhere (\<lambda>r. pv_id r = v \<and> pv_project_id r = project_id) (project_env_variables (db w))))) (\<lambda>belongs.
     onlyIf belongs (insert_link i v))"

definition check_credential :: "uuid \<Rightarrow> uuid option \<Rightarrow> unit handler" where
  "check_credential ws_id credential = (case credential of None \<Rightarrow> ret ()
     | Some c \<Rightarrow>
         andThen (query (fetch (\<lambda>w. existsWhere (\<lambda>g. gt_id g = c \<and> gt_workspace_id g = ws_id) (git_credentials (db w))))) (\<lambda>ok.
         rejectIf (\<not> ok) (Validation ''The git credential does not belong to this workspace.'')))"

definition new_app :: "uuid \<Rightarrow> uuid \<Rightarrow> create_app_request \<Rightarrow> app" where
  "new_app app_id ws_id p = \<lparr>a_id = app_id, a_workspace_id = ws_id, a_project_id = cp_project_id p, a_name = cp_name p,
     a_slug = app_slug (cp_name p), a_git_repository = cp_git_repository p, a_build_command = cp_build_command p,
     a_start_command = cp_start_command p,
     a_git_subpath = (case cp_git_subpath p of None \<Rightarrow> None
       | Some s \<Rightarrow> (let t = trim_matches (\<lambda>c. c = CHR ''/'') (trim s) in if t = [] then None else Some t)),
     a_git_credential_id = cp_git_credential_id p, a_tcp_udp_ports = []\<rparr>"

definition create_app ::
  "claims \<Rightarrow> string option \<Rightarrow> string option \<Rightarrow> create_app_request \<Rightarrow> (app \<times> app_instance) handler" where
  "create_app claims host_header outcome p =
     andThen (active_workspace claims) (\<lambda>ws_id.
     andThen new_v4 (\<lambda>app_id.
     andThen new_v4 (\<lambda>i.
     let branch = default_to ''main'' (cp_branch_name p);
         internal_port = default_to 3000 (cp_internal_port p);
         container = instance_container (app_slug (cp_name p)) branch i in
     andThen (chosen_port (cp_external_port p)) (\<lambda>external_port.
     andThen (query (fetch (\<lambda>w. alias_taken ws_id (app_alias p) (db w)))) (\<lambda>taken.
     andThen (rejectIf taken (Conflict (''The service name '' @ [CHR 0x27] @ app_alias p @ [CHR 0x27]
        @ '' is already used in this workspace. Choose another.''))) (\<lambda>_.
     andThen (check_credential ws_id (cp_git_credential_id p)) (\<lambda>_.
     andThen (insert_app (new_app app_id ws_id p)) (\<lambda>_.
     andThen now (\<lambda>t.
     let row = new_instance i app_id branch Production internal_port container external_port t in
     andThen (insert_instance row) (\<lambda>_.
     andThen (set_column i (\<lambda>x. x\<lparr>ai_auto_sleep_enabled := False\<rparr>)) (\<lambda>_.
     andThen (set_column i (\<lambda>x. x\<lparr>ai_network_alias := Some (app_alias p)\<rparr>)) (\<lambda>_.
     andThen (publish_app_url ws_id app_id p internal_port) (\<lambda>_.
     andThen (forEach (default_to [] (cp_env_variables p)) (provision_var ws_id (cp_project_id p) i)) (\<lambda>_.
     andThen (forEach (default_to [] (cp_linked_project_env_ids p)) (link_if_of_project (cp_project_id p) i)) (\<lambda>_.
     andThen (discard (enqueue_build i (cp_git_repository p) branch (cp_build_command p))) (\<lambda>_.
     andThen (try_register_github_webhook outcome ws_id (c_sub claims) (cp_git_credential_id p) (cp_git_repository p)
        (default_to ''localhost:3000'' host_header) (Some i)) (\<lambda>_.
     ret (new_app app_id ws_id p, row\<lparr>ai_network_alias := Some (app_alias p)\<rparr>))))))))))))))))))"

section \<open>Branch instances\<close>

record create_branch_request =
  cb_branch_name :: string
  cb_instance_type :: app_instance_type
  cb_internal_port :: "int option"
  cb_cpu_limit :: "int option"
  cb_memory_limit_mb :: "int option"
  cb_external_port :: "int option"
  cb_replicas_min :: "int option"
  cb_replicas_max :: "int option"
  cb_autoscale_cpu_percent :: "int option"
  cb_auto_sleep_enabled :: "bool option"
  cb_auto_sleep_after_minutes :: "int option"

definition find_app :: "string \<Rightarrow> uuid \<Rightarrow> uuid \<Rightarrow> app handler" where
  "find_app missing ws_id app_id =
     andThen (query (fetch (\<lambda>w. firstWhere (\<lambda>a. a_id a = app_id \<and> a_workspace_id a = ws_id) (apps (db w))))) (\<lambda>row.
     okOr (NotFound missing) row)"

definition branch_replicas :: "create_branch_request \<Rightarrow> int \<times> int" where
  "branch_replicas p = (let mn = max (default_to 1 (cb_replicas_min p)) 1 in (mn, max (default_to mn (cb_replicas_max p)) mn))"

text \<open>The checks count every replica; the products wrap at the width of the columns.\<close>

definition check_branch_quota :: "uuid \<Rightarrow> create_branch_request \<Rightarrow> int \<Rightarrow> unit handler" where
  "check_branch_quota ws_id p replicas_max =
     (let mem = default_to 0 (cb_memory_limit_mb p); cpu = default_to 0 (cb_cpu_limit p) in
      andThen (onlyIf (0 < mem) (check_workspace_memory_limit ws_id (i64 (mem * replicas_max)) None)) (\<lambda>_.
      onlyIf (0 < cpu) (check_workspace_cpu_limit ws_id (i32 (cpu * replicas_max)) None)))"

definition create_branch_locked :: "uuid \<Rightarrow> uuid \<Rightarrow> create_branch_request \<Rightarrow> app_instance handler" where
  "create_branch_locked ws_id app_id p =
     andThen (find_app ''Parent application not found.'' ws_id app_id) (\<lambda>a.
     andThen new_v4 (\<lambda>i.
     andThen (chosen_port (cb_external_port p)) (\<lambda>external_port.
     let (mn, mx) = branch_replicas p;
         pct = clamp (default_to 80 (cb_autoscale_cpu_percent p)) 1 100;
         mins = clamp (default_to 30 (cb_auto_sleep_after_minutes p)) 1 10080;
         sleeps = default_to False (cb_auto_sleep_enabled p) in
     andThen (check_branch_quota ws_id p mx) (\<lambda>_.
     andThen now (\<lambda>t.
     let row = (new_instance i app_id (cb_branch_name p) (cb_instance_type p) (default_to 3000 (cb_internal_port p))
           (instance_container (a_slug a) (cb_branch_name p) i) external_port t)
           \<lparr>ai_cpu_limit := Some (default_to 0 (cb_cpu_limit p)), ai_memory_limit_mb := Some (default_to 0 (cb_memory_limit_mb p)),
            ai_replicas_min := mn, ai_replicas_max := mx\<rparr> in
     andThen (insert_instance row) (\<lambda>_.
     andThen (set_column i (\<lambda>x. x\<lparr>ai_auto_sleep_enabled := sleeps, ai_auto_sleep_after_minutes := mins,
        ai_autoscale_cpu_percent := pct\<rparr>)) (\<lambda>_.
     andThen (discard (enqueue_build i (a_git_repository a) (cb_branch_name p) (a_build_command a))) (\<lambda>_.
     ret (row\<lparr>ai_auto_sleep_enabled := sleeps, ai_auto_sleep_after_minutes := mins, ai_autoscale_cpu_percent := pct\<rparr>)))))))))"

definition create_branch_instance :: "session \<Rightarrow> claims \<Rightarrow> uuid \<Rightarrow> create_branch_request \<Rightarrow> app_instance option handler" where
  "create_branch_instance s claims app_id p =
     andThen (active_workspace claims) (\<lambda>ws_id. with_workspace_lock s ws_id (create_branch_locked ws_id app_id p))"

text \<open>\<open>WHERE ai.id = $1 AND a.workspace_id = $2\<close>.\<close>

definition instance_of :: "uuid \<Rightarrow> uuid \<Rightarrow> database \<Rightarrow> (app_instance \<times> app) option" where
  "instance_of ws_id i d = (case instance_with_app i d of None \<Rightarrow> None
     | Some (x, a) \<Rightarrow> (if a_workspace_id a = ws_id then Some (x, a) else None))"

definition find_instance_of :: "uuid \<Rightarrow> uuid \<Rightarrow> (app_instance \<times> app) handler" where
  "find_instance_of ws_id i =
     andThen (query (fetch (\<lambda>w. instance_of ws_id i (db w)))) (\<lambda>row.
     okOr (NotFound ''Application branch instance not found.'') row)"

definition get_app_details :: "claims \<Rightarrow> uuid \<Rightarrow> (app \<times> app_instance list) handler" where
  "get_app_details claims app_id =
     andThen (active_workspace claims) (\<lambda>ws_id.
     andThen (find_app ''Application not found.'' ws_id app_id) (\<lambda>a.
     andThen (query (fetch (\<lambda>w. selectWhere (\<lambda>x. ai_app_id x = app_id) (app_instances (db w))))) (\<lambda>xs.
     ret (a, xs))))"

section \<open>The life of an instance\<close>

text \<open>The cluster's part of an instance is removed when the cluster can be reached; refusals are ignored.\<close>

definition remove_workload :: "string \<Rightarrow> string \<Rightarrow> string option \<Rightarrow> unit handler" where
  "remove_workload ns container domain =
     andThen (onlyIf (domain \<noteq> None) (andThen (k8s (DeleteIngress ns container)) (\<lambda>_. ret ()))) (\<lambda>_.
     andThen (k8s (DeleteApp ns container)) (\<lambda>_.
     andThen (k8s (DeleteKnativeService ns container)) (\<lambda>_. ret ())))"

definition with_cluster :: "unit handler \<Rightarrow> unit handler" where
  "with_cluster m = andThen (k8s GetClient) (\<lambda>c. case c of Refused _ \<Rightarrow> ret () | _ \<Rightarrow> m)"

definition delete_instance_env :: "uuid \<Rightarrow> database \<Rightarrow> database" where
  "delete_instance_env i d = d\<lparr>environment_variables := deleteWhere (\<lambda>r. ev_app_instance_id r = i) (environment_variables d)\<rparr>"

definition delete_app_instance :: "claims \<Rightarrow> uuid \<Rightarrow> unit handler" where
  "delete_app_instance claims i =
     andThen (active_workspace claims) (\<lambda>ws_id.
     andThen (find_instance_of ws_id i) (\<lambda>(x, a).
     andThen (with_cluster (remove_workload (ws_namespace ws_id) (ai_container_name x) (ai_assigned_domain x))) (\<lambda>_.
     andThen (query (execute (\<lambda>w. delete_instance_env i (db w)))) (\<lambda>_.
     andThen (purge_domains_for_target ws_id ''app'' i) (\<lambda>_.
     query (execute (\<lambda>w. delete_instance_rows (\<lambda>y. ai_id y = i) (db w))))))))"

definition mark_instance :: "uuid \<Rightarrow> app_status \<Rightarrow> unit handler" where
  "mark_instance i st = query (execute (\<lambda>w. update_instance i (\<lambda>x. x\<lparr>ai_status := st, ai_updated_at := clock w\<rparr>) (db w)))"

definition scale_to :: "uuid \<Rightarrow> uuid \<Rightarrow> string \<Rightarrow> int \<Rightarrow> app_status \<Rightarrow> unit handler" where
  "scale_to ws_id i container n st =
     andThen (k8s_do (ScaleDeployment (ws_namespace ws_id) container n)) (\<lambda>_.
     andThen (mark_instance i st) (\<lambda>_.
     broadcast_event (InstanceStatusChanged ws_id i container (status_text st))))"

definition stop_app_instance :: "claims \<Rightarrow> uuid \<Rightarrow> unit handler" where
  "stop_app_instance claims i =
     andThen (active_workspace claims) (\<lambda>ws_id.
     andThen (find_instance_of ws_id i) (\<lambda>(x, a).
     andThen get_client (\<lambda>_.
     scale_to ws_id i (ai_container_name x) 0 Stopped)))"

definition start_app_instance :: "claims \<Rightarrow> uuid \<Rightarrow> unit handler" where
  "start_app_instance claims i =
     andThen (active_workspace claims) (\<lambda>ws_id.
     andThen (find_instance_of ws_id i) (\<lambda>(x, a).
     andThen get_client (\<lambda>_.
     andThen (orElse (column_of i ai_replicas_min) 1) (\<lambda>replicas_min.
     scale_to ws_id i (ai_container_name x) (max replicas_min 1) Running))))"

definition building :: "uuid \<Rightarrow> database \<Rightarrow> bool" where
  "building i d = existsWhere (\<lambda>b. ab_app_instance_id b = i \<and> ab_status b = ''building'') (app_builds d)"

definition reject_busy :: "uuid \<Rightarrow> string \<Rightarrow> unit handler" where
  "reject_busy i msg = andThen (query (fetch (\<lambda>w. building i (db w)))) (\<lambda>busy. rejectIf busy (Conflict msg))"

text \<open>What redeploying an instance and retrying one of its builds share.\<close>

definition rebuild :: "uuid \<Rightarrow> app_instance \<Rightarrow> app \<Rightarrow> unit handler" where
  "rebuild ws_id x a =
     andThen (reject_busy (ai_id x) ''There is already a build in progress for this instance.'') (\<lambda>_.
     andThen (mark_instance (ai_id x) Building) (\<lambda>_.
     andThen (broadcast_event (InstanceStatusChanged ws_id (ai_id x) (ai_container_name x) ''building'')) (\<lambda>_.
     discard (enqueue_build (ai_id x) (a_git_repository a) (ai_branch_name x) (a_build_command a)))))"

definition redeploy_app_instance :: "claims \<Rightarrow> uuid \<Rightarrow> unit handler" where
  "redeploy_app_instance claims i =
     andThen (active_workspace claims) (\<lambda>ws_id.
     andThen (find_instance_of ws_id i) (\<lambda>(x, a). rebuild ws_id x a))"

definition reload_app_instance :: "claims \<Rightarrow> uuid \<Rightarrow> unit handler" where
  "reload_app_instance claims i =
     andThen (active_workspace claims) (\<lambda>ws_id.
     andThen (find_instance_of ws_id i) (\<lambda>(x, a). discard (enqueue_deploy (ai_id x) None)))"

record configure_serverless_request =
  cs_enabled :: bool
  cs_min_scale :: int
  cs_max_scale :: int
  cs_target_concurrency :: int

definition configure_serverless :: "claims \<Rightarrow> uuid \<Rightarrow> configure_serverless_request \<Rightarrow> unit handler" where
  "configure_serverless claims i p =
     andThen (active_workspace claims) (\<lambda>ws_id.
     andThen (find_instance_of ws_id i) (\<lambda>_.
     andThen (query (execute (\<lambda>w. update_instance i (\<lambda>x. x\<lparr>ai_knative_enabled := cs_enabled p,
        ai_updated_at := clock w,
        ai_knative_scaling := (Some (cs_min_scale p), Some (cs_max_scale p), Some (cs_target_concurrency p))\<rparr>) (db w)))) (\<lambda>_.
     discard (enqueue_deploy i None))))"

definition delete_app :: "claims \<Rightarrow> uuid \<Rightarrow> unit handler" where
  "delete_app claims app_id =
     andThen (active_workspace claims) (\<lambda>ws_id.
     andThen (find_app ''Application not found.'' ws_id app_id) (\<lambda>a.
     andThen (unpublish_project_env ''app'' app_id) (\<lambda>_.
     andThen (query (fetch (\<lambda>w. selectWhere (\<lambda>x. ai_app_id x = app_id) (app_instances (db w))))) (\<lambda>xs.
     andThen (with_cluster (forEach xs (\<lambda>x. remove_workload (ws_namespace ws_id) (ai_container_name x) (ai_assigned_domain x)))) (\<lambda>_.
     andThen (query (execute (\<lambda>w. (db w)\<lparr>environment_variables := deleteWhere
        (\<lambda>r. existsWhere (\<lambda>x. ai_id x = ev_app_instance_id r \<and> ai_app_id x = app_id) (app_instances (db w)))
        (environment_variables (db w))\<rparr>))) (\<lambda>_.
     andThen (forEach xs (\<lambda>x. purge_domains_for_target ws_id ''app'' (ai_id x))) (\<lambda>_.
     query (execute (\<lambda>w. delete_app_rows (\<lambda>b. a_id b = app_id) (db w))))))))))"

section \<open>Settings\<close>

record update_instance_request =
  ui_cpu_limit :: "int option"
  ui_memory_limit_mb :: "int option"
  ui_internal_port :: "int option"
  ui_external_port :: "int option"
  ui_build_command :: "string option"
  ui_start_command :: "string option"
  ui_replicas_min :: "int option"
  ui_replicas_max :: "int option"
  ui_autoscale_cpu_percent :: "int option"
  ui_auto_sleep_enabled :: "bool option"
  ui_auto_sleep_after_minutes :: "int option"

text \<open>\<open>COALESCE($1, column)\<close>.\<close>

definition coalesce :: "'a option \<Rightarrow> 'a option \<Rightarrow> 'a option" where
  "coalesce x y = (case x of None \<Rightarrow> y | _ \<Rightarrow> x)"

definition edited_app :: "update_instance_request \<Rightarrow> app \<Rightarrow> app" where
  "edited_app p a = a\<lparr>a_build_command := coalesce (ui_build_command p) (a_build_command a),
     a_start_command := coalesce (ui_start_command p) (a_start_command a)\<rparr>"

definition edited_instance :: "update_instance_request \<Rightarrow> int \<Rightarrow> instant \<Rightarrow> app_instance \<Rightarrow> app_instance" where
  "edited_instance p external_port t x = x\<lparr>
     ai_status := Building,
     ai_internal_port := default_to (ai_internal_port x) (ui_internal_port p),
     ai_external_port := Some external_port,
     ai_port_is_auto := (if ui_internal_port p \<noteq> None then False else ai_port_is_auto x),
     ai_cpu_limit := coalesce (ui_cpu_limit p) (ai_cpu_limit x),
     ai_memory_limit_mb := coalesce (ui_memory_limit_mb p) (ai_memory_limit_mb x),
     ai_replicas_min := default_to (ai_replicas_min x) (ui_replicas_min p),
     ai_replicas_max := default_to (ai_replicas_max x) (ui_replicas_max p),
     ai_updated_at := t\<rparr>"

definition replica_range_invalid :: "update_instance_request \<Rightarrow> bool" where
  "replica_range_invalid p = (case (ui_replicas_min p, ui_replicas_max p) of
     (Some mn, Some mx) \<Rightarrow> mn < 1 \<or> mx < mn | _ \<Rightarrow> False)"

definition check_positive :: "(int \<Rightarrow> unit handler) \<Rightarrow> int option \<Rightarrow> unit handler" where
  "check_positive limit requested = (case requested of None \<Rightarrow> ret () | Some n \<Rightarrow> onlyIf (0 < n) (limit n))"

definition if_given :: "'a option \<Rightarrow> ('a \<Rightarrow> unit handler) \<Rightarrow> unit handler" where
  "if_given x f = (case x of None \<Rightarrow> ret () | Some v \<Rightarrow> f v)"

definition rollout :: "uuid \<Rightarrow> uuid \<Rightarrow> bool \<Rightarrow> unit handler" where
  "rollout app_id i rebuild_needed =
     (if rebuild_needed then
        andThen (orElse (fetch (\<lambda>w. instance_with_app i (db w))) None) (\<lambda>meta.
        case meta of None \<Rightarrow> ret ()
        | Some (x, a) \<Rightarrow>
            andThen (orElse (fetchOne (\<lambda>w. map_option a_build_command (firstWhere (\<lambda>a. a_id a = app_id) (apps (db w))))) None) (\<lambda>cmd.
            discard (enqueue_build i (a_git_repository a) (ai_branch_name x) cmd)))
      else discard (enqueue_deploy i None))"

definition update_settings_of :: "uuid \<Rightarrow> uuid \<Rightarrow> uuid \<Rightarrow> update_instance_request \<Rightarrow> unit handler" where
  "update_settings_of ws_id app_id i p =
     andThen (find_app ''Application not found in this workspace.'' ws_id app_id) (\<lambda>_.
     andThen (query (fetch (\<lambda>w. existsWhere (\<lambda>x. ai_id x = i \<and> ai_app_id x = app_id) (app_instances (db w))))) (\<lambda>instance_exists.
     andThen (rejectIf (\<not> instance_exists) (NotFound ''Application instance not found.'')) (\<lambda>_.
     andThen (check_positive (\<lambda>n. check_workspace_memory_limit ws_id n (Some i)) (ui_memory_limit_mb p)) (\<lambda>_.
     andThen (check_positive (\<lambda>n. check_workspace_cpu_limit ws_id n (Some i)) (ui_cpu_limit p)) (\<lambda>_.
     andThen (chosen_port (ui_external_port p)) (\<lambda>external_port.
     let commands = ui_build_command p \<noteq> None \<or> ui_start_command p \<noteq> None in
     andThen (onlyIf commands (query (execute (\<lambda>w. (db w)\<lparr>apps := updateWhere
        (\<lambda>a. a_id a = app_id \<and> a_workspace_id a = ws_id) (edited_app p) (apps (db w))\<rparr>)))) (\<lambda>_.
     andThen (rejectIf (replica_range_invalid p)
        (Validation ''Replica range invalid: min must be >= 1 and max >= min.'')) (\<lambda>_.
     andThen (query (execute (\<lambda>w. update_instance i (edited_instance p external_port (clock w)) (db w)))) (\<lambda>_.
     andThen (if_given (ui_autoscale_cpu_percent p) (\<lambda>pct. set_column i (\<lambda>x. x\<lparr>ai_autoscale_cpu_percent := clamp pct 1 100\<rparr>))) (\<lambda>_.
     andThen (if_given (ui_auto_sleep_enabled p) (\<lambda>b. set_column i (\<lambda>x. x\<lparr>ai_auto_sleep_enabled := b\<rparr>))) (\<lambda>_.
     andThen (if_given (ui_auto_sleep_after_minutes p) (\<lambda>m. set_column i (\<lambda>x. x\<lparr>ai_auto_sleep_after_minutes := clamp m 1 10080\<rparr>))) (\<lambda>_.
     rollout app_id i (commands \<or> ui_internal_port p \<noteq> None)))))))))))))"

definition update_instance_settings :: "session \<Rightarrow> claims \<Rightarrow> uuid \<Rightarrow> uuid \<Rightarrow> update_instance_request \<Rightarrow> unit option handler" where
  "update_instance_settings s claims app_id i p =
     andThen (active_workspace claims) (\<lambda>ws_id. with_workspace_lock s ws_id (update_settings_of ws_id app_id i p))"

section \<open>Builds of an application\<close>

text \<open>A build with its instance, for an application of the workspace.\<close>

definition build_of :: "uuid \<Rightarrow> uuid \<Rightarrow> uuid \<Rightarrow> database \<Rightarrow> (app_build \<times> app_instance \<times> app) option" where
  "build_of ws_id app_id b d =
     (case firstWhere (\<lambda>a. a_id a = app_id \<and> a_workspace_id a = ws_id) (apps d) of None \<Rightarrow> None
      | Some a \<Rightarrow>
          (case firstWhere (\<lambda>r. ab_id r = b \<and> ab_app_id r = app_id) (app_builds d) of None \<Rightarrow> None
           | Some r \<Rightarrow> map_option (\<lambda>x. (r, x, a)) (firstWhere (\<lambda>x. ai_id x = ab_app_instance_id r) (app_instances d))))"

definition find_build :: "uuid \<Rightarrow> uuid \<Rightarrow> uuid \<Rightarrow> (app_build \<times> app_instance \<times> app) handler" where
  "find_build ws_id app_id b =
     andThen (query (fetch (\<lambda>w. build_of ws_id app_id b (db w)))) (\<lambda>row.
     okOr (NotFound ''Build not found for this application.'') row)"

definition cancel_build :: "claims \<Rightarrow> uuid \<Rightarrow> uuid \<Rightarrow> unit handler" where
  "cancel_build claims app_id b =
     andThen (active_workspace claims) (\<lambda>ws_id.
     andThen (find_build ws_id app_id b) (\<lambda>(r, x, a).
     andThen (rejectIf (ab_status r \<noteq> ''building'') (Conflict ''Only builds in progress can be cancelled.'')) (\<lambda>_.
     andThen (query (execute (\<lambda>w. update_build b (\<lambda>r. r\<lparr>ab_status := ''cancelled'', ab_phase := ''cancelled'',
        ab_failure_reason := Some ''Build cancelled manually by the user.'', ab_failure_category := Some ''CANCELLED''\<rparr>) (db w)))) (\<lambda>_.
     andThen (mark_instance (ab_app_instance_id r) Stopped) (\<lambda>_.
     andThen (broadcast_event (InstanceStatusChanged ws_id (ab_app_instance_id r) (ai_container_name x) ''stopped'')) (\<lambda>_.
     andThen (with_cluster (andThen (k8s (DeletePod (ws_namespace ws_id) (builder_pod_name (ab_app_instance_id r)))) (\<lambda>_. ret ()))) (\<lambda>_.
     broadcast_event (BuildStatusChanged ws_id b app_id ''cancelled'' ''cancelled''))))))))"

definition rollback_build :: "claims \<Rightarrow> uuid \<Rightarrow> uuid \<Rightarrow> unit handler" where
  "rollback_build claims app_id b =
     andThen (active_workspace claims) (\<lambda>ws_id.
     andThen (query (fetch (\<lambda>w. if existsWhere (\<lambda>a. a_id a = app_id \<and> a_workspace_id a = ws_id) (apps (db w))
        then firstWhere (\<lambda>r. ab_id r = b \<and> ab_app_id r = app_id) (app_builds (db w)) else None))) (\<lambda>row.
     andThen (okOr (NotFound ''Build not found for this application.'') row) (\<lambda>r.
     andThen (rejectIf (ab_status r \<noteq> ''succeeded'') (Conflict ''Rollback is only possible to a successful build.'')) (\<lambda>_.
     andThen (okOr (Conflict ''This build has no associated image (an old build, from before immutable tags).'') (ab_image_tag r)) (\<lambda>tag.
     andThen (reject_busy (ab_app_instance_id r) ''There is already a build/deploy in progress for this instance.'') (\<lambda>_.
     andThen (query (execute (\<lambda>w. update_instance (ab_app_instance_id r)
        (\<lambda>x. x\<lparr>ai_status := Building, ai_current_image_tag := Some tag, ai_updated_at := clock w\<rparr>) (db w)))) (\<lambda>_.
     discard (enqueue_deploy (ab_app_instance_id r) (Some tag)))))))))"

definition retry_build :: "claims \<Rightarrow> uuid \<Rightarrow> uuid \<Rightarrow> unit handler" where
  "retry_build claims app_id b =
     andThen (active_workspace claims) (\<lambda>ws_id.
     andThen (find_build ws_id app_id b) (\<lambda>(r, x, a). rebuild ws_id x a))"

section \<open>The GitHub webhook\<close>

definition hex_digit :: "char \<Rightarrow> int option" where
  "hex_digit c =
     (let n = int (code c) in
      if 48 \<le> n \<and> n \<le> 57 then Some (n - 48) else if 97 \<le> n \<and> n \<le> 102 then Some (n - 87)
      else if 65 \<le> n \<and> n \<le> 70 then Some (n - 55) else None)"

text \<open>\<open>u8::from_str_radix(_, 16)\<close> of two characters, which admits a sign.\<close>

definition hex_byte :: "char \<Rightarrow> char \<Rightarrow> int option" where
  "hex_byte a b = (if a = CHR ''+'' then hex_digit b
     else case (hex_digit a, hex_digit b) of (Some x, Some y) \<Rightarrow> Some (16 * x + y) | _ \<Rightarrow> None)"

fun hex_bytes :: "string \<Rightarrow> int list option" where
  "hex_bytes (a # b # s) = (case (hex_byte a b, hex_bytes s) of (Some x, Some xs) \<Rightarrow> Some (x # xs) | _ \<Rightarrow> None)"
| "hex_bytes [] = Some []"
| "hex_bytes [a] = None"

definition verify_github_signature :: "(string \<Rightarrow> string \<Rightarrow> int list) \<Rightarrow> string \<Rightarrow> string \<Rightarrow> string \<Rightarrow> bool" where
  "verify_github_signature mac secret body header =
     (case strip_prefix ''sha256='' header of None \<Rightarrow> False
      | Some hex \<Rightarrow> (if length hex mod 2 \<noteq> 0 then False else hex_bytes hex = Some (mac secret body)))"

record github_payload =
  gp_action :: "string option"
  gp_ref :: "string option"
  gp_ref_type :: "string option"
  gp_pull_request_head :: "string option"
  gp_repository :: "(string option \<times> string option) option"

definition without_git :: "string \<Rightarrow> string" where
  "without_git s = replace_all ''.git'' [] s"

definition same_repo :: "string \<Rightarrow> string option \<times> string option \<Rightarrow> bool" where
  "same_repo git_repository repo =
     (let db_repo = to_lowercase (trim git_repository);
          ssh_url = to_lowercase (trim (default_to [] (fst repo)));
          clone_url = to_lowercase (trim (default_to [] (snd repo))) in
      db_repo = ssh_url \<or> db_repo = clone_url \<or> without_git db_repo = without_git ssh_url \<or> without_git db_repo = without_git clone_url)"

text \<open>The branch of a closed pull request, or the one a delivery names as a branch.\<close>

definition removed_branch :: "github_payload \<Rightarrow> string option" where
  "removed_branch p =
     (let closed = (if gp_action p = Some ''closed'' then gp_pull_request_head p else None) in
      if gp_ref_type p = Some ''branch''
      then (case gp_ref p of Some r \<Rightarrow> Some (replace_all ''refs/heads/'' [] r) | None \<Rightarrow> closed) else closed)"

definition remove_branch_instance :: "app_instance \<Rightarrow> unit handler" where
  "remove_branch_instance x =
     andThen (orElse (fetch (\<lambda>w. instance_with_app (ai_id x) (db w))) None) (\<lambda>meta.
     andThen (case meta of None \<Rightarrow> ret ()
       | Some (y, a) \<Rightarrow> with_cluster (remove_workload (ws_namespace (a_workspace_id a)) (ai_container_name x) (ai_assigned_domain x))) (\<lambda>_.
     andThen (discard (execute (\<lambda>w. delete_instance_env (ai_id x) (db w)))) (\<lambda>_.
     discard (execute (\<lambda>w. delete_instance_rows (\<lambda>y. ai_id y = ai_id x) (db w))))))"

definition remove_branch :: "string \<Rightarrow> unit handler" where
  "remove_branch branch =
     andThen (query (fetch (\<lambda>w. selectWhere (\<lambda>x. ai_branch_name x = branch \<and> ai_instance_type x \<noteq> Production)
       (app_instances (db w))))) (\<lambda>xs.
     forEach xs remove_branch_instance)"

definition open_preview :: "string \<Rightarrow> string option \<times> string option \<Rightarrow> app \<Rightarrow> unit handler" where
  "open_preview branch repo a =
     (if \<not> same_repo (a_git_repository a) repo then ret ()
      else
        andThen (query (fetch (\<lambda>w. existsWhere (\<lambda>x. ai_app_id x = a_id a \<and> ai_branch_name x = branch) (app_instances (db w))))) (\<lambda>ex.
        if ex then ret ()
        else
          andThen (query (fetch (\<lambda>w. map_option ai_internal_port (firstWhere
            (\<lambda>x. ai_app_id x = a_id a \<and> ai_instance_type x = Production) (app_instances (db w)))))) (\<lambda>port.
          andThen get_random_available_port (\<lambda>external_port.
          andThen new_v4 (\<lambda>i.
          let container = instance_container (a_slug a) branch i in
          andThen now (\<lambda>t.
          andThen (insert_instance (new_instance i (a_id a) branch Preview (default_to 3000 port) container external_port t)) (\<lambda>_.
          andThen (broadcast_event (InstanceStatusChanged (a_workspace_id a) i container ''building'')) (\<lambda>_.
          discard (enqueue_build i (a_git_repository a) branch (a_build_command a))))))))))"

definition open_previews :: "string \<Rightarrow> string option \<times> string option \<Rightarrow> unit handler" where
  "open_previews branch repo =
     andThen (query (fetch (\<lambda>w. apps (db w)))) (\<lambda>rows. forEach rows (open_preview branch repo))"

definition push_rebuild :: "string \<Rightarrow> string option \<times> string option \<Rightarrow> app_instance \<times> app \<Rightarrow> unit handler" where
  "push_rebuild branch repo r =
     (case r of (x, a) \<Rightarrow>
        if \<not> same_repo (a_git_repository a) repo then ret ()
        else
          andThen (discard (mark_instance (ai_id x) Building)) (\<lambda>_.
          andThen (broadcast_event (InstanceStatusChanged (a_workspace_id a) (ai_id x) (ai_container_name x) ''building'')) (\<lambda>_.
          discard (enqueue_build (ai_id x) (a_git_repository a) branch (a_build_command a)))))"

text \<open>\<open>app_instances JOIN apps WHERE branch_name = $1\<close>.\<close>

definition branch_rows :: "string \<Rightarrow> database \<Rightarrow> (app_instance \<times> app) list" where
  "branch_rows branch d = concat (map (\<lambda>x. map (Pair x) (selectWhere (\<lambda>a. a_id a = ai_app_id x) (apps d)))
     (selectWhere (\<lambda>x. ai_branch_name x = branch) (app_instances d)))"

definition push_branch :: "string \<Rightarrow> string option \<times> string option \<Rightarrow> unit handler" where
  "push_branch branch repo =
     andThen (query (fetch (\<lambda>w. branch_rows branch (db w)))) (\<lambda>rows. forEach rows (push_rebuild branch repo))"

definition handle_payload :: "github_payload \<Rightarrow> unit handler" where
  "handle_payload p =
     andThen (if_given (removed_branch p) remove_branch) (\<lambda>_.
     andThen (case (gp_action p, gp_pull_request_head p, gp_repository p) of
         (Some action, Some branch, Some repo) \<Rightarrow> onlyIf (action \<in> {''opened'', ''reopened''}) (open_previews branch repo)
       | _ \<Rightarrow> ret ()) (\<lambda>_.
     case (gp_action p, gp_ref p, gp_repository p) of
         (None, Some r, Some repo) \<Rightarrow>
           onlyIf (starts_with ''refs/heads/'' r) (push_branch (replace_all ''refs/heads/'' [] r) repo)
       | _ \<Rightarrow> ret ()))"

definition check_signature :: "(string \<Rightarrow> string \<Rightarrow> int list) \<Rightarrow> string option \<Rightarrow> string \<Rightarrow> unit handler" where
  "check_signature mac signature body =
     andThen (readState (\<lambda>w. env_var w ''HERMES_GITHUB_WEBHOOK_SECRET'')) (\<lambda>secret.
     case secret of None \<Rightarrow> ret ()
     | Some sec \<Rightarrow>
         if sec = [] then ret ()
         else
           andThen (okOr (Auth ''Missing webhook signature.'') signature) (\<lambda>sig.
           rejectIf (\<not> verify_github_signature mac sec body sig) (Auth ''Invalid webhook signature.'')))"

definition handle_github_webhook ::
  "(string \<Rightarrow> string \<Rightarrow> int list) \<Rightarrow> (string \<Rightarrow> string + github_payload) \<Rightarrow> string option \<Rightarrow> string \<Rightarrow> unit handler" where
  "handle_github_webhook mac parse signature body =
     andThen (check_signature mac signature body) (\<lambda>_.
     case parse body of Inl e \<Rightarrow> raise (Validation (''Invalid webhook payload: '' @ e))
     | Inr p \<Rightarrow> handle_payload p)"

end
