(* ===== verification/Apps_Laws.thy ===== *)
theory Apps_Laws
  imports Apps Databases_Laws Workspaces_Laws
begin

text \<open>
  What the handlers of applications guarantee: which port an instance gets, which deliveries of GitHub are
  believed, that a workspace reaches only its own instances, what a deletion and a roll-back leave behind, and
  the bounds of replicas.
\<close>

section \<open>The allocation of ports\<close>

definition drawn_port :: "world \<Rightarrow> nat \<Rightarrow> int" where
  "drawn_port w k = int (random_u32 w k mod 2 ^ 32 mod 10000 + 20000)"

definition port_used :: "database \<Rightarrow> int \<Rightarrow> bool" where
  "port_used d p \<longleftrightarrow> (\<exists>x \<in> set (app_instances d). ai_external_port x = Some p)
     \<or> (\<exists>s \<in> set (databases d). ds_external_port s = Some p \<and> ds_is_external s)"

lemma andThen_rand_u32 [step_simps]:
  "andThen rand_u32 f w = f (random_u32 w (drawn w) mod 2 ^ 32) (w\<lparr>drawn := Suc (drawn w)\<rparr>)"
  by (simp add: andThen_def rand_u32_def)

lemma port_tries_run:
  assumes "faults w = []"
  shows "\<exists>k. port_tries n w =
    (case List.find (\<lambda>p. \<not> port_used (db w) p) (map (drawn_port w) [drawn w ..< drawn w + n]) of
       None \<Rightarrow> Inl (Fatal (FromText ''Could not allocate a free external port after 100 attempts.'')) | Some p \<Rightarrow> Inr p,
     w\<lparr>drawn := k\<rparr>)"
  using assms
proof (induction n arbitrary: w)
  case 0
  show ?case by (intro exI [of _ "drawn w"]) (simp add: step_simps)
next
  case (Suc n)
  let ?w = "w\<lparr>drawn := Suc (drawn w)\<rparr>"
  have draws: "[drawn w ..< drawn w + Suc n] = drawn w # [Suc (drawn w) ..< Suc (drawn w) + n]"
    by (simp add: upt_rec)
  have same: "drawn_port ?w = drawn_port w" by (simp add: drawn_port_def fun_eq_iff)
  have one: "port_tries (Suc n) w = (if \<not> port_used (db w) (drawn_port w (drawn w)) then (Inr (drawn_port w (drawn w)), ?w)
      else port_tries n ?w)"
    using Suc.prems by (auto simp: Let_def step_simps drawn_port_def port_used_def existsWhere_iff)
  show ?case
  proof (cases "port_used (db w) (drawn_port w (drawn w))")
    case True
    then have "port_tries (Suc n) w = port_tries n ?w" by (simp only: one) simp
    with Suc.IH [of ?w] Suc.prems True show ?thesis unfolding draws by (simp add: same)
  next
    case False
    then have "port_tries (Suc n) w = (Inr (drawn_port w (drawn w)), ?w)" by (simp only: one) simp
    with False show ?thesis unfolding draws by auto
  qed
qed

text \<open>
  The port given to an instance is the first of a hundred random draws that neither an instance nor an
  externally published database has, so it lies between 20000 and 29999 and is free; only when
  all hundred are taken is there an error, and the tables stay as they are.
\<close>

theorem allocated_port_is_first_free:
  assumes "faults w = []" "get_random_available_port w = (r, w')"
  shows "r = (case List.find (\<lambda>p. \<not> port_used (db w) p) (map (drawn_port w) [drawn w ..< drawn w + 100]) of
      None \<Rightarrow> Inl (Fatal (FromText ''Could not allocate a free external port after 100 attempts.'')) | Some p \<Rightarrow> Inr p)
    \<and> db w' = db w \<and> (\<forall>p. r = Inr p \<longrightarrow> 20000 \<le> p \<and> p \<le> 29999 \<and> \<not> port_used (db w) p)"
proof -
  have r: "r = (case List.find (\<lambda>p. \<not> port_used (db w) p) (map (drawn_port w) [drawn w ..< drawn w + 100]) of
      None \<Rightarrow> Inl (Fatal (FromText ''Could not allocate a free external port after 100 attempts.'')) | Some p \<Rightarrow> Inr p)"
    and d: "db w' = db w"
    using port_tries_run [OF assms(1), of 100] assms(2) by (auto simp: get_random_available_port_def)
  have "20000 \<le> p \<and> p \<le> 29999 \<and> \<not> port_used (db w) p" if "r = Inr p" for p
  proof -
    from that obtain k where "p = drawn_port w k" "\<not> port_used (db w) p"
      unfolding r by (auto simp: find_Some_iff split: option.splits)
    then show ?thesis by (auto simp: drawn_port_def)
  qed
  with r d show ?thesis by blast
qed

text \<open>Two instances of which the first took the port drawn first.\<close>

definition one_port_world :: world where
  "one_port_world = base_world\<lparr>db := empty_db\<lparr>app_instances :=
     [new_instance 5 4 ''main'' Production 3000 ''c'' 20000 0]\<rparr>\<rparr>"

theorem allocated_port_is_first_free_witness:
  "fst (get_random_available_port one_port_world) = Inr 20001 \<and> \<not> port_used (db one_port_world) 20001"
proof -
  have f: "faults one_port_world = []" and d: "drawn one_port_world = 0" by (simp_all add: one_port_world_def base_world_def)
  have u: "port_used (db one_port_world) p \<longleftrightarrow> p = 20000" for p
    by (auto simp: port_used_def one_port_world_def empty_db_def new_instance_def)
  have p: "drawn_port one_port_world 0 = 20000" "drawn_port one_port_world 1 = 20001"
    by (simp_all add: drawn_port_def one_port_world_def base_world_def)
  obtain ks where draws: "[0 ..< 0 + 100] = 0 # Suc 0 # ks" by (simp add: upt_rec)
  obtain r w' where r: "get_random_available_port one_port_world = (r, w')" by fastforce
  have "List.find (\<lambda>p. \<not> port_used (db one_port_world) p) (map (drawn_port one_port_world) [0 ..< 0 + 100]) = Some 20001"
    unfolding draws using p by (simp add: u)
  with allocated_port_is_first_free [OF f r] show ?thesis by (simp add: r d)
qed

section \<open>Signed deliveries\<close>

definition hex_char :: "int \<Rightarrow> char" where
  "hex_char n = ''0123456789abcdef'' ! nat n"

text \<open>The text GitHub sends: two digits for every byte.\<close>

definition hex_text :: "int list \<Rightarrow> string" where
  "hex_text bs = concat (map (\<lambda>b. [hex_char (b div 16), hex_char (b mod 16)]) bs)"

lemma hex_char_digit:
  assumes "0 \<le> n" "n < 16"
  shows "hex_digit (hex_char n) = Some n \<and> hex_char n \<noteq> CHR ''+''"
proof -
  have "n \<in> {0, 1, 2, 3, 4, 5, 6, 7, 8, 9, 10, 11, 12, 13, 14, 15}" using assms by simp presburger
  then show ?thesis by (auto simp: hex_char_def hex_digit_def Let_def code_def)
qed

lemma hex_text_bytes: "(\<forall>b \<in> set bs. 0 \<le> b \<and> b < 256) \<Longrightarrow> hex_bytes (hex_text bs) = Some bs"
proof (induction bs)
  case (Cons b bs)
  then have "0 \<le> b div 16" "b div 16 < 16" "0 \<le> b mod 16" "b mod 16 < 16" by auto
  then have "hex_digit (hex_char (b div 16)) = Some (b div 16) \<and> hex_char (b div 16) \<noteq> CHR ''+''"
    "hex_digit (hex_char (b mod 16)) = Some (b mod 16)"
    using hex_char_digit by blast+
  with Cons show ?case by (simp add: hex_text_def hex_byte_def)
qed (simp add: hex_text_def)

lemma hex_text_even: "length (hex_text bs) mod 2 = 0"
  by (induction bs) (auto simp: hex_text_def)

lemma strip_prefix_Some: "strip_prefix p s = Some x \<longleftrightarrow> s = p @ x"
  by (auto simp: strip_prefix_def starts_with_def) (metis append_take_drop_id)

lemma signature_iff:
  assumes "\<forall>b \<in> set (mac sec body). 0 \<le> b \<and> b < 256"
  shows "verify_github_signature mac sec body (''sha256='' @ hex_text (mac sec body))"
    and "verify_github_signature mac sec body h \<Longrightarrow> \<exists>x. h = ''sha256='' @ x \<and> hex_bytes x = Some (mac sec body)"
proof -
  note cut = strip_prefix_Some [of "''sha256=''"]
  show "verify_github_signature mac sec body (''sha256='' @ hex_text (mac sec body))"
    using hex_text_bytes [of "mac sec body", OF assms] hex_text_even
    by (simp add: verify_github_signature_def cut [THEN iffD2, OF refl] del: append.simps)
  show "\<exists>x. h = ''sha256='' @ x \<and> hex_bytes x = Some (mac sec body)" if "verify_github_signature mac sec body h"
    using that by (auto simp: cut verify_github_signature_def simp del: append.simps split: option.splits if_splits)
qed

lemma check_signature_run:
  assumes "env_var w ''HERMES_GITHUB_WEBHOOK_SECRET'' = Some sec" "sec \<noteq> []"
  shows "check_signature mac signature body w =
    (case signature of None \<Rightarrow> Inl (Auth ''Missing webhook signature.'')
     | Some h \<Rightarrow> if verify_github_signature mac sec body h then Inr () else Inl (Auth ''Invalid webhook signature.''), w)"
  using assms by (simp add: check_signature_def step_simps rejectIf_def split: option.split)

text \<open>
  C6. When a secret is configured, a delivery signed by the hexadecimal digits of its MAC is handled, and one that
  is unsigned or whose signature does not read back as the MAC is refused before its body is even parsed: nothing
  is changed, no job is queued, the cluster is not called.
\<close>

theorem forged_delivery_is_refused:
  assumes secret: "env_var w ''HERMES_GITHUB_WEBHOOK_SECRET'' = Some sec" "sec \<noteq> []"
    and bytes: "\<forall>b \<in> set (mac sec body). 0 \<le> b \<and> b < 256"
  shows "handle_github_webhook mac parse (Some (''sha256='' @ hex_text (mac sec body))) body w =
      (case parse body of Inl e \<Rightarrow> (Inl (Validation (''Invalid webhook payload: '' @ e)), w) | Inr p \<Rightarrow> handle_payload p w)
    \<and> (\<forall>s. (\<forall>x. s = Some (''sha256='' @ x) \<longrightarrow> hex_bytes x \<noteq> Some (mac sec body)) \<longrightarrow>
         (\<exists>m. handle_github_webhook mac parse s body w = (Inl (Auth m), w)))"
proof -
  note run = check_signature_run [OF secret, of mac _ body]
  have "handle_github_webhook mac parse (Some (''sha256='' @ hex_text (mac sec body))) body w =
      (case parse body of Inl e \<Rightarrow> (Inl (Validation (''Invalid webhook payload: '' @ e)), w) | Inr p \<Rightarrow> handle_payload p w)"
    using signature_iff(1) [of mac sec body, OF bytes] by (simp add: handle_github_webhook_def andThen_def run raise_def split: sum.split)
  moreover have "\<exists>m. handle_github_webhook mac parse s body w = (Inl (Auth m), w)"
    if s: "\<forall>x. s = Some (''sha256='' @ x) \<longrightarrow> hex_bytes x \<noteq> Some (mac sec body)" for s
  proof -
    have "\<not> verify_github_signature mac sec body h" if "s = Some h" for h
      using signature_iff(2) [of mac sec body h, OF bytes] that s by blast
    then show ?thesis by (simp add: handle_github_webhook_def andThen_def run split: option.split)
  qed
  ultimately show ?thesis by blast
qed

text \<open>A secret, a toy MAC, and an app with a production and a preview instance.\<close>

definition hook_world :: world where
  "hook_world = base_world\<lparr>env_var := (\<lambda>k. if k = ''HERMES_GITHUB_WEBHOOK_SECRET'' then Some ''s3'' else None),
     db := empty_db\<lparr>apps := [\<lparr>a_id = 4, a_workspace_id = 7, a_project_id = 9, a_name = ''shop'', a_slug = ''shop'',
         a_git_repository = ''https://github.com/us/shop.git'', a_build_command = None, a_start_command = None,
         a_git_subpath = None, a_git_credential_id = None, a_tcp_udp_ports = []\<rparr>],
       app_instances := [new_instance 5 4 ''main'' Production 3000 ''c'' 20000 0, new_instance 6 4 ''fix'' Preview 3000 ''d'' 20001 0]\<rparr>\<rparr>"

definition toy_mac :: "string \<Rightarrow> string \<Rightarrow> int list" where
  "toy_mac sec body = map (\<lambda>c. of_char c mod 256) (sec @ body)"

theorem forged_delivery_is_refused_witness:
  "(\<exists>m. handle_github_webhook toy_mac (\<lambda>_. Inl ''eof'') (Some ''sha256=737b'') ''{'' hook_world = (Inl (Auth m), hook_world))
   \<and> handle_github_webhook toy_mac (\<lambda>_. Inl ''eof'') (Some ''sha256=73337b'') ''{'' hook_world
     = (Inl (Validation ''Invalid webhook payload: eof''), hook_world)"
proof -
  have env: "env_var hook_world ''HERMES_GITHUB_WEBHOOK_SECRET'' = Some ''s3''" "''s3'' \<noteq> []"
    by (simp_all add: hook_world_def base_world_def)
  have mac: "toy_mac ''s3'' ''{'' = [115, 51, 123]" by (simp add: toy_mac_def)
  have hex: "hex_text [115, 51, 123] = ''73337b''" by (simp add: hex_text_def hex_char_def)
  have short: "hex_bytes ''737b'' = Some [115, 123]" by (simp add: hex_byte_def hex_digit_def Let_def code_def)
  from forged_delivery_is_refused [OF env, of toy_mac "''{''" "\<lambda>_. Inl ''eof''"] short
  show ?thesis by (simp add: mac hex)
qed

section \<open>The removal of branches\<close>

text \<open>What the removal of one instance leaves of the tables.\<close>

definition without_instance :: "app_instance \<Rightarrow> database \<Rightarrow> database" where
  "without_instance x d = delete_instance_rows (\<lambda>y. ai_id y = ai_id x) (delete_instance_env (ai_id x) d)"

lemma remove_workload_run:
  "\<exists>w'. remove_workload ns c dn w = (Inr (), w') \<and> faults w' = faults w \<and> db w' = db w"
  by (cases dn) (simp_all add: remove_workload_def step_simps andThen_assoc onlyIf_def)

lemma with_cluster_run:
  assumes "\<And>w. \<exists>w'. m w = (Inr (), w') \<and> faults w' = faults w \<and> db w' = db w"
  shows "\<exists>w'. with_cluster m w = (Inr (), w') \<and> faults w' = faults w \<and> db w' = db w"
  using assms [of "w\<lparr>k8s_calls := k8s_calls w @ [GetClient]\<rparr>"]
  by (auto simp: with_cluster_def step_simps split: k8s_answer.split)

lemma remove_branch_instance_run:
  assumes "faults w = []"
  shows "\<exists>w'. remove_branch_instance x w = (Inr (), w') \<and> faults w' = [] \<and> db w' = without_instance x (db w)"
proof -
  let ?m = "case instance_with_app (ai_id x) (db w) of None \<Rightarrow> ret ()
       | Some (y, a) \<Rightarrow> with_cluster (remove_workload (ws_namespace (a_workspace_id a)) (ai_container_name x) (ai_assigned_domain x))"
  have "\<exists>w1. ?m w = (Inr (), w1) \<and> faults w1 = faults w \<and> db w1 = db w"
  proof (cases "instance_with_app (ai_id x) (db w)")
    case None
    then show ?thesis by (simp add: ret_def)
  next
    case (Some q)
    then show ?thesis using with_cluster_run [OF remove_workload_run] by (simp add: split_beta)
  qed
  then obtain w1 where 1: "?m w = (Inr (), w1)" and w1: "faults w1 = []" "db w1 = db w" using assms by auto
  show ?thesis
    using assms w1 by (simp add: remove_branch_instance_def step_simps andThen_run [where m = ?m, OF 1] without_instance_def)
qed

lemma remove_instances_run:
  assumes "faults w = []"
  shows "\<exists>w'. forEach xs remove_branch_instance w = (Inr (), w') \<and> faults w' = []
    \<and> db w' = fold without_instance xs (db w)"
  using assms
proof (induction xs arbitrary: w)
  case (Cons x xs)
  from remove_branch_instance_run [OF Cons.prems, of x] obtain w1
    where 1: "remove_branch_instance x w = (Inr (), w1)" "faults w1 = []" "db w1 = without_instance x (db w)" by blast
  from Cons.IH [OF 1(2)] show ?case by (simp add: andThen_run [where m = "remove_branch_instance x", OF 1(1)] 1(3))
qed (simp add: step_simps)

lemma without_instances_tables:
  "apps (fold without_instance xs d) = apps d" "domains (fold without_instance xs d) = domains d"
  "app_instances (fold without_instance xs d) = deleteWhere (\<lambda>y. ai_id y \<in> ai_id ` set xs) (app_instances d)"
  "environment_variables (fold without_instance xs d) =
     deleteWhere (\<lambda>r. ev_app_instance_id r \<in> ai_id ` set xs) (environment_variables d)"
  by (induction xs arbitrary: d)
    (simp_all add: without_instance_def delete_instance_env_def deleteWhere_def delete_instance_rows_def Let_def conj_commute)

text \<open>
  The delivery of a closed pull request removes every instance of a branch of that name that is not a production
  one, with its own variables: in every workspace and of every application. The repository
  the delivery names is not looked at, and the domains of the removed instances stay.
\<close>

theorem branch_removal_ignores_repository:
  assumes faults: "faults w = []" and key: "uniqueOn ai_id (app_instances (db w))"
    and p: "gp_action p = Some ''closed''" "gp_pull_request_head p = Some b" "gp_ref_type p = None"
  shows "\<exists>w'. handle_payload p w = (Inr (), w')
    \<and> app_instances (db w') = deleteWhere (\<lambda>x. ai_branch_name x = b \<and> ai_instance_type x \<noteq> Production) (app_instances (db w))
    \<and> environment_variables (db w') = deleteWhere (\<lambda>r. \<exists>x \<in> set (app_instances (db w)). ai_id x = ev_app_instance_id r
        \<and> ai_branch_name x = b \<and> ai_instance_type x \<noteq> Production) (environment_variables (db w))
    \<and> apps (db w') = apps (db w) \<and> domains (db w') = domains (db w)"
proof -
  let ?gone = "\<lambda>x. ai_branch_name x = b \<and> ai_instance_type x \<noteq> Production"
  let ?xs = "selectWhere ?gone (app_instances (db w))"
  obtain w' where w': "forEach ?xs remove_branch_instance w = (Inr (), w')"
    "faults w' = []" "db w' = fold without_instance ?xs (db w)"
    using remove_instances_run [OF faults] by blast
  have "remove_branch b w = (Inr (), w')"
    using faults w'(1) by (simp add: remove_branch_def step_simps)
  then have run: "handle_payload p w = (Inr (), w')"
    by (simp add: handle_payload_def p removed_branch_def if_given_def andThen_run step_simps onlyIf_def split: option.split)
  have "ai_id y \<in> ai_id ` set ?xs \<longleftrightarrow> ?gone y" if "y \<in> set (app_instances (db w))" for y
    using that uniqueOn_eq [OF key that] by (auto simp: selectWhere_def)
  then have "app_instances (db w') = deleteWhere ?gone (app_instances (db w))"
    unfolding w'(3) without_instances_tables deleteWhere_def by (intro filter_cong) simp_all
  moreover have "(\<lambda>r. ev_app_instance_id r \<in> ai_id ` set ?xs) =
      (\<lambda>r. \<exists>x \<in> set (app_instances (db w)). ai_id x = ev_app_instance_id r \<and> ?gone x)"
    by (auto simp: selectWhere_def image_iff fun_eq_iff)
  then have "environment_variables (db w') = deleteWhere (\<lambda>r. \<exists>x \<in> set (app_instances (db w)).
      ai_id x = ev_app_instance_id r \<and> ?gone x) (environment_variables (db w))"
    unfolding w'(3) without_instances_tables by (rule arg_cong [where f = "\<lambda>q. deleteWhere q _"])
  ultimately show ?thesis using run by (simp add: w'(3) without_instances_tables)
qed

definition closed_pull_request :: "string \<Rightarrow> string \<Rightarrow> github_payload" where
  "closed_pull_request b repo = \<lparr>gp_action = Some ''closed'', gp_ref = None, gp_ref_type = None, gp_pull_request_head = Some b,
     gp_repository = Some (Some repo, None)\<rparr>"

theorem branch_removal_ignores_repository_witness:
  "\<exists>w'. handle_payload (closed_pull_request ''fix'' ''git@github.com:them/other.git'') hook_world = (Inr (), w')
    \<and> map ai_id (app_instances (db hook_world)) = [5, 6] \<and> map ai_id (app_instances (db w')) = [5]"
proof -
  have f: "faults hook_world = []" "uniqueOn ai_id (app_instances (db hook_world))"
    by (simp_all add: hook_world_def base_world_def new_instance_def uniqueOn_def)
  obtain w' where w': "handle_payload (closed_pull_request ''fix'' ''git@github.com:them/other.git'') hook_world = (Inr (), w')"
    "app_instances (db w') = deleteWhere (\<lambda>x. ai_branch_name x = ''fix'' \<and> ai_instance_type x \<noteq> Production)
       (app_instances (db hook_world))"
    using branch_removal_ignores_repository [OF f, of "closed_pull_request ''fix'' ''git@github.com:them/other.git''" "''fix''"]
    by (auto simp: closed_pull_request_def)
  then show ?thesis by (simp add: hook_world_def new_instance_def deleteWhere_def)
qed

section \<open>Instances of other workspaces\<close>

lemma andThen_active [step_simps]:
  "c_current_workspace_id c = Some ws \<Longrightarrow> andThen (active_workspace c) f w = f ws w"
  by (simp add: active_workspace_def andThen_okOr)

lemma andThen_find_instance [step_simps]:
  "faults w = [] \<Longrightarrow> andThen (find_instance_of ws i) f w = (case instance_of ws i (db w) of
     None \<Rightarrow> (Inl (NotFound ''Application branch instance not found.''), w) | Some r \<Rightarrow> f r w)"
  by (simp add: find_instance_of_def andThen_assoc step_simps split: option.split)

lemma andThen_find_app [step_simps]:
  "faults w = [] \<Longrightarrow> andThen (find_app m ws a) f w =
     (case firstWhere (\<lambda>r. a_id r = a \<and> a_workspace_id r = ws) (apps (db w)) of
        None \<Rightarrow> (Inl (NotFound m), w) | Some r \<Rightarrow> f r w)"
  by (simp add: find_app_def andThen_assoc step_simps split: option.split)

lemma andThen_find_build [step_simps]:
  "faults w = [] \<Longrightarrow> andThen (find_build ws a b) f w = (case build_of ws a b (db w) of
     None \<Rightarrow> (Inl (NotFound ''Build not found for this application.''), w) | Some r \<Rightarrow> f r w)"
  by (simp add: find_build_def andThen_assoc step_simps split: option.split)

text \<open>The handlers of one instance, and those of one application.\<close>

definition instance_handlers :: "claims \<Rightarrow> uuid \<Rightarrow> configure_serverless_request \<Rightarrow> unit handler list" where
  "instance_handlers c i s = [delete_app_instance c i, stop_app_instance c i, start_app_instance c i, redeploy_app_instance c i,
     reload_app_instance c i, configure_serverless c i s]"

definition app_handlers :: "claims \<Rightarrow> uuid \<Rightarrow> uuid \<Rightarrow> unit handler list" where
  "app_handlers c a b = [delete_app c a, cancel_build c a b, rollback_build c a b, retry_build c a b]"

lemma instance_of_None:
  "\<forall>x \<in> set (app_instances d). ai_id x = i \<longrightarrow> \<not> in_workspace d ws x \<Longrightarrow> instance_of ws i d = None"
  by (auto simp: instance_of_def instance_with_app_def in_workspace_def existsWhere_iff split: option.splits dest!: firstWhere_Some)

lemma build_of_None:
  "\<forall>r \<in> set (apps d). a_id r = a \<longrightarrow> a_workspace_id r \<noteq> ws \<Longrightarrow> build_of ws a b d = None"
  by (auto simp: build_of_def split: option.splits dest!: firstWhere_Some)

text \<open>
  C5. With another workspace's instance or application the handlers answer \<open>NotFound\<close> and do nothing at all: no
  row, job, event or call to the cluster. What decides is the workspace of the session's token,
  not the identifier of the application in the path, which the handlers of an instance ignore.
\<close>

theorem foreign_instance_is_untouchable:
  assumes "faults w = []" "c_current_workspace_id c = Some ws"
  shows "((\<forall>x \<in> set (app_instances (db w)). ai_id x = i \<longrightarrow> \<not> in_workspace (db w) ws x) \<longrightarrow>
      (\<forall>m \<in> set (instance_handlers c i s). \<exists>e. m w = (Inl (NotFound e), w)))
    \<and> ((\<forall>r \<in> set (apps (db w)). a_id r = a \<longrightarrow> a_workspace_id r \<noteq> ws) \<longrightarrow>
      (\<forall>m \<in> set (app_handlers c a b). \<exists>e. m w = (Inl (NotFound e), w)))"
proof (intro conjI impI)
  assume "\<forall>x \<in> set (app_instances (db w)). ai_id x = i \<longrightarrow> \<not> in_workspace (db w) ws x"
  from instance_of_None [OF this] show "\<forall>m \<in> set (instance_handlers c i s). \<exists>e. m w = (Inl (NotFound e), w)"
    using assms by (simp add: instance_handlers_def delete_app_instance_def stop_app_instance_def start_app_instance_def
        redeploy_app_instance_def reload_app_instance_def configure_serverless_def step_simps)
next
  assume a: "\<forall>r \<in> set (apps (db w)). a_id r = a \<longrightarrow> a_workspace_id r \<noteq> ws"
  then have "firstWhere (\<lambda>r. a_id r = a \<and> a_workspace_id r = ws) (apps (db w)) = None"
    "\<not> existsWhere (\<lambda>r. a_id r = a \<and> a_workspace_id r = ws) (apps (db w))"
    by (auto simp: firstWhere_None existsWhere_iff)
  with build_of_None [OF a] show "\<forall>m \<in> set (app_handlers c a b). \<exists>e. m w = (Inl (NotFound e), w)"
    using assms by (simp add: app_handlers_def delete_app_def cancel_build_def rollback_build_def retry_build_def step_simps)
qed

definition hook_claims :: "uuid \<Rightarrow> claims" where
  "hook_claims ws = \<lparr>c_sub = 1, c_username = ''u'', c_email = ''u@h'', c_status = Active, c_is_super_admin = False,
     c_current_workspace_id = Some ws, c_exp = 0\<rparr>"

lemma hook_world_rows:
  "faults hook_world = []" "c_current_workspace_id (hook_claims ws) = Some ws"
  "\<forall>x \<in> set (app_instances (db hook_world)). ai_id x = i \<longrightarrow> \<not> in_workspace (db hook_world) 8 x"
  "\<forall>r \<in> set (apps (db hook_world)). a_id r = a \<longrightarrow> a_workspace_id r \<noteq> 8"
  by (simp_all add: hook_world_def base_world_def hook_claims_def in_workspace_def existsWhere_iff new_instance_def)

theorem foreign_instance_is_untouchable_witness:
  "(\<exists>e. stop_app_instance (hook_claims 8) 5 hook_world = (Inl (NotFound e), hook_world))
   \<and> (\<exists>e. delete_app (hook_claims 8) 4 hook_world = (Inl (NotFound e), hook_world))"
  using foreign_instance_is_untouchable [OF hook_world_rows(1) hook_world_rows(2) [of 8], of 5 _ 4] hook_world_rows(3,4)
  by (simp add: instance_handlers_def app_handlers_def)

section \<open>The deletion of an application\<close>

lemma keeps_with_cluster [keeps_intros]: "keeps (\<lambda>w. I (db w)) m \<Longrightarrow> keeps (\<lambda>w. I (db w)) (with_cluster m)"
  unfolding with_cluster_def by (intro keeps_intros) (simp split: k8s_answer.split add: keeps_ret)

lemma keeps_remove_workload [keeps_intros]: "keeps (\<lambda>w. I (db w)) (remove_workload ns c dn)"
  unfolding remove_workload_def by (intro keeps_intros)

text \<open>The tables an application's rows are in.\<close>

definition app_tables :: "database \<Rightarrow> app list \<times> app_instance list \<times> app_build list \<times> app_volume list \<times> cron_job list
    \<times> env_variable list" where
  "app_tables d = (apps d, app_instances d, app_builds d, app_volumes d, cron_jobs d, environment_variables d)"

lemma keeps_purge_domains: "keeps (\<lambda>w. app_tables (db w) = T) (purge_domains_for_target ws t i)"
  unfolding purge_domains_for_target_def Let_def
  by (intro keeps_intros keeps_execute [where I = "\<lambda>d. app_tables d = T"]) (simp add: app_tables_def)

lemma keeps_unpublish: "keeps (\<lambda>w. app_tables (db w) = T) (unpublish_project_env src i)"
  unfolding unpublish_project_env_def Let_def
  by (intro keeps_intros keeps_execute [where I = "\<lambda>d. app_tables d = T"]) (simp add: app_tables_def)

definition without_app_env :: "uuid \<Rightarrow> database \<Rightarrow> database" where
  "without_app_env a d = d\<lparr>environment_variables := deleteWhere
     (\<lambda>r. existsWhere (\<lambda>x. ai_id x = ev_app_instance_id r \<and> ai_app_id x = a) (app_instances d)) (environment_variables d)\<rparr>"

lemma delete_app_yields:
  "yields (\<lambda>w. db w = d) (delete_app c a) (\<lambda>_ w. (\<exists>ws r. c_current_workspace_id c = Some ws
      \<and> firstWhere (\<lambda>r. a_id r = a \<and> a_workspace_id r = ws) (apps d) = Some r)
    \<and> app_tables (db w) = app_tables (delete_app_rows (\<lambda>b. a_id b = a) (without_app_env a d)))"
proof -
  let ?T = "\<lambda>w. app_tables (db w) = app_tables d"
  let ?E = "\<lambda>w. app_tables (db w) = app_tables (without_app_env a d)"
  let ?G = "\<lambda>w. app_tables (db w) = app_tables (delete_app_rows (\<lambda>b. a_id b = a) (without_app_env a d))"
  have env: "yields ?T (query (execute (\<lambda>w. (db w)\<lparr>environment_variables := deleteWhere
        (\<lambda>r. existsWhere (\<lambda>x. ai_id x = ev_app_instance_id r \<and> ai_app_id x = a) (app_instances (db w)))
        (environment_variables (db w))\<rparr>))) (\<lambda>_. ?E)"
    and rows: "yields ?E (query (execute (\<lambda>w. delete_app_rows (\<lambda>b. a_id b = a) (db w)))) (\<lambda>_. ?G)"
    by (auto simp: yields_def query_success execute_success app_tables_def without_app_env_def)
  have rest: "yields ?T (andThen (unpublish_project_env ''app'' a) (\<lambda>_.
     andThen (query (fetch (\<lambda>w. selectWhere (\<lambda>x. ai_app_id x = a) (app_instances (db w))))) (\<lambda>xs.
     andThen (with_cluster (forEach xs (\<lambda>x. remove_workload (ws_namespace ws) (ai_container_name x) (ai_assigned_domain x)))) (\<lambda>_.
     andThen (query (execute (\<lambda>w. (db w)\<lparr>environment_variables := deleteWhere
        (\<lambda>r. existsWhere (\<lambda>x. ai_id x = ev_app_instance_id r \<and> ai_app_id x = a) (app_instances (db w)))
        (environment_variables (db w))\<rparr>))) (\<lambda>_.
     andThen (forEach xs (\<lambda>x. purge_domains_for_target ws ''app'' (ai_id x))) (\<lambda>_.
     query (execute (\<lambda>w. delete_app_rows (\<lambda>b. a_id b = a) (db w))))))))) (\<lambda>_. ?G)" for ws
    by (intro yields_after [OF keeps_unpublish] yields_after [OF keeps_query [OF keeps_fetch [where I = "\<lambda>d'. app_tables d' = app_tables d"]]]
        yields_after [OF keeps_with_cluster [where I = "\<lambda>d'. app_tables d' = app_tables d", OF keeps_forEach [OF keeps_remove_workload]]]
        yields_andThen [OF env] yields_after [OF keeps_forEach [OF keeps_purge_domains]] rows)
  show ?thesis
    unfolding delete_app_def active_workspace_def find_app_def andThen_assoc
    by (rule yields_okOr, rule yields_andThen [OF yields_fetch], rule yields_pure, rule yields_okOr,
      rule yields_conseq [OF rest]) (auto dest: sym)
qed

text \<open>
  C7. Deleting an application is for the workspace that owns it. Whatever was refused or failed on the way, a success
  leaves neither the application nor an instance, build, volume, scheduled job or own variable of it, and takes no
  row of another application's.
\<close>

theorem app_deletion_leaves_no_row:
  assumes "delete_app c a w = (Inr u, w')"
  shows "\<exists>ws r. c_current_workspace_id c = Some ws \<and> r \<in> set (apps (db w)) \<and> a_id r = a \<and> a_workspace_id r = ws
    \<and> apps (db w') = deleteWhere (\<lambda>r. a_id r = a) (apps (db w))
    \<and> app_instances (db w') = deleteWhere (\<lambda>x. ai_app_id x = a) (app_instances (db w))
    \<and> app_volumes (db w') = deleteWhere (\<lambda>v. vo_app_id v = a) (app_volumes (db w))
    \<and> cron_jobs (db w') = deleteWhere (\<lambda>j. cj_app_id j = Some a) (cron_jobs (db w))
    \<and> app_builds (db w') = deleteWhere (\<lambda>b. ab_app_id b = a \<or> (\<exists>x \<in> set (app_instances (db w)).
        ai_app_id x = a \<and> ai_id x = ab_app_instance_id b)) (app_builds (db w))
    \<and> environment_variables (db w') = deleteWhere (\<lambda>r. \<exists>x \<in> set (app_instances (db w)).
        ai_id x = ev_app_instance_id r \<and> ai_app_id x = a) (environment_variables (db w))"
proof -
  from yieldsD [OF delete_app_yields refl assms] obtain ws r where ws: "c_current_workspace_id c = Some ws"
    and r: "firstWhere (\<lambda>r. a_id r = a \<and> a_workspace_id r = ws) (apps (db w)) = Some r"
    and t: "app_tables (db w') = app_tables (delete_app_rows (\<lambda>b. a_id b = a) (without_app_env a (db w)))"
    by blast
  with firstWhere_Some [OF r] show ?thesis
    by (intro exI [of _ ws] exI [of _ r])
      (auto simp: app_tables_def without_app_env_def existsWhere_iff deleteWhere_def image_iff intro!: filter_cong)
qed

lemma hook_app_deleted: "\<exists>w'. delete_app (hook_claims 7) 4 hook_world = (Inr (), w')"
  by (simp add: delete_app_def unpublish_project_env_def andThen_assoc with_cluster_def remove_workload_def
    purge_domains_for_target_def step_simps hook_world_def hook_claims_def base_world_def empty_db_def new_instance_def
    firstWhere_def selectWhere_def instances_linking_def delete_pool_vars_def deleteWhere_def Let_def)

theorem app_deletion_leaves_no_row_witness:
  "\<exists>w'. delete_app (hook_claims 7) 4 hook_world = (Inr (), w') \<and> apps (db w') = [] \<and> app_instances (db w') = []"
proof -
  obtain w' where "delete_app (hook_claims 7) 4 hook_world = (Inr (), w')" using hook_app_deleted by blast
  from app_deletion_leaves_no_row [OF this] this show ?thesis
    by (auto simp: hook_world_def new_instance_def deleteWhere_def)
qed

section \<open>Rolling back\<close>

definition new_job :: "world \<Rightarrow> string \<Rightarrow> job_payload \<Rightarrow> job" where
  "new_job w kind payload = \<lparr>jb_id = random_uuid w (drawn w), jb_kind = kind, jb_payload = payload, jb_status = ''queued'',
     jb_attempts = 0, jb_max_attempts = 3, jb_run_after = clock w, jb_locked_at = None, jb_locked_by = None,
     jb_last_error = None, jb_created_at = clock w, jb_updated_at = clock w\<rparr>"

text \<open>The next identifier is not the identifier of a job.\<close>

definition fresh_job :: "world \<Rightarrow> bool" where
  "fresh_job w \<longleftrightarrow> (\<forall>r \<in> set (jobs (db w)). jb_id r \<noteq> random_uuid w (drawn w))"

lemma enqueue_run:
  "faults w = [] \<Longrightarrow> fresh_job w \<Longrightarrow> discard (enqueue kind payload) w =
    (Inr (), w\<lparr>drawn := Suc (drawn w), db := (db w)\<lparr>jobs := insertRow (new_job w kind payload) (jobs (db w))\<rparr>\<rparr>)"
  by (simp add: enqueue_def discard_def step_simps new_job_def fresh_job_def existsWhere_iff)

text \<open>What a roll-back needs: the instance and the image of a build that succeeded, and no build in progress.\<close>

definition rollback_target :: "uuid \<Rightarrow> uuid \<Rightarrow> uuid \<Rightarrow> database \<Rightarrow> (uuid \<times> string) option" where
  "rollback_target ws a b d =
     (case firstWhere (\<lambda>r. ab_id r = b \<and> ab_app_id r = a) (app_builds d) of None \<Rightarrow> None
      | Some r \<Rightarrow> (if (\<exists>x \<in> set (apps d). a_id x = a \<and> a_workspace_id x = ws) \<and> ab_status r = ''succeeded''
            \<and> \<not> building (ab_app_instance_id r) d
          then map_option (Pair (ab_app_instance_id r)) (ab_image_tag r) else None))"

text \<open>
  C8. A roll-back points the instance at the image of an earlier successful build of the same application, marks it
  as building and queues one deployment of exactly that image. In every other case it is refused
  without any effect.
\<close>

theorem rollback_exact:
  assumes faults: "faults w = []" and fresh: "fresh_job w" and ws: "c_current_workspace_id c = Some ws"
  shows "case rollback_target ws a b (db w) of
      None \<Rightarrow> \<exists>e. rollback_build c a b w = (Inl e, w)
    | Some (i, tag) \<Rightarrow> rollback_build c a b w = (Inr (), w\<lparr>drawn := Suc (drawn w), db := (db w)\<lparr>
        app_instances := updateWhere (\<lambda>x. ai_id x = i)
          (\<lambda>x. x\<lparr>ai_status := Building, ai_current_image_tag := Some tag, ai_updated_at := clock w\<rparr>) (app_instances (db w)),
        jobs := insertRow (new_job w ''deploy'' (DeployPayload i (Some tag))) (jobs (db w))\<rparr>\<rparr>)"
proof -
  have run: "andThen (reject_busy i m) f w = (if building i (db w) then (Inl (Conflict m), w) else f () w)" for i m and f :: "unit \<Rightarrow> unit handler"
    using faults by (simp add: reject_busy_def andThen_assoc step_simps)
  show ?thesis
  proof (cases "rollback_target ws a b (db w)")
    case None
    then show ?thesis
      using faults by (auto simp: rollback_target_def rollback_build_def step_simps ws run existsWhere_iff okOr_def rejectIf_def
          split: option.splits if_splits)
  next
    case (Some t)
    obtain i tag where t: "t = (i, tag)" by fastforce
    let ?w1 = "w\<lparr>db := update_instance i (\<lambda>x. x\<lparr>ai_status := Building, ai_current_image_tag := Some tag, ai_updated_at := clock w\<rparr>) (db w)\<rparr>"
    have "fresh_job ?w1" "faults ?w1 = []" using fresh faults by (simp_all add: fresh_job_def update_instance_def)
    note q = enqueue_run [OF this(2,1)]
    from Some t have "rollback_build c a b w = discard (enqueue_deploy i (Some tag)) ?w1"
      using faults by (auto simp: rollback_target_def rollback_build_def step_simps ws run existsWhere_iff okOr_def rejectIf_def
          split: option.splits if_splits)
    then show ?thesis
      by (simp add: Some t enqueue_deploy_def q) (simp add: update_instance_def new_job_def)
  qed
qed

text \<open>A build of the production instance that succeeded.\<close>

definition shipped_world :: world where
  "shipped_world = hook_world\<lparr>db := (db hook_world)\<lparr>app_builds := [\<lparr>ab_id = 3, ab_app_id = 4, ab_app_instance_id = 5,
     ab_status = ''succeeded'', ab_phase = ''deployed'', ab_failure_reason = None, ab_failure_category = None,
     ab_duration_sec = None, ab_image_tag = Some ''t1'', ab_commit_message = None, ab_commit_sha = None, ab_created_at = 0\<rparr>]\<rparr>\<rparr>"

theorem rollback_exact_witness:
  "(\<exists>w'. rollback_build (hook_claims 7) 4 3 shipped_world = (Inr (), w')
      \<and> map ai_current_image_tag (app_instances (db w')) = [Some ''t1'', None]
      \<and> map jb_payload (jobs (db w')) = [DeployPayload 5 (Some ''t1'')])
   \<and> (\<exists>e. rollback_build (hook_claims 7) 4 2 shipped_world = (Inl e, shipped_world))"
proof -
  have f: "faults shipped_world = []" "fresh_job shipped_world" "c_current_workspace_id (hook_claims 7) = Some 7"
    by (simp_all add: shipped_world_def hook_world_def base_world_def fresh_job_def empty_db_def hook_claims_def)
  have t: "rollback_target 7 4 3 (db shipped_world) = Some (5, ''t1'')" "rollback_target 7 4 2 (db shipped_world) = None"
    by (simp_all add: rollback_target_def shipped_world_def hook_world_def firstWhere_def building_def existsWhere_def)
  have d: "map ai_id (app_instances (db shipped_world)) = [5, 6]" "map ai_current_image_tag (app_instances (db shipped_world)) = [None, None]"
    "jobs (db shipped_world) = []"
    by (simp_all add: shipped_world_def hook_world_def new_instance_def empty_db_def)
  show ?thesis
    using rollback_exact [OF f, of 4 3] rollback_exact [OF f, of 4 2] d
    by (auto simp: t new_job_def updateWhere_def insertRow_def)
qed

section \<open>Quotas and the range of replicas\<close>

lemma chosen_port_run: "faults w = [] \<Longrightarrow> \<exists>r k. chosen_port q w = (r, w\<lparr>drawn := k\<rparr>)"
proof -
  assume f: "faults w = []"
  have "\<exists>k. w = w\<lparr>drawn := k\<rparr>" by (intro exI [of _ "drawn w"]) simp
  then show ?thesis using port_tries_run [OF f, of 100]
    by (auto simp: chosen_port_def get_random_available_port_def ret_def split: option.split)
qed

lemma chosen_port_given: "0 < q \<Longrightarrow> andThen (chosen_port (Some q)) f w = f q w"
  by (simp add: chosen_port_def step_simps)

text \<open>A request that changes the number of replicas only.\<close>

definition scale_request :: "int \<Rightarrow> int option \<Rightarrow> int \<Rightarrow> update_instance_request" where
  "scale_request q mn mx = \<lparr>ui_cpu_limit = None, ui_memory_limit_mb = None, ui_internal_port = None, ui_external_port = Some q,
     ui_build_command = None, ui_start_command = None, ui_replicas_min = mn, ui_replicas_max = Some mx,
     ui_autoscale_cpu_percent = None, ui_auto_sleep_enabled = None, ui_auto_sleep_after_minutes = None\<rparr>"

lemma scale_request_run:
  assumes "faults w = []" "fresh_job w" "0 < q" "\<not> replica_range_invalid (scale_request q mn mx)"
    and "firstWhere (\<lambda>r. a_id r = a \<and> a_workspace_id r = ws) (apps (db w)) = Some r"
    and "x \<in> set (app_instances (db w))" "ai_id x = i" "ai_app_id x = a"
  shows "\<exists>w'. update_settings_of ws a i (scale_request q mn mx) w = (Inr (), w')
    \<and> db w' = (update_instance i (edited_instance (scale_request q mn mx) q (clock w)) (db w))
        \<lparr>jobs := insertRow (new_job w ''deploy'' (DeployPayload i None)) (jobs (db w))\<rparr>"
proof -
  let ?p = "scale_request q mn mx"
  let ?w1 = "w\<lparr>db := update_instance i (edited_instance ?p q (clock w)) (db w)\<rparr>"
  have "fresh_job ?w1" "faults ?w1 = []" using assms(1,2) by (simp_all add: fresh_job_def update_instance_def)
  note q = enqueue_run [OF this(2,1)]
  have ex: "existsWhere (\<lambda>x. ai_id x = i \<and> ai_app_id x = a) (app_instances (db w))"
    using assms(6-8) by (auto simp: existsWhere_iff)
  have "update_settings_of ws a i ?p w = discard (enqueue_deploy i None) ?w1"
    using assms(1,3-5) ex
    by (simp add: update_settings_of_def step_simps check_positive_def chosen_port_given Let_def onlyIf_def if_given_def rollout_def
        ) (simp add: scale_request_def step_simps chosen_port_given onlyIf_def if_given_def rollout_def)
  then show ?thesis by (simp add: enqueue_deploy_def q) (simp add: update_instance_def new_job_def)
qed

text \<open>The memory promised when the row of one instance is replaced by an active one.\<close>

lemma memory_used_replace:
  assumes "app_instances d = ys @ x # zs" "\<forall>y \<in> set ys \<union> set zs. ai_id y \<noteq> ai_id x"
    "\<forall>s \<in> set (databases d). ds_id s \<noteq> ai_id x" "\<forall>s \<in> set (serverless_instances d). si_id s \<noteq> ai_id x"
    and "in_workspace d ws x'" "\<not> app_inactive (ai_status x')" "app_mem x' = Some m"
    and "apps d' = apps d" "databases d' = databases d" "serverless_instances d' = serverless_instances d"
    and "app_instances d' = ys @ x' # zs"
  shows "memory_used ws None d' = memory_used ws (Some (ai_id x)) d + m"
proof -
  let ?r = "\<lambda>y. in_workspace d ws y \<and> \<not> app_inactive (ai_status y)"
  have ws: "in_workspace d' = in_workspace d" using assms(8) by (simp add: in_workspace_def fun_eq_iff)
  have "app_rows ws None d' = filter ?r ys @ x' # filter ?r zs"
    using assms(5,6,11) by (simp add: app_rows_def selectWhere_def ws)
  moreover have "app_rows ws (Some (ai_id x)) d = filter ?r ys @ filter ?r zs"
    using assms(1,2) by (simp add: app_rows_def selectWhere_def) (intro arg_cong2 [where f = append] filter_cong; simp)
  moreover have "db_rows ws None d' = db_rows ws (Some (ai_id x)) d" "sf_rows ws None d' = sf_rows ws (Some (ai_id x)) d"
    using assms(3,4,9,10) by (auto simp: db_rows_def sf_rows_def selectWhere_def intro!: filter_cong)
  ultimately show ?thesis using assms(7) by (simp add: memory_used_def)
qed

text \<open>
  The settings of an instance check the quota against the memory of one replica, and only when a limit is part of
  the request. A request that changes nothing but the number of replicas is accepted, whatever the quota, and then
  the workspace has promised the memory limit times the new maximum. The range itself is
  checked only when both its ends are given: a maximum alone may be anything, a negative number included, which
  lowers what the workspace seems to use.
\<close>

theorem replicas_evade_the_quota:
  assumes "faults w = []" "fresh_job w" "0 < q" "mn = None \<or> (\<exists>n. mn = Some n \<and> 1 \<le> n \<and> n \<le> mx)"
    and a: "firstWhere (\<lambda>r. a_id r = a \<and> a_workspace_id r = ws) (apps (db w)) = Some r"
    and x: "x \<in> set (app_instances (db w))" "ai_app_id x = a" "ai_memory_limit_mb x = Some m"
    and keys: "uniqueOn ai_id (app_instances (db w))" "\<forall>s \<in> set (databases (db w)). ds_id s \<noteq> ai_id x"
      "\<forall>s \<in> set (serverless_instances (db w)). si_id s \<noteq> ai_id x"
  shows "\<exists>w'. update_settings_of ws a (ai_id x) (scale_request q mn mx) w = (Inr (), w')
    \<and> workspaces (db w') = workspaces (db w)
    \<and> memory_used ws None (db w') = memory_used ws (Some (ai_id x)) (db w) + m * mx"
proof -
  let ?f = "edited_instance (scale_request q mn mx) q (clock w)"
  have range: "\<not> replica_range_invalid (scale_request q mn mx)"
    using assms(4) by (auto simp: replica_range_invalid_def scale_request_def)
  obtain w' where run: "update_settings_of ws a (ai_id x) (scale_request q mn mx) w = (Inr (), w')"
    and d: "db w' = (update_instance (ai_id x) ?f (db w))\<lparr>jobs := insertRow (new_job w ''deploy'' (DeployPayload (ai_id x) None)) (jobs (db w))\<rparr>"
    using scale_request_run [OF assms(1-3) range a x(1) refl x(2)] by blast
  obtain ys zs where split: "app_instances (db w) = ys @ x # zs" "\<forall>y \<in> set ys \<union> set zs. ai_id y \<noteq> ai_id x"
    using unique_split [OF x(1) keys(1)] by blast
  have rows: "app_instances (db w') = ys @ ?f x # zs"
    using updateWhere_split [of ys zs "\<lambda>y. ai_id y = ai_id x" x ?f] split by (simp add: d update_instance_def)
  have "in_workspace (db w) ws (?f x)"
    using firstWhere_Some [OF a] x(2) by (auto simp: in_workspace_def existsWhere_iff edited_instance_def)
  moreover have "\<not> app_inactive (ai_status (?f x))" "app_mem (?f x) = Some (m * mx)"
    using x(3) by (simp_all add: edited_instance_def scale_request_def app_inactive_def app_mem_def times_def coalesce_def default_to_def)
  ultimately have "memory_used ws None (db w') = memory_used ws (Some (ai_id x)) (db w) + m * mx"
    using memory_used_replace [OF split keys(2,3), of ws "?f x" "m * mx" "db w'"] rows by (simp add: d update_instance_def)
  with run show ?thesis by (auto simp: d update_instance_def)
qed

text \<open>One instance of 512 MB in a workspace that may use 1024.\<close>

definition small_world :: world where
  "small_world = base_world\<lparr>db := empty_db\<lparr>workspaces := workspaces (db (quota_world 0)), apps := apps (db hook_world),
     app_instances := [(new_instance 5 4 ''main'' Production 3000 ''c'' 20000 0)\<lparr>ai_memory_limit_mb := Some 512\<rparr>]\<rparr>\<rparr>"

lemma small_world_rows:
  "faults small_world = []" "fresh_job small_world"
  "\<exists>r. firstWhere (\<lambda>r. a_id r = 4 \<and> a_workspace_id r = 7) (apps (db small_world)) = Some r \<and> a_slug r = ''shop''"
  "uniqueOn ai_id (app_instances (db small_world))" "databases (db small_world) = []" "serverless_instances (db small_world) = []"
  "map w_max_memory_mb (workspaces (db small_world)) = [1024]"
  by (simp_all add: small_world_def base_world_def fresh_job_def empty_db_def firstWhere_def hook_world_def uniqueOn_def
    quota_world_def)

theorem replicas_evade_the_quota_witness:
  "(\<exists>w'. update_settings_of 7 4 5 (scale_request 20000 (Some 1) 100) small_world = (Inr (), w')
      \<and> map w_max_memory_mb (workspaces (db w')) = [1024] \<and> memory_used 7 None (db w') = 51200)
   \<and> (\<exists>w'. update_settings_of 7 4 5 (scale_request 20000 None (- 100)) small_world = (Inr (), w')
      \<and> memory_used 7 None (db w') = - 51200)"
proof -
  let ?x = "(new_instance 5 4 ''main'' Production 3000 ''c'' 20000 0)\<lparr>ai_memory_limit_mb := Some 512\<rparr>"
  have x: "?x \<in> set (app_instances (db small_world))" "ai_app_id ?x = 4" "ai_memory_limit_mb ?x = Some 512" "ai_id ?x = 5"
    by (simp_all add: small_world_def new_instance_def)
  have u: "memory_used 7 (Some 5) (db small_world) = 0"
    by (simp add: memory_used_def app_rows_def db_rows_def sf_rows_def selectWhere_def small_world_def new_instance_def empty_db_def)
  obtain r where r: "firstWhere (\<lambda>r. a_id r = 4 \<and> a_workspace_id r = 7) (apps (db small_world)) = Some r"
    using small_world_rows(3) by blast
  note run = replicas_evade_the_quota [OF small_world_rows(1,2), of 20000, OF _ _ r x(1-3) small_world_rows(4), unfolded x(4)]
  show ?thesis
    using run [of "Some 1" 100] run [of None "- 100"] small_world_rows(5-7) by (auto simp: u)
qed

text \<open>The request of a branch instance, with the range of replicas it gets.\<close>

definition branch_memory :: "create_branch_request \<Rightarrow> int" where
  "branch_memory p = default_to 0 (cb_memory_limit_mb p)"

lemma check_branch_quota_passes:
  assumes "faults w = []" "check_branch_quota ws p mx w = (Inr (), w')"
  shows "w' = w \<and> (0 < branch_memory p \<longrightarrow>
    fst (check_workspace_memory_limit ws (i64 (branch_memory p * mx)) None w) = Inr ())"
  using assms(2) check_memory_state [OF assms(1), of ws "i64 (branch_memory p * mx)" None]
    check_cpu_state [OF assms(1), of ws "i32 (default_to 0 (cb_cpu_limit p) * mx)" None]
  by (cases "check_workspace_memory_limit ws (i64 (branch_memory p * mx)) None w";
      cases "check_workspace_cpu_limit ws (i32 (default_to 0 (cb_cpu_limit p) * mx)) None w")
    (auto simp: check_branch_quota_def branch_memory_def onlyIf_def andThen_def ret_def Let_def split: if_splits sum.splits)

lemma check_branch_quota_state: "faults w = [] \<Longrightarrow> snd (check_branch_quota ws p mx w) = w"
  using check_memory_state [of w ws "i64 (branch_memory p * mx)" None]
    check_cpu_state [of w ws "i32 (default_to 0 (cb_cpu_limit p) * mx)" None]
  by (cases "check_workspace_memory_limit ws (i64 (branch_memory p * mx)) None w";
      cases "check_workspace_cpu_limit ws (i32 (default_to 0 (cb_cpu_limit p) * mx)) None w")
    (auto simp: check_branch_quota_def branch_memory_def onlyIf_def andThen_def ret_def Let_def split: if_splits sum.splits)

lemma memory_used_update:
  assumes "\<And>x. in_workspace d ws (f x) = in_workspace d ws x" "\<And>x. ai_status (f x) = ai_status x" "\<And>x. app_mem (f x) = app_mem x"
  shows "memory_used ws None (d\<lparr>app_instances := updateWhere p f t\<rparr>) = memory_used ws None (d\<lparr>app_instances := t\<rparr>)"
proof -
  let ?r = "\<lambda>x. in_workspace d ws x \<and> \<not> app_inactive (ai_status x)"
  have "sumOf app_mem (filter ?r (updateWhere p f t)) = sumOf app_mem (filter ?r t)"
    using assms by (induction t) (auto simp: updateWhere_def)
  moreover have "in_workspace (d\<lparr>app_instances := t'\<rparr>) ws = in_workspace d ws" for t'
    by (simp add: in_workspace_def fun_eq_iff)
  ultimately show ?thesis by (simp add: memory_used_def app_rows_def db_rows_def sf_rows_def selectWhere_def)
qed

lemma memory_used_new_instance:
  assumes "in_workspace d ws x" "\<not> app_inactive (ai_status x)" "app_mem x = Some m"
  shows "memory_used ws None (d\<lparr>app_instances := insertRow x (app_instances d)\<rparr>) = memory_used ws None d + m"
proof -
  have "in_workspace (d\<lparr>app_instances := t'\<rparr>) ws = in_workspace d ws" for t' by (simp add: in_workspace_def fun_eq_iff)
  then show ?thesis
    using assms by (simp add: memory_used_def app_rows_def db_rows_def sf_rows_def selectWhere_def insertRow_def)
qed

lemma enqueue_jobs_only:
  assumes "faults w = []"
  shows "\<exists>w1 js. discard (enqueue kind payload) w = (Inr (), w1) \<and> db w1 = (db w)\<lparr>jobs := js\<rparr>"
proof -
  have "db w = (db w)\<lparr>jobs := jobs (db w)\<rparr>" by simp
  then have "\<exists>js. db w = (db w)\<lparr>jobs := js\<rparr>" by blast
  then show ?thesis using assms by (auto simp: enqueue_def discard_def step_simps)
qed

text \<open>The row of a new branch instance, before and after its second statement.\<close>

definition branch_row :: "create_branch_request \<Rightarrow> uuid \<Rightarrow> uuid \<Rightarrow> string \<Rightarrow> int \<Rightarrow> instant \<Rightarrow> app_instance" where
  "branch_row p i a c q t = (new_instance i a (cb_branch_name p) (cb_instance_type p) (default_to 3000 (cb_internal_port p)) c q t)
     \<lparr>ai_cpu_limit := Some (default_to 0 (cb_cpu_limit p)), ai_memory_limit_mb := Some (branch_memory p),
      ai_replicas_min := fst (branch_replicas p), ai_replicas_max := snd (branch_replicas p)\<rparr>"

definition branch_columns :: "create_branch_request \<Rightarrow> app_instance \<Rightarrow> app_instance" where
  "branch_columns p x = x\<lparr>ai_auto_sleep_enabled := default_to False (cb_auto_sleep_enabled p),
     ai_auto_sleep_after_minutes := clamp (default_to 30 (cb_auto_sleep_after_minutes p)) 1 10080,
     ai_autoscale_cpu_percent := clamp (default_to 80 (cb_autoscale_cpu_percent p)) 1 100\<rparr>"

lemma branch_inserted:
  assumes f: "faults v = []"
    and ok: "andThen (insert_instance row) (\<lambda>_. andThen (set_column i g) (\<lambda>_.
      andThen (discard (enqueue_build i repo branch cmd)) (\<lambda>_. ret y))) v = (Inr x, w')"
  shows "\<exists>js. x = y \<and> db w' = (db v)\<lparr>app_instances := updateWhere (\<lambda>y. ai_id y = i) g (insertRow row (app_instances (db v))), jobs := js\<rparr>"
proof -
  let ?w1 = "v\<lparr>db := (db v)\<lparr>app_instances := insertRow row (app_instances (db v))\<rparr>\<rparr>"
  let ?w2 = "v\<lparr>db := (db v)\<lparr>app_instances := updateWhere (\<lambda>y. ai_id y = i) g (insertRow row (app_instances (db v)))\<rparr>\<rparr>"
  have ins: "andThen (set_column i g) (\<lambda>_. andThen (discard (enqueue_build i repo branch cmd)) (\<lambda>_. ret y)) ?w1 = (Inr x, w')"
    using ok f by (auto simp: insert_instance_def step_simps split: option.splits)
  obtain w3 js where q: "(discard (enqueue_build i repo branch cmd) :: unit handler) ?w2 = (Inr (), w3)" "db w3 = (db ?w2)\<lparr>jobs := js\<rparr>"
    using enqueue_jobs_only [of ?w2] f unfolding enqueue_build_def by fastforce
  have "x = y \<and> w' = w3"
    using ins f by (simp add: set_column_def update_instance_def step_simps
        andThen_run [where m = "discard (enqueue_build i repo branch cmd)", OF q(1)])
  with q(2) show ?thesis by auto
qed

lemma branch_created:
  assumes f: "faults w = []" and ok: "create_branch_locked ws a p w = (Inr x, w')"
  shows "\<exists>r i c q k js. firstWhere (\<lambda>r. a_id r = a \<and> a_workspace_id r = ws) (apps (db w)) = Some r
    \<and> x = branch_columns p (branch_row p i a c q (clock w))
    \<and> (0 < branch_memory p \<longrightarrow>
        fst (check_workspace_memory_limit ws (i64 (branch_memory p * snd (branch_replicas p))) None (w\<lparr>drawn := k\<rparr>)) = Inr ())
    \<and> db w' = (db w)\<lparr>app_instances := updateWhere (\<lambda>y. ai_id y = i) (branch_columns p)
        (insertRow (branch_row p i a c q (clock w)) (app_instances (db w))), jobs := js\<rparr>"
proof -
  obtain r where r: "firstWhere (\<lambda>r. a_id r = a \<and> a_workspace_id r = ws) (apps (db w)) = Some r"
    using ok f by (cases "firstWhere (\<lambda>r. a_id r = a \<and> a_workspace_id r = ws) (apps (db w))")
      (auto simp: create_branch_locked_def step_simps)
  let ?i = "random_uuid w (drawn w)" and ?mx = "snd (branch_replicas p)"
  let ?c = "instance_container (a_slug r) (cb_branch_name p) ?i"
  obtain pr k where port: "chosen_port (cb_external_port p) (w\<lparr>drawn := Suc (drawn w)\<rparr>) = (pr, w\<lparr>drawn := k\<rparr>)"
    using chosen_port_run [of "w\<lparr>drawn := Suc (drawn w)\<rparr>" "cb_external_port p"] f by (simp add: that) (elim exE, rule that, simp)
  note step = andThen_result [where m = "chosen_port (cb_external_port p)", OF port]
  obtain q where q: "pr = Inr q"
    using ok f r by (cases pr) (auto simp: create_branch_locked_def step_simps step)
  let ?w1 = "w\<lparr>drawn := k\<rparr>" and ?row = "branch_row p ?i a ?c q"
  have run: "create_branch_locked ws a p w = andThen (check_branch_quota ws p ?mx) (\<lambda>_. andThen now (\<lambda>t.
     andThen (insert_instance (?row t)) (\<lambda>_. andThen (set_column ?i (branch_columns p)) (\<lambda>_.
     andThen (discard (enqueue_build ?i (a_git_repository r) (cb_branch_name p) (a_build_command r))) (\<lambda>_.
     ret (branch_columns p (?row t))))))) ?w1"
    using f r by (simp add: create_branch_locked_def step_simps step q split_beta Let_def branch_row_def branch_memory_def
        branch_columns_def [abs_def])
  have quota: "check_branch_quota ws p ?mx ?w1 = (Inr (), ?w1)"
    using ok f run check_branch_quota_state [of ?w1 ws p ?mx]
    by (cases "check_branch_quota ws p ?mx ?w1"; cases "fst (check_branch_quota ws p ?mx ?w1)") (auto simp: andThen_def)
  have "andThen (insert_instance (?row (clock w))) (\<lambda>_. andThen (set_column ?i (branch_columns p)) (\<lambda>_.
     andThen (discard (enqueue_build ?i (a_git_repository r) (cb_branch_name p) (a_build_command r))) (\<lambda>_.
     ret (branch_columns p (?row (clock w)))))) ?w1 = (Inr x, w')"
    using ok unfolding run by (simp add: andThen_run [where m = "check_branch_quota ws p ?mx", OF quota] andThen_now)
  from branch_inserted [OF _ this] f obtain js where "x = branch_columns p (?row (clock w))"
    "db w' = (db w)\<lparr>app_instances := updateWhere (\<lambda>y. ai_id y = ?i) (branch_columns p)
        (insertRow (?row (clock w)) (app_instances (db w))), jobs := js\<rparr>" by auto
  with r check_branch_quota_passes [OF _ quota] f show ?thesis by auto
qed

text \<open>
  C4. Creating a branch instance keeps the workspace within its quota of memory, counted at full scale-out (limit times
  maximal replicas), as long as that product stays within the integers of the columns, and the stored
  row has a range of replicas from at least one, a percentage from 1 to 100 and a sleep of 1 minute to a week.
\<close>

theorem branch_creation_respects_quota:
  assumes "faults w = []" "create_branch_locked ws a p w = (Inr x, w')"
    and "memory_sane ws None (db w)" "0 < branch_memory p" "branch_memory p * snd (branch_replicas p) < 2 ^ 62"
    and "firstWhere (\<lambda>r. w_id r = ws) (workspaces (db w)) = Some r" "0 < w_max_memory_mb r"
  shows "memory_used ws None (db w') \<le> w_max_memory_mb r \<and> x \<in> set (app_instances (db w'))
    \<and> memory_used ws None (db w') = memory_used ws None (db w) + branch_memory p * ai_replicas_max x
    \<and> 1 \<le> ai_replicas_min x \<and> ai_replicas_min x \<le> ai_replicas_max x
    \<and> 1 \<le> ai_autoscale_cpu_percent x \<and> ai_autoscale_cpu_percent x \<le> 100
    \<and> 1 \<le> ai_auto_sleep_after_minutes x \<and> ai_auto_sleep_after_minutes x \<le> 10080"
proof -
  let ?n = "branch_memory p * snd (branch_replicas p)"
  obtain ra i c q k js where ra: "firstWhere (\<lambda>r. a_id r = a \<and> a_workspace_id r = ws) (apps (db w)) = Some ra"
    and x: "x = branch_columns p (branch_row p i a c q (clock w))"
    and ok: "fst (check_workspace_memory_limit ws (i64 ?n) None (w\<lparr>drawn := k\<rparr>)) = Inr ()"
    and d: "db w' = (db w)\<lparr>app_instances := updateWhere (\<lambda>y. ai_id y = i) (branch_columns p)
        (insertRow (branch_row p i a c q (clock w)) (app_instances (db w))), jobs := js\<rparr>"
    using branch_created [OF assms(1,2)] assms(4) by auto
  let ?row = "branch_row p i a c q (clock w)"
  have reps: "1 \<le> fst (branch_replicas p)" "fst (branch_replicas p) \<le> snd (branch_replicas p)"
    by (simp_all add: branch_replicas_def Let_def)
  then have "0 < ?n" using assms(4) by simp
  then have "i64 ?n = ?n" using assms(5) by (intro i64_id) (simp add: fits_i64_def)
  with ok memory_check_run [of "w\<lparr>drawn := k\<rparr>" ws None ?n] \<open>0 < ?n\<close> assms(1,3,5-7)
  have within: "memory_used ws None (db w) + ?n \<le> w_max_memory_mb r" by (auto split: if_splits)
  have row: "in_workspace (db w) ws ?row" "\<not> app_inactive (ai_status ?row)" "app_mem ?row = Some ?n"
    using firstWhere_Some [OF ra] by (auto simp: in_workspace_def existsWhere_iff branch_row_def new_instance_def app_inactive_def
        app_mem_def times_def)
  have "memory_used ws None (db w') = memory_used ws None ((db w)\<lparr>app_instances := updateWhere (\<lambda>y. ai_id y = i) (branch_columns p)
        (insertRow ?row (app_instances (db w)))\<rparr>)"
    by (simp add: d memory_used_def app_rows_def db_rows_def sf_rows_def in_workspace_def)
  also have "\<dots> = memory_used ws None ((db w)\<lparr>app_instances := insertRow ?row (app_instances (db w))\<rparr>)"
    by (rule memory_used_update) (simp_all add: branch_columns_def in_workspace_def app_mem_def)
  finally have used: "memory_used ws None (db w') = memory_used ws None (db w) + ?n"
    by (simp add: memory_used_new_instance [OF row])
  have "x \<in> set (app_instances (db w'))"
    by (auto simp: d x set_updateWhere set_insertRow branch_row_def new_instance_def)
  with used within reps show ?thesis
    by (simp add: x branch_columns_def branch_row_def clamp_def)
qed

definition branch_request :: create_branch_request where
  "branch_request = \<lparr>cb_branch_name = ''fix'', cb_instance_type = Preview, cb_internal_port = None, cb_cpu_limit = None,
     cb_memory_limit_mb = Some 512, cb_external_port = Some 25000, cb_replicas_min = None, cb_replicas_max = Some 2,
     cb_autoscale_cpu_percent = Some 0, cb_auto_sleep_enabled = None, cb_auto_sleep_after_minutes = None\<rparr>"

definition room_world :: world where
  "room_world = small_world\<lparr>db := (db small_world)\<lparr>app_instances := []\<rparr>\<rparr>"

lemma room_world_created: "\<exists>x w'. create_branch_locked 7 4 branch_request room_world = (Inr x, w')"
  by (simp add: create_branch_locked_def branch_request_def branch_replicas_def chosen_port_given check_branch_quota_def
    check_workspace_memory_limit_def check_workspace_cpu_limit_def andThen_assoc default_to_def Let_def step_simps
    room_world_def small_world_def base_world_def quota_world_def hook_world_def empty_db_def firstWhere_def
    sum_checked_def app_rows_def db_rows_def sf_rows_def selectWhere_def fits_i64_def i64_def existsWhere_def insert_instance_def
    new_instance_def set_column_def update_instance_def andThen_discard)

lemma room_world_rows:
  "faults room_world = []" "memory_sane 7 None (db room_world)" "memory_used 7 None (db room_world) = 0"
  "\<exists>r. firstWhere (\<lambda>r. w_id r = 7) (workspaces (db room_world)) = Some r \<and> w_max_memory_mb r = 1024"
  by (simp_all add: room_world_def small_world_def base_world_def quota_world_def empty_db_def firstWhere_def memory_sane_def
    memory_used_def app_rows_def db_rows_def sf_rows_def selectWhere_def within_def)

theorem branch_creation_respects_quota_witness:
  "\<exists>x w'. create_branch_locked 7 4 branch_request room_world = (Inr x, w') \<and> memory_used 7 None (db w') = 512 * ai_replicas_max x
     \<and> memory_used 7 None (db w') \<le> 1024 \<and> 1 \<le> ai_autoscale_cpu_percent x"
proof -
  obtain x w' where created: "create_branch_locked 7 4 branch_request room_world = (Inr x, w')" using room_world_created by blast
  obtain r where r: "firstWhere (\<lambda>r. w_id r = 7) (workspaces (db room_world)) = Some r" "w_max_memory_mb r = 1024"
    using room_world_rows(4) by blast
  have p: "branch_memory branch_request = 512" "snd (branch_replicas branch_request) = 2"
    by (simp_all add: branch_memory_def branch_request_def branch_replicas_def default_to_def Let_def)
  from branch_creation_respects_quota [OF room_world_rows(1) created room_world_rows(2) _ _ r(1)]
  show ?thesis using created by (auto simp: p r(2) room_world_rows(3))
qed

section \<open>Builds that are lost\<close>

text \<open>
  Redeploying and retrying ignore whether their job was queued. When that insertion is the statement that fails,
  the caller is told that the build was accepted and the instance is marked as building, with no job
  queued for it and no build begun.
\<close>

theorem lost_build_is_reported_accepted:
  assumes "faults w = [False, False, False, True]" "c_current_workspace_id c = Some ws"
    and "instance_of ws i (db w) = Some (x, a)" "ai_id x = i" "x \<in> set (app_instances (db w))" "\<not> building i (db w)"
  shows "\<exists>w'. redeploy_app_instance c i w = (Inr (), w') \<and> jobs (db w') = jobs (db w) \<and> app_builds (db w') = app_builds (db w)
    \<and> (\<exists>y \<in> set (app_instances (db w')). ai_id y = i \<and> ai_status y = Building)"
proof -
  have "\<exists>w'. redeploy_app_instance c i w = (Inr (), w') \<and> db w' = update_instance i (\<lambda>x. x\<lparr>ai_status := Building, ai_updated_at := clock w\<rparr>) (db w)"
    using assms(1-4,6)
    by (simp add: redeploy_app_instance_def active_workspace_def find_instance_of_def rebuild_def reject_busy_def mark_instance_def
        enqueue_build_def enqueue_def act_simps query_def sql_def fetch_def execute_def checked_def next_fails_def)
  moreover have "x\<lparr>ai_status := Building, ai_updated_at := clock w\<rparr> \<in> set (app_instances
      (update_instance i (\<lambda>x. x\<lparr>ai_status := Building, ai_updated_at := clock w\<rparr>) (db w)))"
    using assms(4,5) by (auto simp: update_instance_def set_updateWhere)
  ultimately show ?thesis using assms(4)
    by (force simp: update_instance_def intro!: bexI [of _ "x\<lparr>ai_status := Building, ai_updated_at := clock w\<rparr>"])
qed

theorem lost_build_is_reported_accepted_witness:
  "\<exists>w'. redeploy_app_instance (hook_claims 7) 5 (hook_world\<lparr>faults := [False, False, False, True]\<rparr>) = (Inr (), w') \<and> jobs (db w') = []
    \<and> (\<exists>y \<in> set (app_instances (db w')). ai_id y = 5 \<and> ai_status y = Building)"
proof -
  let ?w = "hook_world\<lparr>faults := [False, False, False, True]\<rparr>"
  obtain x a where "instance_of 7 5 (db ?w) = Some (x, a)" "ai_id x = 5" "x \<in> set (app_instances (db ?w))"
    by (simp add: instance_of_def instance_with_app_def hook_world_def firstWhere_def existsWhere_def new_instance_def)
  moreover have "\<not> building 5 (db ?w)" "jobs (db ?w) = []" "c_current_workspace_id (hook_claims 7) = Some 7"
    by (simp_all add: building_def hook_world_def existsWhere_def empty_db_def hook_claims_def)
  ultimately show ?thesis
    using lost_build_is_reported_accepted [of ?w "hook_claims 7" 7 5 x a] by auto
qed

section \<open>The repository of an address\<close>

text \<open>A name without a slash, a colon or a white character.\<close>

definition plain_name :: "string \<Rightarrow> bool" where
  "plain_name s \<longleftrightarrow> (\<forall>c \<in> set s. c \<notin> {CHR ''/'', CHR '':''} \<and> \<not> is_whitespace c)"

lemma contains_iff: "contains p s \<longleftrightarrow> (\<exists>a b. s = a @ p @ b)"
proof (induction s)
  case (Cons c s)
  have "starts_with p (c # s) \<longleftrightarrow> (\<exists>b. c # s = p @ b)"
    unfolding starts_with_def by (metis append_take_drop_id append_eq_conv_conj)
  with Cons show ?case by (auto simp: Cons_eq_append_conv)
qed simp

lemma split_by_absent: "p \<noteq> [] \<Longrightarrow> \<not> contains p s \<Longrightarrow> split_by p acc s = [rev acc @ s]"
  by (induction p acc s rule: split_by.induct) auto

lemma split_on_first: "d \<notin> set a \<Longrightarrow> split_on d (a @ d # s) = a # split_on d s"
  by (induction a) auto

lemma plain_chars: "plain_name s \<Longrightarrow> CHR ''/'' \<notin> set s" "plain_name s \<Longrightarrow> CHR '':'' \<notin> set s"
  by (auto simp: plain_name_def)

lemma owner_then_repo: "plain_name owner \<Longrightarrow> plain_name repo \<Longrightarrow> owner_and_repo (owner @ CHR ''/'' # repo) = Some (owner, repo)"
  using plain_chars(1) [of owner] plain_chars(1) [of repo] by (simp add: owner_and_repo_def split_on_first split_on_absent)

lemma no_host_inside:
  assumes "plain_name owner" "plain_name repo" "CHR ''.'' \<notin> set owner"
  shows "\<not> contains ''github.com/'' (owner @ CHR ''/'' # repo)"
proof
  assume "contains ''github.com/'' (owner @ CHR ''/'' # repo)"
  then obtain a b where "owner @ CHR ''/'' # repo = a @ ''github.com/'' @ b" unfolding contains_iff by blast
  then have eq: "owner @ CHR ''/'' # repo = (a @ ''github.com'') @ CHR ''/'' # b" by simp
  have "owner = a @ ''github.com''"
    using eq append_Cons_eq_iff [OF plain_chars(1) [OF assms(1)] plain_chars(1) [OF assms(2)], of "a @ ''github.com''" b] by blast
  with assms(3) show False by simp
qed

lemma no_git_suffix: "drop (length s - 4) s \<noteq> ''.git'' \<Longrightarrow> trim_suffixes ''.git'' s = s"
  by (subst trim_suffixes.simps) (simp add: numeral_eq_Suc)

lemma git_suffix:
  assumes "plain_name repo" "drop (length repo - 4) repo \<noteq> ''.git''"
  shows "trim_suffixes ''.git'' (x @ CHR ''/'' # repo) = x @ CHR ''/'' # repo"
proof -
  have "drop (length (x @ CHR ''/'' # repo) - 4) (x @ CHR ''/'' # repo) \<noteq> ''.git''"
  proof (cases "4 \<le> length repo")
    case True
    then have "length repo - 3 = Suc (length repo - 4)" by simp
    with assms(2) show ?thesis by simp
  next
    case False
    then have "CHR ''/'' \<in> set (drop (length (x @ CHR ''/'' # repo) - 4) (x @ CHR ''/'' # repo))" by simp
    moreover have "CHR ''/'' \<notin> set ''.git''" by simp
    ultimately show ?thesis by metis
  qed
  then show ?thesis by (rule no_git_suffix)
qed

lemma git_suffix_removed:
  assumes "plain_name repo" "drop (length repo - 4) repo \<noteq> ''.git''" "e = [] \<or> e = ''.git''"
  shows "trim_suffixes ''.git'' (x @ CHR ''/'' # repo @ e) = x @ CHR ''/'' # repo"
proof -
  have "trim_suffixes ''.git'' (y @ ''.git'') = trim_suffixes ''.git'' y" for y
    by (subst trim_suffixes.simps) simp
  from this [of "x @ CHR ''/'' # repo"] git_suffix [OF assms(1,2)] assms(3) show ?thesis by auto
qed

text \<open>
  The owner and the repository are read back from the addresses GitHub shows, over HTTPS and SSH, with and without
  the \<open>.git\<close> at their end.
\<close>

theorem github_addresses_are_read:
  assumes names: "plain_name owner" "plain_name repo" "CHR ''.'' \<notin> set owner" "drop (length repo - 4) repo \<noteq> ''.git''"
    and e: "e = [] \<or> e = ''.git''"
  shows "parse_github_repo (''https://github.com/'' @ owner @ ''/'' @ repo @ e) = Some (owner, repo)
    \<and> parse_github_repo (''git@github.com:'' @ owner @ ''/'' @ repo @ e) = Some (owner, repo)"
proof -
  let ?rest = "owner @ CHR ''/'' # repo"
  have "\<forall>c \<in> set e. \<not> is_whitespace c" "\<not> is_whitespace (CHR ''/'')"
    using e by (elim disjE; simp add: is_whitespace_def code_def)+
  then have white: "\<forall>c \<in> set (owner @ ''/'' @ repo @ e). \<not> is_whitespace c"
    using names(1,2) by (simp add: plain_name_def ball_Un)
  have clean: "trim_suffixes ''.git'' (trim (h @ owner @ ''/'' @ repo @ e)) = h @ ?rest" if "\<forall>c \<in> set h. \<not> is_whitespace c" for h
  proof -
    have "trim (h @ owner @ ''/'' @ repo @ e) = (h @ owner) @ CHR ''/'' # repo @ e"
      using trim_none [of "h @ owner @ ''/'' @ repo @ e"] that white by auto
    then show ?thesis using git_suffix_removed [OF names(2,4) e, of "h @ owner"] by simp
  qed
  have https: "trim_suffixes ''.git'' (trim (''https://github.com/'' @ owner @ ''/'' @ repo @ e)) = ''https://github.com/'' @ ?rest"
    and ssh: "trim_suffixes ''.git'' (trim (''git@github.com:'' @ owner @ ''/'' @ repo @ e)) = ''git@github.com:'' @ ?rest"
    by (rule clean; simp add: is_whitespace_def code_def)+
  have "split_by ''github.com/'' [] (''https://github.com/'' @ ?rest) = [''https://'', ?rest]"
    using split_by_absent [OF _ no_host_inside [OF names(1-3)], of "[]"] by (simp add: starts_with_def)
  then have "parse_github_repo (''https://github.com/'' @ owner @ ''/'' @ repo @ e) = Some (owner, repo)"
    unfolding parse_github_repo_def https Let_def using owner_then_repo [OF names(1,2)] by (simp add: starts_with_def)
  moreover have "split_on (CHR '':'') (''git@github.com:'' @ ?rest) = [''git@github.com'', ?rest]"
    using plain_chars(2) [OF names(1)] plain_chars(2) [OF names(2)] by (simp add: split_on_absent)
  then have "parse_github_repo (''git@github.com:'' @ owner @ ''/'' @ repo @ e) = Some (owner, repo)"
    unfolding parse_github_repo_def ssh Let_def using owner_then_repo [OF names(1,2)] by (simp add: starts_with_def)
  ultimately show ?thesis ..
qed

theorem github_addresses_are_read_witness:
  "parse_github_repo ''https://github.com/us/my.shop.git'' = Some (''us'', ''my.shop'')
   \<and> parse_github_repo ''git@github.com:us/my.shop.git'' = Some (''us'', ''my.shop'')"
  using github_addresses_are_read [of "''us''" "''my.shop''" "''.git''"] by (simp add: plain_name_def is_whitespace_def code_def)

end
