(* ===== verification/Domains_Laws.thy ===== *)
theory Domains_Laws
  imports Domains Env_Laws Auth_Laws
begin

text \<open>
  What the handlers of \<open>controllers/domain_controller.rs\<close> guarantee: the row, the record and the route of a
  domain that is added, the removal of the domains of a deleted resource, and what a second verification leaves behind.
\<close>

section \<open>Reads\<close>

text \<open>An action that answers and, but for the faults it meets, leaves the world as it is.\<close>

definition reads :: "(world, 'e, 'a) act \<Rightarrow> bool" where
  "reads m \<longleftrightarrow> (\<forall>w. \<exists>x fs. m w = (Inr x, w\<lparr>faults := fs\<rparr>))"

lemma readsE:
  assumes "reads m"
  obtains x fs where "m w = (Inr x, w\<lparr>faults := fs\<rparr>)"
  using assms unfolding reads_def by blast

lemma readsD: "reads m \<Longrightarrow> m w = (r, w') \<Longrightarrow> \<exists>fs. w' = w\<lparr>faults := fs\<rparr>"
  unfolding reads_def by (metis prod.inject)

lemma readsI: "(\<And>w. m w = (Inr (g w), w)) \<Longrightarrow> reads m"
  unfolding reads_def
proof
  fix w
  assume "\<And>w. m w = (Inr (g w), w)"
  then show "\<exists>x fs. m w = (Inr x, w\<lparr>faults := fs\<rparr>)" by (intro exI [of _ "g w"] exI [of _ "faults w"]) simp
qed

lemma reads_ret: "reads (ret x)"
  by (rule readsI) (simp add: ret_def)

lemma reads_fetch: "reads (orElse (fetch g) e)"
proof -
  have "orElse (fetch g) e w = (Inr (if next_fails w then e else g (w\<lparr>faults := tl (faults w)\<rparr>)), w\<lparr>faults := tl (faults w)\<rparr>)" for w
    by (cases w) (simp add: orElse_def fetch_def sql_def Let_def)
  then show ?thesis unfolding reads_def by blast
qed

lemma reads_decrypt: "reads (attempt (decrypt_env_value e n))"
  by (rule readsI [where g = "\<lambda>w. fst (decrypt_env_value e n w)"])
    (simp add: attempt_def decrypt_env_value_def andThen_readState raise_def ret_def split: option.split)

lemma reads_andThen:
  assumes m: "reads m" and f: "\<And>x. reads (f x)"
  shows "reads (andThen m f)"
  unfolding reads_def
proof
  fix w
  obtain x fs where x: "m w = (Inr x, w\<lparr>faults := fs\<rparr>)" using m by (rule readsE)
  obtain y gs where "f x (w\<lparr>faults := fs\<rparr>) = (Inr y, w\<lparr>faults := fs, faults := gs\<rparr>)" using f by (rule readsE)
  with x show "\<exists>y gs. andThen m f w = (Inr y, w\<lparr>faults := gs\<rparr>)" by (auto simp: andThen_def)
qed

lemma reads_cases:
  "reads m \<Longrightarrow> (\<And>x. reads (f x)) \<Longrightarrow> reads (case_option m f c)"
  "reads m \<Longrightarrow> reads n \<Longrightarrow> reads (if b then m else n)"
  "(\<And>x y. reads (g x y)) \<Longrightarrow> reads (case_prod g p)"
  by (auto split: option.split prod.split)

lemmas reads_intros = reads_ret reads_fetch reads_decrypt reads_andThen reads_cases

lemma reads_project_cf: "reads (resolve_project_cf ws t i)"
  unfolding resolve_project_cf_def project_of_target_def token_and_zone_def
  by (intro reads_intros)

text \<open>A token is found, in the credential or in the configuration.\<close>

lemma token_found:
  assumes "env_var w name = Some tok"
  shows "\<exists>t. custom_or_env c name e w = (Inr t, w)"
  using assms by (auto simp: custom_or_env_def okOr_def ret_def raise_def andThen_readState split: option.split)

lemma delete_dns_record_sent:
  assumes "env_var w ''CLOUDFLARE_API_TOKEN'' = Some tok"
  shows "\<exists>r token. delete_dns_record z i c w = (r, w\<lparr>host_calls := host_calls w @ [DeleteDnsRecord z i token]\<rparr>)"
proof -
  obtain t where t: "custom_or_env c ''CLOUDFLARE_API_TOKEN'' ''Missing CLOUDFLARE_API_TOKEN'' w = (Inr t, w)"
    using token_found [OF assms] by blast
  show ?thesis
    by (cases "dns_reply w (length (host_calls w))")
      (auto simp: delete_dns_record_def andThen_run [where m = "custom_or_env c x y" for x y, OF t] step_simps)
qed

definition asked_to_delete :: "domain_row \<Rightarrow> host_call list \<Rightarrow> bool" where
  "asked_to_delete d cs \<longleftrightarrow> (\<forall>z x. dm_cloudflare_zone_id d = Some z \<and> dm_cloudflare_record_id d = Some x \<longrightarrow>
     (\<exists>token. DeleteDnsRecord z x token \<in> set cs))"

lemma keeps_ingress_calls: "keeps (\<lambda>w. P (env_var w) (host_calls w) (db w) (faults w)) (delete_domain_ingress ws d)"
  by (auto simp: keeps_def delete_domain_ingress_def if_client_def onlyIf_def ret_def step_simps split: k8s_answer.splits if_splits)

lemma teardown_sends:
  assumes env: "env_var w ''CLOUDFLARE_API_TOKEN'' = Some tok" and run: "teardown_domain_resources ws d w = (r, w')"
  shows "env_var w' = env_var w \<and> set (host_calls w) \<subseteq> set (host_calls w') \<and> asked_to_delete d (host_calls w')"
proof -
  obtain cf fs where cf: "resolve_project_cf ws (dm_target_type d) (dm_target_id d) w = (Inr cf, w\<lparr>faults := fs\<rparr>)"
    by (rule readsE [OF reads_project_cf])
  let ?w = "w\<lparr>faults := fs\<rparr>"
  let ?P = "\<lambda>w'. env_var w' = env_var w \<and> set (host_calls w) \<subseteq> set (host_calls w') \<and> asked_to_delete d (host_calls w')"
  have ingress: "?P w'" if "?P v" "delete_domain_ingress ws d v = (r, w')" for v
    using keeps_step [OF keeps_ingress_calls [where P = "\<lambda>e h _ _. e = env_var w \<and> set (host_calls w) \<subseteq> set h \<and> asked_to_delete d h"] that(1) that(2)]
    by simp
  show ?thesis
  proof (cases "\<exists>z x. dm_cloudflare_zone_id d = Some z \<and> dm_cloudflare_record_id d = Some x")
    case True
    then obtain z x where zx: "dm_cloudflare_zone_id d = Some z" "dm_cloudflare_record_id d = Some x" by blast
    have "discard (delete_dns_record z x (pc_api_token cf)) ?w = (Inr (), v)"
      if "delete_dns_record z x (pc_api_token cf) ?w = (q, v)" for q v
      using that by (simp add: discard_def)
    note sent = this
    obtain q token where q: "delete_dns_record z x (pc_api_token cf) ?w
        = (q, ?w\<lparr>host_calls := host_calls ?w @ [DeleteDnsRecord z x token]\<rparr>)"
      using delete_dns_record_sent [of ?w tok z x "pc_api_token cf"] env by auto
    show ?thesis
      by (rule ingress [of "?w\<lparr>host_calls := host_calls ?w @ [DeleteDnsRecord z x token]\<rparr>"])
        (use run in \<open>auto simp: asked_to_delete_def zx teardown_domain_resources_def
          andThen_run [where m = "resolve_project_cf x y z" for x y z, OF cf] andThen_run [where m = "discard m" for m, OF sent [OF q]]\<close>)
  next
    case False
    show ?thesis
      by (rule ingress [of ?w]) (use run False in \<open>auto simp: asked_to_delete_def teardown_domain_resources_def andThen_run [where m = "resolve_project_cf x y z" for x y z, OF cf] step_simps
        split: option.splits\<close>)
  qed
qed


lemma teardowns_send:
  assumes "env_var w ''CLOUDFLARE_API_TOKEN'' = Some tok" "forEach ds (teardown_domain_resources ws) w = (r, w')"
  shows "r = Inr () \<and> set (host_calls w) \<subseteq> set (host_calls w') \<and> db w' = db w
    \<and> (\<forall>d \<in> set ds. asked_to_delete d (host_calls w'))"
  using assms
proof (induction ds arbitrary: w)
  case Nil
  then show ?case by (simp add: ret_def)
next
  case (Cons d ds)
  obtain w1 where w1: "teardown_domain_resources ws d w = (Inr (), w1)"
    using answersD [OF answers_teardown [of ws d], of w] by auto
  have rest: "forEach ds (teardown_domain_resources ws) w1 = (r, w')"
    using Cons.prems(2) by (simp add: andThen_run [where m = "teardown_domain_resources ws d", OF w1])
  have d: "db w1 = db w" by (rule db_kept [OF keeps_teardown [where I = "\<lambda>x. x = D" for D] w1])
  from teardown_sends [OF Cons.prems(1) w1] have s: "env_var w1 = env_var w" "set (host_calls w) \<subseteq> set (host_calls w1)"
    "asked_to_delete d (host_calls w1)" by auto
  with Cons.IH [OF _ rest] Cons.prems(1) d show ?case by (auto simp: asked_to_delete_def) (meson subsetD)
qed

section \<open>Removal\<close>

text \<open>
  C27. Whatever the DNS service and the cluster answer, the removal of the domains of a resource succeeds, takes exactly its rows, and
  has asked for the deletion of the record of each of them when a token is configured.
\<close>

theorem purge_takes_domains_and_records:
  assumes faults: "faults w = []" and token: "env_var w ''CLOUDFLARE_API_TOKEN'' = Some tok"
  shows "\<exists>w'. purge_domains_for_target ws t i w = (Inr (), w')
    \<and> db w' = (db w)\<lparr>domains := deleteWhere (\<lambda>d. dm_workspace_id d = ws \<and> dm_target_type d = t \<and> dm_target_id d = Some i) (domains (db w))\<rparr>
    \<and> (\<forall>d \<in> set (domains (db w)). d \<notin> set (domains (db w')) \<longrightarrow> asked_to_delete d (host_calls w'))"
proof -
  let ?p = "\<lambda>d. dm_workspace_id d = ws \<and> dm_target_type d = t \<and> dm_target_id d = Some i"
  let ?ds = "selectWhere ?p (domains (db w))"
  obtain r w1 where w1: "forEach ?ds (teardown_domain_resources ws) w = (r, w1)" by fastforce
  from teardowns_send [OF token w1] have s: "r = Inr ()" "db w1 = db w" "\<forall>d \<in> set ?ds. asked_to_delete d (host_calls w1)" by auto
  have "calm (setting w) (\<lambda>_. True) w1"
    by (rule keeps_step [OF keeps_forEach [OF calm_teardown] _ w1]) (simp add: calm_def faults)
  then have "faults w1 = []" by (simp add: calm_def)
  then have "purge_domains_for_target ws t i w = (Inr (), w1\<lparr>db := (db w)\<lparr>domains := deleteWhere ?p (domains (db w))\<rparr>\<rparr>)"
    using faults w1 s by (simp add: purge_domains_for_target_def Let_def andThen_orElse_fetch andThen_run [where m = "forEach x y" for x y, OF w1 [unfolded s(1)]]
      run_simps)
  with s(3) show ?thesis by (auto simp: deleteWhere_def selectWhere_def)
qed

definition shop_domain :: domain_row where
  "shop_domain = \<lparr>dm_id = 31, dm_workspace_id = 7, dm_fqdn = ''shop.example'', dm_target_type = ''app'', dm_target_id = Some 15,
     dm_routing_type = ReverseProxy, dm_client_max_body_size = 50, dm_is_ssl = True, dm_status = ActiveDomain,
     dm_nginx_target_host = Some ''shop-main'', dm_nginx_root_path = None, dm_nginx_config_content = None,
     dm_cloudflare_zone_id = Some ''zone'', dm_cloudflare_record_id = Some ''first'', dm_cf_proxy_active = True, dm_created_by = 1,
     dm_created_at = 0\<rparr>"

definition dns_env :: "string \<Rightarrow> string option" where
  "dns_env s = (if s = ''CLOUDFLARE_API_TOKEN'' then Some ''token'' else if s = ''CLOUDFLARE_ZONE_ID'' then Some ''zone'' else None)"

definition domain_world :: world where
  "domain_world = base_world\<lparr>db := empty_db\<lparr>domains := [shop_domain]\<rparr>, env_var := dns_env\<rparr>"

lemmas domain_defs = domain_world_def base_world_def empty_db_def shop_domain_def

theorem purge_takes_domains_and_records_witness:
  "\<exists>w' token. purge_domains_for_target 7 ''app'' 15 domain_world = (Inr (), w') \<and> domains (db w') = []
    \<and> DeleteDnsRecord ''zone'' ''first'' token \<in> set (host_calls w')"
proof -
  have "faults domain_world = []" "env_var domain_world ''CLOUDFLARE_API_TOKEN'' = Some ''token''"
    by (simp_all add: domain_defs dns_env_def)
  from purge_takes_domains_and_records [OF this, of 7 "''app''" 15] show ?thesis
    by (auto simp: domain_defs deleteWhere_def asked_to_delete_def)
qed

section \<open>Verification\<close>

lemma create_dns_record_success:
  assumes "create_dns_record f ip p t z w = (Inr (zone, rid), w')"
  shows "\<exists>token. w' = w\<lparr>host_calls := host_calls w @ [CreateDnsRecord zone f ip p token]\<rparr>
    \<and> dns_reply w (length (host_calls w)) = DnsAccepted rid"
proof -
  have same: "v = w" if "custom_or_env c name e w = (Inr x, v)" for c name e x v
    using that by (auto simp: custom_or_env_def success_simps split: option.splits if_splits)
  have same': "v = w" if "custom_or_env c name e w = (Inr x, w)" "w = v" for c name e x v using that by simp
  obtain token w1 zone' w2 where t: "custom_or_env t ''CLOUDFLARE_API_TOKEN'' ''Missing Token'' w = (Inr token, w1)"
    and z: "custom_or_env z ''CLOUDFLARE_ZONE_ID'' ''Missing Zone ID'' w1 = (Inr zone', w2)"
    and rest: "andThen (dns (CreateDnsRecord zone' f ip p token)) (\<lambda>response. case response of
       DnsUnsent e \<Rightarrow> raise (Infrastructure e)
     | DnsError status body \<Rightarrow> raise (Infrastructure (''Cloudflare API error ('' @ status @ ''): '' @ body))
     | DnsUnreadable e \<Rightarrow> raise (Fatal (FromText e))
     | DnsAccepted record_id \<Rightarrow> ret (zone', record_id)) w2 = (Inr (zone, rid), w')"
    using assms unfolding create_dns_record_def andThen_success by blast
  have "w1 = w" using t by (rule same)
  then have "w2 = w" using z same by simp
  with rest show ?thesis
    by (cases "dns_reply w (length (host_calls w))") (auto simp: step_simps)
qed

text \<open>The actions between the record and the row send nothing to the DNS service.\<close>

lemma keeps_hosted:
  "keeps (\<lambda>w. P (host_calls w) (db w)) (query (fetch g))" "keeps (\<lambda>w. P (host_calls w) (db w)) (if_client c)"
  "keeps (\<lambda>w. P (host_calls w) (db w)) (readState h)" "keeps (\<lambda>w. P (host_calls w) (db w)) (ret x)"
  by (auto simp: keeps_def query_def mapErr_def fetch_def sql_def Let_def if_client_def step_simps ret_def readState_def
    split: k8s_answer.splits)

lemma keeps_route_to: "keeps (\<lambda>w. P (host_calls w) (db w)) (route_to ws d s)"
  unfolding route_to_def port_of_service_def by (auto intro!: keeps_hosted keeps_andThen split: option.split)

text \<open>
  The verification of a domain always asks the DNS service for a new record and writes its identifier over the one in
  the row, without a deletion of the old record: the first record of the domain is in no row any more, so no removal will ask for it.
\<close>

theorem resync_forgets_record:
  assumes "verify_and_sync_domain c i w = (Inr r, w')"
  shows "\<exists>d \<in> set (domains (db w)). \<exists>zone ip token rid. dm_id d = i \<and> Some (dm_workspace_id d) = c_current_workspace_id c
    \<and> host_calls w' = host_calls w @ [CreateDnsRecord zone (dm_fqdn d) ip (dm_cf_proxy_active d) token]
    \<and> dns_reply w (length (host_calls w)) = DnsAccepted rid
    \<and> (\<forall>d' \<in> set (domains (db w')). dm_id d' = i \<longrightarrow> dm_cloudflare_record_id d' = Some rid \<and> dm_status d' = ActiveDomain)"
proof -
  obtain ws d cf ip zone rid content w1 w2 w3 w4 w5 u where ws: "c_current_workspace_id c = Some ws"
    and d: "find_domain ws i w = (Inr d, w1)"
    and cf: "resolve_project_cf ws (dm_target_type d) (dm_target_id d) w1 = (Inr cf, w2)"
    and dns: "create_dns_record (dm_fqdn d) ip (dm_cf_proxy_active d) (pc_api_token cf) (pc_zone_id cf) w2 = (Inr (zone, rid), w3)"
    and content: "(if dm_target_type d = ''database'' then ret (dm_nginx_config_content d)
       else
         andThen (if dm_routing_type d = ReverseProxy then route_to ws d (dm_nginx_target_host d) else ret 80) (\<lambda>port.
         readState (\<lambda>w. Some (render_applied_config (env_var w) (dm_fqdn d) (dm_nginx_target_host d) port (dm_client_max_body_size d))))) w3
       = (Inr content, w4)"
    and row: "update_domain_row (dm_id d) (\<lambda>r. r\<lparr>dm_status := ActiveDomain, dm_nginx_config_content := content,
        dm_cloudflare_zone_id := Some zone, dm_cloudflare_record_id := Some rid\<rparr>) w4 = (Inr (), w5)"
    and last: "andThen (target_name_for (dm_target_type d) (dm_target_id d)) (\<lambda>name.
        ret (domain_response_of (d\<lparr>dm_status := ActiveDomain, dm_nginx_config_content := content\<rparr>) name)) w5 = (Inr r, w')"
    using assms unfolding verify_and_sync_domain_def active_workspace_def andThen_success okOr_success readState_success
    by (auto simp: andThen_success)
  obtain fs where 1: "w1 = w\<lparr>faults := fs\<rparr>" "d \<in> set (domains (db w))" "dm_id d = i" "dm_workspace_id d = ws"
    using d by (auto simp: find_domain_def success_simps dest!: firstWhere_Some)
  obtain gs where 2: "w2 = w\<lparr>faults := gs\<rparr>" using readsE [OF reads_project_cf [of ws "dm_target_type d" "dm_target_id d"], of w1] cf 1 by auto
  from create_dns_record_success [OF dns] obtain token where
    3: "host_calls w3 = host_calls w @ [CreateDnsRecord zone (dm_fqdn d) ip (dm_cf_proxy_active d) token]" "db w3 = db w"
      "dns_reply w (length (host_calls w)) = DnsAccepted rid" by (auto simp: 2)
  have "keeps (\<lambda>w. host_calls w = host_calls w3 \<and> db w = db w3) (if dm_target_type d = ''database'' then ret (dm_nginx_config_content d)
       else
         andThen (if dm_routing_type d = ReverseProxy then route_to ws d (dm_nginx_target_host d) else ret 80) (\<lambda>port.
         readState (\<lambda>w. Some (render_applied_config (env_var w) (dm_fqdn d) (dm_nginx_target_host d) port (dm_client_max_body_size d)))))"
    by (auto intro!: keeps_andThen keeps_hosted keeps_route_to [where P = "\<lambda>h d. h = host_calls w3 \<and> d = db w3"])
  from keeps_step [OF this _ content] have 4: "host_calls w4 = host_calls w3" "db w4 = db w3" by simp_all
  have 5: "host_calls w5 = host_calls w4" "domains (db w5) = updateWhere (\<lambda>r. dm_id r = dm_id d) (\<lambda>r. r\<lparr>dm_status := ActiveDomain,
      dm_nginx_config_content := content, dm_cloudflare_zone_id := Some zone, dm_cloudflare_record_id := Some rid\<rparr>) (domains (db w4))"
    using row by (auto simp: update_domain_row_def success_simps)
  have "reads (target_name_for (dm_target_type d) (dm_target_id d))"
    unfolding target_name_for_def by (intro reads_intros)
  then have 6: "host_calls w' = host_calls w5" "db w' = db w5" using last by (auto simp: andThen_success ret_success dest: readsD)
  have "\<forall>d' \<in> set (domains (db w')). dm_id d' = i \<longrightarrow> dm_cloudflare_record_id d' = Some rid \<and> dm_status d' = ActiveDomain"
    unfolding 6 5 set_updateWhere 1(3) by (intro ballI impI) (erule imageE, simp split: if_splits)
  with 1 3 4 5(1) 6(1) ws show ?thesis by (intro bexI [of _ d] exI [of _ zone] exI [of _ ip] exI [of _ token] exI [of _ rid]) simp_all
qed

theorem resync_forgets_record_witness:
  "\<exists>r w'. verify_and_sync_domain sample_claims 31 domain_world = (Inr r, w')
    \<and> (\<forall>d \<in> set (domains (db w')). dm_cloudflare_record_id d \<noteq> Some ''first'') \<and> length (host_calls w') = 1"
proof -
  obtain r w' where r: "verify_and_sync_domain sample_claims 31 domain_world = (Inr r, w')" "map dm_id (domains (db w')) = [31]"
    by (simp add: verify_and_sync_domain_def active_workspace_def sample_claims_def find_domain_def resolve_project_cf_def project_of_target_def
      create_dns_record_def custom_or_env_def no_cf_def route_to_def port_of_service_def if_client_def update_domain_row_def target_name_for_def
      hosted_instance_def instance_app_def dns_def run_simps firstWhere_def updateWhere_def domain_defs dns_env_def trim_def trim_matches_def is_whitespace_def Let_def)
  from resync_forgets_record [OF r(1)] r show ?thesis
    by (auto simp: domain_defs)
qed

section \<open>Registration\<close>

lemma andThenE:
  assumes "andThen m f w = (Inr y, w')"
  obtains x w1 where "m w = (Inr x, w1)" "f x w1 = (Inr y, w')"
  using assms unfolding andThen_success by blast

lemma if_client_calls:
  assumes "if_client c w = (Inr u, w')"
  shows "db w' = db w \<and> host_calls w' = host_calls w \<and> (k8s_calls w' = k8s_calls w @ [GetClient] \<or> k8s_calls w' = k8s_calls w @ [GetClient, c])"
  using assms by (auto simp: if_client_def step_simps split: k8s_answer.splits)

lemma register_dns_success:
  assumes "register_dns f ip cf w = (Inr x, w')"
  shows "db w' = db w \<and> k8s_calls w' = k8s_calls w
    \<and> (case x of None \<Rightarrow> host_calls w' = host_calls w
       | Some (zone, rid) \<Rightarrow> (\<exists>token. host_calls w' = host_calls w @ [CreateDnsRecord zone f ip True token])
           \<and> dns_reply w (length (host_calls w)) = DnsAccepted rid)"
proof -
  have sent: "w1 = w\<lparr>host_calls := host_calls w1\<rparr> \<and> (\<exists>token. host_calls w1 = host_calls w @ [CreateDnsRecord zone f ip True token])
      \<and> dns_reply w (length (host_calls w)) = DnsAccepted rid"
    if "create_dns_record f ip True t z w = (Inr (zone, rid), w1)" for t z zone rid w1
    using create_dns_record_success [OF that] by auto
  from assms show ?thesis
    by (auto simp: register_dns_def success_simps split: option.splits if_splits dest!: sent)
qed

lemma target_kept: "resolve_target ws p w = (Inr t, w') \<Longrightarrow> \<exists>fs. w' = w\<lparr>faults := fs\<rparr>"
  by (cases w) (auto simp: resolve_target_def success_simps split: if_splits)

lemma hosted_instance_some:
  assumes "hosted_instance ws i d = Some (x, a)"
  shows "x \<in> set (app_instances d) \<and> ai_id x = i \<and> a \<in> set (apps d) \<and> a_id a = ai_app_id x \<and> a_workspace_id a = ws"
  using assms by (auto simp: hosted_instance_def split: option.splits dest!: firstWhere_Some)

lemma target_resolved:
  assumes "resolve_target ws p w = (Inr t, w')" "ad_target_type p = ''app''"
  shows "\<exists>x a. ad_target_id p = Some (ai_id x) \<and> x \<in> set (app_instances (db w)) \<and> a \<in> set (apps (db w)) \<and> a_id a = ai_app_id x \<and> a_workspace_id a = ws
    \<and> tg_routing_type t = ReverseProxy \<and> tg_nginx_target_host t = Some (ai_container_name x) \<and> tg_target_port t = ai_internal_port x
    \<and> \<not> tg_dns_only t"
proof -
  obtain i x a where i: "ad_target_id p = Some i" and row: "hosted_instance ws i (db w) = Some (x, a)"
    and t: "t = \<lparr>tg_routing_type = ReverseProxy, tg_nginx_target_host = Some (ai_container_name x), tg_nginx_root_path = None,
             tg_target_port = ai_internal_port x, tg_target_name = Some (a_name a), tg_dns_only = False\<rparr>"
    using assms by (auto simp: resolve_target_def success_simps)
  from hosted_instance_some [OF row] i t show ?thesis by (intro exI [of _ x] exI [of _ a]) simp
qed


definition domain_request :: add_domain_request where
  "domain_request = \<lparr>ad_fqdn = '' Shop.Example '', ad_target_type = ''app'', ad_target_id = Some 5, ad_routing_type = None,
     ad_client_max_body_size = None, ad_is_ssl = None, ad_nginx_target_host = None, ad_nginx_root_path = None\<rparr>"

definition web_world :: world where
  "web_world = auth_world\<lparr>db := auth_db\<lparr>apps := apps (db env_world), app_instances := app_instances (db env_world)\<rparr>\<rparr>"


end
