(* ===== verification/End_Users.thy ===== *)
theory End_Users
  imports Apps
begin

text \<open>
  The end users of applications: the authentication services of \<open>controllers/app_user_controller.rs\<close> and
  \<open>utils/app_auth.rs\<close>. A service owns its users, their roles, its API keys and the secret its access
  tokens are signed with, which lives in the environment pool of its project.
\<close>

section \<open>The signing secret (\<open>utils/app_auth.rs\<close>)\<close>

definition AUTH_SECRET_ENV_KEY :: string where
  "AUTH_SECRET_ENV_KEY = ''HERMES_AUTH_SECRET''"

definition secret_chars :: string where
  "secret_chars = ''abcdefghijklmnopqrstuvwxyzABCDEFGHIJKLMNOPQRSTUVWXYZ0123456789''"

primrec random_chars :: "nat \<Rightarrow> string handler" where
  "random_chars 0 = ret []"
| "random_chars (Suc n) =
     andThen rand_u32 (\<lambda>r. andThen (random_chars n) (\<lambda>s. ret (secret_chars ! (r mod length secret_chars) # s)))"

definition generate_secret :: "string handler" where
  "generate_secret = random_chars 48"

definition baas_var :: "uuid \<Rightarrow> uuid \<Rightarrow> uuid \<Rightarrow> uuid \<Rightarrow> string \<Rightarrow> string \<Rightarrow> string \<Rightarrow> bool \<Rightarrow> project_env_variable" where
  "baas_var i ws_id project_id baas_id key enc nonce is_secret =
     \<lparr>pv_id = i, pv_workspace_id = ws_id, pv_project_id = project_id, pv_key = key, pv_encrypted_value = enc, pv_nonce = nonce,
      pv_is_secret = is_secret, pv_source = ''baas_auth'', pv_source_id = Some baas_id\<rparr>"

definition set_baas_var :: "uuid \<Rightarrow> string \<Rightarrow> string \<Rightarrow> bool \<Rightarrow> project_env_variable \<Rightarrow> project_env_variable" where
  "set_baas_var baas_id enc nonce is_secret x =
     x\<lparr>pv_encrypted_value := enc, pv_nonce := nonce, pv_is_secret := is_secret, pv_source := ''baas_auth'', pv_source_id := Some baas_id\<rparr>"

definition publish_baas_var :: "uuid \<Rightarrow> uuid \<Rightarrow> uuid \<Rightarrow> string \<Rightarrow> string \<Rightarrow> bool \<Rightarrow> unit handler" where
  "publish_baas_var ws_id project_id baas_id key val is_secret =
     andThen (encrypt_env_value val) (\<lambda>(enc, nonce).
     andThen new_v4 (\<lambda>i.
     andThen (query (put_project_env (baas_var i ws_id project_id baas_id key enc nonce is_secret)
       (set_baas_var baas_id enc nonce is_secret))) (\<lambda>_. ret ())))"

text \<open>The variable that holds the secret of a service.\<close>

definition holds_secret :: "uuid \<Rightarrow> project_env_variable \<Rightarrow> bool" where
  "holds_secret baas_id r \<longleftrightarrow> pv_source r = ''baas_auth'' \<and> pv_source_id r = Some baas_id \<and> pv_is_secret r"

definition rotate_secret :: "uuid \<Rightarrow> uuid \<Rightarrow> uuid \<Rightarrow> string handler" where
  "rotate_secret baas_id ws_id project_id =
     andThen generate_secret (\<lambda>secret.
     andThen (query (fetch (\<lambda>w. map_option pv_key (firstWhere (holds_secret baas_id) (project_env_variables (db w)))))) (\<lambda>existing.
     andThen (publish_baas_var ws_id project_id baas_id (default_to AUTH_SECRET_ENV_KEY existing) secret True) (\<lambda>_.
     ret secret)))"

definition get_or_create_secret :: "uuid \<Rightarrow> uuid \<Rightarrow> uuid \<Rightarrow> string handler" where
  "get_or_create_secret baas_id ws_id project_id =
     andThen (query (fetch (\<lambda>w. firstWhere (holds_secret baas_id) (project_env_variables (db w))))) (\<lambda>row.
     case row of
       Some r \<Rightarrow> decrypt_env_value (pv_encrypted_value r) (pv_nonce r)
     | None \<Rightarrow> rotate_secret baas_id ws_id project_id)"

definition baas_slug :: "string \<Rightarrow> string" where
  "baas_slug name =
     (let s = trim_matches (\<lambda>c. c = CHR ''-'') (map_chars (\<lambda>c. if is_ascii_alphanumeric c then c else CHR ''-'') (to_lowercase (trim name)))
      in if s = [] then ''auth'' else s)"

definition insert_baas_service :: "baas_service \<Rightarrow> unit handler" where
  "insert_baas_service row = query (checked
     (\<lambda>w. if existsWhere (\<lambda>b. bs_id b = bs_id row) (baas_services (db w)) then Some (conflict_on ''baas_services_pkey'')
          else if existsWhere (\<lambda>b. bs_project_id b = bs_project_id row \<and> bs_slug b = bs_slug row) (baas_services (db w))
          then Some (conflict_on ''unique_baas_slug_per_project'')
          else if \<not> existsWhere (\<lambda>p. pr_id p = bs_project_id row) (projects (db w)) then Some fk_error else None)
     (\<lambda>w. (db w)\<lparr>baas_services := insertRow row (baas_services (db w))\<rparr>))"

definition new_baas_service :: "uuid \<Rightarrow> uuid \<Rightarrow> string \<Rightarrow> (uuid \<times> string) handler" where
  "new_baas_service ws_id project_id name =
     andThen new_v4 (\<lambda>i.
     andThen now (\<lambda>t.
     andThen (insert_baas_service
       \<lparr>bs_id = i, bs_workspace_id = ws_id, bs_project_id = project_id, bs_name = trim name,
        bs_slug = baas_slug name @ ''-'' @ take 8 (uuid_str i), bs_auth_roles_config = JObject [], bs_created_at = t\<rparr>) (\<lambda>_.
     andThen generate_secret (\<lambda>secret. ret (i, secret)))))"

definition reconcile_baas_published_ids :: "unit handler" where
  "reconcile_baas_published_ids =
     andThen (discard (execute (\<lambda>w. delete_pool_vars (\<lambda>v. pv_source v = ''baas_auth''
        \<and> pv_key v \<in> {''HERMES_AUTH_API_URL'', ''HERMES_BAAS_URL'', ''HERMES_APP_ID''}) (db w)))) (\<lambda>_.
     andThen (orElse (fetch (\<lambda>w. baas_services (db w))) []) (\<lambda>rows.
     forEach rows (\<lambda>r. discard (publish_baas_var (bs_workspace_id r) (bs_project_id r) (bs_id r) ''HERMES_AUTH_APP_ID''
       (uuid_str (bs_id r)) False))))"

text \<open>The permissions the configuration of a service grants to some roles.\<close>

definition add_permission :: "json \<Rightarrow> string list \<Rightarrow> string list" where
  "add_permission p perms = (case p of JString s \<Rightarrow> (if s \<in> set perms then perms else perms @ [s]) | _ \<Rightarrow> perms)"

definition add_role :: "(string \<times> json) list \<Rightarrow> string \<Rightarrow> string list \<Rightarrow> string list" where
  "add_role m role perms = (case map_of m role of Some (JArray ps) \<Rightarrow> fold add_permission ps perms | _ \<Rightarrow> perms)"

definition permissions_for_roles :: "json \<Rightarrow> string list \<Rightarrow> string list" where
  "permissions_for_roles config rs = (case config of JObject m \<Rightarrow> sort (fold (add_role m) rs []) | _ \<Rightarrow> [])"

section \<open>Tokens\<close>

definition env_secs :: "string \<Rightarrow> int \<Rightarrow> (string \<Rightarrow> string option) \<Rightarrow> int" where
  "env_secs name d env = default_to d (Option.bind (env name) (parse_int fits_i64))"

definition access_ttl_secs :: "(string \<Rightarrow> string option) \<Rightarrow> int" where
  "access_ttl_secs = env_secs ''BAAS_ACCESS_EXPIRY'' 900"

definition refresh_ttl_secs :: "(string \<Rightarrow> string option) \<Rightarrow> int" where
  "refresh_ttl_secs = env_secs ''BAAS_REFRESH_EXPIRY'' 2592000"

definition RESERVED_CLAIMS :: "string list" where
  "RESERVED_CLAIMS = [''sub'', ''baas_id'', ''identifier'', ''roles'', ''permissions'', ''iat'', ''exp'', ''jti'', ''iss'', ''aud'', ''nbf'']"

definition find_service :: "app_error \<Rightarrow> (baas_service \<Rightarrow> bool) \<Rightarrow> baas_service handler" where
  "find_service e p = andThen (query (fetch (\<lambda>w. firstWhere p (baas_services (db w))))) (okOr e)"

definition fetch_app_ctx :: "uuid \<Rightarrow> baas_service handler" where
  "fetch_app_ctx baas_id = find_service (NotFound ''Application not found.'') (\<lambda>b. bs_id b = baas_id)"

definition roles_of :: "uuid \<Rightarrow> uuid \<Rightarrow> database \<Rightarrow> string list" where
  "roles_of baas_id user_id d = map uo_role (selectWhere (\<lambda>r. uo_baas_id r = baas_id \<and> uo_app_user_id r = user_id) (app_user_roles d))"

definition fetch_roles :: "uuid \<Rightarrow> uuid \<Rightarrow> string list handler" where
  "fetch_roles baas_id user_id = query (fetch (\<lambda>w. roles_of baas_id user_id (db w)))"

definition ensure_app_in_ws :: "uuid \<Rightarrow> uuid \<Rightarrow> unit handler" where
  "ensure_app_in_ws baas_id ws_id =
     andThen (query (fetch (\<lambda>w. existsWhere (\<lambda>b. bs_id b = baas_id \<and> bs_workspace_id b = ws_id) (baas_services (db w))))) (\<lambda>ex.
     rejectIf (\<not> ex) (NotFound ''Application not found in this workspace.''))"

record issued_tokens =
  it_access_token :: string
  it_refresh_token :: string
  it_expires_in :: int

definition insert_app_refresh :: "app_refresh_token \<Rightarrow> unit handler" where
  "insert_app_refresh row = query (checked
     (\<lambda>w. if existsWhere (\<lambda>t. ar_token_hash t = ar_token_hash row) (app_refresh_tokens (db w))
          then Some (conflict_on ''app_refresh_tokens_token_hash_key'')
          else if \<not> existsWhere (\<lambda>u. au_id u = ar_app_user_id row) (app_users (db w))
               \<or> \<not> existsWhere (\<lambda>b. bs_id b = ar_baas_id row) (baas_services (db w))
          then Some fk_error else None)
     (\<lambda>w. (db w)\<lparr>app_refresh_tokens := insertRow row (app_refresh_tokens (db w))\<rparr>))"

definition issue_token_pair ::
  "uuid \<Rightarrow> uuid \<Rightarrow> string \<Rightarrow> string list \<Rightarrow> string list \<Rightarrow> string \<Rightarrow> (string \<times> json) list \<Rightarrow> issued_tokens handler" where
  "issue_token_pair baas_id user_id identifier rs ps secret extra =
     andThen now (\<lambda>t.
     andThen (readState (\<lambda>w. access_ttl_secs (env_var w))) (\<lambda>access_ttl.
     andThen new_v4 (\<lambda>jti.
     andThen (readState (\<lambda>w. app_jwt_sign (ext w)
       \<lparr>ac_sub = user_id, ac_baas_id = baas_id, ac_identifier = identifier, ac_roles = rs, ac_permissions = ps,
        ac_iat = t div 1000000, ac_exp = (t + seconds access_ttl) div 1000000, ac_jti = jti, ac_extra = extra\<rparr> secret)) (\<lambda>signed.
     andThen (okOr (Fatal (FromText ''JWT'')) signed) (\<lambda>access_token.
     andThen new_v4 (\<lambda>u1.
     andThen new_v4 (\<lambda>u2.
     let refresh_token = uuid_str u1 @ ''.'' @ uuid_str u2 in
     andThen (readState (\<lambda>w. sha256_hex (ext w) refresh_token)) (\<lambda>refresh_hash.
     andThen (readState (\<lambda>w. t + seconds (refresh_ttl_secs (env_var w)))) (\<lambda>refresh_exp.
     andThen new_v4 (\<lambda>i.
     andThen (insert_app_refresh
       \<lparr>ar_id = i, ar_baas_id = baas_id, ar_app_user_id = user_id, ar_token_hash = refresh_hash,
        ar_additional_claims = JObject extra, ar_expires_at = refresh_exp\<rparr>) (\<lambda>_.
     ret \<lparr>it_access_token = access_token, it_refresh_token = refresh_token, it_expires_in = access_ttl\<rparr>)))))))))))"

section \<open>API keys, claims, rate limit\<close>

definition extract_baas_api_key :: "headers \<Rightarrow> string option" where
  "extract_baas_api_key hs =
     (case header_str ''authorization'' hs of
        Some v \<Rightarrow> (if starts_with ''Bearer '' v then Some (drop 7 v) else header_str ''x-baas-api-key'' hs)
      | None \<Rightarrow> header_str ''x-baas-api-key'' hs)"

definition key_row :: "uuid \<Rightarrow> string \<Rightarrow> app_api_key option handler" where
  "key_row baas_id prefix =
     query (fetch (\<lambda>w. firstWhere (\<lambda>k. ak_baas_id k = baas_id \<and> ak_key_prefix k = prefix) (app_api_keys (db w))))"

definition stamp_key :: "uuid \<Rightarrow> unit handler" where
  "stamp_key i = discard (execute (\<lambda>w. (db w)\<lparr>app_api_keys :=
     updateWhere (\<lambda>k. ak_id k = i) (\<lambda>k. k\<lparr>ak_last_used_at := Some (clock w)\<rparr>) (app_api_keys (db w))\<rparr>))"

definition key_expired :: "instant \<Rightarrow> app_api_key \<Rightarrow> bool" where
  "key_expired t k = (case ak_expires_at k of None \<Rightarrow> False | Some e \<Rightarrow> e < t)"

definition validate_baas_api_key :: "uuid \<Rightarrow> string \<Rightarrow> bool handler" where
  "validate_baas_api_key baas_id key_str =
     (case split_once (CHR ''.'') key_str of None \<Rightarrow> ret False
      | Some (prefix, secret) \<Rightarrow>
          andThen (key_row baas_id prefix) (\<lambda>row.
          case row of None \<Rightarrow> ret False
          | Some k \<Rightarrow>
              andThen (verify_password secret (ak_key_hash k)) (\<lambda>ok.
              if \<not> ok then ret False
              else
                andThen now (\<lambda>t.
                if key_expired t k then ret False
                else andThen (stamp_key (ak_id k)) (\<lambda>_. ret True)))))"

definition require_api_key :: "headers \<Rightarrow> uuid \<Rightarrow> unit handler" where
  "require_api_key hs baas_id =
     andThen (okOr (Auth ''Missing BaaS API Key'') (extract_baas_api_key hs)) (\<lambda>api_key.
     andThen (validate_baas_api_key baas_id api_key) (\<lambda>ok.
     rejectIf (\<not> ok) (Auth ''Invalid or expired BaaS API Key'')))"

definition resolve_additional_claims :: "json option \<Rightarrow> (string \<times> json) list handler" where
  "resolve_additional_claims requested =
     (case requested of
        None \<Rightarrow> ret []
      | Some JNull \<Rightarrow> ret []
      | Some (JObject m) \<Rightarrow> ret (filter (\<lambda>(k, _). k \<notin> set RESERVED_CLAIMS) m)
      | Some _ \<Rightarrow> raise (Validation ''additionalClaims must be a JSON object.''))"

definition client_ip :: "headers \<Rightarrow> string" where
  "client_ip hs = default_to ''unknown'' (extract_client_ip hs)"

definition enforce_baas_rate_limit :: "headers \<Rightarrow> uuid \<Rightarrow> unit handler" where
  "enforce_baas_rate_limit hs baas_id =
     andThen (check_rate_limit (''baas:'' @ uuid_str baas_id @ '':'' @ client_ip hs) 20 300) (\<lambda>ok.
     rejectIf (\<not> ok) (RateLimited ''Too many authentication attempts. Please try again in a few minutes.''))"

section \<open>The public endpoints\<close>

record app_user_auth_response =
  ux_access_token :: string
  ux_refresh_token :: string
  ux_expires_in :: int
  ux_app_user_id :: uuid
  ux_identifier :: string
  ux_roles :: "string list"
  ux_permissions :: "string list"

definition auth_response :: "issued_tokens \<Rightarrow> uuid \<Rightarrow> string \<Rightarrow> string list \<Rightarrow> string list \<Rightarrow> app_user_auth_response" where
  "auth_response t i identifier rs ps =
     \<lparr>ux_access_token = it_access_token t, ux_refresh_token = it_refresh_token t, ux_expires_in = it_expires_in t,
      ux_app_user_id = i, ux_identifier = identifier, ux_roles = rs, ux_permissions = ps\<rparr>"

definition insert_app_user :: "app_user \<Rightarrow> unit handler" where
  "insert_app_user row = query (checked
     (\<lambda>w. if existsWhere (\<lambda>u. au_id u = au_id row) (app_users (db w)) then Some (conflict_on ''app_users_pkey'')
          else if existsWhere (\<lambda>u. au_baas_id u = au_baas_id row \<and> au_identifier u = au_identifier row) (app_users (db w))
          then Some (conflict_on ''unique_baas_user_identifier'')
          else if \<not> existsWhere (\<lambda>b. bs_id b = au_baas_id row) (baas_services (db w)) then Some fk_error else None)
     (\<lambda>w. (db w)\<lparr>app_users := insertRow row (app_users (db w))\<rparr>))"

definition same_role :: "app_user_role \<Rightarrow> app_user_role \<Rightarrow> bool" where
  "same_role row r \<longleftrightarrow> uo_baas_id r = uo_baas_id row \<and> uo_app_user_id r = uo_app_user_id row \<and> uo_role r = uo_role row"

definition role_fk :: "app_user_role \<Rightarrow> database \<Rightarrow> bool" where
  "role_fk row d \<longleftrightarrow> existsWhere (\<lambda>u. au_id u = uo_app_user_id row) (app_users d)
     \<and> existsWhere (\<lambda>b. bs_id b = uo_baas_id row) (baas_services d)"

definition insert_app_role :: "app_user_role \<Rightarrow> unit handler" where
  "insert_app_role row = query (checked
     (\<lambda>w. if existsWhere (same_role row) (app_user_roles (db w)) then Some (conflict_on ''unique_baas_user_role'')
          else if \<not> role_fk row (db w) then Some fk_error else None)
     (\<lambda>w. (db w)\<lparr>app_user_roles := insertRow row (app_user_roles (db w))\<rparr>))"

definition register_public_user :: "headers \<Rightarrow> uuid \<Rightarrow> string \<Rightarrow> string \<Rightarrow> json option \<Rightarrow> app_user_auth_response handler" where
  "register_public_user hs baas_id raw_identifier password additional =
     andThen (enforce_baas_rate_limit hs baas_id) (\<lambda>_.
     andThen (require_api_key hs baas_id) (\<lambda>_.
     andThen (fetch_app_ctx baas_id) (\<lambda>app.
     let identifier = trim raw_identifier in
     andThen (rejectIf (identifier = []) (Validation ''identifier is required.'')) (\<lambda>_.
     andThen (rejectIf (length password < 8) (Validation ''Password must be at least 8 characters.'')) (\<lambda>_.
     andThen (query (fetch (\<lambda>w. existsWhere (\<lambda>u. au_baas_id u = baas_id \<and> au_identifier u = identifier) (app_users (db w))))) (\<lambda>ex.
     andThen (rejectIf ex (Conflict ''This identifier is already registered in this application.'')) (\<lambda>_.
     andThen (hash_password password) (\<lambda>hashed_password.
     andThen new_v4 (\<lambda>user_id.
     andThen (insert_app_user \<lparr>au_id = user_id, au_baas_id = baas_id, au_identifier = identifier,
        au_password_hash = hashed_password, au_status = ''active'', au_last_login = None\<rparr>) (\<lambda>_.
     andThen new_v4 (\<lambda>i.
     andThen (insert_app_role \<lparr>uo_id = i, uo_baas_id = baas_id, uo_app_user_id = user_id, uo_role = ''user''\<rparr>) (\<lambda>_.
     let ps = permissions_for_roles (bs_auth_roles_config app) [''user''] in
     andThen (get_or_create_secret baas_id (bs_workspace_id app) (bs_project_id app)) (\<lambda>secret.
     andThen (resolve_additional_claims additional) (\<lambda>extra.
     andThen (issue_token_pair baas_id user_id identifier [''user''] ps secret extra) (\<lambda>tokens.
     ret (auth_response tokens user_id identifier [''user''] ps))))))))))))))))"

text \<open>What a sign-in and a refresh have in common once the user and the claims are known.\<close>

definition sign_in :: "baas_service \<Rightarrow> app_user \<Rightarrow> (string \<times> json) list handler \<Rightarrow> app_user_auth_response handler" where
  "sign_in app u extra_claims =
     andThen (fetch_roles (bs_id app) (au_id u)) (\<lambda>rs.
     let ps = permissions_for_roles (bs_auth_roles_config app) rs in
     andThen (get_or_create_secret (bs_id app) (bs_workspace_id app) (bs_project_id app)) (\<lambda>secret.
     andThen extra_claims (\<lambda>extra.
     andThen (issue_token_pair (bs_id app) (au_id u) (au_identifier u) rs ps secret extra) (\<lambda>tokens.
     ret (auth_response tokens (au_id u) (au_identifier u) rs ps)))))"

definition login_public_user :: "headers \<Rightarrow> uuid \<Rightarrow> string \<Rightarrow> string \<Rightarrow> json option \<Rightarrow> app_user_auth_response handler" where
  "login_public_user hs baas_id raw_identifier password additional =
     andThen (enforce_baas_rate_limit hs baas_id) (\<lambda>_.
     andThen (require_api_key hs baas_id) (\<lambda>_.
     andThen (fetch_app_ctx baas_id) (\<lambda>app.
     andThen (query (fetch (\<lambda>w. firstWhere (\<lambda>u. au_baas_id u = baas_id \<and> au_identifier u = trim raw_identifier)
        (app_users (db w))))) (\<lambda>row.
     andThen (okOr (Auth ''Invalid credentials.'') row) (\<lambda>u.
     andThen (verify_password password (au_password_hash u)) (\<lambda>ok.
     andThen (rejectIf (\<not> ok) (Auth ''Invalid credentials.'')) (\<lambda>_.
     andThen (rejectIf (au_status u \<noteq> ''active'') (Auth ''This account is suspended or inactive.'')) (\<lambda>_.
     andThen (query (execute (\<lambda>w. (db w)\<lparr>app_users :=
        updateWhere (\<lambda>r. au_id r = au_id u) (\<lambda>r. r\<lparr>au_last_login := Some (clock w)\<rparr>) (app_users (db w))\<rparr>))) (\<lambda>_.
     sign_in app u (resolve_additional_claims additional))))))))))"

definition refresh_live :: "uuid \<Rightarrow> string \<Rightarrow> instant \<Rightarrow> app_refresh_token \<Rightarrow> bool" where
  "refresh_live baas_id h t r \<longleftrightarrow> ar_baas_id r = baas_id \<and> ar_token_hash r = h \<and> t < ar_expires_at r"

definition refresh_app_token :: "headers \<Rightarrow> uuid \<Rightarrow> string \<Rightarrow> app_user_auth_response handler" where
  "refresh_app_token hs baas_id refresh_token =
     andThen (enforce_baas_rate_limit hs baas_id) (\<lambda>_.
     andThen (require_api_key hs baas_id) (\<lambda>_.
     andThen (fetch_app_ctx baas_id) (\<lambda>app.
     andThen (readState (\<lambda>w. sha256_hex (ext w) refresh_token)) (\<lambda>token_hash.
     andThen (query (executing (\<lambda>w. (firstWhere (refresh_live baas_id token_hash (clock w)) (app_refresh_tokens (db w)),
        (db w)\<lparr>app_refresh_tokens := deleteWhere (refresh_live baas_id token_hash (clock w)) (app_refresh_tokens (db w))\<rparr>)))) (\<lambda>consumed.
     andThen (okOr (Auth ''Invalid or expired refresh token.'') consumed) (\<lambda>c.
     let extra = (case ar_additional_claims c of JObject m \<Rightarrow> m | _ \<Rightarrow> []) in
     andThen (query (fetch (\<lambda>w. firstWhere (\<lambda>u. au_id u = ar_app_user_id c \<and> au_baas_id u = baas_id) (app_users (db w))))) (\<lambda>row.
     andThen (okOr (Auth ''Account no longer exists.'') row) (\<lambda>u.
     andThen (rejectIf (au_status u \<noteq> ''active'') (Auth ''This account is suspended or inactive.'')) (\<lambda>_.
     sign_in app u (ret extra))))))))))"

definition logout_app_user :: "headers \<Rightarrow> uuid \<Rightarrow> string \<Rightarrow> unit handler" where
  "logout_app_user hs baas_id refresh_token =
     andThen (require_api_key hs baas_id) (\<lambda>_.
     query (execute (\<lambda>w. (db w)\<lparr>app_refresh_tokens := deleteWhere
       (\<lambda>r. ar_baas_id r = baas_id \<and> ar_token_hash r = sha256_hex (ext w) refresh_token) (app_refresh_tokens (db w))\<rparr>)))"

record verify_token_response =
  vt_valid :: bool
  vt_app_user_id :: "uuid option"
  vt_identifier :: "string option"
  vt_roles :: "string list"
  vt_permissions :: "string list"
  vt_expires_at :: "int option"

definition invalid_token :: verify_token_response where
  "invalid_token = \<lparr>vt_valid = False, vt_app_user_id = None, vt_identifier = None, vt_roles = [], vt_permissions = [],
     vt_expires_at = None\<rparr>"

definition verify_app_token :: "headers \<Rightarrow> uuid \<Rightarrow> string \<Rightarrow> verify_token_response handler" where
  "verify_app_token hs baas_id token =
     andThen (require_api_key hs baas_id) (\<lambda>_.
     andThen (fetch_app_ctx baas_id) (\<lambda>app.
     andThen (get_or_create_secret baas_id (bs_workspace_id app) (bs_project_id app)) (\<lambda>secret.
     andThen (readState (\<lambda>w. app_jwt_decode (ext w) (clock w) secret token)) (\<lambda>decoded.
     ret (case decoded of None \<Rightarrow> invalid_token
       | Some c \<Rightarrow>
           (if ac_baas_id c \<noteq> baas_id then invalid_token
            else \<lparr>vt_valid = True, vt_app_user_id = Some (ac_sub c), vt_identifier = Some (ac_identifier c), vt_roles = ac_roles c,
                  vt_permissions = permissions_for_roles (bs_auth_roles_config app) (ac_roles c),
                  vt_expires_at = Some (ac_exp c)\<rparr>))))))"

record verify_key_response =
  vk_valid :: bool
  vk_expired :: bool
  vk_name :: "string option"

definition invalid_key :: verify_key_response where
  "invalid_key = \<lparr>vk_valid = False, vk_expired = False, vk_name = None\<rparr>"

definition verify_app_key :: "uuid \<Rightarrow> string \<Rightarrow> verify_key_response handler" where
  "verify_app_key baas_id key =
     (case split_once (CHR ''.'') key of None \<Rightarrow> ret invalid_key
      | Some (prefix, secret) \<Rightarrow>
          andThen (key_row baas_id prefix) (\<lambda>row.
          case row of None \<Rightarrow> ret invalid_key
          | Some k \<Rightarrow>
              andThen (verify_password secret (ak_key_hash k)) (\<lambda>ok.
              if \<not> ok then ret invalid_key
              else
                andThen now (\<lambda>t.
                if key_expired t k then ret \<lparr>vk_valid = False, vk_expired = True, vk_name = Some (ak_name k)\<rparr>
                else
                  andThen (stamp_key (ak_id k)) (\<lambda>_.
                  ret \<lparr>vk_valid = True, vk_expired = False, vk_name = Some (ak_name k)\<rparr>)))))"

section \<open>Administration\<close>

definition assign_user_role_to_app :: "claims \<Rightarrow> uuid \<Rightarrow> string \<Rightarrow> string \<Rightarrow> unit handler" where
  "assign_user_role_to_app claims baas_id identifier role =
     andThen (active_workspace claims) (\<lambda>ws_id.
     andThen (ensure_app_in_ws baas_id ws_id) (\<lambda>_.
     andThen (query (fetch (\<lambda>w. map_option au_id (firstWhere (\<lambda>u. au_baas_id u = baas_id \<and> au_identifier u = trim identifier)
        (app_users (db w)))))) (\<lambda>row.
     andThen (okOr (NotFound ''No user with this identifier in this application.'') row) (\<lambda>user_id.
     andThen new_v4 (\<lambda>i.
     let r = \<lparr>uo_id = i, uo_baas_id = baas_id, uo_app_user_id = user_id, uo_role = to_lowercase (trim role)\<rparr> in
     query (checked
       (\<lambda>w. if existsWhere (same_role r) (app_user_roles (db w)) \<or> role_fk r (db w) then None else Some fk_error)
       (\<lambda>w. (db w)\<lparr>app_user_roles := insertIfAbsent (same_role r) r (app_user_roles (db w))\<rparr>)))))))"

definition remove_user_role_from_app :: "claims \<Rightarrow> uuid \<Rightarrow> uuid \<Rightarrow> string \<Rightarrow> unit handler" where
  "remove_user_role_from_app claims baas_id user_id role =
     andThen (active_workspace claims) (\<lambda>ws_id.
     andThen (ensure_app_in_ws baas_id ws_id) (\<lambda>_.
     query (execute (\<lambda>w. (db w)\<lparr>app_user_roles := deleteWhere
       (\<lambda>r. uo_baas_id r = baas_id \<and> uo_app_user_id r = user_id \<and> uo_role r = to_lowercase (trim role))
       (app_user_roles (db w))\<rparr>))))"

text \<open>The row of a user of the service, and the refresh tokens of a user.\<close>

definition edit_app_user :: "uuid \<Rightarrow> uuid \<Rightarrow> (app_user \<Rightarrow> app_user) \<Rightarrow> unit handler" where
  "edit_app_user baas_id user_id f = query (execute (\<lambda>w. (db w)\<lparr>app_users :=
     updateWhere (\<lambda>u. au_id u = user_id \<and> au_baas_id u = baas_id) f (app_users (db w))\<rparr>))"

definition drop_refresh_tokens :: "uuid \<Rightarrow> unit handler" where
  "drop_refresh_tokens user_id = discard (execute (\<lambda>w. (db w)\<lparr>app_refresh_tokens :=
     deleteWhere (\<lambda>r. ar_app_user_id r = user_id) (app_refresh_tokens (db w))\<rparr>))"

definition update_app_user_status :: "claims \<Rightarrow> uuid \<Rightarrow> uuid \<Rightarrow> string \<Rightarrow> unit handler" where
  "update_app_user_status claims baas_id user_id status =
     andThen (active_workspace claims) (\<lambda>ws_id.
     andThen (ensure_app_in_ws baas_id ws_id) (\<lambda>_.
     let status_clean = to_lowercase (trim status) in
     andThen (rejectIf (status_clean \<noteq> ''active'' \<and> status_clean \<noteq> ''suspended'')
       (Validation ''Invalid status. Must be active or suspended.'')) (\<lambda>_.
     andThen (edit_app_user baas_id user_id (\<lambda>u. u\<lparr>au_status := status_clean\<rparr>)) (\<lambda>_.
     onlyIf (status_clean = ''suspended'') (drop_refresh_tokens user_id)))))"

definition reset_app_user_password :: "claims \<Rightarrow> uuid \<Rightarrow> uuid \<Rightarrow> string \<Rightarrow> unit handler" where
  "reset_app_user_password claims baas_id user_id new_password =
     andThen (active_workspace claims) (\<lambda>ws_id.
     andThen (ensure_app_in_ws baas_id ws_id) (\<lambda>_.
     andThen (rejectIf (length new_password < 8) (Validation ''Password must be at least 8 characters.'')) (\<lambda>_.
     andThen (hash_password new_password) (\<lambda>h.
     andThen (edit_app_user baas_id user_id (\<lambda>u. u\<lparr>au_password_hash := h\<rparr>)) (\<lambda>_.
     drop_refresh_tokens user_id)))))"

definition own_service :: "string \<Rightarrow> uuid \<Rightarrow> uuid \<Rightarrow> baas_service handler" where
  "own_service msg ws_id baas_id = find_service (NotFound msg) (\<lambda>b. bs_id b = baas_id \<and> bs_workspace_id b = ws_id)"

definition get_app_auth_config :: "claims \<Rightarrow> uuid \<Rightarrow> json handler" where
  "get_app_auth_config claims baas_id =
     andThen (active_workspace claims) (\<lambda>ws_id.
     andThen (own_service ''Auth service not found.'' ws_id baas_id) (\<lambda>b. ret (bs_auth_roles_config b)))"

definition update_app_auth_config :: "claims \<Rightarrow> uuid \<Rightarrow> json \<Rightarrow> unit handler" where
  "update_app_auth_config claims baas_id config =
     andThen (active_workspace claims) (\<lambda>ws_id.
     andThen (own_service ''Auth service not found in this workspace.'' ws_id baas_id) (\<lambda>_.
     query (execute (\<lambda>w. (db w)\<lparr>baas_services := updateWhere (\<lambda>b. bs_id b = baas_id)
       (\<lambda>b. b\<lparr>bs_auth_roles_config := config\<rparr>) (baas_services (db w))\<rparr>))))"

record api_key_response =
  kr_id :: uuid
  kr_name :: string
  kr_key_prefix :: string
  kr_raw_key :: string
  kr_created_at :: instant
  kr_expires_at :: "instant option"

text \<open>The list shows everything but the hash.\<close>

record listed_key =
  lk_id :: uuid
  lk_name :: string
  lk_key_prefix :: string
  lk_created_at :: instant
  lk_expires_at :: "instant option"
  lk_last_used_at :: "instant option"

definition list_app_api_keys :: "claims \<Rightarrow> uuid \<Rightarrow> listed_key list handler" where
  "list_app_api_keys claims baas_id =
     andThen (active_workspace claims) (\<lambda>ws_id.
     andThen (own_service ''Application not found in this workspace.'' ws_id baas_id) (\<lambda>_.
     andThen (query (fetch (\<lambda>w. sort_key (\<lambda>k. - ak_created_at k) (selectWhere (\<lambda>k. ak_baas_id k = baas_id) (app_api_keys (db w)))))) (\<lambda>keys.
     ret (map (\<lambda>k. \<lparr>lk_id = ak_id k, lk_name = ak_name k, lk_key_prefix = ak_key_prefix k,
       lk_created_at = ak_created_at k, lk_expires_at = ak_expires_at k, lk_last_used_at = ak_last_used_at k\<rparr>) keys))))"

definition insert_api_key :: "app_api_key \<Rightarrow> unit handler" where
  "insert_api_key row = query (checked
     (\<lambda>w. if existsWhere (\<lambda>k. ak_id k = ak_id row) (app_api_keys (db w)) then Some (conflict_on ''app_api_keys_pkey'')
          else if \<not> existsWhere (\<lambda>b. bs_id b = ak_baas_id row) (baas_services (db w)) then Some fk_error else None)
     (\<lambda>w. (db w)\<lparr>app_api_keys := insertRow row (app_api_keys (db w))\<rparr>))"

definition create_app_api_key :: "claims \<Rightarrow> uuid \<Rightarrow> string \<Rightarrow> instant option \<Rightarrow> api_key_response handler" where
  "create_app_api_key claims baas_id name expires_at =
     andThen (active_workspace claims) (\<lambda>ws_id.
     andThen (own_service ''Application not found in this workspace.'' ws_id baas_id) (\<lambda>b.
     andThen (random_chars 8) (\<lambda>p.
     let prefix = ''hm_'' @ p in
     andThen (random_chars 32) (\<lambda>secret.
     let raw_key = prefix @ ''.'' @ secret in
     andThen (hash_password secret) (\<lambda>key_hash.
     andThen new_v4 (\<lambda>i.
     andThen now (\<lambda>t.
     andThen (insert_api_key \<lparr>ak_id = i, ak_baas_id = baas_id, ak_name = trim name, ak_key_hash = key_hash, ak_key_prefix = prefix,
        ak_created_at = t, ak_expires_at = expires_at, ak_last_used_at = None\<rparr>) (\<lambda>_.
     andThen (discard (publish_project_env ws_id (bs_project_id b) (sanitize_key_fragment name ''BAAS'' @ ''_API_KEY'')
        raw_key True ''baas'' i)) (\<lambda>_.
     ret \<lparr>kr_id = i, kr_name = trim name, kr_key_prefix = prefix, kr_raw_key = raw_key, kr_created_at = t,
       kr_expires_at = expires_at\<rparr>)))))))))"

definition delete_app_api_key :: "claims \<Rightarrow> uuid \<Rightarrow> uuid \<Rightarrow> unit handler" where
  "delete_app_api_key claims baas_id key_id =
     andThen (active_workspace claims) (\<lambda>ws_id.
     andThen (own_service ''Application not found in this workspace.'' ws_id baas_id) (\<lambda>_.
     andThen (query (execute (\<lambda>w. (db w)\<lparr>app_api_keys := deleteWhere (\<lambda>k. ak_id k = key_id \<and> ak_baas_id k = baas_id)
        (app_api_keys (db w))\<rparr>))) (\<lambda>_.
     andThen (unpublish_project_env ''baas'' key_id) (\<lambda>linked.
     forEach linked hot_reload_if_running))))"

record auth_integration =
  ig_baas_id :: uuid
  ig_api_base_url :: string
  ig_auth_secret_env_key :: string
  ig_auth_secret :: string
  ig_endpoints :: "string list"

definition api_base_url :: "headers \<Rightarrow> string" where
  "api_base_url hs =
     (let h = default_to ''localhost:8000'' (header_str ''host'' hs);
          proto = (if contains ''localhost'' h \<or> contains ''127.0.0.1'' h \<or> contains ''192.168.'' h then ''http'' else ''https'')
      in proto @ ''://'' @ h @ ''/api/v1'')"

definition get_auth_integration :: "claims \<Rightarrow> headers \<Rightarrow> uuid \<Rightarrow> auth_integration handler" where
  "get_auth_integration claims hs baas_id =
     andThen (active_workspace claims) (\<lambda>ws_id.
     andThen (own_service ''Application not found in this workspace.'' ws_id baas_id) (\<lambda>b.
     andThen (get_or_create_secret baas_id ws_id (bs_project_id b)) (\<lambda>secret.
     andThen (discard (publish_baas_var ws_id (bs_project_id b) baas_id ''HERMES_AUTH_APP_ID'' (uuid_str baas_id) False)) (\<lambda>_.
     ret \<lparr>ig_baas_id = baas_id, ig_api_base_url = api_base_url hs, ig_auth_secret_env_key = AUTH_SECRET_ENV_KEY,
       ig_auth_secret = secret, ig_endpoints = map (\<lambda>e. api_base_url hs @ ''/baas/'' @ uuid_str baas_id @ ''/auth/'' @ e)
         [''register'', ''login'', ''refresh'', ''logout'', ''verify-token'', ''verify-key'']\<rparr>))))"

definition rotate_auth_secret :: "claims \<Rightarrow> uuid \<Rightarrow> string handler" where
  "rotate_auth_secret claims baas_id =
     andThen (active_workspace claims) (\<lambda>ws_id.
     andThen (own_service ''Application not found in this workspace.'' ws_id baas_id) (\<lambda>b.
     rotate_secret baas_id ws_id (bs_project_id b)))"

section \<open>Services\<close>

record create_baas_request =
  br_project_id :: uuid
  br_name :: string
  br_publish_app_id :: "bool option"
  br_app_id_env_key :: "string option"
  br_publish_secret :: "bool option"
  br_secret_env_key :: "string option"
  br_publish_api_key :: "bool option"
  br_api_key_env_key :: "string option"

text \<open>A variable is published when it is asked for and has a key.\<close>

definition when_named :: "bool option \<Rightarrow> string option \<Rightarrow> (string \<Rightarrow> unit handler) \<Rightarrow> unit handler" where
  "when_named publish env_key f =
     (case (publish, env_key) of
        (Some True, Some key) \<Rightarrow> onlyIf (trim key \<noteq> []) (f (trim key))
      | _ \<Rightarrow> ret ())"

definition default_api_key :: "uuid \<Rightarrow> uuid \<Rightarrow> uuid \<Rightarrow> string \<Rightarrow> unit handler" where
  "default_api_key ws_id project_id baas_id key =
     andThen new_v4 (\<lambda>key_id.
     andThen random_string (\<lambda>p.
     andThen random_string (\<lambda>raw_secret.
     let prefix = ''ak_'' @ p in
     andThen (hash_password raw_secret) (\<lambda>key_hash.
     andThen now (\<lambda>t.
     andThen (insert_api_key \<lparr>ak_id = key_id, ak_baas_id = baas_id, ak_name = ''Default API Key'', ak_key_hash = key_hash,
        ak_key_prefix = prefix, ak_created_at = t, ak_expires_at = None, ak_last_used_at = None\<rparr>) (\<lambda>_.
     discard (publish_project_env ws_id project_id key (prefix @ ''.'' @ raw_secret) True ''baas'' key_id)))))))"

definition publish_service :: "uuid \<Rightarrow> create_baas_request \<Rightarrow> uuid \<Rightarrow> string \<Rightarrow> unit handler" where
  "publish_service ws_id p baas_id secret =
     (let put = (\<lambda>key val is_secret. discard (publish_baas_var ws_id (br_project_id p) baas_id key val is_secret)) in
      if br_publish_app_id p \<noteq> None \<or> br_publish_secret p \<noteq> None \<or> br_publish_api_key p \<noteq> None
      then
        andThen (when_named (br_publish_app_id p) (br_app_id_env_key p) (\<lambda>key. put key (uuid_str baas_id) False)) (\<lambda>_.
        andThen (when_named (br_publish_secret p) (br_secret_env_key p) (\<lambda>key. put key secret True)) (\<lambda>_.
        when_named (br_publish_api_key p) (br_api_key_env_key p) (default_api_key ws_id (br_project_id p) baas_id)))
      else
        andThen (put ''HERMES_AUTH_APP_ID'' (uuid_str baas_id) False) (\<lambda>_.
        put AUTH_SECRET_ENV_KEY secret True))"

definition create_baas_service :: "claims \<Rightarrow> create_baas_request \<Rightarrow> baas_service handler" where
  "create_baas_service claims p =
     andThen (active_workspace claims) (\<lambda>ws_id.
     andThen (rejectIf (trim (br_name p) = []) (Validation ''A name is required.'')) (\<lambda>_.
     andThen (query (fetch (\<lambda>w. existsWhere (\<lambda>r. pr_id r = br_project_id p \<and> pr_workspace_id r = ws_id) (projects (db w))))) (\<lambda>ok.
     andThen (rejectIf (\<not> ok) (NotFound ''Project not found in this workspace.'')) (\<lambda>_.
     andThen (new_baas_service ws_id (br_project_id p) (trim (br_name p))) (\<lambda>(baas_id, secret).
     andThen (publish_service ws_id p baas_id secret) (\<lambda>_.
     query (fetchOne (\<lambda>w. firstWhere (\<lambda>b. bs_id b = baas_id) (baas_services (db w))))))))))"

definition list_project_baas_services :: "claims \<Rightarrow> uuid \<Rightarrow> baas_service list handler" where
  "list_project_baas_services claims project_id =
     andThen (active_workspace claims) (\<lambda>ws_id.
     query (fetch (\<lambda>w. sort_key (\<lambda>b. - bs_created_at b)
       (selectWhere (\<lambda>b. bs_project_id b = project_id \<and> bs_workspace_id b = ws_id) (baas_services (db w))))))"

definition get_baas_service :: "claims \<Rightarrow> uuid \<Rightarrow> baas_service handler" where
  "get_baas_service claims baas_id =
     andThen (active_workspace claims) (\<lambda>ws_id. own_service ''Auth service not found.'' ws_id baas_id)"

definition delete_baas_service :: "claims \<Rightarrow> uuid \<Rightarrow> unit handler" where
  "delete_baas_service claims baas_id =
     andThen (active_workspace claims) (\<lambda>ws_id.
     andThen (query (fetch (\<lambda>w. existsWhere (\<lambda>b. bs_id b = baas_id \<and> bs_workspace_id b = ws_id) (baas_services (db w))))) (\<lambda>ex.
     andThen (rejectIf (\<not> ex) (NotFound ''Auth service not found in this workspace.'')) (\<lambda>_.
     andThen (unpublish_project_env ''baas_auth'' baas_id) (\<lambda>linked.
     andThen (forEach linked hot_reload_if_running) (\<lambda>_.
     query (execute (\<lambda>w. delete_baas_rows (\<lambda>b. bs_id b = baas_id \<and> bs_workspace_id b = ws_id) (db w))))))))"

end
