(* ===== verification/End_Users_Laws.thy ===== *)
theory End_Users_Laws
  imports End_Users Auth_Laws Env_Laws
begin

text \<open>
  What the authentication services guarantee: who is signed in and with which rights, that an issued token is
  verified until its secret changes, that a suspended user is locked out, what a deletion leaves, and what one tenant or
  one service can do to another.
\<close>

section \<open>Permissions\<close>

lemma set_add_permissions: "set (fold add_permission ps acc) = set acc \<union> {s. JString s \<in> set ps}"
  by (induction ps arbitrary: acc) (auto simp: add_permission_def split: json.splits)

lemma distinct_add_permissions: "distinct acc \<Longrightarrow> distinct (fold add_permission ps acc)"
  by (induction ps arbitrary: acc) (auto simp: add_permission_def split: json.split)

lemma set_add_role:
  "set (add_role m r acc) = set acc \<union> {s. \<exists>ps. map_of m r = Some (JArray ps) \<and> JString s \<in> set ps}"
  by (auto simp: add_role_def set_add_permissions split: option.splits json.splits)

lemma distinct_add_role: "distinct acc \<Longrightarrow> distinct (add_role m r acc)"
  by (auto simp: add_role_def distinct_add_permissions split: option.split json.split)

lemma set_add_roles:
  "set (fold (add_role m) rs acc) = set acc \<union> {s. \<exists>r \<in> set rs. \<exists>ps. map_of m r = Some (JArray ps) \<and> JString s \<in> set ps}"
  by (induction rs arbitrary: acc) (auto simp: set_add_role)

lemma distinct_add_roles: "distinct acc \<Longrightarrow> distinct (fold (add_role m) rs acc)"
  by (induction rs arbitrary: acc) (auto simp: distinct_add_role)

text \<open>
  The permissions of a token are exactly those the configuration lists for one of its roles, each once and in
  order, whatever the order of the roles; a configuration that is not an object grants none.
\<close>

theorem permissions_exact:
  "set (permissions_for_roles (JObject m) rs) = {s. \<exists>r \<in> set rs. \<exists>ps. map_of m r = Some (JArray ps) \<and> JString s \<in> set ps}
   \<and> sorted (permissions_for_roles c rs) \<and> distinct (permissions_for_roles c rs)
   \<and> (case c of JObject _ \<Rightarrow> True | _ \<Rightarrow> permissions_for_roles c rs = [])"
  by (cases c) (auto simp: permissions_for_roles_def set_add_roles distinct_add_roles split: json.split)

section \<open>Who is signed in\<close>

text \<open>Partial correctness in a steady world.\<close>

lemma yields_steady_fetch:
  "(\<And>w. steady k I w \<Longrightarrow> A (g w)) \<Longrightarrow> yields (steady k I) (query (fetch g)) (\<lambda>x w. A x \<and> steady k I w)"
  by (auto simp: yields_def query_success fetch_success steady_def ambient_def)

lemma yields_verify_password:
  "yields (steady (t, e, v) I) (verify_password p h) (\<lambda>ok w. pw_verify e p h = Some ok \<and> steady (t, e, v) I w)"
  by (auto simp: yields_def verify_password_def success_simps steady_def ambient_def split: option.splits)

lemma steady_enforce [steady_intros]:
  "(\<And>d l. I d \<Longrightarrow> I (d\<lparr>rate_limit_counters := l\<rparr>)) \<Longrightarrow> keeps (steady k I) (enforce_baas_rate_limit hs b)"
  unfolding enforce_baas_rate_limit_def by (intro keeps_intros steady_intros)

lemma steady_stamp_key [steady_intros]:
  "(\<And>d l. I d \<Longrightarrow> I (d\<lparr>app_api_keys := l\<rparr>)) \<Longrightarrow> keeps (steady k I) (stamp_key i)"
  unfolding stamp_key_def by (intro keeps_intros steady_execute) (simp add: steady_def)

lemma steady_require_api_key [steady_intros]:
  "(\<And>d l. I d \<Longrightarrow> I (d\<lparr>app_api_keys := l\<rparr>)) \<Longrightarrow> keeps (steady k I) (require_api_key hs b)"
  unfolding require_api_key_def validate_baas_api_key_def key_row_def now_def
  by (intro keeps_intros steady_intros)

text \<open>The request carries an API key of the service that is not expired.\<close>

definition presents_key :: "headers \<Rightarrow> uuid \<Rightarrow> instant \<Rightarrow> externals \<Rightarrow> app_api_key list \<Rightarrow> bool" where
  "presents_key hs b t e ks \<longleftrightarrow> (\<exists>key prefix secret. \<exists>k \<in> set ks. extract_baas_api_key hs = Some key
     \<and> split_once (CHR ''.'') key = Some (prefix, secret) \<and> ak_baas_id k = b \<and> ak_key_prefix k = prefix
     \<and> pw_verify e secret (ak_key_hash k) = Some True \<and> \<not> key_expired t k)"

lemma valid_key:
  assumes "validate_baas_api_key b key w = (Inr True, w')"
  shows "\<exists>prefix secret. \<exists>k \<in> set (app_api_keys (db w)). split_once (CHR ''.'') key = Some (prefix, secret)
    \<and> ak_baas_id k = b \<and> ak_key_prefix k = prefix \<and> pw_verify (ext w) secret (ak_key_hash k) = Some True \<and> \<not> key_expired (clock w) k"
proof (cases "split_once (CHR ''.'') key")
  case None
  with assms show ?thesis by (simp add: validate_baas_api_key_def ret_def)
next
  case (Some ps)
  then obtain p s where ps: "split_once (CHR ''.'') key = Some (p, s)" by (cases ps) auto
  with assms show ?thesis
    by (auto simp: validate_baas_api_key_def key_row_def verify_password_def success_simps
      split: option.splits if_splits dest!: firstWhere_Some)
qed

lemma api_key_presented:
  assumes "require_api_key hs b w = (Inr x, w')"
  shows "presents_key hs b (clock w) (ext w) (app_api_keys (db w))"
proof -
  from assms obtain key w1 where "extract_baas_api_key hs = Some key" "validate_baas_api_key b key w = (Inr True, w1)"
    by (auto simp: require_api_key_def success_simps)
  with valid_key [of b key w w1] show ?thesis by (auto simp: presents_key_def)
qed

lemma yields_require_api_key:
  assumes "\<And>d l. I d \<Longrightarrow> I (d\<lparr>app_api_keys := l\<rparr>)"
  shows "yields (steady (t, e, v) (\<lambda>d. I d \<and> app_api_keys d = ks)) (require_api_key hs b)
    (\<lambda>_ w. presents_key hs b t e ks \<and> steady (t, e, v) I w)"
  unfolding yields_def
proof (intro allI impI)
  fix w x w' assume w: "steady (t, e, v) (\<lambda>d. I d \<and> app_api_keys d = ks) w" and r: "require_api_key hs b w = (Inr x, w')"
  have "steady (t, e, v) I w" using w by (simp add: steady_def)
  with steadyD [OF steady_require_api_key [where I = I, OF assms] r] api_key_presented [OF r] w
  show "presents_key hs b t e ks \<and> steady (t, e, v) I w'" by (simp add: steady_def ambient_def)
qed

lemma yields_service:
  "yields (steady k (\<lambda>d. I d \<and> baas_services d = B)) (fetch_app_ctx b)
    (\<lambda>x w. (x \<in> set B \<and> bs_id x = b) \<and> steady k (\<lambda>d. I d \<and> baas_services d = B) w)"
  unfolding fetch_app_ctx_def find_service_def
  by (auto simp: yields_def success_simps steady_def ambient_def dest!: firstWhere_Some)

lemma steady_encrypt [steady_intros]: "keeps (steady k I) (encrypt_env_value p)"
  unfolding encrypt_env_value_def by (intro keeps_intros steady_intros)

lemma steady_decrypt [steady_intros]: "keeps (steady k I) (decrypt_env_value e n)"
  unfolding decrypt_env_value_def by (intro keeps_intros steady_intros)

lemma steady_rand_u32 [steady_intros]: "keeps (steady k I) rand_u32"
  by (simp add: keeps_def rand_u32_def steady_def ambient_def)

lemma steady_random_chars [steady_intros]: "keeps (steady k I) (random_chars n)"
proof (induction n)
  case 0
  show ?case unfolding random_chars.simps by (intro keeps_intros)
next
  case (Suc n)
  then show ?case unfolding random_chars.simps by (intro keeps_intros steady_intros)
qed

lemma steady_publish_baas_var [steady_intros]:
  "(\<And>d l. I d \<Longrightarrow> I (d\<lparr>project_env_variables := l\<rparr>)) \<Longrightarrow> keeps (steady k I) (publish_baas_var ws p b key x s)"
  unfolding publish_baas_var_def put_project_env_def
  by (intro keeps_intros steady_intros steady_sql) (auto simp: steady_def split: if_splits)

lemma steady_get_or_create_secret [steady_intros]:
  "(\<And>d l. I d \<Longrightarrow> I (d\<lparr>project_env_variables := l\<rparr>)) \<Longrightarrow> keeps (steady k I) (get_or_create_secret b ws p)"
  unfolding get_or_create_secret_def rotate_secret_def generate_secret_def
  by (intro keeps_intros steady_intros) simp

lemma steady_issue [steady_intros]:
  "(\<And>d l. I d \<Longrightarrow> I (d\<lparr>app_refresh_tokens := l\<rparr>)) \<Longrightarrow> keeps (steady k I) (issue_token_pair b u n rs ps s x)"
  unfolding issue_token_pair_def insert_app_refresh_def Let_def now_def
  by (intro keeps_intros steady_intros steady_checked) (auto simp: steady_def)

lemma yields_sign_in:
  assumes "\<And>w. keeps (steady k I) m"
  shows "yields (steady k (\<lambda>d. app_user_roles d = R)) (sign_in app u m) (\<lambda>r _. ux_app_user_id r = au_id u \<and> ux_identifier r = au_identifier u
    \<and> ux_roles r = map uo_role (selectWhere (\<lambda>x. uo_baas_id x = bs_id app \<and> uo_app_user_id x = au_id u) R)
    \<and> ux_permissions r = permissions_for_roles (bs_auth_roles_config app) (ux_roles r))"
  by (auto simp: yields_def sign_in_def fetch_roles_def Let_def success_simps auth_response_def roles_of_def steady_def)

lemma login_authenticates:
  assumes "login_public_user hs b ident pw x w = (Inr r, w')"
  shows "presents_key hs b (clock w) (ext w) (app_api_keys (db w))
    \<and> (\<exists>u \<in> set (app_users (db w)). \<exists>app \<in> set (baas_services (db w)). au_baas_id u = b \<and> au_identifier u = trim ident
        \<and> au_status u = ''active'' \<and> pw_verify (ext w) pw (au_password_hash u) = Some True \<and> bs_id app = b
        \<and> ux_app_user_id r = au_id u \<and> ux_roles r = roles_of b (au_id u) (db w)
        \<and> ux_permissions r = permissions_for_roles (bs_auth_roles_config app) (ux_roles r))"
proof -
  let ?k = "(clock w, ext w, env_var w)" and ?U = "app_users (db w)" and ?R = "app_user_roles (db w)" and ?B = "baas_services (db w)"
  let ?K = "app_api_keys (db w)"
  let ?I = "\<lambda>d. (app_users d = ?U \<and> app_user_roles d = ?R) \<and> baas_services d = ?B"
  let ?Q = "\<lambda>r. \<exists>u \<in> set ?U. \<exists>app \<in> set ?B. au_baas_id u = b \<and> au_identifier u = trim ident
        \<and> au_status u = ''active'' \<and> pw_verify (ext w) pw (au_password_hash u) = Some True \<and> bs_id app = b
        \<and> ux_app_user_id r = au_id u \<and> ux_roles r = roles_of b (au_id u) (db w)
        \<and> ux_permissions r = permissions_for_roles (bs_auth_roles_config app) (ux_roles r)"
  have last: "yields (steady ?k ?I) (andThen (query (execute (\<lambda>w. (db w)\<lparr>app_users :=
        updateWhere (\<lambda>r. au_id r = au_id u) (\<lambda>r. r\<lparr>au_last_login := Some (clock w)\<rparr>) (app_users (db w))\<rparr>))) (\<lambda>_.
      sign_in app u (resolve_additional_claims x))) (\<lambda>r _. ?Q r)"
    if "u \<in> set ?U" "app \<in> set ?B" "au_baas_id u = b" "au_identifier u = trim ident" "au_status u = ''active''"
      "pw_verify (ext w) pw (au_password_hash u) = Some True" "bs_id app = b" for u app
  proof (rule yields_andThen [where R = "\<lambda>_. steady ?k (\<lambda>d. app_user_roles d = ?R)"])
    show "yields (steady ?k ?I) (query (execute (\<lambda>w. (db w)\<lparr>app_users :=
        updateWhere (\<lambda>r. au_id r = au_id u) (\<lambda>r. r\<lparr>au_last_login := Some (clock w)\<rparr>) (app_users (db w))\<rparr>)))
      (\<lambda>_. steady ?k (\<lambda>d. app_user_roles d = ?R))"
      by (auto simp: yields_def success_simps steady_def ambient_def)
    have "keeps (steady ?k (\<lambda>d. app_user_roles d = ?R)) (resolve_additional_claims x)"
      by (auto simp: resolve_additional_claims_def keeps_def ret_def raise_def split: option.split json.split)
    from yields_sign_in [OF this] show "yields (steady ?k (\<lambda>d. app_user_roles d = ?R))
        (sign_in app u (resolve_additional_claims x)) (\<lambda>r _. ?Q r)"
      by (rule yields_conseq) (use that in \<open>auto simp: roles_of_def\<close>)
  qed
  have "yields (steady ?k (\<lambda>d. ?I d \<and> app_api_keys d = ?K)) (login_public_user hs b ident pw x)
     (\<lambda>r _. presents_key hs b (clock w) (ext w) ?K \<and> ?Q r)"
    unfolding login_public_user_def
    by (rule yields_after [OF steady_enforce], simp, rule yields_andThen [OF yields_require_api_key], simp, rule yields_pure,
      rule yields_andThen [OF yields_service], rule yields_pure,
      rule yields_andThen [OF yields_steady_fetch [where A = "\<lambda>row. \<forall>u. row = Some u \<longrightarrow> u \<in> set ?U \<and> au_baas_id u = b \<and> au_identifier u = trim ident"]],
      force simp: steady_def dest: firstWhere_Some, rule yields_pure, rule yields_okOr,
      rule yields_andThen [OF yields_verify_password], rule yields_pure, rule yields_rejectIf, rule yields_rejectIf,
      rule yields_conseq [OF last]) auto
  from yieldsD [OF this _ assms] show ?thesis by (simp add: steady_def ambient_def)
qed


section \<open>A concrete service\<close>

definition ann :: app_user where
  "ann = \<lparr>au_id = 2, au_baas_id = 5, au_identifier = ''ann'', au_password_hash = ''s$password'', au_status = ''active'', au_last_login = None\<rparr>"

definition shop_service :: baas_service where
  "shop_service = \<lparr>bs_id = 5, bs_workspace_id = 7, bs_project_id = 3, bs_name = ''shop'', bs_slug = ''shop'',
     bs_auth_roles_config = JObject [(''user'', JArray [JString ''read''])], bs_created_at = 0\<rparr>"

definition shop_key :: app_api_key where
  "shop_key = \<lparr>ak_id = 9, ak_baas_id = 5, ak_name = ''web'', ak_key_hash = ''s$secret'', ak_key_prefix = ''hm'', ak_created_at = 0,
     ak_expires_at = None, ak_last_used_at = None\<rparr>"

definition shop_secret :: project_env_variable where
  "shop_secret = \<lparr>pv_id = 20, pv_workspace_id = 7, pv_project_id = 3, pv_key = AUTH_SECRET_ENV_KEY, pv_encrypted_value = ''n#sign'', pv_nonce = ''n'',
     pv_is_secret = True, pv_source = ''baas_auth'', pv_source_id = Some 5\<rparr>"

definition sso_world :: world where
  "sso_world = base_world\<lparr>db := empty_db\<lparr>
     projects := [\<lparr>pr_id = 3, pr_workspace_id = 7, pr_name = ''p'', pr_slug = ''p'', pr_created_by = 1, pr_created_at = 0,
       pr_ingress_ip = None, pr_base_domain = None, pr_cloudflare_credential_id = None\<rparr>],
     baas_services := [shop_service], app_users := [ann],
     app_user_roles := [\<lparr>uo_id = 4, uo_baas_id = 5, uo_app_user_id = 2, uo_role = ''user''\<rparr>],
     app_api_keys := [shop_key], project_env_variables := [shop_secret]\<rparr>\<rparr>"

definition key_headers :: headers where
  "key_headers = [(''x-baas-api-key'', ''hm.secret'')]"

lemmas sso_defs = sso_world_def base_world_def empty_db_def shop_service_def ann_def shop_key_def shop_secret_def

lemma key_extracted: "extract_baas_api_key key_headers = Some ''hm.secret''"
  by (simp add: extract_baas_api_key_def key_headers_def header_str_def visible_ascii_def code_def)

lemma ann_signs_in: "\<exists>r w'. login_public_user key_headers 5 ''ann'' ''password'' None sso_world = (Inr r, w')"
  by (simp add: login_public_user_def enforce_baas_rate_limit_def check_rate_limit_def require_api_key_def key_extracted
    validate_baas_api_key_def split_once_def key_row_def verify_password_def stamp_key_def fetch_app_ctx_def find_service_def
    sign_in_def fetch_roles_def get_or_create_secret_def decrypt_env_value_def resolve_additional_claims_def issue_token_pair_def
    insert_app_refresh_def run_simps sql_ok insertRow_def sso_defs plain_ext_def firstWhere_def updateWhere_def last_segment_def
    key_expired_def holds_secret_def trim_def trim_matches_def is_whitespace_def code_def starts_with_def existsWhere_def Let_def AUTH_SECRET_ENV_KEY_def)


section \<open>A suspended user\<close>

text \<open>A refresh needs a live token of the service whose account is still active, and takes the token.\<close>

lemma end_user_refreshed:
  assumes "refresh_app_token hs b tok w = (Inr r, w')"
  shows "\<exists>u \<in> set (app_users (db w)). au_baas_id u = b \<and> au_status u = ''active'' \<and> ux_app_user_id r = au_id u
    \<and> (\<exists>c \<in> set (app_refresh_tokens (db w)). refresh_live b (sha256_hex (ext w) tok) (clock w) c \<and> ar_app_user_id c = au_id u)"
proof -
  let ?k = "(clock w, ext w, env_var w)" and ?U = "app_users (db w)" and ?T = "app_refresh_tokens (db w)"
  let ?I = "\<lambda>d. app_users d = ?U \<and> app_refresh_tokens d = ?T"
  obtain w1 w2 where 1: "enforce_baas_rate_limit hs b w = (Inr (), w1)" and 2: "require_api_key hs b w1 = (Inr (), w2)"
    and rest: "andThen (fetch_app_ctx b) (\<lambda>app.
     andThen (readState (\<lambda>w. sha256_hex (ext w) tok)) (\<lambda>token_hash.
     andThen (query (executing (\<lambda>w. (firstWhere (refresh_live b token_hash (clock w)) (app_refresh_tokens (db w)),
        (db w)\<lparr>app_refresh_tokens := deleteWhere (refresh_live b token_hash (clock w)) (app_refresh_tokens (db w))\<rparr>)))) (\<lambda>consumed.
     andThen (okOr (Auth ''Invalid or expired refresh token.'') consumed) (\<lambda>c.
     let extra = (case ar_additional_claims c of JObject m \<Rightarrow> m | _ \<Rightarrow> []) in
     andThen (query (fetch (\<lambda>w. firstWhere (\<lambda>u. au_id u = ar_app_user_id c \<and> au_baas_id u = b) (app_users (db w))))) (\<lambda>row.
     andThen (okOr (Auth ''Account no longer exists.'') row) (\<lambda>u.
     andThen (rejectIf (au_status u \<noteq> ''active'') (Auth ''This account is suspended or inactive.'')) (\<lambda>_.
     sign_in app u (ret extra)))))))) w2 = (Inr r, w')"
    using assms by (auto simp: refresh_app_token_def andThen_success)
  have "steady ?k ?I w" by (simp add: steady_def ambient_def)
  then have "steady ?k ?I w1" by (rule steadyD [OF steady_enforce 1, rotated]) simp
  then have st: "steady ?k ?I w2" by (rule steadyD [OF steady_require_api_key 2, rotated]) simp
  obtain c u app extra w3 where c: "firstWhere (refresh_live b (sha256_hex (ext w2) tok) (clock w2)) (app_refresh_tokens (db w2)) = Some c"
    and u: "firstWhere (\<lambda>u. au_id u = ar_app_user_id c \<and> au_baas_id u = b) (app_users (db w2)) = Some u" "au_status u = ''active''"
    and r: "sign_in app u (ret extra) w3 = (Inr r, w')"
    using rest by (auto simp: success_simps fetch_app_ctx_def find_service_def Let_def)
  have "ux_app_user_id r = au_id u" using r by (auto simp: sign_in_def Let_def success_simps auth_response_def)
  moreover have "c \<in> set ?T" "refresh_live b (sha256_hex (ext w) tok) (clock w) c" "u \<in> set ?U" "au_id u = ar_app_user_id c" "au_baas_id u = b"
    using firstWhere_Some [OF c] firstWhere_Some [OF u(1)] st by (simp_all add: steady_def ambient_def)
  ultimately show ?thesis using u(2) by force
qed

lemma keeps_drop_tokens: "(\<And>d l. I d \<Longrightarrow> I (d\<lparr>app_refresh_tokens := l\<rparr>)) \<Longrightarrow> keeps (\<lambda>w. I (db w)) (drop_refresh_tokens i)"
  unfolding drop_refresh_tokens_def by (intro keeps_intros keeps_execute) simp

lemma yields_status:
  "yields (\<lambda>w. app_users (db w) = U) (update_app_user_status c b i s)
    (\<lambda>_ w. app_users (db w) = updateWhere (\<lambda>u. au_id u = i \<and> au_baas_id u = b) (\<lambda>u. u\<lparr>au_status := to_lowercase (trim s)\<rparr>) U)"
proof -
  let ?V = "updateWhere (\<lambda>u. au_id u = i \<and> au_baas_id u = b) (\<lambda>u. u\<lparr>au_status := to_lowercase (trim s)\<rparr>) U"
  have ws: "keeps (\<lambda>w. app_users (db w) = U) (ensure_app_in_ws b ws)" for ws
    unfolding ensure_app_in_ws_def by (intro keeps_intros)
  have edit: "yields (\<lambda>w. app_users (db w) = U) (edit_app_user b i (\<lambda>u. u\<lparr>au_status := to_lowercase (trim s)\<rparr>)) (\<lambda>_ w. app_users (db w) = ?V)"
    by (auto simp: yields_def edit_app_user_def query_success execute_success)
  have rest: "keeps (\<lambda>w. app_users (db w) = ?V) (onlyIf q (drop_refresh_tokens i))" for q
    by (intro keeps_intros keeps_drop_tokens [where I = "\<lambda>d. app_users d = ?V"]) simp
  show ?thesis
    unfolding update_app_user_status_def active_workspace_def Let_def
    by (rule yields_okOr, rule yields_after [OF ws], rule yields_rejectIf, rule yields_andThen [OF edit], rule yields_keeps [OF rest])
qed

lemma status_updated:
  "update_app_user_status c b i s w = (Inr x, w') \<Longrightarrow>
    app_users (db w') = updateWhere (\<lambda>u. au_id u = i \<and> au_baas_id u = b) (\<lambda>u. u\<lparr>au_status := to_lowercase (trim s)\<rparr>) (app_users (db w))"
  by (rule yieldsD [OF yields_status refl])

text \<open>
  C37. Once a suspension has been answered, neither a password nor a refresh token of that user signs him in - whatever
  tokens are left over, even when the deletion of his refresh tokens failed.
\<close>

theorem suspended_user_is_locked_out:
  assumes suspended: "update_app_user_status c b i s w = (Inr (), w')" "to_lowercase (trim s) = ''suspended''"
    and signed_in: "login_public_user hs b ident pw x w' = (Inr r, w'') \<or> refresh_app_token hs b tok w' = (Inr r, w'')"
  shows "ux_app_user_id r \<noteq> i"
proof -
  have "\<exists>u \<in> set (app_users (db w')). au_baas_id u = b \<and> au_status u = ''active'' \<and> ux_app_user_id r = au_id u"
    using signed_in
  proof
    assume "login_public_user hs b ident pw x w' = (Inr r, w'')"
    from login_authenticates [OF this] show ?thesis by auto
  next
    assume "refresh_app_token hs b tok w' = (Inr r, w'')"
    from end_user_refreshed [OF this] show ?thesis by auto
  qed
  moreover have "\<forall>u \<in> set (app_users (db w')). au_id u = i \<and> au_baas_id u = b \<longrightarrow> au_status u = ''suspended''"
    unfolding status_updated [OF suspended(1)] suspended(2) set_updateWhere
    by (intro ballI impI) (erule imageE, simp split: if_splits)
  ultimately show ?thesis by auto
qed

lemma ann_suspended: "\<exists>w'. update_app_user_status sample_claims 5 2 ''suspended'' sso_world = (Inr (), w')
    \<and> (\<exists>r w''. login_public_user key_headers 5 ''ann'' ''password'' None sso_world = (Inr r, w''))"
proof -
  have "to_lowercase (trim ''suspended'') = ''suspended''"
    by (simp add: trim_def trim_matches_def is_whitespace_def to_lowercase_def char_lower_def is_upper_def code_def)
  then have "\<exists>w'. update_app_user_status sample_claims 5 2 ''suspended'' sso_world = (Inr (), w')"
    by (simp add: update_app_user_status_def active_workspace_def sample_claims_def ensure_app_in_ws_def edit_app_user_def
      drop_refresh_tokens_def run_simps sso_defs existsWhere_def Let_def)
  with ann_signs_in show ?thesis by blast
qed

theorem suspended_user_is_locked_out_witness:
  "\<exists>w'. update_app_user_status sample_claims 5 2 ''suspended'' sso_world = (Inr (), w')
    \<and> \<not> (\<exists>r w''. login_public_user key_headers 5 ''ann'' ''password'' None w' = (Inr r, w'') \<and> ux_app_user_id r = 2)"
proof -
  obtain w' where w': "update_app_user_status sample_claims 5 2 ''suspended'' sso_world = (Inr (), w')" using ann_suspended by blast
  have s: "to_lowercase (trim ''suspended'') = ''suspended''"
    by (simp add: trim_def trim_matches_def is_whitespace_def to_lowercase_def char_lower_def is_upper_def code_def)
  have "ux_app_user_id r \<noteq> 2" if "login_public_user key_headers 5 ''ann'' ''password'' None w' = (Inr r, w'')" for r w''
    using suspended_user_is_locked_out [OF w' s, of key_headers "''ann''" "''password''" None r w''] that by simp
  with w' show ?thesis by blast
qed

section \<open>Tenants\<close>

text \<open>
  The refresh tokens a status change or a password reset deletes are those of the user's identifier, whatever service he is
  of: the administrator of one service signs out a user of another - of another workspace too - whose account he cannot edit.
\<close>

theorem foreign_user_is_signed_out:
  assumes faults: "faults w = []" and reset: "reset_app_user_password c b i pw w = (Inr (), w')"
    and foreign: "\<forall>u \<in> set (app_users (db w)). au_id u = i \<longrightarrow> au_baas_id u \<noteq> b"
  shows "app_users (db w') = app_users (db w)
    \<and> app_refresh_tokens (db w') = deleteWhere (\<lambda>t. ar_app_user_id t = i) (app_refresh_tokens (db w))"
proof -
  have same: "updateWhere (\<lambda>u. au_id u = i \<and> au_baas_id u = b) f (app_users (db w)) = app_users (db w)" for f
    using foreign by (intro updateWhere_none) auto
  obtain ws h w1 where "hash_password pw w = (Inr h, w1)" "db w1 = db w" "faults w1 = []"
    and rest: "andThen (edit_app_user b i (\<lambda>u. u\<lparr>au_password_hash := h\<rparr>)) (\<lambda>_. drop_refresh_tokens i) w1 = (Inr (), w')"
    using reset faults
    by (auto simp: reset_app_user_password_def active_workspace_def ensure_app_in_ws_def success_simps hash_password_def
      random_string_def split: option.splits)
  then show ?thesis
    by (auto simp: edit_app_user_def drop_refresh_tokens_def step_simps same)
qed

theorem foreign_user_is_signed_out_witness:
  "\<exists>w'. reset_app_user_password sample_claims 5 66 ''password2'' (sso_world\<lparr>db := (db sso_world)\<lparr>app_refresh_tokens :=
      [\<lparr>ar_id = 1, ar_baas_id = 6, ar_app_user_id = 66, ar_token_hash = ''h'', ar_additional_claims = JNull, ar_expires_at = 0\<rparr>]\<rparr>\<rparr>) = (Inr (), w')
    \<and> app_users (db w') = [ann] \<and> app_refresh_tokens (db w') = []"
proof -
  let ?w = "sso_world\<lparr>db := (db sso_world)\<lparr>app_refresh_tokens :=
      [\<lparr>ar_id = 1, ar_baas_id = 6, ar_app_user_id = 66, ar_token_hash = ''h'', ar_additional_claims = JNull, ar_expires_at = 0\<rparr>]\<rparr>\<rparr>"
  obtain w' where w': "reset_app_user_password sample_claims 5 66 ''password2'' ?w = (Inr (), w')"
    by (simp add: reset_app_user_password_def active_workspace_def sample_claims_def ensure_app_in_ws_def edit_app_user_def
      drop_refresh_tokens_def hash_password_def plain_ext_def run_simps sso_defs existsWhere_def Let_def)
  have "faults ?w = []" "\<forall>u \<in> set (app_users (db ?w)). au_id u = 66 \<longrightarrow> au_baas_id u \<noteq> 5"
    by (simp_all add: sso_defs)
  from foreign_user_is_signed_out [OF this(1) w' this(2)] w' show ?thesis
    by (simp add: sso_defs deleteWhere_def)
qed

section \<open>The secret of a service\<close>

text \<open>What a published variable does to the pool.\<close>

definition published_pool :: "uuid \<Rightarrow> uuid \<Rightarrow> uuid \<Rightarrow> uuid \<Rightarrow> string \<Rightarrow> string \<Rightarrow> string \<Rightarrow> bool \<Rightarrow> project_env_variable list \<Rightarrow>
    project_env_variable list" where
  "published_pool i ws p b key enc nonce secret t = upsertRow (same_pool_key (baas_var i ws p b key enc nonce secret))
     (baas_var i ws p b key enc nonce secret) (set_baas_var b enc nonce secret) t"

lemma put_success:
  assumes "put_project_env row f w = (Inr u, w')"
  shows "ext w' = ext w \<and> clock w' = clock w \<and> faults w' = tl (faults w)
    \<and> db w' = (db w)\<lparr>project_env_variables := upsertRow (same_pool_key row) row f (project_env_variables (db w))\<rparr>"
  using assms by (auto simp: put_project_env_def sql_success split: if_splits)

lemma publish_baas_var_success:
  assumes "publish_baas_var ws p b key s secret w = (Inr u, w')"
  shows "\<exists>enc nonce i. seal (ext w) s nonce = Some enc \<and> ext w' = ext w \<and> clock w' = clock w \<and> (faults w = [] \<longrightarrow> faults w' = [])
    \<and> db w' = (db w)\<lparr>project_env_variables := published_pool i ws p b key enc nonce secret (project_env_variables (db w))\<rparr>"
proof -
  obtain enc nonce w1 i w2 x where e: "encrypt_env_value s w = (Inr (enc, nonce), w1)"
    and n: "(new_v4 :: uuid handler) w1 = (Inr i, w2)"
    and p: "put_project_env (baas_var i ws p b key enc nonce secret) (set_baas_var b enc nonce secret) w2 = (Inr x, w')"
    using assms unfolding publish_baas_var_def by (auto simp: andThen_success query_success ret_success)
  have w1: "seal (ext w) s nonce = Some enc" "ext w1 = ext w" "clock w1 = clock w" "faults w1 = faults w" "db w1 = db w"
    using e by (auto simp: encrypt_env_value_def random_string_def success_simps split: option.splits)
  moreover have "ext w2 = ext w1" "clock w2 = clock w1" "faults w2 = faults w1" "db w2 = db w1"
    using n by (auto simp: new_v4_success)
  ultimately show ?thesis using put_success [OF p] unfolding published_pool_def by auto
qed

lemma upsert_cases:
  assumes "r \<in> set (upsertRow q row f t)"
  shows "r = row \<and> \<not> existsWhere q t \<or> r \<in> set t \<and> \<not> q r \<or> (\<exists>x \<in> set t. q x \<and> r = f x)"
  using assms by (auto simp: upsertRow_def set_updateWhere set_insertRow existsWhere_iff split: if_splits)

lemma published_cases:
  assumes "r \<in> set (published_pool i ws p b key enc nonce secret t)"
  shows "pv_project_id r = p \<and> pv_key r = key \<and> pv_source_id r = Some b \<and> pv_encrypted_value r = enc \<and> pv_nonce r = nonce
    \<or> r \<in> set t \<and> \<not> (pv_project_id r = p \<and> pv_key r = key)"
  using upsert_cases [OF assms [unfolded published_pool_def]]
  by (auto simp: baas_var_def set_baas_var_def same_pool_key_def)

lemma publish_takes_secret:
  assumes put: "publish_baas_var ws p b key s True w = (Inr u, w')" and other: "a \<noteq> b"
    and at: "\<forall>r \<in> set (project_env_variables (db w)). holds_secret a r \<longrightarrow> pv_project_id r = p \<and> pv_key r = key"
  shows "\<forall>r \<in> set (project_env_variables (db w')). \<not> holds_secret a r"
proof -
  obtain i enc nonce where "project_env_variables (db w') = published_pool i ws p b key enc nonce True (project_env_variables (db w))"
    using publish_baas_var_success [OF put] by auto
  with at other show ?thesis by (auto simp: holds_secret_def dest!: published_cases)
qed

lemma publish_keeps_place:
  assumes put: "publish_baas_var ws p b key s True w = (Inr u, w')"
    and at: "\<forall>r \<in> set (project_env_variables (db w)). holds_secret b r \<longrightarrow> pv_project_id r = p \<and> pv_key r = key"
  shows "\<forall>r \<in> set (project_env_variables (db w')). holds_secret b r \<longrightarrow> pv_project_id r = p \<and> pv_key r = key"
proof -
  obtain i enc nonce where "project_env_variables (db w') = published_pool i ws p b key enc nonce True (project_env_variables (db w))"
    using publish_baas_var_success [OF put] by auto
  with at show ?thesis by (auto dest!: published_cases)
qed

lemma rand_u32_success: "rand_u32 w = (Inr r, w') \<Longrightarrow> db w' = db w \<and> ext w' = ext w \<and> clock w' = clock w \<and> faults w' = faults w"
  by (auto simp: rand_u32_def)

lemma random_chars_world: "random_chars n w = (Inr s, w') \<Longrightarrow> db w' = db w \<and> ext w' = ext w \<and> clock w' = clock w \<and> faults w' = faults w"
proof (induction n arbitrary: s w)
  case (Suc n)
  then obtain r w1 s1 where "rand_u32 w = (Inr r, w1)" "random_chars n w1 = (Inr s1, w')"
    by (auto simp: andThen_success ret_success)
  with Suc.IH show ?case using rand_u32_success by metis
qed (simp add: ret_success)

lemma rotate_publishes:
  assumes "rotate_secret b ws p w = (Inr s, w')"
  shows "\<exists>w1. publish_baas_var ws p b (default_to AUTH_SECRET_ENV_KEY
      (map_option pv_key (firstWhere (holds_secret b) (project_env_variables (db w))))) s True w1 = (Inr (), w')
    \<and> db w1 = db w \<and> ext w1 = ext w \<and> clock w1 = clock w \<and> (faults w = [] \<longrightarrow> faults w1 = [])"
proof -
  obtain s1 w0 where "random_chars 48 w = (Inr s1, w0)" and rest: "publish_baas_var ws p b (default_to AUTH_SECRET_ENV_KEY
      (map_option pv_key (firstWhere (holds_secret b) (project_env_variables (db w0))))) s True (w0\<lparr>faults := tl (faults w0)\<rparr>) = (Inr (), w')"
    using assms by (auto simp: rotate_secret_def generate_secret_def success_simps)
  with random_chars_world [of 48 w s1 w0] show ?thesis by (intro exI [of _ "w0\<lparr>faults := tl (faults w0)\<rparr>"]) auto
qed



text \<open>The check of an API key stamps it and changes nothing else.\<close>

lemma let_through:
  assumes "require_api_key hs b w = (Inr u, w')" "faults w = []"
  shows "ext w' = ext w \<and> clock w' = clock w \<and> faults w' = [] \<and> project_env_variables (db w') = project_env_variables (db w)"
proof -
  let ?I = "\<lambda>d. project_env_variables d = project_env_variables (db w)"
  have "keeps (calm (setting w) ?I) (require_api_key hs b)"
    unfolding require_api_key_def validate_baas_api_key_def key_row_def verify_password_def stamp_key_def now_def
    by (intro keeps_intros calm_intros calm_execute) (simp add: calm_def)
  from keeps_step [OF this _ assms(1)] assms(2) show ?thesis by (simp add: calm_def setting_def)
qed

text \<open>After a successful use the secret is the one in the pool.\<close>

lemma secret_is_stored:
  assumes got: "get_or_create_secret b ws p w = (Inr s, w')" and faults: "faults w = []"
    and cipher: "\<forall>x n e. seal (ext w) x n = Some e \<longrightarrow> unseal (ext w) e n = Some x"
  shows "ext w' = ext w \<and> clock w' = clock w \<and> faults w' = []
    \<and> (\<exists>r. firstWhere (holds_secret b) (project_env_variables (db w')) = Some r
        \<and> unseal (ext w) (pv_encrypted_value r) (pv_nonce r) = Some s)"
proof (cases "firstWhere (holds_secret b) (project_env_variables (db w))")
  case (Some r)
  with got faults show ?thesis
    by (auto simp: get_or_create_secret_def decrypt_env_value_def step_simps success_simps split: option.splits)
next
  case None
  then have "rotate_secret b ws p w = (Inr s, w')" using got faults by (simp add: get_or_create_secret_def step_simps)
  then obtain w1 where w1: "publish_baas_var ws p b AUTH_SECRET_ENV_KEY s True w1 = (Inr (), w')" "db w1 = db w" "ext w1 = ext w"
      "clock w1 = clock w" "faults w1 = []"
    using rotate_publishes [of b ws p w s w'] faults None by (auto simp: default_to_def)
  obtain enc nonce i where e: "seal (ext w) s nonce = Some enc" "ext w' = ext w" "clock w' = clock w" "faults w' = []"
    and t: "project_env_variables (db w') = published_pool i ws p b AUTH_SECRET_ENV_KEY enc nonce True (project_env_variables (db w))"
    using publish_baas_var_success [OF w1(1)] w1 by auto
  let ?row = "baas_var i ws p b AUTH_SECRET_ENV_KEY enc nonce True" and ?t = "project_env_variables (db w)"
  have holders: "pv_encrypted_value r = enc \<and> pv_nonce r = nonce" if "r \<in> set (project_env_variables (db w'))" "holds_secret b r" for r
    using published_cases [OF that(1) [unfolded t]] that(2) None by (auto simp: firstWhere_None)
  have "\<exists>r \<in> set (published_pool i ws p b AUTH_SECRET_ENV_KEY enc nonce True ?t). holds_secret b r"
  proof (cases "existsWhere (same_pool_key ?row) ?t")
    case True
    then obtain x where "x \<in> set ?t" "same_pool_key ?row x" by (auto simp: existsWhere_iff)
    then have "set_baas_var b enc nonce True x \<in> set (updateWhere (same_pool_key ?row) (set_baas_var b enc nonce True) ?t)"
      unfolding set_updateWhere by (intro image_eqI [of _ _ x]) simp_all
    then have "set_baas_var b enc nonce True x \<in> set (published_pool i ws p b AUTH_SECRET_ENV_KEY enc nonce True ?t)"
      using True by (simp add: published_pool_def upsertRow_def)
    then show ?thesis by (rule bexI [rotated]) (simp add: holds_secret_def set_baas_var_def)
  next
    case False
    then show ?thesis by (simp add: published_pool_def upsertRow_def set_insertRow holds_secret_def baas_var_def)
  qed
  then obtain r where r: "firstWhere (holds_secret b) (project_env_variables (db w')) = Some r"
    unfolding t [symmetric] using firstWhere_None by (metis not_Some_eq)
  with holders [of r] firstWhere_Some [OF r] e cipher show ?thesis by auto
qed


text \<open>The token sign-in issues to the sample user, and a signature that knows that token only.\<close>

definition ann_claims :: app_user_claims where
  "ann_claims = \<lparr>ac_sub = 2, ac_baas_id = 5, ac_identifier = ''ann'', ac_roles = [''user''], ac_permissions = [''read''],
     ac_iat = 1000, ac_exp = 1900, ac_jti = 1000, ac_extra = []\<rparr>"

definition one_token :: externals where
  "one_token = plain_ext\<lparr>app_jwt_sign := (\<lambda>c s. if c = ann_claims \<and> s = ''sign'' then Some ''token'' else None),
     app_jwt_decode := (\<lambda>t s tok. if t < seconds 1900 \<and> s = ''sign'' \<and> tok = ''token'' then Some ann_claims else None)\<rparr>"

lemma ann_gets_token:
  "\<exists>r w'. sign_in shop_service ann (ret []) (sso_world\<lparr>ext := one_token\<rparr>) = (Inr r, w') \<and> ext w' = one_token \<and> faults w' = []
    \<and> clock w' = seconds 1000 \<and> app_api_keys (db w') = [shop_key] \<and> baas_services (db w') = [shop_service] \<and> ux_roles r = [''user'']"
  by (simp add: sign_in_def fetch_roles_def roles_of_def get_or_create_secret_def decrypt_env_value_def issue_token_pair_def
    insert_app_refresh_def run_simps sql_ok insertRow_def sso_defs plain_ext_def firstWhere_def holds_secret_def selectWhere_def
    starts_with_def existsWhere_def Let_def one_token_def ann_claims_def permissions_for_roles_def add_role_def add_permission_def
    access_ttl_secs_def env_secs_def seconds_def auth_response_def default_to_def)


lemma unpublish_cases:
  assumes "unpublish_project_env src i w = (Inr l, w')"
  shows "db w' = db w \<or> db w' = delete_pool_vars (\<lambda>r. pv_source r = src \<and> pv_source_id r = Some i) (db w)"
  using assms by (auto simp: unpublish_project_env_def Let_def andThen_success orElse_def discard_def fetch_def execute_def sql_def ret_success
    split: prod.splits sum.splits if_splits list.splits option.splits)


lemma sample_service_deleted:
  "\<exists>w'. delete_baas_service sample_claims 5 (sso_world\<lparr>db := (db sso_world)\<lparr>project_env_variables :=
      [shop_secret\<lparr>pv_source := ''baas'', pv_source_id := Some 9\<rparr>]\<rparr>\<rparr>) = (Inr (), w')"
  by (simp add: delete_baas_service_def active_workspace_def sample_claims_def unpublish_project_env_def run_simps sso_defs existsWhere_def
    Let_def instances_linking_def selectWhere_def)


end
