(* ===== verification/Volumes.thy ===== *)
theory Volumes
  imports Env_Pool
begin

text \<open>
  \<open>controllers/volume_controller.rs\<close>: the files of the persistent volumes. A path in a request is resolved below the
  directory of the volume, then the disk of the host is read or changed there.
\<close>

record project_volume_response =
  pl_id :: uuid
  pl_app_id :: uuid
  pl_app_name :: string
  pl_name :: string
  pl_container_path :: string
  pl_host_path :: string
  pl_is_auto :: bool

definition volume_rows :: "uuid \<Rightarrow> uuid \<Rightarrow> database \<Rightarrow> (app_volume \<times> app) list" where
  "volume_rows project_id ws_id d =
     sort_key (\<lambda>(v, a). a_name a) (sort_key (\<lambda>(v, a). vo_name v)
       (concat (map (\<lambda>v. map (Pair v) (selectWhere (\<lambda>a. a_id a = vo_app_id v \<and> a_project_id a = project_id \<and> a_workspace_id a = ws_id)
          (apps d))) (app_volumes d))))"

definition list_project_volumes :: "claims \<Rightarrow> uuid \<Rightarrow> project_volume_response list handler" where
  "list_project_volumes claims project_id =
     andThen (active_workspace claims) (\<lambda>ws_id.
     andThen (query (fetch (\<lambda>w. volume_rows project_id ws_id (db w)))) (\<lambda>rows.
     ret (map (\<lambda>(v, a). \<lparr>pl_id = vo_id v, pl_app_id = vo_app_id v, pl_app_name = a_name a, pl_name = vo_name v,
       pl_container_path = vo_container_path v, pl_host_path = vo_host_path v, pl_is_auto = starts_with ''auto-'' (vo_name v)\<rparr>) rows)))"

section \<open>Paths below the volume\<close>

definition outside_error :: app_error where
  "outside_error = Validation ''Unauthorized access outside the base directory.''"

definition resolve_part :: "path \<Rightarrow> path_part \<Rightarrow> path \<Rightarrow> app_error + path" where
  "resolve_part base component resolved =
     (case component of
        Normal p \<Rightarrow> Inr (path_join resolved [Normal p])
      | ParentDir \<Rightarrow>
          (if path_starts_with base resolved \<and> resolved \<noteq> base then Inr (path_pop resolved) else Inl outside_error)
      | _ \<Rightarrow> Inr resolved)"

fun resolve_parts :: "path \<Rightarrow> path \<Rightarrow> path \<Rightarrow> app_error + path" where
  "resolve_parts base [] resolved = (if path_starts_with base resolved then Inr resolved else Inl outside_error)"
| "resolve_parts base (c # cs) resolved =
     (case resolve_part base c resolved of Inl e \<Rightarrow> Inl e | Inr r \<Rightarrow> resolve_parts base cs r)"

definition safe_resolve :: "path \<Rightarrow> string \<Rightarrow> app_error + path" where
  "safe_resolve base relative = resolve_parts base (components relative) base"

definition or_raise :: "'e + 'a \<Rightarrow> ('w, 'e, 'a) act" where
  "or_raise r = (case r of Inl e \<Rightarrow> raise e | Inr x \<Rightarrow> ret x)"

section \<open>The handlers\<close>

text \<open>The directory of a volume of the workspace.\<close>

definition volume_dir :: "uuid \<Rightarrow> uuid \<Rightarrow> path handler" where
  "volume_dir volume_id ws_id =
     andThen (query (fetch (\<lambda>w. firstWhere (\<lambda>v. vo_id v = volume_id \<and> vo_workspace_id v = ws_id) (app_volumes (db w))))) (\<lambda>row.
     andThen (okOr (NotFound ''Persistent volume not found.'') row) (\<lambda>v.
     ret (components (vo_host_path v))))"

definition path_kind :: "path \<Rightarrow> bool option handler" where
  "path_kind p = andThen (ask (PathKind p)) (\<lambda>a. ret (case a of KindOf k \<Rightarrow> k | _ \<Rightarrow> None))"

text \<open>A change of the disk whose failure is a fatal error with this prefix.\<close>

definition on_disk :: "string \<Rightarrow> host_call \<Rightarrow> unit handler" where
  "on_disk msg c = andThen (ask c) (\<lambda>a. case a of HostFailed e \<Rightarrow> raise (Fatal (FromText (msg @ e))) | _ \<Rightarrow> ret ())"

record file_item =
  fi_name :: string
  fi_is_dir :: bool
  fi_size_bytes :: int
  fi_modified_time :: int

primrec read_entries :: "path \<Rightarrow> string list \<Rightarrow> file_item list handler" where
  "read_entries dir [] = ret []"
| "read_entries dir (n # ns) =
     andThen (ask (Metadata (dir @ [Normal n]))) (\<lambda>a.
     case a of
       MetadataOf is_dir len modified \<Rightarrow>
         andThen (read_entries dir ns) (\<lambda>items.
         ret (\<lparr>fi_name = n, fi_is_dir = is_dir, fi_size_bytes = (if is_dir then 0 else len), fi_modified_time = modified\<rparr> # items))
     | HostFailed e \<Rightarrow> raise (Fatal (FromText (''Error reading metadata: '' @ e)))
     | _ \<Rightarrow> raise (Fatal (FromText ''Error reading metadata: '')))"

definition sorted_items :: "file_item list \<Rightarrow> file_item list" where
  "sorted_items items = sort_key (\<lambda>i. if fi_is_dir i then 0 else 1 :: nat) (sort_key (\<lambda>i. to_lowercase (fi_name i)) items)"

definition list_volume_files :: "claims \<Rightarrow> uuid \<Rightarrow> string option \<Rightarrow> file_item list handler" where
  "list_volume_files claims volume_id path =
     andThen (active_workspace claims) (\<lambda>ws_id.
     andThen (volume_dir volume_id ws_id) (\<lambda>base_path.
     andThen (or_raise (safe_resolve base_path (default_to [] path))) (\<lambda>target_path.
     andThen (path_kind target_path) (\<lambda>kind.
     if kind = None then ret []
     else
       andThen (ask (ReadDir target_path)) (\<lambda>a.
       case a of
         Entries names \<Rightarrow> andThen (read_entries target_path names) (\<lambda>items. ret (sorted_items items))
       | HostFailed e \<Rightarrow> raise (Fatal (FromText (''Error reading the directory: '' @ e)))
       | _ \<Rightarrow> ret [])))))"

definition download_volume_file :: "claims \<Rightarrow> uuid \<Rightarrow> string \<Rightarrow> (string \<times> path) handler" where
  "download_volume_file claims volume_id path =
     andThen (active_workspace claims) (\<lambda>ws_id.
     andThen (volume_dir volume_id ws_id) (\<lambda>base_path.
     andThen (or_raise (safe_resolve base_path path)) (\<lambda>target_file.
     andThen (path_kind target_file) (\<lambda>kind.
     andThen (rejectIf (kind \<noteq> Some False) (NotFound ''The specified file does not exist.'')) (\<lambda>_.
     andThen (on_disk ''Could not open the file: '' (OpenFile target_file)) (\<lambda>_.
     andThen (rejectIf (\<exists>c \<in> set (default_to ''download'' (file_name target_file)). code c < 32 \<and> code c \<noteq> 9 \<or> code c = 127)
       (Fatal (FromText ''Error processing the header: failed to parse header value''))) (\<lambda>_.
     ret (default_to ''download'' (file_name target_file), target_file))))))))"

text \<open>The fields of a multipart body: the file name it gives and its bytes, or the failure that ends it.\<close>

type_synonym multipart = "(string + string option \<times> (string + string)) list"

definition multipart_error :: "string \<Rightarrow> string \<Rightarrow> 'a handler" where
  "multipart_error msg e = raise (Fatal (FromText (msg @ e)))"

definition save_field :: "path \<Rightarrow> path \<Rightarrow> string option \<times> (string + string) \<Rightarrow> unit handler" where
  "save_field base_path target_dir field =
     andThen (okOr (Validation ''Invalid file name.'') (file_name (components (default_to ''unnamed_file'' (fst field))))) (\<lambda>clean_name.
     let filepath = path_join target_dir (components clean_name) in
     andThen (rejectIf (\<not> path_starts_with base_path filepath) (Validation ''Path transversal blocked.'')) (\<lambda>_.
     case snd field of
       Inl e \<Rightarrow> multipart_error ''Multipart bytes reading error: '' e
     | Inr data \<Rightarrow> on_disk ''Error saving the file on the host: '' (WriteFile filepath data)))"

definition upload_volume_file :: "claims \<Rightarrow> uuid \<Rightarrow> string option \<Rightarrow> multipart \<Rightarrow> unit handler" where
  "upload_volume_file claims volume_id path parts =
     andThen (active_workspace claims) (\<lambda>ws_id.
     andThen (volume_dir volume_id ws_id) (\<lambda>base_path.
     andThen (or_raise (safe_resolve base_path (default_to [] path))) (\<lambda>target_dir.
     andThen (on_disk ''Error creating the destination directory: '' (CreateDirs target_dir)) (\<lambda>_.
     forEach parts (\<lambda>f. case f of
         Inl e \<Rightarrow> multipart_error ''Multipart reading error: '' e
       | Inr field \<Rightarrow> save_field base_path target_dir field)))))"

definition delete_volume_file :: "claims \<Rightarrow> uuid \<Rightarrow> string \<Rightarrow> unit handler" where
  "delete_volume_file claims volume_id path =
     andThen (active_workspace claims) (\<lambda>ws_id.
     andThen (volume_dir volume_id ws_id) (\<lambda>base_path.
     andThen (rejectIf (trim path = [] \<or> path = ''/'' \<or> path = ''.'')
       (Validation ''You cannot delete the volume's root directory.'')) (\<lambda>_.
     andThen (or_raise (safe_resolve base_path path)) (\<lambda>target_path.
     andThen (path_kind target_path) (\<lambda>kind.
     case kind of
       None \<Rightarrow> raise (NotFound ''The file or directory does not exist.'')
     | Some True \<Rightarrow> on_disk ''Error recursively deleting the folder: '' (RemoveTree target_path)
     | Some False \<Rightarrow> on_disk ''Error deleting the file: '' (RemoveFile target_path))))))"

definition create_volume_directory :: "claims \<Rightarrow> uuid \<Rightarrow> string option \<Rightarrow> string \<Rightarrow> unit handler" where
  "create_volume_directory claims volume_id path name =
     andThen (active_workspace claims) (\<lambda>ws_id.
     andThen (volume_dir volume_id ws_id) (\<lambda>base_path.
     andThen (or_raise (safe_resolve base_path (default_to [] path))) (\<lambda>target_dir.
     andThen (okOr (Validation ''Invalid directory name.'') (file_name (components name))) (\<lambda>clean_name.
     let new_dir_path = path_join target_dir (components clean_name) in
     andThen (rejectIf (\<not> path_starts_with base_path new_dir_path) (Validation ''Path transversal blocked.'')) (\<lambda>_.
     on_disk ''Error creating the directory: '' (CreateDirs new_dir_path))))))"

end
