(* ===== verification/Volumes_Laws.thy ===== *)
theory Volumes_Laws
  imports Volumes Env_Laws
begin

text \<open>
  What \<open>controllers/volume_controller.rs\<close> guarantees of the disk: which paths of a request are accepted and where they
  lead, that no handler leaves the directory of the volume, and that the guard of the volume's root can be evaded.
\<close>

section \<open>The resolution of a path\<close>

text \<open>The names below the base, read off the request alone: \<open>..\<close> takes the last one back.\<close>

fun climb :: "string list \<Rightarrow> path \<Rightarrow> string list option" where
  "climb names [] = Some names"
| "climb names (Normal s # cs) = climb (names @ [s]) cs"
| "climb names (ParentDir # cs) = (if names = [] then None else climb (butlast names) cs)"
| "climb names (c # cs) = climb names cs"

lemma plain_names: "list_all plain_part (map Normal names)"
  by (simp add: list_all_iff)

lemma path_join_Normal [simp]: "path_join p [Normal s] = p @ [Normal s]"
  by (simp add: path_join_def)

lemma starts_with_below [simp]: "path_starts_with base (base @ q)"
  by (simp add: path_starts_with_def)

lemma path_pop_below: "path_pop (base @ map Normal names) = base @ map Normal (butlast names)" if "names \<noteq> []"
  using that by (cases names rule: rev_cases) (simp_all add: path_pop_def path_parent_def butlast_append)

lemma resolve_parts_climb:
  "resolve_parts base cs (base @ map Normal names) =
     (case climb names cs of None \<Rightarrow> Inl outside_error | Some ns \<Rightarrow> Inr (base @ map Normal ns))"
proof (induction cs arbitrary: names)
  case (Cons c cs)
  show ?case
  proof (cases c)
    case (Normal s)
    with Cons [of "names @ [s]"] show ?thesis by (simp add: resolve_part_def)
  next
    case ParentDir
    with Cons [of "butlast names"] show ?thesis by (simp add: resolve_part_def path_pop_below)
  qed (use Cons in \<open>simp_all add: resolve_part_def\<close>)
qed simp

text \<open>
  C32. The resolution of a path accepts exactly the paths whose every \<open>..\<close> takes back a name that came before it, and the
  result is the directory of the volume followed by the names that are left: it never has a \<open>..\<close>.
\<close>

theorem safe_resolve_exact:
  "safe_resolve base rel = (case climb [] (components rel) of
     None \<Rightarrow> Inl outside_error | Some names \<Rightarrow> Inr (base @ map Normal names))"
  using resolve_parts_climb [of base "components rel" "[]"] by (simp add: safe_resolve_def)

lemma climb_walk:
  "climb names cs = Some ns \<Longrightarrow> base \<noteq> [] \<Longrightarrow>
    fold walk_part (filter (\<lambda>c. c \<noteq> RootDir) cs) (base @ map Normal names) = base @ map Normal ns"
proof (induction cs arbitrary: names)
  case (Cons c cs)
  show ?case
  proof (cases c)
    case ParentDir
    with Cons.prems obtain s ms where "names = ms @ [s]" by (cases names rule: rev_cases) auto
    with Cons ParentDir show ?thesis by (simp add: walk_part_def butlast_append)
  next
    case (Normal s)
    with Cons.IH [of "names @ [s]"] Cons.prems show ?thesis by (simp add: walk_part_def)
  qed (use Cons in \<open>simp_all add: walk_part_def\<close>)
qed simp

text \<open>
  C33. Where no symbolic link is on the way, an accepted path names the place the operating system would reach by following the
  request below the directory of the volume, a leading slash ignored, and that place is inside the directory.
\<close>

theorem accepted_path_is_inside:
  assumes "safe_resolve (RootDir # base) rel = Inr p" "list_all plain_part base"
  shows "p = leads_to ((RootDir # base) @ filter (\<lambda>c. c \<noteq> RootDir) (components rel)) \<and> leads_to p = p
    \<and> path_starts_with (RootDir # base) p"
proof -
  from assms(1) obtain ns where ns: "climb [] (components rel) = Some ns" and p: "p = (RootDir # base) @ map Normal ns"
    by (auto simp: safe_resolve_exact split: option.splits)
  have "leads_to p = p"
    using leads_to_plain [of "base @ map Normal ns"] assms(2) plain_names by (simp add: p)
  moreover have "leads_to ((RootDir # base) @ filter (\<lambda>c. c \<noteq> RootDir) (components rel)) = p"
    using climb_walk [OF ns, of "RootDir # base"] leads_to_plain [OF assms(2)] unfolding p leads_to_append by simp
  ultimately show ?thesis by (simp only: p starts_with_below simp_thms)
qed

theorem accepted_path_is_inside_witness:
  "leads_to (components ''/var/lib/v/a/../b/./c'') = components ''/var/lib/v/b/c''"
proof -
  have r: "safe_resolve (components ''/var/lib/v'') ''/a/../b/./c'' = Inr (components ''/var/lib/v/b/c'')" by code_simp
  have v: "components ''/var/lib/v'' = RootDir # [Normal ''var'', Normal ''lib'', Normal ''v'']" by code_simp
  have c: "components ''/var/lib/v/a/../b/./c'' = (RootDir # [Normal ''var'', Normal ''lib'', Normal ''v'']) @
      filter (\<lambda>c. c \<noteq> RootDir) (components ''/a/../b/./c'')" by code_simp
  show ?thesis
    using accepted_path_is_inside [OF r [unfolded v]] by (simp add: c list_all_iff)
qed


section \<open>What the handlers touch\<close>

definition touched :: "host_call \<Rightarrow> path option" where
  "touched c = (case c of PathKind p \<Rightarrow> Some p | ReadDir p \<Rightarrow> Some p | Metadata p \<Rightarrow> Some p | ReadFile p \<Rightarrow> Some p
     | OpenFile p \<Rightarrow> Some p | CreateDirs p \<Rightarrow> Some p | WriteFile p _ \<Rightarrow> Some p | AppendFile p _ \<Rightarrow> Some p
     | RemoveFile p \<Rightarrow> Some p | RemoveTree p \<Rightarrow> Some p | _ \<Rightarrow> None)"

definition below :: "path \<Rightarrow> path \<Rightarrow> bool" where
  "below base p \<longleftrightarrow> (\<exists>q. p = base @ q \<and> list_all plain_part q)"

text \<open>Since the calls \<open>old\<close>, the disk was asked for places below the directory of the volume only.\<close>

definition confined :: "claims \<Rightarrow> uuid \<Rightarrow> app_volume list \<Rightarrow> host_call list \<Rightarrow> world \<Rightarrow> bool" where
  "confined claims i vs old w \<longleftrightarrow> app_volumes (db w) = vs
     \<and> (\<exists>new. host_calls w = old @ new \<and> (\<forall>c \<in> set new. \<exists>v \<in> set vs. \<exists>p.
          vo_id v = i \<and> c_current_workspace_id claims = Some (vo_workspace_id v)
          \<and> touched c = Some p \<and> below (components (vo_host_path v)) p))"

definition volume_base :: "claims \<Rightarrow> uuid \<Rightarrow> app_volume list \<Rightarrow> path \<Rightarrow> bool" where
  "volume_base claims i vs base \<longleftrightarrow>
     (\<exists>v \<in> set vs. vo_id v = i \<and> c_current_workspace_id claims = Some (vo_workspace_id v) \<and> base = components (vo_host_path v))"

named_theorems confined_intros \<open>an action touches the directory of the volume only\<close>

lemma confined_ask [confined_intros]:
  assumes "volume_base claims i vs base" "touched c = Some p" "below base p"
  shows "keeps (confined claims i vs old) (ask c)"
proof (rule keepsI)
  fix w assume "confined claims i vs old w"
  then obtain new where "host_calls w = old @ new" and new: "\<forall>c \<in> set new. \<exists>v \<in> set vs. \<exists>p.
      vo_id v = i \<and> c_current_workspace_id claims = Some (vo_workspace_id v) \<and> touched c = Some p \<and> below (components (vo_host_path v)) p"
    and "app_volumes (db w) = vs" by (auto simp: confined_def)
  then show "confined claims i vs old (snd (ask c w))"
    using assms by (auto simp: confined_def ask_def volume_base_def intro!: exI [of _ "new @ [c]"])
qed

lemma confined_on_disk [confined_intros]:
  "\<lbrakk>volume_base claims i vs base; touched c = Some p; below base p\<rbrakk> \<Longrightarrow> keeps (confined claims i vs old) (on_disk msg c)"
  unfolding on_disk_def
  by (intro keeps_andThen confined_ask; (assumption | simp split: host_answer.split add: keeps_ret keeps_raise))

lemma confined_path_kind [confined_intros]:
  "\<lbrakk>volume_base claims i vs base; below base p\<rbrakk> \<Longrightarrow> keeps (confined claims i vs old) (path_kind p)"
  unfolding path_kind_def
  by (intro keeps_andThen keeps_ret confined_ask [where p = p and base = base]) (simp_all add: touched_def)

lemma confined_active [confined_intros]: "keeps (confined claims i vs old) (active_workspace c)"
  unfolding active_workspace_def by (rule keeps_okOr)

lemma confined_or_raise [confined_intros]: "keeps (confined claims i vs old) (or_raise r)"
  by (simp add: or_raise_def keeps_raise keeps_ret split: sum.split)

lemma confined_volume_dir: "keeps (confined claims i vs old) (volume_dir j ws)"
proof -
  have "keeps (confined claims i vs old) (fetch (g :: world \<Rightarrow> app_volume option))" for g
    by (simp add: keeps_def confined_def fetch_def sql_def Let_def)
  then show ?thesis unfolding volume_dir_def by (intro keeps_intros)
qed

lemma volume_dir_base:
  assumes "confined claims i vs old w" "volume_dir i ws w = (Inr base, w')" "c_current_workspace_id claims = Some ws"
  shows "volume_base claims i vs base"
  using assms firstWhere_Some
  by (fastforce simp: volume_dir_def success_simps confined_def volume_base_def)

lemma or_raise_success: "or_raise r w = (Inr x, w') \<longleftrightarrow> r = Inr x \<and> w' = w"
  by (auto simp: or_raise_def ret_def raise_def split: sum.splits)

lemma safe_resolve_below: "safe_resolve base rel = Inr p \<Longrightarrow> below base p"
  using plain_names by (auto simp: safe_resolve_exact below_def split: option.splits)

text \<open>A handler of a volume: the workspace of the caller, the directory of the volume, the rest.\<close>

lemma confined_handler:
  assumes "\<And>base. volume_base claims i vs base \<Longrightarrow> keeps (confined claims i vs old) (rest base)"
  shows "keeps (confined claims i vs old) (andThen (active_workspace claims) (\<lambda>ws. andThen (volume_dir i ws) rest))"
proof (rule keeps_andThen_post [OF confined_active])
  show "active_workspace claims w = (Inr ws, w') \<Longrightarrow> c_current_workspace_id claims = Some ws" for ws and w w' :: world
    by (simp add: active_workspace_def okOr_success)
  fix ws assume ws: "c_current_workspace_id claims = Some ws"
  show "keeps (confined claims i vs old) (andThen (volume_dir i ws) rest)"
    by (rule keeps_andThen_post [OF confined_volume_dir _ assms]) (rule volume_dir_base [OF _ _ ws])
qed

lemma confined_resolved:
  assumes "\<And>p. below base p \<Longrightarrow> keeps (confined claims i vs old) (rest p)"
  shows "keeps (confined claims i vs old) (andThen (or_raise (safe_resolve base rel)) rest)"
  by (rule keeps_andThen_post [OF confined_or_raise _ assms]) (auto simp: or_raise_success safe_resolve_below)

text \<open>A file name has one component.\<close>

lemma split_on_free: "d \<notin> set s \<Longrightarrow> split_on d s = [s]"
  by (induction s) auto

lemma split_on_parts: "s \<in> set (split_on d t) \<Longrightarrow> d \<notin> set s"
proof (induction d t arbitrary: s rule: split_on.induct)
  case (2 d c t)
  then show ?case by (cases "split_on d t") (auto split: if_splits)
qed simp

lemma name_component:
  assumes "file_name (components t) = Some s"
  shows "components s = [Normal s]"
proof -
  from assms have "Normal s \<in> set (components t)"
    by (auto simp: file_name_def split: if_splits path_part.splits dest: last_in_set)
  then obtain u where "u \<in> set (split_on (CHR ''/'') t)" "Normal s \<in> set (path_part_of u)"
    by (auto simp: components_def Let_def split: if_splits)
  then have s: "CHR ''/'' \<notin> set s" "s \<noteq> []" "s \<noteq> ''.''" "s \<noteq> ''..''"
    using split_on_parts by (auto simp: path_part_of_def split: if_splits)
  moreover have "\<not> starts_with ''/'' s" using s by (cases s) (auto simp: starts_with_def)
  ultimately show ?thesis by (simp add: components_def Let_def split_on_free path_part_of_def)
qed

lemma below_child [simp]: "below base p \<Longrightarrow> below base (p @ [Normal s])"
  by (auto simp: below_def)

lemma confined_read_entries:
  "\<lbrakk>volume_base claims i vs base; below base dir\<rbrakk> \<Longrightarrow> keeps (confined claims i vs old) (read_entries dir ns)"
proof (induction ns)
  case (Cons n ns)
  then show ?case
    by (auto intro!: keeps_andThen keeps_ret keeps_raise confined_ask [where base = base] simp: touched_def split: host_answer.split)
qed (simp add: keeps_ret)

lemma confined_save_field:
  assumes "volume_base claims i vs base" "below base dir"
  shows "keeps (confined claims i vs old) (save_field base dir field)"
  unfolding save_field_def
proof (rule keeps_andThen_post [OF keeps_okOr])
  show "okOr e (file_name (components t)) w = (Inr s, w') \<Longrightarrow> components s = [Normal s]" for e t s and w w' :: world
    by (auto simp: okOr_success intro: name_component)
  fix s assume "components s = [Normal s]"
  then show "keeps (confined claims i vs old) (let filepath = path_join dir (components s) in
      andThen (rejectIf (\<not> path_starts_with base filepath) (Validation ''Path transversal blocked.'')) (\<lambda>_.
      case snd field of Inl e \<Rightarrow> multipart_error ''Multipart bytes reading error: '' e
      | Inr data \<Rightarrow> on_disk ''Error saving the file on the host: '' (WriteFile filepath data)))"
    using assms
    by (auto simp: multipart_error_def touched_def Let_def split: sum.split
      intro!: keeps_andThen keeps_rejectIf keeps_raise confined_on_disk [where base = base])
qed


lemma confined_list: "keeps (confined claims i vs old) (list_volume_files claims i path)"
  unfolding list_volume_files_def
  by (rule confined_handler, rule confined_resolved)
    (auto intro!: keeps_andThen keeps_ret keeps_raise confined_path_kind confined_ask confined_read_entries
      simp: touched_def split: host_answer.split)

lemma confined_download: "keeps (confined claims i vs old) (download_volume_file claims i rel)"
  unfolding download_volume_file_def
  by (rule confined_handler, rule confined_resolved)
    (auto intro!: keeps_andThen keeps_ret keeps_rejectIf confined_path_kind confined_on_disk simp: touched_def)

lemma confined_upload: "keeps (confined claims i vs old) (upload_volume_file claims i path parts)"
  unfolding upload_volume_file_def
  by (rule confined_handler, rule confined_resolved)
    (auto intro!: keeps_andThen keeps_forEach keeps_raise confined_on_disk confined_save_field
      simp: touched_def multipart_error_def split: sum.split)

lemma confined_delete: "keeps (confined claims i vs old) (delete_volume_file claims i rel)"
  unfolding delete_volume_file_def
  by (rule confined_handler, rule keeps_andThen [OF keeps_rejectIf], rule confined_resolved)
    (auto intro!: keeps_andThen keeps_raise confined_path_kind confined_on_disk simp: touched_def split: option.split bool.split)

lemma confined_create: "keeps (confined claims i vs old) (create_volume_directory claims i path name)"
  unfolding create_volume_directory_def
proof (rule confined_handler, rule confined_resolved)
  fix base p assume base: "volume_base claims i vs base" and p: "below base p"
  show "keeps (confined claims i vs old)
      (andThen (okOr (Validation ''Invalid directory name.'') (file_name (components name))) (\<lambda>clean_name.
       let new_dir_path = path_join p (components clean_name) in
       andThen (rejectIf (\<not> path_starts_with base new_dir_path) (Validation ''Path transversal blocked.''))
        (\<lambda>_. on_disk ''Error creating the directory: '' (CreateDirs new_dir_path))))"
  proof (rule keeps_andThen_post [OF keeps_okOr])
    show "okOr e (file_name (components name)) w = (Inr s, w') \<Longrightarrow> components s = [Normal s]" for e s and w w' :: world
      by (auto simp: okOr_success intro: name_component)
  qed (use base p in \<open>auto intro!: keeps_andThen keeps_rejectIf confined_on_disk simp: touched_def Let_def\<close>)
qed

text \<open>
  C31. Whatever path, file names and bytes a request sends and whatever the host answers, every place of the disk that a handler
  of the volumes looks at, writes or removes lies below the directory of the named volume of the caller's own workspace, by
  names alone.
\<close>

theorem volume_requests_stay_inside:
  assumes "m = discard (list_volume_files claims i path) \<or> m = discard (download_volume_file claims i rel)
      \<or> m = discard (upload_volume_file claims i path parts) \<or> m = discard (delete_volume_file claims i rel)
      \<or> m = discard (create_volume_directory claims i path name)"
    and run: "(m :: unit handler) w = (r, w')"
  shows "\<exists>new. host_calls w' = host_calls w @ new \<and> (\<forall>c \<in> set new. \<exists>v \<in> set (app_volumes (db w)). \<exists>p.
      vo_id v = i \<and> c_current_workspace_id claims = Some (vo_workspace_id v)
      \<and> touched c = Some p \<and> below (components (vo_host_path v)) p)"
proof -
  have "keeps (confined claims i (app_volumes (db w)) (host_calls w)) m"
    using assms(1) by (auto intro!: keeps_discard confined_list confined_download confined_upload confined_delete confined_create)
  from keeps_step [OF this _ run] show ?thesis by (simp add: confined_def)
qed

definition volume_world :: world where
  "volume_world = base_world\<lparr>
     db := empty_db\<lparr>app_volumes := [\<lparr>vo_id = 4, vo_workspace_id = 7, vo_app_id = 3, vo_name = ''data'',
       vo_host_path = ''/var/lib/v'', vo_container_path = ''/data''\<rparr>]\<rparr>,
     host_reply := (\<lambda>n. if n = 0 then KindOf (Some True) else HostDone)\<rparr>"

lemmas volume_world_defs = volume_world_def base_world_def empty_db_def firstWhere_def sample_claims_def

theorem volume_requests_stay_inside_witness:
  "\<exists>r w'. discard (delete_volume_file sample_claims 4 ''logs/../old'') volume_world = (r :: app_error + unit, w') \<and>
     list_all (\<lambda>c. \<exists>p. touched c = Some p \<and> below (components ''/var/lib/v'') p) (host_calls w')"
proof -
  obtain r w' where r: "discard (delete_volume_file sample_claims 4 ''logs/../old'') volume_world = (r :: app_error + unit, w')"
    by fastforce
  from volume_requests_stay_inside [where m = "discard (delete_volume_file sample_claims 4 ''logs/../old'')"
      and claims = sample_claims and i = 4 and rel = "''logs/../old''", OF _ r]
  obtain new where "host_calls w' = host_calls volume_world @ new"
    "\<forall>c \<in> set new. \<exists>v \<in> set (app_volumes (db volume_world)). \<exists>p. vo_id v = 4
        \<and> c_current_workspace_id sample_claims = Some (vo_workspace_id v) \<and> touched c = Some p \<and> below (components (vo_host_path v)) p"
    by blast
  then show ?thesis unfolding r by (auto simp: volume_world_defs list_all_iff)
qed

text \<open>
  The guard against deleting the root of a volume compares the text of the path: any other path whose names are all taken
  back, such as \<open>./\<close> or \<open>x/..\<close>, passes it and resolves to the root, and the whole directory of the volume is
  removed.
\<close>

theorem volume_root_is_deletable:
  assumes "faults w = []" "c_current_workspace_id claims = Some ws"
    and v: "firstWhere (\<lambda>v. vo_id v = i \<and> vo_workspace_id v = ws) (app_volumes (db w)) = Some v"
    and dir: "host_reply w (length (host_calls w)) = KindOf (Some True)" "host_reply w (Suc (length (host_calls w))) = HostDone"
    and rel: "climb [] (components rel) = Some []" "trim rel \<noteq> []" "rel \<noteq> ''/''" "rel \<noteq> ''.''"
  shows "delete_volume_file claims i rel w =
     (Inr (), w\<lparr>host_calls := host_calls w @ [PathKind (components (vo_host_path v)), RemoveTree (components (vo_host_path v))]\<rparr>)"
  using assms
  by (simp add: delete_volume_file_def active_workspace_def volume_dir_def path_kind_def on_disk_def or_raise_def
    safe_resolve_exact andThen_assoc step_simps)

theorem volume_root_is_deletable_witness:
  "\<forall>rel \<in> {''./'', ''x/..''}. fst (delete_volume_file sample_claims 4 rel volume_world) = Inr () \<and>
     RemoveTree (components ''/var/lib/v'') \<in> set (host_calls (snd (delete_volume_file sample_claims 4 rel volume_world)))"
proof
  fix rel assume rel: "rel \<in> {''./'', ''x/..''}"
  have c: "climb [] (components rel) = Some []" "trim rel \<noteq> []"
    using rel by (elim insertE emptyE; hypsubst; code_simp)+
  have "\<exists>v. firstWhere (\<lambda>v. vo_id v = 4 \<and> vo_workspace_id v = 7) (app_volumes (db volume_world)) = Some v \<and> vo_host_path v = ''/var/lib/v''"
    by (simp add: volume_world_defs)
  then obtain v where v: "firstWhere (\<lambda>v. vo_id v = 4 \<and> vo_workspace_id v = 7) (app_volumes (db volume_world)) = Some v"
    "vo_host_path v = ''/var/lib/v''" by blast
  show "fst (delete_volume_file sample_claims 4 rel volume_world) = Inr () \<and>
     RemoveTree (components ''/var/lib/v'') \<in> set (host_calls (snd (delete_volume_file sample_claims 4 rel volume_world)))"
    using volume_root_is_deletable [where w = volume_world and claims = sample_claims and ws = 7, OF _ _ v(1) _ _ c] rel v(2)
    by (auto simp: volume_world_def base_world_def sample_claims_def)
qed

end
