(* ===== verification/Garbage.thy ===== *)
theory Garbage
  imports Env_Pool
begin

text \<open>
  \<open>utils/gc.rs\<close>: the hourly pass that reclaims superseded builds with their images, the images nothing refers to, the
  build cache, the blobs of the registry, finished jobs and failed pods. Each phase returns what it counted and the lines it
  writes for the run. The text of a database error (\<open>shown\<close>) and the parser of timestamps (\<open>rfc3339\<close>) are arguments.
\<close>

section \<open>Configuration\<close>

definition APP_IMAGE_REPO :: string where
  "APP_IMAGE_REPO = ''hermes-app-image''"

definition BUILD_CACHE_REPO :: string where
  "BUILD_CACHE_REPO = ''hermes-build-cache''"

text \<open>A positive number of the environment, or the default.\<close>

definition env_positive :: "(int \<Rightarrow> bool) \<Rightarrow> string \<Rightarrow> int \<Rightarrow> (string \<Rightarrow> string option) \<Rightarrow> int" where
  "env_positive fits name d env =
     (case Option.bind (env name) (parse_int fits) of None \<Rightarrow> d | Some n \<Rightarrow> if 0 < n then n else d)"

definition build_retention :: "(string \<Rightarrow> string option) \<Rightarrow> int" where
  "build_retention = env_positive fits_i64 ''HERMES_BUILD_RETENTION'' 20"

definition job_retention_days :: "(string \<Rightarrow> string option) \<Rightarrow> int" where
  "job_retention_days = env_positive fits_i32 ''HERMES_JOB_RETENTION_DAYS'' 7"

definition cache_retention_days :: "(string \<Rightarrow> string option) \<Rightarrow> int" where
  "cache_retention_days = env_positive fits_i64 ''HERMES_CACHE_RETENTION_DAYS'' 3"

definition registry_api_base :: "(string \<Rightarrow> string option) \<Rightarrow> string" where
  "registry_api_base env =
     (let raw = (case env ''HERMES_REGISTRY_API_URL'' of Some u \<Rightarrow> u
        | None \<Rightarrow> default_to ''localhost:5000'' (env ''HERMES_REGISTRY_URL''));
          raw = trim_end_matches (\<lambda>c. c = CHR ''/'') (trim raw) in
      if starts_with ''http://'' raw \<or> starts_with ''https://'' raw then raw else ''http://'' @ raw)"

text \<open>The UTF-8 bytes of the dash in some lines of a run.\<close>

definition dash :: string where
  "dash = [CHR 0xE2, CHR 0x80, CHR 0x94]"

section \<open>The registry\<close>

definition manifest_url :: "string \<Rightarrow> string \<Rightarrow> string \<Rightarrow> string" where
  "manifest_url base repo reference = base @ ''/v2/'' @ repo @ ''/manifests/'' @ reference"

text \<open>A request answered with a success: the digest of its header and its document.\<close>

definition http_success :: "host_answer \<Rightarrow> (string option \<times> json option) option" where
  "http_success a = (case a of HttpReply True digest body \<Rightarrow> Some (digest, body) | _ \<Rightarrow> None)"

definition delete_registry_manifest :: "string \<Rightarrow> string \<Rightarrow> string \<Rightarrow> (world, 'e, bool) act" where
  "delete_registry_manifest base repo reference =
     andThen (ask (RegistryGet (manifest_url base repo reference))) (\<lambda>a.
     case Option.bind (http_success a) fst of
       None \<Rightarrow> ret False
     | Some digest \<Rightarrow>
         andThen (ask (RegistryDelete (manifest_url base repo digest))) (\<lambda>b.
         ret (http_success b \<noteq> None)))"

definition json_get :: "string \<Rightarrow> json \<Rightarrow> json option" where
  "json_get k j = (case j of JObject m \<Rightarrow> map_of m k | _ \<Rightarrow> None)"

definition as_str :: "json \<Rightarrow> string option" where
  "as_str j = (case j of JString s \<Rightarrow> Some s | _ \<Rightarrow> None)"

definition as_array :: "json \<Rightarrow> json list option" where
  "as_array j = (case j of JArray l \<Rightarrow> Some l | _ \<Rightarrow> None)"

definition list_registry_tags :: "string \<Rightarrow> string \<Rightarrow> (world, 'e, string list) act" where
  "list_registry_tags base repo =
     andThen (ask (RegistryGet (base @ ''/v2/'' @ repo @ ''/tags/list''))) (\<lambda>a.
     ret (case Option.bind (Option.bind (http_success a) snd) (\<lambda>j. Option.bind (json_get ''tags'' j) as_array) of
       None \<Rightarrow> [] | Some l \<Rightarrow> List.map_filter as_str l))"

definition image_created_at :: "(string \<Rightarrow> instant option) \<Rightarrow> string \<Rightarrow> string \<Rightarrow> string \<Rightarrow> (world, 'e, instant option) act" where
  "image_created_at rfc3339 base repo tag =
     andThen (ask (RegistryGet (manifest_url base repo tag))) (\<lambda>a.
     case Option.bind (Option.bind (http_success a) snd) (\<lambda>manifest. Option.bind (json_get ''config'' manifest)
            (\<lambda>c. Option.bind (json_get ''digest'' c) as_str)) of
       None \<Rightarrow> ret None
     | Some config_digest \<Rightarrow>
         andThen (ask (RegistryGet (base @ ''/v2/'' @ repo @ ''/blobs/'' @ config_digest))) (\<lambda>b.
         ret (Option.bind (case b of HttpReply _ _ body \<Rightarrow> body | _ \<Rightarrow> None)
           (\<lambda>config. Option.bind (json_get ''created'' config) (\<lambda>c. Option.bind (as_str c) rfc3339)))))"

section \<open>Superseded builds\<close>

definition finished_build :: "app_build \<Rightarrow> bool" where
  "finished_build b \<longleftrightarrow> ab_status b \<noteq> ''building'' \<and> ab_status b \<noteq> ''queued''"

text \<open>\<open>row_number() OVER (PARTITION BY app_id ORDER BY created_at DESC)\<close>.\<close>

fun number_rows :: "uuid option \<Rightarrow> nat \<Rightarrow> app_build list \<Rightarrow> (app_build \<times> nat) list" where
  "number_rows app n [] = []"
| "number_rows app n (b # bs) =
     (let k = if app = Some (ab_app_id b) then Suc n else 1 in (b, k) # number_rows (Some (ab_app_id b)) k bs)"

definition ranked :: "app_build list \<Rightarrow> (app_build \<times> nat) list" where
  "ranked bs = number_rows None 0 (sort_key ab_app_id (sort_key (\<lambda>b. - ab_created_at b) bs))"

definition deployed_tag :: "database \<Rightarrow> string \<Rightarrow> bool" where
  "deployed_tag d t \<longleftrightarrow> existsWhere (\<lambda>i. ai_current_image_tag i = Some t) (app_instances d)"

definition superseded_builds :: "int \<Rightarrow> database \<Rightarrow> (uuid \<times> string) list" where
  "superseded_builds keep d =
     List.map_filter (\<lambda>(b, rn). case ab_image_tag b of None \<Rightarrow> None
         | Some t \<Rightarrow> if keep < int rn \<and> \<not> deployed_tag d t then Some (ab_id b, t) else None)
       (ranked (selectWhere finished_build (app_builds d)))"

definition prune_build :: "string \<Rightarrow> uuid \<times> string \<Rightarrow> int \<times> int \<Rightarrow> (int \<times> int) handler" where
  "prune_build base row counts =
     andThen (delete_registry_manifest base APP_IMAGE_REPO (last_segment (CHR '':'') (snd row))) (\<lambda>gone.
     andThen (orElse (executing (\<lambda>w. (countWhere (\<lambda>b. ab_id b = fst row) (app_builds (db w)),
        (db w)\<lparr>app_builds := deleteWhere (\<lambda>b. ab_id b = fst row) (app_builds (db w))\<rparr>))) 0) (\<lambda>n.
     ret (fst counts + (if 0 < n then 1 else 0), snd counts + (if gone then 1 else 0))))"

definition prune_rows :: "(sqlx_error \<Rightarrow> string) \<Rightarrow> int \<Rightarrow> sqlx_error + (uuid \<times> string) list \<Rightarrow> ((int \<times> int) \<times> string list) handler" where
  "prune_rows shown keep rows =
     (case rows of
       Inl e \<Rightarrow> ret ((0, 0), [''builds: query failed: '' @ shown e])
     | Inr [] \<Rightarrow> ret ((0, 0), [''builds: nothing to prune (keep last '' @ show_int keep @ ''/app)''])
     | Inr rs \<Rightarrow>
         andThen (readState (\<lambda>w. registry_api_base (env_var w))) (\<lambda>base.
         andThen (foldEach rs (prune_build base) (0, 0)) (\<lambda>counts.
         ret (counts, [''builds: pruned '' @ show_int (fst counts) @ '' record(s), deleted '' @ show_int (snd counts)
           @ '' image manifest(s) (keep last '' @ show_int keep @ ''/app)'']))))"

definition prune_old_builds :: "(sqlx_error \<Rightarrow> string) \<Rightarrow> ((int \<times> int) \<times> string list) handler" where
  "prune_old_builds shown =
     andThen (readState (\<lambda>w. build_retention (env_var w))) (\<lambda>keep.
     andThen (attempt (fetch (\<lambda>w. superseded_builds keep (db w)))) (\<lambda>rows.
     prune_rows shown keep rows))"

section \<open>Images nothing refers to\<close>

definition build_tags :: "database \<Rightarrow> string list" where
  "build_tags d = concat (map (\<lambda>b. uuid_str (ab_id b)
     # (case ab_image_tag b of None \<Rightarrow> [] | Some t \<Rightarrow> [last_segment (CHR '':'') t])) (app_builds d))"

definition deployed_tags :: "database \<Rightarrow> string list" where
  "deployed_tags d = map (last_segment (CHR '':'')) (List.map_filter ai_current_image_tag (app_instances d))"

definition prune_tag :: "string \<Rightarrow> string \<Rightarrow> string set \<Rightarrow> string \<Rightarrow> int \<Rightarrow> int handler" where
  "prune_tag base repo live tag deleted =
     (if tag \<in> live then ret deleted
      else andThen (delete_registry_manifest base repo tag) (\<lambda>gone. ret (deleted + (if gone then 1 else 0))))"

definition prune_unreferenced :: "string \<Rightarrow> string list \<Rightarrow> (int \<times> string list) handler" where
  "prune_unreferenced base tags =
     (if tags = [] then ret (0, [])
     else
       andThen (attempt (fetch (\<lambda>w. build_tags (db w)))) (\<lambda>bs.
       case bs of
         Inl _ \<Rightarrow> ret (0, [''orphans: could not read app_builds '' @ dash @ '' skipping''])
       | Inr live \<Rightarrow>
           andThen (orElse (fetch (\<lambda>w. deployed_tags (db w))) []) (\<lambda>deployed.
           andThen (foldEach tags (prune_tag base APP_IMAGE_REPO (set live \<union> set deployed)) 0) (\<lambda>deleted.
           ret (deleted, [''orphans: deleted '' @ show_int deleted @ '' of '' @ show_nat (length tags)
             @ '' app-image tag(s) with no DB reference''])))))"

definition prune_orphaned_app_images :: "string \<Rightarrow> (int \<times> string list) handler" where
  "prune_orphaned_app_images base = andThen (list_registry_tags base APP_IMAGE_REPO) (prune_unreferenced base)"

section \<open>The build cache\<close>

definition prune_cache_tag :: "(string \<Rightarrow> instant option) \<Rightarrow> string \<Rightarrow> instant \<Rightarrow> string \<Rightarrow> int \<Rightarrow> int handler" where
  "prune_cache_tag rfc3339 base cutoff tag pruned =
     andThen (image_created_at rfc3339 base BUILD_CACHE_REPO tag) (\<lambda>created.
     case created of
       None \<Rightarrow> ret pruned
     | Some t \<Rightarrow>
         (if t < cutoff
          then andThen (delete_registry_manifest base BUILD_CACHE_REPO tag) (\<lambda>gone. ret (pruned + (if gone then 1 else 0)))
          else ret pruned))"

definition prune_build_cache :: "(string \<Rightarrow> instant option) \<Rightarrow> string \<Rightarrow> (int \<times> string list) handler" where
  "prune_build_cache rfc3339 base =
     andThen (list_registry_tags base BUILD_CACHE_REPO) (\<lambda>tags.
     if tags = [] then ret (0, [''cache: empty / no build cache to prune''])
     else
       andThen (readState (\<lambda>w. cache_retention_days (env_var w))) (\<lambda>days.
       andThen now (\<lambda>t.
       let inspected = take 1000 tags in
       andThen (foldEach inspected (prune_cache_tag rfc3339 base (t - days * seconds 86400)) 0) (\<lambda>pruned.
       ret (pruned, [''cache: pruned '' @ show_int pruned @ '' of '' @ show_nat (length inspected)
         @ '' inspected cache tag(s) older than '' @ show_int days @ ''d''])))))"

section \<open>The blobs\<close>

definition gc_job :: string where
  "gc_job = ''hermes-registry-gc''"

text \<open>The deletion of a job left over is waited for in at most that many turns.\<close>

primrec await_job_gone :: "nat \<Rightarrow> (world, 'e, unit) act" where
  "await_job_gone 0 = ret ()"
| "await_job_gone (Suc n) = andThen (k8s (GetJob ''kube-system'' gc_job)) (\<lambda>a. case a of Refused _ \<Rightarrow> ret () | _ \<Rightarrow> await_job_gone n)"

definition job_exit :: "k8s_answer \<Rightarrow> int option" where
  "job_exit a = (case a of
       JobCounts (Some (succeeded, failed)) \<Rightarrow>
         (if 0 < default_to 0 succeeded then Some 0 else if 0 < default_to 0 failed then Some 1 else None)
     | _ \<Rightarrow> None)"

primrec await_exit :: "nat \<Rightarrow> (world, 'e, int) act" where
  "await_exit 0 = ret (- 1)"
| "await_exit (Suc n) = andThen (k8s (GetJob ''kube-system'' gc_job)) (\<lambda>a.
     case a of Refused _ \<Rightarrow> ret (- 1)
     | _ \<Rightarrow> (case job_exit a of Some e \<Rightarrow> ret e | None \<Rightarrow> await_exit n))"

definition gc_command :: "string list" where
  "gc_command = [''/bin/registry'', ''garbage-collect'', ''-m'', ''/etc/docker/registry/config.yml'']"

definition run_registry_gc_job :: "(world, string, int) act" where
  "run_registry_gc_job =
     andThen (k8s GetClient) (\<lambda>c.
     case c of Refused m \<Rightarrow> raise (''Infrastructure: Failed to connect to K3s cluster: '' @ m)
     | _ \<Rightarrow>
         andThen (k8s (GetJob ''kube-system'' gc_job)) (\<lambda>old.
         andThen (case old of Refused _ \<Rightarrow> ret ()
           | _ \<Rightarrow> andThen (k8s (DeleteJob ''kube-system'' gc_job)) (\<lambda>_. await_job_gone 20)) (\<lambda>_.
         andThen (k8s (CreateJob ''kube-system'' gc_job gc_command)) (\<lambda>created.
         case created of Refused m \<Rightarrow> raise (''job create failed: '' @ m)
         | _ \<Rightarrow>
             andThen (await_exit 600) (\<lambda>exit.
             andThen (k8s (DeleteJob ''kube-system'' gc_job)) (\<lambda>_. ret exit))))))"

definition active_builds :: "database \<Rightarrow> nat" where
  "active_builds d = countWhere (\<lambda>b. ab_status b = ''building'' \<or> ab_status b = ''queued'') (app_builds d)"

definition registry_blob_gc :: "string list handler" where
  "registry_blob_gc =
     andThen (readState (\<lambda>w. env_var w ''HERMES_REGISTRY_BLOB_GC'')) (\<lambda>v.
     if (case v of None \<Rightarrow> False | Some s \<Rightarrow> to_lowercase s = ''off'')
     then ret [''registry: blob GC disabled (HERMES_REGISTRY_BLOB_GC=off)'']
     else
       andThen (orElse (fetch (\<lambda>w. active_builds (db w))) 0) (\<lambda>active.
       if 0 < active then ret [''registry: '' @ show_nat active @ '' build(s) in progress '' @ dash @ '' deferring blob GC'']
       else
         andThen (attempt run_registry_gc_job) (\<lambda>r.
         case r of
           Inr exit \<Rightarrow> ret [''registry: blob GC job finished (exit '' @ show_int exit @ '')'']
         | Inl e \<Rightarrow> ret [''registry: blob GC job failed: '' @ e])))"

section \<open>Finished jobs and failed pods\<close>

definition old_job :: "instant \<Rightarrow> int \<Rightarrow> job \<Rightarrow> bool" where
  "old_job t days j \<longleftrightarrow> (jb_status j = ''succeeded'' \<or> jb_status j = ''failed'') \<and> jb_updated_at j < t - days * seconds 86400"

definition prune_old_jobs :: "(sqlx_error \<Rightarrow> string) \<Rightarrow> (int \<times> string list) handler" where
  "prune_old_jobs shown =
     andThen (readState (\<lambda>w. job_retention_days (env_var w))) (\<lambda>days.
     andThen (attempt (executing (\<lambda>w. (countWhere (old_job (clock w) days) (jobs (db w)),
        (db w)\<lparr>jobs := deleteWhere (old_job (clock w) days) (jobs (db w))\<rparr>)))) (\<lambda>r.
     case r of
       Inr n \<Rightarrow> ret (i32 (int n), [''jobs: deleted '' @ show_int (i32 (int n)) @ '' finished row(s) older than '' @ show_int days @ ''d''])
     | Inl e \<Rightarrow> ret (0, [''jobs: delete failed: '' @ shown e])))"

definition reap_pod :: "string \<times> string \<Rightarrow> int \<Rightarrow> int handler" where
  "reap_pod pod reaped =
     (if snd pod = [] \<or> \<not> starts_with ''hermes-ws-'' (fst pod) then ret reaped
      else andThen (k8s (DeletePod (fst pod) (snd pod))) (\<lambda>a. ret (case a of Refused _ \<Rightarrow> reaped | _ \<Rightarrow> reaped + 1)))"

definition reap_failed_pods :: "(int \<times> string list) handler" where
  "reap_failed_pods =
     andThen (k8s GetClient) (\<lambda>c.
     case c of Refused m \<Rightarrow> ret (0, [''pods: k8s unavailable: Infrastructure: Failed to connect to K3s cluster: '' @ m])
     | _ \<Rightarrow>
         andThen (k8s ListFailedPods) (\<lambda>a.
         case a of
           Refused e \<Rightarrow> ret (0, [''pods: list failed: '' @ e])
         | FailedPods pods \<Rightarrow>
             andThen (foldEach pods reap_pod 0) (\<lambda>reaped.
             ret (reaped, [''pods: reaped '' @ show_int reaped @ '' Failed/Evicted pod(s)'']))
         | _ \<Rightarrow> ret (0, [''pods: reaped 0 Failed/Evicted pod(s)''])))"

section \<open>A pass\<close>

definition new_run :: "uuid \<Rightarrow> gc_run" where
  "new_run i = \<lparr>gr_id = i, gr_status = ''running'', gr_images_deleted = 0, gr_builds_pruned = 0, gr_jobs_pruned = 0,
     gr_pods_reaped = 0, gr_detail = None\<rparr>"

definition run_gc :: "(sqlx_error \<Rightarrow> string) \<Rightarrow> (string \<Rightarrow> instant option) \<Rightarrow> unit handler" where
  "run_gc shown rfc3339 =
     andThen new_v4 (\<lambda>run_id.
     andThen (discard (execute (\<lambda>w. (db w)\<lparr>gc_runs := insertRow (new_run run_id) (gc_runs (db w))\<rparr>))) (\<lambda>_.
     andThen (prune_old_builds shown) (\<lambda>((builds_pruned, images), d1).
     andThen (readState (\<lambda>w. registry_api_base (env_var w))) (\<lambda>reg_base.
     andThen (prune_orphaned_app_images reg_base) (\<lambda>(orphans, d2).
     andThen (prune_build_cache rfc3339 reg_base) (\<lambda>(cached, d3).
     let images_deleted = images + orphans + cached in
     andThen (prune_old_jobs shown) (\<lambda>(jobs_pruned, d4).
     andThen reap_failed_pods (\<lambda>(pods_reaped, d5).
     andThen (if 0 < images_deleted then registry_blob_gc
              else ret [''registry: no manifests unlinked this pass '' @ dash @ '' blob GC skipped'']) (\<lambda>d6.
     discard (execute (\<lambda>w. (db w)\<lparr>gc_runs := updateWhere (\<lambda>r. gr_id r = run_id)
       (\<lambda>r. r\<lparr>gr_status := ''success'', gr_images_deleted := images_deleted, gr_builds_pruned := builds_pruned,
          gr_jobs_pruned := jobs_pruned, gr_pods_reaped := pods_reaped,
          gr_detail := Some (join [CHR 0x0A] (d1 @ d2 @ d3 @ d4 @ d5 @ d6))\<rparr>) (gc_runs (db w))\<rparr>)))))))))))"

text \<open>A turn of the worker: only the leader collects.\<close>

definition gc_turn :: "bool \<Rightarrow> (sqlx_error \<Rightarrow> string) \<Rightarrow> (string \<Rightarrow> instant option) \<Rightarrow> unit handler" where
  "gc_turn is_leader shown rfc3339 = (if \<not> is_leader then ret () else run_gc shown rfc3339)"

end
