(* ===== verification/Garbage_Laws.thy ===== *)
theory Garbage_Laws
  imports Garbage Env_Laws
begin

text \<open>
  What a pass of \<open>utils/gc.rs\<close> may remove: old builds that are not deployed, images no row refers to, failed pods of
  workspaces; the waits of the job that frees the disk end; and the guard that keeps that job away from a running build fails
  open.
\<close>

section \<open>Loops over a list\<close>

lemma keeps_foldEach_in:
  "(\<And>x a. x \<in> set xs \<Longrightarrow> keeps P (f x a)) \<Longrightarrow> keeps P (foldEach xs f a)"
  by (induction xs arbitrary: a) (auto intro: keeps_ret keeps_andThen)

lemma retention_positive:
  "0 < build_retention env" "0 < job_retention_days env" "0 < cache_retention_days env"
  by (simp_all add: build_retention_def job_retention_days_def cache_retention_days_def env_positive_def split: option.split)

section \<open>Which builds are superseded\<close>

lemma number_rows_rank:
  "(b, k) \<in> set (number_rows app n xs) \<Longrightarrow> \<exists>us vs. xs = us @ b # vs
    \<and> k \<le> Suc (length (filter (\<lambda>x. ab_app_id x = ab_app_id b) us)) + (if app = Some (ab_app_id b) then n else 0)"
proof (induction app n xs rule: number_rows.induct)
  case (2 app n c cs)
  let ?k = "if app = Some (ab_app_id c) then Suc n else 1"
  from 2(2) consider "b = c" "k = ?k" | "(b, k) \<in> set (number_rows (Some (ab_app_id c)) ?k cs)" by (auto simp: Let_def)
  then show ?case
  proof cases
    case 1
    then show ?thesis by (intro exI [of _ "[]"] exI [of _ cs]) auto
  next
    case 2
    from "2.IH" [OF refl 2] obtain us vs where cs: "cs = us @ b # vs"
      and k: "k \<le> Suc (length (filter (\<lambda>x. ab_app_id x = ab_app_id b) us))
        + (if Some (ab_app_id c) = Some (ab_app_id b) then ?k else 0)" by blast
    from k show ?thesis by (intro exI [of _ "c # us"] exI [of _ vs]) (auto simp: cs split: if_splits)
  qed
qed simp

text \<open>The finished builds of the same application that are not older.\<close>

definition newer :: "app_build \<Rightarrow> app_build list \<Rightarrow> app_build set" where
  "newer b bs = {c \<in> set bs. finished_build c \<and> c \<noteq> b \<and> ab_app_id c = ab_app_id b \<and> ab_created_at b \<le> ab_created_at c}"

lemma rank_newer:
  assumes "(b, k) \<in> set (ranked bs)" "distinct bs" "\<forall>c \<in> set bs. finished_build c"
  shows "b \<in> set bs \<and> k \<le> Suc (card (newer b bs))"
proof -
  let ?dated = "sort_key (\<lambda>b. - ab_created_at b) bs"
  let ?xs = "sort_key ab_app_id ?dated"
  let ?same = "\<lambda>x. ab_app_id x = ab_app_id b"
  from number_rows_rank [OF assms(1) [unfolded ranked_def]] obtain us vs
    where xs: "?xs = us @ b # vs" and k: "k \<le> Suc (length (filter ?same us))" by auto
  have "filter ?same ?xs = filter ?same ?dated" by (rule sort_key_stable)
  then have f: "filter ?same ?dated = filter ?same us @ b # filter ?same vs" by (simp add: xs)
  have "sorted (map (\<lambda>b. - ab_created_at b) (filter ?same ?dated))"
    by (simp add: sorted_filter)
  then have dates: "\<forall>c \<in> set (filter ?same us). ab_created_at b \<le> ab_created_at c"
    by (auto simp: f sorted_append)
  have "distinct (filter ?same ?dated)" using assms(2) by simp
  then have d: "distinct (filter ?same us)" "b \<notin> set (filter ?same us)" by (auto simp: f)
  have "set (us @ b # vs) = set bs" using xs by (metis set_sort)
  then have b: "b \<in> set bs" and us: "set us \<subseteq> set bs" by auto
  have "set (filter ?same us) \<subseteq> newer b bs" using dates d(2) us assms(3) by (auto simp: newer_def)
  then have "card (set (filter ?same us)) \<le> card (newer b bs)" by (rule card_mono [rotated]) (simp add: newer_def)
  then show ?thesis using k b distinct_card [OF d(1)] by simp
qed

lemma superseded_old:
  assumes "(i, t) \<in> set (superseded_builds keep d)" "uniqueOn ab_id (app_builds d)"
  shows "\<exists>b \<in> set (app_builds d). ab_id b = i \<and> ab_image_tag b = Some t \<and> finished_build b \<and> \<not> deployed_tag d t
    \<and> keep \<le> int (card (newer b (app_builds d)))"
proof -
  let ?fin = "selectWhere finished_build (app_builds d)"
  from assms(1) obtain b k where b: "(b, k) \<in> set (ranked ?fin)" "ab_image_tag b = Some t" "ab_id b = i" "keep < int k" "\<not> deployed_tag d t"
    by (auto simp: superseded_builds_def map_filter_def split: option.splits if_splits)
  have "distinct ?fin" using assms(2) by (simp add: uniqueOn_def selectWhere_def distinct_map)
  moreover have "\<forall>c \<in> set ?fin. finished_build c" by (simp add: selectWhere_def)
  ultimately have r: "b \<in> set ?fin" "k \<le> Suc (card (newer b ?fin))" using rank_newer [OF b(1)] by auto
  have "newer b ?fin = newer b (app_builds d)" by (auto simp: newer_def selectWhere_def)
  then show ?thesis using r b by (auto simp: selectWhere_def)
qed

text \<open>Only builds with these identifiers are gone, and no other table changed.\<close>

definition pruned_to :: "database \<Rightarrow> uuid set \<Rightarrow> database \<Rightarrow> bool" where
  "pruned_to d0 ids d \<longleftrightarrow> d = d0\<lparr>app_builds := app_builds d\<rparr> \<and> set (app_builds d) \<subseteq> set (app_builds d0)
     \<and> (\<forall>b \<in> set (app_builds d0) - set (app_builds d). ab_id b \<in> ids)"

lemma pruned_delete:
  "pruned_to d0 ids d \<Longrightarrow> i \<in> ids \<Longrightarrow> pruned_to d0 ids (d\<lparr>app_builds := deleteWhere (\<lambda>b. ab_id b = i) (app_builds d)\<rparr>)"
  unfolding pruned_to_def by (cases d0; cases d) (auto simp: set_deleteWhere)

lemma keeps_delete_manifest: "keeps (\<lambda>w. I (db w)) (delete_registry_manifest base repo r)"
  unfolding delete_registry_manifest_def by (intro keeps_intros)

lemma keeps_prune_build:
  assumes "fst row \<in> ids"
  shows "keeps (\<lambda>w. pruned_to d0 ids (db w)) (prune_build base row counts)"
  unfolding prune_build_def
  by (intro keeps_intros keeps_delete_manifest keeps_executing) (simp add: pruned_delete assms)

lemma keeps_prune_rows:
  assumes "\<And>rs. rows = Inr rs \<Longrightarrow> fst ` set rs \<subseteq> ids"
  shows "keeps (\<lambda>w. pruned_to d0 ids (db w)) (prune_rows shown keep rows)"
proof (cases rows)
  case (Inr rs)
  then have loop: "keeps (\<lambda>w. pruned_to d0 ids (db w)) (foldEach rs (prune_build base) c)" for base c
    using assms by (intro keeps_foldEach_in keeps_prune_build) auto
  show ?thesis
  proof (cases rs)
    case (Cons x xs)
    show ?thesis unfolding prune_rows_def Inr Cons sum.case list.case
      by (intro keeps_andThen keeps_readState keeps_ret loop [unfolded Cons])
  qed (simp add: prune_rows_def Inr keeps_ret)
qed (simp add: prune_rows_def keeps_ret)

text \<open>
  C30. A pass removes a build only when it is finished, its image is not the one deployed on any instance, and at least as many
  newer finished builds of the same application remain recorded as the retention, which is positive, asks for. It touches no other table.
\<close>

theorem only_old_builds_are_pruned:
  assumes "prune_old_builds shown w = (r, w')" "uniqueOn ab_id (app_builds (db w))"
  shows "db w' = (db w)\<lparr>app_builds := app_builds (db w')\<rparr> \<and> set (app_builds (db w')) \<subseteq> set (app_builds (db w))
    \<and> 0 < build_retention (env_var w)
    \<and> (\<forall>b \<in> set (app_builds (db w)) - set (app_builds (db w')). finished_build b
        \<and> (\<exists>t. ab_image_tag b = Some t \<and> \<not> deployed_tag (db w) t)
        \<and> build_retention (env_var w) \<le> int (card (newer b (app_builds (db w)))))"
proof -
  let ?keep = "build_retention (env_var w)"
  let ?ids = "fst ` set (superseded_builds ?keep (db w))"
  obtain q w1 where f: "fetch (\<lambda>w. superseded_builds ?keep (db w)) w = (q, w1)" by fastforce
  have "prune_old_builds shown w = prune_rows shown ?keep q w1"
    unfolding prune_old_builds_def andThen_readState by (simp add: andThen_def attempt_def f)
  with assms(1) have run: "prune_rows shown ?keep q w1 = (r, w')" by simp
  from f have w1: "db w1 = db w" and rs: "\<And>rs. q = Inr rs \<Longrightarrow> rs = superseded_builds ?keep (db w)"
    by (auto simp: fetch_def sql_def Let_def split: if_splits)
  have "keeps (\<lambda>w. pruned_to (db w1) ?ids (db w)) (prune_rows shown ?keep q)"
    by (rule keeps_prune_rows) (metis rs order_refl)
  from keeps_step [OF this _ run] have p: "pruned_to (db w) ?ids (db w')" by (simp add: pruned_to_def w1)
  have "finished_build b \<and> (\<exists>t. ab_image_tag b = Some t \<and> \<not> deployed_tag (db w) t)
      \<and> ?keep \<le> int (card (newer b (app_builds (db w))))"
    if b: "b \<in> set (app_builds (db w)) - set (app_builds (db w'))" for b
  proof -
    from p b obtain i t where "(i, t) \<in> set (superseded_builds ?keep (db w))" and i: "ab_id b = i"
      unfolding pruned_to_def by fastforce
    from superseded_old [OF this(1) assms(2)] obtain c where c: "c \<in> set (app_builds (db w))" "ab_id c = i"
      "ab_image_tag c = Some t" "finished_build c" "\<not> deployed_tag (db w) t" "?keep \<le> int (card (newer c (app_builds (db w))))"
      by blast
    moreover have "c = b" using uniqueOn_eq [OF assms(2) c(1), of b] b i c(2) by simp
    ultimately show ?thesis by blast
  qed
  with p retention_positive(1) show ?thesis unfolding pruned_to_def by blast
qed


definition two_finished :: "app_build list" where
  "two_finished = map (\<lambda>(i, t). \<lparr>ab_id = i, ab_app_id = 3, ab_app_instance_id = 5, ab_status = ''succeeded'', ab_phase = ''done'',
     ab_failure_reason = None, ab_failure_category = None, ab_duration_sec = None, ab_image_tag = Some (''r:5000/hermes-app-image:'' @ t),
     ab_commit_message = None, ab_commit_sha = None, ab_created_at = int (unat i)\<rparr>) [(1, ''a''), (2, ''b'')]"

definition gc_world :: world where
  "gc_world = base_world\<lparr>db := empty_db\<lparr>app_builds := two_finished\<rparr>,
     env_var := (\<lambda>v. if v = ''HERMES_BUILD_RETENTION'' then Some ''1'' else None),
     host_reply := (\<lambda>n. HttpReply True (Some ''sha256:1'') (Some (JObject [(''tags'', JArray [JString ''a'', JString ''c''])])))\<rparr>"

theorem only_old_builds_are_pruned_witness:
  "map ab_id (app_builds (db (snd (prune_old_builds (\<lambda>_. []) gc_world)))) = [2]
    \<and> ab_id (hd two_finished) = 1 \<and> finished_build (hd two_finished) \<and> 1 \<le> card (newer (hd two_finished) two_finished)"
proof -
  have ids: "map ab_id (app_builds (db (snd (prune_old_builds (\<lambda>_. []) gc_world)))) = [2]" by code_simp
  have u: "uniqueOn ab_id (app_builds (db gc_world))" by code_simp
  have k: "build_retention (env_var gc_world) = 1" by code_simp
  have d: "app_builds (db gc_world) = two_finished" by (simp add: gc_world_def)
  have one: "ab_id (hd two_finished) = 1" "hd two_finished \<in> set two_finished" by (simp_all add: two_finished_def)
  have "hd two_finished \<notin> set (app_builds (db (snd (prune_old_builds (\<lambda>_. []) gc_world))))"
  proof
    assume "hd two_finished \<in> set (app_builds (db (snd (prune_old_builds (\<lambda>_. []) gc_world))))"
    then have "ab_id (hd two_finished) \<in> set (map ab_id (app_builds (db (snd (prune_old_builds (\<lambda>_. []) gc_world)))))"
      unfolding set_map by (rule imageI)
    then show False unfolding ids one(1) by simp
  qed
  with only_old_builds_are_pruned [OF prod.collapse [symmetric] u, of "\<lambda>_. []"] ids k one show ?thesis
    unfolding d by fastforce
qed

section \<open>Which images are unlinked\<close>

text \<open>
  Every deletion since the first \<open>n\<close> requests follows the answer of the registry to a manifest of a tag outside \<open>live\<close>,
  and names the digest of that answer.
\<close>

definition justified :: "nat \<Rightarrow> (nat \<Rightarrow> host_answer) \<Rightarrow> string \<Rightarrow> string \<Rightarrow> string set \<Rightarrow> world \<Rightarrow> bool" where
  "justified n reply base repo live w \<longleftrightarrow> host_reply w = reply \<and> n \<le> length (host_calls w) \<and>
     (\<forall>m url. n \<le> m \<and> m < length (host_calls w) \<and> host_calls w ! m = RegistryDelete url \<longrightarrow>
        (\<exists>tag digest body. n < m \<and> tag \<notin> live \<and> host_calls w ! (m - 1) = RegistryGet (manifest_url base repo tag)
           \<and> reply (m - 1) = HttpReply True (Some digest) body \<and> url = manifest_url base repo digest))"

lemma justified_more: "justified n reply base repo live w \<Longrightarrow> live' \<subseteq> live \<Longrightarrow> justified n reply base repo live' w"
  unfolding justified_def by blast

lemma justified_get:
  "justified n reply base repo live w \<Longrightarrow> justified n reply base repo live (w\<lparr>host_calls := host_calls w @ [RegistryGet u]\<rparr>)"
  by (force simp: justified_def nth_append less_Suc_eq)

lemma justified_delete:
  assumes "justified n reply base repo live w" "tag \<notin> live" "reply (length (host_calls w)) = HttpReply True (Some digest) body"
  shows "justified n reply base repo live (w\<lparr>host_calls := host_calls w @ [RegistryGet (manifest_url base repo tag),
    RegistryDelete (manifest_url base repo digest)]\<rparr>)"
proof -
  let ?h = "host_calls w" and ?l = "length (host_calls w)"
  let ?new = "?h @ [RegistryGet (manifest_url base repo tag), RegistryDelete (manifest_url base repo digest)]"
  have "\<exists>tag digest body. n < m \<and> tag \<notin> live \<and> ?new ! (m - 1) = RegistryGet (manifest_url base repo tag)
      \<and> reply (m - 1) = HttpReply True (Some digest) body \<and> url = manifest_url base repo digest"
    if "n \<le> m" "m < length ?new" "?new ! m = RegistryDelete url" for m url
  proof -
    from that(2) consider "m < ?l" | "m = ?l" | "m = Suc ?l" by fastforce
    then show ?thesis
    proof cases
      case 1
      with that assms(1) show ?thesis by (force simp: justified_def nth_append)
    next
      case 2
      with that show ?thesis by (simp add: nth_append)
    next
      case 3
      with that assms show ?thesis by (auto simp: justified_def nth_append)
    qed
  qed
  with assms(1) show ?thesis by (simp add: justified_def)
qed

lemma justified_frame [simp]:
  "justified n reply base repo live (w\<lparr>faults := fs\<rparr>) = justified n reply base repo live w"
  by (simp add: justified_def)

lemma orElse_fetch:
  "orElse (fetch g) d w = (Inr (if next_fails w then d else g (w\<lparr>faults := tl (faults w)\<rparr>)), w\<lparr>faults := tl (faults w)\<rparr>)"
  by (simp add: orElse_def fetch_def sql_def Let_def)

lemma http_success_Some: "http_success a = Some (digest, body) \<longleftrightarrow> a = HttpReply True digest body"
  by (cases a) (auto simp: http_success_def split: bool.split)

lemma keeps_justified_delete:
  assumes "tag \<notin> live"
  shows "keeps (justified n reply base repo live) (delete_registry_manifest base repo tag :: bool handler)"
proof (rule keepsI)
  fix w assume j: "justified n reply base repo live w"
  let ?a = "host_reply w (length (host_calls w))"
  show "justified n reply base repo live (snd ((delete_registry_manifest base repo tag :: bool handler) w))"
  proof (cases "Option.bind (http_success ?a) fst")
    case None
    with j show ?thesis by (simp add: delete_registry_manifest_def step_simps justified_get)
  next
    case (Some digest)
    then obtain body where a: "?a = HttpReply True (Some digest) body"
      by (cases "http_success ?a") (auto simp: http_success_Some)
    then have "reply (length (host_calls w)) = HttpReply True (Some digest) body" using j by (simp add: justified_def)
    from justified_delete [OF j assms this] show ?thesis
      by (simp add: delete_registry_manifest_def step_simps Some)
  qed
qed

lemma keeps_justified_tags: "keeps (justified n reply base repo live) (list_registry_tags b r)"
  unfolding list_registry_tags_def
  by (intro keeps_andThen keeps_ret) (simp add: keeps_def ask_def justified_get)

lemma keeps_justified_prune: "keeps (justified n reply base repo live) (prune_tag base repo live tag k)"
  unfolding prune_tag_def by (auto intro!: keeps_andThen keeps_ret keeps_justified_delete)

text \<open>
  C29. The pass over the images asks the registry to delete a manifest only by the digest the registry just gave for a tag that
  no build has, as its identifier or as its image, and - unless the statement that reads them failed - that no instance runs.
\<close>

theorem live_images_are_kept:
  assumes "prune_orphaned_app_images base w = (r, w')" "host_calls w = []" "m < length (host_calls w')"
    and "host_calls w' ! m = RegistryDelete url"
  shows "\<exists>tag digest body. 0 < m \<and> tag \<notin> set (build_tags (db w)) \<and> (faults w = [] \<longrightarrow> tag \<notin> set (deployed_tags (db w)))
    \<and> host_calls w' ! (m - 1) = RegistryGet (manifest_url base APP_IMAGE_REPO tag)
    \<and> host_reply w (m - 1) = HttpReply True (Some digest) body \<and> url = manifest_url base APP_IMAGE_REPO digest"
proof -
  let ?live = "set (build_tags (db w)) \<union> (if faults w = [] then set (deployed_tags (db w)) else {})"
  let ?J = "justified 0 (host_reply w) base APP_IMAGE_REPO ?live"
  have start: "?J w" using assms(2) by (simp add: justified_def)
  obtain tags w1 where 1: "(list_registry_tags base APP_IMAGE_REPO :: string list handler) w = (Inr tags, w1)"
    and w1: "db w1 = db w" "faults w1 = faults w"
    by (simp add: list_registry_tags_def step_simps)
  note J1 = keeps_step [OF keeps_justified_tags start 1]
  have run: "prune_unreferenced base tags w1 = (r, w')"
    using assms(1) by (simp add: prune_orphaned_app_images_def andThen_def 1)
  obtain bs w2 where 2: "fetch (\<lambda>w. build_tags (db w)) w1 = (bs, w2)" by fastforce
  then have w2: "w2 = w1\<lparr>faults := tl (faults w1)\<rparr>" and bs: "\<And>l. bs = Inr l \<Longrightarrow> l = build_tags (db w)"
    by (auto simp: fetch_def sql_def Let_def w1 split: if_splits)
  have "?J w'"
  proof (cases "tags = [] \<or> (\<exists>e. bs = Inl e)")
    case True
    with run have "w' = w1 \<or> w' = w2" by (auto simp: prune_unreferenced_def attempt_def 2 andThen_def ret_def split: if_splits)
    with J1 show ?thesis by (auto simp: w2)
  next
    case False
    then obtain l where l: "bs = Inr l" by (cases bs) auto
    let ?dep = "if next_fails w2 then [] else deployed_tags (db (w2\<lparr>faults := tl (faults w2)\<rparr>))"
    obtain deployed w3 where 3: "(orElse (fetch (\<lambda>w. deployed_tags (db w))) [] :: string list handler) w2 = (Inr deployed, w3)"
      and "deployed = ?dep" and w3: "w3 = w2\<lparr>faults := tl (faults w2)\<rparr>"
      by (rule that [OF orElse_fetch refl refl])
    then have dep: "faults w = [] \<Longrightarrow> deployed = deployed_tags (db w)" by (simp add: w1 w2)
    have sub: "?live \<subseteq> set l \<union> set deployed" using bs [OF l] dep by auto
    have "keeps ?J (prune_tag base APP_IMAGE_REPO (set l \<union> set deployed) tag k)" for tag k
      unfolding prune_tag_def by (rule keeps_if) (use sub in \<open>auto intro!: keeps_andThen keeps_ret keeps_justified_delete\<close>)
    then have loop: "keeps ?J (foldEach tags (prune_tag base APP_IMAGE_REPO (set l \<union> set deployed)) 0)"
      by (rule keeps_foldEach)
    obtain q where "(foldEach tags (prune_tag base APP_IMAGE_REPO (set l \<union> set deployed)) 0) w3 = (q, w')"
      using run False by (auto simp: prune_unreferenced_def attempt_def 2 l andThen_def 3 ret_def split: prod.splits sum.splits)
    moreover have "?J w3" using J1 w3 by (auto simp: w2)
    ultimately show ?thesis using keeps_step [OF loop] by blast
  qed
  then show ?thesis using assms(3,4) by (auto simp: justified_def split: if_splits)
qed


theorem live_images_are_kept_witness:
  "let w' = snd (prune_orphaned_app_images ''http://r'' gc_world) in
     host_calls w' ! 2 = RegistryDelete (manifest_url ''http://r'' APP_IMAGE_REPO ''sha256:1'')
     \<and> (\<exists>tag. tag \<notin> set (build_tags (db gc_world)) \<and> host_calls w' ! 1 = RegistryGet (manifest_url ''http://r'' APP_IMAGE_REPO tag))"
proof -
  let ?w' = "snd (prune_orphaned_app_images ''http://r'' gc_world)"
  have live: "''c'' \<noteq> uuid_str u" for u
    using arg_cong [of "''c''" "uuid_str u" length] by (auto simp: uuid_str_def Let_def)
  have "last_segment (CHR '':'') ''r:5000/hermes-app-image:a'' = ''a''" "last_segment (CHR '':'') ''r:5000/hermes-app-image:b'' = ''b''"
    by code_simp+
  then have tags: "''a'' \<in> set (build_tags (db gc_world))" "''c'' \<notin> set (build_tags (db gc_world))"
    using live by (auto simp: build_tags_def gc_world_def two_finished_def)
  have gc: "faults gc_world = []" "host_calls gc_world = []" "deployed_tags (db gc_world) = []"
    "host_reply gc_world = (\<lambda>n. HttpReply True (Some ''sha256:1'') (Some (JObject [(''tags'', JArray [JString ''a'', JString ''c''])])))"
    by (simp_all add: gc_world_def base_world_def deployed_tags_def empty_db_def map_filter_def)
  have c: "host_calls ?w' = [RegistryGet ''http://r/v2/hermes-app-image/tags/list'',
      RegistryGet (manifest_url ''http://r'' APP_IMAGE_REPO ''c''), RegistryDelete (manifest_url ''http://r'' APP_IMAGE_REPO ''sha256:1'')]"
    by (simp add: prune_orphaned_app_images_def list_registry_tags_def prune_unreferenced_def step_simps andThen_assoc andThen_ret prune_tag_def
      delete_registry_manifest_def http_success_def json_get_def as_array_def as_str_def map_filter_def gc tags APP_IMAGE_REPO_def)
  have "host_calls gc_world = []" by (simp add: gc_world_def base_world_def)
  from live_images_are_kept [where base = "''http://r''" and m = 2 and w = gc_world, OF prod.collapse [symmetric] this] c
  show ?thesis by (fastforce simp: Let_def)
qed

section \<open>The job that frees the disk\<close>

text \<open>
  C36. The guard of the job fails open: when the statement that counts the builds in progress fails, the count is taken as zero
  and the collection of blobs is started while a build may be pushing.
\<close>

theorem blob_gc_runs_during_a_build:
  assumes "env_var w ''HERMES_REGISTRY_BLOB_GC'' = None" "next_fails w"
    and cluster: "map (\<lambda>i. k8s_reply w (length (k8s_calls w) + i)) [0..<4] = [Accepted, Refused m, Accepted, JobCounts (Some (Some 1, None))]"
  shows "\<exists>lines w'. registry_blob_gc w = (Inr lines, w') \<and> CreateJob ''kube-system'' gc_job gc_command \<in> set (k8s_calls w')
    \<and> db w' = db w"
proof -
  let ?w1 = "w\<lparr>faults := tl (faults w)\<rparr>" and ?n = "length (k8s_calls w)"
  have replies: "k8s_reply w ?n = Accepted" "k8s_reply w (Suc ?n) = Refused m" "k8s_reply w (Suc (Suc ?n)) = Accepted"
    "k8s_reply w (Suc (Suc (Suc ?n))) = JobCounts (Some (Some 1, None))"
    using cluster by (simp_all add: upt_rec)
  have poll: "(await_exit 600 :: (world, string, int) act) v = (Inr 0, v\<lparr>k8s_calls := k8s_calls v @ [GetJob ''kube-system'' gc_job]\<rparr>)"
    if "k8s_reply v (length (k8s_calls v)) = JobCounts (Some (Some 1, None))" for v
  proof -
    have "600 = Suc 599" by simp
    then show ?thesis using that by (simp only: await_exit.simps) (simp add: step_simps job_exit_def default_to_def)
  qed
  have "run_registry_gc_job ?w1 = (Inr 0, ?w1\<lparr>k8s_calls := k8s_calls w @ [GetClient, GetJob ''kube-system'' gc_job,
      CreateJob ''kube-system'' gc_job gc_command, GetJob ''kube-system'' gc_job, DeleteJob ''kube-system'' gc_job]\<rparr>)"
    by (simp add: run_registry_gc_job_def step_simps replies, simp add: andThen_def poll replies k8s_def ret_def)
  then show ?thesis
    using assms(1,2) by (simp add: registry_blob_gc_def readState_def andThen_def orElse_fetch attempt_def ret_def)
qed

theorem blob_gc_runs_during_a_build_witness:
  "let w = gc_world\<lparr>db := (db gc_world)\<lparr>app_builds := map (\<lambda>b. b\<lparr>ab_status := ''building''\<rparr>) two_finished\<rparr>, faults := [True],
      k8s_reply := (\<lambda>n. if n = 1 then Refused ''none'' else if n = 3 then JobCounts (Some (Some 1, None)) else Accepted)\<rparr> in
    active_builds (db w) = 2 \<and> CreateJob ''kube-system'' gc_job gc_command \<in> set (k8s_calls (snd (registry_blob_gc w)))"
proof -
  let ?w = "gc_world\<lparr>db := (db gc_world)\<lparr>app_builds := map (\<lambda>b. b\<lparr>ab_status := ''building''\<rparr>) two_finished\<rparr>, faults := [True],
      k8s_reply := (\<lambda>n. if n = 1 then Refused ''none'' else if n = 3 then JobCounts (Some (Some 1, None)) else Accepted)\<rparr>"
  have "env_var ?w ''HERMES_REGISTRY_BLOB_GC'' = None" "next_fails ?w"
    "map (\<lambda>i. k8s_reply ?w (length (k8s_calls ?w) + i)) [0..<4] = [Accepted, Refused ''none'', Accepted, JobCounts (Some (Some 1, None))]"
    by (simp_all add: gc_world_def base_world_def upt_rec next_fails_def)
  from blob_gc_runs_during_a_build [OF this]
  have "CreateJob ''kube-system'' gc_job gc_command \<in> set (k8s_calls (snd (registry_blob_gc ?w)))" by auto
  moreover have "active_builds (db ?w) = 2" by (simp add: active_builds_def two_finished_def countWhere_def)
  ultimately show ?thesis by (simp add: Let_def)
qed

text \<open>The calls a wait makes.\<close>

lemma await_job_gone_calls:
  "length (k8s_calls (snd ((await_job_gone n :: (world, string, unit) act) w))) \<le> length (k8s_calls w) + n"
proof (induction n arbitrary: w)
  case (Suc n)
  show ?case
    using Suc.IH [of "w\<lparr>k8s_calls := k8s_calls w @ [GetJob ''kube-system'' gc_job]\<rparr>"]
    by (auto simp: step_simps split: k8s_answer.split)
qed (simp add: ret_def)

lemma await_job_gone_done: "fst ((await_job_gone n :: (world, string, unit) act) w) = Inr ()"
  by (induction n arbitrary: w) (auto simp: step_simps split: k8s_answer.split)

lemma await_exit_calls:
  "length (k8s_calls (snd ((await_exit n :: (world, string, int) act) w))) \<le> length (k8s_calls w) + n"
proof (induction n arbitrary: w)
  case (Suc n)
  show ?case
    using Suc.IH [of "w\<lparr>k8s_calls := k8s_calls w @ [GetJob ''kube-system'' gc_job]\<rparr>"]
    by (auto simp: step_simps split: k8s_answer.split option.split)
qed (simp add: ret_def)

text \<open>
  C34. The job is polled a bounded number of times: whatever the cluster answers, one pass makes at most 625 calls, so the worker
  is not held by a job that never finishes.
\<close>

theorem blob_gc_calls_are_bounded:
  "length (k8s_calls (snd (run_registry_gc_job w))) \<le> length (k8s_calls w) + 625"
proof -
  let ?old = "GetJob ''kube-system'' gc_job" and ?del = "DeleteJob ''kube-system'' gc_job"
  define clear where "clear = (\<lambda>a. case a of Refused m \<Rightarrow> (ret () :: (world, string, unit) act)
    | _ \<Rightarrow> andThen (k8s ?del) (\<lambda>_. await_job_gone 20))"
  define start where "start = andThen (k8s (CreateJob ''kube-system'' gc_job gc_command)) (\<lambda>created.
         case created of Refused m \<Rightarrow> raise (''job create failed: '' @ m)
         | _ \<Rightarrow> andThen (await_exit 600) (\<lambda>exit. andThen (k8s ?del) (\<lambda>_. (ret exit :: (world, string, int) act))))"
  have clear: "length (k8s_calls (snd (clear a v))) \<le> length (k8s_calls v) + 21" for a v
    using await_job_gone_calls [of 20 "v\<lparr>k8s_calls := k8s_calls v @ [?del]\<rparr>"]
    by (auto simp: clear_def step_simps split: k8s_answer.split)
  have clear_ok: "fst (clear a v) = Inr ()" for a v
    by (auto simp: clear_def step_simps await_job_gone_done split: k8s_answer.split)
  have exit: "length (k8s_calls (snd (andThen (await_exit 600) (\<lambda>exit. andThen (k8s ?del) (\<lambda>_. (ret exit :: (world, string, int) act))) v)))
      \<le> length (k8s_calls v) + 601" for v
    using await_exit_calls [of 600 v] by (auto simp: andThen_def k8s_def ret_def split: prod.splits sum.splits)
  have start: "length (k8s_calls (snd (start v))) \<le> length (k8s_calls v) + 602" for v
    using exit [of "v\<lparr>k8s_calls := k8s_calls v @ [CreateJob ''kube-system'' gc_job gc_command]\<rparr>"]
    by (auto simp: start_def step_simps split: k8s_answer.split)
  have "run_registry_gc_job w = (case k8s_reply w (length (k8s_calls w)) of
      Refused m \<Rightarrow> (Inl (''Infrastructure: Failed to connect to K3s cluster: '' @ m), w\<lparr>k8s_calls := k8s_calls w @ [GetClient]\<rparr>)
    | _ \<Rightarrow> andThen (clear (k8s_reply w (Suc (length (k8s_calls w))))) (\<lambda>_. start) (w\<lparr>k8s_calls := k8s_calls w @ [GetClient, ?old]\<rparr>))"
    by (simp add: run_registry_gc_job_def step_simps clear_def start_def split: k8s_answer.split)
  moreover have "length (k8s_calls (snd (andThen (clear a) (\<lambda>_. start) v))) \<le> length (k8s_calls v) + 623" for a v
    using clear_ok [of a v] clear [of a v] start [of "snd (clear a v)"]
    by (cases "clear a v") (auto simp: andThen_def)
  note this [of "k8s_reply w (Suc (length (k8s_calls w)))" "w\<lparr>k8s_calls := k8s_calls w @ [GetClient, ?old]\<rparr>"]
  ultimately show ?thesis by (simp split: k8s_answer.split)
qed

section \<open>The pods that are reaped\<close>

text \<open>Only pods the cluster listed as failed, and only in the namespaces of workspaces.\<close>

definition reaps :: "nat \<Rightarrow> (string \<times> string) set \<Rightarrow> world \<Rightarrow> bool" where
  "reaps n pods w \<longleftrightarrow> n \<le> length (k8s_calls w) \<and> (\<forall>ns p. DeletePod ns p \<in> set (drop n (k8s_calls w)) \<longrightarrow>
     (ns, p) \<in> pods \<and> p \<noteq> [] \<and> starts_with ''hermes-ws-'' ns)"

lemma keeps_reaps: "x \<in> pods \<Longrightarrow> keeps (reaps n pods) (reap_pod x a)"
  by (auto simp: keeps_def reap_pod_def reaps_def step_simps split: k8s_answer.split)

text \<open>
  C35. A pass of the reaper deletes no pod outside the namespaces \<open>hermes-ws-\<dots>\<close> and none the cluster did not report as failed.
\<close>

theorem only_failed_workspace_pods_are_reaped:
  assumes "DeletePod ns p \<in> set (drop (length (k8s_calls w)) (k8s_calls (snd (reap_failed_pods w))))"
  shows "starts_with ''hermes-ws-'' ns \<and> p \<noteq> []
    \<and> (\<exists>pods. k8s_reply w (Suc (length (k8s_calls w))) = FailedPods pods \<and> (ns, p) \<in> set pods)"
proof -
  let ?n = "length (k8s_calls w)" and ?w2 = "w\<lparr>k8s_calls := k8s_calls w @ [GetClient, ListFailedPods]\<rparr>"
  obtain pods where pods: "k8s_reply w (Suc ?n) = FailedPods pods" and ok: "\<And>m. k8s_reply w ?n \<noteq> Refused m"
    using assms by (auto simp: reap_failed_pods_def step_simps split: k8s_answer.splits)
  obtain r w3 where 3: "(foldEach pods reap_pod 0 :: int handler) ?w2 = (r, w3)" by fastforce
  have "reaps ?n (set pods) ?w2" by (simp add: reaps_def)
  from keeps_step [OF keeps_foldEach_in [OF keeps_reaps] this 3] have "reaps ?n (set pods) w3" .
  moreover have "snd (reap_failed_pods w) = w3"
    using ok pods 3
    by (cases r) (auto simp: reap_failed_pods_def step_simps andThen_def [of "foldEach _ _ _"] ret_def split: k8s_answer.split)
  ultimately show ?thesis using assms pods by (auto simp: reaps_def)
qed

theorem only_failed_workspace_pods_are_reaped_witness:
  "let w = gc_world\<lparr>k8s_reply := (\<lambda>n. if n = 1 then FailedPods [(''hermes-ws-1'', ''web''), (''default'', ''x'')] else Accepted)\<rparr> in
     DeletePod ''hermes-ws-1'' ''web'' \<in> set (k8s_calls (snd (reap_failed_pods w)))
     \<and> starts_with ''hermes-ws-'' ''hermes-ws-1''"
proof -
  let ?w = "gc_world\<lparr>k8s_reply := (\<lambda>n. if n = 1 then FailedPods [(''hermes-ws-1'', ''web''), (''default'', ''x'')] else Accepted)\<rparr>"
  have "k8s_calls (snd (reap_failed_pods ?w)) = [GetClient, ListFailedPods, DeletePod ''hermes-ws-1'' ''web'']"
    by (simp add: reap_failed_pods_def step_simps andThen_assoc reap_pod_def gc_world_def base_world_def starts_with_def)
  moreover have "k8s_calls ?w = []" by (simp add: gc_world_def base_world_def)
  ultimately show ?thesis using only_failed_workspace_pods_are_reaped [of "''hermes-ws-1''" "''web''" ?w] by (simp add: Let_def)
qed

end
