(* ===== verification/Spec2Isabelle.thy ===== *)
theory Spec2Isabelle
  imports Paging Job_Queue Env_Laws Cron_Laws Databases_Laws Workspaces_Laws Incidents_Laws Builds_Laws Apps_Laws Domains_Laws End_Users_Laws Volumes_Laws Garbage_Laws
begin

text \<open>
  Hermes is a platform that builds, deploys and operates applications on a Kubernetes cluster. This library models its
  control plane, the Rust program under \<open>src/backend/src\<close>: the handlers of the HTTP interface, the worker that takes
  jobs from a queue in Postgres, and the loops a replica runs beside them (scheduler, health probes, reconcilers).

  \<^bold>\<open>How the code is represented.\<close> A handler \<open>async fn h(state, payload) -> Result<T, AppError>\<close> is a HOL function into
  \<open>'a handler\<close>, a state transformer on the record \<open>world\<close> that returns \<open>Inl e\<close> for the errors of
  \<open>utils/error.rs\<close> and \<open>Inr x\<close> for a value. The field \<open>db\<close> holds the tables as lists of records, one per model
  of \<open>models/\<close>, with the columns the modelled statements use; a statement is a function on them that fails when the next
  entry of \<open>faults\<close> says so, or when a constraint of the migrations refuses it. A transaction restores the tables
  unless it reaches its commit. The calls to the cluster, to the host and the events sent to the web sockets are logged in their order; the
  answers of the cluster, the clock, the random identifiers and the environment of the process are fields of the world, so they are arbitrary
  in every theorem. What is not in the repository is a field of \<open>externals\<close> (AES-GCM, Argon2, SHA-256, the signature of
  tokens, the parser of cron expressions) or an argument (GitHub, HTTP probes, the webhook's MAC, the turns of a loop that
  polls a pod); theorems name what they rely on of it.

  \<^bold>\<open>Theories.\<close>
  \<^item> \<open>Hermes_Prelude\<close>: actions, errors, tables, and the rules for invariants (\<open>keeps\<close>), for totality
    (\<open>achieves\<close>) and for partial correctness (\<open>yields\<close>) of actions. \<open>Rust_Text\<close>: the string functions of Rust's
    library. \<open>App_Error\<close>, \<open>Paging\<close>: \<open>utils/error.rs\<close>, \<open>utils/pagination.rs\<close>. \<open>Hermes_World\<close>: rows,
    database, cluster, events, statements, and the rules that run them.
  \<^item> \<open>Coordination\<close>: \<open>utils/locks.rs\<close>, \<open>utils/leader.rs\<close>, \<open>utils/rate_limit.rs\<close>. The locale
    \<open>exclusive_lock\<close> states what a lock promises; it is interpreted on the advisory locks of Postgres. One leader at a
    time, a cap on builds that run together.
  \<^item> \<open>Job_Queue\<close>: \<open>utils/job_queue.rs\<close> as a state machine; the invariant of the queue gives each job one worker.
  \<^item> \<open>Quota\<close>: \<open>utils/limits.rs\<close> with the sums of SQL and the wrapping addition of Rust. The locale
    \<open>quota_guard\<close> extends \<open>exclusive_lock\<close> by a store with a limit and proves once that sessions which lock,
    check and write never exceed it; \<open>Databases_Laws\<close> interprets it on the creation of databases, which refines the protocol.
  \<^item> \<open>Env_Pool\<close>, \<open>Env_Laws\<close>: \<open>utils/app_env.rs\<close>, \<open>project_env_controller.rs\<close>,
    \<open>env_variable_controller.rs\<close>: the variables of a project and of an instance, their resolution, the handlers and the constraints they keep.
  \<^item> \<open>Cron\<close>, \<open>Cron_Laws\<close>: \<open>cron_controller.rs\<close>, \<open>utils/cron.rs\<close>: jobs, the scheduler's tick, the backup
    jobs of the databases, the auto-sleep worker.
  \<^item> \<open>Databases\<close>, \<open>Databases_Laws\<close>: \<open>database_controller.rs\<close>.
  \<^item> \<open>Auth\<close>, \<open>Auth_Laws\<close>, \<open>Workspaces\<close>, \<open>Workspaces_Laws\<close>: sessions, accounts, the guards of
    the routes (\<open>middlewares/\<close>), workspaces and their members, the cascades of the schema.
  \<^item> \<open>Incidents\<close>, \<open>Incidents_Laws\<close>: \<open>utils/health.rs\<close>, \<open>utils/chaos.rs\<close> and their controllers.
  \<^item> \<open>Build_Failures\<close>, \<open>Builds\<close>, \<open>Deploys\<close> and their laws: \<open>utils/builder.rs\<close>: a build from the queue
    to the record of its end, the classification of its failure, the deployment and its watch, the reconcilers. The locale
    \<open>plain_calls\<close> carries the proofs about the log of calls; it is interpreted on the secrets of a build and on a call that was made.
  \<^item> \<open>Apps\<close>, \<open>Apps_Laws\<close>: \<open>app_controller.rs\<close>: applications, instances, settings, the webhook of GitHub.
  \<^item> \<open>Domains\<close>, \<open>Domains_Laws\<close>: \<open>domain_controller.rs\<close>, \<open>utils/cloudflare.rs\<close>: domains, their
    records in the DNS and their routes, what the deletion of a target takes with it.
  \<^item> \<open>End_Users\<close>, \<open>End_Users_Laws\<close>: \<open>app_user_controller.rs\<close>, \<open>utils/app_auth.rs\<close>: the users of the
    deployed applications, their services, keys, sessions and roles.
  \<^item> \<open>Rust_Path\<close>: the paths of \<open>std::path\<close> as their components; where a path leads, symbolic links apart.
  \<^item> \<open>Volumes\<close>, \<open>Volumes_Laws\<close>: \<open>volume_controller.rs\<close>: the files of the persistent volumes; every request
    stays below the directory of its volume, which nothing keeps from being deleted whole.
  \<^item> \<open>Garbage\<close>, \<open>Garbage_Laws\<close>: \<open>utils/gc.rs\<close>: the pass that prunes builds, images, jobs and pods. A
    leftover job is waited for in 20 turns and the new one in 600, the bounds of the code, and 1000 tags of the cache are looked
    at in a pass.

  \<^bold>\<open>How the parts meet.\<close> The handlers of applications write rows and enqueue jobs; a worker's turn (\<open>worker_turn\<close>)
  claims a job and runs a build, which ends by deploying; a deployment reads the variables of \<open>Env_Pool\<close> and the limits
  of the workspace. Deleting a database, an application or a workspace goes through the pool, the jobs and the cascades of all the others.
  The loops of one replica are turns over the same world as the handlers, and what the others do meanwhile is a step given as an argument.

  \<^bold>\<open>Bounds.\<close> Loops that count are given their own number of turns: 100 draws of a port, 30 and 150 polls for a pod.
  Loops that wait for an event get the list of what they read in each turn. The wait for a builder pod sleeps two seconds and gives up after 15
  minutes, so 451 turns are enough (\<open>build_wait_terminates\<close>); the watch over a deployment sleeps three seconds and gives
  up after two minutes, so 40 are (\<open>deploy_watch_terminates\<close>). The wait for a build slot may not end; its turns are an argument.

  \<^bold>\<open>Not modelled.\<close> The lengths of \<open>VARCHAR\<close> columns; the text of manifests, Dockerfiles and build logs;
  metrics, screenshots and streams; the overflow of the expiry of a token; Unicode case mapping beyond ASCII. Spawned tasks run where they are
  spawned. The memory ratio of the health worker is exact instead of \<open>f64\<close>.
  Of the components, \<open>utils/k8s.rs\<close> is a client whose calls are logged; the buckets, the serverless functions, the
  import of compose files, the git providers and the monitoring are left out.
\<close>

end
